(* ===== verification/Prelude.thy ===== *)
theory Prelude
  imports Complex_Main "HOL-Library.Char_ord" "HOL-Library.List_Lexorder"
    "HOL-Library.Product_Lexorder" "HOL-Library.Multiset" "HOL-Library.Sublist"
begin

text \<open>
  Shared vocabulary of the development: fallible computations as sums, JavaScript's insertion-ordered
  \<open>Set\<close>, text as code points, the two string orders the code uses (\<open>Array.prototype.sort\<close> on UTF-16
  code units and \<open>localeCompare\<close>), and generic facts about lists, filters and stable sorting.

  Comparator chains of the source, \<open>a.x - b.x || b.y - a.y || a.id.localeCompare(b.id)\<close>, are
  written as \<^const>\<open>sort_key\<close> with a tuple as key: \<^const>\<open>sort_key\<close> is stable, as
  \<open>Array.prototype.sort\<close> is, and the tuple's lexicographic order is the chain.
\<close>

named_theorems run_simps \<open>unfolding a fallible computation\<close>

subsection \<open>Fallible computations\<close>

definition bindE :: "'e + 'a \<Rightarrow> ('a \<Rightarrow> 'e + 'b) \<Rightarrow> 'e + 'b" where
  "bindE m f = (case m of Inl e \<Rightarrow> Inl e | Inr x \<Rightarrow> f x)"

definition guardE :: "bool \<Rightarrow> 'e \<Rightarrow> 'e + unit" where
  "guardE ok e = (if ok then Inr () else Inl e)"

lemma bindE_simps [simp, run_simps]: "bindE (Inl e) f = Inl e" "bindE (Inr x) f = f x"
  by (simp_all add: bindE_def)

lemma bindE_Inr_iff: "bindE m f = Inr y \<longleftrightarrow> (\<exists>x. m = Inr x \<and> f x = Inr y)"
  by (cases m) auto

lemma bindE_Inl_iff: "bindE m f = Inl e \<longleftrightarrow> m = Inl e \<or> (\<exists>x. m = Inr x \<and> f x = Inl e)"
  by (cases m) auto

lemma guardE_simps [simp, run_simps]: "guardE True e = Inr ()" "guardE False e = Inl e"
  by (simp_all add: guardE_def)

lemma guardE_iff [simp]:
  "guardE b e = Inr u \<longleftrightarrow> b" "guardE b e = Inl e' \<longleftrightarrow> \<not> b \<and> e = e'"
  by (auto simp: guardE_def)

text \<open>Computations that thread a state and may fail; the state reached at the failure is kept.\<close>

type_synonym ('s, 'e, 'a) run = "'s \<Rightarrow> ('e + 'a) \<times> 's"

definition bindR :: "('s, 'e, 'a) run \<Rightarrow> ('a \<Rightarrow> ('s, 'e, 'b) run) \<Rightarrow> ('s, 'e, 'b) run" where
  "bindR m f = (\<lambda>s. case m s of (Inl e, s') \<Rightarrow> (Inl e, s') | (Inr x, s') \<Rightarrow> f x s')"

definition returnR :: "'a \<Rightarrow> ('s, 'e, 'a) run" where
  "returnR x = (\<lambda>s. (Inr x, s))"

definition liftR :: "'e + 'a \<Rightarrow> ('s, 'e, 'a) run" where
  "liftR m = (\<lambda>s. (m, s))"

lemma bindR_Inr_iff:
  "bindR m f s = (Inr y, s'') \<longleftrightarrow> (\<exists>x s'. m s = (Inr x, s') \<and> f x s' = (Inr y, s''))"
  by (auto simp: bindR_def split: prod.splits sum.splits)

lemma bindR_snd:
  "snd (bindR m f s) = (case m s of (Inl e, s') \<Rightarrow> s' | (Inr x, s') \<Rightarrow> snd (f x s'))"
  by (auto simp: bindR_def split: prod.splits sum.splits)

lemma returnR_simp [simp]: "returnR x s = (Inr x, s)"
  by (simp add: returnR_def)

lemma liftR_simp [simp]: "liftR m s = (m, s)"
  by (simp add: liftR_def)

text \<open>A computation all of whose steps keep an observation of the state keeps it.\<close>

definition keepsR :: "('s \<Rightarrow> 'o) \<Rightarrow> ('s, 'e, 'a) run \<Rightarrow> bool" where
  "keepsR obs m \<longleftrightarrow> (\<forall>s. obs (snd (m s)) = obs s)"

lemma keepsR_return [intro]: "keepsR obs (returnR x)"
  by (simp add: keepsR_def)

lemma keepsR_lift [intro]: "keepsR obs (liftR x)"
  by (simp add: keepsR_def)

lemma keepsR_bind [intro]:
  assumes "keepsR obs m" and "\<And>x. keepsR obs (f x)"
  shows "keepsR obs (bindR m f)"
  unfolding keepsR_def
proof
  fix s
  obtain r s' where m: "m s = (r, s')" by fastforce
  then have "obs s' = obs s" using assms(1) by (metis keepsR_def snd_conv)
  then show "obs (snd (bindR m f s)) = obs s"
    using assms(2) m by (cases r) (auto simp: bindR_def keepsR_def)
qed

text \<open>A list of fallible results, stopping at the first error (a loop whose body may throw).\<close>

fun mapE :: "('a \<Rightarrow> 'e + 'b) \<Rightarrow> 'a list \<Rightarrow> 'e + 'b list" where
  "mapE f [] = Inr []"
| "mapE f (x # xs) = bindE (f x) (\<lambda>y. bindE (mapE f xs) (\<lambda>ys. Inr (y # ys)))"

lemma mapE_Inr_iff:
  "mapE f xs = Inr ys \<longleftrightarrow> list_all2 (\<lambda>x y. f x = Inr y) xs ys"
proof (induction xs arbitrary: ys)
  case Nil
  then show ?case by auto
next
  case (Cons x xs)
  then show ?case by (cases ys) (auto simp: bindE_Inr_iff)
qed

lemma mapE_length: "mapE f xs = Inr ys \<Longrightarrow> length ys = length xs"
  by (auto simp: mapE_Inr_iff list_all2_lengthD)

lemma mapE_total: "(\<And>x. x \<in> set xs \<Longrightarrow> f x = Inr (g x)) \<Longrightarrow> mapE f xs = Inr (map g xs)"
  by (induction xs) auto

subsection \<open>Insertion-ordered sets\<close>

text \<open>\<open>[...new Set(xs)]\<close>: each element once, in the order of its first occurrence.\<close>

fun js_set :: "'a list \<Rightarrow> 'a list" where
  "js_set [] = []"
| "js_set (x # xs) = x # filter (\<lambda>y. y \<noteq> x) (js_set xs)"

lemma set_js_set [simp]: "set (js_set xs) = set xs"
  by (induction xs) auto

lemma distinct_js_set [simp]: "distinct (js_set xs)"
  by (induction xs) auto

lemma js_set_distinct: "distinct xs \<Longrightarrow> js_set xs = xs"
  by (induction xs) (auto simp: filter_id_conv)

lemma length_js_set_le: "length (js_set xs) \<le> length xs"
proof (induction xs)
  case (Cons x xs)
  have "length (filter (\<lambda>y. y \<noteq> x) (js_set xs)) \<le> length (js_set xs)"
    by (rule length_filter_le)
  also have "\<dots> \<le> length xs" by (rule Cons.IH)
  finally show ?case by simp
qed simp

lemma length_js_set_iff: "length (js_set xs) = length xs \<longleftrightarrow> distinct xs"
proof
  assume "length (js_set xs) = length xs"
  then have "card (set xs) = length xs"
    using distinct_card [OF distinct_js_set [of xs]] by simp
  then show "distinct xs" by (rule card_distinct)
qed (simp add: js_set_distinct)

subsection \<open>Filtering out repeated keys\<close>

text \<open>The loops of the code that keep the first element of every key (\<open>seen.has(key)\<close>).\<close>

fun keep_first :: "('a \<Rightarrow> 'k) \<Rightarrow> 'k list \<Rightarrow> 'a list \<Rightarrow> 'a list" where
  "keep_first key seen [] = []"
| "keep_first key seen (x # xs) =
     (if key x \<in> set seen then keep_first key seen xs
      else x # keep_first key (key x # seen) xs)"

fun drop_first :: "('a \<Rightarrow> 'k) \<Rightarrow> 'k list \<Rightarrow> 'a list \<Rightarrow> 'a list" where
  "drop_first key seen [] = []"
| "drop_first key seen (x # xs) =
     (if key x \<in> set seen then x # drop_first key seen xs
      else drop_first key (key x # seen) xs)"

lemma keep_first_subset: "set (keep_first key seen xs) \<subseteq> set xs"
  by (induction xs arbitrary: seen) auto

lemma keep_first_seen: "x \<in> set (keep_first key seen xs) \<Longrightarrow> key x \<notin> set seen"
  by (induction xs arbitrary: seen) (fastforce split: if_splits)+

lemma keep_first_distinct: "distinct (map key (keep_first key seen xs))"
  by (induction xs arbitrary: seen) (auto dest: keep_first_seen)

lemma keep_first_keys: "key ` set (keep_first key seen xs) = key ` set xs - set seen"
proof (induction xs arbitrary: seen)
  case (Cons x xs)
  show ?case
  proof (cases "key x \<in> set seen")
    case True
    with Cons show ?thesis by auto
  next
    case False
    have "key ` set (keep_first key (key x # seen) xs) = key ` set xs - insert (key x) (set seen)"
      using Cons by simp
    with False show ?thesis by auto
  qed
qed simp

lemma keep_drop_mset: "mset (keep_first key seen xs) + mset (drop_first key seen xs) = mset xs"
  by (induction xs arbitrary: seen) (auto simp: ac_simps)

subsection \<open>Text, and the two string orders\<close>

text \<open>
  Identifiers, enumerations, hashes and reason codes are ASCII (\<open>IdentifierSchema\<close> and the enums
  demand it) and are of type \<^typ>\<open>string\<close>. Free text (contents, summaries) is a list of
  Unicode code points, the unit JavaScript's string iterator yields.
\<close>

type_synonym ustring = "nat list"

definition code_points :: "string \<Rightarrow> ustring" where
  "code_points s = map of_char s"

lemma code_points_inj: "code_points s = code_points t \<longleftrightarrow> s = t"
  unfolding code_points_def by (simp add: inj_map_eq_map inj_def)

text \<open>White space as \<open>String.prototype.trim\<close> and \<open>\s\<close> know it.\<close>

definition js_space :: "nat \<Rightarrow> bool" where
  "js_space c \<longleftrightarrow> 9 \<le> c \<and> c \<le> 13 \<or> 8192 \<le> c \<and> c \<le> 8202
     \<or> c \<in> {32, 160, 5760, 8232, 8233, 8239, 8287, 12288, 65279}"

definition js_trim :: "ustring \<Rightarrow> ustring" where
  "js_trim t = rev (dropWhile js_space (rev (dropWhile js_space t)))"

text \<open>UTF-16 code units, the alphabet \<open>Array.prototype.sort\<close> compares strings over.\<close>

definition utf16 :: "ustring \<Rightarrow> nat list" where
  "utf16 t = concat (map (\<lambda>c. if c < 65536 then [c]
     else [55296 + (c - 65536) div 1024, 56320 + (c - 65536) mod 1024]) t)"

text \<open>
  \<open>localeCompare\<close> on the printable ASCII characters (the root collation of CLDR, which is what
  ICU's default locales use on this alphabet): primary weights in the order of \<open>collation_order\<close>
  with the letters' case ignored, and ties broken at the first difference of case, lower before
  upper. Both levels together are a key whose order is the comparison.
\<close>

definition collation_order :: string where
  "collation_order =
     '' _-,;:!?.'' @ [CHR 0x27, CHR 0x22] @ ''()[]{}@*/'' @ [CHR 0x5C] @ ''&#%'' @ [CHR 0x60]
       @ ''^+<=>|~$0123456789abcdefghijklmnopqrstuvwxyz''"

fun index_of :: "'a \<Rightarrow> 'a list \<Rightarrow> nat" where
  "index_of x [] = 0"
| "index_of x (y # ys) = (if x = y then 0 else Suc (index_of x ys))"

definition is_upper :: "char \<Rightarrow> bool" where
  "is_upper c \<longleftrightarrow> 65 \<le> (of_char c :: nat) \<and> (of_char c :: nat) \<le> 90"

definition to_lower_ascii :: "char \<Rightarrow> char" where
  "to_lower_ascii c = (if is_upper c then char_of ((of_char c :: nat) + 32) else c)"

definition locale_key :: "string \<Rightarrow> nat list \<times> nat list" where
  "locale_key s = (map (\<lambda>c. index_of (to_lower_ascii c) collation_order) s,
                   map (\<lambda>c. if is_upper c then 1 else 0) s)"

subsection \<open>Lists\<close>

lemma set_filter_union: "set (filter P xs) \<union> set (filter (\<lambda>x. \<not> P x) xs) = set xs"
  by auto

lemma mset_partition: "mset (filter P xs) + mset (filter (\<lambda>x. \<not> P x) xs) = mset xs"
  by simp

lemma sort_key_set [simp]: "set (sort_key f xs) = set xs"
  by simp

lemma list_all2_setD1: "list_all2 P xs ys \<Longrightarrow> x \<in> set xs \<Longrightarrow> \<exists>y \<in> set ys. P x y"
  by (induction rule: list_all2_induct) auto

lemma list_all2_setD2: "list_all2 P xs ys \<Longrightarrow> y \<in> set ys \<Longrightarrow> \<exists>x \<in> set xs. P x y"
  by (induction rule: list_all2_induct) auto

lemma find_Some_mem: "List.find P xs = Some x \<Longrightarrow> x \<in> set xs \<and> P x"
  by (induction xs) (auto split: if_splits)

lemma find_None_iff_all: "List.find P xs = None \<longleftrightarrow> (\<forall>x \<in> set xs. \<not> P x)"
  by (induction xs) auto

end
