(* ===== verification/Contracts.thy ===== *)
theory Contracts
  imports Prelude
begin

text \<open>
  The shared contract vocabulary of \<open>packages/contracts/src/common.ts\<close>: the enumerations of the
  memory model, scopes and their keys, actor claims, validity windows and content references.
  A zod \<open>enum\<close> is a datatype, a strict \<open>object\<close> a record, and a \<open>superRefine\<close> a predicate.
\<close>

subsection \<open>Enumerations\<close>

datatype evidence_source =
  Src_conversation_turn | Src_tool_result | Src_artifact | Src_user_feedback | Src_evaluation
| Src_import

datatype abstraction_level =
  L0_evidence | L1_memory | L2_topic | L2_scenario | L2_relation | L3_core

datatype lifecycle =
  Working | Candidate | Active | Superseded | Revoked | Quarantined | Purged

datatype memory_kind = Episodic | Semantic | Procedural

datatype scope_kind = Sk_thread | Sk_topic | Sk_scenario | Sk_user | Sk_workspace | Sk_agent

datatype authority = User_stated | Observed | Tool_result | Inferred | Derived | Imported

datatype sensitivity = Public | Internal | Personal | Sensitive | Secret

datatype injection_risk = Risk_none | Risk_suspected | Risk_confirmed

text \<open>The enumerations as the strings they are on the wire.\<close>

fun scope_kind_string :: "scope_kind \<Rightarrow> string" where
  "scope_kind_string Sk_thread = ''thread''"
| "scope_kind_string Sk_topic = ''topic''"
| "scope_kind_string Sk_scenario = ''scenario''"
| "scope_kind_string Sk_user = ''user''"
| "scope_kind_string Sk_workspace = ''workspace''"
| "scope_kind_string Sk_agent = ''agent''"

fun authority_string :: "authority \<Rightarrow> string" where
  "authority_string User_stated = ''user_stated''"
| "authority_string Observed = ''observed''"
| "authority_string Tool_result = ''tool_result''"
| "authority_string Inferred = ''inferred''"
| "authority_string Derived = ''derived''"
| "authority_string Imported = ''imported''"

fun sensitivity_string :: "sensitivity \<Rightarrow> string" where
  "sensitivity_string Public = ''public''"
| "sensitivity_string Internal = ''internal''"
| "sensitivity_string Personal = ''personal''"
| "sensitivity_string Sensitive = ''sensitive''"
| "sensitivity_string Secret = ''secret''"

fun memory_kind_string :: "memory_kind \<Rightarrow> string" where
  "memory_kind_string Episodic = ''episodic''"
| "memory_kind_string Semantic = ''semantic''"
| "memory_kind_string Procedural = ''procedural''"

text \<open>\<open>SENSITIVITY_RANK\<close>: the sensitivities form a chain, so they are a linear order.\<close>

fun sensitivity_rank :: "sensitivity \<Rightarrow> nat" where
  "sensitivity_rank Public = 0"
| "sensitivity_rank Internal = 1"
| "sensitivity_rank Personal = 2"
| "sensitivity_rank Sensitive = 3"
| "sensitivity_rank Secret = 4"

lemma sensitivity_rank_inj: "sensitivity_rank s = sensitivity_rank t \<longleftrightarrow> s = t"
  by (cases s; cases t) simp_all

instantiation sensitivity :: linorder
begin

definition less_eq_sensitivity :: "sensitivity \<Rightarrow> sensitivity \<Rightarrow> bool" where
  "less_eq_sensitivity s t \<longleftrightarrow> sensitivity_rank s \<le> sensitivity_rank t"

definition less_sensitivity :: "sensitivity \<Rightarrow> sensitivity \<Rightarrow> bool" where
  "less_sensitivity s t \<longleftrightarrow> sensitivity_rank s < sensitivity_rank t"

instance
  by standard (auto simp: less_eq_sensitivity_def less_sensitivity_def sensitivity_rank_inj)

end

subsection \<open>Identifiers, timestamps\<close>

definition ascii_alnum :: "char \<Rightarrow> bool" where
  "ascii_alnum c \<longleftrightarrow> (let n = (of_char c :: nat) in
     48 \<le> n \<and> n \<le> 57 \<or> 65 \<le> n \<and> n \<le> 90 \<or> 97 \<le> n \<and> n \<le> 122)"

definition identifier_ok :: "string \<Rightarrow> bool" where
  "identifier_ok s \<longleftrightarrow> 1 \<le> length s \<and> length s \<le> 160 \<and>
     (case s of [] \<Rightarrow> False
      | c # cs \<Rightarrow> ascii_alnum c \<and> list_all (\<lambda>x. ascii_alnum x \<or> x \<in> set ''._:-'') cs)"

text \<open>
  A timestamp is its ISO text (which the code sorts and stores) with the epoch milliseconds that
  \<open>Date.parse\<close> reads from it (which the code compares).
\<close>

datatype timestamp = Timestamp (iso: string) (epoch_ms: int)

subsection \<open>Scopes and actors\<close>

record scope =
  scope_kind_of :: scope_kind
  scope_id :: string

definition scope_key :: "scope \<Rightarrow> string" where
  "scope_key s = scope_kind_string (scope_kind_of s) @ '':'' @ scope_id s"

record actor_claim =
  claim_principal_id :: string
  claim_authority :: authority

lemma scope_kind_string_no_colon: "CHR '':'' \<notin> set (scope_kind_string k)"
  by (cases k) auto

lemma scope_kind_string_inj: "scope_kind_string k = scope_kind_string l \<longleftrightarrow> k = l"
  by (cases k; cases l) simp_all

lemma append_colon_inj:
  assumes "CHR '':'' \<notin> set a" and "CHR '':'' \<notin> set b"
  shows "a @ '':'' @ c = b @ '':'' @ d \<longleftrightarrow> a = b \<and> c = d"
proof
  assume eq: "a @ '':'' @ c = b @ '':'' @ d"
  have tw: "takeWhile (\<lambda>x. x \<noteq> CHR '':'') (p @ '':'' @ q) = p" if "CHR '':'' \<notin> set p" for p q
    using that by (induction p) auto
  from eq have "takeWhile (\<lambda>x. x \<noteq> CHR '':'') (a @ '':'' @ c)
      = takeWhile (\<lambda>x. x \<noteq> CHR '':'') (b @ '':'' @ d)" by simp
  with tw assms have "a = b" by metis
  with eq show "a = b \<and> c = d" by simp
qed simp

text \<open>A scope key names its scope: the code's string comparisons decide scope equality.\<close>

lemma scope_key_inj [simp]: "scope_key s = scope_key t \<longleftrightarrow> s = t"
  using append_colon_inj [of "scope_kind_string (scope_kind_of s)"
      "scope_kind_string (scope_kind_of t)" "scope_id s" "scope_id t"]
  by (auto simp: scope_key_def scope_kind_string_no_colon scope_kind_string_inj scope.equality)

lemma scope_key_mem_iff [simp]: "scope_key s \<in> set (map scope_key ss) \<longleftrightarrow> s \<in> set ss"
  by auto

lemma inj_scope_key: "inj scope_key"
  by (rule injI) simp

subsection \<open>Validity windows, transforms, content\<close>

record validity_window =
  valid_from :: timestamp
  valid_to :: "timestamp option"
  recorded_at :: timestamp

definition validity_window_ok :: "validity_window \<Rightarrow> bool" where
  "validity_window_ok v \<longleftrightarrow>
     (case valid_to v of None \<Rightarrow> True | Some t \<Rightarrow> epoch_ms (valid_from v) \<le> epoch_ms t)"

record transform_ref =
  transform_name :: string
  transform_version :: string

datatype content_ref =
  Inline (inline_text: ustring) (inline_media_type: string)
| Blob (blob_hash: string) (blob_size_bytes: nat) (blob_media_type: string)

fun is_inline :: "content_ref \<Rightarrow> bool" where
  "is_inline (Inline t m) = True"
| "is_inline (Blob h n m) = False"

fun media_type :: "content_ref \<Rightarrow> string" where
  "media_type (Inline t m) = m"
| "media_type (Blob h n m) = m"

subsection \<open>Receipt states\<close>

datatype receipt_state =
  Rs_durable | Rs_projection_pending | Rs_projected | Rs_partial | Rs_failed | Rs_rolled_back
| Rs_purged

end
