(* ===== verification/CanonicalJson.thy ===== *)
theory CanonicalJson
  imports Contracts
begin

text \<open>
  Canonical JSON (\<open>packages/contracts/src/canonical-json.ts\<close>) and the receipt seal built on it
  (\<open>sealReceipt\<close>, \<open>receiptHashIsValid\<close> of \<open>receipts.ts\<close>).

  A JavaScript value is a \<open>js\<close>: numbers keep the cases the code tells apart (\<open>NaN\<close>, the
  infinities, \<open>-0\<close>, finite values as the rational the double denotes), arrays may have holes,
  objects carry their own properties in order, whether their prototype is plain, and for each
  property whether it is an enumerable data property.
  A normalised value is a \<open>jval\<close>. Assigning \<open>normalized[key]\<close> follows JavaScript: integer
  keys enumerate first and in numeric order, and the key \<open>__proto__\<close> sets the prototype instead
  of creating a property.
  SHA-256 and the decimal rendering of a non-integer double are parameters.
\<close>

subsection \<open>Values\<close>

datatype js_num = NaN | Pos_inf | Neg_inf | Neg_zero | Fin rat

datatype js_key = Str_key ustring | Sym_key

datatype js =
  Js_null
| Js_bool bool
| Js_str ustring
| Js_num js_num
| Js_arr "js option list"
| Js_obj bool "(js_key \<times> js_prop) list"
| Js_other string
and js_prop = Data bool js | Accessor bool

datatype jval =
  J_null
| J_bool bool
| J_num rat
| J_str ustring
| J_arr "jval list"
| J_obj "(ustring \<times> jval) list"

datatype canonical_json_error =
  Not_finite | Unsafe_integer | Negative_zero | Sparse_array | Not_plain_object | Symbol_key
| Not_data_property | Unsupported_type | Omission_needs_object

abbreviation jstr :: "string \<Rightarrow> jval" where
  "jstr s \<equiv> J_str (code_points s)"

abbreviation jint :: "int \<Rightarrow> jval" where
  "jint i \<equiv> J_num (of_int i)"

abbreviation jobj :: "(string \<times> jval) list \<Rightarrow> jval" where
  "jobj ps \<equiv> J_obj (map (\<lambda>(k, v). (code_points k, v)) ps)"

subsection \<open>Normalisation\<close>

definition max_safe_integer :: rat where
  "max_safe_integer = 9007199254740991"

definition is_integer :: "rat \<Rightarrow> bool" where
  "is_integer q \<longleftrightarrow> snd (quotient_of q) = 1"

definition is_safe_integer :: "rat \<Rightarrow> bool" where
  "is_safe_integer q \<longleftrightarrow> is_integer q \<and> \<bar>q\<bar> \<le> max_safe_integer"

fun normalize_number :: "js_num \<Rightarrow> canonical_json_error + jval" where
  "normalize_number NaN = Inl Not_finite"
| "normalize_number Pos_inf = Inl Not_finite"
| "normalize_number Neg_inf = Inl Not_finite"
| "normalize_number Neg_zero = Inl Negative_zero"
| "normalize_number (Fin q) =
     (if \<not> is_safe_integer q \<and> is_integer q then Inl Unsafe_integer else Inr (J_num q))"

text \<open>
  Property order of an ordinary object: array indices (canonical decimals below \<open>2^32 - 1\<close>) in
  numeric order, then the other keys in insertion order.
\<close>

fun decimal_value :: "nat \<Rightarrow> ustring \<Rightarrow> nat" where
  "decimal_value acc [] = acc"
| "decimal_value acc (d # ds) = decimal_value (10 * acc + (d - 48)) ds"

definition is_array_index :: "ustring \<Rightarrow> bool" where
  "is_array_index k \<longleftrightarrow> k \<noteq> [] \<and> list_all (\<lambda>c. 48 \<le> c \<and> c \<le> 57) k \<and>
     (hd k \<noteq> 48 \<or> length k = 1) \<and> decimal_value 0 k < 4294967295"

definition proto_key :: ustring where
  "proto_key = code_points ''__proto__''"

definition enumerate_own :: "(ustring \<times> 'a) list \<Rightarrow> (ustring \<times> 'a) list" where
  "enumerate_own ps =
     sort_key (\<lambda>p. decimal_value 0 (fst p)) (filter (\<lambda>p. is_array_index (fst p)) ps)
     @ filter (\<lambda>p. \<not> is_array_index (fst p)) ps"

text \<open>The result of assigning the pairs, in order, to the properties of a fresh plain object.\<close>

definition assign_all :: "(ustring \<times> 'a) list \<Rightarrow> (ustring \<times> 'a) list" where
  "assign_all ps = enumerate_own (filter (\<lambda>p. fst p \<noteq> proto_key) ps)"

fun str_key_of :: "js_key \<Rightarrow> ustring" where
  "str_key_of (Str_key k) = k"
| "str_key_of Sym_key = []"

text \<open>Sorting an object's properties keeps its size, so the recursion ends.\<close>

fun js_size :: "js \<Rightarrow> nat" and js_prop_size :: "js_prop \<Rightarrow> nat" where
  "js_size (Js_arr xs) = Suc (sum_list (map (\<lambda>x. case x of None \<Rightarrow> 1 | Some y \<Rightarrow> Suc (js_size y)) xs))"
| "js_size (Js_obj b ps) = Suc (sum_list (map (\<lambda>p. Suc (js_prop_size (snd p))) ps))"
| "js_size _ = 1"
| "js_prop_size (Data b v) = js_size v"
| "js_prop_size (Accessor b) = 0"

lemma sum_list_map_sort_key: "sum_list (map f (sort_key g xs)) = (sum_list (map f xs) :: nat)"
  by (metis mset_map mset_sort sum_mset_sum_list)

text \<open>
  \<open>normalizeCanonicalValue\<close>, \<open>normalizeArray\<close> and \<open>normalizeObject\<close>. An object's keys are
  visited in \<open>keys.sort()\<close> order; \<open>normalize_props\<close> is the loop over the sorted keys, before the
  results are read back in property order.
\<close>

function (sequential)
  normalize_canonical_value :: "js \<Rightarrow> canonical_json_error + jval"
  and normalize_array :: "js option list \<Rightarrow> canonical_json_error + jval list"
  and normalize_props :: "(js_key \<times> js_prop) list
        \<Rightarrow> canonical_json_error + (ustring \<times> jval) list"
where
  "normalize_canonical_value Js_null = Inr J_null"
| "normalize_canonical_value (Js_bool b) = Inr (J_bool b)"
| "normalize_canonical_value (Js_str s) = Inr (J_str s)"
| "normalize_canonical_value (Js_num n) = normalize_number n"
| "normalize_canonical_value (Js_arr xs) = bindE (normalize_array xs) (\<lambda>ys. Inr (J_arr ys))"
| "normalize_canonical_value (Js_obj plain ps) =
     (if \<not> plain then Inl Not_plain_object
      else if \<exists>p \<in> set ps. fst p = Sym_key then Inl Symbol_key
      else bindE (normalize_props (sort_key (\<lambda>p. utf16 (str_key_of (fst p))) ps))
             (\<lambda>qs. Inr (J_obj (assign_all qs))))"
| "normalize_canonical_value (Js_other t) = Inl Unsupported_type"
| "normalize_array [] = Inr []"
| "normalize_array (None # xs) = Inl Sparse_array"
| "normalize_array (Some x # xs) =
     bindE (normalize_canonical_value x) (\<lambda>y. bindE (normalize_array xs) (\<lambda>ys. Inr (y # ys)))"
| "normalize_props [] = Inr []"
| "normalize_props ((k, Accessor e) # ps) = Inl Not_data_property"
| "normalize_props ((k, Data False v) # ps) = Inl Not_data_property"
| "normalize_props ((k, Data True v) # ps) =
     bindE (normalize_canonical_value v)
       (\<lambda>y. bindE (normalize_props ps) (\<lambda>ys. Inr ((str_key_of k, y) # ys)))"
  by pat_completeness auto

termination
  by (relation "measure (\<lambda>x. case x of
        Inl v \<Rightarrow> 2 * js_size v
      | Inr (Inl xs) \<Rightarrow> 1 + 2 * sum_list (map (\<lambda>x. case x of None \<Rightarrow> 1 | Some y \<Rightarrow> Suc (js_size y)) xs)
      | Inr (Inr ps) \<Rightarrow> 1 + 2 * sum_list (map (\<lambda>p. Suc (js_prop_size (snd p))) ps))")
     (auto simp: sum_list_map_sort_key)

subsection \<open>Rendering and hashing\<close>

definition hex_digit :: "nat \<Rightarrow> nat" where
  "hex_digit d = (if d < 10 then 48 + d else 87 + d)"

definition hex4 :: "nat \<Rightarrow> ustring" where
  "hex4 n = [hex_digit (n div 4096 mod 16), hex_digit (n div 256 mod 16),
             hex_digit (n div 16 mod 16), hex_digit (n mod 16)]"

text \<open>The escapes of \<open>JSON.stringify\<close>; a code point in the surrogate range is a lone surrogate.\<close>

definition escape_char :: "nat \<Rightarrow> ustring" where
  "escape_char c =
     (if c = 8 then [92, 98] else if c = 9 then [92, 116] else if c = 10 then [92, 110]
      else if c = 12 then [92, 102] else if c = 13 then [92, 114]
      else if c = 34 then [92, 34] else if c = 92 then [92, 92]
      else if c < 32 \<or> 55296 \<le> c \<and> c < 57344 then [92, 117] @ hex4 c
      else [c])"

definition quote_json :: "ustring \<Rightarrow> ustring" where
  "quote_json t = [34] @ concat (map escape_char t) @ [34]"

fun nat_digits :: "nat \<Rightarrow> ustring" where
  "nat_digits n = (if n < 10 then [48 + n] else nat_digits (n div 10) @ [48 + n mod 10])"

declare nat_digits.simps [simp del]

definition int_digits :: "int \<Rightarrow> ustring" where
  "int_digits i = (if i < 0 then [45] else []) @ nat_digits (nat \<bar>i\<bar>)"

definition number_text :: "(rat \<Rightarrow> ustring) \<Rightarrow> rat \<Rightarrow> ustring" where
  "number_text fraction_text q = (if is_integer q then int_digits \<lfloor>q\<rfloor> else fraction_text q)"

definition join_texts :: "ustring \<Rightarrow> ustring list \<Rightarrow> ustring" where
  "join_texts sep ts = (case ts of [] \<Rightarrow> [] | t # us \<Rightarrow> t @ concat (map (\<lambda>u. sep @ u) us))"

fun stringify :: "(rat \<Rightarrow> ustring) \<Rightarrow> jval \<Rightarrow> ustring" where
  "stringify ft J_null = code_points ''null''"
| "stringify ft (J_bool b) = code_points (if b then ''true'' else ''false'')"
| "stringify ft (J_num q) = number_text ft q"
| "stringify ft (J_str t) = quote_json t"
| "stringify ft (J_arr xs) = [91] @ join_texts [44] (map (stringify ft) xs) @ [93]"
| "stringify ft (J_obj ps) =
     [123] @ join_texts [44] (map (\<lambda>p. quote_json (fst p) @ [58] @ stringify ft (snd p)) ps)
     @ [125]"

definition canonical_json :: "(rat \<Rightarrow> ustring) \<Rightarrow> js \<Rightarrow> canonical_json_error + ustring" where
  "canonical_json ft v = bindE (normalize_canonical_value v) (\<lambda>w. Inr (stringify ft w))"

definition canonical_sha256 ::
  "(rat \<Rightarrow> ustring) \<Rightarrow> (ustring \<Rightarrow> string) \<Rightarrow> js \<Rightarrow> canonical_json_error + string" where
  "canonical_sha256 ft sha256 v =
     bindE (canonical_json ft v) (\<lambda>t. Inr (''sha256:'' @ sha256 t))"

text \<open>A normalised value is again a JavaScript value: plain objects of enumerable data properties.\<close>

fun of_jval :: "jval \<Rightarrow> js" where
  "of_jval J_null = Js_null"
| "of_jval (J_bool b) = Js_bool b"
| "of_jval (J_num q) = Js_num (Fin q)"
| "of_jval (J_str t) = Js_str t"
| "of_jval (J_arr xs) = Js_arr (map (\<lambda>x. Some (of_jval x)) xs)"
| "of_jval (J_obj ps) = Js_obj True (map (\<lambda>p. (Str_key (fst p), Data True (of_jval (snd p)))) ps)"

definition canonical_sha256_omitting ::
  "(rat \<Rightarrow> ustring) \<Rightarrow> (ustring \<Rightarrow> string) \<Rightarrow> js \<Rightarrow> ustring list
     \<Rightarrow> canonical_json_error + string" where
  "canonical_sha256_omitting ft sha256 v top_level_keys =
     bindE (normalize_canonical_value v) (\<lambda>w.
       case w of
         J_obj ps \<Rightarrow> canonical_sha256 ft sha256
           (of_jval (J_obj (filter (\<lambda>p. fst p \<notin> set top_level_keys) ps)))
       | _ \<Rightarrow> Inl Omission_needs_object)"

text \<open>\<open>{ ...object, [key]: value }\<close>: the key keeps its place when it is there already.\<close>

fun spread_put :: "(js_key \<times> js_prop) list \<Rightarrow> ustring \<Rightarrow> js \<Rightarrow> (js_key \<times> js_prop) list" where
  "spread_put [] k v = [(Str_key k, Data True v)]"
| "spread_put ((k', p) # ps) k v =
     (if k' = Str_key k then (k', Data True v) # ps else (k', p) # spread_put ps k v)"

definition receipt_hash_key :: ustring where
  "receipt_hash_key = code_points ''receipt_hash''"

definition seal_receipt ::
  "(rat \<Rightarrow> ustring) \<Rightarrow> (ustring \<Rightarrow> string) \<Rightarrow> (js_key \<times> js_prop) list
     \<Rightarrow> canonical_json_error + (js_key \<times> js_prop) list" where
  "seal_receipt ft sha256 receipt =
     bindE (canonical_sha256_omitting ft sha256 (Js_obj True receipt) [receipt_hash_key])
       (\<lambda>h. Inr (spread_put receipt receipt_hash_key (Js_str (code_points h))))"

definition receipt_hash_is_valid ::
  "(rat \<Rightarrow> ustring) \<Rightarrow> (ustring \<Rightarrow> string) \<Rightarrow> (js_key \<times> js_prop) list
     \<Rightarrow> canonical_json_error + bool" where
  "receipt_hash_is_valid ft sha256 receipt =
     bindE (canonical_sha256_omitting ft sha256 (Js_obj True receipt) [receipt_hash_key])
       (\<lambda>h. Inr (map_of receipt (Str_key receipt_hash_key)
                   = Some (Data True (Js_str (code_points h)))))"

subsection \<open>Sorting by an injective key forgets the order of the input\<close>

lemma sort_key_permute:
  assumes "mset xs = mset ys" and "distinct (map f xs)"
  shows "sort_key f xs = sort_key f ys"
proof (rule properties_for_sort_key)
  show "mset (sort_key f ys) = mset xs" using assms(1) by simp
  fix k assume "k \<in> set (sort_key f ys)"
  then have k: "k \<in> set xs" using assms(1) by (metis set_sort mset_eq_setD)
  have inj: "inj_on f (set xs)" and dx: "distinct xs"
    using assms(2) by (simp_all add: distinct_map)
  have ds: "distinct (sort_key f ys)"
    using dx assms(1) by (metis distinct_sort mset_eq_imp_distinct_iff)
  have eqP: "filter (\<lambda>x. f k = f x) zs = filter (\<lambda>x. x = k) zs" if "set zs = set xs" for zs
    using that inj k by (intro filter_cong) (auto dest: inj_onD)
  have one: "filter (\<lambda>x. x = k) zs = [k]" if "distinct zs" "k \<in> set zs" for zs
    using that by (induction zs) (auto simp: filter_empty_conv)
  have "set (sort_key f ys) = set xs" using assms(1) by (metis set_sort mset_eq_setD)
  then show "filter (\<lambda>x. f k = f x) (sort_key f ys) = filter (\<lambda>x. f k = f x) xs"
    using eqP one ds dx k by simp
next
  show "sorted (map f (sort_key f ys))" by simp
qed

subsection \<open>The loop over the properties of an object\<close>

fun normalize_prop :: "js_key \<times> js_prop \<Rightarrow> canonical_json_error + (ustring \<times> jval)" where
  "normalize_prop (k, Data True v) =
     bindE (normalize_canonical_value v) (\<lambda>y. Inr (str_key_of k, y))"
| "normalize_prop (k, Data False v) = Inl Not_data_property"
| "normalize_prop (k, Accessor e) = Inl Not_data_property"

lemma normalize_props_mapE: "normalize_props ps = mapE normalize_prop ps"
proof (induction ps)
  case (Cons p ps)
  obtain k d where p: "p = (k, d)" by (cases p)
  show ?case
  proof (cases d)
    case (Data b v)
    with Cons p show ?thesis
      by (cases b; cases "normalize_canonical_value v") (auto simp: bindE_def split: sum.splits)
  qed (simp add: p)
qed simp

lemma normalize_prop_key: "normalize_prop p = Inr q \<Longrightarrow> fst q = str_key_of (fst p)"
  by (cases p rule: normalize_prop.cases) (auto simp: bindE_Inr_iff)

lemma mapE_filter:
  assumes "mapE f xs = Inr ys" and "\<And>x y. x \<in> set xs \<Longrightarrow> f x = Inr y \<Longrightarrow> P x \<longleftrightarrow> Q y"
  shows "mapE f (filter P xs) = Inr (filter Q ys)"
  using assms
proof (induction xs arbitrary: ys)
  case (Cons x xs)
  from Cons.prems(1) obtain y zs where "f x = Inr y" "mapE f xs = Inr zs" "ys = y # zs"
    by (auto simp: bindE_Inr_iff)
  with Cons show ?case by auto
qed simp

lemma mapE_succeeds: "(\<forall>x \<in> set xs. \<exists>y. f x = Inr y) \<longleftrightarrow> (\<exists>ys. mapE f xs = Inr ys)"
proof (induction xs)
  case (Cons x xs)
  then show ?case by (auto simp: bindE_Inr_iff)
qed simp

lemma filter_assign_all:
  "filter (\<lambda>p. fst p \<noteq> k) (assign_all qs) = assign_all (filter (\<lambda>p. fst p \<noteq> k) qs)"
  by (simp add: assign_all_def enumerate_own_def filter_sort [symmetric] conj_commute conj_left_commute)

lemma normalize_obj_iff:
  "normalize_canonical_value (Js_obj b ps) = Inr w \<longleftrightarrow>
     b \<and> Sym_key \<notin> fst ` set ps \<and>
     (\<exists>qs. mapE normalize_prop (sort_key (\<lambda>p. utf16 (str_key_of (fst p))) ps) = Inr qs
           \<and> w = J_obj (assign_all qs))"
proof -
  have "(\<exists>p \<in> set ps. fst p = Sym_key) \<longleftrightarrow> Sym_key \<in> fst ` set ps"
    unfolding image_iff by (metis (no_types))
  then show ?thesis by (auto simp: bindE_Inr_iff normalize_props_mapE)
qed

subsection \<open>Sealed receipts verify\<close>

lemma spread_put_filter:
  "filter (\<lambda>p. fst p \<noteq> Str_key k) (spread_put r k v) = filter (\<lambda>p. fst p \<noteq> Str_key k) r"
  by (induction r k v rule: spread_put.induct) auto

lemma spread_put_set: "set (spread_put r k v) \<subseteq> insert (Str_key k, Data True v) (set r)"
  by (induction r k v rule: spread_put.induct) auto

lemma spread_put_lookup: "map_of (spread_put r k v) (Str_key k) = Some (Data True v)"
  by (induction r k v rule: spread_put.induct) auto

lemma normalize_spread_put:
  assumes "normalize_canonical_value (Js_obj True r) = Inr (J_obj ps)"
  shows "\<exists>ps'. normalize_canonical_value (Js_obj True (spread_put r k (Js_str t))) = Inr (J_obj ps')
           \<and> filter (\<lambda>p. fst p \<noteq> k) ps' = filter (\<lambda>p. fst p \<noteq> k) ps"
proof -
  let ?key = "\<lambda>p :: js_key \<times> js_prop. utf16 (str_key_of (fst p))"
  let ?r' = "spread_put r k (Js_str t)"
  let ?P = "\<lambda>p :: js_key \<times> js_prop. fst p \<noteq> Str_key k"
  let ?Q = "\<lambda>q :: ustring \<times> jval. fst q \<noteq> k"
  from assms obtain qs where nosym: "Sym_key \<notin> fst ` set r"
    and qs: "mapE normalize_prop (sort_key ?key r) = Inr qs" and ps: "ps = assign_all qs"
    by (auto simp only: normalize_obj_iff jval.inject)
  have nosym': "Sym_key \<notin> fst ` set ?r'"
    using nosym spread_put_set [of r k "Js_str t"] by force
  have "\<forall>x \<in> set r. \<exists>y. normalize_prop x = Inr y"
    using qs mapE_succeeds [of "sort_key ?key r" normalize_prop] by auto
  then have "\<forall>x \<in> set (sort_key ?key ?r'). \<exists>y. normalize_prop x = Inr y"
    using spread_put_set [of r k "Js_str t"] by auto
  then obtain qs' where qs': "mapE normalize_prop (sort_key ?key ?r') = Inr qs'"
    using mapE_succeeds by blast
  have PQ: "?P x \<longleftrightarrow> ?Q y" if "x \<in> set zs" "normalize_prop x = Inr y" "Sym_key \<notin> fst ` set zs"
    for x y zs
    using that normalize_prop_key [OF that(2)]
    by (cases "fst x") (auto simp: image_iff)
  have f1: "mapE normalize_prop (filter ?P (sort_key ?key r)) = Inr (filter ?Q qs)"
    by (rule mapE_filter [OF qs]) (use PQ nosym in auto)
  have f2: "mapE normalize_prop (filter ?P (sort_key ?key ?r')) = Inr (filter ?Q qs')"
    by (rule mapE_filter [OF qs']) (use PQ nosym' in auto)
  have "filter ?P (sort_key ?key ?r') = filter ?P (sort_key ?key r)"
    by (simp add: filter_sort spread_put_filter)
  with f1 f2 have "filter ?Q qs' = filter ?Q qs" by simp
  moreover have "normalize_canonical_value (Js_obj True ?r') = Inr (J_obj (assign_all qs'))"
    using nosym' qs' by (simp only: normalize_obj_iff) blast
  ultimately show ?thesis by (auto simp: ps filter_assign_all)
qed

text \<open>Sealing then verifying succeeds. Whenever \<open>sealReceipt\<close> returns a sealed receipt, the
  sealed receipt's own hash check \<open>receiptHashIsValid\<close> accepts it, whatever hash field the unsealed
  receipt carried (the code seals over an all-zero placeholder) and whatever the hash function.\<close>

theorem sealed_receipt_is_valid:
  assumes "seal_receipt ft sha256 receipt = Inr sealed"
  shows "receipt_hash_is_valid ft sha256 sealed = Inr True"
proof -
  let ?k = "receipt_hash_key"
  let ?om = "canonical_sha256_omitting ft sha256"
  from assms obtain h where h: "?om (Js_obj True receipt) [?k] = Inr h"
    and sealed: "sealed = spread_put receipt ?k (Js_str (code_points h))"
    by (auto simp: seal_receipt_def bindE_Inr_iff)
  then obtain w where w: "normalize_canonical_value (Js_obj True receipt) = Inr w"
    unfolding canonical_sha256_omitting_def bindE_Inr_iff by blast
  then obtain ps where ps: "normalize_canonical_value (Js_obj True receipt) = Inr (J_obj ps)"
    unfolding normalize_obj_iff by blast
  obtain ps' where ps': "normalize_canonical_value (Js_obj True sealed) = Inr (J_obj ps')"
    and eq: "filter (\<lambda>p. fst p \<noteq> ?k) ps' = filter (\<lambda>p. fst p \<noteq> ?k) ps"
    using normalize_spread_put [OF ps] sealed by blast
  from h have "?om (Js_obj True sealed) [?k] = Inr h"
    by (simp add: canonical_sha256_omitting_def ps ps' eq del: normalize_canonical_value.simps)
  then show ?thesis
    by (simp add: receipt_hash_is_valid_def sealed spread_put_lookup)
qed

text \<open>Canonical JSON does not depend on the order in which an object's properties were added.
  Two objects with the same properties under distinct keys (distinct as JavaScript strings) have
  the same canonical JSON, or fail with the same error.\<close>

theorem canonical_json_key_order:
  assumes "mset ps = mset qs" and "distinct (map (\<lambda>p. utf16 (str_key_of (fst p))) ps)"
  shows "canonical_json ft (Js_obj plain ps) = canonical_json ft (Js_obj plain qs)"
proof -
  have "sort_key (\<lambda>p. utf16 (str_key_of (fst p))) ps = sort_key (\<lambda>p. utf16 (str_key_of (fst p))) qs"
    using assms by (rule sort_key_permute)
  moreover have "(\<exists>p \<in> set ps. fst p = Sym_key) \<longleftrightarrow> (\<exists>p \<in> set qs. fst p = Sym_key)"
    using mset_eq_setD [OF assms(1)] by simp
  ultimately show ?thesis by (simp add: canonical_json_def)
qed

text \<open>Canonical JSON is not injective. An own property named \<open>__proto__\<close> (which
  \<open>JSON.parse\<close> creates) is normalised by assigning to \<open>normalized["__proto__"]\<close>, which sets a
  prototype; so a value with that property has the canonical JSON, and the hash, of the empty object.\<close>

theorem canonical_json_drops_proto:
  assumes "normalize_canonical_value v = Inr w"
  shows "canonical_sha256 ft sha256 (Js_obj True [(Str_key proto_key, Data True v)])
           = canonical_sha256 ft sha256 (Js_obj True [])"
  using assms
  by (simp add: canonical_sha256_def canonical_json_def assign_all_def)


subsection \<open>Normalising twice\<close>

lemma sort_key_again:
  assumes "sorted (map g ys)"
  shows "sort_key f (sort_key g (sort_key f ys)) = sort_key f ys"
proof (rule properties_for_sort_key)
  show "mset (sort_key f ys) = mset (sort_key g (sort_key f ys))" by simp
next
  fix k
  have "filter (\<lambda>x. f k = f x) (sort_key g (sort_key f ys))
          = sort_key g (sort_key f (filter (\<lambda>x. f k = f x) ys))"
    by (simp add: filter_sort)
  also have "sort_key f (filter (\<lambda>x. f k = f x) ys) = filter (\<lambda>x. f k = f x) ys"
  proof (rule sort_key_id_if_sorted)
    have "map f (filter (\<lambda>x. f k = f x) ys) = map (\<lambda>x. f k) (filter (\<lambda>x. f k = f x) ys)" by simp
    then show "sorted (map f (filter (\<lambda>x. f k = f x) ys))" by (simp add: map_replicate_const)
  qed
  also have "sort_key g (filter (\<lambda>x. f k = f x) ys) = filter (\<lambda>x. f k = f x) ys"
    using assms by (simp add: sort_key_id_if_sorted sorted_filter)
  also have "\<dots> = filter (\<lambda>x. f k = f x) (sort_key f ys)"
    by (simp only: eq_commute [of "f k"] sort_key_stable)
  finally show "filter (\<lambda>x. f k = f x) (sort_key f ys)
    = filter (\<lambda>x. f k = f x) (sort_key g (sort_key f ys))" by simp
next
  show "sorted (map f (sort_key f ys))" by simp
qed

lemma assign_all_again:
  assumes "sorted (map (\<lambda>p. utf16 (fst p)) qs)"
  shows "assign_all (sort_key (\<lambda>p. utf16 (fst p)) (assign_all qs)) = assign_all qs"
proof -
  let ?u = "\<lambda>p :: ustring \<times> 'a. utf16 (fst p)" and ?d = "\<lambda>p :: ustring \<times> 'a. decimal_value 0 (fst p)"
  let ?i = "\<lambda>p :: ustring \<times> 'a. is_array_index (fst p)"
  define X where "X = filter (\<lambda>p. fst p \<noteq> proto_key) qs"
  have X: "sorted (map ?u X)" using assms by (simp add: X_def sorted_filter)
  have noproto: "filter (\<lambda>p. fst p \<noteq> proto_key) (sort_key ?u (assign_all qs))
                   = sort_key ?u (assign_all qs)"
    by (auto simp: filter_id_conv assign_all_def enumerate_own_def)
  have "filter ?i (sort_key ?u (enumerate_own X)) = sort_key ?u (sort_key ?d (filter ?i X))"
    by (simp add: filter_sort enumerate_own_def)
  then have 1: "sort_key ?d (filter ?i (sort_key ?u (enumerate_own X)))
                  = sort_key ?d (filter ?i X)"
    using sort_key_again [of ?u "filter ?i X" ?d] X by (simp add: sorted_filter)
  have "filter (\<lambda>p. \<not> ?i p) (sort_key ?u (enumerate_own X)) = sort_key ?u (filter (\<lambda>p. \<not> ?i p) X)"
    by (simp add: filter_sort enumerate_own_def)
  also have "\<dots> = filter (\<lambda>p. \<not> ?i p) X"
    using X by (simp add: sort_key_id_if_sorted sorted_filter)
  finally have "enumerate_own (sort_key ?u (enumerate_own X)) = enumerate_own X"
    using 1 by (simp add: enumerate_own_def)
  then show ?thesis unfolding assign_all_def using noproto
    by (simp add: assign_all_def X_def)
qed

lemma insort_key_map: "insort_key f (g x) (map g xs) = map g (insort_key (\<lambda>y. f (g y)) x xs)"
  by (induction xs) auto

lemma sort_key_map: "sort_key f (map g xs) = map g (sort_key (\<lambda>y. f (g y)) xs)"
  by (induction xs) (simp_all add: insort_key_map)

lemma normalize_array_mapE:
  "normalize_array (map (\<lambda>x. Some (f x)) ys) = mapE (\<lambda>x. normalize_canonical_value (f x)) ys"
  by (induction ys) auto

lemma mapE_same: "(\<And>x. x \<in> set xs \<Longrightarrow> f x = Inr x) \<Longrightarrow> mapE f xs = Inr xs"
  using mapE_total [of xs f id] by simp

lemma normalize_twice_main:
  "normalize_canonical_value v = Inr w \<Longrightarrow> normalize_canonical_value (of_jval w) = Inr w"
  "normalize_array xs = Inr ys \<Longrightarrow> y \<in> set ys \<Longrightarrow> normalize_canonical_value (of_jval y) = Inr y"
  "normalize_props ps = Inr qs \<Longrightarrow> q \<in> set qs
     \<Longrightarrow> normalize_canonical_value (of_jval (snd q)) = Inr (snd q)"
proof (induction v and xs and ps arbitrary: w and ys y and qs q
       rule: normalize_canonical_value_normalize_array_normalize_props.induct)
  case (4 n)
  then show ?case by (cases n) (auto simp: normalize_number.simps split: if_splits)
next
  case (5 xs)
  then obtain ys where ys: "normalize_array xs = Inr ys" "w = J_arr ys" by (auto simp: bindE_Inr_iff)
  then have "normalize_array (map (\<lambda>x. Some (of_jval x)) ys) = Inr ys"
    unfolding normalize_array_mapE using 5 by (intro mapE_same) auto
  then show ?case using ys by simp
next
  case (6 plain ps)
  let ?u = "\<lambda>p :: js_key \<times> js_prop. utf16 (str_key_of (fst p))"
  from 6(2) obtain qs where ok: "plain" "\<not> (\<exists>p \<in> set ps. fst p = Sym_key)"
    and qs: "normalize_props (sort_key ?u ps) = Inr qs" and w: "w = J_obj (assign_all qs)"
    by (auto simp: bindE_Inr_iff split: if_splits)
  have keys: "map (\<lambda>p. utf16 (fst p)) qs = map ?u (sort_key ?u ps)"
  proof -
    have "list_all2 (\<lambda>p q. normalize_prop p = Inr q) (sort_key ?u ps) qs"
      using qs by (simp add: normalize_props_mapE mapE_Inr_iff)
    then show ?thesis
      by (induction rule: list_all2_induct) (auto dest: normalize_prop_key)
  qed
  have again: "normalize_canonical_value (of_jval (snd q)) = Inr (snd q)" if "q \<in> set qs" for q
    using 6(1) ok qs that by blast
  let ?toprop = "\<lambda>p :: ustring \<times> jval. (Str_key (fst p), Data True (of_jval (snd p)))"
  let ?qs' = "sort_key (\<lambda>p. utf16 (fst p)) (assign_all qs)"
  have srt: "sort_key ?u (map ?toprop xs) = map ?toprop (sort_key (\<lambda>p. utf16 (fst p)) xs)" for xs
    by (simp add: sort_key_map)
  have sub: "set ?qs' \<subseteq> set qs" by (auto simp: assign_all_def enumerate_own_def)
  have toprop: "normalize_prop (?toprop q) = Inr q" if "q \<in> set ?qs'" for q
  proof -
    have "normalize_canonical_value (of_jval (snd q)) = Inr (snd q)"
      using that sub again by blast
    then show ?thesis by simp
  qed
  have "mapE normalize_prop (map ?toprop zs) = Inr zs" if "set zs \<subseteq> set ?qs'" for zs
    using that toprop by (induction zs) auto
  then have "mapE normalize_prop (map ?toprop ?qs') = Inr ?qs'" by blast
  moreover have "assign_all ?qs' = assign_all qs"
    by (rule assign_all_again) (simp add: keys)
  moreover have "Sym_key \<notin> fst ` set (map ?toprop (assign_all qs))" by auto
  ultimately show ?case
    unfolding w of_jval.simps normalize_obj_iff srt by metis
qed (auto simp: bindE_Inr_iff)


text \<open>Normalisation is idempotent. A normalised value, read back as a JavaScript value
  (\<open>canonicalSha256Omitting\<close> normalises a second time), normalises to itself: it raises no error and
  its properties keep their order, so its canonical JSON and hash are those of the original.\<close>

theorem normalize_idempotent:
  assumes "normalize_canonical_value v = Inr w"
  shows "normalize_canonical_value (of_jval w) = Inr w"
  using assms by (rule normalize_twice_main(1))

subsection \<open>Witnesses\<close>

lemma normalize_idempotent_witness:
  "normalize_canonical_value (of_jval (J_obj [(code_points ''2'', J_null), (code_points ''b'', jint 7)]))
     = Inr (J_obj [(code_points ''2'', J_null), (code_points ''b'', jint 7)])"
  by (rule normalize_idempotent [of "Js_obj True [(Str_key (code_points ''b''), Data True (Js_num (Fin 7))),
        (Str_key (code_points ''2''), Data True Js_null)]"])
    (simp add: assign_all_def enumerate_own_def proto_key_def code_points_def utf16_def
        is_array_index_def normalize_number.simps max_safe_integer_def is_safe_integer_def)

lemma canonical_json_key_order_witness:
  "canonical_json (\<lambda>q. []) (Js_obj True [(Str_key [98], Data True Js_null), (Str_key [97], Data True Js_null)])
     = canonical_json (\<lambda>q. []) (Js_obj True [(Str_key [97], Data True Js_null), (Str_key [98], Data True Js_null)])"
  by (rule canonical_json_key_order) (simp_all add: utf16_def)

lemma canonical_json_drops_proto_witness:
  "canonical_sha256 (\<lambda>q. []) (\<lambda>t. ''0'') (Js_obj True [(Str_key proto_key, Data True (Js_obj True []))])
     = canonical_sha256 (\<lambda>q. []) (\<lambda>t. ''0'') (Js_obj True [])"
  by (rule canonical_json_drops_proto [where w = "J_obj []"])
    (simp add: assign_all_def enumerate_own_def proto_key_def code_points_def utf16_def
        is_array_index_def)

lemma sealed_receipt_is_valid_witness:
  "receipt_hash_is_valid (\<lambda>q. []) (\<lambda>t. ''0'')
     [(Str_key [97], Data True Js_null), (Str_key receipt_hash_key, Data True (Js_str (code_points ''sha256:0'')))]
   = Inr True"
  by (rule sealed_receipt_is_valid [where receipt = "[(Str_key [97], Data True Js_null)]"])
    (simp add: seal_receipt_def canonical_sha256_omitting_def canonical_sha256_def canonical_json_def
      receipt_hash_key_def assign_all_def enumerate_own_def proto_key_def code_points_def utf16_def
        is_array_index_def)

end
