(* ===== verification/MemoryModel.thy ===== *)
theory MemoryModel
  imports CanonicalJson
begin

text \<open>
  The memory records and their schemas (\<open>packages/contracts/src/memory.ts\<close>): evidence, memory
  objects, revisions, admission decisions, candidates, status events and the governed record that
  ties an object to its current revision. A \<open>superRefine\<close> is the conjunction of its checks. The
  \<open>schema_version\<close> tag of each object, on which no code branches, is left out.
\<close>

subsection \<open>Scalar schemas\<close>

definition lower_hex :: "char \<Rightarrow> bool" where
  "lower_hex c \<longleftrightarrow> c \<in> set ''0123456789abcdef''"

definition canonical_hash_ok :: "string \<Rightarrow> bool" where
  "canonical_hash_ok s \<longleftrightarrow> length s = 71 \<and> take 7 s = ''sha256:'' \<and> list_all lower_hex (drop 7 s)"

definition identifier_char :: "char \<Rightarrow> bool" where
  "identifier_char x \<longleftrightarrow> ascii_alnum x \<or> x \<in> set ''._:-''"

lemma identifier_okI:
  "s \<noteq> [] \<Longrightarrow> length s \<le> 160 \<Longrightarrow> ascii_alnum (hd s) \<Longrightarrow> list_all identifier_char (tl s) \<Longrightarrow> identifier_ok s"
  by (cases s) (auto simp: identifier_ok_def identifier_char_def list_all_iff Suc_le_eq)

lemma lower_hex_identifier: "lower_hex x \<Longrightarrow> identifier_char x"
proof -
  have "list_all identifier_char ''0123456789abcdef''"
    by (simp add: identifier_char_def ascii_alnum_def)
  then show "lower_hex x \<Longrightarrow> identifier_char x"
    unfolding lower_hex_def list_all_iff by blast
qed

text \<open>A prefix followed by hexadecimal digits of a hash is an identifier.\<close>

lemma hashed_identifier_ok:
  assumes "canonical_hash_ok h" and "pre \<noteq> []" "length pre \<le> 96" "ascii_alnum (hd pre)" "list_all identifier_char (tl pre)"
  shows "identifier_ok (pre @ take n (drop 7 h))"
proof (rule identifier_okI)
  show "list_all identifier_char (tl (pre @ take n (drop 7 h)))"
    using assms lower_hex_identifier
    by (auto simp: canonical_hash_ok_def list_all_iff dest!: in_set_takeD)
qed (use assms in \<open>auto simp: canonical_hash_ok_def\<close>)

definition reason_ok :: "ustring \<Rightarrow> bool" where
  "reason_ok t \<longleftrightarrow> 1 \<le> length (utf16 (js_trim t)) \<and> length (utf16 (js_trim t)) \<le> 2000"

definition scope_ok :: "scope \<Rightarrow> bool" where
  "scope_ok s \<longleftrightarrow> identifier_ok (scope_id s)"

definition actor_claim_ok :: "actor_claim \<Rightarrow> bool" where
  "actor_claim_ok a \<longleftrightarrow> identifier_ok (claim_principal_id a)"

fun content_ref_ok :: "content_ref \<Rightarrow> bool" where
  "content_ref_ok (Inline t m) \<longleftrightarrow>
     1 \<le> length (utf16 t) \<and> length (utf16 t) \<le> 256000 \<and> 1 \<le> length m \<and> length m \<le> 160"
| "content_ref_ok (Blob h n m) \<longleftrightarrow> canonical_hash_ok h \<and> 1 \<le> length m \<and> length m \<le> 160"

subsection \<open>Logical keys\<close>

text \<open>
  \<open>normalizeLogicalKey\<close>: NFKC and lower-casing are the runtime's Unicode tables, so parameters;
  the trimming and the collapsing of white space between them are the code's.
\<close>

fun collapse_spaces :: "bool \<Rightarrow> ustring \<Rightarrow> ustring" where
  "collapse_spaces in_run [] = []"
| "collapse_spaces in_run (c # cs) =
     (if js_space c then (if in_run then [] else [32]) @ collapse_spaces True cs
      else c # collapse_spaces False cs)"

definition normalize_logical_key ::
  "(ustring \<Rightarrow> ustring) \<Rightarrow> (ustring \<Rightarrow> ustring) \<Rightarrow> ustring \<Rightarrow> ustring" where
  "normalize_logical_key nfkc lower t = collapse_spaces False (lower (js_trim (nfkc t)))"

definition logical_key_hash ::
  "(jval \<Rightarrow> string) \<Rightarrow> (ustring \<Rightarrow> ustring) \<Rightarrow> (ustring \<Rightarrow> ustring) \<Rightarrow> ustring \<Rightarrow> string" where
  "logical_key_hash sha nfkc lower t = sha (J_str (normalize_logical_key nfkc lower t))"

subsection \<open>Evidence\<close>

record evidence_record =
  evidence_id :: string
  sequence_no :: nat
  ev_occurred_at :: timestamp
  ev_recorded_at :: timestamp
  ev_scope :: scope
  ev_actor :: actor_claim
  ev_source :: evidence_source
  ev_authority :: authority
  ev_sensitivity :: sensitivity
  payload :: content_ref
  payload_hash :: string

definition evidence_record_ok :: "evidence_record \<Rightarrow> bool" where
  "evidence_record_ok e \<longleftrightarrow> identifier_ok (evidence_id e) \<and> scope_ok (ev_scope e)
     \<and> actor_claim_ok (ev_actor e) \<and> content_ref_ok (payload e) \<and> canonical_hash_ok (payload_hash e)"

subsection \<open>Memory objects and revisions\<close>

record memory_object =
  memory_id :: string
  mem_kind :: memory_kind
  mem_scope :: scope
  mem_lifecycle :: lifecycle
  current_revision_id :: "string option"
  pinned :: bool
  context_eligible :: bool
  mem_created_at :: timestamp
  mem_updated_at :: timestamp

definition memory_object_ok :: "memory_object \<Rightarrow> bool" where
  "memory_object_ok m \<longleftrightarrow> identifier_ok (memory_id m) \<and> scope_ok (mem_scope m)
     \<and> (case current_revision_id m of None \<Rightarrow> True | Some r \<Rightarrow> identifier_ok r)
     \<and> \<not> (mem_lifecycle m = Purged \<and> current_revision_id m \<noteq> None)
     \<and> \<not> (mem_lifecycle m \<in> {Candidate, Superseded, Revoked, Quarantined, Purged}
           \<and> context_eligible m)"

record memory_revision =
  revision_id :: string
  rev_memory_id :: string
  revision_no :: nat
  abstraction :: abstraction_level
  rev_lifecycle :: lifecycle
  rev_kind :: memory_kind
  rev_scope :: scope
  rev_authority :: authority
  rev_sensitivity :: sensitivity
  validity :: validity_window
  rev_inferred :: bool
  rev_content :: "content_ref option"
  rev_content_hash :: string
  rev_evidence_ids :: "string list"
  derived_from :: "string list"
  supersedes :: "string option"
  rev_transform :: transform_ref

definition memory_revision_ok :: "memory_revision \<Rightarrow> bool" where
  "memory_revision_ok r \<longleftrightarrow>
     identifier_ok (revision_id r) \<and> identifier_ok (rev_memory_id r) \<and> 1 \<le> revision_no r
     \<and> scope_ok (rev_scope r) \<and> validity_window_ok (validity r)
     \<and> (case rev_content r of None \<Rightarrow> True | Some c \<Rightarrow> content_ref_ok c)
     \<and> canonical_hash_ok (rev_content_hash r)
     \<and> list_all identifier_ok (rev_evidence_ids r) \<and> list_all identifier_ok (derived_from r)
     \<and> (case supersedes r of None \<Rightarrow> True | Some s \<Rightarrow> identifier_ok s)
     \<and> abstraction r \<noteq> L0_evidence
     \<and> \<not> (rev_lifecycle r = Purged \<and> rev_content r \<noteq> None)
     \<and> \<not> (rev_lifecycle r \<noteq> Purged \<and> rev_content r = None)
     \<and> \<not> (revision_no r = 1 \<and> supersedes r \<noteq> None)
     \<and> \<not> (revision_no r > 1 \<and> supersedes r = None)
     \<and> \<not> (abstraction r \<in> {L2_topic, L2_scenario, L2_relation, L3_core} \<and> derived_from r = [])
     \<and> \<not> (rev_authority r = Derived \<and> rev_evidence_ids r = [])
     \<and> \<not> (abstraction r = L1_memory \<and> rev_lifecycle r = Active \<and> rev_evidence_ids r = [])"

subsection \<open>Admission decisions and candidates\<close>

datatype admission = Activate | Candidate_only | Quarantine | Reject

record admission_decision =
  decision_id :: string
  dec_memory_id :: string
  dec_revision_id :: string
  dec_decision :: admission
  decided_by :: actor_claim
  decided_at :: timestamp
  dec_reason :: ustring
  dec_conflict_group_id :: "string option"
  dec_requires_user_confirmation :: bool

definition admission_decision_ok :: "admission_decision \<Rightarrow> bool" where
  "admission_decision_ok d \<longleftrightarrow>
     identifier_ok (decision_id d) \<and> identifier_ok (dec_memory_id d) \<and> identifier_ok (dec_revision_id d)
     \<and> actor_claim_ok (decided_by d) \<and> reason_ok (dec_reason d)
     \<and> (case dec_conflict_group_id d of None \<Rightarrow> True | Some g \<Rightarrow> identifier_ok g)
     \<and> \<not> (dec_requires_user_confirmation d \<and> dec_decision d = Activate
           \<and> claim_authority (decided_by d) \<noteq> User_stated)"

record memory_candidate =
  candidate_id :: string
  logical_key :: ustring
  cand_kind :: memory_kind
  cand_scope :: scope
  cand_sensitivity :: sensitivity
  inferred :: bool
  cand_content :: content_ref
  cand_content_hash :: string
  cand_evidence_ids :: "string list"
  cand_validity :: validity_window
  cand_injection_risk :: injection_risk
  requires_user_confirmation :: bool
  cand_transform :: transform_ref

definition memory_candidate_ok :: "memory_candidate \<Rightarrow> bool" where
  "memory_candidate_ok c \<longleftrightarrow>
     identifier_ok (candidate_id c)
     \<and> 1 \<le> length (utf16 (js_trim (logical_key c))) \<and> length (utf16 (js_trim (logical_key c))) \<le> 500
     \<and> scope_ok (cand_scope c) \<and> content_ref_ok (cand_content c) \<and> canonical_hash_ok (cand_content_hash c)
     \<and> cand_evidence_ids c \<noteq> [] \<and> list_all identifier_ok (cand_evidence_ids c)
     \<and> validity_window_ok (cand_validity c)
     \<and> \<not> (cand_injection_risk c \<noteq> Risk_none \<and> cand_kind c = Procedural
           \<and> \<not> requires_user_confirmation c)"

text \<open>
  \<open>candidateHasPromptInjectionSignal\<close>; \<open>injection_pattern\<close> stands for the test of the regular
  expression \<open>PROMPT_INJECTION_PATTERN\<close>.
\<close>

definition candidate_has_prompt_injection_signal ::
  "(ustring \<Rightarrow> bool) \<Rightarrow> memory_candidate \<Rightarrow> bool" where
  "candidate_has_prompt_injection_signal injection_pattern c \<longleftrightarrow>
     cand_injection_risk c \<noteq> Risk_none
     \<or> cand_kind c = Procedural \<and> is_inline (cand_content c)
       \<and> injection_pattern (inline_text (cand_content c))"

subsection \<open>Conflict groups and status events\<close>

record memory_conflict_group =
  conflict_group_id :: string
  group_key_hash :: string
  group_candidate_ids :: "string list"
  group_open :: bool
  resolved_revision_id :: "string option"
  group_created_at :: timestamp
  resolved_at :: "timestamp option"

definition memory_conflict_group_ok :: "memory_conflict_group \<Rightarrow> bool" where
  "memory_conflict_group_ok g \<longleftrightarrow>
     identifier_ok (conflict_group_id g) \<and> canonical_hash_ok (group_key_hash g)
     \<and> 2 \<le> length (group_candidate_ids g) \<and> list_all identifier_ok (group_candidate_ids g)
     \<and> length (js_set (group_candidate_ids g)) = length (group_candidate_ids g)
     \<and> \<not> (group_open g \<and> (resolved_revision_id g \<noteq> None \<or> resolved_at g \<noteq> None)
          \<or> \<not> group_open g \<and> (resolved_revision_id g = None \<or> resolved_at g = None))"

datatype status_action = Act_activate | Act_demote | Act_suppress | Act_revoke | Act_tombstone
| Act_purge_redact

record memory_status_event =
  status_event_id :: string
  se_memory_id :: string
  se_revision_id :: string
  se_action :: status_action
  se_lifecycle :: lifecycle
  se_actor :: actor_claim
  se_occurred_at :: timestamp
  se_reason :: ustring
  se_tombstone_epoch :: "nat option"

definition memory_status_event_ok :: "memory_status_event \<Rightarrow> bool" where
  "memory_status_event_ok e \<longleftrightarrow>
     (let tombstone_action = se_action e \<in> {Act_tombstone, Act_purge_redact} in
     identifier_ok (status_event_id e) \<and> identifier_ok (se_memory_id e)
     \<and> identifier_ok (se_revision_id e) \<and> actor_claim_ok (se_actor e) \<and> reason_ok (se_reason e)
     \<and> (case se_tombstone_epoch e of None \<Rightarrow> True | Some n \<Rightarrow> 0 < n)
     \<and> tombstone_action = (se_tombstone_epoch e \<noteq> None)
     \<and> \<not> (se_action e = Act_activate \<and> se_lifecycle e \<noteq> Active
          \<or> se_action e = Act_demote \<and> se_lifecycle e \<noteq> Candidate
          \<or> se_action e = Act_suppress \<and> se_lifecycle e \<noteq> Superseded
          \<or> se_action e = Act_revoke \<and> se_lifecycle e \<noteq> Revoked
          \<or> tombstone_action \<and> se_lifecycle e \<noteq> Purged))"

subsection \<open>Governed records\<close>

record governed_memory_record =
  gov_memory :: memory_object
  gov_revision :: "memory_revision option"
  gov_admission :: "admission_decision option"

definition governed_memory_record_ok :: "governed_memory_record \<Rightarrow> bool" where
  "governed_memory_record_ok g \<longleftrightarrow>
     (let m = gov_memory g in
     memory_object_ok m
     \<and> (case gov_revision g of None \<Rightarrow> True | Some r \<Rightarrow> memory_revision_ok r)
     \<and> (case gov_admission g of None \<Rightarrow> True | Some d \<Rightarrow> admission_decision_ok d)
     \<and> (current_revision_id m = None) = (gov_revision g = None)
     \<and> (case gov_revision g of
          None \<Rightarrow> True
        | Some r \<Rightarrow>
            \<not> (current_revision_id m \<noteq> Some (revision_id r) \<or> memory_id m \<noteq> rev_memory_id r
               \<or> mem_kind m \<noteq> rev_kind r \<or> mem_scope m \<noteq> rev_scope r
               \<or> mem_lifecycle m \<noteq> rev_lifecycle r)
            \<and> (case gov_admission g of
                 None \<Rightarrow> mem_lifecycle m \<noteq> Active
               | Some d \<Rightarrow>
                   \<not> (dec_memory_id d \<noteq> memory_id m \<or> dec_revision_id d \<noteq> revision_id r)
                   \<and> \<not> (mem_lifecycle m = Active
                         \<and> (dec_decision d \<noteq> Activate \<or> dec_memory_id d \<noteq> memory_id m
                            \<or> dec_revision_id d \<noteq> revision_id r \<or> rev_evidence_ids r = [])))))"


definition sample_hash :: string where
  "sample_hash = ''sha256:'' @ replicate 64 (CHR ''0'')"

lemma sample_hash_ok [simp]: "canonical_hash_ok sample_hash"
  by (simp add: sample_hash_def canonical_hash_ok_def lower_hex_def list_all_iff)

definition sample_evidence :: "string \<Rightarrow> authority \<Rightarrow> evidence_record" where
  "sample_evidence i a = \<lparr>evidence_id = i, sequence_no = 0, ev_occurred_at = Timestamp ''t'' 0,
     ev_recorded_at = Timestamp ''t'' 0, ev_scope = \<lparr>scope_kind_of = Sk_workspace, scope_id = ''w''\<rparr>,
     ev_actor = \<lparr>claim_principal_id = ''u'', claim_authority = a\<rparr>, ev_source = Src_conversation_turn,
     ev_authority = a, ev_sensitivity = Internal, payload = Inline [104] ''text/plain'',
     payload_hash = sample_hash\<rparr>"

definition sample_candidate :: memory_candidate where
  "sample_candidate = \<lparr>candidate_id = ''c1'', logical_key = [107], cand_kind = Semantic,
     cand_scope = \<lparr>scope_kind_of = Sk_workspace, scope_id = ''w''\<rparr>, cand_sensitivity = Internal,
     inferred = False, cand_content = Inline [104] ''text/plain'', cand_content_hash = sample_hash,
     cand_evidence_ids = [''e1'', ''e2''],
     cand_validity = \<lparr>valid_from = Timestamp ''t'' 0, valid_to = None, recorded_at = Timestamp ''t'' 0\<rparr>,
     cand_injection_risk = Risk_none, requires_user_confirmation = False,
     cand_transform = \<lparr>transform_name = ''automatic-memory-formation'', transform_version = ''1.0.0''\<rparr>\<rparr>"

end
