(* ===== verification/Requests.thy ===== *)
theory Requests
  imports MemoryModel
begin

text \<open>
  Requests, approvals and their authorisation (\<open>packages/contracts/src/mcp.ts\<close>): the tools and the
  safety class of each, the three request envelopes, the local principal, approval grants and the
  binding a grant must match.
\<close>

subsection \<open>Tools\<close>

datatype safety_class = Read_only | Proposal | Important_mutation | Destructive

datatype tool =
  Memory_search | Memory_get | Memory_explain | Memory_context_compile | Memory_receipt_get
| Memory_evidence_ingest | Memory_episode_commit | Memory_propose | Memory_feedback
| Memory_correct | Memory_pin | Memory_demote | Memory_usage_set | Memory_revoke | Memory_delete
| Learning_pause | Learning_resume | Learning_release | Learning_rollback

fun memory_tool_safety_class :: "tool \<Rightarrow> safety_class" where
  "memory_tool_safety_class Memory_search = Read_only"
| "memory_tool_safety_class Memory_get = Read_only"
| "memory_tool_safety_class Memory_explain = Read_only"
| "memory_tool_safety_class Memory_context_compile = Read_only"
| "memory_tool_safety_class Memory_receipt_get = Read_only"
| "memory_tool_safety_class Memory_evidence_ingest = Proposal"
| "memory_tool_safety_class Memory_episode_commit = Proposal"
| "memory_tool_safety_class Memory_propose = Proposal"
| "memory_tool_safety_class Memory_feedback = Proposal"
| "memory_tool_safety_class Memory_delete = Destructive"
| "memory_tool_safety_class _ = Important_mutation"

fun tool_string :: "tool \<Rightarrow> string" where
  "tool_string Memory_search = ''memory_search''"
| "tool_string Memory_get = ''memory_get''"
| "tool_string Memory_explain = ''memory_explain''"
| "tool_string Memory_context_compile = ''memory_context_compile''"
| "tool_string Memory_receipt_get = ''memory_receipt_get''"
| "tool_string Memory_evidence_ingest = ''memory_evidence_ingest''"
| "tool_string Memory_episode_commit = ''memory_episode_commit''"
| "tool_string Memory_propose = ''memory_propose''"
| "tool_string Memory_feedback = ''memory_feedback''"
| "tool_string Memory_correct = ''memory_correct''"
| "tool_string Memory_pin = ''memory_pin''"
| "tool_string Memory_demote = ''memory_demote''"
| "tool_string Memory_usage_set = ''memory_usage_set''"
| "tool_string Memory_revoke = ''memory_revoke''"
| "tool_string Memory_delete = ''memory_delete''"
| "tool_string Learning_pause = ''learning_pause''"
| "tool_string Learning_resume = ''learning_resume''"
| "tool_string Learning_release = ''learning_release''"
| "tool_string Learning_rollback = ''learning_rollback''"

subsection \<open>Envelopes\<close>

record envelope =
  request_id :: string
  tool :: tool
  actor_claim :: actor_claim
  scopes :: "scope list"
  purpose :: ustring
  reason :: ustring
  requested_at :: timestamp

record mutation_fields =
  mut_idempotency_key :: ustring
  expected_revision_id :: "string option"
  approval_id :: "string option"
  dry_run :: bool

text \<open>A read, a proposal with its idempotency key, or a mutation with its class and fields.\<close>

datatype request =
  Read_request envelope
| Proposal_request envelope ustring
| Mutation_request envelope safety_class mutation_fields

fun request_envelope :: "request \<Rightarrow> envelope" where
  "request_envelope (Read_request e) = e"
| "request_envelope (Proposal_request e k) = e"
| "request_envelope (Mutation_request e c m) = e"

fun request_safety_class :: "request \<Rightarrow> safety_class" where
  "request_safety_class (Read_request e) = Read_only"
| "request_safety_class (Proposal_request e k) = Proposal"
| "request_safety_class (Mutation_request e c m) = c"

definition envelope_ok :: "envelope \<Rightarrow> bool" where
  "envelope_ok e \<longleftrightarrow> identifier_ok (request_id e) \<and> actor_claim_ok (actor_claim e)
     \<and> scopes e \<noteq> [] \<and> list_all scope_ok (scopes e)
     \<and> 1 \<le> length (utf16 (js_trim (purpose e))) \<and> length (utf16 (js_trim (purpose e))) \<le> 500
     \<and> reason_ok (reason e)"

definition idempotency_key_ok :: "ustring \<Rightarrow> bool" where
  "idempotency_key_ok k \<longleftrightarrow>
     8 \<le> length (utf16 (js_trim k)) \<and> length (utf16 (js_trim k)) \<le> 200"

fun request_ok :: "request \<Rightarrow> bool" where
  "request_ok (Read_request e) \<longleftrightarrow>
     envelope_ok e \<and> memory_tool_safety_class (tool e) = Read_only"
| "request_ok (Proposal_request e k) \<longleftrightarrow>
     envelope_ok e \<and> idempotency_key_ok k \<and> memory_tool_safety_class (tool e) = Proposal"
| "request_ok (Mutation_request e c m) \<longleftrightarrow>
     envelope_ok e \<and> idempotency_key_ok (mut_idempotency_key m)
     \<and> c \<in> {Important_mutation, Destructive} \<and> memory_tool_safety_class (tool e) = c
     \<and> (case expected_revision_id m of None \<Rightarrow> True | Some r \<Rightarrow> identifier_ok r)
     \<and> (case approval_id m of None \<Rightarrow> True | Some a \<Rightarrow> identifier_ok a)
     \<and> \<not> (\<not> dry_run m \<and> approval_id m = None)"

subsection \<open>The local principal\<close>

record local_principal =
  principal_id :: string
  allowed_scopes :: "scope list"
  allowed_authorities :: "authority list"
  destructive_tools_enabled :: bool

definition local_principal_ok :: "local_principal \<Rightarrow> bool" where
  "local_principal_ok p \<longleftrightarrow> identifier_ok (principal_id p) \<and> allowed_scopes p \<noteq> []
     \<and> list_all scope_ok (allowed_scopes p) \<and> allowed_authorities p \<noteq> []"

datatype authority_denial =
  Principal_mismatch | Authority_not_allowed | Scope_not_allowed | Destructive_disabled

datatype authority_decision = Authorized string | Denied authority_denial

datatype claims_error = Principal_invalid | Request_invalid

definition authorize_request_claims ::
  "local_principal \<Rightarrow> request \<Rightarrow> claims_error + authority_decision" where
  "authorize_request_claims p r =
     bindE (guardE (local_principal_ok p) Principal_invalid) (\<lambda>_.
     bindE (guardE (request_ok r) Request_invalid) (\<lambda>_.
     let e = request_envelope r in
     Inr (if claim_principal_id (actor_claim e) \<noteq> principal_id p then Denied Principal_mismatch
          else if claim_authority (actor_claim e) \<notin> set (allowed_authorities p)
          then Denied Authority_not_allowed
          else if list_ex (\<lambda>s. scope_key s \<notin> set (map scope_key (allowed_scopes p))) (scopes e)
          then Denied Scope_not_allowed
          else if request_safety_class r = Destructive \<and> \<not> destructive_tools_enabled p
          then Denied Destructive_disabled
          else Authorized (principal_id p))))"

subsection \<open>Approval grants and bindings\<close>

record learning_details =
  ld_is_rollback :: bool
  ld_candidate_id :: string
  ld_release_slot_hash :: string
  ld_base_release_id :: "string option"
  ld_evaluation_receipt_id :: string
  ld_evaluation_receipt_hash :: string
  ld_canary_receipt_id :: string
  ld_canary_receipt_hash :: string
  ld_expected_pointer_revision :: nat
  ld_target_release_id :: "string option"
  ld_control_epoch :: nat
  ld_effect_manifest_hash :: string

definition opt_json :: "string option \<Rightarrow> jval" where
  "opt_json x = (case x of None \<Rightarrow> J_null | Some s \<Rightarrow> jstr s)"

definition learning_details_json :: "learning_details \<Rightarrow> jval" where
  "learning_details_json d = jobj
     [(''action'', jstr (if ld_is_rollback d then ''rollback'' else ''release'')),
      (''base_release_id'', opt_json (ld_base_release_id d)),
      (''canary_receipt_hash'', jstr (ld_canary_receipt_hash d)),
      (''canary_receipt_id'', jstr (ld_canary_receipt_id d)),
      (''candidate_id'', jstr (ld_candidate_id d)),
      (''control_epoch'', jint (int (ld_control_epoch d))),
      (''effect_manifest_hash'', jstr (ld_effect_manifest_hash d)),
      (''evaluation_receipt_hash'', jstr (ld_evaluation_receipt_hash d)),
      (''evaluation_receipt_id'', jstr (ld_evaluation_receipt_id d)),
      (''expected_pointer_revision'', jint (int (ld_expected_pointer_revision d))),
      (''release_slot_hash'', jstr (ld_release_slot_hash d)),
      (''target_release_id'', opt_json (ld_target_release_id d))]"

definition learning_details_ok :: "learning_details \<Rightarrow> bool" where
  "learning_details_ok d \<longleftrightarrow>
     list_all identifier_ok
       ([ld_candidate_id d, ld_evaluation_receipt_id d, ld_canary_receipt_id d]
        @ (case ld_base_release_id d of None \<Rightarrow> [] | Some r \<Rightarrow> [r])
        @ (case ld_target_release_id d of None \<Rightarrow> [] | Some r \<Rightarrow> [r]))
     \<and> list_all canonical_hash_ok
         [ld_release_slot_hash d, ld_evaluation_receipt_hash d, ld_canary_receipt_hash d,
          ld_effect_manifest_hash d]
     \<and> \<not> (\<not> ld_is_rollback d \<and> ld_target_release_id d \<noteq> None)"

record approval_grant =
  grant_approval_id :: string
  grant_principal_id :: string
  grant_tool :: tool
  grant_safety_class :: safety_class
  grant_scopes :: "scope list"
  grant_request_hash :: string
  grant_issued_at :: timestamp
  grant_expires_at :: timestamp
  grant_manifest_hash :: string
  grant_learning :: "learning_details option"

record approval_binding =
  bind_approval_id :: string
  bind_principal_id :: string
  bind_tool :: tool
  bind_safety_class :: safety_class
  bind_scopes :: "scope list"
  bind_request_hash :: string
  bind_learning :: "learning_details option"

fun safety_class_string :: "safety_class \<Rightarrow> string" where
  "safety_class_string Read_only = ''read_only''"
| "safety_class_string Proposal = ''proposal''"
| "safety_class_string Important_mutation = ''important_mutation''"
| "safety_class_string Destructive = ''destructive''"

definition scope_json :: "scope \<Rightarrow> jval" where
  "scope_json s = jobj [(''id'', jstr (scope_id s)), (''kind'', jstr (scope_kind_string (scope_kind_of s)))]"

text \<open>The grant without its \<open>manifest_hash\<close>: what the manifest hash is over.\<close>

definition grant_json :: "approval_grant \<Rightarrow> jval" where
  "grant_json g = jobj
     ([(''approval_id'', jstr (grant_approval_id g)),
       (''expires_at'', jstr (iso (grant_expires_at g))),
       (''issued_at'', jstr (iso (grant_issued_at g)))]
      @ (case grant_learning g of None \<Rightarrow> [] | Some d \<Rightarrow> [(''learning'', learning_details_json d)])
      @ [(''principal_id'', jstr (grant_principal_id g)),
         (''request_hash'', jstr (grant_request_hash g)),
         (''safety_class'', jstr (safety_class_string (grant_safety_class g))),
         (''schema_version'', jstr ''1.0.0''),
         (''scopes'', J_arr (map scope_json (grant_scopes g))),
         (''tool'', jstr (tool_string (grant_tool g)))])"

definition learning_matches_tool :: "tool \<Rightarrow> learning_details option \<Rightarrow> bool" where
  "learning_matches_tool t ld \<longleftrightarrow>
     (t = Learning_release \<or> t = Learning_rollback) = (ld \<noteq> None)
     \<and> (case ld of None \<Rightarrow> True
        | Some d \<Rightarrow> \<not> (t = Learning_release \<and> ld_is_rollback d \<or> t = Learning_rollback \<and> \<not> ld_is_rollback d))"

definition approval_grant_ok :: "(jval \<Rightarrow> string) \<Rightarrow> approval_grant \<Rightarrow> bool" where
  "approval_grant_ok sha g \<longleftrightarrow>
     identifier_ok (grant_approval_id g) \<and> identifier_ok (grant_principal_id g)
     \<and> grant_safety_class g \<in> {Important_mutation, Destructive}
     \<and> canonical_hash_ok (grant_request_hash g) \<and> canonical_hash_ok (grant_manifest_hash g)
     \<and> grant_scopes g \<noteq> [] \<and> list_all scope_ok (grant_scopes g)
     \<and> (case grant_learning g of None \<Rightarrow> True | Some d \<Rightarrow> learning_details_ok d)
     \<and> memory_tool_safety_class (grant_tool g) = grant_safety_class g
     \<and> \<not> epoch_ms (grant_expires_at g) \<le> epoch_ms (grant_issued_at g)
     \<and> length (js_set (map scope_key (grant_scopes g))) = length (map scope_key (grant_scopes g))
     \<and> grant_manifest_hash g = sha (grant_json g)
     \<and> learning_matches_tool (grant_tool g) (grant_learning g)"

definition approval_binding_ok :: "approval_binding \<Rightarrow> bool" where
  "approval_binding_ok b \<longleftrightarrow>
     identifier_ok (bind_approval_id b) \<and> identifier_ok (bind_principal_id b)
     \<and> memory_tool_safety_class (bind_tool b) \<in> {Important_mutation, Destructive}
     \<and> bind_safety_class b \<in> {Important_mutation, Destructive}
     \<and> canonical_hash_ok (bind_request_hash b)
     \<and> bind_scopes b \<noteq> [] \<and> list_all scope_ok (bind_scopes b)
     \<and> (case bind_learning b of None \<Rightarrow> True | Some d \<Rightarrow> learning_details_ok d)
     \<and> learning_matches_tool (bind_tool b) (bind_learning b)"

text \<open>\<open>approvalGrantMatches\<close>: \<open>None\<close> when a schema rejects the binding or the grant.\<close>

definition approval_grant_matches ::
  "(jval \<Rightarrow> string) \<Rightarrow> approval_binding \<Rightarrow> approval_grant \<Rightarrow> timestamp \<Rightarrow> bool option" where
  "approval_grant_matches sha b g verified_at =
     (if \<not> approval_binding_ok b \<or> \<not> approval_grant_ok sha g then None else
      let gs = sort (map scope_key (grant_scopes g)); bs = sort (map scope_key (bind_scopes b)) in
      Some (grant_approval_id g = bind_approval_id b
        \<and> grant_principal_id g = bind_principal_id b
        \<and> grant_tool g = bind_tool b
        \<and> grant_safety_class g = bind_safety_class b
        \<and> grant_request_hash g = bind_request_hash b
        \<and> (grant_learning g = None) = (bind_learning b = None)
        \<and> (grant_learning g = None \<or> bind_learning b = None
            \<or> sha (learning_details_json (the (grant_learning g)))
                = sha (learning_details_json (the (bind_learning b))))
        \<and> length gs = length bs \<and> list_all2 (\<lambda>x y. x = y) gs bs
        \<and> epoch_ms (grant_issued_at g) \<le> epoch_ms verified_at
        \<and> epoch_ms verified_at < epoch_ms (grant_expires_at g)))"


subsection \<open>Properties\<close>

lemma sorted_keys_mset:
  assumes "sort (map scope_key xs) = sort (map scope_key ys)"
  shows "mset xs = mset ys"
proof -
  have "image_mset scope_key (mset xs) = image_mset scope_key (mset ys)"
    using assms by (metis mset_map mset_sort)
  then show ?thesis
    by (rule multiset.inj_map_strong [rotated]) simp
qed

lemma list_all2_eq_iff: "list_all2 (\<lambda>x y. x = y) xs ys \<longleftrightarrow> xs = ys"
  using list.rel_eq [where 'a = 'a] by (metis (mono_tags))

text \<open>The authorisation of a valid request under a valid principal is exactly the conjunction of
  the principal's identity, its allowed authorities, its allowed scopes (every requested scope, not
  some) and, for a destructive request, its destructive switch; so \<open>memory_delete\<close> is authorised for
  no principal whose destructive tools are disabled.\<close>

theorem authorized_iff_within_principal:
  assumes "local_principal_ok p" and "request_ok r"
  shows "authorize_request_claims p r = Inr (Authorized q) \<longleftrightarrow>
    q = principal_id p
    \<and> claim_principal_id (actor_claim (request_envelope r)) = principal_id p
    \<and> claim_authority (actor_claim (request_envelope r)) \<in> set (allowed_authorities p)
    \<and> set (scopes (request_envelope r)) \<subseteq> set (allowed_scopes p)
    \<and> (tool (request_envelope r) = Memory_delete \<longrightarrow> destructive_tools_enabled p)"
proof -
  have "request_safety_class r = Destructive \<longleftrightarrow> tool (request_envelope r) = Memory_delete"
    using assms(2) by (cases r; cases "tool (request_envelope r)") auto
  then show ?thesis
    using assms by (auto simp: authorize_request_claims_def Let_def list_ex_iff)
qed

text \<open>A grant matches a binding only for the approved request: same approval, principal, tool,
  class and request hash, the same scopes with the same multiplicity in any order, inside the grant's
  time window; hence a grant that matches two bindings at some time approves the same request in both.\<close>

theorem approval_grant_binds_one_request:
  assumes "approval_grant_matches sha b g t = Some True"
  shows "grant_request_hash g = bind_request_hash b \<and> grant_tool g = bind_tool b
    \<and> mset (grant_scopes g) = mset (bind_scopes b)
    \<and> epoch_ms (grant_issued_at g) \<le> epoch_ms t \<and> epoch_ms t < epoch_ms (grant_expires_at g)
    \<and> memory_tool_safety_class (bind_tool b) = bind_safety_class b
    \<and> (\<forall>b' t'. approval_grant_matches sha b' g t' = Some True \<longrightarrow>
         bind_approval_id b' = bind_approval_id b \<and> bind_principal_id b' = bind_principal_id b
         \<and> bind_tool b' = bind_tool b \<and> bind_request_hash b' = bind_request_hash b
         \<and> mset (bind_scopes b') = mset (bind_scopes b))"
proof -
  have sound: "grant_approval_id g = bind_approval_id c \<and> grant_principal_id g = bind_principal_id c
      \<and> grant_request_hash g = bind_request_hash c \<and> grant_tool g = bind_tool c
      \<and> grant_safety_class g = bind_safety_class c
      \<and> mset (grant_scopes g) = mset (bind_scopes c) \<and> approval_grant_ok sha g
      \<and> epoch_ms (grant_issued_at g) \<le> epoch_ms u \<and> epoch_ms u < epoch_ms (grant_expires_at g)"
    if "approval_grant_matches sha c g u = Some True" for c u
    using that sorted_keys_mset [of "grant_scopes g" "bind_scopes c"]
    by (auto simp: approval_grant_matches_def Let_def list_all2_eq_iff split: if_splits)
  then have "memory_tool_safety_class (bind_tool b) = bind_safety_class b"
    using sound [OF assms] by (metis approval_grant_ok_def)
  then show ?thesis using sound [OF assms] sound by metis
qed

subsection \<open>Witnesses\<close>

definition sample_scope :: scope where
  "sample_scope = \<lparr>scope_kind_of = Sk_user, scope_id = ''u1''\<rparr>"

definition sample_principal :: local_principal where
  "sample_principal = \<lparr>principal_id = ''u1'', allowed_scopes = [sample_scope],
     allowed_authorities = [User_stated], destructive_tools_enabled = False\<rparr>"

definition sample_request :: request where
  "sample_request = Read_request
     \<lparr>request_id = ''r1'', tool = Memory_get,
      actor_claim = \<lparr>claim_principal_id = ''u1'', claim_authority = User_stated\<rparr>,
      scopes = [sample_scope], purpose = [112], reason = [114], requested_at = Timestamp ''t'' 0\<rparr>"

lemmas request_ok_defs = local_principal_ok_def envelope_ok_def actor_claim_ok_def scope_ok_def
  identifier_ok_def ascii_alnum_def reason_ok_def js_trim_def js_space_def utf16_def
  sample_scope_def sample_principal_def sample_request_def

lemma authorized_iff_within_principal_witness:
  "authorize_request_claims sample_principal sample_request = Inr (Authorized ''u1'')"
proof -
  have "local_principal_ok sample_principal" by (simp add: request_ok_defs)
  moreover have "request_ok sample_request" by (simp add: request_ok_defs)
  ultimately show ?thesis
    by (simp add: authorized_iff_within_principal) (simp add: request_ok_defs)
qed

definition sample_grant :: approval_grant where
  "sample_grant = \<lparr>grant_approval_id = ''a1'', grant_principal_id = ''u1'', grant_tool = Memory_pin,
     grant_safety_class = Important_mutation, grant_scopes = [sample_scope],
     grant_request_hash = sample_hash, grant_issued_at = Timestamp ''t0'' 0,
     grant_expires_at = Timestamp ''t1'' 10, grant_manifest_hash = sample_hash, grant_learning = None\<rparr>"

definition sample_binding :: approval_binding where
  "sample_binding = \<lparr>bind_approval_id = ''a1'', bind_principal_id = ''u1'', bind_tool = Memory_pin,
     bind_safety_class = Important_mutation, bind_scopes = [sample_scope],
     bind_request_hash = sample_hash, bind_learning = None\<rparr>"

lemma approval_grant_binds_one_request_witness:
  "mset (grant_scopes sample_grant) = mset (bind_scopes sample_binding)"
  by (rule approval_grant_binds_one_request [where sha = "\<lambda>j. sample_hash" and t = "Timestamp ''t'' 5",
        THEN conjunct2, THEN conjunct2, THEN conjunct1])
     (simp add: approval_grant_matches_def approval_grant_ok_def approval_binding_ok_def
        sample_grant_def sample_binding_def learning_matches_tool_def request_ok_defs Let_def
        sample_hash_ok)

end
