(* ===== verification/Admission.thy ===== *)
theory Admission
  imports MemoryModel
begin

text \<open>
  The kernel's admission policy (\<open>packages/memory-kernel/src/governance.ts\<close>): what a candidate and
  its live evidence allow. The order of the early returns is the order of the code.
\<close>

record admission_evaluation =
  evaluation :: admission
  evaluation_reason :: string

definition evidence_authorities :: "evidence_record list \<Rightarrow> authority list" where
  "evidence_authorities evidence =
     concat (map (\<lambda>e. [claim_authority (ev_actor e), ev_authority e]) evidence)"

definition is_governed_automatic_confirmation ::
  "memory_candidate \<Rightarrow> evidence_record list \<Rightarrow> bool" where
  "is_governed_automatic_confirmation c evidence \<longleftrightarrow>
     transform_name (cand_transform c) = ''automatic-memory-formation''
     \<and> \<not> inferred c \<and> \<not> requires_user_confirmation c
     \<and> list_ex (\<lambda>e. claim_authority (ev_actor e) = User_stated \<or> ev_authority e = User_stated) evidence
     \<and> list_all (\<lambda>a. a = User_stated \<or> a = Observed) (evidence_authorities evidence)"

definition evaluate_admission ::
  "(ustring \<Rightarrow> bool) \<Rightarrow> memory_candidate \<Rightarrow> evidence_record list \<Rightarrow> admission_evaluation" where
  "evaluate_admission injection_pattern c evidence =
     (let authorities = evidence_authorities evidence;
          governed = is_governed_automatic_confirmation c evidence in
      if evidence = [] then
        \<lparr>evaluation = Reject, evaluation_reason = ''L1 admission requires persisted live evidence''\<rparr>
      else if cand_sensitivity c = Secret \<or> list_ex (\<lambda>e. ev_sensitivity e = Secret) evidence then
        \<lparr>evaluation = Reject,
         evaluation_reason = ''secret content requires an encrypted storage policy''\<rparr>
      else if candidate_has_prompt_injection_signal injection_pattern c then
        \<lparr>evaluation = Quarantine,
         evaluation_reason = ''procedural content carries a prompt-injection signal''\<rparr>
      else if cand_sensitivity c = Sensitive \<or> list_ex (\<lambda>e. ev_sensitivity e = Sensitive) evidence then
        \<lparr>evaluation = Quarantine,
         evaluation_reason = ''sensitive evidence requires explicit review''\<rparr>
      else if list_ex (\<lambda>a. a \<in> {Observed, Tool_result, Imported}) authorities \<and> \<not> governed then
        \<lparr>evaluation = Quarantine,
         evaluation_reason = ''low-authority evidence cannot activate L1 memory''\<rparr>
      else if inferred c \<or> requires_user_confirmation c
              \<or> list_ex (\<lambda>a. a \<in> {Inferred, Derived}) authorities then
        \<lparr>evaluation = Candidate_only,
         evaluation_reason = ''inferred or unconfirmed evidence remains candidate-only''\<rparr>
      else if list_all (\<lambda>a. a = User_stated) authorities then
        \<lparr>evaluation = Activate,
         evaluation_reason = ''live exact-scope user-stated evidence is eligible''\<rparr>
      else if governed then
        \<lparr>evaluation = Activate,
         evaluation_reason = ''explicit user confirmation with bounded assistant context is eligible''\<rparr>
      else
        \<lparr>evaluation = Quarantine,
         evaluation_reason = ''evidence authority does not satisfy activation policy''\<rparr>)"

subsection \<open>Properties\<close>

lemma set_evidence_authorities:
  "set (evidence_authorities es)
     = (\<lambda>e. claim_authority (ev_actor e)) ` set es \<union> ev_authority ` set es"
  by (induction es) (auto simp: evidence_authorities_def)

lemma authorities_nonempty: "es \<noteq> [] \<Longrightarrow> evidence_authorities es \<noteq> []"
  by (cases es) (simp_all add: evidence_authorities_def)

text \<open>C23: what activation takes. A candidate is activated exactly when it has evidence, neither it nor
  any evidence is sensitive or secret, it carries no injection signal, it is neither inferred nor
  waiting for confirmation, and every authority of its evidence is \<open>user_stated\<close> or it is a
  governed automatic confirmation: formed by \<open>automatic-memory-formation\<close>, with at least one
  \<open>user_stated\<close> claim and nothing beyond \<open>user_stated\<close> and \<open>observed\<close>.\<close>

theorem activation_iff:
  "evaluation (evaluate_admission injection_pattern c es) = Activate \<longleftrightarrow>
     es \<noteq> []
     \<and> cand_sensitivity c \<notin> {Sensitive, Secret}
     \<and> (\<forall>e \<in> set es. ev_sensitivity e \<notin> {Sensitive, Secret})
     \<and> \<not> candidate_has_prompt_injection_signal injection_pattern c
     \<and> \<not> inferred c \<and> \<not> requires_user_confirmation c
     \<and> (set (evidence_authorities es) \<subseteq> {User_stated} \<or> is_governed_automatic_confirmation c es)"
proof -
  have gov: "is_governed_automatic_confirmation c es \<Longrightarrow> set (evidence_authorities es) \<subseteq> {User_stated, Observed}"
    by (auto simp: is_governed_automatic_confirmation_def list_all_iff)
  have all: "a \<in> {User_stated, Observed, Tool_result, Inferred, Derived, Imported}" for a
    by (cases a) simp_all
  show ?thesis
    using gov all
    by (auto simp: evaluate_admission_def Let_def list_all_iff list_ex_iff)
qed

subsection \<open>Witness\<close>

lemma activation_iff_witness:
  "evaluation (evaluate_admission (\<lambda>t. False) sample_candidate
     [sample_evidence ''e1'' User_stated, sample_evidence ''e2'' Observed]) = Activate"
  using activation_iff [of "\<lambda>t. False" sample_candidate
      "[sample_evidence ''e1'' User_stated, sample_evidence ''e2'' Observed]"]
  by (simp add: sample_candidate_def sample_evidence_def candidate_has_prompt_injection_signal_def
    is_governed_automatic_confirmation_def evidence_authorities_def)

end
