(* ===== verification/MemoryFormation.thy ===== *)
theory MemoryFormation
  imports MemoryModel
begin

text \<open>
  Automatic memory formation: the schemas of \<open>packages/contracts/src/automatic-memory.ts\<close>, the
  policy of \<open>packages/memory-formation/src/policy.ts\<close>, the redaction of \<open>redaction.ts\<close> and the
  service of \<open>service.ts\<close>. Scores are doubles in \<open>[0, 1]\<close>, here the rationals they denote, and the
  thresholds are the doubles the literals of the source denote. The regular expressions of the
  signals and of the redaction rules are parameters; the provider and the four callbacks of the
  service are functions on a state of the caller's choice, which may fail.
\<close>

subsection \<open>Schemas\<close>

datatype memory_category =
  Stable_user_preference | User_correction | Repository_convention | Confirmed_project_decision

datatype exclusion =
  Temporary_instruction | Task_progress | Assistant_speculation | Unconfirmed_conclusion
| Secret_or_sensitive | Tool_log | Global_procedural_change | System_or_developer_instruction

datatype policy_mode = Mode_disabled | Mode_observe | Mode_balanced

datatype disposition = Disp_activate | Disp_candidate_only | Disp_review_required | Disp_reject

datatype recommended_scope = Global_user | Repository

datatype authority_basis =
  User_explicit | User_confirmation | Basis_user_correction | Assistant_context_only | Mixed

datatype temporariness = Durable | Uncertain | Temporary

datatype speaker = Spk_user | Spk_assistant

datatype policy_reason =
  Automatic_memory_disabled | Observe_mode | Eligible_for_activation | Excluded_content
| Sensitive_content | Assistant_only_authority | Temporary_or_uncertain | Threshold_not_met
| Mixed_authority | Local_conflict | Prompt_injection_confirmed | Prompt_injection_suspected
| Scope_or_authority_requires_review | Global_behavior_change_requires_review

record evidence_reference =
  ref_evidence_id :: string
  ref_speaker :: speaker
  ref_authority :: authority
  ref_content_hash :: string

record formation_proposal =
  proposal_id :: string
  prop_category :: memory_category
  prop_summary :: ustring
  prop_logical_key :: ustring
  prop_recommended_scope :: recommended_scope
  prop_sensitivity :: sensitivity
  prop_authority_basis :: authority_basis
  prop_temporariness :: temporariness
  explicitness :: rat
  expected_reuse :: rat
  stability :: rat
  confidence :: rat
  conflict_likelihood :: rat
  prop_evidence :: "evidence_reference list"

definition score_ok :: "rat \<Rightarrow> bool" where
  "score_ok q \<longleftrightarrow> 0 \<le> q \<and> q \<le> 1"

definition trimmed_length_ok :: "nat \<Rightarrow> ustring \<Rightarrow> bool" where
  "trimmed_length_ok n t \<longleftrightarrow> 1 \<le> length (utf16 (js_trim t)) \<and> length (utf16 (js_trim t)) \<le> n"

definition formation_proposal_ok :: "formation_proposal \<Rightarrow> bool" where
  "formation_proposal_ok p \<longleftrightarrow>
     identifier_ok (proposal_id p)
     \<and> trimmed_length_ok 2000 (prop_summary p) \<and> trimmed_length_ok 500 (prop_logical_key p)
     \<and> list_all score_ok
         [explicitness p, expected_reuse p, stability p, confidence p, conflict_likelihood p]
     \<and> 1 \<le> length (prop_evidence p) \<and> length (prop_evidence p) \<le> 16
     \<and> list_all (\<lambda>r. identifier_ok (ref_evidence_id r) \<and> canonical_hash_ok (ref_content_hash r))
         (prop_evidence p)"

record policy_input =
  in_decision_id :: string
  in_mode :: policy_mode
  in_decided_at :: timestamp
  target_scope :: scope
  proposal :: formation_proposal
  exclusions :: "exclusion list"
  has_local_conflict :: bool
  in_injection_risk :: injection_risk
  changes_global_behavior :: bool

definition policy_input_ok :: "policy_input \<Rightarrow> bool" where
  "policy_input_ok i \<longleftrightarrow> identifier_ok (in_decision_id i) \<and> scope_ok (target_scope i)
     \<and> formation_proposal_ok (proposal i) \<and> length (exclusions i) \<le> 16"

record policy_decision =
  pd_decision_id :: string
  pd_proposal_id :: string
  pd_mode :: policy_mode
  pd_disposition :: disposition
  pd_memory_kind :: memory_kind
  pd_reason_codes :: "policy_reason list"
  pd_requires_user_confirmation :: bool
  pd_decided_at :: timestamp

definition policy_decision_ok :: "policy_decision \<Rightarrow> bool" where
  "policy_decision_ok d \<longleftrightarrow>
     identifier_ok (pd_decision_id d) \<and> identifier_ok (pd_proposal_id d)
     \<and> 1 \<le> length (pd_reason_codes d) \<and> length (pd_reason_codes d) \<le> 8
     \<and> \<not> (pd_disposition d = Disp_review_required \<and> \<not> pd_requires_user_confirmation d)
     \<and> \<not> (pd_disposition d = Disp_activate \<and> pd_requires_user_confirmation d)
     \<and> \<not> (pd_mode d \<noteq> Mode_balanced \<and> pd_disposition d = Disp_activate)"

subsection \<open>The policy\<close>

text \<open>The doubles nearest to the decimal literals of \<open>ACTIVATION_THRESHOLDS\<close>.\<close>

definition dbl_0_9 :: rat where "dbl_0_9 = 8106479329266893 / 9007199254740992"
definition dbl_0_85 :: rat where "dbl_0_85 = 7656119366529843 / 9007199254740992"
definition dbl_0_8 :: rat where "dbl_0_8 = 3602879701896397 / 4503599627370496"
definition dbl_0_7 :: rat where "dbl_0_7 = 3152519739159347 / 4503599627370496"

record threshold =
  th_explicitness :: rat
  th_expected_reuse :: rat
  th_stability :: rat
  th_confidence :: rat

fun activation_threshold :: "memory_category \<Rightarrow> threshold" where
  "activation_threshold Stable_user_preference =
     \<lparr>th_explicitness = dbl_0_9, th_expected_reuse = 3 / 4, th_stability = dbl_0_9,
      th_confidence = dbl_0_9\<rparr>"
| "activation_threshold User_correction =
     \<lparr>th_explicitness = dbl_0_9, th_expected_reuse = dbl_0_7, th_stability = dbl_0_85,
      th_confidence = dbl_0_9\<rparr>"
| "activation_threshold Repository_convention =
     \<lparr>th_explicitness = dbl_0_9, th_expected_reuse = dbl_0_8, th_stability = dbl_0_85,
      th_confidence = dbl_0_9\<rparr>"
| "activation_threshold Confirmed_project_decision =
     \<lparr>th_explicitness = dbl_0_9, th_expected_reuse = dbl_0_7, th_stability = dbl_0_9,
      th_confidence = dbl_0_9\<rparr>"

datatype formation_error =
  Policy_input_invalid | Policy_decision_invalid
| Evidence_missing | Evidence_not_inline | Request_schema_invalid | Provider_identity_mismatch
| Proposal_evidence_invalid | Confirmation_context_missing | Candidate_invalid
| Callback_failed string

definition policy_decision_of ::
  "policy_input \<Rightarrow> disposition \<Rightarrow> policy_reason \<Rightarrow> bool \<Rightarrow> formation_error + policy_decision" where
  "policy_decision_of i disp r confirm =
     (let d = \<lparr>pd_decision_id = in_decision_id i, pd_proposal_id = proposal_id (proposal i),
               pd_mode = in_mode i, pd_disposition = disp,
               pd_memory_kind = (if prop_category (proposal i) = Confirmed_project_decision
                                 then Semantic else Procedural),
               pd_reason_codes = [r], pd_requires_user_confirmation = confirm,
               pd_decided_at = in_decided_at i\<rparr>
      in if policy_decision_ok d then Inr d else Inl Policy_decision_invalid)"

definition scope_requires_review :: "policy_input \<Rightarrow> bool" where
  "scope_requires_review i =
     (if prop_recommended_scope (proposal i) = Repository
      then scope_kind_of (target_scope i) \<noteq> Sk_workspace
      else scope_kind_of (target_scope i) \<noteq> Sk_user)"

definition meets_activation_thresholds :: "policy_input \<Rightarrow> bool" where
  "meets_activation_thresholds i =
     (let p = proposal i; t = activation_threshold (prop_category p) in
      explicitness p \<ge> th_explicitness t \<and> expected_reuse p \<ge> th_expected_reuse t
      \<and> stability p \<ge> th_stability t \<and> confidence p \<ge> th_confidence t
      \<and> conflict_likelihood p < 1 / 4)"

definition evaluate_automatic_memory_policy ::
  "policy_input \<Rightarrow> formation_error + policy_decision" where
  "evaluate_automatic_memory_policy i =
     (if \<not> policy_input_ok i then Inl Policy_input_invalid
      else if in_mode i = Mode_disabled then
        policy_decision_of i Disp_reject Automatic_memory_disabled False
      else if length (exclusions i) > 0 then policy_decision_of i Disp_reject Excluded_content False
      else if prop_sensitivity (proposal i) \<in> {Sensitive, Secret} then
        policy_decision_of i Disp_reject Sensitive_content False
      else if prop_authority_basis (proposal i) = Assistant_context_only then
        policy_decision_of i Disp_reject Assistant_only_authority False
      else if prop_temporariness (proposal i) = Temporary then
        policy_decision_of i Disp_reject Temporary_or_uncertain False
      else if in_injection_risk i = Risk_confirmed then
        policy_decision_of i Disp_reject Prompt_injection_confirmed False
      else if has_local_conflict i then
        policy_decision_of i Disp_review_required Local_conflict True
      else if in_injection_risk i = Risk_suspected then
        policy_decision_of i Disp_review_required Prompt_injection_suspected True
      else if changes_global_behavior i then
        policy_decision_of i Disp_review_required Global_behavior_change_requires_review True
      else if scope_requires_review i then
        policy_decision_of i Disp_review_required Scope_or_authority_requires_review True
      else if in_mode i = Mode_observe then
        policy_decision_of i Disp_candidate_only Observe_mode False
      else if prop_authority_basis (proposal i) = Mixed then
        policy_decision_of i Disp_candidate_only Mixed_authority False
      else if prop_temporariness (proposal i) = Uncertain \<or> \<not> meets_activation_thresholds i then
        policy_decision_of i Disp_candidate_only Threshold_not_met False
      else policy_decision_of i Disp_activate Eligible_for_activation False)"


subsection \<open>Redaction\<close>

datatype finding =
  Credential | Secret_value | Personal_identifier | Private_key | Access_token | Connection_string
| High_entropy_value | Configured_identifier | Local_path

fun finding_string :: "finding \<Rightarrow> string" where
  "finding_string Credential = ''credential''"
| "finding_string Secret_value = ''secret''"
| "finding_string Personal_identifier = ''personal_identifier''"
| "finding_string Private_key = ''private_key''"
| "finding_string Access_token = ''access_token''"
| "finding_string Connection_string = ''connection_string''"
| "finding_string High_entropy_value = ''high_entropy_value''"
| "finding_string Configured_identifier = ''configured_identifier''"
| "finding_string Local_path = ''local_path''"

datatype redaction_action = Redaction_accepted | Redaction_redacted | Redaction_rejected

record redaction_report =
  original_hash :: string
  redacted_hash :: string
  redaction_action_of :: redaction_action
  finding_categories :: "finding list"
  egress_safe :: bool

definition redaction_report_ok :: "redaction_report \<Rightarrow> bool" where
  "redaction_report_ok r \<longleftrightarrow>
     canonical_hash_ok (original_hash r) \<and> canonical_hash_ok (redacted_hash r)
     \<and> length (finding_categories r) \<le> 32
     \<and> \<not> (redaction_action_of r = Redaction_rejected \<and> egress_safe r)
     \<and> \<not> (redaction_action_of r = Redaction_redacted \<and> finding_categories r = [])"

record formation_turn =
  turn_evidence_id :: string
  turn_role :: speaker
  turn_text :: ustring
  turn_content_hash :: string

definition formation_turn_ok :: "formation_turn \<Rightarrow> bool" where
  "formation_turn_ok t \<longleftrightarrow> identifier_ok (turn_evidence_id t)
     \<and> 1 \<le> length (utf16 (turn_text t)) \<and> length (utf16 (turn_text t)) \<le> 64000
     \<and> canonical_hash_ok (turn_content_hash t)"

text \<open>\<open>text.includes(value)\<close> and \<open>text.split(value).join(replacement)\<close>, for a non-empty \<open>value\<close>.\<close>

fun text_includes :: "ustring \<Rightarrow> ustring \<Rightarrow> bool" where
  "text_includes [] v \<longleftrightarrow> v = []"
| "text_includes (c # cs) v \<longleftrightarrow> take (length v) (c # cs) = v \<or> text_includes cs v"

function replace_literal :: "ustring \<Rightarrow> ustring \<Rightarrow> ustring \<Rightarrow> ustring" where
  "replace_literal v r t =
     (if t = [] \<or> v = [] then t
      else if take (length v) t = v then r @ replace_literal v r (drop (length v) t)
      else hd t # replace_literal v r (tl t))"
  by auto
termination
  by (relation "measure (\<lambda>(v, r, t). length t)") auto

declare replace_literal.simps [simp del]

text \<open>
  One entry of \<open>RULES\<close>: its category, the test of its regular expression, and the replacement of
  all its matches.
\<close>

type_synonym redaction_rule = "finding \<times> (ustring \<Rightarrow> bool) \<times> (ustring \<Rightarrow> ustring)"

fun apply_identifiers :: "ustring list \<Rightarrow> ustring \<times> finding list \<Rightarrow> ustring \<times> finding list" where
  "apply_identifiers [] (t, fs) = (t, fs)"
| "apply_identifiers (v # vs) (t, fs) =
     apply_identifiers vs
       (if 3 \<le> length (utf16 v) \<and> text_includes t v
        then (replace_literal v (code_points ''[REDACTED_CONFIGURED_IDENTIFIER]'') t,
              fs @ [Configured_identifier])
        else (t, fs))"

fun apply_rules :: "redaction_rule list \<Rightarrow> ustring \<times> finding list \<Rightarrow> ustring \<times> finding list" where
  "apply_rules [] (t, fs) = (t, fs)"
| "apply_rules ((category, test, replace) # rules) (t, fs) =
     apply_rules rules (if test t then (replace t, fs @ [category]) else (t, fs))"

definition inline_json :: "ustring \<Rightarrow> jval" where
  "inline_json t = jobj [(''media_type'', jstr ''text/plain''), (''storage'', jstr ''inline''),
                         (''text'', J_str t)]"

definition redact_turn ::
  "(jval \<Rightarrow> string) \<Rightarrow> redaction_rule list \<Rightarrow> ustring list \<Rightarrow> formation_turn
     \<Rightarrow> formation_turn \<times> finding list" where
  "redact_turn sha rules identifiers turn =
     (let (t, fs) = apply_rules rules (apply_identifiers identifiers (turn_text turn, []))
      in (turn\<lparr>turn_text := t, turn_content_hash := sha (inline_json t)\<rparr>, fs))"

definition turns_json :: "formation_turn list \<Rightarrow> jval" where
  "turns_json ts = J_arr (map (\<lambda>t. jobj [(''evidence_id'', jstr (turn_evidence_id t)),
                                        (''text'', J_str (turn_text t))]) ts)"

definition redact_provider_formation_turns ::
  "(jval \<Rightarrow> string) \<Rightarrow> redaction_rule list \<Rightarrow> ustring list \<Rightarrow> formation_turn list
     \<Rightarrow> formation_error + formation_turn list \<times> redaction_report" where
  "redact_provider_formation_turns sha rules identifiers original =
     (if \<not> list_all formation_turn_ok original then Inl Request_schema_invalid else
      let redacted = map (redact_turn sha rules identifiers) original;
          turns = map fst redacted;
          findings = js_set (concat (map snd redacted));
          report = \<lparr>original_hash = sha (turns_json original), redacted_hash = sha (turns_json turns),
                    redaction_action_of = (if findings = [] then Redaction_accepted else Redaction_redacted),
                    finding_categories = sort_key finding_string findings,
                    egress_safe = True\<rparr>
      in if list_all formation_turn_ok turns \<and> redaction_report_ok report
         then Inr (turns, report) else Inl Request_schema_invalid)"

subsection \<open>The service\<close>

record formation_job =
  job_id :: string
  job_generation :: nat
  job_attempts :: nat
  job_scope :: scope
  job_principal_id :: string
  job_user_evidence_id :: string
  job_assistant_evidence_id :: string
  job_project_identity_hash :: string

text \<open>The signals of the service: the tests of its four regular expressions.\<close>

record formation_signals =
  temporary_signal :: "ustring \<Rightarrow> bool"
  progress_signal :: "ustring \<Rightarrow> bool"
  injection_signal :: "ustring \<Rightarrow> bool"
  global_procedural_signal :: "ustring \<Rightarrow> bool"

definition stable_identifier :: "(jval \<Rightarrow> string) \<Rightarrow> string \<Rightarrow> jval \<Rightarrow> string" where
  "stable_identifier sha pre v = pre @ '':'' @ take 41 (drop 7 (sha v))"

definition target_scope_of :: "formation_proposal \<Rightarrow> formation_job \<Rightarrow> scope" where
  "target_scope_of p job = (if prop_recommended_scope p = Repository then job_scope job
     else \<lparr>scope_kind_of = Sk_user, scope_id = job_principal_id job\<rparr>)"

definition exclusions_of :: "formation_signals \<Rightarrow> formation_proposal \<Rightarrow> ustring \<Rightarrow> exclusion list" where
  "exclusions_of sig p cited =
     (if prop_temporariness p = Temporary \<or> temporary_signal sig cited then [Temporary_instruction] else [])
     @ (if progress_signal sig (prop_summary p @ [10] @ cited) then [Task_progress] else [])
     @ (if prop_authority_basis p = Assistant_context_only then [Assistant_speculation] else [])
     @ (if prop_category p = Confirmed_project_decision \<and> prop_authority_basis p \<noteq> User_confirmation
        then [Unconfirmed_conclusion] else [])
     @ (if prop_sensitivity p \<in> {Sensitive, Secret} then [Secret_or_sensitive] else [])
     @ (if prop_recommended_scope p = Global_user \<and> prop_category p \<noteq> Stable_user_preference
        then [Global_procedural_change] else [])"


record provider_request =
  pr_request_id :: string
  pr_provider_id :: string
  pr_model :: ustring
  pr_requested_at :: timestamp
  pr_project_identity_hash :: string
  pr_redaction :: redaction_report
  pr_turns :: "formation_turn list"

record provider_result =
  res_request_id :: string
  res_provider_id :: string
  res_model :: ustring
  res_completed_at :: timestamp
  res_proposals :: "formation_proposal list"
  res_usage :: "nat \<times> nat"

record admission_reference =
  ar_decision_id :: "string option"
  ar_candidate_id :: string
  ar_memory_id :: "string option"
  ar_revision_id :: "string option"
  ar_receipt_id :: "string option"

text \<open>The options of \<open>MemoryFormationService\<close>, its callbacks as computations on a state.\<close>

record 's formation_service =
  provider_id :: string
  mode :: policy_mode
  model :: ustring
  sensitive_identifiers :: "ustring list"
  load_evidence :: "string \<Rightarrow> scope \<Rightarrow> ('s, formation_error, evidence_record option) run"
  extract_proposals :: "provider_request \<Rightarrow> ('s, formation_error, provider_result) run"
  check_conflict :: "ustring \<Rightarrow> scope \<Rightarrow> string \<Rightarrow> ('s, formation_error, bool) run"
  prepare_evidence :: "string list \<Rightarrow> scope \<Rightarrow> formation_job \<Rightarrow> ('s, formation_error, string list) run"
  propose :: "memory_candidate \<Rightarrow> policy_decision \<Rightarrow> formation_job
                \<Rightarrow> ('s, formation_error, admission_reference) run"
  clock :: "('s, formation_error, timestamp) run"

definition provider_request_ok :: "provider_request \<Rightarrow> bool" where
  "provider_request_ok r \<longleftrightarrow>
     identifier_ok (pr_request_id r) \<and> identifier_ok (pr_provider_id r)
     \<and> trimmed_length_ok 240 (pr_model r) \<and> canonical_hash_ok (pr_project_identity_hash r)
     \<and> redaction_report_ok (pr_redaction r) \<and> list_all formation_turn_ok (pr_turns r)
     \<and> 1 \<le> length (pr_turns r) \<and> length (pr_turns r) \<le> 24
     \<and> egress_safe (pr_redaction r)"

definition raw_turn :: "evidence_record \<Rightarrow> formation_turn" where
  "raw_turn e = \<lparr>turn_evidence_id = evidence_id e,
     turn_role = (if ev_authority e = User_stated then Spk_user else Spk_assistant),
     turn_text = (case payload e of Inline t m \<Rightarrow> t | Blob h n m \<Rightarrow> []),
     turn_content_hash = payload_hash e\<rparr>"

text \<open>\<open>new Map(xs.map((x) => [key(x), x]))\<close> then \<open>get\<close>: the last entry of a key wins.\<close>

definition map_by :: "('a \<Rightarrow> string) \<Rightarrow> 'a list \<Rightarrow> string \<Rightarrow> 'a option" where
  "map_by key xs = map_of (rev (map (\<lambda>x. (key x, x)) xs))"

definition reference_supported ::
  "formation_turn list \<Rightarrow> evidence_record list \<Rightarrow> evidence_reference \<Rightarrow> bool" where
  "reference_supported turns evidence r =
     (case (map_by turn_evidence_id turns (ref_evidence_id r),
            map_by evidence_id evidence (ref_evidence_id r)) of
        (Some t, Some e) \<Rightarrow> turn_content_hash t = ref_content_hash r
          \<and> turn_role t = ref_speaker r \<and> ev_authority e = ref_authority r
      | _ \<Rightarrow> False)"

definition cited_text :: "formation_turn list \<Rightarrow> formation_proposal \<Rightarrow> ustring" where
  "cited_text turns p = join_texts [10] (map (\<lambda>r.
     case map_by turn_evidence_id turns (ref_evidence_id r) of None \<Rightarrow> [] | Some t \<Rightarrow> turn_text t)
     (prop_evidence p))"

definition formation_candidate ::
  "(jval \<Rightarrow> string) \<Rightarrow> formation_job \<Rightarrow> timestamp \<Rightarrow> formation_proposal \<Rightarrow> policy_decision
     \<Rightarrow> string list \<Rightarrow> injection_risk \<Rightarrow> memory_candidate" where
  "formation_candidate sha job now p d evidence_ids risk =
     \<lparr>candidate_id = stable_identifier sha ''automatic_candidate''
        (jobj [(''generation'', jint (int (job_generation job))), (''job_id'', jstr (job_id job)),
               (''proposal_id'', jstr (proposal_id p))]),
      logical_key = js_trim (prop_logical_key p), cand_kind = pd_memory_kind d,
      cand_scope = target_scope_of p job, cand_sensitivity = prop_sensitivity p,
      inferred = (pd_disposition d \<noteq> Disp_activate),
      cand_content = Inline (prop_summary p) ''text/plain'',
      cand_content_hash = sha (inline_json (prop_summary p)),
      cand_evidence_ids = evidence_ids,
      cand_validity = \<lparr>valid_from = now, valid_to = None, recorded_at = now\<rparr>,
      cand_injection_risk = risk,
      requires_user_confirmation = pd_requires_user_confirmation d,
      cand_transform = \<lparr>transform_name = ''automatic-memory-formation'', transform_version = ''1.0.0''\<rparr>\<rparr>"

text \<open>The body of the loop over the provider's proposals.\<close>

definition process_proposal ::
  "(jval \<Rightarrow> string) \<Rightarrow> formation_signals \<Rightarrow> 's formation_service \<Rightarrow> formation_job
     \<Rightarrow> evidence_record list \<Rightarrow> provider_request \<Rightarrow> formation_proposal
     \<Rightarrow> ('s, formation_error, policy_decision \<times> admission_reference option) run" where
  "process_proposal sha sig svc job evidence request p =
     bindR (liftR (guardE (list_all (reference_supported (pr_turns request) evidence) (prop_evidence p))
              Proposal_evidence_invalid)) (\<lambda>_.
     bindR (liftR (guardE (\<not> (prop_authority_basis p = User_confirmation
                             \<and> \<not> list_ex (\<lambda>r. ref_speaker r = Spk_assistant) (prop_evidence p)))
              Confirmation_context_missing)) (\<lambda>_.
     let sc = target_scope_of p job;
         hash = sha (inline_json (prop_summary p));
         cited = cited_text (pr_turns request) p;
         risk = (if injection_signal sig cited then Risk_confirmed else Risk_none)
     in
     bindR (check_conflict svc (prop_logical_key p) sc hash) (\<lambda>conflict.
     bindR (liftR (evaluate_automatic_memory_policy
         \<lparr>in_decision_id = stable_identifier sha ''automatic_decision''
            (jobj [(''generation'', jint (int (job_generation job))), (''job_id'', jstr (job_id job)),
                   (''proposal_id'', jstr (proposal_id p))]),
          in_mode = mode svc, in_decided_at = pr_requested_at request, target_scope = sc,
          proposal = p, exclusions = exclusions_of sig p cited, has_local_conflict = conflict,
          in_injection_risk = risk,
          changes_global_behavior = (prop_recommended_scope p = Global_user
            \<and> global_procedural_signal sig (prop_summary p))\<rparr>)) (\<lambda>d.
     if pd_disposition d = Disp_reject then returnR (d, None) else
     bindR (prepare_evidence svc (map ref_evidence_id (prop_evidence p)) sc job) (\<lambda>ids.
     let c = formation_candidate sha job (pr_requested_at request) p d ids risk in
     bindR (liftR (guardE (memory_candidate_ok c) Candidate_invalid)) (\<lambda>_.
     bindR (propose svc c d job) (\<lambda>a.
     returnR (d, Some (a\<lparr>ar_decision_id := Some (pd_decision_id d)\<rparr>)))))))))"

fun process_proposals ::
  "(jval \<Rightarrow> string) \<Rightarrow> formation_signals \<Rightarrow> 's formation_service \<Rightarrow> formation_job
     \<Rightarrow> evidence_record list \<Rightarrow> provider_request \<Rightarrow> formation_proposal list
     \<Rightarrow> ('s, formation_error, policy_decision list \<times> admission_reference list) run" where
  "process_proposals sha sig svc job evidence request [] = returnR ([], [])"
| "process_proposals sha sig svc job evidence request (p # ps) =
     bindR (process_proposal sha sig svc job evidence request p) (\<lambda>(d, a).
     bindR (process_proposals sha sig svc job evidence request ps) (\<lambda>(ds, as).
     returnR (d # ds, (case a of None \<Rightarrow> [] | Some x \<Rightarrow> [x]) @ as)))"

record formation_result =
  fr_request :: provider_request
  fr_decisions :: "policy_decision list"
  fr_admissions :: "admission_reference list"
  fr_provider_completed_at :: timestamp
  fr_provider_usage :: "nat \<times> nat"

text \<open>The provider's request, and the part of \<open>process\<close> after the evidence is loaded.\<close>

definition formation_request ::
  "(jval \<Rightarrow> string) \<Rightarrow> 's formation_service \<Rightarrow> formation_job \<Rightarrow> formation_turn list
     \<Rightarrow> redaction_report \<Rightarrow> timestamp \<Rightarrow> provider_request" where
  "formation_request sha svc job turns report now =
     \<lparr>pr_request_id = stable_identifier sha ''formation_request''
        (jobj [(''attempt'', jint (int (job_attempts job))),
               (''generation'', jint (int (job_generation job))),
               (''job_id'', jstr (job_id job))]),
      pr_provider_id = provider_id svc, pr_model = model svc, pr_requested_at = now,
      pr_project_identity_hash = job_project_identity_hash job,
      pr_redaction = report, pr_turns = turns\<rparr>"

definition process_evidence ::
  "(jval \<Rightarrow> string) \<Rightarrow> redaction_rule list \<Rightarrow> formation_signals \<Rightarrow> 's formation_service
     \<Rightarrow> formation_job \<Rightarrow> evidence_record list \<Rightarrow> ('s, formation_error, formation_result) run" where
  "process_evidence sha rules sig svc job evidence =
     (let raw = map raw_turn evidence in
      bindR (liftR (guardE (\<not> list_ex (\<lambda>t. turn_text t = []) raw) Evidence_not_inline)) (\<lambda>_.
      bindR (liftR (redact_provider_formation_turns sha rules (sensitive_identifiers svc) raw)) (\<lambda>redacted.
      bindR (clock svc) (\<lambda>now.
      let request = formation_request sha svc job (fst redacted) (snd redacted) now in
      bindR (liftR (guardE (provider_request_ok request) Request_schema_invalid)) (\<lambda>_.
      bindR (extract_proposals svc request) (\<lambda>result.
      bindR (liftR (guardE (\<not> (res_request_id result \<noteq> pr_request_id request
                              \<or> res_provider_id result \<noteq> pr_provider_id request
                              \<or> res_model result \<noteq> pr_model request))
               Provider_identity_mismatch)) (\<lambda>_.
      bindR (process_proposals sha sig svc job evidence request (res_proposals result)) (\<lambda>loop.
      returnR \<lparr>fr_request = request, fr_decisions = fst loop, fr_admissions = snd loop,
               fr_provider_completed_at = res_completed_at result,
               fr_provider_usage = res_usage result\<rparr>))))))))"

text \<open>\<open>MemoryFormationService.process\<close>, but for the two hashes of its result.\<close>

definition process ::
  "(jval \<Rightarrow> string) \<Rightarrow> redaction_rule list \<Rightarrow> formation_signals \<Rightarrow> 's formation_service
     \<Rightarrow> formation_job \<Rightarrow> ('s, formation_error, formation_result) run" where
  "process sha rules sig svc job =
     bindR (load_evidence svc (job_user_evidence_id job) (job_scope job)) (\<lambda>user.
     bindR (load_evidence svc (job_assistant_evidence_id job) (job_scope job)) (\<lambda>assistant.
     case (user, assistant) of
       (Some u, Some a) \<Rightarrow> process_evidence sha rules sig svc job [u, a]
     | _ \<Rightarrow> liftR (Inl Evidence_missing)))"

subsection \<open>The policy decides\<close>

lemma policy_decision_ok_iff:
  assumes "policy_input_ok i"
  shows "policy_decision_of i disp r confirm = Inr d \<longleftrightarrow>
    d = \<lparr>pd_decision_id = in_decision_id i, pd_proposal_id = proposal_id (proposal i),
         pd_mode = in_mode i, pd_disposition = disp,
         pd_memory_kind = (if prop_category (proposal i) = Confirmed_project_decision
                           then Semantic else Procedural),
         pd_reason_codes = [r], pd_requires_user_confirmation = confirm,
         pd_decided_at = in_decided_at i\<rparr>
    \<and> \<not> (disp = Disp_review_required \<and> \<not> confirm) \<and> \<not> (disp = Disp_activate \<and> confirm)
    \<and> \<not> (in_mode i \<noteq> Mode_balanced \<and> disp = Disp_activate)"
  using assms
  by (auto simp: policy_decision_of_def policy_decision_ok_def Let_def policy_input_ok_def
      formation_proposal_ok_def)

lemma policy_mode_cases: "m = Mode_disabled \<or> m = Mode_observe \<or> m = Mode_balanced"
  by (cases m) simp_all

text \<open>The policy always decides. On a valid input no schema of the decision can fail, the decision
  is for the input's own proposal, and it activates exactly when the mode is balanced and none of the
  grounds for rejection, review or mere candidacy holds.\<close>

theorem policy_decides:
  assumes "policy_input_ok i"
  shows "\<exists>d. evaluate_automatic_memory_policy i = Inr d
    \<and> pd_decision_id d = in_decision_id i \<and> pd_proposal_id d = proposal_id (proposal i)
    \<and> pd_requires_user_confirmation d = (pd_disposition d = Disp_review_required)
    \<and> (pd_disposition d = Disp_activate \<longleftrightarrow>
         in_mode i = Mode_balanced \<and> exclusions i = [] \<and> in_injection_risk i = Risk_none
         \<and> prop_sensitivity (proposal i) \<notin> {Sensitive, Secret}
         \<and> prop_authority_basis (proposal i) \<notin> {Assistant_context_only, Mixed}
         \<and> prop_temporariness (proposal i) = Durable
         \<and> \<not> has_local_conflict i \<and> \<not> changes_global_behavior i
         \<and> \<not> scope_requires_review i \<and> meets_activation_thresholds i)"
proof -
  have "prop_temporariness (proposal i) = Durable \<or> prop_temporariness (proposal i) = Uncertain
      \<or> prop_temporariness (proposal i) = Temporary"
    by (cases "prop_temporariness (proposal i)") simp_all
  moreover have "in_injection_risk i = Risk_none \<or> in_injection_risk i = Risk_suspected
      \<or> in_injection_risk i = Risk_confirmed"
    by (cases "in_injection_risk i") simp_all
  ultimately show ?thesis
    using policy_mode_cases [of "in_mode i"] assms
    unfolding evaluate_automatic_memory_policy_def
    by (simp add: policy_decision_ok_iff split del: if_split cong: if_cong) (auto simp: policy_decision_ok_iff)
qed

lemma policy_decision_of_fields:
  assumes "policy_decision_of i disp r confirm = Inr d"
  shows "pd_disposition d = disp" "pd_proposal_id d = proposal_id (proposal i)"
    "pd_decision_id d = in_decision_id i"
  using assms by (auto simp: policy_decision_of_def Let_def split: if_splits)

lemma policy_activates_only:
  assumes "evaluate_automatic_memory_policy i = Inr d" and "pd_disposition d = Disp_activate"
  shows "in_mode i = Mode_balanced \<and> exclusions i = [] \<and> \<not> has_local_conflict i
    \<and> in_injection_risk i = Risk_none \<and> prop_sensitivity (proposal i) \<notin> {Sensitive, Secret}
    \<and> prop_authority_basis (proposal i) \<notin> {Assistant_context_only, Mixed}"
proof -
  have "in_mode i = Mode_disabled \<or> in_mode i = Mode_observe \<or> in_mode i = Mode_balanced"
    by (cases "in_mode i") simp_all
  moreover have "in_injection_risk i = Risk_none \<or> in_injection_risk i = Risk_suspected
      \<or> in_injection_risk i = Risk_confirmed"
    by (cases "in_injection_risk i") simp_all
  ultimately show ?thesis
    using assms unfolding evaluate_automatic_memory_policy_def
    by (auto dest: policy_decision_of_fields split: if_splits)
qed

lemma policy_disabled_rejects:
  assumes "evaluate_automatic_memory_policy i = Inr d" and "in_mode i = Mode_disabled"
  shows "pd_disposition d = Disp_reject"
  using assms by (auto simp: evaluate_automatic_memory_policy_def
      dest: policy_decision_of_fields split: if_splits)

lemma policy_names_proposal:
  assumes "evaluate_automatic_memory_policy i = Inr d"
  shows "pd_proposal_id d = proposal_id (proposal i)"
  using assms by (auto simp: evaluate_automatic_memory_policy_def
      dest: policy_decision_of_fields split: if_splits)

lemma guardR_bind:
  "bindR (liftR (guardE b e)) f s = (Inr y, s') \<longleftrightarrow> b \<and> f () s = (Inr y, s')"
  by (cases b) (auto simp: bindR_def)

text \<open>What a proposal that is processed to the end has passed.\<close>

lemma process_proposal_Inr:
  assumes "process_proposal sha sig svc job evidence request p s = (Inr (d, a), s')"
  shows "pd_proposal_id d = proposal_id p
    \<and> (\<forall>r \<in> set (prop_evidence p). reference_supported (pr_turns request) evidence r)
    \<and> (pd_disposition d = Disp_activate \<longrightarrow>
        mode svc = Mode_balanced \<and> \<not> injection_signal sig (cited_text (pr_turns request) p)
        \<and> prop_sensitivity p \<notin> {Sensitive, Secret}
        \<and> prop_authority_basis p \<notin> {Assistant_context_only, Mixed})
    \<and> (mode svc = Mode_disabled \<longrightarrow> pd_disposition d = Disp_reject)
    \<and> (if pd_disposition d = Disp_reject then a = None
       else \<exists>x. a = Some x \<and> ar_decision_id x = Some (pd_decision_id d))"
  using assms unfolding process_proposal_def guardR_bind Let_def
  by (auto simp: bindR_Inr_iff guardR_bind list_all_iff
      dest: policy_names_proposal policy_activates_only policy_disabled_rejects split: if_splits)

lemma process_proposals_Inr:
  assumes "process_proposals sha sig svc job evidence request ps s = (Inr (ds, as), s')"
  shows "list_all2 (\<lambda>p d. pd_proposal_id d = proposal_id p
       \<and> (\<forall>r \<in> set (prop_evidence p). reference_supported (pr_turns request) evidence r)
       \<and> (pd_disposition d = Disp_activate \<longrightarrow>
           mode svc = Mode_balanced \<and> \<not> injection_signal sig (cited_text (pr_turns request) p)
           \<and> prop_sensitivity p \<notin> {Sensitive, Secret}
           \<and> prop_authority_basis p \<notin> {Assistant_context_only, Mixed})
       \<and> (mode svc = Mode_disabled \<longrightarrow> pd_disposition d = Disp_reject)) ps ds
     \<and> map ar_decision_id as
         = map (\<lambda>d. Some (pd_decision_id d)) (filter (\<lambda>d. pd_disposition d \<noteq> Disp_reject) ds)"
  using assms
proof (induction ps arbitrary: s ds as)
  case (Cons p ps)
  from Cons.prems obtain d a s1 ds' as' where step:
      "process_proposal sha sig svc job evidence request p s = (Inr (d, a), s1)"
    and rest: "process_proposals sha sig svc job evidence request ps s1 = (Inr (ds', as'), s')"
    and eq: "ds = d # ds'" "as = (case a of None \<Rightarrow> [] | Some x \<Rightarrow> [x]) @ as'"
    by (auto simp: bindR_Inr_iff)
  show ?case
    using process_proposal_Inr [OF step] Cons.IH [OF rest] eq by (auto split: if_splits)
qed simp

lemma keeps_process_proposal:
  assumes "\<And>k sc h. keepsR obs (check_conflict svc k sc h)" and "mode svc = Mode_disabled"
  shows "keepsR obs (process_proposal sha sig svc job evidence request p)"
proof -
  have reject: "keepsR obs (bindR (liftR (evaluate_automatic_memory_policy i)) f)"
    if "in_mode i = Mode_disabled" "\<And>d. pd_disposition d = Disp_reject \<Longrightarrow> keepsR obs (f d)" for i f
    using that policy_disabled_rejects
    by (cases "evaluate_automatic_memory_policy i") (auto simp: keepsR_def bindR_def)
  show ?thesis
    unfolding process_proposal_def Let_def
    by (intro keepsR_bind keepsR_lift assms(1) reject) (auto simp: assms(2))
qed

lemma keeps_process_proposals:
  assumes "\<And>k sc h. keepsR obs (check_conflict svc k sc h)" and "mode svc = Mode_disabled"
  shows "keepsR obs (process_proposals sha sig svc job evidence request ps)"
proof (induction ps)
  case Nil
  show ?case unfolding process_proposals.simps by (rule keepsR_return)
next
  case (Cons p ps)
  show ?case
    unfolding process_proposals.simps split_def
    by (intro keepsR_bind keeps_process_proposal assms Cons.IH keepsR_return)
qed

lemma liftR_bind:
  "bindR (liftR m) f s = (Inr y, s') \<longleftrightarrow> (\<exists>x. m = Inr x \<and> f x s = (Inr y, s'))"
  by (cases m) (auto simp: bindR_def)

lemma process_evidence_Inr:
  assumes "process_evidence sha rules sig svc job evidence s = (Inr r, s')"
  shows "\<exists>result s1 s2. extract_proposals svc (fr_request r) s1 = (Inr result, s2)
     \<and> process_proposals sha sig svc job evidence (fr_request r) (res_proposals result) s2
         = (Inr (fr_decisions r, fr_admissions r), s')"
  using assms unfolding process_evidence_def Let_def
  by (clarsimp simp only: guardR_bind liftR_bind bindR_Inr_iff returnR_simp) auto

lemma process_Inr:
  assumes "process sha rules sig svc job s = (Inr r, s')"
  shows "\<exists>evidence result s1 s2. extract_proposals svc (fr_request r) s1 = (Inr result, s2)
     \<and> process_proposals sha sig svc job evidence (fr_request r) (res_proposals result) s2
         = (Inr (fr_decisions r, fr_admissions r), s')"
proof -
  from assms [unfolded process_def bindR_Inr_iff] obtain user assistant s1 where
    "(case (user, assistant) of
       (Some u, Some a) \<Rightarrow> process_evidence sha rules sig svc job [u, a]
     | _ \<Rightarrow> liftR (Inl Evidence_missing)) s1 = (Inr r, s')" by blast
  then obtain u a where "process_evidence sha rules sig svc job [u, a] s1 = (Inr r, s')"
    by (auto split: option.splits)
  then show ?thesis by (blast dest: process_evidence_Inr)
qed

lemma keeps_process:
  assumes "\<And>i sc. keepsR obs (load_evidence svc i sc)" and "\<And>r. keepsR obs (extract_proposals svc r)"
    and "\<And>k sc h. keepsR obs (check_conflict svc k sc h)" and "keepsR obs (clock svc)"
    and "mode svc = Mode_disabled"
  shows "keepsR obs (process sha rules sig svc job)"
proof -
  have "keepsR obs (process_evidence sha rules sig svc job es)" for es
    unfolding process_evidence_def Let_def
    by (intro keepsR_bind keepsR_lift keepsR_return keeps_process_proposals assms)
  then show ?thesis
    unfolding process_def
    by (intro keepsR_bind assms) (auto intro: keepsR_lift split: option.splits)
qed

text \<open>In disabled mode the service proposes nothing. Whatever part of the world the evidence store,
  the provider, the conflict check and the clock leave alone, a run leaves alone too, failed or not
  (so neither \<open>prepareEvidence\<close> nor \<open>propose\<close> is ever called), and a run that returns has
  rejected every proposal and admitted none.\<close>

theorem disabled_mode_proposes_nothing:
  assumes "mode svc = Mode_disabled"
    and "\<And>i sc. keepsR obs (load_evidence svc i sc)" and "\<And>r. keepsR obs (extract_proposals svc r)"
    and "\<And>k sc h. keepsR obs (check_conflict svc k sc h)" and "keepsR obs (clock svc)"
  shows "obs (snd (process sha rules sig svc job s)) = obs s
    \<and> (\<forall>r s'. process sha rules sig svc job s = (Inr r, s') \<longrightarrow>
         fr_admissions r = [] \<and> (\<forall>d \<in> set (fr_decisions r). pd_disposition d = Disp_reject))"
proof (intro conjI allI impI)
  show "obs (snd (process sha rules sig svc job s)) = obs s"
    using keeps_process [of obs svc] assms by (simp add: keepsR_def)
next
  fix r s' assume "process sha rules sig svc job s = (Inr r, s')"
  then obtain evidence ps s2 where run: "process_proposals sha sig svc job evidence (fr_request r) ps s2
      = (Inr (fr_decisions r, fr_admissions r), s')" by (blast dest: process_Inr)
  show rejected: "\<forall>d \<in> set (fr_decisions r). pd_disposition d = Disp_reject"
    using process_proposals_Inr [OF run] assms(1) by (auto dest: list_all2_setD2)
  show "fr_admissions r = []"
    using process_proposals_Inr [OF run] rejected by (simp add: filter_empty_conv)
qed

text \<open>C32: the provider is contained. When a run returns, the decisions are for the provider's proposals,
  one each in their order; every citation of a proposal names a turn that was sent to the provider,
  with its redacted content hash and its speaker, so a provider cannot cite evidence it was not
  given; only balanced mode activates, and never a proposal on the assistant's sole or mixed
  authority, one marked sensitive or secret, or one whose cited text carries the injection signal;
  and there is one admission for each decision that is not a rejection, in order, under its id.\<close>

theorem provider_is_contained:
  assumes "process sha rules sig svc job s = (Inr r, s')"
  shows "\<exists>result s1 s2. extract_proposals svc (fr_request r) s1 = (Inr result, s2)
    \<and> list_all2 (\<lambda>p d. pd_proposal_id d = proposal_id p
        \<and> (\<forall>c \<in> set (prop_evidence p). \<exists>t \<in> set (pr_turns (fr_request r)).
             turn_evidence_id t = ref_evidence_id c \<and> turn_content_hash t = ref_content_hash c
             \<and> turn_role t = ref_speaker c)
        \<and> (pd_disposition d = Disp_activate \<longrightarrow>
             mode svc = Mode_balanced
             \<and> \<not> injection_signal sig (cited_text (pr_turns (fr_request r)) p)
             \<and> prop_sensitivity p \<notin> {Sensitive, Secret}
             \<and> prop_authority_basis p \<notin> {Assistant_context_only, Mixed}))
      (res_proposals result) (fr_decisions r)
    \<and> map ar_decision_id (fr_admissions r)
        = map (\<lambda>d. Some (pd_decision_id d))
            (filter (\<lambda>d. pd_disposition d \<noteq> Disp_reject) (fr_decisions r))"
proof -
  have supported: "\<exists>t \<in> set turns. turn_evidence_id t = ref_evidence_id c
      \<and> turn_content_hash t = ref_content_hash c \<and> turn_role t = ref_speaker c"
    if "reference_supported turns evidence c" for turns evidence c
    using that by (auto simp: reference_supported_def map_by_def split: option.splits
        dest!: map_of_SomeD intro!: bexI)
  from assms obtain evidence result s1 s2 where
    ex: "extract_proposals svc (fr_request r) s1 = (Inr result, s2)"
    and run: "process_proposals sha sig svc job evidence (fr_request r) (res_proposals result) s2
         = (Inr (fr_decisions r, fr_admissions r), s')" by (blast dest: process_Inr)
  from process_proposals_Inr [OF run] show ?thesis
    by (intro exI [of _ result] exI [of _ s1] exI [of _ s2] conjI ex)
       (auto elim!: list.rel_mono_strong dest: supported)
qed

subsection \<open>Witnesses\<close>

definition sample_proposal :: formation_proposal where
  "sample_proposal = \<lparr>proposal_id = ''p1'', prop_category = Repository_convention, prop_summary = [115],
     prop_logical_key = [107], prop_recommended_scope = Repository, prop_sensitivity = Internal,
     prop_authority_basis = User_explicit, prop_temporariness = Durable, explicitness = 1,
     expected_reuse = 1, stability = 1, confidence = 1, conflict_likelihood = 0,
     prop_evidence = [\<lparr>ref_evidence_id = ''e1'', ref_speaker = Spk_user, ref_authority = User_stated,
                       ref_content_hash = sample_hash\<rparr>]\<rparr>"

definition sample_formation_job :: formation_job where
  "sample_formation_job = \<lparr>job_id = ''j'', job_generation = 1, job_attempts = 1,
     job_scope = \<lparr>scope_kind_of = Sk_workspace, scope_id = ''w''\<rparr>, job_principal_id = ''u'',
     job_user_evidence_id = ''e1'', job_assistant_evidence_id = ''e2'',
     job_project_identity_hash = sample_hash\<rparr>"

text \<open>A service whose state counts the calls of \<open>propose\<close>.\<close>

definition sample_service :: "policy_mode \<Rightarrow> nat formation_service" where
  "sample_service m = \<lparr>provider_id = ''v'', mode = m, model = [109], sensitive_identifiers = [],
     load_evidence = (\<lambda>i sc. returnR (Some (sample_evidence i (if i = ''e1'' then User_stated else Observed)))),
     extract_proposals = (\<lambda>r. returnR \<lparr>res_request_id = pr_request_id r, res_provider_id = ''v'',
        res_model = [109], res_completed_at = Timestamp ''t'' 0, res_proposals = [sample_proposal],
        res_usage = (0, 0)\<rparr>),
     check_conflict = (\<lambda>k sc h. returnR False),
     prepare_evidence = (\<lambda>ids sc job. returnR ids),
     propose = (\<lambda>c d job n. (Inr \<lparr>ar_decision_id = None, ar_candidate_id = candidate_id c,
        ar_memory_id = None, ar_revision_id = None, ar_receipt_id = None\<rparr>, Suc n)),
     clock = returnR (Timestamp ''t'' 0)\<rparr>"

definition no_signals :: formation_signals where
  "no_signals = \<lparr>temporary_signal = (\<lambda>t. False), progress_signal = (\<lambda>t. False),
     injection_signal = (\<lambda>t. False), global_procedural_signal = (\<lambda>t. False)\<rparr>"

definition sample_policy_input :: policy_input where
  "sample_policy_input = \<lparr>in_decision_id = ''d1'', in_mode = Mode_balanced,
     in_decided_at = Timestamp ''t'' 0, target_scope = \<lparr>scope_kind_of = Sk_workspace, scope_id = ''w''\<rparr>,
     proposal = sample_proposal, exclusions = [], has_local_conflict = False,
     in_injection_risk = Risk_none, changes_global_behavior = False\<rparr>"

lemmas formation_ok_defs = sample_policy_input_def policy_input_ok_def formation_proposal_ok_def
  sample_proposal_def trimmed_length_ok_def js_trim_def js_space_def utf16_def identifier_ok_def
  ascii_alnum_def scope_ok_def score_ok_def

lemma policy_decides_witness:
  "\<exists>d. evaluate_automatic_memory_policy sample_policy_input = Inr d \<and> pd_disposition d = Disp_activate"
proof -
  have "policy_input_ok sample_policy_input" by (simp add: formation_ok_defs)
  from policy_decides [OF this] show ?thesis
    by (auto simp: sample_policy_input_def sample_proposal_def scope_requires_review_def
        meets_activation_thresholds_def dbl_0_9_def dbl_0_8_def dbl_0_85_def)
qed

lemma disabled_mode_proposes_nothing_witness:
  "snd (process (\<lambda>j. sample_hash) [] no_signals (sample_service Mode_disabled) sample_formation_job 0) = 0"
  by (rule disabled_mode_proposes_nothing [where obs = "\<lambda>n. n", THEN conjunct1])
     (simp_all add: sample_service_def keepsR_def)

lemmas formation_run_defs = process_def process_evidence_def process_proposal_def
  sample_formation_job_def sample_service_def no_signals_def sample_evidence_def raw_turn_def
  redact_provider_formation_turns_def redact_turn_def formation_turn_ok_def redaction_report_ok_def
  formation_request_def provider_request_ok_def reference_supported_def map_by_def exclusions_of_def
  evaluate_automatic_memory_policy_def policy_decision_of_def policy_decision_ok_def
  formation_candidate_def memory_candidate_ok_def validity_window_ok_def scope_requires_review_def
  meets_activation_thresholds_def target_scope_of_def dbl_0_9_def dbl_0_8_def dbl_0_85_def
  stable_identifier_def cited_text_def join_texts_def

lemma list_all_replicate: "list_all P (replicate n x) \<longleftrightarrow> n = 0 \<or> P x"
  by (auto simp: list_all_iff)

lemma sample_hash_slice: "take 41 (drop 7 sample_hash) = replicate 41 (CHR ''0'')"
  by (simp add: sample_hash_def)

lemma provider_is_contained_witness:
  "\<exists>r s'. process (\<lambda>j. sample_hash) [] no_signals (sample_service Mode_balanced) sample_formation_job 0
            = (Inr r, s') \<and> length (fr_admissions r) = 1"
proof -
  obtain r s' where run: "process (\<lambda>j. sample_hash) [] no_signals (sample_service Mode_balanced)
      sample_formation_job 0 = (Inr r, s')" and d: "map pd_disposition (fr_decisions r) = [Disp_activate]"
    by (simp add: formation_run_defs formation_ok_defs bindR_def Let_def sample_hash_slice
        list_all_replicate)
  from provider_is_contained [OF run]
  have "length (fr_admissions r) = length (filter (\<lambda>d. pd_disposition d \<noteq> Disp_reject) (fr_decisions r))"
    by (metis length_map)
  with d have "length (fr_admissions r) = 1" by (cases "fr_decisions r") auto
  with run show ?thesis by blast
qed

end
