(* ===== verification/LanePolicy.thy ===== *)
theory LanePolicy
  imports CanonicalJson
begin

text \<open>
  Recall lanes and the policies over them (\<open>packages/contracts/src/projections.ts\<close>): which lanes a
  request may use, which limits it runs under, and how a learned retrieval policy may narrow both.

  A limits object has fourteen keys which the code reads and writes by key (\<open>limits[key]\<close>), four
  required and ten optional, so it is a map from keys to optional integers. A \<open>parse\<close> of the code
  is the validity predicate of its schema followed by the error branch.
\<close>

subsection \<open>Lanes\<close>

datatype recall_lane =
  Recent_l1 | Topic | Scenario_procedure | Core | Relation_sqlite | Relation_graph | Semantic_vector

definition base_recall_lanes :: "recall_lane list" where
  "base_recall_lanes = [Recent_l1, Topic, Scenario_procedure, Core, Relation_sqlite]"

text \<open>\<open>RecallLaneSchema.options\<close>.\<close>

definition recall_lanes :: "recall_lane list" where
  "recall_lanes = base_recall_lanes @ [Relation_graph, Semantic_vector]"

fun lane_string :: "recall_lane \<Rightarrow> string" where
  "lane_string Recent_l1 = ''recent_l1''"
| "lane_string Topic = ''topic''"
| "lane_string Scenario_procedure = ''scenario_procedure''"
| "lane_string Core = ''core''"
| "lane_string Relation_sqlite = ''relation_sqlite''"
| "lane_string Relation_graph = ''relation_graph''"
| "lane_string Semantic_vector = ''semantic_vector''"

definition applicable_recall_lanes :: "recall_lane list \<Rightarrow> recall_lane list" where
  "applicable_recall_lanes requested =
     filter (\<lambda>l. l \<in> set base_recall_lanes \<or> l \<in> set requested) recall_lanes"

lemma recall_lanes_UNIV [simp]: "set recall_lanes = UNIV"
proof -
  have "l \<in> set recall_lanes" for l
    by (cases l) (simp_all add: recall_lanes_def base_recall_lanes_def)
  then show ?thesis by auto
qed

lemma distinct_recall_lanes [simp]: "distinct recall_lanes"
  by (simp add: recall_lanes_def base_recall_lanes_def)

instantiation recall_lane :: linorder
begin

definition less_eq_recall_lane :: "recall_lane \<Rightarrow> recall_lane \<Rightarrow> bool" where
  "less_eq_recall_lane a b \<longleftrightarrow> index_of a recall_lanes \<le> index_of b recall_lanes"

definition less_recall_lane :: "recall_lane \<Rightarrow> recall_lane \<Rightarrow> bool" where
  "less_recall_lane a b \<longleftrightarrow> index_of a recall_lanes < index_of b recall_lanes"

instance
proof
  fix a b :: recall_lane
  assume "a \<le> b" "b \<le> a"
  then show "a = b"
    by (cases a; cases b)
       (simp_all add: less_eq_recall_lane_def recall_lanes_def base_recall_lanes_def)
qed (auto simp: less_eq_recall_lane_def less_recall_lane_def)

end

subsection \<open>Limits\<close>

datatype limit_key =
  Max_candidates_per_lane | Relation_max_depth | Relation_max_fanout | Max_concurrent_lanes
| Max_projection_scan_per_lane | Max_source_revisions_per_batch
| Relation_max_starts | Relation_max_paths
| Graph_max_relation_allowlist | Graph_query_timeout_ms | Graph_max_response_bytes
| Vector_top_k | Vector_query_timeout_ms | Vector_max_response_bytes

type_synonym lane_limits = "limit_key \<Rightarrow> int option"

fun limit_key_string :: "limit_key \<Rightarrow> string" where
  "limit_key_string Max_candidates_per_lane = ''max_candidates_per_lane''"
| "limit_key_string Relation_max_depth = ''relation_max_depth''"
| "limit_key_string Relation_max_fanout = ''relation_max_fanout''"
| "limit_key_string Max_concurrent_lanes = ''max_concurrent_lanes''"
| "limit_key_string Max_projection_scan_per_lane = ''max_projection_scan_per_lane''"
| "limit_key_string Max_source_revisions_per_batch = ''max_source_revisions_per_batch''"
| "limit_key_string Relation_max_starts = ''relation_max_starts''"
| "limit_key_string Relation_max_paths = ''relation_max_paths''"
| "limit_key_string Graph_max_relation_allowlist = ''graph_max_relation_allowlist''"
| "limit_key_string Graph_query_timeout_ms = ''graph_query_timeout_ms''"
| "limit_key_string Graph_max_response_bytes = ''graph_max_response_bytes''"
| "limit_key_string Vector_top_k = ''vector_top_k''"
| "limit_key_string Vector_query_timeout_ms = ''vector_query_timeout_ms''"
| "limit_key_string Vector_max_response_bytes = ''vector_max_response_bytes''"

text \<open>The range \<open>LaneLimitsSchema\<close> gives each key.\<close>

fun limit_range :: "limit_key \<Rightarrow> int \<times> int" where
  "limit_range Max_candidates_per_lane = (1, 1000)"
| "limit_range Relation_max_depth = (0, 4)"
| "limit_range Relation_max_fanout = (1, 100)"
| "limit_range Max_concurrent_lanes = (1, int (length recall_lanes))"
| "limit_range Max_projection_scan_per_lane = (1, 100000)"
| "limit_range Max_source_revisions_per_batch = (1, 100000)"
| "limit_range Relation_max_starts = (1, 100)"
| "limit_range Relation_max_paths = (1, 1000)"
| "limit_range Graph_max_relation_allowlist = (1, 100000)"
| "limit_range Graph_query_timeout_ms = (1, 75)"
| "limit_range Graph_max_response_bytes = (1024, 16 * 1024 * 1024)"
| "limit_range Vector_top_k = (1, 100)"
| "limit_range Vector_query_timeout_ms = (1, 75)"
| "limit_range Vector_max_response_bytes = (1024, 16 * 1024 * 1024)"

definition required_limit_keys :: "limit_key list" where
  "required_limit_keys =
     [Max_candidates_per_lane, Max_concurrent_lanes, Relation_max_depth, Relation_max_fanout]"

definition optional_limit_keys :: "limit_key list" where
  "optional_limit_keys =
     [Max_projection_scan_per_lane, Max_source_revisions_per_batch, Relation_max_starts,
      Relation_max_paths, Graph_max_relation_allowlist, Graph_query_timeout_ms,
      Graph_max_response_bytes, Vector_top_k, Vector_query_timeout_ms, Vector_max_response_bytes]"

text \<open>\<open>DEFAULT_BOUNDED_RECALL_LIMITS\<close>; a required key has no default (\<open>undefined\<close>).\<close>

fun default_bounded_recall_limits :: "limit_key \<Rightarrow> int option" where
  "default_bounded_recall_limits Max_projection_scan_per_lane = Some 10000"
| "default_bounded_recall_limits Max_source_revisions_per_batch = Some 10000"
| "default_bounded_recall_limits Relation_max_starts = Some 100"
| "default_bounded_recall_limits Relation_max_paths = Some 100"
| "default_bounded_recall_limits Graph_max_relation_allowlist = Some 10000"
| "default_bounded_recall_limits Graph_query_timeout_ms = Some 75"
| "default_bounded_recall_limits Graph_max_response_bytes = Some 1048576"
| "default_bounded_recall_limits Vector_top_k = Some 50"
| "default_bounded_recall_limits Vector_query_timeout_ms = Some 75"
| "default_bounded_recall_limits Vector_max_response_bytes = Some 1048576"
| "default_bounded_recall_limits _ = None"

lemma limit_keys_all: "set required_limit_keys \<union> set optional_limit_keys = UNIV"
proof -
  have "k \<in> set required_limit_keys \<union> set optional_limit_keys" for k
    by (cases k) (simp_all add: required_limit_keys_def optional_limit_keys_def)
  then show ?thesis by auto
qed

lemma optional_not_required: "k \<in> set required_limit_keys \<longleftrightarrow> k \<notin> set optional_limit_keys"
  by (cases k) (simp_all add: required_limit_keys_def optional_limit_keys_def)

text \<open>\<open>LaneLimitOverridesSchema\<close> (every key optional) and \<open>LaneLimitsSchema\<close>.\<close>

definition limit_in_range :: "limit_key \<Rightarrow> int \<Rightarrow> bool" where
  "limit_in_range k v \<longleftrightarrow> fst (limit_range k) \<le> v \<and> v \<le> snd (limit_range k)"

definition limit_overrides_ok :: "lane_limits \<Rightarrow> bool" where
  "limit_overrides_ok l \<longleftrightarrow>
     list_all (\<lambda>k. case l k of None \<Rightarrow> True | Some v \<Rightarrow> limit_in_range k v)
       (required_limit_keys @ optional_limit_keys)"

definition lane_limits_ok :: "lane_limits \<Rightarrow> bool" where
  "lane_limits_ok l \<longleftrightarrow>
     list_all (\<lambda>k. l k \<noteq> None) required_limit_keys \<and> limit_overrides_ok l"

lemma limit_overrides_ok_iff:
  "limit_overrides_ok l \<longleftrightarrow> (\<forall>k v. l k = Some v \<longrightarrow> limit_in_range k v)"
proof -
  have "k \<in> set (required_limit_keys @ optional_limit_keys)" for k
    using limit_keys_all by auto
  then show ?thesis
    unfolding limit_overrides_ok_def list_all_iff by (auto split: option.splits)
qed

lemma lane_limits_ok_iff:
  "lane_limits_ok l \<longleftrightarrow> (\<forall>k \<in> set required_limit_keys. \<exists>v. l k = Some v)
     \<and> (\<forall>k v. l k = Some v \<longrightarrow> limit_in_range k v)"
  by (auto simp: lane_limits_ok_def limit_overrides_ok_iff list_all_iff)


subsection \<open>Policies\<close>

record lane_policy =
  allowed_lanes :: "recall_lane list"
  policy_limits :: lane_limits

record lane_request =
  requested_lanes :: "recall_lane list"
  request_limits :: lane_limits

record effective_lane_configuration =
  elc_policy_hash :: string
  elc_active_release :: "(string option \<times> string option)"
  elc_requested_lanes :: "recall_lane list"
  elc_enabled_lanes :: "recall_lane list"
  elc_limits :: lane_limits
  elc_reason_codes :: "string list"

datatype lane_policy_error =
  Policy_invalid | Request_invalid | Configuration_invalid
| Learned_widens_lanes | Learned_widens_limit limit_key

definition lane_policy_ok :: "lane_policy \<Rightarrow> bool" where
  "lane_policy_ok p \<longleftrightarrow> lane_limits_ok (policy_limits p)
     \<and> length (js_set (allowed_lanes p)) = length (allowed_lanes p)"

text \<open>\<open>LaneRequestOverridesSchema\<close>, and \<open>LearnedRetrievalPolicySchema\<close> but for its \<open>kind\<close>.\<close>

definition lane_request_ok :: "lane_request \<Rightarrow> bool" where
  "lane_request_ok r \<longleftrightarrow> limit_overrides_ok (request_limits r)
     \<and> length (js_set (requested_lanes r)) = length (requested_lanes r)"

definition reason_code_ok :: "string \<Rightarrow> bool" where
  "reason_code_ok s \<longleftrightarrow>
     1 \<le> length (js_trim (code_points s)) \<and> length (js_trim (code_points s)) \<le> 200"

definition effective_lane_configuration_ok :: "effective_lane_configuration \<Rightarrow> bool" where
  "effective_lane_configuration_ok c \<longleftrightarrow>
     lane_limits_ok (elc_limits c)
     \<and> list_all reason_code_ok (elc_reason_codes c)
     \<and> length (js_set (elc_requested_lanes c)) = length (elc_requested_lanes c)
     \<and> length (js_set (elc_enabled_lanes c)) = length (elc_enabled_lanes c)
     \<and> list_all (\<lambda>l. l \<in> set (elc_requested_lanes c)) (elc_enabled_lanes c)
     \<and> (fst (elc_active_release c) = None) = (snd (elc_active_release c) = None)"

text \<open>
  The limit a key of the policy stands for: \<open>policy.limits[key] ?? DEFAULT_BOUNDED_RECALL_LIMITS[key]\<close>.
\<close>

definition policy_limit :: "lane_policy \<Rightarrow> limit_key \<Rightarrow> int option" where
  "policy_limit p k = (case policy_limits p k of
       Some v \<Rightarrow> Some v | None \<Rightarrow> default_bounded_recall_limits k)"

text \<open>\<open>a > b\<close> on possibly undefined numbers: comparing with \<open>undefined\<close> is false.\<close>

definition exceeds :: "int \<Rightarrow> int option \<Rightarrow> bool" where
  "exceeds v m = (case m of None \<Rightarrow> False | Some w \<Rightarrow> w < v)"

text \<open>The two loops over the keys, which differ in what they compare the request with.\<close>

fun clamp_limits ::
  "(limit_key \<Rightarrow> int option) \<Rightarrow> lane_limits \<Rightarrow> limit_key list \<Rightarrow> lane_limits \<times> string list
     \<Rightarrow> lane_limits \<times> string list" where
  "clamp_limits policy_of overrides [] (limits, reasons) = (limits, reasons)"
| "clamp_limits policy_of overrides (k # ks) (limits, reasons) =
     clamp_limits policy_of overrides ks
       (case overrides k of
          None \<Rightarrow> (limits, reasons)
        | Some v \<Rightarrow>
            if exceeds v (policy_of k)
            then (limits, reasons @ [''LIMIT_CLAMPED_BY_POLICY:'' @ limit_key_string k])
            else (limits(k \<mapsto> v), reasons))"

definition limits_json :: "lane_limits \<Rightarrow> jval" where
  "limits_json l = jobj (map (\<lambda>k. (limit_key_string k, jint (the (l k))))
     (filter (\<lambda>k. l k \<noteq> None) (required_limit_keys @ optional_limit_keys)))"

definition lane_policy_json :: "lane_policy \<Rightarrow> jval" where
  "lane_policy_json p =
     jobj [(''allowed_lanes'', J_arr (map (\<lambda>l. jstr (lane_string l)) (allowed_lanes p))),
           (''limits'', limits_json (policy_limits p))]"

definition compute_effective_lane_configuration ::
  "(jval \<Rightarrow> string) \<Rightarrow> lane_policy \<Rightarrow> lane_request option
     \<Rightarrow> lane_policy_error + effective_lane_configuration" where
  "compute_effective_lane_configuration sha policy overrides_input =
     bindE (guardE (lane_policy_ok policy) Policy_invalid) (\<lambda>_.
     bindE (case overrides_input of
              None \<Rightarrow> Inr \<lparr>requested_lanes = allowed_lanes policy, request_limits = (\<lambda>_. None)\<rparr>
            | Some r \<Rightarrow> if lane_request_ok r then Inr r else Inl Request_invalid) (\<lambda>overrides.
     let requested = filter (\<lambda>l. l \<in> set (requested_lanes overrides)) recall_lanes;
         enabled = filter (\<lambda>l. l \<in> set (allowed_lanes policy)) requested;
         denied = map (\<lambda>l. ''LANE_DENIED_BY_POLICY:'' @ lane_string l)
                    (filter (\<lambda>l. l \<notin> set (allowed_lanes policy)) requested);
         step1 = clamp_limits (policy_limits policy) (request_limits overrides)
                   required_limit_keys (policy_limits policy, denied);
         step2 = clamp_limits (policy_limit policy) (request_limits overrides)
                   optional_limit_keys step1;
         config = \<lparr>elc_policy_hash = sha (lane_policy_json policy),
                   elc_active_release = (None, None),
                   elc_requested_lanes = requested, elc_enabled_lanes = enabled,
                   elc_limits = fst step2, elc_reason_codes = sort (snd step2)\<rparr>
     in if effective_lane_configuration_ok config then Inr config else Inl Configuration_invalid))"

subsection \<open>Narrowing by a learned policy\<close>

definition starts_with :: "string \<Rightarrow> string \<Rightarrow> bool" where
  "starts_with p s \<longleftrightarrow> take (length p) s = p"

fun narrow_limits ::
  "lane_policy \<Rightarrow> lane_limits \<Rightarrow> limit_key list \<Rightarrow> lane_limits \<Rightarrow> lane_policy_error + lane_limits" where
  "narrow_limits policy learned [] limits = Inr limits"
| "narrow_limits policy learned (k # ks) limits =
     (case learned k of
        None \<Rightarrow> narrow_limits policy learned ks limits
      | Some v \<Rightarrow>
          if starts_with ''graph_'' (limit_key_string k) \<or> starts_with ''vector_'' (limit_key_string k)
             \<or> exceeds v (policy_limit policy k)
          then Inl (Learned_widens_limit k)
          else narrow_limits policy learned ks (limits(k \<mapsto> v)))"

definition compute_narrowed_lane_policy ::
  "lane_policy \<Rightarrow> lane_request \<Rightarrow> lane_policy_error + lane_policy" where
  "compute_narrowed_lane_policy policy learned =
     bindE (guardE (lane_policy_ok policy) Policy_invalid) (\<lambda>_.
     bindE (guardE (lane_request_ok learned) Request_invalid) (\<lambda>_.
     bindE (guardE (\<not> list_ex (\<lambda>l. l \<notin> set (allowed_lanes policy)
                     \<or> l = Relation_graph \<or> l = Semantic_vector) (requested_lanes learned))
              Learned_widens_lanes) (\<lambda>_.
     bindE (narrow_limits policy (request_limits learned)
              (required_limit_keys @ optional_limit_keys) (policy_limits policy)) (\<lambda>limits.
     let narrowed = \<lparr>allowed_lanes = filter (\<lambda>l. l \<in> set (requested_lanes learned))
                                        (allowed_lanes policy),
                     policy_limits = limits\<rparr>
     in if lane_policy_ok narrowed then Inr narrowed else Inl Policy_invalid))))"


subsection \<open>What the loops compute\<close>

lemma clamp_limits_limits:
  "fst (clamp_limits pf ov ks x) k =
     (case ov k of None \<Rightarrow> fst x k
      | Some v \<Rightarrow> if k \<in> set ks \<and> \<not> exceeds v (pf k) then Some v else fst x k)"
proof (induction ks arbitrary: x)
  case (Cons k' ks)
  then show ?case by (cases x) (auto split: option.splits)
qed (simp split: option.splits prod.splits, metis fst_conv clamp_limits.simps(1) surj_pair)

lemma clamp_limits_reasons:
  "snd (clamp_limits pf ov ks x) =
     snd x @ map (\<lambda>k. ''LIMIT_CLAMPED_BY_POLICY:'' @ limit_key_string k)
           (filter (\<lambda>k. case ov k of None \<Rightarrow> False | Some v \<Rightarrow> exceeds v (pf k)) ks)"
proof (induction ks arbitrary: x)
  case (Cons k' ks)
  then show ?case by (cases x) (auto split: option.splits)
qed (metis (no_types) append_Nil2 clamp_limits.simps(1) filter.simps(1) list.map(1) surj_pair)

lemma policy_limit_total:
  assumes "lane_policy_ok p" shows "\<exists>v. policy_limit p k = Some v"
proof (cases "policy_limits p k")
  case None
  then have "k \<notin> set required_limit_keys"
    using assms by (auto simp: lane_policy_ok_def lane_limits_ok_iff)
  then show ?thesis using None
    by (cases k) (simp_all add: policy_limit_def required_limit_keys_def)
qed (simp add: policy_limit_def)

lemma policy_limit_required:
  "lane_policy_ok p \<Longrightarrow> k \<in> set required_limit_keys \<Longrightarrow> policy_limits p k = policy_limit p k"
  by (auto simp: lane_policy_ok_def lane_limits_ok_iff policy_limit_def split: option.splits)

lemma clamp_two_loops:
  assumes "lane_policy_ok p"
  shows "fst (clamp_limits (policy_limit p) ov optional_limit_keys
           (clamp_limits (policy_limits p) ov required_limit_keys (policy_limits p, r))) k =
     (case ov k of None \<Rightarrow> policy_limits p k
      | Some v \<Rightarrow> if exceeds v (policy_limit p k) then policy_limits p k else Some v)"
  using policy_limit_required [OF assms, of k] optional_not_required [of k]
  by (auto simp: clamp_limits_limits split: option.splits)

lemma clamp_two_loops_reasons:
  "snd (clamp_limits (policy_limit p) ov optional_limit_keys
           (clamp_limits (policy_limits p) ov required_limit_keys (policy_limits p, r))) =
     r @ map (\<lambda>k. ''LIMIT_CLAMPED_BY_POLICY:'' @ limit_key_string k)
           (filter (\<lambda>k. case ov k of None \<Rightarrow> False | Some v \<Rightarrow> exceeds v (policy_limits p k))
              required_limit_keys
            @ filter (\<lambda>k. case ov k of None \<Rightarrow> False | Some v \<Rightarrow> exceeds v (policy_limit p k))
              optional_limit_keys)"
  by (simp add: clamp_limits_reasons)

lemma js_trim_id:
  assumes "t \<noteq> []" and "\<not> js_space (hd t)" and "\<not> js_space (last t)"
  shows "js_trim t = t"
proof -
  have "dropWhile js_space t = t" using assms(1,2) by (cases t) auto
  moreover have "dropWhile js_space (rev t) = rev t"
    using assms(1,3) by (cases t rule: rev_cases) auto
  ultimately show ?thesis by (simp add: js_trim_def)
qed

lemma reason_code_okI:
  assumes "s \<noteq> []" "length s \<le> 200" "\<not> js_space (of_char (hd s))" "\<not> js_space (of_char (last s))"
  shows "reason_code_ok s"
proof -
  have "js_trim (code_points s) = code_points s"
    using assms by (intro js_trim_id) (auto simp: code_points_def hd_map last_map)
  then show ?thesis using assms by (cases s) (auto simp: reason_code_ok_def code_points_def)
qed

lemma reason_codes_ok:
  "reason_code_ok (''LANE_DENIED_BY_POLICY:'' @ lane_string l)"
  "reason_code_ok (''LIMIT_CLAMPED_BY_POLICY:'' @ limit_key_string k)"
  by (cases l; rule reason_code_okI; simp add: js_space_def)
     (cases k; rule reason_code_okI; simp add: js_space_def)

lemma narrow_limits_Inr:
  assumes "narrow_limits p learned ks l = Inr l'"
  shows "l' k = (if k \<in> set ks \<and> learned k \<noteq> None then learned k else l k)
    \<and> (k \<in> set ks \<longrightarrow> (\<forall>v. learned k = Some v \<longrightarrow> \<not> exceeds v (policy_limit p k)
          \<and> \<not> starts_with ''graph_'' (limit_key_string k)
          \<and> \<not> starts_with ''vector_'' (limit_key_string k)))"
  using assms
proof (induction ks arbitrary: l)
  case (Cons x xs)
  then show ?case by (cases "learned x") (auto split: if_splits)
qed simp

text \<open>The result of a request under a policy, when both are valid: no schema of the result can fail.\<close>

lemma compute_effective_eq:
  assumes "lane_policy_ok p" and "lane_request_ok r"
  shows "\<exists>c. compute_effective_lane_configuration sha p (Some r) = Inr c
    \<and> elc_enabled_lanes c = filter (\<lambda>l. l \<in> set (requested_lanes r) \<and> l \<in> set (allowed_lanes p))
                              recall_lanes
    \<and> (\<forall>k. elc_limits c k = (case request_limits r k of None \<Rightarrow> policy_limits p k
             | Some v \<Rightarrow> if exceeds v (policy_limit p k) then policy_limits p k else Some v))
    \<and> (\<forall>l \<in> set (requested_lanes r) - set (allowed_lanes p).
         ''LANE_DENIED_BY_POLICY:'' @ lane_string l \<in> set (elc_reason_codes c))
    \<and> (\<forall>k v. request_limits r k = Some v \<and> exceeds v (policy_limit p k) \<longrightarrow>
         ''LIMIT_CLAMPED_BY_POLICY:'' @ limit_key_string k \<in> set (elc_reason_codes c))"
proof -
  let ?req = "filter (\<lambda>l. l \<in> set (requested_lanes r)) recall_lanes"
  let ?en = "filter (\<lambda>l. l \<in> set (allowed_lanes p)) ?req"
  let ?den = "map (\<lambda>l. ''LANE_DENIED_BY_POLICY:'' @ lane_string l)
                (filter (\<lambda>l. l \<notin> set (allowed_lanes p)) ?req)"
  let ?step = "clamp_limits (policy_limit p) (request_limits r) optional_limit_keys
      (clamp_limits (policy_limits p) (request_limits r) required_limit_keys (policy_limits p, ?den))"
  let ?c = "\<lparr>elc_policy_hash = sha (lane_policy_json p), elc_active_release = (None, None),
      elc_requested_lanes = ?req, elc_enabled_lanes = ?en, elc_limits = fst ?step,
      elc_reason_codes = sort (snd ?step)\<rparr>"
  note lim = clamp_two_loops [OF assms(1), of "request_limits r" ?den]
  have "lane_limits_ok (fst ?step)"
    using assms unfolding lane_limits_ok_iff lim lane_request_ok_def limit_overrides_ok_iff
    by (auto simp: lane_policy_ok_def lane_limits_ok_iff split: option.splits if_splits)
  moreover have "list_all reason_code_ok (sort (snd ?step))"
    unfolding clamp_two_loops_reasons list_all_iff using reason_codes_ok by auto
  ultimately have ok: "effective_lane_configuration_ok ?c"
    by (simp add: effective_lane_configuration_ok_def length_js_set_iff list_all_iff)
  then have run: "compute_effective_lane_configuration sha p (Some r) = Inr ?c"
    using assms by (simp add: compute_effective_lane_configuration_def Let_def)
  have "''LIMIT_CLAMPED_BY_POLICY:'' @ limit_key_string k \<in> set (elc_reason_codes ?c)"
    if "request_limits r k = Some v" "exceeds v (policy_limit p k)" for k v
    using that policy_limit_required [OF assms(1), of k] optional_not_required [of k]
    by (cases "k \<in> set required_limit_keys") (auto simp: clamp_two_loops_reasons image_iff)
  moreover have "''LANE_DENIED_BY_POLICY:'' @ lane_string l \<in> set (elc_reason_codes ?c)"
    if "l \<in> set (requested_lanes r) - set (allowed_lanes p)" for l
    using that by (auto simp: clamp_two_loops_reasons)
  moreover have "?en = filter (\<lambda>l. l \<in> set (requested_lanes r) \<and> l \<in> set (allowed_lanes p)) recall_lanes"
    by (simp add: conj_commute)
  ultimately show ?thesis using run lim by (intro exI [of _ ?c]) simp
qed

subsection \<open>Properties\<close>

text \<open>A valid policy and a valid request always give an effective configuration (no schema of the
  result can fail), and it is the intersection of the two: the enabled lanes are the requested lanes
  the policy allows, in the fixed lane order; a limit is the requested one when that does not exceed
  the policy's limit (its default where the policy is silent) and the policy's own otherwise; and
  every lane or limit that was refused is recorded with a reason code.\<close>

theorem effective_configuration_is_intersection:
  assumes "lane_policy_ok p" and "lane_request_ok r"
  shows "\<exists>c. compute_effective_lane_configuration sha p (Some r) = Inr c
    \<and> elc_enabled_lanes c = filter (\<lambda>l. l \<in> set (requested_lanes r) \<and> l \<in> set (allowed_lanes p))
                              recall_lanes
    \<and> (\<forall>k. elc_limits c k = (case request_limits r k of None \<Rightarrow> policy_limits p k
             | Some v \<Rightarrow> if exceeds v (policy_limit p k) then policy_limits p k else Some v))
    \<and> (\<forall>l \<in> set (requested_lanes r) - set (allowed_lanes p).
         ''LANE_DENIED_BY_POLICY:'' @ lane_string l \<in> set (elc_reason_codes c))
    \<and> (\<forall>k v. request_limits r k = Some v \<and> exceeds v (policy_limit p k) \<longrightarrow>
         ''LIMIT_CLAMPED_BY_POLICY:'' @ limit_key_string k \<in> set (elc_reason_codes c))"
  using assms by (rule compute_effective_eq)

text \<open>A learned policy can only narrow. A narrowed policy allows a subset of the operator's lanes,
  enables neither the graph nor the vector lane, leaves their limits alone, and has in every key a
  limit no larger than the operator's; so a request gets, under the narrowed policy, a subset of the
  lanes it would get under the operator's.\<close>

theorem narrowing_never_widens:
  assumes "compute_narrowed_lane_policy p learned = Inr q"
  shows "set (allowed_lanes q) \<subseteq> set (allowed_lanes p) - {Relation_graph, Semantic_vector}
    \<and> (\<forall>k v w. policy_limit p k = Some v \<longrightarrow> policy_limit q k = Some w \<longrightarrow> w \<le> v)
    \<and> (\<forall>k. starts_with ''graph_'' (limit_key_string k) \<or> starts_with ''vector_'' (limit_key_string k)
         \<longrightarrow> policy_limits q k = policy_limits p k)
    \<and> (\<forall>r sha. lane_request_ok r \<longrightarrow> (\<exists>cp cq.
         compute_effective_lane_configuration sha p (Some r) = Inr cp
         \<and> compute_effective_lane_configuration sha q (Some r) = Inr cq
         \<and> set (elc_enabled_lanes cq) \<subseteq> set (elc_enabled_lanes cp)))"
proof -
  from assms obtain l where ok: "lane_policy_ok p" "lane_policy_ok q"
    and lanes: "\<forall>x \<in> set (requested_lanes learned). x \<in> set (allowed_lanes p)
                  \<and> x \<noteq> Relation_graph \<and> x \<noteq> Semantic_vector"
    and l: "narrow_limits p (request_limits learned) (required_limit_keys @ optional_limit_keys)
              (policy_limits p) = Inr l"
    and q: "allowed_lanes q = filter (\<lambda>x. x \<in> set (requested_lanes learned)) (allowed_lanes p)"
      "policy_limits q = l"
    unfolding compute_narrowed_lane_policy_def
    by (fastforce simp: bindE_Inr_iff Let_def list_ex_iff split: if_splits)
  have "k \<in> set (required_limit_keys @ optional_limit_keys)" for k
    using limit_keys_all by auto
  note lk = narrow_limits_Inr [OF l, simplified this]
  have le: "w \<le> v" if "policy_limit p k = Some v" "policy_limit q k = Some w" for k v w
    using that lk [of k]
    by (cases "request_limits learned k")
       (auto simp: policy_limit_def q exceeds_def split: option.splits)
  have "policy_limits q k = policy_limits p k"
    if "starts_with ''graph_'' (limit_key_string k) \<or> starts_with ''vector_'' (limit_key_string k)" for k
    using that lk [of k] by (cases "request_limits learned k") (auto simp: q)
  moreover have "\<exists>cp cq. compute_effective_lane_configuration sha p (Some r) = Inr cp
         \<and> compute_effective_lane_configuration sha q (Some r) = Inr cq
         \<and> set (elc_enabled_lanes cq) \<subseteq> set (elc_enabled_lanes cp)"
    if "lane_request_ok r" for r sha
    using compute_effective_eq [OF ok(1) that, of sha] compute_effective_eq [OF ok(2) that, of sha] q(1)
    by fastforce
  ultimately show ?thesis using lanes le q(1) by auto
qed


subsection \<open>Witnesses\<close>

definition sample_lane_policy :: lane_policy where
  "sample_lane_policy =
     \<lparr>allowed_lanes = [Topic, Core, Relation_graph],
      policy_limits = [Max_candidates_per_lane \<mapsto> 50, Max_concurrent_lanes \<mapsto> 3,
                       Relation_max_depth \<mapsto> 2, Relation_max_fanout \<mapsto> 10]\<rparr>"

definition sample_lane_request :: lane_request where
  "sample_lane_request =
     \<lparr>requested_lanes = [Core, Topic], request_limits = [Max_candidates_per_lane \<mapsto> 20, Vector_top_k \<mapsto> 100]\<rparr>"

lemmas lane_ok_defs = lane_policy_ok_def lane_request_ok_def lane_limits_ok_def limit_overrides_ok_def
  required_limit_keys_def optional_limit_keys_def limit_in_range_def recall_lanes_def
  base_recall_lanes_def sample_lane_policy_def sample_lane_request_def

lemma effective_configuration_is_intersection_witness:
  "\<exists>c. compute_effective_lane_configuration (\<lambda>j. ''h'') sample_lane_policy (Some sample_lane_request) = Inr c
    \<and> elc_enabled_lanes c = [Topic, Core]
    \<and> elc_limits c Max_candidates_per_lane = Some 20 \<and> elc_limits c Vector_top_k = None"
  using effective_configuration_is_intersection [of sample_lane_policy sample_lane_request "\<lambda>j. ''h''"]
  by (auto simp: lane_ok_defs policy_limit_def exceeds_def)

lemma narrowing_never_widens_witness:
  "set (allowed_lanes \<lparr>allowed_lanes = [Core],
      policy_limits = (policy_limits sample_lane_policy)(Max_candidates_per_lane \<mapsto> 20)\<rparr>)
     \<subseteq> set (allowed_lanes sample_lane_policy) - {Relation_graph, Semantic_vector}"
  by (rule narrowing_never_widens [where learned =
          "\<lparr>requested_lanes = [Core], request_limits = [Max_candidates_per_lane \<mapsto> 20]\<rparr>", THEN conjunct1])
     (simp add: compute_narrowed_lane_policy_def lane_ok_defs policy_limit_def exceeds_def
        starts_with_def Let_def fun_upd_twist)

end
