(* ===== verification/Projections.thy ===== *)
theory Projections
  imports LanePolicy MemoryModel
begin

text \<open>
  Derived projections and context frontiers (\<open>packages/contracts/src/projections.ts\<close>): payloads, the
  sources a projection is derived from, the projection revision with the checks of its schema, the
  lineage a projection carries into a context, the two versions of context frontiers, lane telemetry
  and conflict sets.
\<close>

subsection \<open>Payloads\<close>

datatype projection_type = Pt_topic | Pt_scenario | Pt_procedure | Pt_relation | Pt_core

datatype relation_type =
  Supports | Contradicts | Supersedes | Depends_on | Causes | Precedes | Belongs_to_topic
| Applies_to_scenario | References_entity

datatype projection_payload =
  Topic_payload (topic_key: ustring) (topic_summary: ustring) (open_items: "ustring list")
| Scenario_payload (scenario_key: ustring) (trigger: ustring) (preconditions: "ustring list")
    (outcomes: "ustring list")
| Procedure_payload (procedure_key: ustring) (goal: ustring) (procedure_preconditions: "ustring list")
    (steps: "ustring list") (exceptions: "ustring list") (failure_modes: "ustring list")
    (recovery_steps: "ustring list")
| Relation_payload (source_revision_id: string) (target_revision_id: string)
    (relation_type_of: relation_type) (directed: bool) (description: "ustring option")
| Core_payload (statement: ustring) (applicability: "ustring list") (constraints: "ustring list")
    (core_confidence: rat) (promotion_basis: "ustring list")

fun payload_kind :: "projection_payload \<Rightarrow> projection_type" where
  "payload_kind (Topic_payload k s is) = Pt_topic"
| "payload_kind (Scenario_payload k t ps os) = Pt_scenario"
| "payload_kind (Procedure_payload k g ps ss es fs rs) = Pt_procedure"
| "payload_kind (Relation_payload s t r d x) = Pt_relation"
| "payload_kind (Core_payload s as cs c ps) = Pt_core"

definition projection_text_ok :: "ustring \<Rightarrow> bool" where
  "projection_text_ok t \<longleftrightarrow> 1 \<le> length (utf16 (js_trim t)) \<and> length (utf16 (js_trim t)) \<le> 8000"

definition projection_key_ok :: "ustring \<Rightarrow> bool" where
  "projection_key_ok t \<longleftrightarrow> 1 \<le> length (utf16 (js_trim t)) \<and> length (utf16 (js_trim t)) \<le> 500"

definition text_list_ok :: "nat \<Rightarrow> ustring list \<Rightarrow> bool" where
  "text_list_ok least ts \<longleftrightarrow> list_all projection_text_ok ts \<and> least \<le> length ts \<and> length ts \<le> 100"

fun projection_payload_ok :: "projection_payload \<Rightarrow> bool" where
  "projection_payload_ok (Topic_payload k s is) \<longleftrightarrow>
     projection_key_ok k \<and> projection_text_ok s \<and> text_list_ok 0 is"
| "projection_payload_ok (Scenario_payload k t ps os) \<longleftrightarrow>
     projection_key_ok k \<and> projection_text_ok t \<and> text_list_ok 0 ps \<and> text_list_ok 0 os"
| "projection_payload_ok (Procedure_payload k g ps ss es fs rs) \<longleftrightarrow>
     projection_key_ok k \<and> projection_text_ok g \<and> text_list_ok 0 ps \<and> text_list_ok 1 ss
     \<and> text_list_ok 0 es \<and> text_list_ok 0 fs \<and> text_list_ok 0 rs"
| "projection_payload_ok (Relation_payload s t r d x) \<longleftrightarrow>
     identifier_ok s \<and> identifier_ok t
     \<and> (case x of None \<Rightarrow> True | Some y \<Rightarrow> projection_text_ok y) \<and> s \<noteq> t"
| "projection_payload_ok (Core_payload s as cs c ps) \<longleftrightarrow>
     projection_text_ok s \<and> text_list_ok 1 as \<and> text_list_ok 0 cs \<and> 0 \<le> c \<and> c \<le> 1
     \<and> text_list_ok 1 ps"

subsection \<open>Sources, frontiers, revisions\<close>

record projection_source =
  src_memory_id :: string
  src_revision_id :: string
  src_abstraction :: abstraction_level
  src_principal_id :: string
  src_scope :: scope
  src_authority :: authority
  src_sensitivity :: sensitivity
  src_validity :: validity_window
  src_content_hash :: string
  src_evidence_ids :: "string list"

definition projection_source_ok :: "projection_source \<Rightarrow> bool" where
  "projection_source_ok s \<longleftrightarrow>
     list_all identifier_ok ([src_memory_id s, src_revision_id s, src_principal_id s] @ src_evidence_ids s)
     \<and> src_abstraction s \<in> {L1_memory, L2_topic, L2_scenario, L2_relation}
     \<and> scope_ok (src_scope s) \<and> validity_window_ok (src_validity s)
     \<and> canonical_hash_ok (src_content_hash s) \<and> src_evidence_ids s \<noteq> []
     \<and> length (js_set (src_evidence_ids s)) = length (src_evidence_ids s)"

record projection_frontier =
  pf_ledger_epoch :: nat
  pf_tombstone_epoch :: nat
  pf_projection_epoch :: nat
  pf_transform :: transform_ref
  pf_source_frontier_hash :: string
  pf_projection_frontier_hash :: string

fun projection_abstraction :: "projection_type \<Rightarrow> abstraction_level" where
  "projection_abstraction Pt_topic = L2_topic"
| "projection_abstraction Pt_scenario = L2_scenario"
| "projection_abstraction Pt_procedure = L2_scenario"
| "projection_abstraction Pt_relation = L2_relation"
| "projection_abstraction Pt_core = L3_core"

fun abstraction_rank :: "abstraction_level \<Rightarrow> nat" where
  "abstraction_rank L0_evidence = 0"
| "abstraction_rank L1_memory = 1"
| "abstraction_rank L2_topic = 2"
| "abstraction_rank L2_scenario = 2"
| "abstraction_rank L2_relation = 2"
| "abstraction_rank L3_core = 3"

definition same_string_set :: "string list \<Rightarrow> string list \<Rightarrow> bool" where
  "same_string_set left right \<longleftrightarrow>
     (let ls = sort (js_set left); rs = sort (js_set right) in
      length left = length ls \<and> length ls = length rs \<and> list_all2 (\<lambda>x y. x = y) ls rs)"

record projection_revision =
  projection_id :: string
  projection_revision_id :: string
  proj_revision_no :: nat
  projection_type :: projection_type
  proj_abstraction :: abstraction_level
  proj_principal_id :: string
  proj_scope :: scope
  proj_lifecycle :: lifecycle
  proj_sensitivity :: sensitivity
  proj_validity :: validity_window
  proj_payload :: "projection_payload option"
  proj_content :: "content_ref option"
  proj_content_hash :: string
  source_revisions :: "projection_source list"
  proj_evidence_ids :: "string list"
  supersedes_projection :: "string option"
  proj_transform :: transform_ref
  proj_frontier :: projection_frontier
  proj_created_at :: timestamp
  invalidated_at :: "timestamp option"
  invalidation_reason :: "ustring option"

text \<open>The checks of one source against its projection (the loop of the \<open>superRefine\<close>).\<close>

definition source_admissible :: "projection_revision \<Rightarrow> projection_source \<Rightarrow> bool" where
  "source_admissible p s \<longleftrightarrow>
     \<not> (src_principal_id s \<noteq> proj_principal_id p \<or> src_scope s \<noteq> proj_scope p)
     \<and> \<not> abstraction_rank (src_abstraction s) \<ge> abstraction_rank (proj_abstraction p)
     \<and> \<not> sensitivity_rank (proj_sensitivity p) < sensitivity_rank (src_sensitivity s)
     \<and> \<not> (epoch_ms (valid_from (proj_validity p)) < epoch_ms (valid_from (src_validity s))
          \<or> epoch_ms (recorded_at (proj_validity p)) < epoch_ms (recorded_at (src_validity s))
          \<or> (case valid_to (src_validity s) of
               None \<Rightarrow> False
             | Some t \<Rightarrow> (case valid_to (proj_validity p) of
                            None \<Rightarrow> True | Some u \<Rightarrow> epoch_ms u > epoch_ms t)))"

definition projection_revision_ok :: "projection_revision \<Rightarrow> bool" where
  "projection_revision_ok p \<longleftrightarrow>
     list_all identifier_ok
       ([projection_id p, projection_revision_id p, proj_principal_id p] @ proj_evidence_ids p)
     \<and> 1 \<le> proj_revision_no p
     \<and> proj_abstraction p \<in> {L2_topic, L2_scenario, L2_relation, L3_core}
     \<and> scope_ok (proj_scope p) \<and> validity_window_ok (proj_validity p)
     \<and> (case proj_payload p of None \<Rightarrow> True | Some x \<Rightarrow> projection_payload_ok x)
     \<and> (case proj_content p of None \<Rightarrow> True | Some c \<Rightarrow> content_ref_ok c)
     \<and> canonical_hash_ok (proj_content_hash p)
     \<and> source_revisions p \<noteq> [] \<and> list_all projection_source_ok (source_revisions p)
     \<and> proj_evidence_ids p \<noteq> []
     \<and> (case invalidation_reason p of None \<Rightarrow> True | Some r \<Rightarrow> reason_ok r)
     \<and> projection_abstraction (projection_type p) = proj_abstraction p
     \<and> (case proj_payload p of None \<Rightarrow> True | Some x \<Rightarrow> payload_kind x = projection_type p)
     \<and> length (js_set (map src_revision_id (source_revisions p))) = length (source_revisions p)
     \<and> same_string_set (proj_evidence_ids p) (concat (map src_evidence_ids (source_revisions p)))
     \<and> list_all (source_admissible p) (source_revisions p)
     \<and> proj_transform p = pf_transform (proj_frontier p)
     \<and> (if proj_lifecycle p = Purged then proj_payload p = None \<and> proj_content p = None
        else proj_payload p \<noteq> None \<and> proj_content p \<noteq> None)
     \<and> (proj_lifecycle p \<in> {Superseded, Revoked, Quarantined, Purged})
         = (invalidated_at p \<noteq> None \<and> invalidation_reason p \<noteq> None)
     \<and> \<not> (proj_revision_no p = 1 \<and> supersedes_projection p \<noteq> None)
     \<and> \<not> (proj_revision_no p > 1 \<and> supersedes_projection p = None)
     \<and> (case proj_payload p of
          Some (Relation_payload s t r d x) \<Rightarrow>
            s \<in> set (map src_revision_id (source_revisions p))
            \<and> t \<in> set (map src_revision_id (source_revisions p))
        | _ \<Rightarrow> True)"

subsection \<open>Lineage\<close>

record projection_lineage =
  lin_projection_id :: string
  lin_projection_revision_id :: string
  lin_source_revision_ids :: "string list"
  lin_source_content_hashes :: "string list"
  lin_transform :: transform_ref
  lin_frontier :: projection_frontier

definition projection_lineage_ok :: "projection_lineage \<Rightarrow> bool" where
  "projection_lineage_ok l \<longleftrightarrow>
     list_all identifier_ok
       ([lin_projection_id l, lin_projection_revision_id l] @ lin_source_revision_ids l)
     \<and> lin_source_revision_ids l \<noteq> [] \<and> lin_source_content_hashes l \<noteq> []
     \<and> list_all canonical_hash_ok (lin_source_content_hashes l)
     \<and> length (js_set (lin_source_revision_ids l)) = length (lin_source_revision_ids l)
     \<and> length (lin_source_revision_ids l) = length (lin_source_content_hashes l)
     \<and> lin_transform l = pf_transform (lin_frontier l)"

definition transform_json :: "transform_ref \<Rightarrow> jval" where
  "transform_json t = jobj [(''name'', jstr (transform_name t)), (''version'', jstr (transform_version t))]"

definition projection_frontier_json :: "projection_frontier \<Rightarrow> jval" where
  "projection_frontier_json f = jobj
     [(''schema_version'', jstr ''1.0.0''), (''ledger_epoch'', jint (int (pf_ledger_epoch f))),
      (''tombstone_epoch'', jint (int (pf_tombstone_epoch f))),
      (''projection_epoch'', jint (int (pf_projection_epoch f))),
      (''transform'', transform_json (pf_transform f)),
      (''source_frontier_hash'', jstr (pf_source_frontier_hash f)),
      (''projection_frontier_hash'', jstr (pf_projection_frontier_hash f))]"

definition projection_lineage_json :: "projection_lineage \<Rightarrow> jval" where
  "projection_lineage_json l = jobj
     [(''projection_id'', jstr (lin_projection_id l)),
      (''projection_revision_id'', jstr (lin_projection_revision_id l)),
      (''source_revision_ids'', J_arr (map jstr (lin_source_revision_ids l))),
      (''source_content_hashes'', J_arr (map jstr (lin_source_content_hashes l))),
      (''transform'', transform_json (lin_transform l)),
      (''frontier'', projection_frontier_json (lin_frontier l))]"


fun projection_type_string :: "projection_type \<Rightarrow> string" where
  "projection_type_string Pt_topic = ''topic''"
| "projection_type_string Pt_scenario = ''scenario''"
| "projection_type_string Pt_procedure = ''procedure''"
| "projection_type_string Pt_relation = ''relation''"
| "projection_type_string Pt_core = ''core''"

definition projection_scope_json :: "scope \<Rightarrow> jval" where
  "projection_scope_json s =
     jobj [(''kind'', jstr (scope_kind_string (scope_kind_of s))), (''id'', jstr (scope_id s))]"

text \<open>\<open>deriveProjectionIdentity\<close>; \<open>sha\<close> is \<open>canonicalSha256\<close>, with its \<open>sha256:\<close> prefix.\<close>

definition projection_identity ::
  "(jval \<Rightarrow> string) \<Rightarrow> projection_type \<Rightarrow> string \<Rightarrow> scope \<Rightarrow> string list \<Rightarrow> transform_ref \<Rightarrow> string \<Rightarrow> string" where
  "projection_identity sha pt who sc rids tr h =
     ''projection:'' @ drop 7 (sha (jobj
       [(''projection_type'', jstr (projection_type_string pt)), (''principal_id'', jstr who),
        (''scope'', projection_scope_json sc),
        (''source_revision_ids'', J_arr (map jstr (sort rids))),
        (''transform'', transform_json tr), (''normalized_output_hash'', jstr h)]))"

definition derive_projection_identity :: "(jval \<Rightarrow> string) \<Rightarrow> projection_revision \<Rightarrow> string" where
  "derive_projection_identity sha p = projection_identity sha (projection_type p) (proj_principal_id p) (proj_scope p)
     (map src_revision_id (source_revisions p)) (proj_transform p) (proj_content_hash p)"

subsection \<open>Context frontiers\<close>

record scope_frontier =
  sf_scope :: scope
  sf_projection_epoch :: nat
  sf_source_frontier_hash :: string
  sf_projection_frontier_hash :: string
  sf_transform_versions :: "transform_ref list"

datatype context_frontier =
  Frontier_v1 (v1_ledger_epoch: nat) (v1_tombstone_epoch: nat) (v1_projection_epoch: nat)
    (v1_source_frontier_hash: string) (v1_projection_frontier_hash: string)
    (v1_transform_versions: "transform_ref list")
| Frontier_v2 (v2_ledger_epoch: nat) (v2_tombstone_epoch: nat)
    (scope_frontiers: "scope_frontier list") (aggregate_frontier_hash: string)

definition transform_identity :: "transform_ref \<Rightarrow> string" where
  "transform_identity t = transform_name t @ '':'' @ transform_version t"

text \<open>Neighbours in \<open>localeCompare\<close> order (\<open>index > 0 && key.localeCompare(keys[index - 1]) < 0\<close>).\<close>

fun locale_ascending :: "string list \<Rightarrow> bool" where
  "locale_ascending (x # y # zs) \<longleftrightarrow> \<not> locale_key y < locale_key x \<and> locale_ascending (y # zs)"
| "locale_ascending _ \<longleftrightarrow> True"

definition scope_frontier_ok :: "scope_frontier \<Rightarrow> bool" where
  "scope_frontier_ok f \<longleftrightarrow>
     scope_ok (sf_scope f) \<and> canonical_hash_ok (sf_source_frontier_hash f)
     \<and> canonical_hash_ok (sf_projection_frontier_hash f) \<and> sf_transform_versions f \<noteq> []
     \<and> (let ids = map transform_identity (sf_transform_versions f) in
        length (js_set ids) = length ids \<and> locale_ascending ids)"

definition scope_frontier_json :: "scope_frontier \<Rightarrow> jval" where
  "scope_frontier_json f = jobj
     [(''scope'', projection_scope_json (sf_scope f)),
      (''projection_epoch'', jint (int (sf_projection_epoch f))),
      (''source_frontier_hash'', jstr (sf_source_frontier_hash f)),
      (''projection_frontier_hash'', jstr (sf_projection_frontier_hash f)),
      (''transform_versions'', J_arr (map transform_json (sf_transform_versions f)))]"

fun context_frontier_ok :: "(jval \<Rightarrow> string) \<Rightarrow> context_frontier \<Rightarrow> bool" where
  "context_frontier_ok sha (Frontier_v1 l t p s h ts) \<longleftrightarrow>
     canonical_hash_ok s \<and> canonical_hash_ok h \<and> ts \<noteq> []
     \<and> length (js_set (map transform_identity ts)) = length (map transform_identity ts)"
| "context_frontier_ok sha (Frontier_v2 l t fs a) \<longleftrightarrow>
     fs \<noteq> [] \<and> list_all scope_frontier_ok fs \<and> canonical_hash_ok a
     \<and> (let keys = map (\<lambda>f. scope_key (sf_scope f)) fs in
        length (js_set keys) = length keys \<and> locale_ascending keys)
     \<and> a = sha (J_arr (map scope_frontier_json fs))"

definition build_context_frontier_v2 ::
  "(jval \<Rightarrow> string) \<Rightarrow> nat \<Rightarrow> nat \<Rightarrow> scope_frontier list \<Rightarrow> context_frontier option" where
  "build_context_frontier_v2 sha ledger tombstone input =
     (if input = [] \<or> \<not> list_all (\<lambda>f. scope_ok (sf_scope f)
            \<and> canonical_hash_ok (sf_source_frontier_hash f)
            \<and> canonical_hash_ok (sf_projection_frontier_hash f) \<and> sf_transform_versions f \<noteq> []) input
      then None else
      let fs = sort_key (\<lambda>f. locale_key (scope_key (sf_scope f)))
                 (map (\<lambda>f. f\<lparr>sf_transform_versions :=
                        sort_key (\<lambda>t. locale_key (transform_identity t)) (sf_transform_versions f)\<rparr>) input);
          frontier = Frontier_v2 ledger tombstone fs (sha (J_arr (map scope_frontier_json fs)))
      in if context_frontier_ok sha frontier then Some frontier else None)"

subsection \<open>Lane telemetry and conflict sets\<close>

datatype lane_status =
  Disabled_by_policy | Disabled_by_request | Unavailable | Stale | Empty | Eligible | Degraded

record bounded_work =
  bw_boundary :: string
  bw_configured_limit :: nat
  bw_observed_count :: nat
  bw_retained_count :: nat
  bw_truncated_count :: nat
  bw_complete :: bool
  bw_reason_code :: "string option"

definition bounded_work_ok :: "bounded_work \<Rightarrow> bool" where
  "bounded_work_ok w \<longleftrightarrow> 0 < bw_configured_limit w
     \<and> (case bw_reason_code w of None \<Rightarrow> True | Some c \<Rightarrow> reason_code_ok c)
     \<and> \<not> bw_retained_count w + bw_truncated_count w > bw_observed_count w
     \<and> \<not> (\<not> bw_complete w \<and> bw_reason_code w = None)"

record lane_telemetry =
  lt_lane :: recall_lane
  lt_status :: lane_status
  lt_duration_ms :: rat
  lt_candidate_count :: nat
  lt_eligible_count :: nat
  lt_selected_count :: nat
  lt_exclusion_counts :: "(string \<times> nat) list"
  lt_reason_codes :: "string list"
  lt_query_hashes :: "string list option"
  lt_bounded_work :: "bounded_work list option"

definition lane_telemetry_ok :: "lane_telemetry \<Rightarrow> bool" where
  "lane_telemetry_ok t \<longleftrightarrow>
     (let work = (case lt_bounded_work t of None \<Rightarrow> [] | Some w \<Rightarrow> w) in
     0 \<le> lt_duration_ms t
     \<and> list_all (\<lambda>p. reason_code_ok (fst p)) (lt_exclusion_counts t)
     \<and> list_all reason_code_ok (lt_reason_codes t)
     \<and> lt_bounded_work t \<noteq> Some [] \<and> list_all bounded_work_ok work
     \<and> (case lt_query_hashes t of None \<Rightarrow> True | Some hs \<Rightarrow> list_all canonical_hash_ok hs)
     \<and> \<not> (lt_selected_count t > lt_eligible_count t \<or> lt_eligible_count t > lt_candidate_count t)
     \<and> \<not> (lt_status t \<in> {Disabled_by_policy, Disabled_by_request}
          \<and> (lt_candidate_count t \<noteq> 0 \<or> lt_eligible_count t \<noteq> 0 \<or> lt_selected_count t \<noteq> 0))
     \<and> \<not> (lt_status t \<in> {Unavailable, Stale, Degraded} \<and> lt_reason_codes t = [])
     \<and> \<not> (lt_lane t \<noteq> Relation_graph \<and> lt_lane t \<noteq> Semantic_vector \<and> lt_query_hashes t \<noteq> None)
     \<and> (case lt_query_hashes t of None \<Rightarrow> True | Some hs \<Rightarrow> length (js_set hs) = length hs)
     \<and> length (js_set (map bw_boundary work)) = length (map bw_boundary work)
     \<and> \<not> (list_ex (\<lambda>w. \<not> bw_complete w) work
          \<and> lt_status t \<noteq> Degraded \<and> lt_status t \<noteq> Unavailable \<and> lt_status t \<noteq> Stale))"

record context_conflict_set =
  cs_conflict_group_id :: string
  cs_member_revision_ids :: "string list"
  cs_current_revision_id :: "string option"
  cs_reason :: ustring

definition context_conflict_set_ok :: "context_conflict_set \<Rightarrow> bool" where
  "context_conflict_set_ok c \<longleftrightarrow>
     identifier_ok (cs_conflict_group_id c) \<and> 2 \<le> length (cs_member_revision_ids c)
     \<and> list_all identifier_ok (cs_member_revision_ids c) \<and> reason_ok (cs_reason c)
     \<and> length (js_set (cs_member_revision_ids c)) = length (cs_member_revision_ids c)
     \<and> \<not> (case cs_current_revision_id c of None \<Rightarrow> False
           | Some r \<Rightarrow> r \<notin> set (cs_member_revision_ids c))"

subsection \<open>Properties\<close>

lemma locale_ascending_sorted: "locale_ascending xs \<longleftrightarrow> sorted (map locale_key xs)"
  by (induction xs rule: locale_ascending.induct) (auto simp: not_less dest: order_trans)

lemma same_string_set_iff: "same_string_set xs ys \<longleftrightarrow> distinct xs \<and> set xs = set ys"
proof -
  have "list_all2 (\<lambda>x y. x = y) as bs \<longleftrightarrow> as = bs" for as bs :: "string list"
    using list.rel_eq [where 'a = string] by (metis (mono_tags))
  moreover have "sort (js_set xs) = sort (js_set ys) \<longleftrightarrow> set xs = set ys"
    by (metis distinct_js_set set_js_set set_sort sorted_list_of_set_sort_remdups
        distinct_remdups_id sorted_sort distinct_sort sorted_distinct_set_unique)
  ultimately show ?thesis
    by (auto simp: same_string_set_def Let_def length_js_set_iff [symmetric] dest: arg_cong [of _ _ length])
qed

text \<open>A projection never widens its sources. In a valid projection every source shares its principal
  and scope, is of a lower abstraction and of no higher sensitivity; whenever the projection is valid
  each of its sources is; and its evidence is exactly the union of its sources' evidence.\<close>

theorem projection_within_sources:
  assumes "projection_revision_ok p"
  shows "(\<forall>s \<in> set (source_revisions p).
      src_principal_id s = proj_principal_id p \<and> src_scope s = proj_scope p
      \<and> abstraction_rank (src_abstraction s) < abstraction_rank (proj_abstraction p)
      \<and> src_sensitivity s \<le> proj_sensitivity p
      \<and> (\<forall>t. epoch_ms (valid_from (proj_validity p)) \<le> t
           \<and> (case valid_to (proj_validity p) of None \<Rightarrow> True | Some u \<Rightarrow> t < epoch_ms u)
           \<longrightarrow> epoch_ms (valid_from (src_validity s)) \<le> t
             \<and> (case valid_to (src_validity s) of None \<Rightarrow> True | Some u \<Rightarrow> t < epoch_ms u)))
    \<and> set (proj_evidence_ids p) = (\<Union>s \<in> set (source_revisions p). set (src_evidence_ids s))
    \<and> distinct (proj_evidence_ids p)"
proof -
  have "src_principal_id s = proj_principal_id p \<and> src_scope s = proj_scope p
      \<and> abstraction_rank (src_abstraction s) < abstraction_rank (proj_abstraction p)
      \<and> src_sensitivity s \<le> proj_sensitivity p
      \<and> (\<forall>t. epoch_ms (valid_from (proj_validity p)) \<le> t
           \<and> (case valid_to (proj_validity p) of None \<Rightarrow> True | Some u \<Rightarrow> t < epoch_ms u)
           \<longrightarrow> epoch_ms (valid_from (src_validity s)) \<le> t
             \<and> (case valid_to (src_validity s) of None \<Rightarrow> True | Some u \<Rightarrow> t < epoch_ms u))"
    if "source_admissible p s" for s
    using that by (auto simp: source_admissible_def less_eq_sensitivity_def split: option.splits)
  moreover have "list_all (source_admissible p) (source_revisions p)"
    "same_string_set (proj_evidence_ids p) (concat (map src_evidence_ids (source_revisions p)))"
    using assms by (auto simp: projection_revision_ok_def)
  ultimately show ?thesis by (auto simp: list_all_iff same_string_set_iff)
qed

definition id_chars :: string where
  "id_chars = ''0123456789abcdefghijklmnopqrstuvwxyzABCDEFGHIJKLMNOPQRSTUVWXYZ._:-''"

definition collation_recover :: "nat \<Rightarrow> nat \<Rightarrow> char" where
  "collation_recover i u = (let c = collation_order ! i in
     if u = 1 then char_of (of_char c - 32 :: nat) else c)"

lemma recover_all: "list_all (\<lambda>c. collation_recover (index_of (to_lower_ascii c) collation_order)
     (if is_upper c then 1 else 0) = c) id_chars"
  by code_simp

lemma locale_key_inj:
  assumes "set s \<subseteq> set id_chars" and "set t \<subseteq> set id_chars" and "locale_key s = locale_key t"
  shows "s = t"
proof -
  let ?i = "\<lambda>c. index_of (to_lower_ascii c) collation_order"
  let ?u = "\<lambda>c. if is_upper c then 1 else (0 :: nat)"
  have recov: "map (\<lambda>(i, u). collation_recover i u) (zip (map ?i x) (map ?u x)) = x"
    if "set x \<subseteq> set id_chars" for x
    using that recover_all by (induction x) (auto simp: list_all_iff)
  have eqs: "map ?i s = map ?i t" "map ?u s = map ?u t"
    using assms(3) unfolding locale_key_def prod.inject by (rule conjunct1, rule conjunct2)
  show ?thesis
    using recov [OF assms(1), unfolded eqs] recov [OF assms(2)] by (rule trans [OF sym])
qed

lemma ascii_alnum_id_chars:
  assumes "ascii_alnum c" shows "c \<in> set id_chars"
proof -
  have "of_char c \<in> set ([48..<58] @ [65..<91] @ [97..<123] :: nat list)"
    using assms by (simp only: ascii_alnum_def Let_def set_append set_upt Un_iff atLeastLessThan_iff) linarith
  then have "char_of (of_char c :: nat) \<in> set (map char_of ([48..<58] @ [65..<91] @ [97..<123] :: nat list))"
    by (simp only: set_map image_eqI [OF refl])
  moreover have "list_all (\<lambda>d. d \<in> set id_chars)
      (map char_of ([48..<58] @ [65..<91] @ [97..<123] :: nat list))"
    by code_simp
  ultimately show ?thesis by (simp only: list_all_iff char_of_char)
qed

lemma identifier_id_chars: "identifier_ok s \<Longrightarrow> set s \<subseteq> set id_chars"
proof -
  assume "identifier_ok s"
  then have "list_all (\<lambda>x. ascii_alnum x \<or> x \<in> set ''._:-'') s"
    by (cases s) (auto simp: identifier_ok_def)
  moreover have "set ''._:-'' \<subseteq> set id_chars" by (simp add: id_chars_def)
  ultimately show ?thesis using ascii_alnum_id_chars unfolding list_all_iff by blast
qed

lemma scope_key_id_chars: "scope_ok s \<Longrightarrow> set (scope_key s) \<subseteq> set id_chars"
  using identifier_id_chars [of "scope_id s"]
  by (cases "scope_kind_of s") (auto simp: scope_key_def scope_ok_def id_chars_def)

lemma sort_key_normalised_ok:
  assumes "scope_ok (sf_scope f)" "canonical_hash_ok (sf_source_frontier_hash f)"
    "canonical_hash_ok (sf_projection_frontier_hash f)" "sf_transform_versions f \<noteq> []"
    "distinct (map transform_identity (sf_transform_versions f))"
  shows "scope_frontier_ok (f\<lparr>sf_transform_versions :=
     sort_key (\<lambda>t. locale_key (transform_identity t)) (sf_transform_versions f)\<rparr>)"
proof -
  let ?ts = "sort_key (\<lambda>t. locale_key (transform_identity t)) (sf_transform_versions f)"
  have "mset (map transform_identity ?ts) = mset (map transform_identity (sf_transform_versions f))"
    by simp
  then have "distinct (map transform_identity ?ts)"
    using assms(5) mset_eq_imp_distinct_iff by blast
  moreover have "map locale_key (map transform_identity ?ts)
      = map (\<lambda>t. locale_key (transform_identity t)) ?ts" by simp
  then have "locale_ascending (map transform_identity ?ts)"
    unfolding locale_ascending_sorted map_map comp_def by simp
  moreover have "?ts \<noteq> []" using assms(4) by (metis length_0_conv length_sort)
  ultimately show ?thesis
    using assms by (simp add: scope_frontier_ok_def length_js_set_iff del: map_map)
qed

text \<open>A context frontier is canonical. From valid scope frontiers with distinct scopes and, in each,
  distinct transforms, a version 2 frontier is always built, its schema accepts it, and it does not
  depend on the order of the input when no two scopes are equal under \<open>localeCompare\<close>.\<close>

theorem context_frontier_canonical:
  assumes "\<And>j. canonical_hash_ok (sha j)" and "fs \<noteq> []"
    and "\<And>f. f \<in> set fs \<Longrightarrow> scope_ok (sf_scope f) \<and> canonical_hash_ok (sf_source_frontier_hash f)
        \<and> canonical_hash_ok (sf_projection_frontier_hash f) \<and> sf_transform_versions f \<noteq> []
        \<and> distinct (map transform_identity (sf_transform_versions f))"
    and "distinct (map sf_scope fs)" and "mset gs = mset fs"
  shows "\<exists>r. build_context_frontier_v2 sha l t fs = Some r \<and> context_frontier_ok sha r
    \<and> build_context_frontier_v2 sha l t gs = Some r"
proof -
  let ?norm = "\<lambda>f :: scope_frontier. f\<lparr>sf_transform_versions :=
             sort_key (\<lambda>t. locale_key (transform_identity t)) (sf_transform_versions f)\<rparr>"
  let ?key = "\<lambda>f :: scope_frontier. locale_key (scope_key (sf_scope f))"
  let ?fs = "sort_key ?key (map ?norm fs)"
  have "inj_on (\<lambda>f. locale_key (scope_key (sf_scope f))) (set fs)"
    using assms(3,4) locale_key_inj scope_key_id_chars
    by (auto simp: distinct_map inj_on_def) (metis scope_key_inj)
  then have dist: "distinct (map ?key fs)" using assms(4) by (simp add: distinct_map)
  have each: "list_all scope_frontier_ok ?fs"
    using assms(3) by (auto simp: list_all_iff intro!: sort_key_normalised_ok)
  have keys: "map ?key (map ?norm hs) = map ?key hs" for hs by simp
  have "mset (map ?key ?fs) = mset (map ?key (map ?norm fs))" by (simp only: mset_map mset_sort)
  then have "mset (map ?key ?fs) = mset (map ?key fs)" unfolding keys .
  then have "distinct (map ?key ?fs)" using dist mset_eq_imp_distinct_iff by blast
  then have "distinct (map locale_key (map (\<lambda>f. scope_key (sf_scope f)) ?fs))"
    unfolding map_map comp_def .
  then have "distinct (map (\<lambda>f. scope_key (sf_scope f)) ?fs)"
    unfolding distinct_map [of locale_key] by (rule conjunct1)
  moreover have "map locale_key (map (\<lambda>f. scope_key (sf_scope f)) ?fs) = map ?key ?fs" by simp
  then have "locale_ascending (map (\<lambda>f. scope_key (sf_scope f)) ?fs)"
    unfolding locale_ascending_sorted map_map comp_def by simp
  moreover have "length ?fs = length fs" by simp
  then have "?fs \<noteq> []" using assms(2) by fastforce
  ultimately have ok: "context_frontier_ok sha (Frontier_v2 l t ?fs (sha (J_arr (map scope_frontier_json ?fs))))"
    using each assms(1) unfolding context_frontier_ok.simps Let_def length_js_set_iff by blast
  have same: "sort_key ?key (map ?norm gs) = ?fs"
  proof (rule sort_key_permute)
    show "mset (map ?norm gs) = mset (map ?norm fs)" using assms(5) by simp
    show "distinct (map ?key (map ?norm gs))"
    proof -
      have "mset (map ?key gs) = mset (map ?key fs)" using assms(5) by simp
      then show ?thesis unfolding keys using dist mset_eq_imp_distinct_iff by blast
    qed
  qed
  have sets: "set gs = set fs" "gs \<noteq> []" using assms(2,5) by (auto dest: mset_eq_setD)
  have pre: "list_all (\<lambda>f. scope_ok (sf_scope f)
            \<and> canonical_hash_ok (sf_source_frontier_hash f)
            \<and> canonical_hash_ok (sf_projection_frontier_hash f) \<and> sf_transform_versions f \<noteq> []) hs"
    if "set hs = set fs" for hs
    using assms(3) that by (simp add: list_all_iff)
  have "build_context_frontier_v2 sha l t hs
      = Some (Frontier_v2 l t ?fs (sha (J_arr (map scope_frontier_json ?fs))))"
    if "hs \<noteq> []" "set hs = set fs" "sort_key ?key (map ?norm hs) = ?fs" for hs
    unfolding build_context_frontier_v2_def Let_def that(3)
    using ok pre [OF that(2)] that(1) by (simp only: simp_thms if_True if_False)
  then show ?thesis using ok assms(2) sets same by blast
qed

subsection \<open>Witnesses\<close>

definition sample_window :: validity_window where
  "sample_window = \<lparr>valid_from = Timestamp ''t0'' 0, valid_to = None, recorded_at = Timestamp ''t0'' 0\<rparr>"

definition sample_transform :: transform_ref where
  "sample_transform = \<lparr>transform_name = ''consolidate'', transform_version = ''1.0.0''\<rparr>"

definition sample_frontier :: projection_frontier where
  "sample_frontier = \<lparr>pf_ledger_epoch = 1, pf_tombstone_epoch = 0, pf_projection_epoch = 1,
     pf_transform = sample_transform, pf_source_frontier_hash = sample_hash,
     pf_projection_frontier_hash = sample_hash\<rparr>"

definition sample_source :: projection_source where
  "sample_source = \<lparr>src_memory_id = ''m1'', src_revision_id = ''r1'', src_abstraction = L1_memory,
     src_principal_id = ''u1'', src_scope = \<lparr>scope_kind_of = Sk_user, scope_id = ''u1''\<rparr>,
     src_authority = User_stated, src_sensitivity = Internal, src_validity = sample_window,
     src_content_hash = sample_hash, src_evidence_ids = [''e1'']\<rparr>"

definition sample_projection :: projection_revision where
  "sample_projection = \<lparr>projection_id = ''p1'', projection_revision_id = ''pr1'', proj_revision_no = 1,
     projection_type = Pt_topic, proj_abstraction = L2_topic, proj_principal_id = ''u1'',
     proj_scope = \<lparr>scope_kind_of = Sk_user, scope_id = ''u1''\<rparr>, proj_lifecycle = Active,
     proj_sensitivity = Personal, proj_validity = sample_window,
     proj_payload = Some (Topic_payload [107] [115] []), proj_content = Some (Inline [99] ''text/plain''),
     proj_content_hash = sample_hash, source_revisions = [sample_source], proj_evidence_ids = [''e1''],
     supersedes_projection = None, proj_transform = sample_transform, proj_frontier = sample_frontier,
     proj_created_at = Timestamp ''t0'' 0, invalidated_at = None, invalidation_reason = None\<rparr>"

lemmas projection_sample_defs = sample_window_def sample_transform_def sample_frontier_def
  sample_source_def sample_projection_def

lemma sample_projection_ok: "projection_revision_ok sample_projection"
  by (simp add: projection_revision_ok_def projection_sample_defs identifier_ok_def ascii_alnum_def
      scope_ok_def validity_window_ok_def projection_source_ok_def projection_key_ok_def
      projection_text_ok_def text_list_ok_def js_trim_def js_space_def utf16_def same_string_set_def
      source_admissible_def)

lemma projection_within_sources_witness:
  "distinct (proj_evidence_ids sample_projection)
   \<and> set (proj_evidence_ids sample_projection)
       = (\<Union>s \<in> set (source_revisions sample_projection). set (src_evidence_ids s))"
  using projection_within_sources [OF sample_projection_ok] by blast

definition sample_scope_frontier :: "string \<Rightarrow> scope_frontier" where
  "sample_scope_frontier i = \<lparr>sf_scope = \<lparr>scope_kind_of = Sk_user, scope_id = i\<rparr>, sf_projection_epoch = 1,
     sf_source_frontier_hash = sample_hash, sf_projection_frontier_hash = sample_hash,
     sf_transform_versions = [sample_transform]\<rparr>"

lemma context_frontier_canonical_witness:
  "build_context_frontier_v2 (\<lambda>j. sample_hash) 1 0 [sample_scope_frontier ''b'', sample_scope_frontier ''a'']
     = build_context_frontier_v2 (\<lambda>j. sample_hash) 1 0 [sample_scope_frontier ''a'', sample_scope_frontier ''b'']"
proof -
  have "\<exists>r. build_context_frontier_v2 (\<lambda>j. sample_hash) 1 0
        [sample_scope_frontier ''a'', sample_scope_frontier ''b''] = Some r
      \<and> context_frontier_ok (\<lambda>j. sample_hash) r
      \<and> build_context_frontier_v2 (\<lambda>j. sample_hash) 1 0
        [sample_scope_frontier ''b'', sample_scope_frontier ''a''] = Some r"
    by (rule context_frontier_canonical)
       (auto simp: sample_scope_frontier_def scope_ok_def identifier_ok_def ascii_alnum_def sample_transform_def)
  then show ?thesis by auto
qed

end
