(* ===== verification/HardFilters.thy ===== *)
theory HardFilters
  imports Projections
begin

text \<open>
  The hard filters of the layered compiler (\<open>packages/context-compiler/src/hard-filters.ts\<close>): a
  candidate recalled by a lane is prepared for ranking or excluded with a reason code. Graph-path
  and vector evidence are JSON carried along unread. The body of the loop over the candidates is
  \<open>filter_candidate\<close>: \<open>Inl\<close> the reason of the exclusion, \<open>Inr\<close> the prepared candidate.
\<close>

subsection \<open>Candidates\<close>

record search_item =
  si_memory_id :: string
  si_revision_id :: string
  si_lifecycle :: lifecycle
  si_kind :: memory_kind
  si_scope :: scope
  si_authority :: authority
  si_sensitivity :: sensitivity
  si_validity :: validity_window
  si_content :: content_ref
  si_content_hash :: string
  si_evidence_ids :: "string list"
  si_transform :: "transform_ref option"
  si_reason_codes :: "string list"

definition search_item_ok :: "search_item \<Rightarrow> bool" where
  "search_item_ok m \<longleftrightarrow>
     list_all identifier_ok ([si_memory_id m, si_revision_id m] @ si_evidence_ids m)
     \<and> scope_ok (si_scope m) \<and> validity_window_ok (si_validity m) \<and> content_ref_ok (si_content m)
     \<and> canonical_hash_ok (si_content_hash m) \<and> si_evidence_ids m \<noteq> []
     \<and> si_reason_codes m \<noteq> [] \<and> list_all (\<lambda>c. js_trim (code_points c) \<noteq> []) (si_reason_codes m)"

datatype layered_candidate =
  Memory_candidate (cand_lane: recall_lane) (cand_in_scope: scope) (cand_rank: rat)
    (cand_revalidated: bool) (cand_memory: search_item) (cand_vector: "jval option")
| Projection_candidate (cand_abstraction: abstraction_level) (cand_lane: recall_lane)
    (cand_in_scope: scope) (cand_rank: rat) (cand_revalidated: bool)
    (cand_projection: projection_revision) (cand_graph_path: "jval option")

text \<open>\<open>LayeredCompilerCandidateSchema\<close>.\<close>

fun layered_candidate_ok :: "layered_candidate \<Rightarrow> bool" where
  "layered_candidate_ok (Memory_candidate l s r v m x) \<longleftrightarrow>
     l \<in> {Recent_l1, Semantic_vector} \<and> scope_ok s \<and> search_item_ok m
     \<and> (l = Semantic_vector) = (x \<noteq> None)"
| "layered_candidate_ok (Projection_candidate a l s r v p g) \<longleftrightarrow>
     a \<in> {L2_topic, L2_scenario, L2_relation, L3_core}
     \<and> l \<in> {Topic, Scenario_procedure, Core, Relation_sqlite, Relation_graph}
     \<and> scope_ok s \<and> projection_revision_ok p \<and> (l = Relation_graph) = (g \<noteq> None)"

record prepared =
  pc_candidate :: layered_candidate
  pc_memory_id :: string
  pc_revision_id :: string
  pc_abstraction :: abstraction_level
  pc_lane :: recall_lane
  pc_scope :: scope
  pc_authority :: authority
  pc_sensitivity :: sensitivity
  pc_recorded_at :: timestamp
  pc_content :: content_ref
  pc_evidence_ids :: "string list"
  pc_rank :: rat
  pc_projection :: "projection_lineage option"
  pc_graph_path :: "jval option"
  pc_vector :: "jval option"
  pc_payload :: "projection_payload option"
  pc_conflict_group_id :: "string option"
  pc_reason_codes :: "string list"

record candidate_exclusion =
  ex_memory_id :: string
  ex_revision_id :: string
  ex_lane :: recall_lane
  ex_reason_code :: string
  ex_score :: "rat option"
  ex_graph_path :: "jval option"
  ex_vector :: "jval option"

fun lane_matches_abstraction :: "recall_lane \<Rightarrow> abstraction_level \<Rightarrow> bool" where
  "lane_matches_abstraction l L2_relation \<longleftrightarrow> l = Relation_sqlite \<or> l = Relation_graph"
| "lane_matches_abstraction l L2_topic \<longleftrightarrow> l = Topic"
| "lane_matches_abstraction l L2_scenario \<longleftrightarrow> l = Scenario_procedure"
| "lane_matches_abstraction l L3_core \<longleftrightarrow> l = Core"
| "lane_matches_abstraction l _ \<longleftrightarrow> False"

definition projection_lineage_of :: "projection_revision \<Rightarrow> projection_lineage" where
  "projection_lineage_of p =
     \<lparr>lin_projection_id = projection_id p, lin_projection_revision_id = projection_revision_id p,
      lin_source_revision_ids = map src_revision_id (source_revisions p),
      lin_source_content_hashes = map src_content_hash (source_revisions p),
      lin_transform = proj_transform p, lin_frontier = proj_frontier p\<rparr>"

fun same_projection_frontier :: "projection_revision \<Rightarrow> context_frontier \<Rightarrow> bool" where
  "same_projection_frontier p (Frontier_v2 ledger tombstone fs a) \<longleftrightarrow>
     (case List.find (\<lambda>f. scope_key (sf_scope f) = scope_key (proj_scope p)) fs of
        None \<Rightarrow> False
      | Some f \<Rightarrow>
          pf_ledger_epoch (proj_frontier p) = ledger
          \<and> pf_tombstone_epoch (proj_frontier p) = tombstone
          \<and> pf_projection_epoch (proj_frontier p) = sf_projection_epoch f
          \<and> pf_source_frontier_hash (proj_frontier p) = sf_source_frontier_hash f
          \<and> pf_projection_frontier_hash (proj_frontier p) = sf_projection_frontier_hash f
          \<and> list_ex (\<lambda>t. t = proj_transform p) (sf_transform_versions f))"
| "same_projection_frontier p (Frontier_v1 ledger tombstone epoch source_hash projection_hash ts) \<longleftrightarrow>
     pf_ledger_epoch (proj_frontier p) = ledger
     \<and> pf_tombstone_epoch (proj_frontier p) = tombstone
     \<and> pf_projection_epoch (proj_frontier p) = epoch
     \<and> pf_source_frontier_hash (proj_frontier p) = source_hash
     \<and> pf_projection_frontier_hash (proj_frontier p) = projection_hash
     \<and> list_ex (\<lambda>t. t = proj_transform p) ts"

fun exclusion_of :: "layered_candidate \<Rightarrow> string \<Rightarrow> candidate_exclusion" where
  "exclusion_of (Memory_candidate l s r v m x) reason =
     \<lparr>ex_memory_id = si_memory_id m, ex_revision_id = si_revision_id m, ex_lane = l,
      ex_reason_code = reason, ex_score = Some r, ex_graph_path = None, ex_vector = x\<rparr>"
| "exclusion_of (Projection_candidate a l s r v p g) reason =
     \<lparr>ex_memory_id = projection_id p, ex_revision_id = projection_revision_id p, ex_lane = l,
      ex_reason_code = reason, ex_score = Some r, ex_graph_path = g, ex_vector = None\<rparr>"

subsection \<open>The filter\<close>

record filter_options =
  fo_allowed_scopes :: "scope list"
  fo_as_of :: timestamp
  fo_include_sensitive :: bool
  fo_frontier :: context_frontier

definition outside_window :: "validity_window \<Rightarrow> timestamp \<Rightarrow> bool" where
  "outside_window v as_of \<longleftrightarrow> epoch_ms (valid_from v) > epoch_ms as_of
     \<or> (case valid_to v of None \<Rightarrow> False | Some t \<Rightarrow> epoch_ms t \<le> epoch_ms as_of)"

definition sensitivity_excluded :: "sensitivity \<Rightarrow> bool \<Rightarrow> bool" where
  "sensitivity_excluded s include_sensitive \<longleftrightarrow> s = Secret \<or> s = Sensitive \<and> \<not> include_sensitive"

fun filter_candidate :: "filter_options \<Rightarrow> layered_candidate \<Rightarrow> string + prepared" where
  "filter_candidate opts (Memory_candidate l s r v m x) =
     (if \<not> v then Inl ''CANONICAL_REVALIDATION_REQUIRED''
      else if scope_key s \<notin> set (map scope_key (fo_allowed_scopes opts)) then Inl ''SCOPE_EXCLUDED''
      else if scope_key (si_scope m) \<noteq> scope_key s \<or> si_lifecycle m \<noteq> Active
        then Inl ''CANONICAL_SOURCE_CHANGED''
      else if outside_window (si_validity m) (fo_as_of opts) then Inl ''OUTSIDE_VALIDITY''
      else if sensitivity_excluded (si_sensitivity m) (fo_include_sensitive opts)
        then Inl ''SENSITIVITY_EXCLUDED''
      else if \<not> is_inline (si_content m) then Inl ''CONTENT_NOT_INLINE''
      else Inr \<lparr>pc_candidate = Memory_candidate l s r v m x, pc_memory_id = si_memory_id m,
        pc_revision_id = si_revision_id m, pc_abstraction = L1_memory, pc_lane = l,
        pc_scope = si_scope m, pc_authority = si_authority m, pc_sensitivity = si_sensitivity m,
        pc_recorded_at = recorded_at (si_validity m), pc_content = si_content m,
        pc_evidence_ids = si_evidence_ids m, pc_rank = r, pc_projection = None,
        pc_graph_path = None, pc_vector = x, pc_payload = None, pc_conflict_group_id = None,
        pc_reason_codes = ''CANONICAL_REVALIDATED'' # si_reason_codes m\<rparr>)"
| "filter_candidate opts (Projection_candidate a l s r v p g) =
     (if \<not> v then Inl ''CANONICAL_REVALIDATION_REQUIRED''
      else if scope_key s \<notin> set (map scope_key (fo_allowed_scopes opts)) then Inl ''SCOPE_EXCLUDED''
      else case (proj_payload p, proj_content p) of
        (Some pl, Some content) \<Rightarrow>
          (if length (proj_principal_id p) = 0 \<or> scope_key (proj_scope p) \<noteq> scope_key s
              \<or> proj_lifecycle p \<noteq> Active \<or> \<not> is_inline content
           then Inl ''PROJECTION_INELIGIBLE''
           else if \<not> lane_matches_abstraction l (proj_abstraction p) \<or> a \<noteq> proj_abstraction p
             then Inl ''PROJECTION_LANE_MISMATCH''
           else if \<not> same_projection_frontier p (fo_frontier opts) then Inl ''PROJECTION_STALE_FRONTIER''
           else if sensitivity_excluded (proj_sensitivity p) (fo_include_sensitive opts)
             then Inl ''SENSITIVITY_EXCLUDED''
           else if outside_window (proj_validity p) (fo_as_of opts) then Inl ''OUTSIDE_VALIDITY''
           else Inr \<lparr>pc_candidate = Projection_candidate a l s r v p g, pc_memory_id = projection_id p,
             pc_revision_id = projection_revision_id p, pc_abstraction = proj_abstraction p,
             pc_lane = l, pc_scope = proj_scope p, pc_authority = Derived,
             pc_sensitivity = proj_sensitivity p, pc_recorded_at = recorded_at (proj_validity p),
             pc_content = content, pc_evidence_ids = proj_evidence_ids p, pc_rank = r,
             pc_projection = Some (projection_lineage_of p), pc_graph_path = g, pc_vector = None,
             pc_payload = Some pl, pc_conflict_group_id = None,
             pc_reason_codes = [''CANONICAL_REVALIDATED'', ''EXACT_PROJECTION_LINEAGE'',
               ''TRANSFORM:'' @ transform_identity (proj_transform p)]\<rparr>)
      | _ \<Rightarrow> Inl ''PROJECTION_INELIGIBLE'')"

definition hard_filter_layered_candidates ::
  "filter_options \<Rightarrow> layered_candidate list \<Rightarrow> prepared list \<times> candidate_exclusion list" where
  "hard_filter_layered_candidates opts cs =
     (sort_key (\<lambda>c. (locale_key (lane_string (pc_lane c)), locale_key (pc_revision_id c)))
        (concat (map (\<lambda>c. case filter_candidate opts c of Inl r \<Rightarrow> [] | Inr p \<Rightarrow> [p]) cs)),
      sort_key (\<lambda>e. (locale_key (lane_string (ex_lane e)), locale_key (ex_reason_code e),
                      locale_key (ex_revision_id e)))
        (concat (map (\<lambda>c. case filter_candidate opts c of Inl r \<Rightarrow> [exclusion_of c r] | Inr p \<Rightarrow> []) cs)))"


subsection \<open>Properties\<close>

lemma hard_filter_eligible_set:
  "set (fst (hard_filter_layered_candidates opts cs))
     = {p. \<exists>c \<in> set cs. filter_candidate opts c = Inr p}"
  by (auto simp: hard_filter_layered_candidates_def split: sum.splits)

lemma hard_filter_exclusion_set:
  "set (snd (hard_filter_layered_candidates opts cs))
     = {e. \<exists>c \<in> set cs. \<exists>r. filter_candidate opts c = Inl r \<and> e = exclusion_of c r}"
  by (auto simp: hard_filter_layered_candidates_def split: sum.splits) force+

lemma filter_candidate_pc: "filter_candidate opts c = Inr p \<Longrightarrow> pc_candidate p = c"
  by (cases c) (auto split: if_splits option.splits)

lemma filter_candidate_sound:
  assumes "filter_candidate opts c = Inr p"
  shows "cand_revalidated c \<and> pc_lane p = cand_lane c \<and> pc_scope p = cand_in_scope c
    \<and> pc_scope p \<in> set (fo_allowed_scopes opts)
    \<and> \<not> sensitivity_excluded (pc_sensitivity p) (fo_include_sensitive opts)
    \<and> is_inline (pc_content p)
    \<and> (case c of
         Memory_candidate l s r v m x \<Rightarrow>
           si_lifecycle m = Active \<and> \<not> outside_window (si_validity m) (fo_as_of opts)
           \<and> pc_abstraction p = L1_memory \<and> pc_projection p = None
       | Projection_candidate a l s r v q g \<Rightarrow>
           proj_lifecycle q = Active \<and> \<not> outside_window (proj_validity q) (fo_as_of opts)
           \<and> same_projection_frontier q (fo_frontier opts)
           \<and> lane_matches_abstraction l (proj_abstraction q)
           \<and> pc_projection p = Some (projection_lineage_of q))"
  using assms by (cases c) (auto split: if_splits option.splits)

lemma hard_filter_length:
  "length (fst (hard_filter_layered_candidates opts cs))
     + length (snd (hard_filter_layered_candidates opts cs)) = length cs"
proof -
  have "length (concat (map (\<lambda>c. case filter_candidate opts c of Inl r \<Rightarrow> [] | Inr p \<Rightarrow> [p]) cs))
     + length (concat (map (\<lambda>c. case filter_candidate opts c of Inl r \<Rightarrow> [exclusion_of c r] | Inr p \<Rightarrow> []) cs))
     = length cs"
    by (induction cs) (auto split: sum.splits)
  then show ?thesis by (simp add: hard_filter_layered_candidates_def)
qed

text \<open>The hard filter loses nothing and lets nothing through. Every candidate is either prepared or
  excluded with a reason, never both and never silently dropped; and a prepared one was revalidated,
  is in an allowed scope, has inline content, is active and inside its validity window at the
  request's instant, is neither secret nor, unless asked for, sensitive, and, when it is a
  projection, is at exactly the request's frontier and in the lane of its abstraction.\<close>

theorem hard_filter_partition:
  "length (fst (hard_filter_layered_candidates opts cs))
     + length (snd (hard_filter_layered_candidates opts cs)) = length cs
   \<and> (\<forall>p \<in> set (fst (hard_filter_layered_candidates opts cs)).
        pc_candidate p \<in> set cs \<and> cand_revalidated (pc_candidate p)
        \<and> pc_scope p \<in> set (fo_allowed_scopes opts) \<and> is_inline (pc_content p)
        \<and> pc_sensitivity p \<noteq> Secret
        \<and> (pc_sensitivity p = Sensitive \<longrightarrow> fo_include_sensitive opts)
        \<and> (case pc_candidate p of
             Memory_candidate l s r v m x \<Rightarrow>
               si_lifecycle m = Active \<and> \<not> outside_window (si_validity m) (fo_as_of opts)
           | Projection_candidate a l s r v q g \<Rightarrow>
               proj_lifecycle q = Active \<and> \<not> outside_window (proj_validity q) (fo_as_of opts)
               \<and> same_projection_frontier q (fo_frontier opts)
               \<and> lane_matches_abstraction l (proj_abstraction q)))
   \<and> (\<forall>c \<in> set cs. (\<exists>p \<in> set (fst (hard_filter_layered_candidates opts cs)). pc_candidate p = c)
        \<or> (\<exists>r. exclusion_of c r \<in> set (snd (hard_filter_layered_candidates opts cs))))"
proof (intro conjI ballI)
  show "length (fst (hard_filter_layered_candidates opts cs))
     + length (snd (hard_filter_layered_candidates opts cs)) = length cs" by (rule hard_filter_length)
next
  fix p assume "p \<in> set (fst (hard_filter_layered_candidates opts cs))"
  then obtain c where c: "c \<in> set cs" "filter_candidate opts c = Inr p"
    by (auto simp: hard_filter_eligible_set)
  note sound = filter_candidate_sound [OF c(2)] filter_candidate_pc [OF c(2)]
  show "pc_candidate p \<in> set cs" "cand_revalidated (pc_candidate p)"
    "pc_scope p \<in> set (fo_allowed_scopes opts)" "is_inline (pc_content p)"
    "pc_sensitivity p \<noteq> Secret" "pc_sensitivity p = Sensitive \<longrightarrow> fo_include_sensitive opts"
    using sound c by (auto simp: sensitivity_excluded_def)
  show "case pc_candidate p of
             Memory_candidate l s r v m x \<Rightarrow>
               si_lifecycle m = Active \<and> \<not> outside_window (si_validity m) (fo_as_of opts)
           | Projection_candidate a l s r v q g \<Rightarrow>
               proj_lifecycle q = Active \<and> \<not> outside_window (proj_validity q) (fo_as_of opts)
               \<and> same_projection_frontier q (fo_frontier opts)
               \<and> lane_matches_abstraction l (proj_abstraction q)"
    using sound by (auto split: layered_candidate.splits)
next
  fix c assume "c \<in> set cs"
  then show "(\<exists>p \<in> set (fst (hard_filter_layered_candidates opts cs)). pc_candidate p = c)
        \<or> (\<exists>r. exclusion_of c r \<in> set (snd (hard_filter_layered_candidates opts cs)))"
    unfolding hard_filter_eligible_set hard_filter_exclusion_set
    by (cases "filter_candidate opts c") (blast dest: filter_candidate_pc)+
qed

subsection \<open>Witness\<close>

definition sample_item :: "string \<Rightarrow> search_item" where
  "sample_item i = \<lparr>si_memory_id = ''m'', si_revision_id = i, si_lifecycle = Active, si_kind = Semantic,
     si_scope = \<lparr>scope_kind_of = Sk_user, scope_id = ''u1''\<rparr>, si_authority = User_stated,
     si_sensitivity = Internal, si_validity = sample_window, si_content = Inline [99] ''text/plain'',
     si_content_hash = sample_hash, si_evidence_ids = [''e1''], si_transform = None,
     si_reason_codes = [''RECENT'']\<rparr>"

definition sample_candidates :: "layered_candidate list" where
  "sample_candidates =
     [Memory_candidate Recent_l1 \<lparr>scope_kind_of = Sk_user, scope_id = ''u1''\<rparr> 1 True (sample_item ''r1'') None,
      Memory_candidate Recent_l1 \<lparr>scope_kind_of = Sk_user, scope_id = ''u2''\<rparr> 1 True (sample_item ''r2'') None]"

definition sample_filter :: filter_options where
  "sample_filter = \<lparr>fo_allowed_scopes = [\<lparr>scope_kind_of = Sk_user, scope_id = ''u1''\<rparr>],
     fo_as_of = Timestamp ''t'' 5, fo_include_sensitive = False,
     fo_frontier = Frontier_v1 1 0 1 sample_hash sample_hash [sample_transform]\<rparr>"

lemma hard_filter_partition_witness:
  "length (fst (hard_filter_layered_candidates sample_filter sample_candidates)) = 1
   \<and> length (snd (hard_filter_layered_candidates sample_filter sample_candidates)) = 1"
proof -
  have "length (fst (hard_filter_layered_candidates sample_filter sample_candidates)) = 1"
    by (simp add: hard_filter_layered_candidates_def sample_filter_def sample_candidates_def
        sample_item_def sample_window_def outside_window_def sensitivity_excluded_def)
  moreover have "length sample_candidates = 2" by (simp add: sample_candidates_def)
  ultimately show ?thesis
    using hard_filter_partition [of sample_filter sample_candidates] by simp
qed

end
