(* ===== verification/ConflictResolver.thy ===== *)
theory ConflictResolver
  imports HardFilters
begin

text \<open>
  Deduplication across lanes and abstractions (\<open>packages/context-compiler/src/conflict-resolver.ts\<close>):
  a revision recalled by several lanes is kept once, a topic with the lineage of a core statement
  and a memory that a retained projection was derived from are dropped, and members of a conflict
  set are marked with it and exempt from the last two.
\<close>

definition exclude_prepared :: "prepared \<Rightarrow> string \<Rightarrow> candidate_exclusion" where
  "exclude_prepared p reason =
     \<lparr>ex_memory_id = pc_memory_id p, ex_revision_id = pc_revision_id p, ex_lane = pc_lane p,
      ex_reason_code = reason, ex_score = Some (pc_rank p), ex_graph_path = pc_graph_path p,
      ex_vector = pc_vector p\<rparr>"

definition lineage_key :: "(jval \<Rightarrow> string) \<Rightarrow> prepared \<Rightarrow> string option" where
  "lineage_key sha p = (case pc_projection p of
       None \<Rightarrow> None
     | Some l \<Rightarrow> Some (sha (J_arr (map jstr (sort (lin_source_revision_ids l))))))"

text \<open>\<open>groupByRevision\<close>: of several conflict sets with the same member, the last is kept.\<close>

definition group_by_revision :: "context_conflict_set list \<Rightarrow> string \<Rightarrow> string option" where
  "group_by_revision sets = map_of (rev (concat (map (\<lambda>s.
     map (\<lambda>r. (r, cs_conflict_group_id s)) (cs_member_revision_ids s)) sets)))"

definition annotate :: "context_conflict_set list \<Rightarrow> prepared \<Rightarrow> prepared" where
  "annotate sets p = p\<lparr>pc_conflict_group_id := group_by_revision sets (pc_revision_id p)\<rparr>"

definition identity_order :: "prepared \<Rightarrow> (nat list \<times> nat list) \<times> nat" where
  "identity_order p = (locale_key (pc_revision_id p), if pc_lane p = Semantic_vector then 1 else 0)"

definition is_core :: "prepared \<Rightarrow> bool" where
  "is_core p \<longleftrightarrow> map_option payload_kind (pc_payload p) = Some Pt_core"

definition redundant_topic :: "(jval \<Rightarrow> string) \<Rightarrow> prepared list \<Rightarrow> prepared \<Rightarrow> bool" where
  "redundant_topic sha ps p \<longleftrightarrow> pc_conflict_group_id p = None
     \<and> map_option payload_kind (pc_payload p) = Some Pt_topic
     \<and> lineage_key sha p \<in> set (map (lineage_key sha) (filter is_core ps))"

definition abstracted_sources :: "prepared \<Rightarrow> string list" where
  "abstracted_sources p = (case pc_payload p of
       None \<Rightarrow> []
     | Some pl \<Rightarrow> if payload_kind pl \<noteq> Pt_relation
                 then (case pc_projection p of None \<Rightarrow> [] | Some l \<Rightarrow> lin_source_revision_ids l)
                 else [])"

definition abstracted_source_ids :: "prepared list \<Rightarrow> string list" where
  "abstracted_source_ids ps = concat (map abstracted_sources ps)"

definition redundant_memory :: "prepared list \<Rightarrow> prepared \<Rightarrow> bool" where
  "redundant_memory ps p \<longleftrightarrow> pc_abstraction p = L1_memory \<and> pc_conflict_group_id p = None
     \<and> pc_revision_id p \<in> set (abstracted_source_ids ps)"

record resolution =
  rs_candidates :: "prepared list"
  rs_exclusions :: "candidate_exclusion list"
  rs_conflict_sets :: "context_conflict_set list"

definition resolve_conflicts_and_dedupe ::
  "(jval \<Rightarrow> string) \<Rightarrow> prepared list \<Rightarrow> context_conflict_set list \<Rightarrow> resolution" where
  "resolve_conflicts_and_dedupe sha cs sets =
     (let annotated = sort_key identity_order (map (annotate sets) cs);
          unique = keep_first pc_revision_id [] annotated;
          duplicates = drop_first pc_revision_id [] annotated;
          without_topics = filter (\<lambda>p. \<not> redundant_topic sha unique p) unique;
          topics = filter (redundant_topic sha unique) unique;
          deduplicated = filter (\<lambda>p. \<not> redundant_memory without_topics p) without_topics;
          memories = filter (redundant_memory without_topics) without_topics
      in \<lparr>rs_candidates = deduplicated,
          rs_exclusions = sort_key (\<lambda>e. (locale_key (ex_reason_code e), locale_key (ex_revision_id e)))
            (map (\<lambda>p. exclude_prepared p ''DUPLICATE_CANDIDATE'') duplicates
             @ map (\<lambda>p. exclude_prepared p ''DEDUPED_BY_HIGHER_ABSTRACTION'') topics
             @ map (\<lambda>p. exclude_prepared p ''DEDUPED_BY_HIGHER_ABSTRACTION'') memories),
          rs_conflict_sets = filter (\<lambda>s.
            list_ex (\<lambda>r. r \<in> set (map pc_revision_id deduplicated)) (cs_member_revision_ids s)) sets\<rparr>)"

subsection \<open>Properties\<close>

lemma annotate_fields [simp]:
  "pc_revision_id (annotate sets p) = pc_revision_id p" "pc_payload (annotate sets p) = pc_payload p"
  "pc_projection (annotate sets p) = pc_projection p" "pc_abstraction (annotate sets p) = pc_abstraction p"
  "pc_conflict_group_id (annotate sets p) = group_by_revision sets (pc_revision_id p)"
  "pc_lane (annotate sets p) = pc_lane p"
  by (simp_all add: annotate_def)

lemma lineage_key_annotate [simp]: "lineage_key sha (annotate sets p) = lineage_key sha p"
  by (simp add: lineage_key_def)

lemma group_by_revision_Some:
  assumes "group_by_revision sets r = Some g"
  shows "\<exists>s \<in> set sets. cs_conflict_group_id s = g \<and> r \<in> set (cs_member_revision_ids s)"
  using assms by (auto simp: group_by_revision_def dest!: map_of_SomeD)

lemma abstracted_sources_None: "pc_payload p = None \<Longrightarrow> abstracted_sources p = []"
  by (simp add: abstracted_sources_def)

lemma resolution_counts:
  "length (rs_candidates (resolve_conflicts_and_dedupe sha cs sets))
     + length (rs_exclusions (resolve_conflicts_and_dedupe sha cs sets)) = length cs"
proof -
  define u where "u = keep_first pc_revision_id [] (sort_key identity_order (map (annotate sets) cs))"
  define d where "d = drop_first pc_revision_id [] (sort_key identity_order (map (annotate sets) cs))"
  define w where "w = filter (\<lambda>p. \<not> redundant_topic sha u p) u"
  have "length u + length d = length cs"
    using arg_cong [OF keep_drop_mset [of pc_revision_id "[]"
        "sort_key identity_order (map (annotate sets) cs)"], of size]
    by (simp add: u_def d_def)
  moreover have "length (filter (redundant_topic sha u) u) + length w = length u"
    unfolding w_def by (rule sum_length_filter_compl)
  moreover have "length (filter (redundant_memory w) w) + length (filter (\<lambda>p. \<not> redundant_memory w p) w)
      = length w" by (rule sum_length_filter_compl)
  ultimately show ?thesis
    by (simp add: resolve_conflicts_and_dedupe_def Let_def u_def [symmetric] d_def [symmetric]
        w_def [symmetric] del: filter_filter)
qed

text \<open>Deduplication loses no claim. Every candidate is either kept or excluded; a candidate that is
  not kept under its own revision is represented by a kept one: a core projection with the same
  lineage, or a projection, of a kind other than relation, derived from that very revision; a
  member of a conflict set is always kept under its own revision and marked with its set; and the
  kept candidates have distinct revisions.\<close>

theorem deduplication_is_covered:
  fixes cs :: "prepared list" and sets :: "context_conflict_set list" and sha :: "jval \<Rightarrow> string"
  assumes "\<And>p. p \<in> set cs \<Longrightarrow> pc_payload p \<noteq> None \<Longrightarrow> pc_abstraction p \<noteq> L1_memory"
  defines "r \<equiv> resolve_conflicts_and_dedupe sha cs sets"
  shows "length (rs_candidates r) + length (rs_exclusions r) = length cs
    \<and> distinct (map pc_revision_id (rs_candidates r))
    \<and> (\<forall>c \<in> set cs. \<exists>k \<in> set (rs_candidates r).
         pc_revision_id k = pc_revision_id c
           \<and> pc_conflict_group_id k = group_by_revision sets (pc_revision_id c)
         \<or> group_by_revision sets (pc_revision_id c) = None
           \<and> (is_core k \<and> (\<exists>d \<in> set cs. pc_revision_id d = pc_revision_id c \<and> lineage_key sha d = lineage_key sha k)
              \<or> pc_revision_id c \<in> set (abstracted_sources k)))"
proof (intro conjI ballI)
  let ?a = "sort_key identity_order (map (annotate sets) cs)"
  define u where "u = keep_first pc_revision_id [] ?a"
  define w where "w = filter (\<lambda>p. \<not> redundant_topic sha u p) u"
  have kept: "rs_candidates r = filter (\<lambda>p. \<not> redundant_memory w p) w"
    by (simp add: r_def resolve_conflicts_and_dedupe_def Let_def u_def w_def del: filter_filter)
  show "length (rs_candidates r) + length (rs_exclusions r) = length cs"
    unfolding r_def by (rule resolution_counts)
  show "distinct (map pc_revision_id (rs_candidates r))"
    unfolding kept w_def u_def by (intro distinct_map_filter keep_first_distinct)
  have u_sub: "set u \<subseteq> annotate sets ` set cs"
    unfolding u_def using keep_first_subset [of pc_revision_id "[]" ?a] by simp
  have abs: "pc_abstraction p \<noteq> L1_memory" if "p \<in> set u" "pc_payload p \<noteq> None" for p
    using u_sub that assms(1) by auto
  have stays: "p \<in> set (rs_candidates r)" if "p \<in> set w" "pc_payload p \<noteq> None" for p
    using that abs unfolding kept by (auto simp: redundant_memory_def w_def)
  fix c assume "c \<in> set cs"
  then have "pc_revision_id c \<in> pc_revision_id ` set ?a" by (simp add: image_image)
  then have "pc_revision_id c \<in> pc_revision_id ` set u"
    using keep_first_keys [of pc_revision_id "[]" ?a] by (simp add: u_def)
  then obtain k where k: "k \<in> set u" "pc_revision_id k = pc_revision_id c" by auto
  then obtain d where d: "d \<in> set cs" "k = annotate sets d" using u_sub by auto
  then have grp: "pc_conflict_group_id k = group_by_revision sets (pc_revision_id c)"
    using k(2) by simp
  show "\<exists>k \<in> set (rs_candidates r).
         pc_revision_id k = pc_revision_id c
           \<and> pc_conflict_group_id k = group_by_revision sets (pc_revision_id c)
         \<or> group_by_revision sets (pc_revision_id c) = None
           \<and> (is_core k \<and> (\<exists>d \<in> set cs. pc_revision_id d = pc_revision_id c \<and> lineage_key sha d = lineage_key sha k)
              \<or> pc_revision_id c \<in> set (abstracted_sources k))"
  proof (cases "redundant_topic sha u k")
    case True
    then obtain core where core: "core \<in> set u" "is_core core" "lineage_key sha core = lineage_key sha k"
      by (auto simp: redundant_topic_def)
    then have "core \<in> set w" by (auto simp: w_def redundant_topic_def is_core_def)
    moreover have "pc_payload core \<noteq> None" using core by (auto simp: is_core_def)
    ultimately have "core \<in> set (rs_candidates r)" by (rule stays)
    moreover have "pc_revision_id d = pc_revision_id c" "lineage_key sha d = lineage_key sha core"
      using d k core by simp_all
    ultimately show ?thesis
      using True grp core(2) d(1) by (fastforce simp: redundant_topic_def)
  next
    case False
    then have w: "k \<in> set w" using k by (simp add: w_def)
    show ?thesis
    proof (cases "redundant_memory w k")
      case True
      then obtain p where p: "p \<in> set w" "pc_revision_id k \<in> set (abstracted_sources p)"
        by (auto simp: redundant_memory_def abstracted_source_ids_def)
      then have "pc_payload p \<noteq> None" using abstracted_sources_None [of p] by (metis empty_iff list.set(1))
      with p(1) have "p \<in> set (rs_candidates r)" by (rule stays)
      with True grp k p show ?thesis by (auto simp: redundant_memory_def)
    next
      case False
      with w k grp show ?thesis unfolding kept by auto
    qed
  qed
qed


subsection \<open>Witness\<close>

definition sample_prepared :: "string \<Rightarrow> prepared" where
  "sample_prepared i = \<lparr>pc_candidate = hd sample_candidates, pc_memory_id = ''m'', pc_revision_id = i,
     pc_abstraction = L1_memory, pc_lane = Recent_l1, pc_scope = \<lparr>scope_kind_of = Sk_user, scope_id = ''u1''\<rparr>,
     pc_authority = User_stated, pc_sensitivity = Internal, pc_recorded_at = Timestamp ''t'' 0,
     pc_content = Inline [99] ''text/plain'', pc_evidence_ids = [''e1''], pc_rank = 1, pc_projection = None,
     pc_graph_path = None, pc_vector = None, pc_payload = None, pc_conflict_group_id = None,
     pc_reason_codes = [''RECENT'']\<rparr>"

lemma deduplication_is_covered_witness:
  "length (rs_candidates (resolve_conflicts_and_dedupe (\<lambda>j. ''h'') [sample_prepared ''a'', sample_prepared ''a''] []))
   + length (rs_exclusions (resolve_conflicts_and_dedupe (\<lambda>j. ''h'') [sample_prepared ''a'', sample_prepared ''a''] []))
   = 2"
  using deduplication_is_covered [of "[sample_prepared ''a'', sample_prepared ''a'']" "\<lambda>j. ''h''" "[]"]
  by (simp add: sample_prepared_def)

end
