(* ===== verification/TokenPacker.thy ===== *)
theory TokenPacker
  imports LanePolicy
begin

text \<open>
  Token estimation and packing (\<open>packages/context-compiler/src/token-packer.ts\<close>). A packable item
  carries a value of any type. \<open>packContextItems\<close> orders the items (required ones, then the best of
  every lane, then the rest) and takes each one that still fits the budget.
\<close>

subsection \<open>Estimates\<close>

definition estimate_context_tokens :: "ustring \<Rightarrow> nat" where
  "estimate_context_tokens t =
     (let ascii = length (filter (\<lambda>c. c \<le> 127) t); other = length (filter (\<lambda>c. \<not> c \<le> 127) t)
      in (ascii + 3) div 4 + other * 2)"

definition estimate_structured_tokens ::
  "(rat \<Rightarrow> ustring) \<Rightarrow> jval \<Rightarrow> canonical_json_error + nat" where
  "estimate_structured_tokens ft v =
     bindE (canonical_json ft (of_jval v)) (\<lambda>t. Inr (estimate_context_tokens t))"

subsection \<open>Packing\<close>

record 'a packable =
  pk_key :: string
  pk_lane :: recall_lane
  pk_priority :: nat
  pk_score :: rat
  pk_tokens :: nat
  pk_item :: 'a

definition lane_order :: "recall_lane list" where
  "lane_order = [Recent_l1, Topic, Scenario_procedure, Core, Relation_sqlite, Relation_graph,
                 Semantic_vector]"

text \<open>The key of \<open>scoreOrder\<close>: higher priority first, then higher score, then \<open>localeCompare\<close>.\<close>

definition score_order :: "'a packable \<Rightarrow> int \<times> rat \<times> nat list \<times> nat list" where
  "score_order c = (- int (pk_priority c), - pk_score c, locale_key (pk_key c))"

definition required_items :: "'a packable list \<Rightarrow> 'a packable list" where
  "required_items cs = sort_key score_order (filter (\<lambda>c. pk_priority c > 0) cs)"

definition remaining_items :: "'a packable list \<Rightarrow> 'a packable list" where
  "remaining_items cs = sort_key score_order (filter (\<lambda>c. pk_priority c = 0) cs)"

definition lane_minimums :: "'a packable list \<Rightarrow> 'a packable list" where
  "lane_minimums remaining = concat (map (\<lambda>l.
     case List.find (\<lambda>c. pk_lane c = l) remaining of None \<Rightarrow> [] | Some c \<Rightarrow> [c]) lane_order)"

definition packing_order :: "'a packable list \<Rightarrow> 'a packable list" where
  "packing_order cs =
     (let remaining = remaining_items cs; minimums = lane_minimums remaining in
      required_items cs @ minimums
      @ filter (\<lambda>c. pk_key c \<notin> set (map pk_key minimums)) remaining)"

text \<open>The loop: what was decided, in order, with the tokens used so far.\<close>

fun pack_loop :: "nat \<Rightarrow> nat \<Rightarrow> 'a packable list \<Rightarrow> ('a packable \<times> bool) list \<times> nat" where
  "pack_loop budget used [] = ([], used)"
| "pack_loop budget used (c # cs) =
     (if used + pk_tokens c > budget
      then (let (ds, u) = pack_loop budget used cs in ((c, False) # ds, u))
      else (let (ds, u) = pack_loop budget (used + pk_tokens c) cs in ((c, True) # ds, u)))"

record 'a packed =
  packed_included :: "'a packable list"
  packed_decisions :: "('a packable \<times> bool) list"
  packed_token_used :: nat

definition pack_context_items :: "'a packable list \<Rightarrow> int \<Rightarrow> 'a packed option" where
  "pack_context_items cs budget =
     (if budget < 1 \<or> budget > 32000 then None else
      let (ds, used) = pack_loop (nat budget) 0 (packing_order cs) in
      Some \<lparr>packed_included = map fst (filter snd ds), packed_decisions = ds,
            packed_token_used = used\<rparr>)"

subsection \<open>The loop\<close>

definition taken :: "('a packable \<times> bool) list \<Rightarrow> nat" where
  "taken ds = sum_list (map pk_tokens (map fst (filter snd ds)))"

lemma taken_simps [simp]:
  "taken [] = 0" "taken ((c, b) # ds) = (if b then pk_tokens c else 0) + taken ds"
  by (simp_all add: taken_def)

lemma taken_append [simp]: "taken (xs @ ys) = taken xs + taken ys"
  by (simp add: taken_def)

lemma pack_loop_order: "map fst (fst (pack_loop budget used cs)) = cs"
  by (induction cs arbitrary: used) (auto split: prod.splits, metis fst_conv, metis fst_conv)

lemma pack_loop_used: "snd (pack_loop budget used cs) = used + taken (fst (pack_loop budget used cs))"
proof (induction cs arbitrary: used)
  case (Cons c cs)
  then show ?case
    using Cons.IH [of used] Cons.IH [of "used + pk_tokens c"] by (simp add: split_beta)
qed simp

lemma pack_loop_bound: "used \<le> budget \<Longrightarrow> snd (pack_loop budget used cs) \<le> budget"
proof (induction cs arbitrary: used)
  case (Cons c cs)
  then show ?case by (simp add: split_beta)
qed simp

lemma pack_loop_mono: "used \<le> snd (pack_loop budget used cs)"
  by (simp add: pack_loop_used)

lemma pack_loop_refused:
  "(c, False) \<in> set (fst (pack_loop budget used cs)) \<Longrightarrow>
     snd (pack_loop budget used cs) + pk_tokens c > budget"
proof (induction cs arbitrary: used)
  case (Cons x xs)
  show ?case
  proof (cases "used + pk_tokens x > budget")
    case True
    then show ?thesis
      using Cons pack_loop_mono [of used budget xs] by (auto simp: split_beta)
  next
    case False
    then show ?thesis using Cons by (auto simp: split_beta)
  qed
qed simp

lemma pack_loop_append:
  "pack_loop budget used (xs @ ys) =
     (let (d1, u1) = pack_loop budget used xs; (d2, u2) = pack_loop budget u1 ys in (d1 @ d2, u2))"
  by (induction xs arbitrary: used) (auto simp: Let_def split_beta)

subsection \<open>The order is a permutation\<close>

lemma lane_minimums_subset: "set (lane_minimums r) \<subseteq> set r"
  by (auto simp: lane_minimums_def split: option.splits dest: find_Some_mem [OF sym])

lemma lane_order_distinct: "distinct lane_order"
  by (simp add: lane_order_def)

lemma lane_minimums_distinct: "distinct (lane_minimums r)"
proof -
  have "distinct (concat (map (\<lambda>l. case List.find (\<lambda>c. pk_lane c = l) r of None \<Rightarrow> [] | Some c \<Rightarrow> [c]) ls))"
    if "distinct ls" for ls
    using that
  proof (induction ls)
    case (Cons l ls)
    have "pk_lane c \<noteq> l" if "c \<in> set (concat (map (\<lambda>l. case List.find (\<lambda>c. pk_lane c = l) r of
        None \<Rightarrow> [] | Some c \<Rightarrow> [c]) ls))" for c
      using that Cons.prems by (auto split: option.splits dest!: find_Some_mem [OF sym] find_Some_mem)
    with Cons show ?case by (auto split: option.splits dest!: find_Some_mem [OF sym] find_Some_mem)
  qed simp
  then show ?thesis using lane_order_distinct by (simp add: lane_minimums_def)
qed

lemma mset_packing_order:
  assumes "distinct (map pk_key cs)"
  shows "mset (packing_order cs) = mset cs"
proof -
  let ?r = "remaining_items cs" and ?m = "lane_minimums (remaining_items cs)"
  have r: "mset ?r = mset (filter (\<lambda>c. pk_priority c = 0) cs)" by (simp add: remaining_items_def)
  have dr: "distinct (map pk_key ?r)"
  proof -
    have "distinct (map pk_key (filter (\<lambda>c. pk_priority c = 0) cs))"
      using assms by (rule distinct_map_filter)
    moreover have "mset (map pk_key ?r) = mset (map pk_key (filter (\<lambda>c. pk_priority c = 0) cs))"
      unfolding mset_map r ..
    ultimately show ?thesis using mset_eq_imp_distinct_iff by blast
  qed
  then have inj: "inj_on pk_key (set ?r)" and d: "distinct ?r" by (simp_all add: distinct_map)
  have "filter (\<lambda>c. pk_key c \<notin> set (map pk_key ?m)) ?r = filter (\<lambda>c. c \<notin> set ?m) ?r"
    using inj lane_minimums_subset [of ?r]
    by (intro filter_cong refl) (auto simp: inj_on_def)
  moreover have "mset ?m = mset (filter (\<lambda>c. c \<in> set ?m) ?r)"
  proof (rule set_eq_iff_mset_eq_distinct [THEN iffD1])
    show "distinct ?m" by (rule lane_minimums_distinct)
    show "distinct (filter (\<lambda>c. c \<in> set ?m) ?r)" using d by simp
    show "set ?m = set (filter (\<lambda>c. c \<in> set ?m) ?r)" using lane_minimums_subset [of ?r] by auto
  qed
  ultimately have "mset ?m + mset (filter (\<lambda>c. pk_key c \<notin> set (map pk_key ?m)) ?r) = mset ?r"
    by (simp only: mset_partition)
  then have "mset (packing_order cs) = mset (required_items cs) + mset ?r"
    by (simp add: packing_order_def Let_def)
  also have "\<dots> = mset (filter (\<lambda>c. pk_priority c > 0) cs) + mset (filter (\<lambda>c. \<not> pk_priority c > 0) cs)"
    by (simp add: required_items_def r)
  finally show ?thesis by (simp only: mset_partition)
qed


subsection \<open>Properties\<close>

lemma pack_context_items_Some:
  assumes "pack_context_items cs budget = Some r"
  shows "1 \<le> budget" "budget \<le> 32000"
    and "packed_decisions r = fst (pack_loop (nat budget) 0 (packing_order cs))"
    and "packed_token_used r = taken (packed_decisions r)"
    and "packed_included r = map fst (filter snd (packed_decisions r))"
  using assms pack_loop_used [of "nat budget" 0 "packing_order cs"]
  by (auto simp: pack_context_items_def split_beta Let_def split: if_splits)

text \<open>C33: packing decides every candidate once and never overspends. For candidates with distinct keys
  the decisions are a permutation of the candidates, the included ones are those decided to be, the
  reported usage is the sum of their estimates and stays within the budget; and packing is maximal:
  a refused candidate does not fit beside the included ones.\<close>

theorem packing_within_budget:
  assumes "pack_context_items cs budget = Some r" and "distinct (map pk_key cs)"
  shows "mset (map fst (packed_decisions r)) = mset cs
    \<and> packed_included r = map fst (filter snd (packed_decisions r))
    \<and> packed_token_used r = sum_list (map pk_tokens (packed_included r))
    \<and> int (packed_token_used r) \<le> budget
    \<and> (\<forall>c. (c, False) \<in> set (packed_decisions r) \<longrightarrow>
         int (packed_token_used r + pk_tokens c) > budget)"
proof -
  note r = pack_context_items_Some [OF assms(1)]
  let ?l = "pack_loop (nat budget) 0 (packing_order cs)"
  have used: "packed_token_used r = snd ?l" by (simp only: r(3,4) pack_loop_used add_0)
  then have "packed_token_used r \<le> nat budget" using pack_loop_bound [of 0 "nat budget"] by simp
  moreover have "nat budget < packed_token_used r + pk_tokens c"
    if "(c, False) \<in> set (packed_decisions r)" for c
    using pack_loop_refused that used r(3) by metis
  ultimately show ?thesis
    using r pack_loop_order [of "nat budget" 0 "packing_order cs"] mset_packing_order [OF assms(2)]
    by (fastforce simp: taken_def)
qed

text \<open>Optional items never displace required ones. A refused candidate of positive constraint
  priority would exceed the budget beside the included required candidates alone.\<close>

theorem required_items_first:
  assumes "pack_context_items cs budget = Some r"
    and "(c, False) \<in> set (packed_decisions r)" and "pk_priority c > 0"
  shows "int (sum_list (map pk_tokens (filter (\<lambda>x. pk_priority x > 0) (packed_included r)))
           + pk_tokens c) > budget"
proof -
  let ?req = "required_items cs"
  obtain opt where order: "packing_order cs = ?req @ opt" and
    opt: "\<And>x. x \<in> set opt \<Longrightarrow> pk_priority x = 0"
  proof
    show "packing_order cs = ?req @ (lane_minimums (remaining_items cs)
        @ filter (\<lambda>c. pk_key c \<notin> set (map pk_key (lane_minimums (remaining_items cs)))) (remaining_items cs))"
      by (simp add: packing_order_def Let_def)
    show "pk_priority x = 0" if "x \<in> set (lane_minimums (remaining_items cs)
        @ filter (\<lambda>c. pk_key c \<notin> set (map pk_key (lane_minimums (remaining_items cs)))) (remaining_items cs))" for x
      using that lane_minimums_subset [of "remaining_items cs"] by (auto simp: remaining_items_def)
  qed
  define l1 where "l1 = pack_loop (nat budget) 0 ?req"
  define l2 where "l2 = pack_loop (nat budget) (snd l1) opt"
  have ds: "packed_decisions r = fst l1 @ fst l2"
    using pack_context_items_Some(3) [OF assms(1)]
    by (simp add: order pack_loop_append Let_def split_beta l1_def l2_def)
  have m1: "map fst (fst l1) = ?req" and m2: "map fst (fst l2) = opt"
    by (simp_all add: l1_def l2_def pack_loop_order)
  have p1: "pk_priority (fst d) > 0" if "d \<in> set (fst l1)" for d
  proof -
    have "fst d \<in> set (map fst (fst l1))" using that by simp
    then show ?thesis unfolding m1 by (simp add: required_items_def)
  qed
  have p2: "pk_priority (fst d) = 0" if "d \<in> set (fst l2)" for d
  proof -
    have "fst d \<in> set (map fst (fst l2))" using that by simp
    then show ?thesis unfolding m2 by (rule opt)
  qed
  have "(c, False) \<in> set (fst l1)" using assms(2,3) p2 unfolding ds by fastforce
  then have "nat budget < snd l1 + pk_tokens c" unfolding l1_def by (rule pack_loop_refused)
  moreover have "snd l1 = taken (fst l1)" by (simp add: l1_def pack_loop_used)
  moreover have "filter (\<lambda>x. pk_priority x > 0) (packed_included r) = map fst (filter snd (fst l1))"
  proof -
    have "filter (\<lambda>d. pk_priority (fst d) > 0 \<and> snd d) (fst l1) = filter snd (fst l1)"
      using p1 by (intro filter_cong refl) auto
    moreover have "filter (\<lambda>d. pk_priority (fst d) > 0 \<and> snd d) (fst l2) = []"
      using p2 by (auto simp: filter_empty_conv)
    ultimately show ?thesis
      unfolding pack_context_items_Some(5) [OF assms(1)] ds by (simp add: filter_map comp_def conj_commute)
  qed
  ultimately show ?thesis using pack_context_items_Some(1) [OF assms(1)] by (simp add: taken_def)
qed


subsection \<open>Witnesses\<close>

definition sample_packables :: "unit packable list" where
  "sample_packables =
     [\<lparr>pk_key = ''a'', pk_lane = Topic, pk_priority = 0, pk_score = 1, pk_tokens = 3, pk_item = ()\<rparr>,
      \<lparr>pk_key = ''b'', pk_lane = Core, pk_priority = 3, pk_score = 1, pk_tokens = 4, pk_item = ()\<rparr>,
      \<lparr>pk_key = ''c'', pk_lane = Core, pk_priority = 3, pk_score = 2, pk_tokens = 9, pk_item = ()\<rparr>]"

lemmas pack_sample_defs = sample_packables_def pack_context_items_def packing_order_def
  required_items_def remaining_items_def lane_minimums_def lane_order_def score_order_def

lemma sample_pack:
  "\<exists>r. pack_context_items sample_packables 8 = Some r
     \<and> map (\<lambda>d. (pk_key (fst d), snd d)) (packed_decisions r)
         = [(''c'', False), (''b'', True), (''a'', True)]
     \<and> (sample_packables ! 2, False) \<in> set (packed_decisions r)"
  by (simp add: pack_sample_defs Let_def)

lemma packing_within_budget_witness:
  "\<exists>r. pack_context_items sample_packables 8 = Some r \<and> int (packed_token_used r) \<le> 8
     \<and> mset (map fst (packed_decisions r)) = mset sample_packables"
proof -
  obtain r where r: "pack_context_items sample_packables 8 = Some r" using sample_pack by blast
  have "distinct (map pk_key sample_packables)" by (simp add: sample_packables_def)
  from packing_within_budget [OF r this] r show ?thesis by blast
qed

lemma required_items_first_witness:
  "\<exists>r. pack_context_items sample_packables 8 = Some r
     \<and> int (sum_list (map pk_tokens (filter (\<lambda>x. pk_priority x > 0) (packed_included r))) + 9) > 8"
proof -
  obtain r where r: "pack_context_items sample_packables 8 = Some r"
    and c: "(sample_packables ! 2, False) \<in> set (packed_decisions r)" using sample_pack by blast
  have "pk_priority (sample_packables ! 2) > 0" "pk_tokens (sample_packables ! 2) = 9"
    by (simp_all add: sample_packables_def)
  with required_items_first [OF r c] r show ?thesis by auto
qed

end
