(* ===== verification/Doubles.thy ===== *)
theory Doubles
  imports Complex_Main "HOL-Library.Log_Nat"
begin

text \<open>
  IEEE 754 binary64 arithmetic as rationals. A finite double is the rational it denotes and an
  operation is the exact operation followed by \<open>fl\<close>, round to nearest, ties to even, with a
  53-bit significand. The exponent is not bounded: the scores computed here lie far inside the
  range of normal doubles, where overflow and gradual underflow do not arise.
\<close>

definition round_half_even :: "rat \<Rightarrow> int" where
  "round_half_even q =
     (let f = \<lfloor>q\<rfloor>; r = q - of_int f in
      if r < 1 / 2 then f else if r > 1 / 2 then f + 1 else if even f then f else f + 1)"

text \<open>The exponent \<open>e\<close> with \<open>2 powi e \<le> q < 2 powi (e + 1)\<close>, for positive \<open>q\<close>.\<close>

definition exponent2 :: "rat \<Rightarrow> int" where
  "exponent2 q =
     (let (n, d) = quotient_of q; k = int (floorlog 2 (nat n)) - int (floorlog 2 (nat d)) in
      if 2 powi k \<le> q then k else k - 1)"

definition fl :: "rat \<Rightarrow> rat" where
  "fl q = (if q = 0 then 0 else
     let ulp = 2 powi (exponent2 \<bar>q\<bar> - 52) in sgn q * of_int (round_half_even (\<bar>q\<bar> / ulp)) * ulp)"

lemma round_half_even_bounds:
  shows "q \<le> of_int n \<Longrightarrow> round_half_even q \<le> n" and "of_int n \<le> q \<Longrightarrow> n \<le> round_half_even q"
proof -
  assume "q \<le> of_int n"
  then show "round_half_even q \<le> n"
    unfolding round_half_even_def Let_def by (auto split: if_splits; linarith)
next
  assume "of_int n \<le> q"
  then have "n \<le> \<lfloor>q\<rfloor>" by linarith
  then show "n \<le> round_half_even q" unfolding round_half_even_def Let_def by auto
qed

lemma floorlog_rat_bounds:
  assumes "0 < n"
  shows "(2 :: rat) ^ floorlog 2 (nat n) \<le> 2 * of_int n" and "of_int n < (2 :: rat) ^ floorlog 2 (nat n)"
proof -
  let ?a = "floorlog 2 (nat n)"
  have b: "2 ^ (?a - 1) \<le> nat n" "nat n < 2 ^ ?a"
    using floorlog_bounds [of "nat n" 2] assms by auto
  have "2 ^ ?a \<le> 2 * nat n"
    using b by (cases ?a) auto
  then have "(of_nat (2 ^ ?a) :: rat) \<le> of_nat (2 * nat n)" by (simp only: of_nat_le_iff)
  then show "(2 :: rat) ^ ?a \<le> 2 * of_int n" using assms by simp
  have "(of_nat (nat n) :: rat) < of_nat (2 ^ ?a)" using b(2) by (simp only: of_nat_less_iff)
  then show "of_int n < (2 :: rat) ^ ?a" using assms by simp
qed

lemma exponent2_bounds:
  assumes "0 < q"
  shows "2 powi (exponent2 q) \<le> q \<and> q < 2 powi (exponent2 q + 1)"
proof -
  obtain n d where nd: "quotient_of q = (n, d)" by fastforce
  then have d: "0 < d" and q: "q = of_int n / of_int d"
    using quotient_of_denom_pos quotient_of_div by blast+
  then have n: "0 < n" using assms by (simp add: zero_less_divide_iff)
  define k where "k = int (floorlog 2 (nat n)) - int (floorlog 2 (nat d))"
  define A where "A = (2 :: rat) ^ floorlog 2 (nat n)"
  define B where "B = (2 :: rat) ^ floorlog 2 (nat d)"
  have AB: "A \<le> 2 * of_int n" "of_int n < A" "B \<le> 2 * of_int d" "of_int d < B" "0 < A" "0 < B"
    using floorlog_rat_bounds [OF n] floorlog_rat_bounds [OF d] by (simp_all add: A_def B_def)
  have k: "2 powi k = A / B" by (simp add: k_def A_def B_def power_int_diff)
  have up: "q < 2 * (A / B)"
  proof -
    have "of_int n * B < A * (2 * of_int d)"
      using AB d by (intro mult_less_le_imp_less) auto
    then show ?thesis using AB d by (simp add: q field_simps)
  qed
  have low: "A / B \<le> 2 * q"
  proof -
    have "A * of_int d \<le> 2 * of_int n * B"
      using AB d n by (intro mult_mono) auto
    then show ?thesis using AB d by (simp add: q field_simps)
  qed
  have e: "exponent2 q = (if 2 powi k \<le> q then k else k - 1)"
    by (simp add: exponent2_def nd k_def)
  have "2 powi (k + 1) = 2 * (2 powi k :: rat)" "2 powi (k - 1) = (2 powi k :: rat) / 2"
    by (simp_all add: power_int_add power_int_diff)
  then show ?thesis using up low k by (auto simp: e)
qed

text \<open>Rounding does not cross a power of two.\<close>

lemma fl_le_power:
  assumes "0 \<le> q" and "q \<le> 2 powi k"
  shows "fl q \<le> 2 powi k"
proof (cases "q = 0")
  case False
  then have pos: "0 < q" using assms(1) by simp
  let ?e = "exponent2 q" and ?u = "2 powi (exponent2 q - 52) :: rat"
  note b = exponent2_bounds [OF pos]
  have "(2 :: rat) powi ?e \<le> 2 powi k" using b assms(2) by linarith
  then have "?e \<le> k"
    using power_int_strict_increasing [of k ?e "2 :: rat"] by (auto simp: not_le [symmetric])
  then obtain m where m: "k - ?e + 52 = int m" using zero_le_imp_eq_int [of "k - ?e + 52"] by auto
  have split: "2 powi k = (2 :: rat) ^ m * ?u"
  proof -
    have "k = int m + (?e - 52)" using m by simp
    then have "2 powi k = (2 :: rat) powi (int m + (?e - 52))" by (rule arg_cong)
    also have "\<dots> = 2 powi int m * ?u" by (rule power_int_add) simp
    finally show ?thesis by simp
  qed
  have "q / ?u \<le> of_int (2 ^ m)" using assms(2) unfolding split by (simp add: divide_le_eq)
  then have "round_half_even (q / ?u) \<le> 2 ^ m" by (rule round_half_even_bounds)
  then have "(of_int (round_half_even (q / ?u)) :: rat) \<le> of_int (2 ^ m)" by (simp only: of_int_le_iff)
  then show ?thesis
    using pos unfolding split fl_def Let_def by simp
qed (simp add: fl_def)

lemma fl_ge_power:
  assumes "2 powi k \<le> q"
  shows "2 powi k \<le> fl q"
proof -
  have "(0 :: rat) < 2 powi k" by simp
  then have pos: "0 < q" using assms by (rule less_le_trans)
  let ?e = "exponent2 q" and ?u = "2 powi (exponent2 q - 52) :: rat"
  note b = exponent2_bounds [OF pos]
  have "(2 :: rat) powi k < 2 powi (?e + 1)" using b assms by linarith
  then have "k < ?e + 1"
    using power_int_increasing [of "?e + 1" k "2 :: rat"] by (auto simp: not_less [symmetric])
  then have le: "(2 :: rat) powi k \<le> 2 powi ?e" by (intro power_int_increasing) simp_all
  have split: "2 powi ?e = (2 :: rat) ^ 52 * ?u" by (simp add: power_int_diff)
  have "of_int (2 ^ 52) \<le> q / ?u" using b unfolding split by (simp add: le_divide_eq)
  then have "2 ^ 52 \<le> round_half_even (q / ?u)" by (rule round_half_even_bounds)
  then have "(of_int (2 ^ 52) :: rat) \<le> of_int (round_half_even (q / ?u))" by (simp only: of_int_le_iff)
  then have "2 powi ?e \<le> fl q" using pos unfolding split fl_def Let_def by simp
  then show ?thesis using le by simp
qed

lemma fl_nonneg: "0 \<le> q \<Longrightarrow> 0 \<le> fl q"
proof (cases "q = 0")
  case False
  assume "0 \<le> q"
  with False have pos: "0 < q" by simp
  then have "(0 :: rat) < 2 powi exponent2 q" by simp
  also have "\<dots> \<le> fl q" using exponent2_bounds [OF pos] by (intro fl_ge_power) simp
  finally show ?thesis by simp
qed (simp add: fl_def)

lemma fl_le_one: "0 \<le> q \<Longrightarrow> q \<le> 1 \<Longrightarrow> fl q \<le> 1"
  using fl_le_power [of q 0] by simp

lemma fl_le_two: "0 \<le> q \<Longrightarrow> q \<le> 2 \<Longrightarrow> fl q \<le> 2"
  using fl_le_power [of q 1] by simp

lemma fl_ge_one: "1 \<le> q \<Longrightarrow> 1 \<le> fl q"
  using fl_ge_power [of 0 q] by simp

lemma fl_recip: "1 \<le> q \<Longrightarrow> 0 \<le> fl (1 / q) \<and> fl (1 / q) \<le> 1"
  by (auto intro: fl_nonneg fl_le_one simp: divide_le_eq)

end
