(* ===== verification/Ranking.thy ===== *)
theory Ranking
  imports ConflictResolver TokenPacker Doubles
begin

text \<open>
  Ranking (\<open>packages/context-compiler/src/ranking-policy.ts\<close>). Scores are doubles, computed with
  \<open>fl\<close> after every operation in the order of the code. NFKC, lower-casing and the word characters
  \<open>[\p{L}\p{N}_-]\<close> are the runtime's Unicode tables, collected in a record of parameters.
\<close>

record unicode =
  nfkc :: "ustring \<Rightarrow> ustring"
  lower_case :: "ustring \<Rightarrow> ustring"
  word_char :: "nat \<Rightarrow> bool"

text \<open>The maximal runs of word characters: \<open>match(/[\p{L}\p{N}_-]+/gu)\<close>.\<close>

fun word_runs :: "(nat \<Rightarrow> bool) \<Rightarrow> ustring \<Rightarrow> ustring \<Rightarrow> ustring list" where
  "word_runs w run [] = (if run = [] then [] else [run])"
| "word_runs w run (c # cs) =
     (if w c then word_runs w (run @ [c]) cs
      else (if run = [] then [] else [run]) @ word_runs w [] cs)"

definition terms :: "unicode \<Rightarrow> ustring \<Rightarrow> ustring list" where
  "terms u t = js_set (word_runs (word_char u) [] (lower_case u (nfkc u t)))"

record score_components =
  sc_relevance :: rat
  sc_authority :: rat
  sc_freshness :: rat
  sc_evidence_diversity :: rat
  sc_conflict_cost :: rat
  sc_token_utility :: rat
  sc_lane_contribution :: rat

record ranked =
  rk_candidate :: prepared
  rk_components :: score_components
  rk_total_score :: rat
  rk_constraint_priority :: nat

fun authority_score :: "authority \<Rightarrow> rat" where
  "authority_score User_stated = 1"
| "authority_score Observed = fl (8 / 10)"
| "authority_score Tool_result = fl (7 / 10)"
| "authority_score Derived = fl (6 / 10)"
| "authority_score Imported = 1 / 2"
| "authority_score Inferred = fl (4 / 10)"

fun lane_score :: "recall_lane \<Rightarrow> rat" where
  "lane_score Recent_l1 = fl (4 / 10)"
| "lane_score Topic = fl (3 / 10)"
| "lane_score Scenario_procedure = fl (9 / 10)"
| "lane_score Core = fl (8 / 10)"
| "lane_score Relation_sqlite = 1 / 2"
| "lane_score Relation_graph = 1 / 2"
| "lane_score Semantic_vector = fl (4 / 10)"

definition content_text :: "content_ref \<Rightarrow> ustring" where
  "content_text c = (case c of Inline t m \<Rightarrow> t | Blob h n m \<Rightarrow> [])"

definition relevance :: "unicode \<Rightarrow> prepared \<Rightarrow> ustring \<Rightarrow> rat" where
  "relevance u p query =
     (let query_terms = terms u query; content_terms = terms u (content_text (pc_content p));
          overlap = length (filter (\<lambda>t. t \<in> set content_terms) query_terms);
          lexical = (if length query_terms = 0 then 0
                     else fl (of_nat overlap / of_nat (length query_terms)))
      in fl (lexical + fl (1 / fl (1 + max 0 (pc_rank p)))))"

definition freshness :: "timestamp \<Rightarrow> timestamp \<Rightarrow> rat" where
  "freshness recorded as_of =
     (let age_days = max 0 (fl (of_int (epoch_ms as_of - epoch_ms recorded) / 86400000))
      in fl (1 / fl (1 + age_days)))"

definition constraint_priority :: "prepared \<Rightarrow> nat" where
  "constraint_priority p = (case pc_payload p of
       Some (Procedure_payload k g ps ss es fs rs) \<Rightarrow> 4
     | Some (Core_payload s as cs c ps) \<Rightarrow> if length cs > 0 then 3 else 0
     | Some (Scenario_payload k t ps os) \<Rightarrow> if length ps > 0 then 2 else 0
     | _ \<Rightarrow> 0)"

definition score_components_of :: "unicode \<Rightarrow> ustring \<Rightarrow> timestamp \<Rightarrow> prepared \<Rightarrow> score_components" where
  "score_components_of u query as_of p =
     (let tokens = max 1 (estimate_context_tokens (content_text (pc_content p))) in
      \<lparr>sc_relevance = relevance u p query, sc_authority = authority_score (pc_authority p),
       sc_freshness = freshness (pc_recorded_at p) as_of,
       sc_evidence_diversity = min 1 (fl (of_nat (length (js_set (pc_evidence_ids p))) / 3)),
       sc_conflict_cost = (if pc_conflict_group_id p = None then 0 else - 1),
       sc_token_utility = fl (1 / of_nat tokens), sc_lane_contribution = lane_score (pc_lane p)\<rparr>)"

text \<open>\<open>Object.values(components).reduce((sum, value) => sum + value, 0)\<close>, in schema order.\<close>

definition total_score :: "score_components \<Rightarrow> rat" where
  "total_score s = foldl (\<lambda>acc v. fl (acc + v)) 0
     [sc_relevance s, sc_authority s, sc_freshness s, sc_evidence_diversity s, sc_conflict_cost s,
      sc_token_utility s, sc_lane_contribution s]"

definition rank_one :: "unicode \<Rightarrow> ustring \<Rightarrow> timestamp \<Rightarrow> prepared \<Rightarrow> ranked" where
  "rank_one u query as_of p =
     (let s = score_components_of u query as_of p in
      \<lparr>rk_candidate = p, rk_components = s, rk_total_score = total_score s,
       rk_constraint_priority = constraint_priority p\<rparr>)"

definition rank_order ::
  "ranked \<Rightarrow> int \<times> rat \<times> (nat list \<times> nat list) \<times> (nat list \<times> nat list)" where
  "rank_order r = (- int (rk_constraint_priority r), - rk_total_score r,
     locale_key (lane_string (pc_lane (rk_candidate r))), locale_key (pc_revision_id (rk_candidate r)))"

definition rank_layered_candidates ::
  "unicode \<Rightarrow> ustring \<Rightarrow> timestamp \<Rightarrow> prepared list \<Rightarrow> ranked list" where
  "rank_layered_candidates u query as_of ps = sort_key rank_order (map (rank_one u query as_of) ps)"

subsection \<open>Properties\<close>

lemma authority_score_range: "0 \<le> authority_score a \<and> authority_score a \<le> 1"
  by (cases a) (auto intro: fl_nonneg fl_le_one)

lemma lane_score_range: "0 \<le> lane_score l \<and> lane_score l \<le> 1"
  by (cases l) (auto intro: fl_nonneg fl_le_one)

lemma relevance_range: "0 \<le> relevance u p q \<and> relevance u p q \<le> 2"
proof -
  let ?q = "terms u q" and ?c = "terms u (content_text (pc_content p))"
  let ?lex = "if length ?q = 0 then 0
     else fl (of_nat (length (filter (\<lambda>t. t \<in> set ?c) ?q)) / of_nat (length ?q))"
  have ratio: "(of_nat (length (filter (\<lambda>t. t \<in> set ?c) ?q)) :: rat) / of_nat (length ?q) \<le> 1"
    by (cases "?q = []") (simp_all add: divide_le_eq_1 length_filter_le)
  have lex: "0 \<le> ?lex" "?lex \<le> 1"
    using ratio by (auto intro: fl_nonneg fl_le_one)
  have "1 \<le> fl (1 + max 0 (pc_rank p))" by (intro fl_ge_one) simp
  then have "0 \<le> fl (1 / fl (1 + max 0 (pc_rank p))) \<and> fl (1 / fl (1 + max 0 (pc_rank p))) \<le> 1"
    by (rule fl_recip)
  with lex have "0 \<le> ?lex + fl (1 / fl (1 + max 0 (pc_rank p)))"
    "?lex + fl (1 / fl (1 + max 0 (pc_rank p))) \<le> 2" by linarith+
  then show ?thesis by (simp add: relevance_def Let_def fl_nonneg fl_le_two)
qed

lemma freshness_range: "0 \<le> freshness r t \<and> freshness r t \<le> 1"
  unfolding freshness_def Let_def by (intro fl_recip fl_ge_one) simp

lemma score_components_range:
  "let s = score_components_of u query as_of p in
    sc_relevance s \<in> {0..2} \<and> sc_authority s \<in> {0..1} \<and> sc_freshness s \<in> {0..1}
    \<and> sc_evidence_diversity s \<in> {0..1} \<and> sc_token_utility s \<in> {0..1}
    \<and> sc_lane_contribution s \<in> {0..1}
    \<and> sc_conflict_cost s = (if pc_conflict_group_id p = None then 0 else - 1)"
proof -
  have "0 \<le> fl (of_nat (length (js_set (pc_evidence_ids p))) / 3)" by (rule fl_nonneg) simp
  moreover have "0 \<le> fl (1 / of_nat (max 1 (estimate_context_tokens (content_text (pc_content p)))))
      \<and> fl (1 / of_nat (max 1 (estimate_context_tokens (content_text (pc_content p))))) \<le> 1"
    by (intro fl_recip) simp
  ultimately show ?thesis
    using relevance_range [of u p query] freshness_range [of "pc_recorded_at p" as_of]
      authority_score_range lane_score_range
    by (simp add: score_components_of_def Let_def)
qed

text \<open>Every score component stays in its range under double rounding, for any query, rank, dates
  and content: relevance in \<open>[0, 2]\<close>; authority, freshness, evidence diversity, token utility and lane
  contribution in \<open>[0, 1]\<close>; the conflict cost is 0, or -1 exactly for members of a conflict set. So no
  component is negative but the conflict cost.\<close>

theorem score_components_in_range:
  "let s = score_components_of u query as_of p in
    sc_relevance s \<in> {0..2} \<and> sc_authority s \<in> {0..1} \<and> sc_freshness s \<in> {0..1}
    \<and> sc_evidence_diversity s \<in> {0..1} \<and> sc_token_utility s \<in> {0..1}
    \<and> sc_lane_contribution s \<in> {0..1}
    \<and> sc_conflict_cost s = (if pc_conflict_group_id p = None then 0 else - 1)"
  by (rule score_components_range)

text \<open>The ranking does not depend on the order in which the lanes delivered the candidates. It is a
  permutation of the scored candidates, in descending constraint priority (so procedures, then
  constrained core statements, then conditional scenarios, precede everything else), and two
  permutations of candidates with distinct valid revisions are ranked identically.\<close>

theorem ranking_is_canonical:
  assumes "mset ps = mset qs" and "distinct (map pc_revision_id ps)"
    and "\<And>p. p \<in> set ps \<Longrightarrow> identifier_ok (pc_revision_id p)"
  shows "rank_layered_candidates u query as_of ps = rank_layered_candidates u query as_of qs
    \<and> mset (map rk_candidate (rank_layered_candidates u query as_of ps)) = mset ps
    \<and> sorted (map (\<lambda>r. - int (rk_constraint_priority r)) (rank_layered_candidates u query as_of ps))"
proof (intro conjI)
  let ?m = "map (rank_one u query as_of)"
  have rk: "rk_candidate (rank_one u query as_of p) = p" for p by (simp add: rank_one_def Let_def)
  show "rank_layered_candidates u query as_of ps = rank_layered_candidates u query as_of qs"
    unfolding rank_layered_candidates_def
  proof (rule sort_key_permute)
    show "mset (?m ps) = mset (?m qs)" using assms(1) by simp
    have "inj_on (\<lambda>p. rank_order (rank_one u query as_of p)) (set ps)"
    proof (rule inj_onI)
      fix p q assume pq: "p \<in> set ps" "q \<in> set ps"
        and eq: "rank_order (rank_one u query as_of p) = rank_order (rank_one u query as_of q)"
      from eq have "locale_key (pc_revision_id p) = locale_key (pc_revision_id q)"
        by (simp add: rank_order_def rk)
      then have "pc_revision_id p = pc_revision_id q"
        using pq assms(3) by (intro locale_key_inj identifier_id_chars)
      then show "p = q" using pq assms(2) by (auto simp: distinct_map dest: inj_onD)
    qed
    moreover have "distinct ps" using assms(2) by (simp add: distinct_map)
    ultimately show "distinct (map rank_order (?m ps))"
      by (simp add: distinct_map comp_def)
  qed
  have "mset (map rk_candidate (rank_layered_candidates u query as_of ps))
      = image_mset rk_candidate (mset (?m ps))" by (simp add: rank_layered_candidates_def)
  also have "\<dots> = mset ps" by (simp add: multiset.map_comp comp_def rk)
  finally show "mset (map rk_candidate (rank_layered_candidates u query as_of ps)) = mset ps" .
  have "sorted (map rank_order (rank_layered_candidates u query as_of ps))"
    by (simp add: rank_layered_candidates_def)
  then have "sorted (map (fst \<circ> rank_order) (rank_layered_candidates u query as_of ps))"
    by (auto simp: sorted_wrt_map less_eq_prod_def elim!: sorted_wrt_mono_rel [rotated])
  then show "sorted (map (\<lambda>r. - int (rk_constraint_priority r)) (rank_layered_candidates u query as_of ps))"
    by (simp add: rank_order_def comp_def)
qed

definition ascii_unicode :: unicode where
  "ascii_unicode = \<lparr>nfkc = id,
     lower_case = map (\<lambda>c. if 65 \<le> c \<and> c \<le> 90 then c + 32 else c),
     word_char = (\<lambda>c. 48 \<le> c \<and> c \<le> 57 \<or> 65 \<le> c \<and> c \<le> 90 \<or> 97 \<le> c \<and> c \<le> 122 \<or> c = 95 \<or> c = 45)\<rparr>"

lemma ranking_is_canonical_witness:
  "rank_layered_candidates ascii_unicode [99] (Timestamp ''t'' 9) [sample_prepared ''a'', sample_prepared ''b'']
     = rank_layered_candidates ascii_unicode [99] (Timestamp ''t'' 9) [sample_prepared ''b'', sample_prepared ''a'']"
  by (rule ranking_is_canonical [THEN conjunct1])
     (auto simp: sample_prepared_def identifier_ok_def ascii_alnum_def add_mset_commute)

end
