(* ===== verification/ContextModel.thy ===== *)
theory ContextModel
  imports Ranking
begin

text \<open>
  What a compiled context is: the recall request, context items and slices
  (\<open>packages/contracts/src/mcp.ts\<close>) and retrieval receipts (\<open>receipts.ts\<close>), with the checks of
  their schemas and the JSON their hashes are taken over. An optional field is an \<open>option\<close>; an
  optional nullable one is an \<open>option\<close> of an \<open>option\<close>.
\<close>

subsection \<open>Requests, items, slices\<close>

record recall_request =
  rr_request_id :: string
  rr_goal :: ustring
  rr_query :: ustring
  rr_scopes :: "scope list"
  rr_as_of :: timestamp
  rr_token_budget :: nat
  rr_include_sensitive :: bool
  rr_lane_overrides :: "lane_request option"

definition recall_request_ok :: "recall_request \<Rightarrow> bool" where
  "recall_request_ok r \<longleftrightarrow>
     identifier_ok (rr_request_id r)
     \<and> 1 \<le> length (utf16 (js_trim (rr_goal r))) \<and> length (utf16 (js_trim (rr_goal r))) \<le> 4000
     \<and> 1 \<le> length (utf16 (js_trim (rr_query r))) \<and> length (utf16 (js_trim (rr_query r))) \<le> 4000
     \<and> rr_scopes r \<noteq> [] \<and> list_all scope_ok (rr_scopes r)
     \<and> 1 \<le> rr_token_budget r \<and> rr_token_budget r \<le> 32000
     \<and> (case rr_lane_overrides r of None \<Rightarrow> True | Some l \<Rightarrow> lane_request_ok l)"

record slice_item =
  it_memory_id :: string
  it_revision_id :: string
  it_abstraction :: abstraction_level
  it_lifecycle :: lifecycle
  it_authority :: authority
  it_sensitivity :: sensitivity
  it_scope :: scope
  it_content :: content_ref
  it_evidence_ids :: "string list"
  it_selection_reason :: ustring
  it_uncertainty :: "ustring option"
  it_token_estimate :: nat
  it_lane :: "recall_lane option"
  it_projection :: "projection_lineage option"
  it_graph_path :: "jval option"
  it_vector :: "jval option"
  it_score_components :: "score_components option"
  it_conflict_group_id :: "string option option"
  it_decision_reason_codes :: "string list option"

fun projection_lane :: "abstraction_level \<Rightarrow> recall_lane option" where
  "projection_lane L2_topic = Some Topic"
| "projection_lane L2_scenario = Some Scenario_procedure"
| "projection_lane L3_core = Some Core"
| "projection_lane _ = None"

text \<open>The \<open>superRefine\<close> of \<open>ContextSliceItemSchema\<close>.\<close>

definition slice_item_refined :: "slice_item \<Rightarrow> bool" where
  "slice_item_refined i \<longleftrightarrow>
     (it_lane i = Some Semantic_vector) = (it_vector i \<noteq> None)
     \<and> \<not> (it_vector i \<noteq> None \<and> it_abstraction i \<noteq> L1_memory)
     \<and> (let lane_matches = (if it_abstraction i = L2_relation
              then it_lane i = Some Relation_sqlite \<or> it_lane i = Some Relation_graph
              else projection_lane (it_abstraction i) = None
                   \<or> it_lane i = projection_lane (it_abstraction i)) in
        if projection_lane (it_abstraction i) \<noteq> None \<or> it_abstraction i = L2_relation
        then lane_matches \<and> it_projection i \<noteq> None \<and> it_score_components i \<noteq> None
             \<and> (it_lane i = Some Relation_graph) = (it_graph_path i \<noteq> None)
        else it_projection i = None \<and> it_graph_path i = None)"

definition slice_item_ok :: "slice_item \<Rightarrow> bool" where
  "slice_item_ok i \<longleftrightarrow>
     list_all identifier_ok ([it_memory_id i, it_revision_id i] @ it_evidence_ids i)
     \<and> scope_ok (it_scope i) \<and> content_ref_ok (it_content i) \<and> it_evidence_ids i \<noteq> []
     \<and> reason_ok (it_selection_reason i)
     \<and> (case it_uncertainty i of None \<Rightarrow> True | Some t \<Rightarrow> js_trim t \<noteq> [])
     \<and> (case it_projection i of None \<Rightarrow> True | Some l \<Rightarrow> projection_lineage_ok l)
     \<and> (case it_conflict_group_id i of Some (Some g) \<Rightarrow> identifier_ok g | _ \<Rightarrow> True)
     \<and> (case it_decision_reason_codes i of None \<Rightarrow> True
          | Some cs \<Rightarrow> cs \<noteq> [] \<and> list_all reason_code_ok cs)
     \<and> slice_item_refined i"

record context_slice =
  sl_context_slice_id :: string
  sl_request_id :: string
  sl_compiler_version :: string
  sl_created_at :: timestamp
  sl_token_budget :: nat
  sl_token_used :: nat
  sl_items :: "slice_item list"
  sl_frozen_hash :: string
  sl_policy_version :: "string option"
  sl_frontier :: "context_frontier option"
  sl_configuration :: "effective_lane_configuration option"
  sl_lane_telemetry :: "lane_telemetry list option"
  sl_conflict_sets :: "context_conflict_set list option"
  sl_active_release :: "string option \<times> string option"

definition context_slice_ok :: "(jval \<Rightarrow> string) \<Rightarrow> context_slice \<Rightarrow> bool" where
  "context_slice_ok sha s \<longleftrightarrow>
     identifier_ok (sl_context_slice_id s) \<and> identifier_ok (sl_request_id s)
     \<and> 1 \<le> sl_token_budget s \<and> list_all slice_item_ok (sl_items s) \<and> canonical_hash_ok (sl_frozen_hash s)
     \<and> (case sl_frontier s of None \<Rightarrow> True | Some f \<Rightarrow> context_frontier_ok sha f)
     \<and> (case sl_configuration s of None \<Rightarrow> True | Some c \<Rightarrow> effective_lane_configuration_ok c)
     \<and> (case sl_lane_telemetry s of None \<Rightarrow> True | Some ts \<Rightarrow> list_all lane_telemetry_ok ts)
     \<and> (case sl_conflict_sets s of None \<Rightarrow> True | Some cs \<Rightarrow> list_all context_conflict_set_ok cs)
     \<and> \<not> sl_token_used s > sl_token_budget s
     \<and> (list_ex (\<lambda>i. it_projection i \<noteq> None) (sl_items s) \<longrightarrow>
          sl_policy_version s \<noteq> None \<and> sl_frontier s \<noteq> None \<and> sl_configuration s \<noteq> None
          \<and> sl_lane_telemetry s \<noteq> None)
     \<and> (case sl_lane_telemetry s of None \<Rightarrow> True
          | Some ts \<Rightarrow> length (js_set (map lt_lane ts)) = length (map lt_lane ts))
     \<and> list_all (\<lambda>i. case it_conflict_group_id i of
          Some (Some g) \<Rightarrow> g \<in> set (map cs_conflict_group_id
             (case sl_conflict_sets s of None \<Rightarrow> [] | Some cs \<Rightarrow> cs))
        | _ \<Rightarrow> True) (sl_items s)
     \<and> (fst (sl_active_release s) = None) = (snd (sl_active_release s) = None)
     \<and> sl_active_release s
         = (case sl_configuration s of None \<Rightarrow> (None, None) | Some c \<Rightarrow> elc_active_release c)"

subsection \<open>Receipts\<close>

record receipt_item =
  ri_memory_id :: string
  ri_revision_id :: string
  ri_included :: bool
  ri_reason_codes :: "string list"
  ri_lane :: string
  ri_score :: "rat option"
  ri_score_components :: "score_components option"
  ri_token_estimate :: "nat option"
  ri_projection :: "projection_lineage option"
  ri_graph_path :: "jval option"
  ri_vector :: "jval option"
  ri_conflict_group_id :: "string option option"

definition receipt_item_refined :: "receipt_item \<Rightarrow> bool" where
  "receipt_item_refined i \<longleftrightarrow>
     (ri_lane i = ''semantic_vector'') = (ri_vector i \<noteq> None)
     \<and> \<not> (ri_projection i \<noteq> None
          \<and> (ri_lane i \<notin> set (map lane_string recall_lanes)
             \<or> ri_score_components i = None \<or> ri_token_estimate i = None))
     \<and> (ri_lane i = ''relation_graph'') = (ri_graph_path i \<noteq> None)
     \<and> \<not> (ri_lane i = ''relation_graph''
          \<and> (ri_projection i = None \<or> ri_score_components i = None \<or> ri_token_estimate i = None))"

definition receipt_item_ok :: "receipt_item \<Rightarrow> bool" where
  "receipt_item_ok i \<longleftrightarrow>
     identifier_ok (ri_memory_id i) \<and> identifier_ok (ri_revision_id i)
     \<and> ri_reason_codes i \<noteq> [] \<and> list_all (\<lambda>c. js_trim (code_points c) \<noteq> []) (ri_reason_codes i)
     \<and> 1 \<le> length (js_trim (code_points (ri_lane i))) \<and> length (js_trim (code_points (ri_lane i))) \<le> 120
     \<and> (case ri_projection i of None \<Rightarrow> True | Some l \<Rightarrow> projection_lineage_ok l)
     \<and> (case ri_conflict_group_id i of Some (Some g) \<Rightarrow> identifier_ok g | _ \<Rightarrow> True)
     \<and> receipt_item_refined i"

record retrieval_receipt =
  rc_receipt_id :: string
  rc_created_at :: timestamp
  rc_state :: receipt_state
  rc_request_hash :: string
  rc_receipt_hash :: string
  rc_context_slice_id :: "string option"
  rc_compiler_version :: string
  rc_policy_version :: string
  rc_frontier :: "context_frontier option"
  rc_configuration :: "effective_lane_configuration option"
  rc_lane_telemetry :: "lane_telemetry list option"
  rc_active_release :: "string option \<times> string option"
  rc_items :: "receipt_item list"

definition retrieval_receipt_ok :: "(jval \<Rightarrow> string) \<Rightarrow> retrieval_receipt \<Rightarrow> bool" where
  "retrieval_receipt_ok sha r \<longleftrightarrow>
     identifier_ok (rc_receipt_id r) \<and> canonical_hash_ok (rc_request_hash r)
     \<and> canonical_hash_ok (rc_receipt_hash r)
     \<and> (case rc_context_slice_id r of None \<Rightarrow> True | Some i \<Rightarrow> identifier_ok i)
     \<and> (case rc_frontier r of None \<Rightarrow> True | Some f \<Rightarrow> context_frontier_ok sha f)
     \<and> (case rc_configuration r of None \<Rightarrow> True | Some c \<Rightarrow> effective_lane_configuration_ok c)
     \<and> (case rc_lane_telemetry r of None \<Rightarrow> True | Some ts \<Rightarrow> list_all lane_telemetry_ok ts)
     \<and> list_all receipt_item_ok (rc_items r)
     \<and> (list_ex (\<lambda>i. ri_projection i \<noteq> None) (rc_items r) \<longrightarrow>
          rc_frontier r \<noteq> None \<and> rc_configuration r \<noteq> None \<and> rc_lane_telemetry r \<noteq> None)
     \<and> (case rc_lane_telemetry r of None \<Rightarrow> True
          | Some ts \<Rightarrow> length (js_set (map lt_lane ts)) = length (map lt_lane ts))
     \<and> (fst (rc_active_release r) = None) = (snd (rc_active_release r) = None)
     \<and> rc_active_release r
         = (case rc_configuration r of None \<Rightarrow> (None, None) | Some c \<Rightarrow> elc_active_release c)"

datatype compile_status = Status_ok | Status_no_match | Status_policy_excluded | Status_degraded

record compile_result =
  cr_status :: compile_status
  cr_context_slice :: "context_slice option"
  cr_receipt :: retrieval_receipt
  cr_excluded_count :: nat
  cr_reason_codes :: "string list"
  cr_warnings :: "string list"

datatype compile_error =
  Input_invalid | Item_invalid | Slice_invalid | Receipt_invalid | Budget_invalid | Result_invalid
| Not_canonical canonical_json_error


subsection \<open>JSON\<close>

fun abstraction_string :: "abstraction_level \<Rightarrow> string" where
  "abstraction_string L0_evidence = ''l0_evidence''"
| "abstraction_string L1_memory = ''l1_memory''"
| "abstraction_string L2_topic = ''l2_topic''"
| "abstraction_string L2_scenario = ''l2_scenario''"
| "abstraction_string L2_relation = ''l2_relation''"
| "abstraction_string L3_core = ''l3_core''"

fun lifecycle_string :: "lifecycle \<Rightarrow> string" where
  "lifecycle_string Working = ''working''"
| "lifecycle_string Candidate = ''candidate''"
| "lifecycle_string Active = ''active''"
| "lifecycle_string Superseded = ''superseded''"
| "lifecycle_string Revoked = ''revoked''"
| "lifecycle_string Quarantined = ''quarantined''"
| "lifecycle_string Purged = ''purged''"

fun lane_status_string :: "lane_status \<Rightarrow> string" where
  "lane_status_string Disabled_by_policy = ''disabled_by_policy''"
| "lane_status_string Disabled_by_request = ''disabled_by_request''"
| "lane_status_string Unavailable = ''unavailable''"
| "lane_status_string Stale = ''stale''"
| "lane_status_string Empty = ''empty''"
| "lane_status_string Eligible = ''eligible''"
| "lane_status_string Degraded = ''degraded''"

definition field :: "string \<Rightarrow> ('a \<Rightarrow> jval) \<Rightarrow> 'a option \<Rightarrow> (string \<times> jval) list" where
  "field name f x = (case x of None \<Rightarrow> [] | Some v \<Rightarrow> [(name, f v)])"

definition nullable :: "('a \<Rightarrow> jval) \<Rightarrow> 'a option \<Rightarrow> jval" where
  "nullable f x = (case x of None \<Rightarrow> J_null | Some v \<Rightarrow> f v)"

definition jstrs :: "string list \<Rightarrow> jval" where
  "jstrs xs = J_arr (map jstr xs)"

definition jnat :: "nat \<Rightarrow> jval" where
  "jnat n = J_num (of_nat n)"

fun content_json :: "content_ref \<Rightarrow> jval" where
  "content_json (Inline t m) =
     jobj [(''storage'', jstr ''inline''), (''text'', J_str t), (''media_type'', jstr m)]"
| "content_json (Blob h n m) =
     jobj [(''storage'', jstr ''blob''), (''content_hash'', jstr h), (''size_bytes'', jnat n),
           (''media_type'', jstr m)]"

definition score_components_json :: "score_components \<Rightarrow> jval" where
  "score_components_json s = jobj
     [(''relevance'', J_num (sc_relevance s)), (''authority'', J_num (sc_authority s)),
      (''freshness'', J_num (sc_freshness s)),
      (''evidence_diversity'', J_num (sc_evidence_diversity s)),
      (''conflict_cost'', J_num (sc_conflict_cost s)), (''token_utility'', J_num (sc_token_utility s)),
      (''lane_contribution'', J_num (sc_lane_contribution s))]"

text \<open>The fields of an item but its \<open>token_estimate\<close>.\<close>

definition item_fields :: "slice_item \<Rightarrow> (string \<times> jval) list" where
  "item_fields i =
     [(''memory_id'', jstr (it_memory_id i)), (''revision_id'', jstr (it_revision_id i)),
      (''abstraction'', jstr (abstraction_string (it_abstraction i))),
      (''lifecycle'', jstr (lifecycle_string (it_lifecycle i))),
      (''authority'', jstr (authority_string (it_authority i))),
      (''sensitivity'', jstr (sensitivity_string (it_sensitivity i))),
      (''scope'', projection_scope_json (it_scope i)), (''content'', content_json (it_content i)),
      (''evidence_ids'', jstrs (it_evidence_ids i)),
      (''selection_reason'', J_str (it_selection_reason i)),
      (''uncertainty'', nullable J_str (it_uncertainty i))]
     @ field ''lane'' (\<lambda>l. jstr (lane_string l)) (it_lane i)
     @ field ''score_components'' score_components_json (it_score_components i)
     @ field ''conflict_group_id'' (nullable jstr) (it_conflict_group_id i)
     @ field ''decision_reason_codes'' jstrs (it_decision_reason_codes i)
     @ field ''projection'' projection_lineage_json (it_projection i)
     @ field ''graph_path'' id (it_graph_path i)
     @ field ''vector'' id (it_vector i)"

definition slice_item_json :: "slice_item \<Rightarrow> jval" where
  "slice_item_json i = jobj (item_fields i @ [(''token_estimate'', jnat (it_token_estimate i))])"

fun context_frontier_json :: "context_frontier \<Rightarrow> jval" where
  "context_frontier_json (Frontier_v1 l t p s h ts) = jobj
     [(''schema_version'', jstr ''1.0.0''), (''ledger_epoch'', jnat l), (''tombstone_epoch'', jnat t),
      (''projection_epoch'', jnat p), (''source_frontier_hash'', jstr s),
      (''projection_frontier_hash'', jstr h), (''transform_versions'', J_arr (map transform_json ts))]"
| "context_frontier_json (Frontier_v2 l t fs a) = jobj
     [(''schema_version'', jstr ''2.0.0''), (''ledger_epoch'', jnat l), (''tombstone_epoch'', jnat t),
      (''scope_frontiers'', J_arr (map scope_frontier_json fs)), (''aggregate_frontier_hash'', jstr a)]"

definition release_fields :: "string option \<times> string option \<Rightarrow> (string \<times> jval) list" where
  "release_fields r = field ''active_learning_release_id'' jstr (fst r)
     @ field ''active_learning_release_hash'' jstr (snd r)"

definition configuration_json :: "effective_lane_configuration \<Rightarrow> jval" where
  "configuration_json c = jobj
     ([(''policy_hash'', jstr (elc_policy_hash c))] @ release_fields (elc_active_release c)
      @ [(''requested_lanes'', jstrs (map lane_string (elc_requested_lanes c))),
         (''enabled_lanes'', jstrs (map lane_string (elc_enabled_lanes c))),
         (''limits'', limits_json (elc_limits c)), (''reason_codes'', jstrs (elc_reason_codes c))])"

definition bounded_work_json :: "bounded_work \<Rightarrow> jval" where
  "bounded_work_json w = jobj
     ([(''boundary'', jstr (bw_boundary w)), (''configured_limit'', jnat (bw_configured_limit w)),
       (''observed_count'', jnat (bw_observed_count w)), (''retained_count'', jnat (bw_retained_count w)),
       (''truncated_count'', jnat (bw_truncated_count w)), (''complete'', J_bool (bw_complete w))]
      @ field ''reason_code'' jstr (bw_reason_code w))"

definition lane_telemetry_json :: "lane_telemetry \<Rightarrow> jval" where
  "lane_telemetry_json t = jobj
     ([(''lane'', jstr (lane_string (lt_lane t))), (''status'', jstr (lane_status_string (lt_status t))),
       (''duration_ms'', J_num (lt_duration_ms t)), (''candidate_count'', jnat (lt_candidate_count t)),
       (''eligible_count'', jnat (lt_eligible_count t)), (''selected_count'', jnat (lt_selected_count t)),
       (''exclusion_counts'', jobj (map (\<lambda>(k, n). (k, jnat n)) (lt_exclusion_counts t))),
       (''reason_codes'', jstrs (lt_reason_codes t))]
      @ field ''query_hashes'' jstrs (lt_query_hashes t)
      @ field ''bounded_work'' (\<lambda>ws. J_arr (map bounded_work_json ws)) (lt_bounded_work t))"

definition conflict_set_json :: "context_conflict_set \<Rightarrow> jval" where
  "conflict_set_json c = jobj
     [(''conflict_group_id'', jstr (cs_conflict_group_id c)),
      (''member_revision_ids'', jstrs (cs_member_revision_ids c)),
      (''current_revision_id'', nullable jstr (cs_current_revision_id c)),
      (''reason'', J_str (cs_reason c))]"

definition recall_request_json :: "recall_request \<Rightarrow> jval" where
  "recall_request_json r = jobj
     ([(''schema_version'', jstr ''1.0.0''), (''request_id'', jstr (rr_request_id r)),
       (''goal'', J_str (rr_goal r)), (''query'', J_str (rr_query r)),
       (''scopes'', J_arr (map projection_scope_json (rr_scopes r))),
       (''as_of'', jstr (iso (rr_as_of r))), (''token_budget'', jnat (rr_token_budget r)),
       (''include_sensitive'', J_bool (rr_include_sensitive r))]
      @ field ''lane_overrides'' (\<lambda>l. jobj
          [(''requested_lanes'', jstrs (map lane_string (requested_lanes l))),
           (''limits'', limits_json (request_limits l))]) (rr_lane_overrides r))"

text \<open>A slice and a receipt without the hash that seals them.\<close>

definition unsealed_slice_json :: "context_slice \<Rightarrow> jval" where
  "unsealed_slice_json s = jobj
     ([(''schema_version'', jstr ''1.0.0''), (''context_slice_id'', jstr (sl_context_slice_id s)),
       (''request_id'', jstr (sl_request_id s)), (''compiler_version'', jstr (sl_compiler_version s)),
       (''created_at'', jstr (iso (sl_created_at s))), (''token_budget'', jnat (sl_token_budget s)),
       (''token_used'', jnat (sl_token_used s)), (''items'', J_arr (map slice_item_json (sl_items s)))]
      @ field ''policy_version'' jstr (sl_policy_version s)
      @ field ''frontier'' context_frontier_json (sl_frontier s)
      @ field ''effective_lane_configuration'' configuration_json (sl_configuration s)
      @ field ''lane_telemetry'' (\<lambda>ts. J_arr (map lane_telemetry_json ts)) (sl_lane_telemetry s)
      @ field ''conflict_sets'' (\<lambda>cs. J_arr (map conflict_set_json cs)) (sl_conflict_sets s)
      @ release_fields (sl_active_release s))"

definition receipt_item_json :: "receipt_item \<Rightarrow> jval" where
  "receipt_item_json i = jobj
     ([(''memory_id'', jstr (ri_memory_id i)), (''revision_id'', jstr (ri_revision_id i)),
       (''decision'', jstr (if ri_included i then ''included'' else ''excluded'')),
       (''reason_codes'', jstrs (ri_reason_codes i)), (''lane'', jstr (ri_lane i)),
       (''score'', nullable J_num (ri_score i))]
      @ field ''score_components'' score_components_json (ri_score_components i)
      @ field ''token_estimate'' jnat (ri_token_estimate i)
      @ field ''projection'' projection_lineage_json (ri_projection i)
      @ field ''graph_path'' id (ri_graph_path i)
      @ field ''vector'' id (ri_vector i)
      @ field ''conflict_group_id'' (nullable jstr) (ri_conflict_group_id i))"

fun receipt_state_string :: "receipt_state \<Rightarrow> string" where
  "receipt_state_string Rs_durable = ''durable''"
| "receipt_state_string Rs_projection_pending = ''projection_pending''"
| "receipt_state_string Rs_projected = ''projected''"
| "receipt_state_string Rs_partial = ''partial''"
| "receipt_state_string Rs_failed = ''failed''"
| "receipt_state_string Rs_rolled_back = ''rolled_back''"
| "receipt_state_string Rs_purged = ''purged''"

definition unsealed_receipt_json :: "retrieval_receipt \<Rightarrow> jval" where
  "unsealed_receipt_json r = jobj
     ([(''schema_version'', jstr ''1.0.0''), (''receipt_id'', jstr (rc_receipt_id r)),
       (''created_at'', jstr (iso (rc_created_at r))), (''state'', jstr (receipt_state_string (rc_state r))),
       (''request_hash'', jstr (rc_request_hash r)), (''kind'', jstr ''retrieval''),
       (''context_slice_id'', nullable jstr (rc_context_slice_id r)),
       (''compiler_version'', jstr (rc_compiler_version r)),
       (''policy_version'', jstr (rc_policy_version r))]
      @ field ''frontier'' context_frontier_json (rc_frontier r)
      @ field ''effective_lane_configuration'' configuration_json (rc_configuration r)
      @ field ''lane_telemetry'' (\<lambda>ts. J_arr (map lane_telemetry_json ts)) (rc_lane_telemetry r)
      @ release_fields (rc_active_release r)
      @ [(''items'', J_arr (map receipt_item_json (rc_items r)))])"

end
