(* ===== verification/LayeredCompiler.thy ===== *)
theory LayeredCompiler
  imports ContextModel
begin

text \<open>
  The layered compiler (\<open>compileLayeredContext\<close> of \<open>packages/context-compiler/src/index.ts\<close> and
  \<open>buildLayeredArtifacts\<close> of \<open>receipt-builder.ts\<close>): filter, deduplicate, rank, build items, pack,
  decide, seal a slice and a receipt.

  \<open>sha\<close> is \<open>canonicalSha256\<close> (the seals omit the hash field of their object), \<open>ft\<close> the decimal
  rendering of a non-integer double. After deduplication the revisions are distinct
  (\<open>deduplication_is_covered\<close>), so the maps the code keys by revision between the stages pair each
  ranked candidate with its own item, and the model keeps the pairs.
\<close>

record layered_input =
  li_request :: recall_request
  li_candidates :: "layered_candidate list"
  li_exclusions :: "candidate_exclusion list"
  li_frontier :: context_frontier
  li_configuration :: effective_lane_configuration
  li_telemetry :: "lane_telemetry list"
  li_conflict_sets :: "context_conflict_set list"
  li_created_at :: timestamp

definition layered_exclusion_ok :: "candidate_exclusion \<Rightarrow> bool" where
  "layered_exclusion_ok e \<longleftrightarrow>
     js_trim (code_points (ex_memory_id e)) \<noteq> [] \<and> js_trim (code_points (ex_revision_id e)) \<noteq> []
     \<and> reason_code_ok (ex_reason_code e)
     \<and> (ex_lane e = Relation_graph) = (ex_graph_path e \<noteq> None)
     \<and> (ex_lane e = Semantic_vector) = (ex_vector e \<noteq> None)"

definition layered_input_ok :: "(jval \<Rightarrow> string) \<Rightarrow> layered_input \<Rightarrow> bool" where
  "layered_input_ok sha i \<longleftrightarrow>
     recall_request_ok (li_request i) \<and> list_all layered_candidate_ok (li_candidates i)
     \<and> list_all layered_exclusion_ok (li_exclusions i) \<and> context_frontier_ok sha (li_frontier i)
     \<and> effective_lane_configuration_ok (li_configuration i)
     \<and> list_all lane_telemetry_ok (li_telemetry i)
     \<and> list_all context_conflict_set_ok (li_conflict_sets i)
     \<and> list_all (\<lambda>c. scope_key (cand_in_scope c) \<in> set (map scope_key (rr_scopes (li_request i)))
          \<and> cand_lane c \<in> set (elc_enabled_lanes (li_configuration i))) (li_candidates i)
     \<and> (let lanes = map lt_lane (li_telemetry i);
            expected = applicable_recall_lanes (elc_requested_lanes (li_configuration i)
              @ elc_enabled_lanes (li_configuration i)
              @ (case rr_lane_overrides (li_request i) of None \<Rightarrow> [] | Some l \<Rightarrow> requested_lanes l))
        in length lanes = length expected \<and> length (js_set lanes) = length lanes
           \<and> list_all (\<lambda>l. l \<in> set lanes) expected)"

subsection \<open>Items\<close>

definition item_without_estimate :: "ranked \<Rightarrow> slice_item" where
  "item_without_estimate r = (let p = rk_candidate r in
     \<lparr>it_memory_id = pc_memory_id p, it_revision_id = pc_revision_id p,
      it_abstraction = pc_abstraction p, it_lifecycle = Active, it_authority = pc_authority p,
      it_sensitivity = pc_sensitivity p, it_scope = pc_scope p, it_content = pc_content p,
      it_evidence_ids = pc_evidence_ids p,
      it_selection_reason =
        code_points (''ranked '' @ lane_string (pc_lane p) @ '' after canonical revalidation''),
      it_uncertainty = (if pc_conflict_group_id p = None then None
        else Some (code_points ''Competing claims are retained without synthetic merge.'')),
      it_token_estimate = 0, it_lane = Some (pc_lane p), it_projection = pc_projection p,
      it_graph_path = pc_graph_path p, it_vector = pc_vector p,
      it_score_components = Some (rk_components r),
      it_conflict_group_id = Some (pc_conflict_group_id p),
      it_decision_reason_codes = Some (pc_reason_codes p)\<rparr>)"

definition layered_item :: "(rat \<Rightarrow> ustring) \<Rightarrow> ranked \<Rightarrow> compile_error + slice_item" where
  "layered_item ft r = (let i = item_without_estimate r in
     case estimate_structured_tokens ft (jobj (item_fields i)) of
       Inl e \<Rightarrow> Inl (Not_canonical e)
     | Inr n \<Rightarrow> (let item = i\<lparr>it_token_estimate := n\<rparr> in
                if slice_item_ok item then Inr item else Inl Item_invalid))"

definition packable_of :: "ranked \<times> slice_item \<Rightarrow> (ranked \<times> slice_item) packable" where
  "packable_of ri = \<lparr>pk_key = pc_revision_id (rk_candidate (fst ri)),
     pk_lane = pc_lane (rk_candidate (fst ri)), pk_priority = rk_constraint_priority (fst ri),
     pk_score = rk_total_score (fst ri), pk_tokens = it_token_estimate (snd ri), pk_item = ri\<rparr>"

subsection \<open>Decisions\<close>

text \<open>A decision is its receipt item, the index of its lane in \<open>RecallLaneSchema.options\<close>, and its item.\<close>

record layered_decision =
  ld_lane :: recall_lane
  ld_receipt_item :: receipt_item
  ld_item :: "slice_item option"

definition decision_of_packed :: "(ranked \<times> slice_item) packable \<times> bool \<Rightarrow> layered_decision" where
  "decision_of_packed d = (let (r, item) = pk_item (fst d); p = rk_candidate r in
     \<lparr>ld_lane = pc_lane p,
      ld_receipt_item =
        \<lparr>ri_memory_id = pc_memory_id p, ri_revision_id = pc_revision_id p, ri_included = snd d,
         ri_reason_codes = (if snd d then ''INCLUDED'' # pc_reason_codes p else [''BUDGET_EXCEEDED'']),
         ri_lane = lane_string (pc_lane p), ri_score = Some (rk_total_score r),
         ri_score_components = Some (rk_components r), ri_token_estimate = Some (it_token_estimate item),
         ri_projection = pc_projection p, ri_graph_path = pc_graph_path p, ri_vector = pc_vector p,
         ri_conflict_group_id = Some (pc_conflict_group_id p)\<rparr>,
      ld_item = Some item\<rparr>)"

definition exclusion_decision :: "candidate_exclusion \<Rightarrow> layered_decision" where
  "exclusion_decision e =
     \<lparr>ld_lane = ex_lane e,
      ld_receipt_item =
        \<lparr>ri_memory_id = ex_memory_id e, ri_revision_id = ex_revision_id e, ri_included = False,
         ri_reason_codes = [ex_reason_code e], ri_lane = lane_string (ex_lane e), ri_score = ex_score e,
         ri_score_components = None, ri_token_estimate = None, ri_projection = None,
         ri_graph_path = ex_graph_path e, ri_vector = ex_vector e, ri_conflict_group_id = None\<rparr>,
      ld_item = None\<rparr>"

definition decision_order :: "layered_decision \<Rightarrow> nat \<times> nat \<times> nat list \<times> nat list" where
  "decision_order d = (if ri_included (ld_receipt_item d) then 0 else 1,
     index_of (ld_lane d) recall_lanes, locale_key (ri_revision_id (ld_receipt_item d)))"

subsection \<open>Artifacts\<close>

definition selected_telemetry :: "lane_telemetry list \<Rightarrow> layered_decision list \<Rightarrow> lane_telemetry list" where
  "selected_telemetry ts ds = map (\<lambda>t. t\<lparr>lt_selected_count := min (lt_eligible_count t)
     (length (filter (\<lambda>d. ri_included (ld_receipt_item d) \<and> ld_lane d = lt_lane t) ds))\<rparr>) ts"

definition short_identifier :: "(jval \<Rightarrow> string) \<Rightarrow> string \<Rightarrow> jval \<Rightarrow> string" where
  "short_identifier sha pre v = pre @ '':'' @ take 48 (drop 7 (sha v))"

definition ordered_decision_json :: "layered_decision \<Rightarrow> jval" where
  "ordered_decision_json d = (let i = ld_receipt_item d in jobj
     [(''memory_id'', jstr (ri_memory_id i)), (''revision_id'', jstr (ri_revision_id i)),
      (''included'', J_bool (ri_included i)), (''reason_codes'', jstrs (ri_reason_codes i))])"

definition included_items :: "layered_decision list \<Rightarrow> slice_item list" where
  "included_items ds = concat (map (\<lambda>d. case ld_item d of
     None \<Rightarrow> [] | Some i \<Rightarrow> if ri_included (ld_receipt_item d) then [i] else []) ds)"

text \<open>\<open>sha256:0\<dots>0\<close>, the placeholder of a hash that is not computed yet.\<close>

definition zero_hash :: string where
  "zero_hash = ''sha256:'' @ replicate 64 (CHR ''0'')"

definition build_slice ::
  "(jval \<Rightarrow> string) \<Rightarrow> layered_input \<Rightarrow> recall_request \<Rightarrow> context_conflict_set list
     \<Rightarrow> layered_decision list \<Rightarrow> compile_error + context_slice" where
  "build_slice sha input request conflict_sets ds =
     (let items = included_items ds;
          unsealed = \<lparr>sl_context_slice_id = short_identifier sha ''context''
              (jobj [(''request_id'', jstr (rr_request_id request)),
                     (''ordered_decisions'', J_arr (map ordered_decision_json ds)),
                     (''frontier'', context_frontier_json (li_frontier input))]),
            sl_request_id = rr_request_id request, sl_compiler_version = ''3.0.0'',
            sl_created_at = li_created_at input, sl_token_budget = rr_token_budget request,
            sl_token_used = foldl (\<lambda>n i. n + it_token_estimate i) 0 items, sl_items = items,
            sl_frozen_hash = zero_hash, sl_policy_version = Some ''2.0.0'',
            sl_frontier = Some (li_frontier input), sl_configuration = Some (li_configuration input),
            sl_lane_telemetry = Some (selected_telemetry (li_telemetry input) ds),
            sl_conflict_sets = Some conflict_sets,
            sl_active_release = elc_active_release (li_configuration input)\<rparr>
      in bindE (guardE (context_slice_ok sha unsealed) Slice_invalid) (\<lambda>_.
         let sealed = unsealed\<lparr>sl_frozen_hash := sha (unsealed_slice_json unsealed)\<rparr> in
         if context_slice_ok sha sealed then Inr sealed else Inl Slice_invalid))"

definition build_receipt ::
  "(jval \<Rightarrow> string) \<Rightarrow> layered_input \<Rightarrow> recall_request \<Rightarrow> context_slice \<Rightarrow> layered_decision list
     \<Rightarrow> bool \<Rightarrow> compile_error + retrieval_receipt" where
  "build_receipt sha input request slice ds degraded =
     (let items = map ld_receipt_item ds;
          unsealed = \<lparr>rc_receipt_id = short_identifier sha ''retrieval''
              (jobj [(''request_id'', jstr (rr_request_id request)),
                     (''context_slice_id'', jstr (sl_context_slice_id slice)),
                     (''items'', J_arr (map receipt_item_json items))]),
            rc_created_at = li_created_at input,
            rc_state = (if degraded then Rs_partial else Rs_durable),
            rc_request_hash = sha (recall_request_json request), rc_receipt_hash = zero_hash,
            rc_context_slice_id = Some (sl_context_slice_id slice),
            rc_compiler_version = ''3.0.0'', rc_policy_version = ''2.0.0'',
            rc_frontier = Some (li_frontier input), rc_configuration = Some (li_configuration input),
            rc_lane_telemetry = Some (selected_telemetry (li_telemetry input) ds),
            rc_active_release = elc_active_release (li_configuration input), rc_items = items\<rparr>;
          sealed = unsealed\<lparr>rc_receipt_hash := sha (unsealed_receipt_json unsealed)\<rparr>
      in if retrieval_receipt_ok sha sealed then Inr sealed else Inl Receipt_invalid)"

subsection \<open>The compiler\<close>

definition layered_filter :: "layered_input \<Rightarrow> prepared list \<times> candidate_exclusion list" where
  "layered_filter input = hard_filter_layered_candidates
     \<lparr>fo_allowed_scopes = rr_scopes (li_request input), fo_as_of = rr_as_of (li_request input),
      fo_include_sensitive = rr_include_sensitive (li_request input), fo_frontier = li_frontier input\<rparr>
     (li_candidates input)"

definition layered_resolution :: "(jval \<Rightarrow> string) \<Rightarrow> layered_input \<Rightarrow> resolution" where
  "layered_resolution sha input =
     resolve_conflicts_and_dedupe sha (fst (layered_filter input)) (li_conflict_sets input)"

definition layered_ranking :: "(jval \<Rightarrow> string) \<Rightarrow> unicode \<Rightarrow> layered_input \<Rightarrow> ranked list" where
  "layered_ranking sha u input =
     rank_layered_candidates u (rr_query (li_request input)) (rr_as_of (li_request input))
       (rs_candidates (layered_resolution sha input))"

definition layered_decisions ::
  "(rat \<Rightarrow> ustring) \<Rightarrow> (jval \<Rightarrow> string) \<Rightarrow> unicode \<Rightarrow> layered_input
     \<Rightarrow> compile_error + (layered_decision list \<times> context_conflict_set list \<times> nat)" where
  "layered_decisions ft sha u input =
     (let ranked = layered_ranking sha u input; resolved = layered_resolution sha input in
      bindE (mapE (layered_item ft) ranked) (\<lambda>items.
      case pack_context_items (map packable_of (zip ranked items))
             (int (rr_token_budget (li_request input))) of
        None \<Rightarrow> Inl Budget_invalid
      | Some packed \<Rightarrow> Inr
          (sort_key decision_order
             (map decision_of_packed (packed_decisions packed)
              @ map exclusion_decision (snd (layered_filter input))
              @ map exclusion_decision (rs_exclusions resolved)
              @ map exclusion_decision (li_exclusions input)),
           rs_conflict_sets resolved, length (packed_included packed))))"

definition compile_layered_context ::
  "(rat \<Rightarrow> ustring) \<Rightarrow> (jval \<Rightarrow> string) \<Rightarrow> unicode \<Rightarrow> layered_input
     \<Rightarrow> compile_error + compile_result" where
  "compile_layered_context ft sha u parsed =
     bindE (guardE (layered_input_ok sha parsed) Input_invalid) (\<lambda>_.
     let input = parsed\<lparr>li_request := (li_request parsed)\<lparr>rr_scopes :=
           sort_key (\<lambda>s. locale_key (scope_key s)) (rr_scopes (li_request parsed))\<rparr>\<rparr> in
     bindE (layered_decisions ft sha u input) (\<lambda>(ds, conflict_sets, included).
     let degraded = sort (map (\<lambda>t. lane_string (lt_lane t))
           (filter (\<lambda>t. lt_status t = Unavailable \<or> lt_status t = Degraded) (li_telemetry input)));
         excluded = filter (\<lambda>d. \<not> ri_included (ld_receipt_item d)) ds
     in
     bindE (build_slice sha input (li_request input) conflict_sets ds) (\<lambda>slice.
     bindE (build_receipt sha input (li_request input) slice ds (length degraded > 0)) (\<lambda>receipt.
     Inr \<lparr>cr_status = (if length degraded > 0 then Status_degraded
                       else if included > 0 then Status_ok
                       else if length excluded > 0 then Status_policy_excluded
                       else Status_no_match),
          cr_context_slice = Some slice, cr_receipt = receipt,
          cr_excluded_count = length excluded,
          cr_reason_codes = sort (js_set (concat (map (\<lambda>d. ri_reason_codes (ld_receipt_item d)) excluded))),
          cr_warnings = map (\<lambda>l. ''lane unavailable or degraded: '' @ l) degraded\<rparr>))))"


subsection \<open>What the stages hand on\<close>

lemma resolved_subset:
  "set (rs_candidates (resolve_conflicts_and_dedupe sha cs sets)) \<subseteq> annotate sets ` set cs"
  using keep_first_subset [of pc_revision_id "[]" "sort_key identity_order (map (annotate sets) cs)"]
  by (auto simp: resolve_conflicts_and_dedupe_def Let_def)

lemma resolved_distinct:
  "distinct (map pc_revision_id (rs_candidates (resolve_conflicts_and_dedupe sha cs sets)))"
  unfolding resolve_conflicts_and_dedupe_def Let_def
  by (simp add: distinct_map_filter keep_first_distinct)

lemma rank_length [simp]: "length (rank_layered_candidates u q t ps) = length ps"
  by (simp add: rank_layered_candidates_def)

lemma rank_candidates_mset:
  "mset (map rk_candidate (rank_layered_candidates u q t ps)) = mset ps"
proof -
  have "rk_candidate (rank_one u q t p) = p" for p by (simp add: rank_one_def Let_def)
  then show ?thesis by (simp add: rank_layered_candidates_def multiset.map_comp comp_def)
qed

lemma layered_item_fields:
  assumes "layered_item ft r = Inr i"
  shows "slice_item_ok i \<and> it_memory_id i = pc_memory_id (rk_candidate r)
    \<and> it_revision_id i = pc_revision_id (rk_candidate r) \<and> it_scope i = pc_scope (rk_candidate r)
    \<and> it_sensitivity i = pc_sensitivity (rk_candidate r) \<and> it_content i = pc_content (rk_candidate r)"
  using assms
  by (auto simp: layered_item_def item_without_estimate_def Let_def split: sum.splits if_splits)

lemma decision_of_packed_fields [simp]:
  "ri_included (ld_receipt_item (decision_of_packed d)) = snd d"
  "ld_item (decision_of_packed d) = Some (snd (pk_item (fst d)))"
  by (simp_all add: decision_of_packed_def split_beta Let_def)

lemma exclusion_decision_fields [simp]:
  "ri_included (ld_receipt_item (exclusion_decision e)) = False" "ld_item (exclusion_decision e) = None"
  by (simp_all add: exclusion_decision_def)

text \<open>The shape of the decisions of a run that gets as far as deciding.\<close>

lemma layered_decisions_Inr:
  assumes "layered_decisions ft sha u input = Inr (ds, sets, n)"
  shows "\<exists>items packed. mapE (layered_item ft) (layered_ranking sha u input) = Inr items
    \<and> pack_context_items (map packable_of (zip (layered_ranking sha u input) items))
        (int (rr_token_budget (li_request input))) = Some packed
    \<and> mset ds = mset (map decision_of_packed (packed_decisions packed))
       + mset (map exclusion_decision (snd (layered_filter input)))
       + mset (map exclusion_decision (rs_exclusions (layered_resolution sha input)))
       + mset (map exclusion_decision (li_exclusions input))
    \<and> n = length (packed_included packed) \<and> sets = rs_conflict_sets (layered_resolution sha input)"
  using assms unfolding layered_decisions_def Let_def bindE_Inr_iff
  by (auto split: option.splits simp: ac_simps)

lemma packed_keys:
  assumes "length items = length ranked"
  shows "map pk_key (map packable_of (zip ranked items)) = map pc_revision_id (map rk_candidate ranked)"
  using assms by (induction ranked items rule: list_induct2') (auto simp: packable_of_def)

lemma ranking_mset:
  "mset (map rk_candidate (layered_ranking sha u input))
     = mset (rs_candidates (layered_resolution sha input))"
  by (simp add: layered_ranking_def rank_candidates_mset flip: mset_map)

lemma ranking_distinct:
  "distinct (map pc_revision_id (map rk_candidate (layered_ranking sha u input)))"
proof -
  have "mset (map pc_revision_id (map rk_candidate (layered_ranking sha u input)))
      = mset (map pc_revision_id (rs_candidates (layered_resolution sha input)))"
    unfolding mset_map [of pc_revision_id] ranking_mset ..
  moreover have "distinct (map pc_revision_id (rs_candidates (layered_resolution sha input)))"
    unfolding layered_resolution_def by (rule resolved_distinct)
  ultimately show ?thesis using mset_eq_imp_distinct_iff by blast
qed

lemma packed_permutation:
  assumes "mapE (layered_item ft) (layered_ranking sha u input) = Inr items"
    and "pack_context_items (map packable_of (zip (layered_ranking sha u input) items)) b = Some packed"
  shows "mset (map fst (packed_decisions packed))
     = mset (map packable_of (zip (layered_ranking sha u input) items))"
proof -
  have "distinct (map pk_key (map packable_of (zip (layered_ranking sha u input) items)))"
    unfolding packed_keys [OF mapE_length [OF assms(1)]] by (rule ranking_distinct)
  then show ?thesis
    using mset_packing_order pack_context_items_Some(3) [OF assms(2)] pack_loop_order by metis
qed

lemma decisions_length:
  assumes "layered_decisions ft sha u input = Inr (ds, sets, n)"
  shows "length ds = length (li_candidates input) + length (li_exclusions input)"
proof -
  from layered_decisions_Inr [OF assms] obtain items packed where
    i: "mapE (layered_item ft) (layered_ranking sha u input) = Inr items"
    and p: "pack_context_items (map packable_of (zip (layered_ranking sha u input) items))
        (int (rr_token_budget (li_request input))) = Some packed"
    and ds: "mset ds = mset (map decision_of_packed (packed_decisions packed))
       + mset (map exclusion_decision (snd (layered_filter input)))
       + mset (map exclusion_decision (rs_exclusions (layered_resolution sha input)))
       + mset (map exclusion_decision (li_exclusions input))" by blast
  have "length (packed_decisions packed) = length (layered_ranking sha u input)"
    using arg_cong [OF packed_permutation [OF i p], of size] mapE_length [OF i] by simp
  also have "\<dots> = length (rs_candidates (layered_resolution sha input))"
    using arg_cong [OF ranking_mset [of sha u input], of size] by simp
  finally have "length (packed_decisions packed) = length (rs_candidates (layered_resolution sha input))" .
  moreover have "length (rs_candidates (layered_resolution sha input))
      + length (rs_exclusions (layered_resolution sha input)) = length (fst (layered_filter input))"
    unfolding layered_resolution_def by (rule resolution_counts)
  moreover have "length (fst (layered_filter input)) + length (snd (layered_filter input))
      = length (li_candidates input)"
    unfolding layered_filter_def by (rule hard_filter_length)
  moreover have "length ds = length (packed_decisions packed) + length (snd (layered_filter input))
      + length (rs_exclusions (layered_resolution sha input)) + length (li_exclusions input)"
    using arg_cong [OF ds, of size] by simp
  ultimately show ?thesis by linarith
qed

lemma included_items_set:
  "i \<in> set (included_items ds) \<longleftrightarrow>
     (\<exists>d \<in> set ds. ld_item d = Some i \<and> ri_included (ld_receipt_item d))"
  by (induction ds) (auto simp: included_items_def split: option.splits)

lemma included_items_origin:
  assumes "layered_decisions ft sha u input = Inr (ds, sets, n)" and "i \<in> set (included_items ds)"
  shows "slice_item_ok i \<and> (\<exists>p \<in> set (fst (layered_filter input)).
     it_memory_id i = pc_memory_id p \<and> it_revision_id i = pc_revision_id p
     \<and> it_scope i = pc_scope p \<and> it_sensitivity i = pc_sensitivity p \<and> it_content i = pc_content p)"
proof -
  from layered_decisions_Inr [OF assms(1)] obtain items packed where
    it: "mapE (layered_item ft) (layered_ranking sha u input) = Inr items"
    and p: "pack_context_items (map packable_of (zip (layered_ranking sha u input) items))
        (int (rr_token_budget (li_request input))) = Some packed"
    and ds: "mset ds = mset (map decision_of_packed (packed_decisions packed))
       + mset (map exclusion_decision (snd (layered_filter input)))
       + mset (map exclusion_decision (rs_exclusions (layered_resolution sha input)))
       + mset (map exclusion_decision (li_exclusions input))" by blast
  from assms(2) obtain d where d: "d \<in> set ds" "ld_item d = Some i" by (auto simp: included_items_set)
  have "set ds = decision_of_packed ` set (packed_decisions packed)
      \<union> exclusion_decision ` set (snd (layered_filter input))
      \<union> exclusion_decision ` set (rs_exclusions (layered_resolution sha input))
      \<union> exclusion_decision ` set (li_exclusions input)"
    using arg_cong [OF ds, of set_mset] by simp
  with d obtain x where x: "x \<in> set (packed_decisions packed)" "i = snd (pk_item (fst x))" by auto
  have "fst x \<in> set (map packable_of (zip (layered_ranking sha u input) items))"
    using x(1) mset_eq_setD [OF packed_permutation [OF it p]] by (metis imageI list.set_map)
  then obtain r where r: "(r, i) \<in> set (zip (layered_ranking sha u input) items)"
    using x(2) by (auto simp: packable_of_def)
  then have "layered_item ft r = Inr i"
    using it by (auto simp: mapE_Inr_iff list_all2_iff)
  moreover have "rk_candidate r \<in> set (map rk_candidate (layered_ranking sha u input))"
    using r by (auto dest: set_zip_leftD)
  then have "rk_candidate r \<in> set (rs_candidates (layered_resolution sha input))"
    using mset_eq_setD [OF ranking_mset] by blast
  then obtain p where "p \<in> set (fst (layered_filter input))" "rk_candidate r = annotate (li_conflict_sets input) p"
    using resolved_subset unfolding layered_resolution_def by blast
  ultimately show ?thesis using layered_item_fields by (fastforce simp: annotate_def)
qed


lemma foldl_tokens: "foldl (\<lambda>n i. n + it_token_estimate i) k is = k + sum_list (map it_token_estimate is)"
  by (induction "is" arbitrary: k) simp_all

lemma build_slice_Inr:
  assumes "build_slice sha input request sets ds = Inr slice"
  shows "sl_items slice = included_items ds \<and> sl_token_budget slice = rr_token_budget request
    \<and> sl_token_used slice = sum_list (map it_token_estimate (included_items ds))
    \<and> context_slice_ok sha slice
    \<and> sl_frozen_hash slice = sha (unsealed_slice_json slice)"
  using assms
  by (auto simp: build_slice_def Let_def bindE_Inr_iff foldl_tokens unsealed_slice_json_def split: if_splits)

lemma build_receipt_Inr:
  assumes "build_receipt sha input request slice ds degraded = Inr r"
  shows "rc_items r = map ld_receipt_item ds \<and> retrieval_receipt_ok sha r
    \<and> rc_receipt_hash r = sha (unsealed_receipt_json r)"
  using assms by (auto simp: build_receipt_def Let_def unsealed_receipt_json_def split: if_splits)

definition canonical_scopes :: "layered_input \<Rightarrow> layered_input" where
  "canonical_scopes parsed = parsed\<lparr>li_request := (li_request parsed)\<lparr>rr_scopes :=
     sort_key (\<lambda>s. locale_key (scope_key s)) (rr_scopes (li_request parsed))\<rparr>\<rparr>"

lemma canonical_scopes_fields [simp]:
  "li_candidates (canonical_scopes i) = li_candidates i"
  "li_exclusions (canonical_scopes i) = li_exclusions i"
  "set (rr_scopes (li_request (canonical_scopes i))) = set (rr_scopes (li_request i))"
  "rr_token_budget (li_request (canonical_scopes i)) = rr_token_budget (li_request i)"
  "rr_as_of (li_request (canonical_scopes i)) = rr_as_of (li_request i)"
  "rr_include_sensitive (li_request (canonical_scopes i)) = rr_include_sensitive (li_request i)"
  "li_frontier (canonical_scopes i) = li_frontier i"
  by (simp_all add: canonical_scopes_def)

lemma compile_layered_Inr:
  assumes "compile_layered_context ft sha u input = Inr r"
  shows "layered_input_ok sha input \<and> (\<exists>ds sets n slice degraded.
     layered_decisions ft sha u (canonical_scopes input) = Inr (ds, sets, n)
     \<and> build_slice sha (canonical_scopes input) (li_request (canonical_scopes input)) sets ds = Inr slice
     \<and> build_receipt sha (canonical_scopes input) (li_request (canonical_scopes input)) slice ds degraded
         = Inr (cr_receipt r)
     \<and> cr_context_slice r = Some slice
     \<and> cr_excluded_count r = length (filter (\<lambda>d. \<not> ri_included (ld_receipt_item d)) ds))"
  using assms unfolding compile_layered_context_def Let_def canonical_scopes_def [symmetric]
  by (fastforce simp: bindE_Inr_iff)

lemma layered_filter_candidate:
  "p \<in> set (fst (layered_filter input)) \<Longrightarrow> \<exists>c \<in> set (li_candidates input).
     filter_candidate \<lparr>fo_allowed_scopes = rr_scopes (li_request input), fo_as_of = rr_as_of (li_request input),
      fo_include_sensitive = rr_include_sensitive (li_request input), fo_frontier = li_frontier input\<rparr> c = Inr p"
  by (auto simp: layered_filter_def hard_filter_eligible_set)

subsection \<open>Properties\<close>


definition filter_options_of :: "layered_input \<Rightarrow> filter_options" where
  "filter_options_of i =
     \<lparr>fo_allowed_scopes = rr_scopes (li_request i), fo_as_of = rr_as_of (li_request i),
      fo_include_sensitive = rr_include_sensitive (li_request i), fo_frontier = li_frontier i\<rparr>"

lemma filter_candidate_canonical:
  "filter_candidate (filter_options_of (canonical_scopes i)) c = filter_candidate (filter_options_of i) c"
  by (cases c) (simp_all add: filter_options_of_def split: option.splits)

text \<open>C40: a graph-lane exclusion makes the whole compilation fail. An excluded candidate of the
  \<open>relation_graph\<close> lane (out of its validity window, at a stale frontier, too sensitive, \<dots>), or an exclusion of that lane handed in by the caller, becomes a receipt item with
  a graph path but without lineage, score components and token estimate, which the receipt's
  schema rejects; so no context is ever returned for such an input.\<close>

theorem graph_exclusion_breaks_compilation:
  assumes "(\<exists>e \<in> set (li_exclusions input). ex_lane e = Relation_graph)
    \<or> (\<exists>c \<in> set (li_candidates input). cand_lane c = Relation_graph
         \<and> (\<exists>reason. filter_candidate (filter_options_of input) c = Inl reason))"
  shows "compile_layered_context ft sha u input \<noteq> Inr r"
proof
  assume "compile_layered_context ft sha u input = Inr r"
  from compile_layered_Inr [OF this] obtain ds sets n slice degraded where
    ds: "layered_decisions ft sha u (canonical_scopes input) = Inr (ds, sets, n)"
    and rc: "build_receipt sha (canonical_scopes input) (li_request (canonical_scopes input)) slice ds degraded
         = Inr (cr_receipt r)" by blast
  from layered_decisions_Inr [OF ds] obtain D where
    "mset ds = D + mset (map exclusion_decision (snd (layered_filter (canonical_scopes input))))
       + mset (map exclusion_decision (rs_exclusions (layered_resolution sha (canonical_scopes input))))
       + mset (map exclusion_decision (li_exclusions input))" by auto
  from arg_cong [OF this, of set_mset]
  have sets: "exclusion_decision ` set (snd (layered_filter (canonical_scopes input))) \<subseteq> set ds"
    "exclusion_decision ` set (li_exclusions input) \<subseteq> set ds" by auto
  have "\<exists>e. ex_lane e = Relation_graph \<and> exclusion_decision e \<in> set ds"
    using assms
  proof
    assume "\<exists>c \<in> set (li_candidates input). cand_lane c = Relation_graph
         \<and> (\<exists>reason. filter_candidate (filter_options_of input) c = Inl reason)"
    then obtain c reason where c: "c \<in> set (li_candidates input)" "cand_lane c = Relation_graph"
      and f: "filter_candidate (filter_options_of (canonical_scopes input)) c = Inl reason"
      by (auto simp: filter_candidate_canonical)
    then have "exclusion_of c reason \<in> set (snd (layered_filter (canonical_scopes input)))"
      unfolding layered_filter_def hard_filter_exclusion_set filter_options_of_def by auto
    moreover have "ex_lane (exclusion_of c reason) = Relation_graph"
      using c(2) by (cases c) auto
    ultimately show ?thesis using sets(1) by blast
  qed (use sets(2) in blast)
  then obtain e where "ex_lane e = Relation_graph" "exclusion_decision e \<in> set ds" by blast
  moreover have "receipt_item_refined (ld_receipt_item d)" if "d \<in> set ds" for d
    using build_receipt_Inr [OF rc] that
    by (auto simp: retrieval_receipt_ok_def receipt_item_ok_def list_all_iff)
  ultimately show False by (fastforce simp: receipt_item_refined_def exclusion_decision_def)
qed


definition candidate_identity :: "layered_candidate \<Rightarrow> recall_lane \<times> string" where
  "candidate_identity c = (case c of
       Memory_candidate l s r v m x \<Rightarrow> (l, si_revision_id m)
     | Projection_candidate a l s r v p g \<Rightarrow> (l, projection_revision_id p))"

lemma filter_candidate_identity:
  "filter_candidate opts c = Inr p \<Longrightarrow> (pc_lane p, pc_revision_id p) = candidate_identity c"
  by (cases c) (auto simp: candidate_identity_def split: if_splits option.splits)

lemma filter_candidate_identities:
  assumes "filter_candidate opts c = Inr p"
  shows "pc_lane p = fst (candidate_identity c)" "pc_revision_id p = snd (candidate_identity c)"
  using filter_candidate_identity [OF assms] by (metis fst_conv, metis snd_conv)

lemma exclusion_of_identity: "(ex_lane (exclusion_of c r), ex_revision_id (exclusion_of c r)) = candidate_identity c"
  by (cases c) (auto simp: candidate_identity_def)

lemma exclusion_of_identities:
  "ex_lane (exclusion_of c r) = fst (candidate_identity c)"
  "ex_revision_id (exclusion_of c r) = snd (candidate_identity c)"
  unfolding exclusion_of_identity [of c r, symmetric] by simp_all

lemma candidate_identity_ok:
  "layered_candidate_ok c \<Longrightarrow> identifier_ok (snd (candidate_identity c))"
  by (cases c) (auto simp: candidate_identity_def search_item_ok_def projection_revision_ok_def)

lemma lane_key_inj:
  assumes "locale_key (lane_string l) = locale_key (lane_string m)"
  shows "l = m"
proof -
  have "set (lane_string k) \<subseteq> set id_chars" for k by (cases k) (simp_all add: id_chars_def)
  then have "lane_string l = lane_string m" using assms by (intro locale_key_inj)
  then show ?thesis by (cases l; cases m) simp_all
qed

definition identity_key :: "layered_candidate \<Rightarrow> (nat list \<times> nat list) \<times> (nat list \<times> nat list)" where
  "identity_key c = (locale_key (lane_string (fst (candidate_identity c))),
                     locale_key (snd (candidate_identity c)))"

lemma identity_key_inj:
  assumes "layered_candidate_ok c" "layered_candidate_ok d" "identity_key c = identity_key d"
  shows "candidate_identity c = candidate_identity d"
proof -
  have "fst (candidate_identity c) = fst (candidate_identity d)"
    using assms(3) by (intro lane_key_inj) (simp add: identity_key_def)
  moreover have "snd (candidate_identity c) = snd (candidate_identity d)"
    using assms by (intro locale_key_inj identifier_id_chars candidate_identity_ok)
      (simp_all add: identity_key_def)
  ultimately show ?thesis by (rule prod_eqI)
qed

text \<open>A stage that maps each candidate to at most one row, sorted by a key that determines the candidate.\<close>

lemma stage_permute:
  assumes "mset cs = mset ds" and "distinct (map key cs)"
    and "\<And>c x. c \<in> set cs \<Longrightarrow> x \<in> set (g c) \<Longrightarrow> ret (row_key x) = key c" and "\<And>c. length (g c) \<le> 1"
  shows "sort_key row_key (concat (map g cs)) = sort_key row_key (concat (map g ds))"
proof (rule sort_key_permute)
  show "mset (concat (map g cs)) = mset (concat (map g ds))"
    using assms(1) by (simp add: mset_concat flip: sum_mset_sum_list)
  have "distinct (map (\<lambda>x. ret (row_key x)) (concat (map g cs)))"
    using assms(2,3)
  proof (induction cs)
    case (Cons c cs)
    have one: "g c = [] \<or> (\<exists>x. g c = [x])" using assms(4) [of c] by (cases "g c") auto
    have "ret (row_key x) \<in> key ` set cs" if "x \<in> set (concat (map g cs))" for x
      using that Cons.prems(2) by fastforce
    then have sub: "(\<lambda>x. ret (row_key x)) ` set (concat (map g cs)) \<subseteq> key ` set cs" by blast
    have new: "key c \<notin> key ` set cs" using Cons.prems(1) by simp
    have fresh: "ret (row_key x) \<notin> (\<lambda>x. ret (row_key x)) ` set (concat (map g cs))"
      if "x \<in> set (g c)" for x
    proof -
      have "ret (row_key x) = key c" by (rule Cons.prems(2) [OF _ that]) simp
      with sub new show ?thesis by auto
    qed
    have IH: "distinct (map (\<lambda>x. ret (row_key x)) (concat (map g cs)))"
      using Cons by simp
    from one show ?case
    proof (elim disjE exE)
      fix x assume "g c = [x]"
      then show ?thesis using fresh [of x] IH by simp
    qed (use IH in simp)
  qed simp
  then show "distinct (map row_key (concat (map g cs)))"
    by (auto simp: distinct_map inj_on_def)
qed


lemma layered_filter_permute:
  assumes "mset cs = mset (li_candidates input)" and "list_all layered_candidate_ok (li_candidates input)"
    and "distinct (map candidate_identity (li_candidates input))"
  shows "layered_filter (input\<lparr>li_candidates := cs\<rparr>) = layered_filter input"
proof -
  let ?o = "filter_options_of input"
  have "inj_on candidate_identity (set (li_candidates input))" "distinct (li_candidates input)"
    using assms(3) by (simp_all add: distinct_map)
  then have "distinct (map identity_key (li_candidates input))"
    using assms(2) identity_key_inj
    by (auto simp: distinct_map list_all_iff inj_on_def)
  then have dist: "distinct (map identity_key cs)"
    using mset_eq_imp_distinct_iff [of "map identity_key cs" "map identity_key (li_candidates input)"] assms(1)
    by simp
  have 1: "sort_key (\<lambda>p. (locale_key (lane_string (pc_lane p)), locale_key (pc_revision_id p)))
        (concat (map (\<lambda>c. case filter_candidate ?o c of Inl r \<Rightarrow> [] | Inr p \<Rightarrow> [p]) cs))
      = sort_key (\<lambda>p. (locale_key (lane_string (pc_lane p)), locale_key (pc_revision_id p)))
        (concat (map (\<lambda>c. case filter_candidate ?o c of Inl r \<Rightarrow> [] | Inr p \<Rightarrow> [p]) (li_candidates input)))"
    by (rule stage_permute [where ret = id and key = identity_key, OF assms(1) dist])
       (auto simp: identity_key_def filter_candidate_identities [OF sym] split: sum.splits)
  have 2: "sort_key (\<lambda>e. (locale_key (lane_string (ex_lane e)), locale_key (ex_reason_code e), locale_key (ex_revision_id e)))
        (concat (map (\<lambda>c. case filter_candidate ?o c of Inl r \<Rightarrow> [exclusion_of c r] | Inr p \<Rightarrow> []) cs))
      = sort_key (\<lambda>e. (locale_key (lane_string (ex_lane e)), locale_key (ex_reason_code e), locale_key (ex_revision_id e)))
        (concat (map (\<lambda>c. case filter_candidate ?o c of Inl r \<Rightarrow> [exclusion_of c r] | Inr p \<Rightarrow> []) (li_candidates input)))"
    by (rule stage_permute [where ret = "\<lambda>(l, r, v). (l, v)" and key = identity_key, OF assms(1) dist])
       (auto simp: identity_key_def exclusion_of_identities split: sum.splits)
  show ?thesis
    using 1 2 by (simp add: layered_filter_def hard_filter_layered_candidates_def filter_options_of_def)
qed

text \<open>C18: a compilation is canonical. The result, slice, receipt, identifiers and hashes included, does
  not depend on the order in which the lanes delivered the candidates, when no lane delivers a
  revision twice.\<close>

theorem layered_compilation_canonical:
  assumes "mset cs = mset (li_candidates input)"
    and "distinct (map candidate_identity (li_candidates input))"
  shows "compile_layered_context ft sha u (input\<lparr>li_candidates := cs\<rparr>)
    = compile_layered_context ft sha u input"
proof (cases "layered_input_ok sha input")
  case True
  let ?i = "canonical_scopes input"
  have "set cs = set (li_candidates input)" using assms(1) by (rule mset_eq_setD)
  then have ok: "layered_input_ok sha (input\<lparr>li_candidates := cs\<rparr>) = layered_input_ok sha input"
    by (simp add: layered_input_ok_def list_all_iff)
  have upd: "canonical_scopes (input\<lparr>li_candidates := cs\<rparr>) = ?i\<lparr>li_candidates := cs\<rparr>"
    by (simp add: canonical_scopes_def)
  have "layered_filter (?i\<lparr>li_candidates := cs\<rparr>) = layered_filter ?i"
    using assms True by (intro layered_filter_permute) (simp_all add: layered_input_ok_def)
  then have "layered_decisions ft sha u (?i\<lparr>li_candidates := cs\<rparr>) = layered_decisions ft sha u ?i"
    by (simp add: layered_decisions_def layered_ranking_def layered_resolution_def Let_def
        cong: option.case_cong)
  moreover have "build_slice sha (?i\<lparr>li_candidates := cs\<rparr>) = build_slice sha ?i"
    "build_receipt sha (?i\<lparr>li_candidates := cs\<rparr>) = build_receipt sha ?i"
    by (intro ext; simp add: build_slice_def build_receipt_def)+
  ultimately show ?thesis
    unfolding compile_layered_context_def Let_def canonical_scopes_def [symmetric] ok upd by simp
next
  case False
  have "set cs = set (li_candidates input)" using assms(1) by (rule mset_eq_setD)
  then have "layered_input_ok sha (input\<lparr>li_candidates := cs\<rparr>) = layered_input_ok sha input"
    by (simp add: layered_input_ok_def list_all_iff)
  with False show ?thesis by (simp add: compile_layered_context_def)
qed

subsection \<open>Witnesses\<close>

definition sample_recall_scope :: scope where
  "sample_recall_scope = \<lparr>scope_kind_of = Sk_user, scope_id = ''u1''\<rparr>"

definition sample_recall_request :: recall_request where
  "sample_recall_request = \<lparr>rr_request_id = ''q1'', rr_goal = code_points ''goal'', rr_query = code_points ''tea'',
     rr_scopes = [sample_recall_scope], rr_as_of = Timestamp ''t'' 5, rr_token_budget = 1000,
     rr_include_sensitive = False, rr_lane_overrides = None\<rparr>"

definition sample_configuration :: effective_lane_configuration where
  "sample_configuration = \<lparr>elc_policy_hash = sample_hash, elc_active_release = (None, None),
     elc_requested_lanes = [Recent_l1], elc_enabled_lanes = [Recent_l1],
     elc_limits = policy_limits sample_lane_policy, elc_reason_codes = []\<rparr>"

definition sample_telemetry :: "recall_lane \<Rightarrow> lane_telemetry" where
  "sample_telemetry l = \<lparr>lt_lane = l, lt_status = (if l = Recent_l1 then Eligible else Disabled_by_request),
     lt_duration_ms = 0, lt_candidate_count = (if l = Recent_l1 then 2 else 0),
     lt_eligible_count = (if l = Recent_l1 then 1 else 0), lt_selected_count = 0,
     lt_exclusion_counts = [], lt_reason_codes = [''RECENT''], lt_query_hashes = None,
     lt_bounded_work = None\<rparr>"

definition sample_input :: "layered_candidate list \<Rightarrow> candidate_exclusion list \<Rightarrow> layered_input" where
  "sample_input cs es = \<lparr>li_request = sample_recall_request, li_candidates = cs, li_exclusions = es,
     li_frontier = Frontier_v1 1 0 1 sample_hash sample_hash [sample_transform],
     li_configuration = sample_configuration,
     li_telemetry = map sample_telemetry base_recall_lanes, li_conflict_sets = [],
     li_created_at = Timestamp ''t'' 6\<rparr>"

lemma layered_compilation_canonical_witness:
  "compile_layered_context (\<lambda>q. []) (\<lambda>j. sample_hash) ascii_unicode
      (sample_input sample_candidates []\<lparr>li_candidates := rev sample_candidates\<rparr>)
   = compile_layered_context (\<lambda>q. []) (\<lambda>j. sample_hash) ascii_unicode (sample_input sample_candidates [])"
  by (rule layered_compilation_canonical)
     (simp_all add: sample_input_def sample_candidates_def sample_item_def candidate_identity_def)


lemmas sample_defs = sample_input_def sample_recall_request_def sample_recall_scope_def sample_configuration_def
  sample_telemetry_def lane_ok_defs sample_candidates_def sample_item_def sample_window_def
  sample_transform_def

lemmas schema_defs = recall_request_ok_def search_item_ok_def identifier_ok_def ascii_alnum_def
  js_trim_def js_space_def code_points_def utf16_def reason_code_ok_def scope_ok_def
  validity_window_ok_def effective_lane_configuration_ok_def lane_telemetry_ok_def
  applicable_recall_lanes_def transform_identity_def

lemma sample_input_ok: "layered_input_ok (\<lambda>j. sample_hash) (sample_input [hd sample_candidates] [])"
  by (simp add: layered_input_ok_def sample_defs schema_defs Let_def)

lemma sample_canonical: "canonical_scopes (sample_input cs es) = sample_input cs es"
  by (simp add: canonical_scopes_def sample_input_def sample_recall_request_def)

definition sample_ranked :: ranked where
  "sample_ranked = rank_one ascii_unicode (code_points ''tea'') (Timestamp ''t'' 5)
     \<lparr>pc_candidate = hd sample_candidates, pc_memory_id = ''m'', pc_revision_id = ''r1'',
      pc_abstraction = L1_memory, pc_lane = Recent_l1, pc_scope = sample_recall_scope,
      pc_authority = User_stated, pc_sensitivity = Internal, pc_recorded_at = Timestamp ''t0'' 0,
      pc_content = Inline [99] ''text/plain'', pc_evidence_ids = [''e1''], pc_rank = 1,
      pc_projection = None, pc_graph_path = None, pc_vector = None, pc_payload = None,
      pc_conflict_group_id = None, pc_reason_codes = [''CANONICAL_REVALIDATED'', ''RECENT'']\<rparr>"

lemma sample_filtered:
  "layered_filter (sample_input [hd sample_candidates] []) = ([rk_candidate sample_ranked], [])"
  by (simp add: layered_filter_def hard_filter_layered_candidates_def sample_ranked_def sample_defs
    outside_window_def sensitivity_excluded_def rank_one_def Let_def)

lemma sample_resolved:
  "layered_resolution sha (sample_input [hd sample_candidates] [])
     = \<lparr>rs_candidates = [rk_candidate sample_ranked], rs_exclusions = [], rs_conflict_sets = []\<rparr>"
proof -
  let ?p = "rk_candidate sample_ranked"
  have "annotate [] ?p = ?p" "\<not> redundant_topic sha [?p] ?p" "\<not> redundant_memory [?p] ?p"
    by (simp_all add: sample_ranked_def rank_one_def Let_def annotate_def group_by_revision_def
      redundant_topic_def redundant_memory_def abstracted_source_ids_def abstracted_sources_def)
  then show ?thesis
    unfolding layered_resolution_def sample_filtered
    by (simp add: resolve_conflicts_and_dedupe_def sample_input_def Let_def)
qed

lemma sample_ranking:
  "layered_ranking sha ascii_unicode (sample_input [hd sample_candidates] []) = [sample_ranked]"
  by (simp add: layered_ranking_def sample_resolved rank_layered_candidates_def)
     (simp add: sample_ranked_def sample_input_def sample_recall_request_def rank_one_def Let_def)

text \<open>A value whose integers are all safe normalises.\<close>

fun jval_safe :: "jval \<Rightarrow> bool" where
  "jval_safe (J_num q) \<longleftrightarrow> \<bar>q\<bar> \<le> max_safe_integer"
| "jval_safe (J_arr xs) \<longleftrightarrow> list_all jval_safe xs"
| "jval_safe (J_obj ps) \<longleftrightarrow> list_all (\<lambda>p. jval_safe (snd p)) ps"
| "jval_safe _ \<longleftrightarrow> True"

lemma jval_safe_normalizes: "jval_safe v \<Longrightarrow> \<exists>w. normalize_canonical_value (of_jval v) = Inr w"
proof (induction v)
  case (J_num q)
  then show ?case by (simp add: is_safe_integer_def)
next
  case (J_arr xs)
  then have "\<exists>ys. normalize_array (map (\<lambda>x. Some (of_jval x)) xs) = Inr ys"
    by (induction xs) (fastforce simp: bindE_Inr_iff)+
  then show ?case by (auto simp: bindE_Inr_iff)
next
  case (J_obj ps)
  have "\<exists>y. normalize_prop p = Inr y" if "p \<in> set (map (\<lambda>p. (Str_key (fst p), Data True (of_jval (snd p)))) ps)" for p
    using that J_obj by (fastforce simp: bindE_Inr_iff list_all_iff)
  then have "\<exists>qs. mapE normalize_prop (sort_key (\<lambda>p. utf16 (str_key_of (fst p)))
      (map (\<lambda>p. (Str_key (fst p), Data True (of_jval (snd p)))) ps)) = Inr qs"
    unfolding mapE_succeeds [symmetric] by simp
  then show ?case
    unfolding of_jval.simps normalize_obj_iff by (auto simp: image_iff)
qed simp_all

lemma jval_safe_estimate: "jval_safe v \<Longrightarrow> \<exists>n. estimate_structured_tokens ft v = Inr n"
  using jval_safe_normalizes [of v]
  by (auto simp: estimate_structured_tokens_def canonical_json_def)

lemma score_components_safe: "jval_safe (score_components_json (score_components_of u q t p))"
proof -
  show ?thesis
    using score_components_range [of u q t p]
    by (auto simp: score_components_json_def max_safe_integer_def Let_def)
qed

lemma sample_layered_item:
  "\<exists>n. layered_item ft sample_ranked = Inr ((item_without_estimate sample_ranked)\<lparr>it_token_estimate := n\<rparr>)"
proof -
  have "jval_safe (jobj (item_fields (item_without_estimate sample_ranked)))"
    using score_components_safe
    by (simp add: item_fields_def item_without_estimate_def sample_ranked_def rank_one_def Let_def
      field_def nullable_def jstrs_def projection_scope_json_def)
  then obtain n where "estimate_structured_tokens ft (jobj (item_fields (item_without_estimate sample_ranked))) = Inr n"
    using jval_safe_estimate by blast
  moreover have "slice_item_ok ((item_without_estimate sample_ranked)\<lparr>it_token_estimate := n\<rparr>)"
    by (simp add: slice_item_ok_def slice_item_refined_def item_without_estimate_def sample_ranked_def
      rank_one_def Let_def schema_defs sample_recall_scope_def reason_ok_def)
  ultimately show ?thesis unfolding layered_item_def Let_def by (intro exI [of _ n]) simp
qed

lemma sample_context_parts:
  "effective_lane_configuration_ok sample_configuration"
  "context_frontier_ok sha (li_frontier (sample_input cs es))"
  "li_configuration (sample_input cs es) = sample_configuration"
  "elc_active_release sample_configuration = (None, None)"
  "rr_token_budget (li_request (sample_input cs es)) = 1000"
  "rr_request_id (li_request (sample_input cs es)) = ''q1''"
  "identifier_ok ''q1''"
  by (simp_all add: sample_defs schema_defs Let_def)

lemma sample_identifiers:
  "identifier_ok (''context:'' @ take 48 (drop 7 sample_hash))"
  "identifier_ok (''retrieval:'' @ take 48 (drop 7 sample_hash))" 
  by (simp_all add: identifier_ok_def ascii_alnum_def sample_hash_def list_all_iff)

lemma zero_hash_ok: "canonical_hash_ok zero_hash"
  by (simp add: zero_hash_def canonical_hash_ok_def lower_hex_def list_all_iff)

lemma sample_compiles:
  "\<exists>r. compile_layered_context ft (\<lambda>j. sample_hash) ascii_unicode
     (sample_input [hd sample_candidates] []) = Inr r"
proof -
  let ?i = "sample_input [hd sample_candidates] []"
  obtain n where n: "layered_item ft sample_ranked
      = Inr ((item_without_estimate sample_ranked)\<lparr>it_token_estimate := n\<rparr>)"
    using sample_layered_item by blast
  define item where "item = (item_without_estimate sample_ranked)\<lparr>it_token_estimate := n\<rparr>"
  define b where "b = (n \<le> 1000)"
  define d where "d = decision_of_packed (packable_of (sample_ranked, item), b)"
  have order: "packing_order [packable_of (sample_ranked, item)] = [packable_of (sample_ranked, item)]"
    by (simp add: packing_order_def required_items_def remaining_items_def lane_minimums_def
      lane_order_def packable_of_def sample_ranked_def rank_one_def Let_def constraint_priority_def)
  have ds: "layered_decisions ft (\<lambda>j. sample_hash) ascii_unicode ?i = Inr ([d], [], if b then 1 else 0)"
    unfolding layered_decisions_def sample_ranking
    by (simp add: n item_def [symmetric] pack_context_items_def order sample_filtered sample_resolved
      Let_def d_def b_def)
       (simp add: sample_input_def sample_recall_request_def packable_of_def item_def)
  have ok: "slice_item_ok item" using n unfolding item_def by (auto simp: layered_item_def Let_def split: sum.splits if_splits)
  have fields: "it_token_estimate item = n" "it_projection item = None" "it_conflict_group_id item = Some None"
    by (simp_all add: item_def item_without_estimate_def sample_ranked_def rank_one_def Let_def)
  have dd: "included_items [d] = (if b then [item] else [])"
    by (simp add: d_def included_items_def decision_of_packed_def packable_of_def split_beta Let_def)
  have sel: "list_all lane_telemetry_ok (selected_telemetry (li_telemetry ?i) [d])
     \<and> map lt_lane (selected_telemetry (li_telemetry ?i) [d]) = base_recall_lanes"
    by (simp add: selected_telemetry_def sample_defs lane_telemetry_ok_def schema_defs d_def decision_of_packed_def
      packable_of_def split_beta Let_def)
  obtain slice where slice: "build_slice (\<lambda>j. sample_hash) ?i (li_request ?i) [] [d] = Inr slice"
    "identifier_ok (sl_context_slice_id slice)"
  proof -
    have "\<exists>slice. build_slice (\<lambda>j. sample_hash) ?i (li_request ?i) [] [d] = Inr slice
      \<and> identifier_ok (sl_context_slice_id slice)"
      using sel ok
      by (simp add: build_slice_def context_slice_ok_def dd fields Let_def bindE_def b_def short_identifier_def zero_hash_ok
        base_recall_lanes_def sample_context_parts sample_identifiers [simplified] split: if_splits)
    then show ?thesis using that by blast
  qed
  have item_ok: "receipt_item_ok (ld_receipt_item d)"
    by (simp add: d_def decision_of_packed_def packable_of_def split_beta Let_def receipt_item_ok_def
      receipt_item_refined_def sample_ranked_def rank_one_def item_def item_without_estimate_def schema_defs)
  have "\<exists>r. build_receipt (\<lambda>j. sample_hash) ?i (li_request ?i) slice [d] False = Inr r"
    using sel item_ok slice(2)
    by (simp add: build_receipt_def retrieval_receipt_ok_def Let_def short_identifier_def
      base_recall_lanes_def sample_context_parts sample_identifiers [simplified])
  then obtain r where r: "build_receipt (\<lambda>j. sample_hash) ?i (li_request ?i) slice [d] False = Inr r" ..
  have "filter (\<lambda>t. lt_status t = Unavailable \<or> lt_status t = Degraded) (li_telemetry ?i) = []"
    by (simp add: sample_input_def sample_telemetry_def base_recall_lanes_def)
  then show ?thesis
    using sample_input_ok ds slice(1) r
    unfolding compile_layered_context_def canonical_scopes_def [symmetric] sample_canonical Let_def
    by simp
qed


definition sample_graph_exclusion :: candidate_exclusion where
  "sample_graph_exclusion = \<lparr>ex_memory_id = ''m'', ex_revision_id = ''r'', ex_lane = Relation_graph,
     ex_reason_code = ''GRAPH_REVALIDATION_FAILED'', ex_score = None,
     ex_graph_path = Some (J_arr []), ex_vector = None\<rparr>"

text \<open>The input of this witness is one the input schema accepts.\<close>

lemma graph_exclusion_breaks_compilation_witness:
  "layered_input_ok (\<lambda>j. sample_hash) (sample_input [] [sample_graph_exclusion])
   \<and> (\<forall>r. compile_layered_context (\<lambda>q. []) (\<lambda>j. sample_hash) ascii_unicode
        (sample_input [] [sample_graph_exclusion]) \<noteq> Inr r)"
proof (intro conjI allI)
  show "layered_input_ok (\<lambda>j. sample_hash) (sample_input [] [sample_graph_exclusion])"
    by (simp add: layered_input_ok_def sample_defs schema_defs Let_def layered_exclusion_ok_def
      sample_graph_exclusion_def)
  show "compile_layered_context (\<lambda>q. []) (\<lambda>j. sample_hash) ascii_unicode
      (sample_input [] [sample_graph_exclusion]) \<noteq> Inr r" for r
    by (rule graph_exclusion_breaks_compilation) (simp add: sample_input_def sample_graph_exclusion_def)
qed

end
