(* ===== verification/ProjectionEffects.thy ===== *)
theory ProjectionEffects
  imports MemoryModel
begin

text \<open>
  What a canonical change does to the projections derived from it
  (\<open>packages/storage-sqlite/src/projection-effects.ts\<close>): enumerating every projection revision derived,
  directly or through other projections, from a revision; superseding them; and queueing the refresh.

  A table is the list of its rows in insertion order. An \<open>INSERT\<close> on a duplicate key is
  \<open>Constraint_violation\<close>. The delivery queues of the graph and the vector lane are an opaque state
  \<open>'g\<close> with the two \<open>enqueue\<close> calls as one parameter; the write guards, which are open exactly
  within these functions, are not represented.
\<close>

datatype storage_error =
  Invalid_input | Stale_revision | Conflict_with_state | Corruption | Encryption_required
| Approval_invalid | Stale_projection_frontier | Correction_impact_limit_exceeded
| Constraint_violation | Schema_invalid | Storage_unavailable

definition insert_row :: "('r \<Rightarrow> 'k) \<Rightarrow> 'r \<Rightarrow> 'r list \<Rightarrow> storage_error + 'r list" where
  "insert_row key r rows = (if key r \<in> key ` set rows then Inl Constraint_violation else Inr (rows @ [r]))"

lemma insert_row_Inr:
  "insert_row key r rows = Inr rows' \<longleftrightarrow> key r \<notin> key ` set rows \<and> rows' = rows @ [r]"
  by (auto simp: insert_row_def)

subsection \<open>Tables\<close>

text \<open>The columns of \<open>projection_revisions\<close> and \<open>projection_revision_sources\<close> that are read here.\<close>

record projection_row =
  pj_projection_id :: string
  pj_revision_id :: string
  pj_principal :: string
  pj_scope :: scope

record source_row =
  so_projection_revision_id :: string
  so_source_revision_id :: string

text \<open>A row of \<open>projection_objects\<close>, and one of \<open>relation_objects\<close>.\<close>

record derived_object_row =
  do_id :: string
  do_lifecycle :: lifecycle
  do_current :: "string option"
  do_updated_at :: timestamp

record invalidation_row =
  iv_invalidation_id :: string
  iv_projection_id :: string
  iv_projection_revision_id :: string
  iv_source_revision_id :: string
  iv_reason :: string
  iv_invalidated_at :: timestamp

datatype scope_status = Scope_ready | Scope_pending | Scope_rebuilding | Scope_unavailable

record scope_state_row =
  ss_owner :: "string \<times> scope"
  ss_status :: scope_status
  ss_ledger_epoch :: nat
  ss_tombstone_epoch :: nat
  ss_projection_epoch :: nat
  ss_frontier_hashes :: "(string \<times> string) option"
  ss_transforms :: "transform_ref list"
  ss_updated_at :: timestamp

datatype job_kind = Job_refresh | Job_invalidate

record projection_job =
  pb_job_id :: string
  pb_kind :: job_kind
  pb_memory_id :: string
  pb_owner :: "string \<times> scope"
  pb_source_revisions :: "string list"
  pb_available_at :: timestamp

record 'g projection_store =
  ps_revisions :: "projection_row list"
  ps_sources :: "source_row list"
  ps_objects :: "derived_object_row list"
  ps_relations :: "derived_object_row list"
  ps_invalidations :: "invalidation_row list"
  ps_scope_states :: "scope_state_row list"
  ps_jobs :: "projection_job list"
  ps_pending_since :: "timestamp option"
  ps_projection_epoch :: nat
  ps_delivery :: 'g

record projection_effect =
  fx_cause_id :: ustring
  fx_memory_id :: string
  fx_revision_id :: string
  fx_principal :: string
  fx_scope :: scope
  fx_occurred_at :: timestamp

subsection \<open>Descendants\<close>

text \<open>
  One join of the recursive query: the projection revisions of the owner that name a revision as
  a source.
\<close>

definition derived_rows :: "'g projection_store \<Rightarrow> string \<Rightarrow> scope \<Rightarrow> (string \<times> string \<times> string) list" where
  "derived_rows ps who sc = concat (map (\<lambda>s. concat (map (\<lambda>r.
     if pj_revision_id r = so_projection_revision_id s \<and> pj_principal r = who \<and> pj_scope r = sc
     then [(so_source_revision_id s, pj_projection_id r, so_projection_revision_id s)] else [])
       (ps_revisions ps))) (ps_sources ps))"

definition direct_descendants ::
  "(string \<times> string \<times> string) list \<Rightarrow> string \<Rightarrow> (string \<times> string) list" where
  "direct_descendants rows parent = map snd (filter (\<lambda>r. fst r = parent) rows)"

text \<open>
  SQLite's evaluation of \<open>WITH RECURSIVE \<dots> UNION\<close>: a queue of rows, each extracted once, and a
  row that was generated before is discarded. The fuel bounds the number of extractions; as many
  as there are joined rows are enough (\<open>enumerate_is_closure\<close>).
\<close>

fun recursive_rows ::
  "nat \<Rightarrow> (string \<times> string \<times> string) list \<Rightarrow> (string \<times> string) list \<Rightarrow> (string \<times> string) list
     \<Rightarrow> (string \<times> string) list" where
  "recursive_rows 0 rows known queue = known"
| "recursive_rows (Suc n) rows known [] = known"
| "recursive_rows (Suc n) rows known (d # queue) =
     (let new = filter (\<lambda>m. m \<notin> set known) (js_set (direct_descendants rows (snd d)))
      in recursive_rows n rows (known @ new) (queue @ new))"

definition all_descendants ::
  "'g projection_store \<Rightarrow> string \<Rightarrow> string \<Rightarrow> scope \<Rightarrow> (string \<times> string) list" where
  "all_descendants ps source who sc =
     (let rows = derived_rows ps who sc; initial = js_set (direct_descendants rows source)
      in sort (recursive_rows (length rows) rows initial initial))"

record impact_seal =
  is_source_revision_id :: string
  is_descendant_count :: nat
  is_closure_hash :: string
  is_supported_limit :: nat

definition member_json :: "string \<times> string \<Rightarrow> jval" where
  "member_json m = jobj [(''projection_id'', jstr (fst m)), (''projection_revision_id'', jstr (snd m))]"

definition projection_owner_scope_json :: "scope \<Rightarrow> jval" where
  "projection_owner_scope_json s =
     jobj [(''kind'', jstr (scope_kind_string (scope_kind_of s))), (''id'', jstr (scope_id s))]"

definition enumerate_projection_descendants ::
  "(jval \<Rightarrow> string) \<Rightarrow> 'g projection_store \<Rightarrow> string \<Rightarrow> string \<Rightarrow> scope \<Rightarrow> nat
     \<Rightarrow> storage_error + ((string \<times> string) list \<times> impact_seal)" where
  "enumerate_projection_descendants sha ps source who sc limit =
     (if limit < 1 \<or> limit > 1000 then Inl Invalid_input
      else let members = take (limit + 1) (all_descendants ps source who sc) in
        if length members > limit then Inl Correction_impact_limit_exceeded
        else Inr (members,
          \<lparr>is_source_revision_id = source, is_descendant_count = length members,
           is_closure_hash = sha (jobj [(''source_revision_id'', jstr source),
             (''principal_id'', jstr who), (''scope'', projection_owner_scope_json sc),
             (''descendants'', J_arr (map member_json members))]),
           is_supported_limit = limit\<rparr>))"

record correction_impact = impact_seal +
  ci_sample :: "(string \<times> string) list"
  ci_sample_truncated :: bool
  ci_omitted_count :: nat

definition correction_impact_from_closure ::
  "(string \<times> string) list \<times> impact_seal \<Rightarrow> nat \<Rightarrow> storage_error + correction_impact" where
  "correction_impact_from_closure closure sample_limit =
     (if sample_limit > 100 then Inl Invalid_input
      else let sample = take sample_limit (fst closure);
               omitted = length (fst closure) - length sample; seal = snd closure in
        Inr \<lparr>is_source_revision_id = is_source_revision_id seal,
             is_descendant_count = is_descendant_count seal, is_closure_hash = is_closure_hash seal,
             is_supported_limit = is_supported_limit seal, ci_sample = sample,
             ci_sample_truncated = (omitted > 0), ci_omitted_count = omitted\<rparr>)"

subsection \<open>Effects\<close>

fun job_kind_string :: "job_kind \<Rightarrow> string" where
  "job_kind_string Job_refresh = ''refresh''"
| "job_kind_string Job_invalidate = ''invalidate''"

text \<open>\<open>slice("sha256:".length, 48)\<close>: 41 hexadecimal digits.\<close>

definition stable_job_id :: "(jval \<Rightarrow> string) \<Rightarrow> job_kind \<Rightarrow> projection_effect \<Rightarrow> string" where
  "stable_job_id sha k fx = ''projection-job:'' @ take 41 (drop 7 (sha (jobj
     [(''kind'', jstr (job_kind_string k)), (''memory_id'', jstr (fx_memory_id fx)),
      (''revision_id'', jstr (fx_revision_id fx)), (''cause_id'', J_str (fx_cause_id fx)),
      (''occurred_at'', jstr (iso (fx_occurred_at fx)))])))"

definition enqueue_job ::
  "(jval \<Rightarrow> string) \<Rightarrow> job_kind \<Rightarrow> projection_effect \<Rightarrow> 'g projection_store
     \<Rightarrow> storage_error + (string \<times> 'g projection_store)" where
  "enqueue_job sha k fx ps =
     (let i = stable_job_id sha k fx in
      bindE (insert_row pb_job_id
          \<lparr>pb_job_id = i, pb_kind = k, pb_memory_id = fx_memory_id fx,
           pb_owner = (fx_principal fx, fx_scope fx), pb_source_revisions = [fx_revision_id fx],
           pb_available_at = fx_occurred_at fx\<rparr> (ps_jobs ps)) (\<lambda>jobs.
      Inr (i, ps\<lparr>ps_jobs := jobs\<rparr>)))"

text \<open>
  \<open>markScopePending\<close>: the epochs are those of the ledger and the tombstones; the row of the scope
  never goes back to an earlier epoch (a trigger of the table aborts such an update).
\<close>

definition mark_scope_pending ::
  "nat \<Rightarrow> nat \<Rightarrow> projection_effect \<Rightarrow> 'g projection_store \<Rightarrow> storage_error + 'g projection_store" where
  "mark_scope_pending ledger tombstone fx ps =
     (let owner = (fx_principal fx, fx_scope fx) in
      case List.find (\<lambda>r. ss_owner r = owner) (ps_scope_states ps) of
        None \<Rightarrow> Inr (ps\<lparr>ps_scope_states := ps_scope_states ps @
          [\<lparr>ss_owner = owner, ss_status = Scope_pending, ss_ledger_epoch = ledger + 1,
            ss_tombstone_epoch = tombstone, ss_projection_epoch = ps_projection_epoch ps,
            ss_frontier_hashes = None, ss_transforms = [], ss_updated_at = fx_occurred_at fx\<rparr>]\<rparr>)
      | Some old \<Rightarrow>
          if ledger + 1 < ss_ledger_epoch old \<or> tombstone < ss_tombstone_epoch old
          then Inl Constraint_violation
          else Inr (ps\<lparr>ps_scope_states := map (\<lambda>r. if ss_owner r = owner then
            r\<lparr>ss_status := Scope_pending, ss_ledger_epoch := ledger + 1,
              ss_tombstone_epoch := tombstone, ss_frontier_hashes := None, ss_transforms := [],
              ss_updated_at := fx_occurred_at fx\<rparr> else r) (ps_scope_states ps)\<rparr>))"

type_synonym 'g delivery = "nat \<Rightarrow> nat \<Rightarrow> projection_effect \<Rightarrow> 'g \<Rightarrow> storage_error + 'g"

definition deliver ::
  "'g delivery \<Rightarrow> nat \<Rightarrow> nat \<Rightarrow> projection_effect \<Rightarrow> 'g projection_store
     \<Rightarrow> storage_error + 'g projection_store" where
  "deliver dl ledger tombstone fx ps =
     bindE (dl ledger tombstone fx (ps_delivery ps)) (\<lambda>g. Inr (ps\<lparr>ps_delivery := g\<rparr>))"

definition enqueue_projection_refresh ::
  "(jval \<Rightarrow> string) \<Rightarrow> 'g delivery \<Rightarrow> nat \<Rightarrow> nat \<Rightarrow> projection_effect \<Rightarrow> 'g projection_store
     \<Rightarrow> storage_error + (string \<times> 'g projection_store)" where
  "enqueue_projection_refresh sha dl ledger tombstone fx ps =
     bindE (enqueue_job sha Job_refresh fx ps) (\<lambda>(i, ps1).
     bindE (mark_scope_pending ledger tombstone fx
              (ps1\<lparr>ps_pending_since := Some (fx_occurred_at fx)\<rparr>)) (\<lambda>ps2.
     bindE (deliver dl ledger tombstone fx ps2) (\<lambda>ps3. Inr (i, ps3))))"

definition supersede_current ::
  "timestamp \<Rightarrow> string \<times> string \<Rightarrow> derived_object_row list \<Rightarrow> derived_object_row list" where
  "supersede_current now m rows = map (\<lambda>x. if do_id x = fst m \<and> do_current x = Some (snd m)
     then x\<lparr>do_lifecycle := Superseded, do_updated_at := now\<rparr> else x) rows"

text \<open>\<open>INSERT OR IGNORE\<close>: a row whose key, or whose (revision, source, reason), is there is left alone.\<close>

definition insert_invalidation ::
  "(jval \<Rightarrow> string) \<Rightarrow> projection_effect \<Rightarrow> string \<times> string \<Rightarrow> invalidation_row list
     \<Rightarrow> invalidation_row list" where
  "insert_invalidation sha fx m rows =
     (let i = ''projection-invalidation:'' @ take 35 (drop 7 (sha (jobj
            [(''projection_revision_id'', jstr (snd m)),
             (''source_revision_id'', jstr (fx_revision_id fx))])));
          r = \<lparr>iv_invalidation_id = i, iv_projection_id = fst m, iv_projection_revision_id = snd m,
               iv_source_revision_id = fx_revision_id fx, iv_reason = ''CANONICAL_SOURCE_CHANGED'',
               iv_invalidated_at = fx_occurred_at fx\<rparr>;
          key = (\<lambda>x. (iv_projection_revision_id x, iv_source_revision_id x, iv_reason x))
      in if i \<in> iv_invalidation_id ` set rows \<or> key r \<in> key ` set rows then rows else rows @ [r])"

definition suppress_one ::
  "(jval \<Rightarrow> string) \<Rightarrow> projection_effect \<Rightarrow> string \<times> string \<Rightarrow> 'g projection_store
     \<Rightarrow> 'g projection_store" where
  "suppress_one sha fx m ps =
     ps\<lparr>ps_invalidations := insert_invalidation sha fx m (ps_invalidations ps),
        ps_objects := supersede_current (fx_occurred_at fx) m (ps_objects ps),
        ps_relations := supersede_current (fx_occurred_at fx) m (ps_relations ps)\<rparr>"

definition suppress_projection_descendants ::
  "(jval \<Rightarrow> string) \<Rightarrow> 'g delivery \<Rightarrow> nat \<Rightarrow> nat \<Rightarrow> projection_effect \<Rightarrow> 'g projection_store
     \<Rightarrow> storage_error + (string \<times> 'g projection_store)" where
  "suppress_projection_descendants sha dl ledger tombstone fx ps =
     (let members = all_descendants ps (fx_revision_id fx) (fx_principal fx) (fx_scope fx);
          ps1 = fold (suppress_one sha fx) members ps in
     bindE (mark_scope_pending ledger tombstone fx
              (ps1\<lparr>ps_pending_since := Some (fx_occurred_at fx)\<rparr>)) (\<lambda>ps2.
     bindE (enqueue_job sha Job_invalidate fx ps2) (\<lambda>(i, ps3).
     bindE (deliver dl ledger tombstone fx ps3) (\<lambda>ps4.
     if length i > 160 then Inl Corruption else Inr (i, ps4)))))"

subsection \<open>The closure\<close>

text \<open>
  The specification of the query: a projection revision of the owner descends from a revision when
  it names it, or names one of its descendants, as a source.
\<close>

inductive descends :: "'g projection_store \<Rightarrow> string \<Rightarrow> scope \<Rightarrow> string \<Rightarrow> string \<times> string \<Rightarrow> bool"
  for ps who sc source where
  direct: "\<lbrakk>s \<in> set (ps_sources ps); r \<in> set (ps_revisions ps); so_source_revision_id s = source;
    pj_revision_id r = so_projection_revision_id s; pj_principal r = who; pj_scope r = sc\<rbrakk>
    \<Longrightarrow> descends ps who sc source (pj_projection_id r, pj_revision_id r)"
| through: "\<lbrakk>descends ps who sc source d; s \<in> set (ps_sources ps); r \<in> set (ps_revisions ps);
    so_source_revision_id s = snd d; pj_revision_id r = so_projection_revision_id s;
    pj_principal r = who; pj_scope r = sc\<rbrakk>
    \<Longrightarrow> descends ps who sc source (pj_projection_id r, pj_revision_id r)"

lemma derived_rows_set:
  "(a, m) \<in> set (derived_rows ps who sc) \<longleftrightarrow> (\<exists>s \<in> set (ps_sources ps). \<exists>r \<in> set (ps_revisions ps).
     so_source_revision_id s = a \<and> pj_revision_id r = so_projection_revision_id s
     \<and> pj_principal r = who \<and> pj_scope r = sc \<and> m = (pj_projection_id r, pj_revision_id r))"
proof
  assume "(a, m) \<in> set (derived_rows ps who sc)"
  then obtain s r where "s \<in> set (ps_sources ps)" "r \<in> set (ps_revisions ps)"
    "so_source_revision_id s = a" "pj_revision_id r = so_projection_revision_id s" "pj_principal r = who"
    "pj_scope r = sc" "m = (pj_projection_id r, pj_revision_id r)"
    by (auto simp: derived_rows_def split: if_splits)
  then show "\<exists>s \<in> set (ps_sources ps). \<exists>r \<in> set (ps_revisions ps).
     so_source_revision_id s = a \<and> pj_revision_id r = so_projection_revision_id s
     \<and> pj_principal r = who \<and> pj_scope r = sc \<and> m = (pj_projection_id r, pj_revision_id r)" by blast
qed (fastforce simp: derived_rows_def)

lemma direct_descendants_set: "m \<in> set (direct_descendants rows a) \<longleftrightarrow> (a, m) \<in> set rows"
  by (force simp: direct_descendants_def)

text \<open>What the queue keeps: rows generated before, whose own derivations, once extracted, are known.\<close>

definition rows_closed :: "(string \<times> string \<times> string) list \<Rightarrow> (string \<times> string) set \<Rightarrow> (string \<times> string) set \<Rightarrow> bool" where
  "rows_closed rows known queue \<longleftrightarrow> (\<forall>d \<in> known - queue. \<forall>m. (snd d, m) \<in> set rows \<longrightarrow> m \<in> known)"

lemma recursive_rows_closed:
  assumes "distinct known" "distinct queue" "set queue \<subseteq> set known" "set known \<subseteq> snd ` set rows"
    and "rows_closed rows (set known) (set queue)"
    and "card (snd ` set rows) + length queue \<le> n + length known"
  shows "distinct (recursive_rows n rows known queue) \<and> set known \<subseteq> set (recursive_rows n rows known queue)
    \<and> rows_closed rows (set (recursive_rows n rows known queue)) {}"
  using assms
proof (induction n rows known queue rule: recursive_rows.induct)
  case (1 rows known queue)
  have "length known \<le> card (snd ` set rows)"
    using 1(1,4) by (metis card_mono distinct_card finite_imageI List.finite_set)
  with 1(6) have "length queue = 0" by linarith
  with 1 show ?case by simp
next
  case (2 n rows known)
  then show ?case by simp
next
  case (3 n rows known d queue)
  define new where "new = filter (\<lambda>m. m \<notin> set known) (js_set (direct_descendants rows (snd d)))"
  have new: "distinct new" "set new \<inter> set known = {}" "set new \<subseteq> snd ` set rows"
    by (force simp: new_def direct_descendants_set)+
  have closed: "rows_closed rows (set (known @ new)) (set (queue @ new))"
    unfolding rows_closed_def
  proof (intro ballI allI impI)
    fix e m assume e: "e \<in> set (known @ new) - set (queue @ new)" and m: "(snd e, m) \<in> set rows"
    show "m \<in> set (known @ new)"
    proof (cases "e = d")
      case True
      then show ?thesis using m by (auto simp: new_def direct_descendants_set)
    next
      case False
      then have "e \<in> set known - set (d # queue)" using e by auto
      then have "m \<in> set known" using 3(6) m unfolding rows_closed_def by blast
      then show ?thesis by simp
    qed
  qed
  have "distinct (known @ new)" "distinct (queue @ new)" "set (queue @ new) \<subseteq> set (known @ new)"
    "set (known @ new) \<subseteq> snd ` set rows"
    using new 3 by auto
  moreover have "card (snd ` set rows) + length (queue @ new) \<le> n + length (known @ new)"
    using 3(7) by simp
  ultimately show ?case
    using 3(1) [OF new_def] closed unfolding recursive_rows.simps Let_def new_def [symmetric] by auto
qed

lemma recursive_rows_subset:
  assumes "\<And>d. d \<in> set known \<union> set queue \<Longrightarrow> P d"
    and "\<And>d m. P d \<Longrightarrow> (snd d, m) \<in> set rows \<Longrightarrow> P m"
    and "m \<in> set (recursive_rows n rows known queue)"
  shows "P m"
  using assms
proof (induction n rows known queue rule: recursive_rows.induct)
  case (3 n rows known d queue)
  define new where "new = filter (\<lambda>m. m \<notin> set known) (js_set (direct_descendants rows (snd d)))"
  have "P d" using 3(2) [of d] by simp
  then have new: "P e" if "e \<in> set new" for e
    using that 3(3) [of d e] by (auto simp: new_def direct_descendants_set)
  show ?case
  proof (rule 3(1) [OF new_def])
    show "P e" if "e \<in> set (known @ new) \<union> set (queue @ new)" for e
      using that new [of e] 3(2) [of e] by auto
    show "m \<in> set (recursive_rows n rows (known @ new) (queue @ new))"
      using 3(4) by (simp add: Let_def new_def)
  qed (rule 3(3))
qed auto

lemma recursive_rows_exact:
  fixes rows :: "(string \<times> string \<times> string) list" and a :: string
  defines "initial \<equiv> js_set (direct_descendants rows a)"
  defines "result \<equiv> recursive_rows (length rows) rows initial initial"
  shows "distinct result" and "set initial \<subseteq> set result" and "rows_closed rows (set result) {}"
proof -
  have "card (snd ` set rows) \<le> length rows"
    by (metis card_image_le card_length le_trans List.finite_set)
  moreover have "set initial \<subseteq> snd ` set rows"
    by (force simp: initial_def direct_descendants_set)
  moreover have "distinct initial" by (simp add: initial_def)
  ultimately show "distinct result" "set initial \<subseteq> set result" "rows_closed rows (set result) {}"
    unfolding result_def
    by (intro recursive_rows_closed [THEN conjunct1] recursive_rows_closed [THEN conjunct2, THEN conjunct1]
        recursive_rows_closed [THEN conjunct2, THEN conjunct2]; simp add: rows_closed_def)+
qed

lemma all_descendants_iff:
  "m \<in> set (all_descendants ps source who sc) \<longleftrightarrow> descends ps who sc source m"
proof
  let ?rows = "derived_rows ps who sc"
  assume "m \<in> set (all_descendants ps source who sc)"
  then have "m \<in> set (recursive_rows (length ?rows) ?rows (js_set (direct_descendants ?rows source))
      (js_set (direct_descendants ?rows source)))"
    by (simp add: all_descendants_def Let_def)
  then show "descends ps who sc source m"
  proof (rule recursive_rows_subset [rotated 2])
    fix d assume "d \<in> set (js_set (direct_descendants ?rows source)) \<union> set (js_set (direct_descendants ?rows source))"
    then show "descends ps who sc source d"
      by (auto simp: direct_descendants_set derived_rows_set intro: descends.direct)
  next
    fix d m assume "descends ps who sc source d" "(snd d, m) \<in> set ?rows"
    then show "descends ps who sc source m"
      by (auto simp: derived_rows_set intro: descends.through)
  qed
next
  let ?rows = "derived_rows ps who sc"
  note exact = recursive_rows_exact [of "derived_rows ps who sc" source]
  assume "descends ps who sc source m"
  then have "m \<in> set (recursive_rows (length ?rows) ?rows (js_set (direct_descendants ?rows source))
      (js_set (direct_descendants ?rows source)))"
  proof induction
    case (direct s r)
    then have "(source, pj_projection_id r, pj_revision_id r) \<in> set ?rows" unfolding derived_rows_set by blast
    then show ?case using exact(2) by (auto simp: direct_descendants_set)
  next
    case (through d s r)
    then have "(snd d, pj_projection_id r, pj_revision_id r) \<in> set ?rows" unfolding derived_rows_set by blast
    then show ?case using exact(3) through.IH by (auto simp: rows_closed_def)
  qed
  then show "m \<in> set (all_descendants ps source who sc)" by (simp add: all_descendants_def Let_def)
qed

lemma all_descendants_canonical:
  "distinct (all_descendants ps source who sc) \<and> sorted (all_descendants ps source who sc)"
  using recursive_rows_exact(1) by (simp add: all_descendants_def Let_def)

lemma sorted_distinct_set: "sorted xs \<Longrightarrow> distinct xs \<Longrightarrow> xs = sorted_list_of_set (set xs)"
  by (simp add: sorted_list_of_set_sort_remdups sorted_sort_id distinct_remdups_id)

text \<open>C31: enumerating the projections derived from a revision is exact. The recursive query ends with
  the projection revisions of the owner that descend from the revision, directly or through other
  projections, each once and in order; the limit is respected by refusing, never by truncating, so
  an impact seal that is returned counts every descendant.\<close>

theorem enumerate_is_closure:
  "(\<forall>m. m \<in> set (all_descendants ps source who sc) \<longleftrightarrow> descends ps who sc source m)
   \<and> sorted (all_descendants ps source who sc) \<and> distinct (all_descendants ps source who sc)
   \<and> (\<forall>limit members seal. enumerate_projection_descendants sha ps source who sc limit = Inr (members, seal)
        \<longrightarrow> 1 \<le> limit \<and> limit \<le> 1000 \<and> members = all_descendants ps source who sc
            \<and> is_descendant_count seal = card {m. descends ps who sc source m})"
proof -
  have "{m. descends ps who sc source m} = set (all_descendants ps source who sc)"
    by (auto simp: all_descendants_iff)
  then have "card {m. descends ps who sc source m} = length (all_descendants ps source who sc)"
    using all_descendants_canonical by (metis distinct_card)
  then show ?thesis
    using all_descendants_canonical
    by (auto simp: all_descendants_iff enumerate_projection_descendants_def Let_def split: if_splits)
qed

subsection \<open>Suppression\<close>

definition superseded_by :: "timestamp \<Rightarrow> (string \<times> string) set \<Rightarrow> derived_object_row \<Rightarrow> derived_object_row" where
  "superseded_by now ms x = (if \<exists>r. do_current x = Some r \<and> (do_id x, r) \<in> ms
     then x\<lparr>do_lifecycle := Superseded, do_updated_at := now\<rparr> else x)"

lemma fold_supersede:
  "fold (supersede_current now) ms rows = map (superseded_by now (set ms)) rows"
proof (induction ms arbitrary: rows)
  case Nil
  then show ?case by (simp add: superseded_by_def)
next
  case (Cons m ms)
  have "superseded_by now (set ms) (if do_id x = fst m \<and> do_current x = Some (snd m)
      then x\<lparr>do_lifecycle := Superseded, do_updated_at := now\<rparr> else x) = superseded_by now (set (m # ms)) x" for x
    by (cases m) (auto simp: superseded_by_def)
  then show ?case by (simp add: Cons.IH) (simp add: supersede_current_def)
qed

lemma suppress_fold:
  "ps_objects (fold (suppress_one sha fx) ms ps) = fold (supersede_current (fx_occurred_at fx)) ms (ps_objects ps)"
  "ps_relations (fold (suppress_one sha fx) ms ps) = fold (supersede_current (fx_occurred_at fx)) ms (ps_relations ps)"
  "ps_invalidations (fold (suppress_one sha fx) ms ps) = fold (insert_invalidation sha fx) ms (ps_invalidations ps)"
  "ps_jobs (fold (suppress_one sha fx) ms ps) = ps_jobs ps"
  "ps_scope_states (fold (suppress_one sha fx) ms ps) = ps_scope_states ps"
  "ps_revisions (fold (suppress_one sha fx) ms ps) = ps_revisions ps"
  "ps_sources (fold (suppress_one sha fx) ms ps) = ps_sources ps"
  by (induction ms arbitrary: ps) (simp_all add: suppress_one_def)

lemma mark_scope_pending_Inr:
  assumes "mark_scope_pending ledger tombstone fx ps = Inr ps'"
  shows "\<exists>states. ps' = ps\<lparr>ps_scope_states := states\<rparr>
    \<and> (\<exists>r \<in> set states. ss_owner r = (fx_principal fx, fx_scope fx))
    \<and> (\<forall>r \<in> set states. ss_owner r = (fx_principal fx, fx_scope fx) \<longrightarrow>
         ss_status r = Scope_pending \<and> ss_frontier_hashes r = None \<and> ss_ledger_epoch r = ledger + 1)"
proof (cases "List.find (\<lambda>r. ss_owner r = (fx_principal fx, fx_scope fx)) (ps_scope_states ps)")
  case None
  then have "\<forall>r \<in> set (ps_scope_states ps). ss_owner r \<noteq> (fx_principal fx, fx_scope fx)"
    by (auto simp: find_None_iff)
  then show ?thesis
    using assms None by (intro exI [of _ "ps_scope_states ps'"]) (auto simp: mark_scope_pending_def Let_def)
next
  case (Some old)
  then have "old \<in> set (ps_scope_states ps)" "ss_owner old = (fx_principal fx, fx_scope fx)"
    by (auto simp: find_Some_iff)
  then show ?thesis
    using assms Some
    by (intro exI [of _ "ps_scope_states ps'"]) (auto simp: mark_scope_pending_def Let_def split: if_splits
        intro!: bexI [of _ "old\<lparr>ss_status := Scope_pending, ss_ledger_epoch := Suc ledger,
          ss_tombstone_epoch := tombstone, ss_frontier_hashes := None, ss_transforms := [],
          ss_updated_at := fx_occurred_at fx\<rparr>"])
qed

lemma enqueue_job_Inr:
  "enqueue_job sha k fx ps = Inr (i, ps') \<Longrightarrow>
     \<exists>j. ps' = ps\<lparr>ps_jobs := ps_jobs ps @ [j]\<rparr> \<and> pb_job_id j = i \<and> pb_kind j = k
       \<and> pb_source_revisions j = [fx_revision_id fx]"
  by (auto simp: enqueue_job_def Let_def bindE_Inr_iff insert_row_Inr)

lemma deliver_Inr: "deliver dl l t fx ps = Inr ps' \<Longrightarrow> \<exists>g. ps' = ps\<lparr>ps_delivery := g\<rparr>"
  by (auto simp: deliver_def bindE_Inr_iff)

lemma suppress_Inr:
  assumes "suppress_projection_descendants sha dl ledger tombstone fx ps = Inr (i, ps')"
  defines "gone \<equiv> superseded_by (fx_occurred_at fx)
    {m. descends ps (fx_principal fx) (fx_scope fx) (fx_revision_id fx) m}"
  shows "ps_objects ps' = map gone (ps_objects ps) \<and> ps_relations ps' = map gone (ps_relations ps)
    \<and> ps_revisions ps' = ps_revisions ps \<and> ps_sources ps' = ps_sources ps
    \<and> (\<exists>j. ps_jobs ps' = ps_jobs ps @ [j] \<and> pb_job_id j = i \<and> pb_kind j = Job_invalidate)
    \<and> (\<exists>r \<in> set (ps_scope_states ps'). ss_owner r = (fx_principal fx, fx_scope fx))
    \<and> (\<forall>r \<in> set (ps_scope_states ps'). ss_owner r = (fx_principal fx, fx_scope fx) \<longrightarrow>
         ss_status r = Scope_pending \<and> ss_frontier_hashes r = None \<and> ss_ledger_epoch r = ledger + 1)"
proof -
  let ?ms = "all_descendants ps (fx_revision_id fx) (fx_principal fx) (fx_scope fx)"
  have ms: "set ?ms = {m. descends ps (fx_principal fx) (fx_scope fx) (fx_revision_id fx) m}"
    by (auto simp: all_descendants_iff)
  from assms(1) obtain ps2 ps3 where
    m: "mark_scope_pending ledger tombstone fx
          ((fold (suppress_one sha fx) ?ms ps)\<lparr>ps_pending_since := Some (fx_occurred_at fx)\<rparr>) = Inr ps2"
    and e: "enqueue_job sha Job_invalidate fx ps2 = Inr (i, ps3)"
    and d: "deliver dl ledger tombstone fx ps3 = Inr ps'"
    by (auto simp: suppress_projection_descendants_def Let_def bindE_Inr_iff split: if_splits)
  show ?thesis
    using mark_scope_pending_Inr [OF m] enqueue_job_Inr [OF e] deliver_Inr [OF d]
    by (auto simp: suppress_fold fold_supersede gone_def ms)
qed


subsection \<open>Witnesses\<close>

definition sample_projections :: "unit projection_store" where
  "sample_projections = (let sc = \<lparr>scope_kind_of = Sk_user, scope_id = ''u1''\<rparr> in
     \<lparr>ps_revisions = [\<lparr>pj_projection_id = ''p1'', pj_revision_id = ''pr1'', pj_principal = ''me'', pj_scope = sc\<rparr>,
        \<lparr>pj_projection_id = ''p2'', pj_revision_id = ''pr2'', pj_principal = ''me'', pj_scope = sc\<rparr>],
      ps_sources = [\<lparr>so_projection_revision_id = ''pr1'', so_source_revision_id = ''r1''\<rparr>,
        \<lparr>so_projection_revision_id = ''pr2'', so_source_revision_id = ''pr1''\<rparr>],
      ps_objects = [\<lparr>do_id = ''p2'', do_lifecycle = Active, do_current = Some ''pr2'', do_updated_at = Timestamp ''t'' 0\<rparr>],
      ps_relations = [], ps_invalidations = [], ps_scope_states = [], ps_jobs = [],
      ps_pending_since = None, ps_projection_epoch = 1, ps_delivery = ()\<rparr>)"

definition sample_effect :: projection_effect where
  "sample_effect = \<lparr>fx_cause_id = [99], fx_memory_id = ''m1'', fx_revision_id = ''r1'', fx_principal = ''me'',
     fx_scope = \<lparr>scope_kind_of = Sk_user, scope_id = ''u1''\<rparr>, fx_occurred_at = Timestamp ''t1'' 1\<rparr>"

lemma sample_descendants:
  "all_descendants sample_projections ''r1'' ''me'' \<lparr>scope_kind_of = Sk_user, scope_id = ''u1''\<rparr>
     = [(''p1'', ''pr1''), (''p2'', ''pr2'')]"
  by (simp add: all_descendants_def derived_rows_def direct_descendants_def sample_projections_def Let_def)

lemma enumerate_is_closure_witness:
  "descends sample_projections ''me'' \<lparr>scope_kind_of = Sk_user, scope_id = ''u1''\<rparr> ''r1'' (''p2'', ''pr2'')"
  using enumerate_is_closure [THEN conjunct1, of sample_projections "''r1''" "''me''"
      "\<lparr>scope_kind_of = Sk_user, scope_id = ''u1''\<rparr>"]
  by (auto simp: sample_descendants)


end
