(* ===== verification/GovernanceStore.thy ===== *)
theory GovernanceStore
  imports Requests Admission ContextModel ProjectionEffects
begin

text \<open>
  The governance repository (\<open>packages/storage-sqlite/src/governance-repository.ts\<close>): admitting a
  candidate and revising a memory, each as one transaction over the tables of the ledger, with an
  idempotent receipt.

  A table is the list of its rows in insertion order. Rows of \<open>memory_objects\<close>,
  \<open>memory_revisions\<close>, \<open>memory_candidates\<close> and \<open>evidence_events\<close> extend the contract records by the
  columns these lack; \<open>memory_revision_evidence\<close> and \<open>memory_candidate_evidence\<close> are the
  \<open>evidence_ids\<close> of the row. Redacted content is \<open>None\<close>. A purged row's \<open>purged_at\<close> is kept.
  The primary keys, the unique constraints and the checks of the tables that these operations can
  violate are \<open>Constraint_violation\<close>. Stored JSON reads back as the value that was written.
  \<open>schema_version\<close> is \<open>1.0.0\<close> throughout. The write guard is open exactly inside \<open>governedWrite\<close> and
  is not represented.
\<close>

subsection \<open>Tables\<close>

record evidence_row = evidence_record +
  evr_purged_at :: "timestamp option"

record candidate_row = memory_candidate +
  cdr_principal :: string
  cdr_logical_key_hash :: string
  cdr_created_at :: timestamp

record object_row = memory_object +
  obr_principal :: string
  obr_logical_key_hash :: string

record revision_row = memory_revision +
  rvr_created_at :: timestamp

record link_row =
  lk_candidate_id :: string
  lk_memory_id :: string
  lk_revision_id :: "string option"
  lk_linked_at :: timestamp

record group_row =
  gr_conflict_group_id :: string
  gr_logical_key_hash :: string
  gr_principal :: string
  gr_scope :: scope
  gr_open :: bool
  gr_created_at :: timestamp

record outbox_row =
  ob_job_id :: string
  ob_kind :: string
  ob_aggregate_id :: string
  ob_created_at :: timestamp

datatype mutation_outcome = Created | Reused | Conflict | Revised | Dry_run

record mutation_receipt =
  mx_receipt_id :: string
  mx_created_at :: timestamp
  mx_state :: receipt_state
  mx_request_hash :: string
  mx_receipt_hash :: string
  mx_idempotency_key :: ustring
  mx_affected_memory_ids :: "string list"
  mx_affected_revision_ids :: "string list"
  mx_resulting_epoch :: nat
  mx_projection_jobs :: "string list"
  mx_warnings :: "string list"

record mutation_result =
  mu_receipt :: mutation_receipt
  mu_replayed :: bool
  mu_outcome :: mutation_outcome
  mu_candidate_id :: string
  mu_memory_id :: string
  mu_current_revision_id :: string
  mu_conflict_group_id :: "string option"
  mu_lifecycle :: lifecycle
  mu_decision :: "admission option"

text \<open>The rows of one receipt in \<open>idempotency_keys\<close>, \<open>mutation_receipts\<close>,
  \<open>governance_mutation_results\<close> and \<open>receipt_access_scopes\<close>.\<close>

record mutation_row =
  mr_idempotency_key :: ustring
  mr_request_hash :: string
  mr_receipt :: mutation_receipt
  mr_result :: "mutation_result option"
  mr_owner :: "string \<times> scope"

record consumption_row =
  cn_approval_id :: string
  cn_idempotency_key :: ustring
  cn_request_hash :: string
  cn_manifest_hash :: string
  cn_principal :: string
  cn_tool :: tool
  cn_scopes :: "scope list"
  cn_consumed_at :: timestamp
  cn_receipt_id :: string

record 'g store =
  st_evidence :: "evidence_row list"
  st_artifacts :: "string list"
  st_candidates :: "candidate_row list"
  st_objects :: "object_row list"
  st_revisions :: "revision_row list"
  st_links :: "link_row list"
  st_admissions :: "admission_decision list"
  st_statuses :: "memory_status_event list"
  st_groups :: "group_row list"
  st_members :: "(string \<times> string) list"
  st_outbox :: "outbox_row list"
  st_fts_pending_since :: "timestamp option"
  st_ledger_epoch :: nat
  st_tombstone_epoch :: nat
  st_mutations :: "mutation_row list"
  st_consumptions :: "consumption_row list"
  st_projections :: "'g projection_store"

text \<open>The functions of the runtime that the repository uses.\<close>

record 'g governance_env =
  env_sha :: "jval \<Rightarrow> string"
  env_nfkc :: "ustring \<Rightarrow> ustring"
  env_lower :: "ustring \<Rightarrow> ustring"
  env_injection :: "ustring \<Rightarrow> bool"
  env_delivery :: "'g delivery"

definition key_hash :: "'g governance_env \<Rightarrow> ustring \<Rightarrow> string" where
  "key_hash v k = logical_key_hash (env_sha v) (env_nfkc v) (env_lower v) k"

definition has_injection :: "'g governance_env \<Rightarrow> memory_candidate \<Rightarrow> bool" where
  "has_injection v c = candidate_has_prompt_injection_signal (env_injection v) c"

subsection \<open>JSON\<close>

definition kind_id_json :: "scope \<Rightarrow> jval" where
  "kind_id_json s = jobj [(''kind'', jstr (scope_kind_string (scope_kind_of s))), (''id'', jstr (scope_id s))]"

definition actor_json :: "actor_claim \<Rightarrow> jval" where
  "actor_json a = jobj [(''principal_id'', jstr (claim_principal_id a)),
     (''authority'', jstr (authority_string (claim_authority a)))]"

fun injection_risk_string :: "injection_risk \<Rightarrow> string" where
  "injection_risk_string Risk_none = ''none''"
| "injection_risk_string Risk_suspected = ''suspected''"
| "injection_risk_string Risk_confirmed = ''confirmed''"

fun evidence_source_string :: "evidence_source \<Rightarrow> string" where
  "evidence_source_string Src_conversation_turn = ''conversation_turn''"
| "evidence_source_string Src_tool_result = ''tool_result''"
| "evidence_source_string Src_artifact = ''artifact''"
| "evidence_source_string Src_user_feedback = ''user_feedback''"
| "evidence_source_string Src_evaluation = ''evaluation''"
| "evidence_source_string Src_import = ''import''"

fun admission_string :: "admission \<Rightarrow> string" where
  "admission_string Activate = ''activate''"
| "admission_string Candidate_only = ''candidate_only''"
| "admission_string Quarantine = ''quarantine''"
| "admission_string Reject = ''reject''"

definition validity_json :: "validity_window \<Rightarrow> jval" where
  "validity_json w = jobj [(''valid_from'', jstr (iso (valid_from w))),
     (''valid_to'', nullable (\<lambda>t. jstr (iso t)) (valid_to w)), (''recorded_at'', jstr (iso (recorded_at w)))]"

definition candidate_json :: "memory_candidate \<Rightarrow> jval" where
  "candidate_json c = jobj
     [(''schema_version'', jstr ''1.0.0''), (''candidate_id'', jstr (candidate_id c)),
      (''logical_key'', J_str (logical_key c)), (''kind'', jstr (memory_kind_string (cand_kind c))),
      (''scope'', kind_id_json (cand_scope c)), (''sensitivity'', jstr (sensitivity_string (cand_sensitivity c))),
      (''inferred'', J_bool (inferred c)), (''content'', content_json (cand_content c)),
      (''content_hash'', jstr (cand_content_hash c)), (''evidence_ids'', jstrs (cand_evidence_ids c)),
      (''validity'', validity_json (cand_validity c)),
      (''injection_risk'', jstr (injection_risk_string (cand_injection_risk c))),
      (''requires_user_confirmation'', J_bool (requires_user_confirmation c)),
      (''transform'', transform_json (cand_transform c))]"

definition evidence_json :: "evidence_record \<Rightarrow> jval" where
  "evidence_json e = jobj
     [(''schema_version'', jstr ''1.0.0''), (''evidence_id'', jstr (evidence_id e)),
      (''sequence'', jnat (sequence_no e)), (''occurred_at'', jstr (iso (ev_occurred_at e))),
      (''recorded_at'', jstr (iso (ev_recorded_at e))), (''scope'', kind_id_json (ev_scope e)),
      (''actor'', actor_json (ev_actor e)), (''source'', jstr (evidence_source_string (ev_source e))),
      (''authority'', jstr (authority_string (ev_authority e))),
      (''sensitivity'', jstr (sensitivity_string (ev_sensitivity e))),
      (''payload'', content_json (payload e)), (''content_hash'', jstr (payload_hash e))]"

definition seal_json :: "impact_seal \<Rightarrow> jval" where
  "seal_json s = jobj
     [(''source_revision_id'', jstr (is_source_revision_id s)),
      (''descendant_count'', jnat (is_descendant_count s)),
      (''closure_hash'', jstr (is_closure_hash s)), (''supported_limit'', jnat (is_supported_limit s))]"

text \<open>A receipt without the hash that seals it.\<close>

definition unsealed_mutation_json :: "mutation_receipt \<Rightarrow> jval" where
  "unsealed_mutation_json r = jobj
     [(''schema_version'', jstr ''1.0.0''), (''receipt_id'', jstr (mx_receipt_id r)),
      (''created_at'', jstr (iso (mx_created_at r))), (''state'', jstr (receipt_state_string (mx_state r))),
      (''request_hash'', jstr (mx_request_hash r)), (''kind'', jstr ''mutation''),
      (''idempotency_key'', J_str (mx_idempotency_key r)),
      (''affected_memory_ids'', jstrs (mx_affected_memory_ids r)),
      (''affected_revision_ids'', jstrs (mx_affected_revision_ids r)),
      (''resulting_epoch'', jnat (mx_resulting_epoch r)),
      (''projection_jobs'', jstrs (mx_projection_jobs r)), (''warnings'', jstrs (mx_warnings r))]"

text \<open>\<open>stableIdentifier\<close>: \<open>slice("sha256:".length, 55)\<close> keeps 48 digits.\<close>

definition storage_identifier :: "'g governance_env \<Rightarrow> string \<Rightarrow> (string \<times> jval) list \<Rightarrow> string" where
  "storage_identifier v pre ps = pre @ '':'' @ take 48 (drop 7 (env_sha v (jobj ps)))"

subsection \<open>Decisions about evidence\<close>

fun lifecycle_for :: "admission \<Rightarrow> lifecycle" where
  "lifecycle_for Activate = Active"
| "lifecycle_for Candidate_only = Candidate"
| "lifecycle_for _ = Quarantined"

fun decision_rank :: "admission \<Rightarrow> nat" where
  "decision_rank Activate = 0"
| "decision_rank Candidate_only = 1"
| "decision_rank _ = 2"

fun authority_rank :: "authority \<Rightarrow> nat" where
  "authority_rank User_stated = 0"
| "authority_rank Inferred = 1"
| "authority_rank Derived = 2"
| "authority_rank Observed = 3"
| "authority_rank Tool_result = 4"
| "authority_rank Imported = 5"

definition row_authorities :: "evidence_row list \<Rightarrow> authority list" where
  "row_authorities es = concat (map (\<lambda>e. [claim_authority (ev_actor e), ev_authority e]) es)"

definition authority_for :: "evidence_row list \<Rightarrow> authority" where
  "authority_for es = (case sort_key (\<lambda>a. - int (authority_rank a)) (row_authorities es) of
     [] \<Rightarrow> Derived | a # as \<Rightarrow> a)"

definition sensitivity_for :: "sensitivity \<Rightarrow> evidence_row list \<Rightarrow> sensitivity" where
  "sensitivity_for c es =
     hd (sort_key (\<lambda>s. - int (sensitivity_rank s)) (c # map ev_sensitivity es))"

definition evidence_indicates_inference :: "evidence_row list \<Rightarrow> bool" where
  "evidence_indicates_inference es \<longleftrightarrow>
     list_ex (\<lambda>e. claim_authority (ev_actor e) \<in> {Inferred, Derived} \<or> ev_authority e \<in> {Inferred, Derived}) es"

definition minimum_admission :: "'g governance_env \<Rightarrow> memory_candidate \<Rightarrow> evidence_row list \<Rightarrow> admission" where
  "minimum_admission v c es =
     (let authorities = row_authorities es in
      if has_injection v c \<or> cand_sensitivity c = Sensitive
         \<or> list_ex (\<lambda>e. ev_sensitivity e = Sensitive) es
         \<or> list_ex (\<lambda>a. a \<in> {Observed, Tool_result, Imported}) authorities
      then Quarantine
      else if inferred c \<or> requires_user_confirmation c
         \<or> list_ex (\<lambda>a. a \<in> {Inferred, Derived}) authorities
      then Candidate_only
      else Activate)"

definition validate_candidate ::
  "'g governance_env \<Rightarrow> 'g store \<Rightarrow> memory_candidate \<Rightarrow> string \<Rightarrow> admission
     \<Rightarrow> storage_error + evidence_row list" where
  "validate_candidate v s c who requested =
     bindE (guardE (length (js_set (cand_evidence_ids c)) = length (cand_evidence_ids c)) Invalid_input) (\<lambda>_.
     bindE (guardE (case cand_content c of
         Inline t m \<Rightarrow> env_sha v (content_json (cand_content c)) = cand_content_hash c
       | Blob h n m \<Rightarrow> h = cand_content_hash c) Invalid_input) (\<lambda>_.
     bindE (guardE (cand_sensitivity c \<noteq> Secret) Encryption_required) (\<lambda>_.
     let evidence = sort_key evidence_id (filter (\<lambda>e. evidence_id e \<in> set (cand_evidence_ids c)) (st_evidence s)) in
     bindE (guardE (\<not> (length evidence \<noteq> length (cand_evidence_ids c)
         \<or> list_ex (\<lambda>e. claim_principal_id (ev_actor e) \<noteq> who \<or> ev_scope e \<noteq> cand_scope c
              \<or> evr_purged_at e \<noteq> None) evidence)) Invalid_input) (\<lambda>_.
     bindE (guardE (\<not> decision_rank requested < decision_rank (minimum_admission v c evidence)) Invalid_input) (\<lambda>_.
     Inr evidence)))))"

subsection \<open>Inserts\<close>

definition artifact_known :: "'g store \<Rightarrow> content_ref \<Rightarrow> bool" where
  "artifact_known s c = (case c of Inline t m \<Rightarrow> True | Blob h n m \<Rightarrow> h \<in> set (st_artifacts s))"

definition insert_candidate ::
  "'g governance_env \<Rightarrow> memory_candidate \<Rightarrow> string \<Rightarrow> evidence_row list \<Rightarrow> 'g store
     \<Rightarrow> storage_error + 'g store" where
  "insert_candidate v c who es s =
     (let risk = (if cand_injection_risk c = Risk_none \<and> has_injection v c then Risk_suspected
                  else cand_injection_risk c) in
      bindE (guardE (artifact_known s (cand_content c)) Constraint_violation) (\<lambda>_.
      bindE (insert_row candidate_id
        \<lparr>candidate_id = candidate_id c,
         logical_key = normalize_logical_key (env_nfkc v) (env_lower v) (logical_key c),
         cand_kind = cand_kind c, cand_scope = cand_scope c,
         cand_sensitivity = sensitivity_for (cand_sensitivity c) es,
         inferred = (inferred c \<or> evidence_indicates_inference es),
         cand_content = cand_content c, cand_content_hash = cand_content_hash c,
         cand_evidence_ids = sort (cand_evidence_ids c), cand_validity = cand_validity c,
         cand_injection_risk = risk,
         requires_user_confirmation = (requires_user_confirmation c \<or> risk \<noteq> Risk_none),
         cand_transform = cand_transform c, cdr_principal = who,
         cdr_logical_key_hash = key_hash v (logical_key c),
         cdr_created_at = recorded_at (cand_validity c)\<rparr> (st_candidates s)) (\<lambda>rows.
      Inr (s\<lparr>st_candidates := rows\<rparr>))))"

definition link_candidate ::
  "string \<Rightarrow> string \<Rightarrow> string option \<Rightarrow> timestamp \<Rightarrow> 'g store \<Rightarrow> storage_error + 'g store" where
  "link_candidate c m r now s =
     bindE (insert_row lk_candidate_id
       \<lparr>lk_candidate_id = c, lk_memory_id = m, lk_revision_id = r, lk_linked_at = now\<rparr> (st_links s)) (\<lambda>rows.
     Inr (s\<lparr>st_links := rows\<rparr>))"

definition insert_revision_row :: "revision_row \<Rightarrow> 'g store \<Rightarrow> storage_error + 'g store" where
  "insert_revision_row r s =
     bindE (guardE ((revision_no r = 1 \<and> supersedes r = None \<or> revision_no r > 1 \<and> supersedes r \<noteq> None)
       \<and> (rev_memory_id r, revision_no r) \<notin> (\<lambda>x. (rev_memory_id x, revision_no x)) ` set (st_revisions s)
       \<and> (case valid_to (validity r) of None \<Rightarrow> True
            | Some t \<Rightarrow> \<not> iso t < iso (valid_from (validity r)))
       \<and> (case rev_content r of None \<Rightarrow> True | Some c \<Rightarrow> artifact_known s c)) Constraint_violation) (\<lambda>_.
     bindE (insert_row revision_id r (st_revisions s)) (\<lambda>rows.
     Inr (s\<lparr>st_revisions := rows\<rparr>)))"

definition candidate_revision ::
  "string \<Rightarrow> string \<Rightarrow> nat \<Rightarrow> lifecycle \<Rightarrow> memory_candidate \<Rightarrow> evidence_row list \<Rightarrow> string option
     \<Rightarrow> timestamp \<Rightarrow> revision_row" where
  "candidate_revision rid mid n lc c es supersedes_id now =
     \<lparr>revision_id = rid, rev_memory_id = mid, revision_no = n, abstraction = L1_memory,
      rev_lifecycle = lc, rev_kind = cand_kind c, rev_scope = cand_scope c,
      rev_authority = authority_for es, rev_sensitivity = sensitivity_for (cand_sensitivity c) es,
      validity = cand_validity c, rev_inferred = (inferred c \<or> evidence_indicates_inference es),
      rev_content = Some (cand_content c), rev_content_hash = cand_content_hash c,
      rev_evidence_ids = sort (cand_evidence_ids c), derived_from = [], supersedes = supersedes_id,
      rev_transform = cand_transform c, rvr_created_at = now\<rparr>"

definition insert_revision ::
  "string \<Rightarrow> string \<Rightarrow> nat \<Rightarrow> lifecycle \<Rightarrow> memory_candidate \<Rightarrow> evidence_row list \<Rightarrow> string option
     \<Rightarrow> timestamp \<Rightarrow> 'g store \<Rightarrow> storage_error + 'g store" where
  "insert_revision rid mid n lc c es supersedes_id now s =
     insert_revision_row (candidate_revision rid mid n lc c es supersedes_id now) s"

definition insert_admission ::
  "'g governance_env \<Rightarrow> string \<Rightarrow> string \<Rightarrow> string \<Rightarrow> actor_claim \<Rightarrow> timestamp \<Rightarrow> admission \<Rightarrow> ustring
     \<Rightarrow> bool \<Rightarrow> 'g store \<Rightarrow> storage_error + 'g store" where
  "insert_admission v mid rid cid actor now d why confirm s =
     bindE (insert_row decision_id
       \<lparr>decision_id = storage_identifier v ''decision'' [(''candidate_id'', jstr cid),
          (''revision_id'', jstr rid), (''decision'', jstr (admission_string d))],
        dec_memory_id = mid, dec_revision_id = rid, dec_decision = d, decided_by = actor,
        decided_at = now, dec_reason = why, dec_conflict_group_id = None,
        dec_requires_user_confirmation = confirm\<rparr> (st_admissions s)) (\<lambda>rows.
     Inr (s\<lparr>st_admissions := rows\<rparr>))"

fun status_action_string :: "status_action \<Rightarrow> string" where
  "status_action_string Act_activate = ''activate''"
| "status_action_string Act_demote = ''demote''"
| "status_action_string Act_suppress = ''suppress''"
| "status_action_string Act_revoke = ''revoke''"
| "status_action_string Act_tombstone = ''tombstone''"
| "status_action_string Act_purge_redact = ''purge_redact''"

definition insert_status ::
  "'g governance_env \<Rightarrow> string \<Rightarrow> string \<Rightarrow> status_action \<Rightarrow> lifecycle \<Rightarrow> actor_claim \<Rightarrow> ustring
     \<Rightarrow> timestamp \<Rightarrow> 'g store \<Rightarrow> storage_error + 'g store" where
  "insert_status v mid rid act lc actor why now s =
     bindE (insert_row status_event_id
       \<lparr>status_event_id = storage_identifier v ''status'' [(''memoryId'', jstr mid),
          (''revisionId'', jstr rid), (''action'', jstr (status_action_string act)),
          (''lifecycle'', jstr (lifecycle_string lc)),
          (''principalId'', jstr (claim_principal_id actor)),
          (''actorAuthority'', jstr (authority_string (claim_authority actor))),
          (''reason'', J_str why), (''occurredAt'', jstr (iso now))],
        se_memory_id = mid, se_revision_id = rid, se_action = act, se_lifecycle = lc,
        se_actor = actor, se_occurred_at = now, se_reason = why,
        se_tombstone_epoch = None\<rparr> (st_statuses s)) (\<lambda>rows.
     Inr (s\<lparr>st_statuses := rows\<rparr>))"

definition insert_outbox ::
  "'g governance_env \<Rightarrow> string \<Rightarrow> string \<Rightarrow> timestamp \<Rightarrow> 'g store \<Rightarrow> storage_error + (string \<times> 'g store)" where
  "insert_outbox v kind aggregate now s =
     (let i = storage_identifier v ''job'' [(''kind'', jstr kind), (''aggregate_id'', jstr aggregate),
        (''created_at'', jstr (iso now))] in
      bindE (insert_row ob_job_id
        \<lparr>ob_job_id = i, ob_kind = kind, ob_aggregate_id = aggregate, ob_created_at = now\<rparr> (st_outbox s)) (\<lambda>rows.
      Inr (i, s\<lparr>st_outbox := rows, st_fts_pending_since := Some now\<rparr>)))"

subsection \<open>Receipts\<close>

definition mutation_receipt_ok :: "mutation_receipt \<Rightarrow> bool" where
  "mutation_receipt_ok r \<longleftrightarrow>
     identifier_ok (mx_receipt_id r) \<and> canonical_hash_ok (mx_request_hash r)
     \<and> canonical_hash_ok (mx_receipt_hash r) \<and> idempotency_key_ok (mx_idempotency_key r)
     \<and> list_all identifier_ok (mx_affected_memory_ids r)
     \<and> list_all identifier_ok (mx_affected_revision_ids r)
     \<and> list_all identifier_ok (mx_projection_jobs r)
     \<and> list_all (\<lambda>w. js_trim (code_points w) \<noteq> []) (mx_warnings r)"

definition mutation_result_ok :: "mutation_result \<Rightarrow> bool" where
  "mutation_result_ok r \<longleftrightarrow>
     mutation_receipt_ok (mu_receipt r) \<and> identifier_ok (mu_candidate_id r)
     \<and> identifier_ok (mu_memory_id r) \<and> identifier_ok (mu_current_revision_id r)
     \<and> (case mu_conflict_group_id r of None \<Rightarrow> True | Some g \<Rightarrow> identifier_ok g)
     \<and> mu_lifecycle r \<in> {Active, Candidate, Quarantined} \<and> mu_decision r \<noteq> Some Reject"

record seal_options =
  sq_idempotency_key :: ustring
  sq_request_hash :: string
  sq_who :: string
  sq_scope :: scope
  sq_requested_at :: timestamp
  sq_outcome :: mutation_outcome
  sq_candidate_id :: string
  sq_memory_id :: string
  sq_current_revision_id :: string
  sq_conflict_group_id :: "string option"
  sq_lifecycle :: lifecycle
  sq_decision :: "admission option"
  sq_previous_revision_id :: "string option"
  sq_projection_jobs :: "string list"
  sq_warnings :: "string list"
  sq_advance_epoch :: bool

definition sealed_receipt :: "'g governance_env \<Rightarrow> seal_options \<Rightarrow> nat \<Rightarrow> mutation_receipt" where
  "sealed_receipt v q epoch =
     (let unsealed = \<lparr>mx_receipt_id = storage_identifier v ''receipt''
             [(''idempotency_key'', J_str (sq_idempotency_key q)), (''request_hash'', jstr (sq_request_hash q))],
           mx_created_at = sq_requested_at q,
           mx_state = (if length (sq_projection_jobs q) > 0 then Rs_projection_pending else Rs_durable),
           mx_request_hash = sq_request_hash q, mx_receipt_hash = ''sha256:'' @ replicate 64 (CHR ''0''),
           mx_idempotency_key = sq_idempotency_key q,
           mx_affected_memory_ids = (if sq_advance_epoch q then [sq_memory_id q] else []),
           mx_affected_revision_ids = (if \<not> sq_advance_epoch q \<or> sq_outcome q = Conflict then []
             else (case sq_previous_revision_id q of None \<Rightarrow> [] | Some r \<Rightarrow> [r]) @ [sq_current_revision_id q]),
           mx_resulting_epoch = epoch, mx_projection_jobs = sq_projection_jobs q,
           mx_warnings = sq_warnings q\<rparr>
      in unsealed\<lparr>mx_receipt_hash := env_sha v (unsealed_mutation_json unsealed)\<rparr>)"

definition seal_mutation ::
  "'g governance_env \<Rightarrow> seal_options \<Rightarrow> 'g store \<Rightarrow> storage_error + (mutation_result \<times> 'g store)" where
  "seal_mutation v q s =
     (let s1 = (if sq_advance_epoch q then s\<lparr>st_ledger_epoch := st_ledger_epoch s + 1\<rparr> else s);
          receipt = sealed_receipt v q (st_ledger_epoch s1);
          r = \<lparr>mu_receipt = receipt, mu_replayed = False, mu_outcome = sq_outcome q,
               mu_candidate_id = sq_candidate_id q, mu_memory_id = sq_memory_id q,
               mu_current_revision_id = sq_current_revision_id q,
               mu_conflict_group_id = sq_conflict_group_id q, mu_lifecycle = sq_lifecycle q,
               mu_decision = sq_decision q\<rparr> in
      bindE (guardE (mutation_receipt_ok receipt \<and> mutation_result_ok r) Schema_invalid) (\<lambda>_.
      if \<not> sq_advance_epoch q then Inr (r, s1)
      else bindE (guardE (mx_receipt_id receipt \<notin> (\<lambda>m. mx_receipt_id (mr_receipt m)) ` set (st_mutations s1)
             \<and> mx_receipt_hash receipt \<notin> (\<lambda>m. mx_receipt_hash (mr_receipt m)) ` set (st_mutations s1))
             Constraint_violation) (\<lambda>_.
           bindE (insert_row mr_idempotency_key
             \<lparr>mr_idempotency_key = sq_idempotency_key q, mr_request_hash = sq_request_hash q,
              mr_receipt = receipt, mr_result = Some r, mr_owner = (sq_who q, sq_scope q)\<rparr>
             (st_mutations s1)) (\<lambda>rows.
           Inr (r, s1\<lparr>st_mutations := rows\<rparr>)))))"

definition read_mutation :: "'g store \<Rightarrow> ustring \<Rightarrow> mutation_row option" where
  "read_mutation s k = List.find (\<lambda>m. mr_idempotency_key m = k) (st_mutations s)"

definition parse_existing_result ::
  "'g governance_env \<Rightarrow> mutation_row \<Rightarrow> string \<Rightarrow> storage_error + mutation_result" where
  "parse_existing_result v m request_hash =
     (if mr_request_hash m \<noteq> request_hash then Inl Conflict_with_state else
      case mr_result m of
        None \<Rightarrow> Inl Conflict_with_state
      | Some r \<Rightarrow>
          if \<not> mutation_receipt_ok (mr_receipt m) \<or> \<not> mutation_result_ok r then Inl Schema_invalid
          else if mx_receipt_hash (mr_receipt m) \<noteq> env_sha v (unsealed_mutation_json (mr_receipt m))
               \<or> mx_receipt_hash (mu_receipt r) \<noteq> mx_receipt_hash (mr_receipt m)
          then Inl Corruption
          else Inr (r\<lparr>mu_replayed := True\<rparr>))"

definition replay_mutation ::
  "'g governance_env \<Rightarrow> 'g store \<Rightarrow> ustring \<Rightarrow> string \<Rightarrow> storage_error + mutation_result option" where
  "replay_mutation v s k request_hash = (case read_mutation s k of
       None \<Rightarrow> Inr None
     | Some m \<Rightarrow> bindE (parse_existing_result v m request_hash) (\<lambda>r. Inr (Some r)))"

text \<open>\<open>governedWrite\<close>: an immediate transaction; when the effect throws, nothing of it stays.\<close>

definition governed_write ::
  "('g store \<Rightarrow> storage_error + ('a \<times> 'g store)) \<Rightarrow> 'g store \<Rightarrow> (storage_error + 'a) \<times> 'g store" where
  "governed_write effect s = (case effect s of Inl e \<Rightarrow> (Inl e, s) | Inr (r, s') \<Rightarrow> (Inr r, s'))"

subsection \<open>Creating and revising a memory\<close>

record create_options =
  co_idempotency_key :: ustring
  co_request_hash :: string
  co_actor :: actor_claim
  co_requested_at :: timestamp
  co_candidate :: memory_candidate
  co_evidence :: "evidence_row list"
  co_logical_hash :: string
  co_decision :: admission
  co_reason :: ustring
  co_outcome :: mutation_outcome
  co_supersedes :: "revision_row option"
  co_revision_number :: nat
  co_existing :: "object_row option"

definition projection_effect_of :: "create_options \<Rightarrow> string \<Rightarrow> string \<Rightarrow> projection_effect" where
  "projection_effect_of q mid rid =
     \<lparr>fx_cause_id = co_idempotency_key q, fx_memory_id = mid, fx_revision_id = rid,
      fx_principal = claim_principal_id (co_actor q), fx_scope = cand_scope (co_candidate q),
      fx_occurred_at = co_requested_at q\<rparr>"

definition suppress_in_store ::
  "'g governance_env \<Rightarrow> projection_effect \<Rightarrow> 'g store \<Rightarrow> storage_error + (string \<times> 'g store)" where
  "suppress_in_store v fx s =
     bindE (suppress_projection_descendants (env_sha v) (env_delivery v) (st_ledger_epoch s)
       (st_tombstone_epoch s) fx (st_projections s)) (\<lambda>(i, ps). Inr (i, s\<lparr>st_projections := ps\<rparr>))"

definition refresh_in_store ::
  "'g governance_env \<Rightarrow> projection_effect \<Rightarrow> 'g store \<Rightarrow> storage_error + (string \<times> 'g store)" where
  "refresh_in_store v fx s =
     bindE (enqueue_projection_refresh (env_sha v) (env_delivery v) (st_ledger_epoch s)
       (st_tombstone_epoch s) fx (st_projections s)) (\<lambda>(i, ps). Inr (i, s\<lparr>st_projections := ps\<rparr>))"

text \<open>Running a job for a revision that may be missing: its identifier, or none.\<close>

definition optional_job ::
  "string option \<Rightarrow> (string \<Rightarrow> 's \<Rightarrow> storage_error + (string \<times> 's)) \<Rightarrow> 's \<Rightarrow> storage_error + (string list \<times> 's)" where
  "optional_job x f s = (case x of None \<Rightarrow> Inr ([], s)
     | Some k \<Rightarrow> bindE (f k s) (\<lambda>(i, s'). Inr ([i], s')))"

definition object_key :: "object_row \<Rightarrow> string \<times> scope \<times> memory_kind \<times> string" where
  "object_key m = (obr_principal m, mem_scope m, mem_kind m, obr_logical_key_hash m)"

definition insert_object :: "object_row \<Rightarrow> 'g store \<Rightarrow> storage_error + 'g store" where
  "insert_object m s =
     bindE (guardE (object_key m \<notin> object_key ` set (st_objects s)) Constraint_violation) (\<lambda>_.
     bindE (insert_row memory_id m (st_objects s)) (\<lambda>rows. Inr (s\<lparr>st_objects := rows\<rparr>)))"

text \<open>The \<open>UPDATE\<close> of the current revision, which must hit exactly one row.\<close>

definition move_current ::
  "string \<Rightarrow> string \<Rightarrow> string \<Rightarrow> lifecycle \<Rightarrow> timestamp \<Rightarrow> 'g store \<Rightarrow> storage_error + 'g store" where
  "move_current mid from_revision to_revision lc now s =
     (let hit = (\<lambda>m. memory_id m = mid \<and> current_revision_id m = Some from_revision) in
      if length (filter hit (st_objects s)) \<noteq> 1 then Inl Stale_revision
      else Inr (s\<lparr>st_objects := map (\<lambda>m. if hit m then m\<lparr>mem_lifecycle := lc,
        current_revision_id := Some to_revision, context_eligible := (lc = Active),
        mem_updated_at := now\<rparr> else m) (st_objects s)\<rparr>))"

definition new_memory_id :: "'g governance_env \<Rightarrow> create_options \<Rightarrow> string" where
  "new_memory_id v q = (case co_existing q of Some m \<Rightarrow> memory_id m
     | None \<Rightarrow> storage_identifier v ''memory''
         [(''principal_id'', jstr (claim_principal_id (co_actor q))),
          (''scope'', kind_id_json (cand_scope (co_candidate q))),
          (''kind'', jstr (memory_kind_string (cand_kind (co_candidate q)))),
          (''logical_key_hash'', jstr (co_logical_hash q))])"

definition new_revision_id :: "'g governance_env \<Rightarrow> create_options \<Rightarrow> string" where
  "new_revision_id v q = storage_identifier v ''revision''
     [(''memory_id'', jstr (new_memory_id v q)), (''revision'', jnat (co_revision_number q)),
      (''content_hash'', jstr (cand_content_hash (co_candidate q))),
      (''evidence_ids'', jstrs (sort (cand_evidence_ids (co_candidate q)))),
      (''transform'', transform_json (cand_transform (co_candidate q)))]"

definition new_object :: "'g governance_env \<Rightarrow> create_options \<Rightarrow> object_row" where
  "new_object v q = (let lc = lifecycle_for (co_decision q); c = co_candidate q in
     \<lparr>memory_id = new_memory_id v q, mem_kind = cand_kind c, mem_scope = cand_scope c,
      mem_lifecycle = lc, current_revision_id = Some (new_revision_id v q), pinned = False,
      context_eligible = (lc = Active), mem_created_at = co_requested_at q,
      mem_updated_at = co_requested_at q, obr_principal = claim_principal_id (co_actor q),
      obr_logical_key_hash = co_logical_hash q\<rparr>)"

text \<open>The rows of a new revision: the revision, its link and its decision; then the object or its new
  current pointer, and the status events.\<close>

definition write_rows ::
  "'g governance_env \<Rightarrow> create_options \<Rightarrow> 'g store \<Rightarrow> storage_error + 'g store" where
  "write_rows v q s =
     (let c = co_candidate q; mid = new_memory_id v q; rid = new_revision_id v q; now = co_requested_at q in
     bindE (insert_revision rid mid (co_revision_number q) (lifecycle_for (co_decision q)) c (co_evidence q)
              (map_option revision_id (co_supersedes q)) now s) (\<lambda>s2.
     bindE (link_candidate (candidate_id c) mid (Some rid) now s2) (\<lambda>s3.
     insert_admission v mid rid (candidate_id c) (co_actor q) now (co_decision q) (co_reason q)
              (requires_user_confirmation c \<or> has_injection v c) s3)))"

definition replace_current ::
  "'g governance_env \<Rightarrow> create_options \<Rightarrow> 'g store \<Rightarrow> storage_error + 'g store" where
  "replace_current v q s = (case (co_existing q, co_supersedes q) of
       (Some m, Some old) \<Rightarrow>
         bindE (move_current (new_memory_id v q) (revision_id old) (new_revision_id v q)
           (lifecycle_for (co_decision q)) (co_requested_at q) s) (\<lambda>s'.
         insert_status v (new_memory_id v q) (revision_id old) Act_suppress Superseded (co_actor q)
           (code_points ''A governed successor replaced this revision'') (co_requested_at q) s')
     | (Some m, None) \<Rightarrow> Inl Stale_revision
     | (None, _) \<Rightarrow> Inr s)"

definition announce_revision ::
  "'g governance_env \<Rightarrow> create_options \<Rightarrow> 'g store \<Rightarrow> storage_error + 'g store" where
  "announce_revision v q s =
     (let lc = lifecycle_for (co_decision q); mid = new_memory_id v q; rid = new_revision_id v q in
     if lc = Active then insert_status v mid rid Act_activate lc (co_actor q) (co_reason q) (co_requested_at q) s
     else if lc = Candidate then insert_status v mid rid Act_demote lc (co_actor q) (co_reason q) (co_requested_at q) s
     else Inr s)"

definition write_revision ::
  "'g governance_env \<Rightarrow> create_options \<Rightarrow> 'g store \<Rightarrow> storage_error + 'g store" where
  "write_revision v q s =
     bindE (case co_existing q of None \<Rightarrow> insert_object (new_object v q) s | Some m \<Rightarrow> Inr s) (\<lambda>s1.
     bindE (write_rows v q s1) (\<lambda>s2.
     bindE (replace_current v q s2) (announce_revision v q)))"

definition create_memory ::
  "'g governance_env \<Rightarrow> create_options \<Rightarrow> 'g store \<Rightarrow> storage_error + (mutation_result \<times> 'g store)" where
  "create_memory v q s =
     (let lc = lifecycle_for (co_decision q); mid = new_memory_id v q; rid = new_revision_id v q;
          now = co_requested_at q; old = map_option revision_id (co_supersedes q) in
     bindE (write_revision v q s) (\<lambda>s1.
     bindE (optional_job old (\<lambda>i. insert_outbox v ''fts_memory_delete'' i now) s1) (\<lambda>(j1, s2).
     bindE (optional_job (if lc = Active then Some rid else None) (\<lambda>i. insert_outbox v ''fts_memory_upsert'' i now) s2) (\<lambda>(j2, s3).
     bindE (optional_job old (\<lambda>i. suppress_in_store v (projection_effect_of q mid i)) s3) (\<lambda>(j3, s4).
     bindE (optional_job (if lc = Active then Some rid else None) (\<lambda>i. refresh_in_store v (projection_effect_of q mid i)) s4) (\<lambda>(j4, s5).
     seal_mutation v
       \<lparr>sq_idempotency_key = co_idempotency_key q, sq_request_hash = co_request_hash q,
        sq_who = claim_principal_id (co_actor q), sq_scope = cand_scope (co_candidate q),
        sq_requested_at = now, sq_outcome = co_outcome q,
        sq_candidate_id = candidate_id (co_candidate q), sq_memory_id = mid,
        sq_current_revision_id = rid, sq_conflict_group_id = None, sq_lifecycle = lc,
        sq_decision = Some (co_decision q), sq_previous_revision_id = old,
        sq_projection_jobs = j1 @ j2 @ j3 @ j4, sq_warnings = [], sq_advance_epoch = True\<rparr> s5))))))"

end
