(* ===== verification/GovernanceRepository.thy ===== *)
theory GovernanceRepository
  imports GovernanceStore
begin

text \<open>
  The commands of \<open>GovernanceRepository\<close>: \<open>admitMemory\<close>, \<open>applyMemoryRevision\<close>, the correction
  basis and preview, and the canonical effect of a learning release. A command is the value its
  schema returns (trimmed strings, defaults filled in). The tables of the learning store that a
  release reads are two maps. SQLite's choice among several matching rows of a query without
  \<open>ORDER BY\<close> is the argument \<open>pick\<close>.
\<close>

subsection \<open>Commands\<close>

record evaluation =
  evl_decision :: admission
  evl_reason :: ustring

record admit_command =
  ac_envelope :: envelope
  ac_idempotency_key :: ustring
  ac_candidate :: memory_candidate
  ac_evaluation :: evaluation

definition evaluation_ok :: "evaluation \<Rightarrow> bool" where
  "evaluation_ok e \<longleftrightarrow> evl_decision e \<noteq> Reject
     \<and> 1 \<le> length (utf16 (js_trim (evl_reason e))) \<and> length (utf16 (js_trim (evl_reason e))) \<le> 2000"

definition admit_command_ok :: "admit_command \<Rightarrow> bool" where
  "admit_command_ok c \<longleftrightarrow>
     request_ok (Proposal_request (ac_envelope c) (ac_idempotency_key c))
     \<and> tool (ac_envelope c) = Memory_propose \<and> memory_candidate_ok (ac_candidate c)
     \<and> list_ex (\<lambda>x. scope_key x = scope_key (cand_scope (ac_candidate c))) (scopes (ac_envelope c))
     \<and> cand_sensitivity (ac_candidate c) \<noteq> Secret \<and> evaluation_ok (ac_evaluation c)"

definition propose_json :: "admit_command \<Rightarrow> jval" where
  "propose_json c = (let e = ac_envelope c in jobj
     [(''envelope'', jobj
        [(''schema_version'', jstr ''1.0.0''), (''request_id'', jstr (request_id e)),
         (''tool'', jstr (tool_string (tool e))), (''actor_claim'', actor_json (actor_claim e)),
         (''scopes'', J_arr (map kind_id_json (scopes e))), (''purpose'', J_str (purpose e)),
         (''reason'', J_str (reason e)), (''requested_at'', jstr (iso (requested_at e))),
         (''safety_class'', jstr ''proposal''), (''idempotency_key'', J_str (ac_idempotency_key c))]),
      (''candidate'', candidate_json (ac_candidate c))])"

record verified_approval =
  va_grant :: approval_grant
  va_registry_hash :: string
  va_verified_at :: timestamp

record revision_command =
  rc_idempotency_key :: ustring
  rc_actor :: actor_claim
  rc_scope :: scope
  rc_requested_at :: timestamp
  rc_memory_id :: string
  rc_expected_revision_id :: string
  rc_candidate :: memory_candidate
  rc_evaluation :: evaluation
  rc_dry_run :: bool
  rc_request_hash :: "string option"
  rc_approval_binding :: "approval_binding option"
  rc_approval :: "verified_approval option"
  rc_correction_evidence :: "evidence_record option"
  rc_expected_impact :: "impact_seal option"

definition revision_command_ok :: "(jval \<Rightarrow> string) \<Rightarrow> revision_command \<Rightarrow> bool" where
  "revision_command_ok sha c \<longleftrightarrow>
     idempotency_key_ok (rc_idempotency_key c) \<and> actor_claim_ok (rc_actor c) \<and> scope_ok (rc_scope c)
     \<and> identifier_ok (rc_memory_id c) \<and> identifier_ok (rc_expected_revision_id c)
     \<and> memory_candidate_ok (rc_candidate c) \<and> evaluation_ok (rc_evaluation c)
     \<and> (case rc_request_hash c of None \<Rightarrow> True | Some h \<Rightarrow> canonical_hash_ok h)
     \<and> (case rc_approval_binding c of None \<Rightarrow> True | Some b \<Rightarrow> approval_binding_ok b)
     \<and> (case rc_approval c of None \<Rightarrow> True
          | Some a \<Rightarrow> approval_grant_ok sha (va_grant a) \<and> canonical_hash_ok (va_registry_hash a))
     \<and> (case rc_correction_evidence c of None \<Rightarrow> True | Some e \<Rightarrow> evidence_record_ok e)
     \<and> rc_scope c = cand_scope (rc_candidate c)
     \<and> (rc_request_hash c = None) = (rc_approval_binding c = None)
     \<and> (rc_request_hash c = None) = (rc_approval c = None)
     \<and> (rc_dry_run c \<longrightarrow> rc_request_hash c = None \<and> rc_approval_binding c = None \<and> rc_approval c = None)
     \<and> (rc_dry_run c \<longrightarrow> rc_correction_evidence c = None \<and> rc_expected_impact c = None)
     \<and> (rc_correction_evidence c = None) = (rc_expected_impact c = None)"

text \<open>The command without \<open>evaluation\<close>, \<open>request_hash\<close>, \<open>approval_binding\<close> and \<open>approval\<close>.\<close>

definition revision_json :: "revision_command \<Rightarrow> jval" where
  "revision_json c = jobj
     ([(''idempotency_key'', J_str (rc_idempotency_key c)),
       (''principal_id'', jstr (claim_principal_id (rc_actor c))),
       (''actor_authority'', jstr (authority_string (claim_authority (rc_actor c)))),
       (''scope'', kind_id_json (rc_scope c)), (''requested_at'', jstr (iso (rc_requested_at c))),
       (''memory_id'', jstr (rc_memory_id c)),
       (''expected_revision_id'', jstr (rc_expected_revision_id c)),
       (''candidate'', candidate_json (rc_candidate c)), (''dry_run'', J_bool (rc_dry_run c))]
      @ (case rc_correction_evidence c of None \<Rightarrow> [] | Some e \<Rightarrow> [(''correction_evidence'', evidence_json e)])
      @ (case rc_expected_impact c of None \<Rightarrow> [] | Some i \<Rightarrow> [(''expected_projection_impact'', seal_json i)]))"

definition revision_request_hash :: "'g governance_env \<Rightarrow> revision_command \<Rightarrow> string" where
  "revision_request_hash v c = (case rc_request_hash c of Some h \<Rightarrow> h | None \<Rightarrow> env_sha v (revision_json c))"

subsection \<open>Reading\<close>

definition read_revision :: "'g store \<Rightarrow> string \<Rightarrow> storage_error + revision_row" where
  "read_revision s i = (case List.find (\<lambda>r. revision_id r = i) (st_revisions s) of
     None \<Rightarrow> Inl Corruption | Some r \<Rightarrow> Inr r)"

definition read_admission :: "'g store \<Rightarrow> string \<Rightarrow> storage_error + admission" where
  "read_admission s i =
     (case sort_key (\<lambda>a. iso (decided_at a)) (sort_key decision_id
        (filter (\<lambda>a. dec_revision_id a = i) (st_admissions s))) of
       [] \<Rightarrow> Inl Corruption | a # as \<Rightarrow> Inr (dec_decision a))"

definition find_object :: "'g store \<Rightarrow> string \<Rightarrow> object_row option" where
  "find_object s i = List.find (\<lambda>m. memory_id m = i) (st_objects s)"

definition open_groups :: "'g store \<Rightarrow> string \<Rightarrow> scope \<Rightarrow> string \<Rightarrow> group_row list" where
  "open_groups s who sc h = filter (\<lambda>g. gr_principal g = who \<and> gr_scope g = sc
     \<and> gr_logical_key_hash g = h \<and> gr_open g) (st_groups s)"

definition plain_seal ::
  "ustring \<Rightarrow> string \<Rightarrow> string \<Rightarrow> scope \<Rightarrow> timestamp \<Rightarrow> mutation_outcome \<Rightarrow> string \<Rightarrow> string \<Rightarrow> string
     \<Rightarrow> lifecycle \<Rightarrow> admission option \<Rightarrow> seal_options" where
  "plain_seal key h who sc now outcome cid mid rid lc d =
     \<lparr>sq_idempotency_key = key, sq_request_hash = h, sq_who = who, sq_scope = sc,
      sq_requested_at = now, sq_outcome = outcome, sq_candidate_id = cid, sq_memory_id = mid,
      sq_current_revision_id = rid, sq_conflict_group_id = None, sq_lifecycle = lc,
      sq_decision = d, sq_previous_revision_id = None, sq_projection_jobs = [], sq_warnings = [],
      sq_advance_epoch = True\<rparr>"

subsection \<open>Conflicts\<close>

record conflict_options =
  xo_idempotency_key :: ustring
  xo_request_hash :: string
  xo_who :: string
  xo_requested_at :: timestamp
  xo_candidate_id :: string
  xo_memory :: object_row
  xo_current :: revision_row
  xo_logical_hash :: string
  xo_scope :: scope

definition current_candidate :: "'g store \<Rightarrow> string \<Rightarrow> string \<Rightarrow> string option" where
  "current_candidate s mid rid =
     (case sort_key (\<lambda>l. iso (lk_linked_at l)) (sort_key lk_candidate_id
        (filter (\<lambda>l. lk_memory_id l = mid \<and> lk_revision_id l = Some rid) (st_links s))) of
       [] \<Rightarrow> None | l # ls \<Rightarrow> Some (lk_candidate_id l))"

definition insert_member :: "string \<Rightarrow> string \<Rightarrow> 'g store \<Rightarrow> 'g store" where
  "insert_member g c s = (if (g, c) \<in> set (st_members s) then s
     else s\<lparr>st_members := st_members s @ [(g, c)]\<rparr>)"

definition conflict_group_for ::
  "'g governance_env \<Rightarrow> conflict_options \<Rightarrow> 'g store \<Rightarrow> storage_error + (string \<times> 'g store)" where
  "conflict_group_for v q s =
     (case sort_key (\<lambda>g. iso (gr_created_at g)) (sort_key gr_conflict_group_id
        (open_groups s (xo_who q) (xo_scope q) (xo_logical_hash q))) of
       g # gs \<Rightarrow> Inr (gr_conflict_group_id g, s)
     | [] \<Rightarrow> (let i = storage_identifier v ''conflict''
              [(''memory_id'', jstr (memory_id (xo_memory q))),
               (''current_revision_id'', jstr (revision_id (xo_current q))),
               (''candidate_id'', jstr (xo_candidate_id q))] in
            bindE (insert_row gr_conflict_group_id
              \<lparr>gr_conflict_group_id = i, gr_logical_key_hash = xo_logical_hash q,
               gr_principal = xo_who q, gr_scope = xo_scope q, gr_open = True,
               gr_created_at = xo_requested_at q\<rparr> (st_groups s)) (\<lambda>rows.
            Inr (i, s\<lparr>st_groups := rows\<rparr>))))"

definition open_conflict ::
  "'g governance_env \<Rightarrow> conflict_options \<Rightarrow> 'g store \<Rightarrow> storage_error + (mutation_result \<times> 'g store)" where
  "open_conflict v q s =
     (let m = xo_memory q; r = xo_current q; now = xo_requested_at q in
      case current_candidate s (memory_id m) (revision_id r) of None \<Rightarrow> Inl Corruption | Some cc \<Rightarrow>
      bindE (conflict_group_for v q s) (\<lambda>(g, s1).
      let s2 = insert_member g (xo_candidate_id q) (insert_member g cc s1) in
      bindE (link_candidate (xo_candidate_id q) (memory_id m) None now s2) (\<lambda>s3.
      bindE (insert_outbox v ''fts_memory_invalidate'' (memory_id m) now s3) (\<lambda>(j1, s4).
      bindE (suppress_in_store v
        \<lparr>fx_cause_id = xo_idempotency_key q, fx_memory_id = memory_id m,
         fx_revision_id = revision_id r, fx_principal = xo_who q, fx_scope = xo_scope q,
         fx_occurred_at = now\<rparr> s4) (\<lambda>(j2, s5).
      seal_mutation v
        ((plain_seal (xo_idempotency_key q) (xo_request_hash q) (xo_who q) (xo_scope q) now Conflict
            (xo_candidate_id q) (memory_id m) (revision_id r) (mem_lifecycle m) None)
           \<lparr>sq_conflict_group_id := Some g, sq_projection_jobs := [j1, j2],
            sq_warnings := [''OPEN_CONFLICT'']\<rparr>) s5)))))"

subsection \<open>Admitting a memory\<close>

definition admit_effect ::
  "'g governance_env \<Rightarrow> admit_command \<Rightarrow> string \<Rightarrow> 'g store \<Rightarrow> storage_error + (mutation_result \<times> 'g store)" where
  "admit_effect v cmd h s =
     (let e = ac_envelope cmd; c = ac_candidate cmd; actor = actor_claim e;
          who = claim_principal_id actor; now = requested_at e; d = evl_decision (ac_evaluation cmd);
          key = ac_idempotency_key cmd; lh = key_hash v (logical_key c) in
     case read_mutation s key of
       Some m \<Rightarrow> bindE (parse_existing_result v m h) (\<lambda>r. Inr (r, s))
     | None \<Rightarrow>
     bindE (validate_candidate v s c who d) (\<lambda>es.
     bindE (insert_candidate v c who es s) (\<lambda>s1.
     case List.find (\<lambda>m. object_key m = (who, cand_scope c, cand_kind c, lh)) (st_objects s1) of
       None \<Rightarrow> create_memory v
         \<lparr>co_idempotency_key = key, co_request_hash = h, co_actor = actor, co_requested_at = now,
          co_candidate = c, co_evidence = es, co_logical_hash = lh, co_decision = d,
          co_reason = evl_reason (ac_evaluation cmd), co_outcome = Created, co_supersedes = None,
          co_revision_number = 1, co_existing = None\<rparr> s1
     | Some m \<Rightarrow>
         (case current_revision_id m of None \<Rightarrow> Inl Corruption | Some rid \<Rightarrow>
         bindE (read_revision s1 rid) (\<lambda>r.
         if rev_content_hash r = cand_content_hash c then
           bindE (link_candidate (candidate_id c) (memory_id m) (Some (revision_id r)) now s1) (\<lambda>s2.
           bindE (read_admission s2 (revision_id r)) (\<lambda>rd.
           seal_mutation v (plain_seal key h who (cand_scope c) now Reused (candidate_id c)
             (memory_id m) (revision_id r) (mem_lifecycle m) (Some rd)) s2))
         else open_conflict v
           \<lparr>xo_idempotency_key = key, xo_request_hash = h, xo_who = who, xo_requested_at = now,
            xo_candidate_id = candidate_id c, xo_memory = m, xo_current = r, xo_logical_hash = lh,
            xo_scope = cand_scope c\<rparr> s1)))))"

definition admit_memory ::
  "'g governance_env \<Rightarrow> admit_command \<Rightarrow> 'g store \<Rightarrow> (storage_error + mutation_result) \<times> 'g store" where
  "admit_memory v cmd s =
     (let h = env_sha v (propose_json cmd) in
      case read_mutation s (ac_idempotency_key cmd) of
        Some m \<Rightarrow> (parse_existing_result v m h, s)
      | None \<Rightarrow> governed_write (admit_effect v cmd h) s)"

subsection \<open>Revising a memory\<close>

definition validate_revision_approval ::
  "'g governance_env \<Rightarrow> revision_command \<Rightarrow> string \<Rightarrow> 'g store \<Rightarrow> storage_error + unit" where
  "validate_revision_approval v c h s =
     (case (rc_approval c, rc_approval_binding c) of
        (Some a, Some b) \<Rightarrow>
          if rc_request_hash c \<noteq> Some h \<or> bind_request_hash b \<noteq> h
             \<or> bind_principal_id b \<noteq> claim_principal_id (rc_actor c)
             \<or> bind_tool b \<noteq> Memory_correct
             \<or> \<not> list_ex (\<lambda>x. scope_key x = scope_key (rc_scope c)) (bind_scopes b)
          then Inl Approval_invalid
          else (case approval_grant_matches (env_sha v) b (va_grant a) (va_verified_at a) of
              None \<Rightarrow> Inl Schema_invalid
            | Some ok \<Rightarrow>
                if \<not> ok \<or> grant_approval_id (va_grant a) \<in> cn_approval_id ` set (st_consumptions s)
                then Inl Approval_invalid else Inr ())
      | (x, y) \<Rightarrow> if x = None \<and> y = None \<and> rc_request_hash c = None then Inr ()
          else Inl Approval_invalid)"

definition revalidate_impact ::
  "'g governance_env \<Rightarrow> revision_command \<Rightarrow> 'g store \<Rightarrow> storage_error + unit" where
  "revalidate_impact v c s = (case rc_expected_impact c of None \<Rightarrow> Inr () | Some i \<Rightarrow>
     bindE (enumerate_projection_descendants (env_sha v) (st_projections s) (rc_expected_revision_id c)
       (claim_principal_id (rc_actor c)) (rc_scope c) (is_supported_limit i)) (\<lambda>(rows, seal).
     guardE (seal = i) Stale_projection_frontier))"

definition insert_correction_evidence ::
  "'g governance_env \<Rightarrow> revision_command \<Rightarrow> 'g store \<Rightarrow> storage_error + 'g store" where
  "insert_correction_evidence v c s = (case rc_correction_evidence c of None \<Rightarrow> Inr s | Some e \<Rightarrow>
     if ev_source e \<noteq> Src_user_feedback \<or> \<not> is_inline (payload e) \<or> ev_actor e \<noteq> rc_actor c
        \<or> ev_authority e \<noteq> claim_authority (rc_actor c) \<or> ev_scope e \<noteq> rc_scope c
        \<or> ev_sensitivity e \<noteq> cand_sensitivity (rc_candidate c)
        \<or> payload_hash e \<noteq> env_sha v (content_json (payload e))
        \<or> evidence_id e \<notin> set (cand_evidence_ids (rc_candidate c))
        \<or> evidence_id e \<in> evidence_id ` set (st_evidence s)
     then Inl Invalid_input
     else Inr (s\<lparr>st_evidence := st_evidence s @ [evidence_record.extend e \<lparr>evr_purged_at = None\<rparr>]\<rparr>))"

definition consume_revision_approval ::
  "revision_command \<Rightarrow> string \<Rightarrow> mutation_result \<Rightarrow> 'g store \<Rightarrow> storage_error + 'g store" where
  "consume_revision_approval c h r s = (case (rc_approval c, rc_approval_binding c) of
       (None, None) \<Rightarrow> Inr s
     | (Some a, Some b) \<Rightarrow>
         (let row = \<lparr>cn_approval_id = grant_approval_id (va_grant a),
              cn_idempotency_key = rc_idempotency_key c, cn_request_hash = h,
              cn_manifest_hash = grant_manifest_hash (va_grant a),
              cn_principal = claim_principal_id (rc_actor c), cn_tool = bind_tool b,
              cn_scopes = sort_key (\<lambda>x. locale_key (scope_key x)) (bind_scopes b),
              cn_consumed_at = va_verified_at a, cn_receipt_id = mx_receipt_id (mu_receipt r)\<rparr> in
          if cn_approval_id row \<in> cn_approval_id ` set (st_consumptions s)
             \<or> cn_idempotency_key row \<in> cn_idempotency_key ` set (st_consumptions s)
             \<or> cn_receipt_id row \<in> cn_receipt_id ` set (st_consumptions s)
          then Inl Approval_invalid
          else Inr (s\<lparr>st_consumptions := st_consumptions s @ [row]\<rparr>))
     | _ \<Rightarrow> Inl Approval_invalid)"

definition sealed_with_approval ::
  "revision_command \<Rightarrow> string \<Rightarrow> mutation_result \<times> 'g store \<Rightarrow> storage_error + (mutation_result \<times> 'g store)" where
  "sealed_with_approval c h = (\<lambda>(r, s).
     bindE (consume_revision_approval c h r s) (\<lambda>s'. Inr (r, s')))"

definition revisable_object ::
  "'g governance_env \<Rightarrow> revision_command \<Rightarrow> 'g store \<Rightarrow> storage_error + object_row" where
  "revisable_object v c s = (case find_object s (rc_memory_id c) of None \<Rightarrow> Inl Invalid_input | Some m \<Rightarrow>
     bindE (guardE (\<not> (obr_principal m \<noteq> claim_principal_id (rc_actor c) \<or> mem_scope m \<noteq> rc_scope c
       \<or> mem_kind m \<noteq> cand_kind (rc_candidate c)
       \<or> key_hash v (logical_key (rc_candidate c)) \<noteq> obr_logical_key_hash m)) Invalid_input) (\<lambda>_.
     bindE (guardE (current_revision_id m = Some (rc_expected_revision_id c)) Stale_revision) (\<lambda>_.
     bindE (guardE (open_groups s (claim_principal_id (rc_actor c)) (rc_scope c)
       (key_hash v (logical_key (rc_candidate c))) = []) Conflict_with_state) (\<lambda>_. Inr m))))"

definition revision_effect ::
  "'g governance_env \<Rightarrow> revision_command \<Rightarrow> string \<Rightarrow> 'g store \<Rightarrow> storage_error + (mutation_result \<times> 'g store)" where
  "revision_effect v c h s =
     (let who = claim_principal_id (rc_actor c); cand = rc_candidate c; now = rc_requested_at c;
          d = evl_decision (rc_evaluation c); key = rc_idempotency_key c in
     case read_mutation s key of
       Some m \<Rightarrow> bindE (parse_existing_result v m h) (\<lambda>r. Inr (r, s))
     | None \<Rightarrow>
     bindE (validate_revision_approval v c h s) (\<lambda>_.
     bindE (revisable_object v c s) (\<lambda>m.
     bindE (revalidate_impact v c s) (\<lambda>_.
     bindE (insert_correction_evidence v c s) (\<lambda>s1.
     bindE (validate_candidate v s1 cand who d) (\<lambda>es.
     bindE (read_revision s1 (rc_expected_revision_id c)) (\<lambda>r.
     if rc_dry_run c then
       seal_mutation v ((plain_seal key h who (rc_scope c) now Dry_run (candidate_id cand)
         (rc_memory_id c) (revision_id r) (mem_lifecycle m) (Some d))
         \<lparr>sq_warnings := [''DRY_RUN''], sq_advance_epoch := False\<rparr>) s1
     else
     bindE (insert_candidate v cand who es s1) (\<lambda>s2.
     if rev_content_hash r = cand_content_hash cand then
       bindE (link_candidate (candidate_id cand) (rc_memory_id c) (Some (revision_id r)) now s2) (\<lambda>s3.
       bindE (read_admission s3 (revision_id r)) (\<lambda>rd.
       bindE (seal_mutation v (plain_seal key h who (rc_scope c) now Reused (candidate_id cand)
         (rc_memory_id c) (revision_id r) (mem_lifecycle m) (Some rd)) s3) (sealed_with_approval c h)))
     else
       bindE (create_memory v
         \<lparr>co_idempotency_key = key, co_request_hash = h, co_actor = rc_actor c, co_requested_at = now,
          co_candidate = cand, co_evidence = es, co_logical_hash = key_hash v (logical_key cand),
          co_decision = d, co_reason = evl_reason (rc_evaluation c), co_outcome = Revised,
          co_supersedes = Some r, co_revision_number = revision_no r + 1, co_existing = Some m\<rparr> s2)
         (sealed_with_approval c h)))))))))"

definition apply_memory_revision ::
  "'g governance_env \<Rightarrow> revision_command \<Rightarrow> 'g store \<Rightarrow> (storage_error + mutation_result) \<times> 'g store" where
  "apply_memory_revision v c s =
     (let h = revision_request_hash v c in
      case read_mutation s (rc_idempotency_key c) of
        Some m \<Rightarrow> (parse_existing_result v m h, s)
      | None \<Rightarrow> governed_write (revision_effect v c h) s)"

subsection \<open>Correcting a memory: basis and preview\<close>

record correction_basis =
  cb_current_revision_id :: string
  cb_logical_key :: ustring
  cb_kind :: memory_kind
  cb_scope :: scope
  cb_sensitivity :: sensitivity
  cb_inferred :: bool
  cb_injection_risk :: injection_risk
  cb_requires_user_confirmation :: bool
  cb_transform :: transform_ref

definition correction_basis_rows ::
  "'g store \<Rightarrow> string \<Rightarrow> string \<Rightarrow> scope \<Rightarrow> string \<Rightarrow> correction_basis list" where
  "correction_basis_rows s mid who sc rid =
     concat (map (\<lambda>m. concat (map (\<lambda>r. concat (map (\<lambda>l. concat (map (\<lambda>c.
       [\<lparr>cb_current_revision_id = rid, cb_logical_key = logical_key c, cb_kind = mem_kind m,
         cb_scope = mem_scope m, cb_sensitivity = rev_sensitivity r, cb_inferred = rev_inferred r,
         cb_injection_risk = cand_injection_risk c,
         cb_requires_user_confirmation = requires_user_confirmation c,
         cb_transform = rev_transform r\<rparr>])
       (filter (\<lambda>c. candidate_id c = lk_candidate_id l) (st_candidates s))))
       (filter (\<lambda>l. lk_memory_id l = mid \<and> lk_revision_id l = Some rid) (st_links s))))
       (filter (\<lambda>r. revision_id r = rid) (st_revisions s))))
       (filter (\<lambda>m. memory_id m = mid \<and> obr_principal m = who \<and> mem_scope m = sc
          \<and> current_revision_id m = Some rid) (st_objects s)))"

definition correction_basis_ok :: "correction_basis \<Rightarrow> bool" where
  "correction_basis_ok b \<longleftrightarrow> identifier_ok (cb_current_revision_id b) \<and> scope_ok (cb_scope b)
     \<and> 1 \<le> length (utf16 (js_trim (cb_logical_key b))) \<and> length (utf16 (js_trim (cb_logical_key b))) \<le> 500
     \<and> 1 \<le> length (js_trim (code_points (transform_name (cb_transform b))))
     \<and> length (js_trim (code_points (transform_name (cb_transform b)))) \<le> 120"

definition correction_basis_of ::
  "(correction_basis list \<Rightarrow> correction_basis) \<Rightarrow> 'g store \<Rightarrow> string \<Rightarrow> string \<Rightarrow> scope \<Rightarrow> string
     \<Rightarrow> storage_error + correction_basis option" where
  "correction_basis_of pick s mid who sc rid =
     (case correction_basis_rows s mid who sc rid of
        [] \<Rightarrow> Inr None
      | b # bs \<Rightarrow> bindE (guardE (correction_basis_ok (pick (b # bs))) Schema_invalid)
          (\<lambda>_. Inr (Some (pick (b # bs)))))"

definition preview_workbench_correction ::
  "(correction_basis list \<Rightarrow> correction_basis) \<Rightarrow> 'g governance_env \<Rightarrow> 'g store \<Rightarrow> string \<Rightarrow> string
     \<Rightarrow> scope \<Rightarrow> string \<Rightarrow> nat \<Rightarrow> nat \<Rightarrow> storage_error + (correction_basis \<times> correction_impact)" where
  "preview_workbench_correction pick v s mid who sc rid impact_limit sample_limit =
     bindE (correction_basis_of pick s mid who sc rid) (\<lambda>basis.
     case basis of None \<Rightarrow> Inl Stale_revision | Some b \<Rightarrow>
     bindE (enumerate_projection_descendants (env_sha v) (st_projections s) rid who sc impact_limit) (\<lambda>closure.
     bindE (correction_impact_from_closure closure sample_limit) (\<lambda>i. Inr (b, i))))"

subsection \<open>Counting references to a content hash\<close>

record content_reference_counts =
  crc_content_hash :: string
  crc_evidence_events :: nat
  crc_memory_candidates :: nat
  crc_memory_revisions :: nat
  crc_live_revision_links :: nat
  crc_artifacts :: nat
  crc_total :: nat

definition content_reference_counts_of :: "'g store \<Rightarrow> string \<Rightarrow> content_reference_counts" where
  "content_reference_counts_of s h =
     (let ev = length (filter (\<lambda>e. payload_hash e = h) (st_evidence s));
          ca = length (filter (\<lambda>c. cand_content_hash c = h) (st_candidates s));
          re = length (filter (\<lambda>r. rev_content_hash r = h) (st_revisions s));
          ar = length (filter (\<lambda>a. a = h) (st_artifacts s));
          live = length (js_set (map revision_id (filter (\<lambda>r. rev_lifecycle r = Active
            \<and> list_ex (\<lambda>e. payload_hash e = h \<and> evidence_id e \<in> set (rev_evidence_ids r)) (st_evidence s)
            \<and> list_ex (\<lambda>m. memory_id m = rev_memory_id r \<and> mem_lifecycle m = Active) (st_objects s))
            (st_revisions s)))) in
      \<lparr>crc_content_hash = h, crc_evidence_events = ev, crc_memory_candidates = ca,
       crc_memory_revisions = re, crc_live_revision_links = live, crc_artifacts = ar,
       crc_total = ev + ca + re + ar\<rparr>)"

subsection \<open>The canonical effect of a learning release\<close>

record learning_target =
  lt_procedure :: bool
  lt_memory_id :: string
  lt_revision_id :: string
  lt_content_hash :: string

text \<open>The two learning tables a release reads: the candidate of a release, and the target columns
  of a candidate, which a candidate of another kind leaves empty.\<close>

record learning_tables =
  ltb_release_candidate :: "string \<rightharpoonup> string"
  ltb_candidate_target :: "string \<rightharpoonup> learning_target"

record learning_effect =
  le_rollback :: bool
  le_release_id :: string
  le_current_release_id :: "string option"
  le_restored_release_id :: "string option"
  le_candidate_id :: string
  le_principal :: string
  le_scopes :: "scope list"
  le_activated_at :: timestamp
  le_target :: learning_target

record learning_effect_result =
  lr_memory_id :: string
  lr_previous_revision_id :: string
  lr_current_revision_id :: string
  lr_lifecycle :: lifecycle
  lr_projection_jobs :: "string list"

definition candidate_for_release :: "learning_tables \<Rightarrow> string \<Rightarrow> storage_error + string" where
  "candidate_for_release t r = (case ltb_release_candidate t r of None \<Rightarrow> Inl Invalid_input | Some c \<Rightarrow> Inr c)"

definition target_for_candidate :: "learning_tables \<Rightarrow> string \<Rightarrow> storage_error + learning_target" where
  "target_for_candidate t c = (case ltb_candidate_target t c of None \<Rightarrow> Inl Invalid_input | Some x \<Rightarrow> Inr x)"

definition learning_revision_id :: "'g governance_env \<Rightarrow> string \<Rightarrow> string \<Rightarrow> string \<Rightarrow> string" where
  "learning_revision_id v release mid src = storage_identifier v ''learning-revision''
     [(''release_id'', jstr release), (''memory_id'', jstr mid), (''source_revision_id'', jstr src)]"

definition learning_desired ::
  "learning_tables \<Rightarrow> learning_effect \<Rightarrow> storage_error + (learning_target \<times> learning_target)" where
  "learning_desired t q =
     bindE (target_for_candidate t (le_candidate_id q)) (\<lambda>current.
     bindE (guardE (current = le_target q) Invalid_input) (\<lambda>_.
     bindE (case (le_rollback q, le_restored_release_id q) of
         (True, Some r) \<Rightarrow> bindE (candidate_for_release t r) (target_for_candidate t)
       | _ \<Rightarrow> Inr current) (\<lambda>desired.
     bindE (guardE (lt_memory_id desired = lt_memory_id current) Invalid_input) (\<lambda>_.
     Inr (current, desired)))))"

definition learning_source ::
  "learning_effect \<Rightarrow> learning_target \<Rightarrow> 'g store \<Rightarrow> storage_error + (revision_row \<times> object_row)" where
  "learning_source q desired s =
     (case (List.find (\<lambda>r. rev_memory_id r = lt_memory_id desired \<and> revision_id r = lt_revision_id desired)
              (st_revisions s), find_object s (lt_memory_id desired)) of
        (Some r, Some m) \<Rightarrow>
          if obr_principal m \<noteq> le_principal q
             \<or> scope_key (rev_scope r) \<notin> set (map scope_key (le_scopes q))
             \<or> rev_content_hash r \<noteq> lt_content_hash desired \<or> rev_content r = None
             \<or> rev_lifecycle r \<in> {Revoked, Purged} \<or> mem_lifecycle m \<in> {Revoked, Purged}
             \<or> lt_procedure desired \<and> rev_kind r \<noteq> Procedural
             \<or> \<not> lt_procedure desired \<and> rev_kind r = Procedural
          then Inl Invalid_input else Inr (r, m)
      | _ \<Rightarrow> Inl Invalid_input)"

definition learning_expected ::
  "'g governance_env \<Rightarrow> learning_tables \<Rightarrow> learning_effect \<Rightarrow> learning_target \<Rightarrow> storage_error + string" where
  "learning_expected v t q current =
     (if \<not> le_rollback q then Inr (lt_revision_id current) else
      case le_current_release_id q of None \<Rightarrow> Inl Invalid_input | Some r \<Rightarrow>
      bindE (bindE (candidate_for_release t r) (target_for_candidate t)) (\<lambda>active.
      bindE (guardE (lt_memory_id active = lt_memory_id current) Invalid_input) (\<lambda>_.
      Inr (learning_revision_id v r (lt_memory_id active) (lt_revision_id active)))))"

definition learning_lifecycle :: "learning_effect \<Rightarrow> lifecycle \<Rightarrow> lifecycle" where
  "learning_lifecycle q lc =
     (if \<not> le_rollback q \<or> le_restored_release_id q \<noteq> None then Active
      else if lc = Quarantined then Quarantined else if lc = Candidate then Candidate else Active)"

definition learning_admission :: "lifecycle \<Rightarrow> admission" where
  "learning_admission lc = (if lc = Active then Activate else if lc = Candidate then Candidate_only
     else Quarantine)"

definition write_learning_revision ::
  "'g governance_env \<Rightarrow> learning_effect \<Rightarrow> revision_row \<Rightarrow> string \<Rightarrow> 'g store \<Rightarrow> storage_error + 'g store" where
  "write_learning_revision v q src old s =
     (let mid = rev_memory_id src; now = le_activated_at q; lc = learning_lifecycle q (rev_lifecycle src);
          rid = learning_revision_id v (le_release_id q) mid (revision_id src);
          n = Max (set (map revision_no (filter (\<lambda>r. rev_memory_id r = mid) (st_revisions s)))) + 1;
          actor = \<lparr>claim_principal_id = le_principal q, claim_authority = rev_authority src\<rparr> in
     bindE (insert_revision_row (src\<lparr>revision_id := rid, revision_no := n, abstraction := L1_memory,
        rev_lifecycle := lc, derived_from := [], supersedes := Some old, rvr_created_at := now\<rparr>) s) (\<lambda>s1.
     bindE (move_current mid old rid lc now s1) (\<lambda>s2.
     bindE (insert_admission v mid rid (le_candidate_id q) actor now (learning_admission lc)
        (code_points (if le_rollback q
           then ''Governed learning rollback restored canonical behavior.''
           else ''Governed learning release activated a canonical successor.'')) True s2) (\<lambda>s3.
     bindE (insert_status v mid old Act_suppress Superseded actor
        (code_points ''A governed learning release superseded this revision.'') now s3) (\<lambda>s4.
     if lc \<noteq> Quarantined then insert_status v mid rid (if lc = Active then Act_activate else Act_demote)
        lc actor (code_points (if le_rollback q then ''Governed learning rollback.''
           else ''Governed learning release.'')) now s4
     else Inr s4)))))"

definition apply_learning_release_effect ::
  "'g governance_env \<Rightarrow> learning_tables \<Rightarrow> learning_effect \<Rightarrow> 'g store
     \<Rightarrow> storage_error + (learning_effect_result \<times> 'g store)" where
  "apply_learning_release_effect v t q s =
     bindE (learning_desired t q) (\<lambda>(current, desired).
     bindE (learning_source q desired s) (\<lambda>(src, m).
     bindE (learning_expected v t q current) (\<lambda>old.
     bindE (guardE (current_revision_id m = Some old) Stale_revision) (\<lambda>_.
     let mid = rev_memory_id src; now = le_activated_at q; lc = learning_lifecycle q (rev_lifecycle src);
         rid = learning_revision_id v (le_release_id q) mid (revision_id src);
         fx = \<lparr>fx_cause_id = code_points (le_release_id q), fx_memory_id = mid, fx_revision_id = old,
               fx_principal = le_principal q, fx_scope = rev_scope src, fx_occurred_at = now\<rparr> in
     bindE (write_learning_revision v q src old s) (\<lambda>s1.
     bindE (insert_outbox v ''fts_memory_delete'' old now s1) (\<lambda>(j1, s2).
     bindE (optional_job (if lc = Active then Some rid else None) (\<lambda>i. insert_outbox v ''fts_memory_upsert'' i now) s2) (\<lambda>(j2, s3).
     bindE (suppress_in_store v fx s3) (\<lambda>(j3, s4).
     bindE (optional_job (if lc = Active then Some rid else None) (\<lambda>i. refresh_in_store v (fx\<lparr>fx_revision_id := i\<rparr>)) s4) (\<lambda>(j4, s5).
     Inr (\<lparr>lr_memory_id = mid, lr_previous_revision_id = old, lr_current_revision_id = rid,
           lr_lifecycle = lc, lr_projection_jobs = [j1] @ j2 @ [j3] @ j4\<rparr>, s5))))))))))"

end
