(* ===== verification/GovernanceLaws.thy ===== *)
theory GovernanceLaws
  imports GovernanceRepository "HOL-Library.Sublist"
begin

text \<open>
  What each operation of the governance repository does to the tables: the operations that only
  append jobs, the row a receipt leaves, the rows of a new revision, and the summary of each command
  that the properties of \<open>GovernanceProperties\<close> rest on. A conclusion names the new store by record
  update, so that the untouched tables need no lemma of their own.
\<close>

named_theorems store_run \<open>inverting a run over the store\<close>

lemmas run_inv = bindE_Inr_iff insert_row_Inr guardE_iff

lemma bindE_InrE:
  assumes "bindE m f = Inr y" obtains x where "m = Inr x" "f x = Inr y"
  using assms by (auto simp: bindE_Inr_iff)

lemma bindE_InrE2:
  assumes "bindE m (\<lambda>(a, b). f a b) = Inr y" obtains a b where "m = Inr (a, b)" "f a b = Inr y"
  using assms by (auto simp: bindE_Inr_iff)

subsection \<open>Operations that only append jobs\<close>

definition jobs_only :: "'g store \<Rightarrow> 'g store \<Rightarrow> bool" where
  "jobs_only s s' \<longleftrightarrow> (\<exists>ob f ps. s' = s\<lparr>st_outbox := st_outbox s @ ob, st_fts_pending_since := f,
     st_projections := ps\<rparr>)"

lemma jobs_only_refl [intro]: "jobs_only s s"
  unfolding jobs_only_def
  by (rule exI [of _ "[]"], rule exI [of _ "st_fts_pending_since s"], rule exI [of _ "st_projections s"]) simp

lemma jobs_only_trans [trans]: "jobs_only s t \<Longrightarrow> jobs_only t u \<Longrightarrow> jobs_only s u"
  unfolding jobs_only_def by fastforce

lemma jobs_only_fields:
  assumes "jobs_only s s'"
  shows "st_evidence s' = st_evidence s" "st_artifacts s' = st_artifacts s"
    "st_candidates s' = st_candidates s" "st_objects s' = st_objects s"
    "st_revisions s' = st_revisions s" "st_links s' = st_links s"
    "st_admissions s' = st_admissions s" "st_statuses s' = st_statuses s"
    "st_groups s' = st_groups s" "st_members s' = st_members s"
    "st_ledger_epoch s' = st_ledger_epoch s" "st_tombstone_epoch s' = st_tombstone_epoch s"
    "st_mutations s' = st_mutations s" "st_consumptions s' = st_consumptions s"
    "prefix (st_outbox s) (st_outbox s')"
  using assms by (auto simp: jobs_only_def)

lemma insert_outbox_jobs: "insert_outbox v k a now s = Inr (i, s') \<Longrightarrow> jobs_only s s'"
  unfolding jobs_only_def insert_outbox_def
  by (auto simp: run_inv Let_def) (rule exI, rule exI, rule exI [of _ "st_projections s"], simp)

lemma suppress_jobs: "suppress_in_store v fx s = Inr (i, s') \<Longrightarrow> jobs_only s s'"
  unfolding jobs_only_def suppress_in_store_def
  by (auto simp: run_inv)
    (rule exI [of _ "[]"], rule exI [of _ "st_fts_pending_since s"], rule exI, simp)

lemma refresh_jobs: "refresh_in_store v fx s = Inr (i, s') \<Longrightarrow> jobs_only s s'"
  unfolding jobs_only_def refresh_in_store_def
  by (auto simp: run_inv)
    (rule exI [of _ "[]"], rule exI [of _ "st_fts_pending_since s"], rule exI, simp)

lemma optional_job_jobs:
  assumes "optional_job x f s = Inr (is, s')" and "\<And>k i t. f k s = Inr (i, t) \<Longrightarrow> jobs_only s t"
  shows "jobs_only s s' \<and> length is = (if x = None then 0 else 1)"
  using assms by (auto simp: optional_job_def run_inv split: option.splits)

subsection \<open>Receipts\<close>

text \<open>The row that a command leaves for its idempotency key, and what makes it replayable.\<close>

definition mutation_row_ok :: "'g governance_env \<Rightarrow> mutation_row \<Rightarrow> bool" where
  "mutation_row_ok v m \<longleftrightarrow> (\<exists>r. mr_result m = Some r \<and> mu_receipt r = mr_receipt m
     \<and> mutation_receipt_ok (mr_receipt m) \<and> mutation_result_ok r \<and> \<not> mu_replayed r
     \<and> mx_receipt_hash (mr_receipt m) = env_sha v (unsealed_mutation_json (mr_receipt m))
     \<and> mx_request_hash (mr_receipt m) = mr_request_hash m
     \<and> mx_idempotency_key (mr_receipt m) = mr_idempotency_key m)"

lemma sealed_receipt_fields:
  "mx_receipt_hash (sealed_receipt v q n) = env_sha v (unsealed_mutation_json (sealed_receipt v q n))"
  "mx_request_hash (sealed_receipt v q n) = sq_request_hash q"
  "mx_idempotency_key (sealed_receipt v q n) = sq_idempotency_key q"
  "mx_resulting_epoch (sealed_receipt v q n) = n"
  "mx_projection_jobs (sealed_receipt v q n) = sq_projection_jobs q"
  by (simp_all add: sealed_receipt_def Let_def unsealed_mutation_json_def)

lemma seal_mutation_Inr:
  assumes "seal_mutation v q s = Inr (r, s')" and "sq_advance_epoch q"
  shows "\<exists>m. s' = s\<lparr>st_ledger_epoch := st_ledger_epoch s + 1, st_mutations := st_mutations s @ [m]\<rparr>
    \<and> mutation_row_ok v m \<and> mr_result m = Some r \<and> mr_idempotency_key m = sq_idempotency_key q
    \<and> mr_request_hash m = sq_request_hash q
    \<and> sq_idempotency_key q \<notin> mr_idempotency_key ` set (st_mutations s)
    \<and> mr_owner m = (sq_who q, sq_scope q)"
    "mu_outcome r = sq_outcome q" "mu_memory_id r = sq_memory_id q"
    "mu_current_revision_id r = sq_current_revision_id q" "mu_lifecycle r = sq_lifecycle q"
    "mu_decision r = sq_decision q" "mu_conflict_group_id r = sq_conflict_group_id q"
    "\<not> mu_replayed r" "mu_candidate_id r = sq_candidate_id q"
    "mx_receipt_id (mu_receipt r) \<notin> (\<lambda>m. mx_receipt_id (mr_receipt m)) ` set (st_mutations s)"
    "mx_resulting_epoch (mu_receipt r) = st_ledger_epoch s + 1"
    "mx_projection_jobs (mu_receipt r) = sq_projection_jobs q"
  using assms
  by (auto simp: seal_mutation_def Let_def run_inv mutation_row_ok_def sealed_receipt_fields)

lemma seal_mutation_dry:
  assumes "seal_mutation v q s = Inr (r, s')" and "\<not> sq_advance_epoch q"
  shows "s' = s" "mu_outcome r = sq_outcome q" "\<not> mu_replayed r"
  using assms by (auto simp: seal_mutation_def Let_def run_inv)

lemma parse_existing_ok:
  assumes "mutation_row_ok v m"
  shows "parse_existing_result v m h = (if mr_request_hash m = h
    then Inr ((the (mr_result m))\<lparr>mu_replayed := True\<rparr>) else Inl Conflict_with_state)"
  using assms by (auto simp: parse_existing_result_def mutation_row_ok_def)

subsection \<open>A new revision\<close>

lemma insert_revision_row_Inr:
  "insert_revision_row r s = Inr s' \<longleftrightarrow>
     s' = s\<lparr>st_revisions := st_revisions s @ [r]\<rparr> \<and> revision_id r \<notin> revision_id ` set (st_revisions s)
     \<and> (revision_no r = 1 \<and> supersedes r = None \<or> revision_no r > 1 \<and> supersedes r \<noteq> None)
     \<and> (rev_memory_id r, revision_no r) \<notin> (\<lambda>x. (rev_memory_id x, revision_no x)) ` set (st_revisions s)
     \<and> (case valid_to (validity r) of None \<Rightarrow> True
          | Some t \<Rightarrow> \<not> iso t < iso (valid_from (validity r)))
     \<and> (case rev_content r of None \<Rightarrow> True | Some c \<Rightarrow> artifact_known s c)"
  by (auto simp: insert_revision_row_def run_inv)

definition moved :: "string \<Rightarrow> string \<Rightarrow> string \<Rightarrow> lifecycle \<Rightarrow> timestamp \<Rightarrow> object_row \<Rightarrow> object_row" where
  "moved mid old new lc now m = (if memory_id m = mid \<and> current_revision_id m = Some old
     then m\<lparr>mem_lifecycle := lc, current_revision_id := Some new, context_eligible := (lc = Active),
       mem_updated_at := now\<rparr> else m)"

lemma moved_fields [simp]:
  "memory_id (moved mid old new lc now m) = memory_id m"
  "object_key (moved mid old new lc now m) = object_key m"
  "mem_kind (moved mid old new lc now m) = mem_kind m"
  "mem_scope (moved mid old new lc now m) = mem_scope m"
  "obr_principal (moved mid old new lc now m) = obr_principal m"
  "obr_logical_key_hash (moved mid old new lc now m) = obr_logical_key_hash m"
  "mem_created_at (moved mid old new lc now m) = mem_created_at m"
  by (simp_all add: moved_def object_key_def)

lemma move_current_Inr:
  "move_current mid old new lc now s = Inr s' \<longleftrightarrow>
     s' = s\<lparr>st_objects := map (moved mid old new lc now) (st_objects s)\<rparr>
     \<and> length (filter (\<lambda>m. memory_id m = mid \<and> current_revision_id m = Some old) (st_objects s)) = 1"
  by (auto simp: move_current_def moved_def Let_def)

lemma insert_object_Inr:
  "insert_object m s = Inr s' \<longleftrightarrow> s' = s\<lparr>st_objects := st_objects s @ [m]\<rparr>
     \<and> object_key m \<notin> object_key ` set (st_objects s) \<and> memory_id m \<notin> memory_id ` set (st_objects s)"
  by (auto simp: insert_object_def run_inv)

lemma link_candidate_Inr:
  "link_candidate c m r now s = Inr s' \<longleftrightarrow>
     s' = s\<lparr>st_links := st_links s @ [\<lparr>lk_candidate_id = c, lk_memory_id = m, lk_revision_id = r,
        lk_linked_at = now\<rparr>]\<rparr> \<and> c \<notin> lk_candidate_id ` set (st_links s)"
  by (auto simp: link_candidate_def run_inv)

definition admission_row ::
  "'g governance_env \<Rightarrow> string \<Rightarrow> string \<Rightarrow> string \<Rightarrow> actor_claim \<Rightarrow> timestamp \<Rightarrow> admission \<Rightarrow> ustring
     \<Rightarrow> bool \<Rightarrow> admission_decision" where
  "admission_row v mid rid cid actor now d why confirm =
     \<lparr>decision_id = storage_identifier v ''decision'' [(''candidate_id'', jstr cid),
        (''revision_id'', jstr rid), (''decision'', jstr (admission_string d))],
      dec_memory_id = mid, dec_revision_id = rid, dec_decision = d, decided_by = actor,
      decided_at = now, dec_reason = why, dec_conflict_group_id = None,
      dec_requires_user_confirmation = confirm\<rparr>"

lemma admission_row_fields [simp]:
  "dec_memory_id (admission_row v mid rid cid actor now d why confirm) = mid"
  "dec_revision_id (admission_row v mid rid cid actor now d why confirm) = rid"
  "dec_decision (admission_row v mid rid cid actor now d why confirm) = d"
  "decided_by (admission_row v mid rid cid actor now d why confirm) = actor"
  "dec_requires_user_confirmation (admission_row v mid rid cid actor now d why confirm) = confirm"
  by (simp_all add: admission_row_def)

lemma insert_admission_Inr:
  "insert_admission v mid rid cid actor now d why confirm s = Inr s' \<longleftrightarrow>
     s' = s\<lparr>st_admissions := st_admissions s @ [admission_row v mid rid cid actor now d why confirm]\<rparr>
     \<and> decision_id (admission_row v mid rid cid actor now d why confirm) \<notin> decision_id ` set (st_admissions s)"
  by (auto simp: insert_admission_def admission_row_def run_inv)

lemma insert_status_Inr:
  "insert_status v mid rid act lc actor why now s = Inr s' \<Longrightarrow>
     \<exists>e. s' = s\<lparr>st_statuses := st_statuses s @ [e]\<rparr> \<and> se_memory_id e = mid \<and> se_revision_id e = rid
       \<and> se_action e = act \<and> se_lifecycle e = lc \<and> se_actor e = actor \<and> se_occurred_at e = now"
  by (auto simp: insert_status_def run_inv)

definition new_revision :: "'g governance_env \<Rightarrow> create_options \<Rightarrow> revision_row" where
  "new_revision v q = candidate_revision (new_revision_id v q) (new_memory_id v q) (co_revision_number q)
     (lifecycle_for (co_decision q)) (co_candidate q) (co_evidence q)
     (map_option revision_id (co_supersedes q)) (co_requested_at q)"

lemma new_revision_fields [simp]:
  "revision_id (new_revision v q) = new_revision_id v q"
  "rev_memory_id (new_revision v q) = new_memory_id v q"
  "revision_no (new_revision v q) = co_revision_number q"
  "rev_lifecycle (new_revision v q) = lifecycle_for (co_decision q)"
  "rev_kind (new_revision v q) = cand_kind (co_candidate q)"
  "rev_scope (new_revision v q) = cand_scope (co_candidate q)"
  "rev_content_hash (new_revision v q) = cand_content_hash (co_candidate q)"
  "supersedes (new_revision v q) = map_option revision_id (co_supersedes q)"
  "rev_sensitivity (new_revision v q) = sensitivity_for (cand_sensitivity (co_candidate q)) (co_evidence q)"
  "rev_evidence_ids (new_revision v q) = sort (cand_evidence_ids (co_candidate q))"
  by (simp_all add: new_revision_def candidate_revision_def)

definition new_admission :: "'g governance_env \<Rightarrow> create_options \<Rightarrow> admission_decision" where
  "new_admission v q = admission_row v (new_memory_id v q) (new_revision_id v q)
     (candidate_id (co_candidate q)) (co_actor q) (co_requested_at q) (co_decision q) (co_reason q)
     (requires_user_confirmation (co_candidate q) \<or> has_injection v (co_candidate q))"

definition new_link :: "'g governance_env \<Rightarrow> create_options \<Rightarrow> link_row" where
  "new_link v q = \<lparr>lk_candidate_id = candidate_id (co_candidate q), lk_memory_id = new_memory_id v q,
     lk_revision_id = Some (new_revision_id v q), lk_linked_at = co_requested_at q\<rparr>"

text \<open>The tables after \<open>createMemory\<close>, up to jobs, statuses and the sealed receipt.\<close>

definition revision_written ::
  "'g governance_env \<Rightarrow> create_options \<Rightarrow> object_row list \<Rightarrow> 'g store \<Rightarrow> 'g store \<Rightarrow> bool" where
  "revision_written v q objs s s' \<longleftrightarrow> (\<exists>st. s' = s\<lparr>st_objects := objs,
       st_revisions := st_revisions s @ [new_revision v q], st_links := st_links s @ [new_link v q],
       st_admissions := st_admissions s @ [new_admission v q], st_statuses := st_statuses s @ st\<rparr>)
     \<and> new_revision_id v q \<notin> revision_id ` set (st_revisions s)
     \<and> (co_revision_number q = 1 \<longleftrightarrow> co_supersedes q = None)
     \<and> (new_memory_id v q, co_revision_number q) \<notin> (\<lambda>x. (rev_memory_id x, revision_no x)) ` set (st_revisions s)
     \<and> candidate_id (co_candidate q) \<notin> lk_candidate_id ` set (st_links s)
     \<and> decision_id (new_admission v q) \<notin> decision_id ` set (st_admissions s)"

lemma announce_revision_Inr:
  "announce_revision v q s = Inr s' \<Longrightarrow> \<exists>st. s' = s\<lparr>st_statuses := st_statuses s @ st\<rparr>"
  by (auto simp: announce_revision_def Let_def split: if_splits dest!: insert_status_Inr)
    (rule exI [of _ "[]"], simp)

lemma write_rows_Inr:
  assumes "write_rows v q s = Inr s'"
  shows "s' = s\<lparr>st_revisions := st_revisions s @ [new_revision v q], st_links := st_links s @ [new_link v q],
       st_admissions := st_admissions s @ [new_admission v q]\<rparr>"
    and "new_revision_id v q \<notin> revision_id ` set (st_revisions s)"
    and "co_revision_number q = 1 \<longleftrightarrow> co_supersedes q = None"
    and "(new_memory_id v q, co_revision_number q) \<notin> (\<lambda>x. (rev_memory_id x, revision_no x)) ` set (st_revisions s)"
    and "candidate_id (co_candidate q) \<notin> lk_candidate_id ` set (st_links s)"
    and "decision_id (new_admission v q) \<notin> decision_id ` set (st_admissions s)"
  using assms
  by (auto simp: write_rows_def Let_def run_inv insert_revision_def insert_revision_row_Inr
      link_candidate_Inr insert_admission_Inr new_revision_def [symmetric] new_admission_def [symmetric]
      new_link_def [symmetric])

lemma new_object_fields [simp]:
  "memory_id (new_object v q) = new_memory_id v q"
  "mem_lifecycle (new_object v q) = lifecycle_for (co_decision q)"
  "current_revision_id (new_object v q) = Some (new_revision_id v q)"
  "context_eligible (new_object v q) = (lifecycle_for (co_decision q) = Active)"
  "mem_kind (new_object v q) = cand_kind (co_candidate q)"
  "mem_scope (new_object v q) = cand_scope (co_candidate q)"
  "obr_principal (new_object v q) = claim_principal_id (co_actor q)"
  "obr_logical_key_hash (new_object v q) = co_logical_hash q"
  by (simp_all add: new_object_def Let_def)

lemma write_revision_first:
  assumes "write_revision v q s = Inr s'" and "co_existing q = None"
  shows "revision_written v q (st_objects s @ [new_object v q]) s s'"
    and "object_key (new_object v q) \<notin> object_key ` set (st_objects s)"
    and "new_memory_id v q \<notin> memory_id ` set (st_objects s)"
proof -
  from assms obtain s1 s2 where s1: "insert_object (new_object v q) s = Inr s1"
    and s2: "write_rows v q s1 = Inr s2" and s': "announce_revision v q s2 = Inr s'"
    by (auto simp: write_revision_def run_inv replace_current_def)
  from s1 show "object_key (new_object v q) \<notin> object_key ` set (st_objects s)"
    "new_memory_id v q \<notin> memory_id ` set (st_objects s)"
    by (auto simp: insert_object_Inr)
  show "revision_written v q (st_objects s @ [new_object v q]) s s'"
    using s1 write_rows_Inr [OF s2] announce_revision_Inr [OF s']
    by (auto simp: insert_object_Inr revision_written_def)
qed

lemma write_revision_next:
  assumes "write_revision v q s = Inr s'" and "co_existing q = Some m"
  shows "\<exists>old. co_supersedes q = Some old
    \<and> revision_written v q (map (moved (new_memory_id v q) (revision_id old) (new_revision_id v q)
        (lifecycle_for (co_decision q)) (co_requested_at q)) (st_objects s)) s s'
    \<and> length (filter (\<lambda>x. memory_id x = new_memory_id v q \<and> current_revision_id x = Some (revision_id old))
        (st_objects s)) = 1"
proof -
  from assms obtain s1 s2 where s1: "write_rows v q s = Inr s1" and s2: "replace_current v q s1 = Inr s2"
    and s': "announce_revision v q s2 = Inr s'"
    by (auto simp: write_revision_def run_inv)
  from s2 assms(2) obtain old e where old: "co_supersedes q = Some old"
    and s2': "s2 = s1\<lparr>st_objects := map (moved (new_memory_id v q) (revision_id old) (new_revision_id v q)
        (lifecycle_for (co_decision q)) (co_requested_at q)) (st_objects s1), st_statuses := st_statuses s1 @ [e]\<rparr>"
    and one: "length (filter (\<lambda>x. memory_id x = new_memory_id v q
        \<and> current_revision_id x = Some (revision_id old)) (st_objects s1)) = 1"
    by (auto simp: replace_current_def run_inv move_current_Inr split: option.splits dest!: insert_status_Inr)
  from announce_revision_Inr [OF s'] obtain st where "s' = s2\<lparr>st_statuses := st_statuses s2 @ st\<rparr>" ..
  then have "s' = s\<lparr>st_objects := map (moved (new_memory_id v q) (revision_id old) (new_revision_id v q)
        (lifecycle_for (co_decision q)) (co_requested_at q)) (st_objects s),
      st_revisions := st_revisions s @ [new_revision v q], st_links := st_links s @ [new_link v q],
      st_admissions := st_admissions s @ [new_admission v q], st_statuses := st_statuses s @ e # st\<rparr>"
    using s2' write_rows_Inr(1) [OF s1] by simp
  then show ?thesis
    using old one write_rows_Inr [OF s1] unfolding revision_written_def by auto
qed

text \<open>What the sealed receipt adds to a store.\<close>

definition sealed ::
  "'g governance_env \<Rightarrow> ustring \<Rightarrow> string \<Rightarrow> string \<times> scope \<Rightarrow> mutation_result \<Rightarrow> 'g store \<Rightarrow> 'g store \<Rightarrow> bool" where
  "sealed v key h owner r s s' \<longleftrightarrow> (\<exists>m. s' = s\<lparr>st_ledger_epoch := st_ledger_epoch s + 1,
       st_mutations := st_mutations s @ [m]\<rparr>
     \<and> mutation_row_ok v m \<and> mr_result m = Some r \<and> mr_idempotency_key m = key \<and> mr_request_hash m = h
     \<and> key \<notin> mr_idempotency_key ` set (st_mutations s) \<and> mr_owner m = owner)
   \<and> \<not> mu_replayed r
   \<and> mx_receipt_id (mu_receipt r) \<notin> (\<lambda>m. mx_receipt_id (mr_receipt m)) ` set (st_mutations s)
   \<and> mx_resulting_epoch (mu_receipt r) = st_ledger_epoch s + 1"

lemma seal_mutation_sealed:
  assumes "seal_mutation v q s = Inr (r, s')" and "sq_advance_epoch q"
  shows "sealed v (sq_idempotency_key q) (sq_request_hash q) (sq_who q, sq_scope q) r s s'"
  unfolding sealed_def using seal_mutation_Inr [OF assms] by blast

definition result_names ::
  "mutation_result \<Rightarrow> mutation_outcome \<Rightarrow> string \<Rightarrow> string \<Rightarrow> lifecycle \<Rightarrow> admission option \<Rightarrow> bool" where
  "result_names r outcome mid rid lc d \<longleftrightarrow> mu_outcome r = outcome \<and> mu_memory_id r = mid
     \<and> mu_current_revision_id r = rid \<and> mu_lifecycle r = lc \<and> mu_decision r = d"

definition created ::
  "'g governance_env \<Rightarrow> create_options \<Rightarrow> object_row list \<Rightarrow> mutation_result \<Rightarrow> 'g store \<Rightarrow> 'g store \<Rightarrow> bool" where
  "created v q objs r s s' \<longleftrightarrow> (\<exists>t u. revision_written v q objs s t \<and> jobs_only t u
     \<and> sealed v (co_idempotency_key q) (co_request_hash q)
         (claim_principal_id (co_actor q), cand_scope (co_candidate q)) r u s')
     \<and> result_names r (co_outcome q) (new_memory_id v q) (new_revision_id v q)
         (lifecycle_for (co_decision q)) (Some (co_decision q))
     \<and> mu_conflict_group_id r = None
     \<and> length (mx_projection_jobs (mu_receipt r)) = (if co_supersedes q = None then 0 else 2)
         + (if co_decision q = Activate then 2 else 0)"

lemma lifecycle_for_Active [simp]: "lifecycle_for d = Active \<longleftrightarrow> d = Activate"
  by (cases d) simp_all

lemma create_memory_created:
  assumes "create_memory v q s = Inr (r, s')"
    and "\<And>t. write_revision v q s = Inr t \<Longrightarrow> revision_written v q objs s t"
  shows "created v q objs r s s'"
proof -
  let ?mid = "new_memory_id v q" and ?rid = "new_revision_id v q"
  let ?old = "map_option revision_id (co_supersedes q)"
  from assms(1) obtain t t1 j1 t2 j2 t3 j3 t4 j4 where t: "write_revision v q s = Inr t"
    and j1: "optional_job ?old (\<lambda>i. insert_outbox v ''fts_memory_delete'' i (co_requested_at q)) t = Inr (j1, t1)"
    and j2: "optional_job (if lifecycle_for (co_decision q) = Active then Some ?rid else None) (\<lambda>i. insert_outbox v ''fts_memory_upsert'' i (co_requested_at q)) t1 = Inr (j2, t2)"
    and j3: "optional_job ?old (\<lambda>i. suppress_in_store v (projection_effect_of q ?mid i)) t2 = Inr (j3, t3)"
    and j4: "optional_job (if lifecycle_for (co_decision q) = Active then Some ?rid else None) (\<lambda>i. refresh_in_store v (projection_effect_of q ?mid i)) t3 = Inr (j4, t4)"
    and seal: "seal_mutation v
       \<lparr>sq_idempotency_key = co_idempotency_key q, sq_request_hash = co_request_hash q,
        sq_who = claim_principal_id (co_actor q), sq_scope = cand_scope (co_candidate q),
        sq_requested_at = co_requested_at q, sq_outcome = co_outcome q,
        sq_candidate_id = candidate_id (co_candidate q), sq_memory_id = ?mid,
        sq_current_revision_id = ?rid, sq_conflict_group_id = None, sq_lifecycle = lifecycle_for (co_decision q),
        sq_decision = Some (co_decision q), sq_previous_revision_id = ?old,
        sq_projection_jobs = j1 @ j2 @ j3 @ j4, sq_warnings = [], sq_advance_epoch = True\<rparr> t4 = Inr (r, s')"
    unfolding create_memory_def Let_def by (elim bindE_InrE2 bindE_InrE) (rule that; assumption)
  note j = optional_job_jobs [OF j1 insert_outbox_jobs] optional_job_jobs [OF j2 insert_outbox_jobs]
    optional_job_jobs [OF j3 suppress_jobs] optional_job_jobs [OF j4 refresh_jobs]
  have jobs: "jobs_only t t4"
    by (intro jobs_only_trans [OF conjunct1 [OF j(1)]] jobs_only_trans [OF conjunct1 [OF j(2)]]
      jobs_only_trans [OF conjunct1 [OF j(3)]] conjunct1 [OF j(4)])
  have len: "length (j1 @ j2 @ j3 @ j4) = (if co_supersedes q = None then 0 else 2)
      + (if co_decision q = Activate then 2 else 0)"
    using conjunct2 [OF j(1)] conjunct2 [OF j(2)] conjunct2 [OF j(3)] conjunct2 [OF j(4)] by simp
  have res: "result_names r (co_outcome q) ?mid ?rid (lifecycle_for (co_decision q)) (Some (co_decision q))"
    "mu_conflict_group_id r = None" "mx_projection_jobs (mu_receipt r) = j1 @ j2 @ j3 @ j4"
    using seal_mutation_Inr(2-7,12) [OF seal] by (simp_all add: result_names_def)
  have "sealed v (co_idempotency_key q) (co_request_hash q)
      (claim_principal_id (co_actor q), cand_scope (co_candidate q)) r t4 s'"
    using seal_mutation_sealed [OF seal] by simp
  then show ?thesis
    unfolding created_def using assms(2) [OF t] jobs res len by metis
qed

lemma create_memory_writes: "create_memory v q s = Inr x \<Longrightarrow> \<exists>t. write_revision v q s = Inr t"
  unfolding create_memory_def Let_def by (elim bindE_InrE2 bindE_InrE) blast

lemma create_memory_first:
  assumes "create_memory v q s = Inr (r, s')" and "co_existing q = None"
  shows "created v q (st_objects s @ [new_object v q]) r s s'"
    and "object_key (new_object v q) \<notin> object_key ` set (st_objects s)"
    and "new_memory_id v q \<notin> memory_id ` set (st_objects s)"
proof -
  from create_memory_writes [OF assms(1)] obtain t where t: "write_revision v q s = Inr t" ..
  show "object_key (new_object v q) \<notin> object_key ` set (st_objects s)"
    "new_memory_id v q \<notin> memory_id ` set (st_objects s)"
    using write_revision_first [OF t assms(2)] by simp_all
  show "created v q (st_objects s @ [new_object v q]) r s s'"
    using write_revision_first(1) [OF _ assms(2)] by (rule create_memory_created [OF assms(1)])
qed

lemma create_memory_next:
  assumes "create_memory v q s = Inr (r, s')" and "co_existing q = Some m"
  shows "\<exists>old. co_supersedes q = Some old
    \<and> created v q (map (moved (new_memory_id v q) (revision_id old) (new_revision_id v q)
        (lifecycle_for (co_decision q)) (co_requested_at q)) (st_objects s)) r s s'"
proof -
  from create_memory_writes [OF assms(1)] obtain t where "write_revision v q s = Inr t" ..
  from write_revision_next [OF this assms(2)] obtain old where old: "co_supersedes q = Some old" by blast
  have "created v q (map (moved (new_memory_id v q) (revision_id old) (new_revision_id v q)
        (lifecycle_for (co_decision q)) (co_requested_at q)) (st_objects s)) r s s'"
    using write_revision_next [OF _ assms(2)] old by (intro create_memory_created [OF assms(1)]) fastforce
  then show ?thesis
    using old by blast
qed

end
