(* ===== verification/GovernanceInvariant.thy ===== *)
theory GovernanceInvariant
  imports GovernanceLaws
begin

text \<open>
  The invariant of the memory tables: identities are unique, every memory points at its newest
  revision and shares its lifecycle, the revisions of a memory form one chain, and each revision has
  exactly one admission decision, which explains its lifecycle. Both ways of adding a revision
  preserve it; the commands are shown to be one of these or to leave the tables alone.
\<close>

definition current_ok :: "revision_row list \<Rightarrow> object_row \<Rightarrow> bool" where
  "current_ok revs m \<longleftrightarrow> (\<exists>r \<in> set revs. current_revision_id m = Some (revision_id r)
     \<and> rev_memory_id r = memory_id m \<and> rev_lifecycle r = mem_lifecycle m
     \<and> (\<forall>x \<in> set revs. rev_memory_id x = memory_id m \<longrightarrow> revision_no x \<le> revision_no r))
   \<and> (context_eligible m \<longleftrightarrow> mem_lifecycle m = Active)"

definition chain_ok :: "object_row list \<Rightarrow> revision_row list \<Rightarrow> revision_row \<Rightarrow> bool" where
  "chain_ok objs revs r \<longleftrightarrow>
     (\<exists>m \<in> set objs. memory_id m = rev_memory_id r \<and> mem_kind m = rev_kind r \<and> mem_scope m = rev_scope r)
     \<and> (case supersedes r of None \<Rightarrow> revision_no r = 1
        | Some p \<Rightarrow> (\<exists>x \<in> set revs. revision_id x = p \<and> rev_memory_id x = rev_memory_id r
             \<and> revision_no r = revision_no x + 1))"

definition decided_ok :: "admission_decision list \<Rightarrow> revision_row \<Rightarrow> bool" where
  "decided_ok adms r \<longleftrightarrow> (\<exists>a \<in> set adms. dec_revision_id a = revision_id r
     \<and> lifecycle_for (dec_decision a) = rev_lifecycle r)"

definition tables_ok :: "object_row list \<Rightarrow> revision_row list \<Rightarrow> admission_decision list \<Rightarrow> bool" where
  "tables_ok objs revs adms \<longleftrightarrow>
     distinct (map memory_id objs) \<and> distinct (map object_key objs) \<and> distinct (map revision_id revs)
     \<and> distinct (map dec_revision_id adms) \<and> dec_revision_id ` set adms \<subseteq> revision_id ` set revs
     \<and> (\<forall>m \<in> set objs. current_ok revs m) \<and> (\<forall>r \<in> set revs. chain_ok objs revs r)
     \<and> (\<forall>r \<in> set revs. decided_ok adms r)"

lemma tables_okD:
  assumes "tables_ok objs revs adms"
  shows "distinct (map memory_id objs)" "distinct (map object_key objs)" "distinct (map revision_id revs)"
    "distinct (map dec_revision_id adms)" "dec_revision_id ` set adms \<subseteq> revision_id ` set revs"
    "\<And>m. m \<in> set objs \<Longrightarrow> current_ok revs m" "\<And>r. r \<in> set revs \<Longrightarrow> chain_ok objs revs r"
    "\<And>r. r \<in> set revs \<Longrightarrow> decided_ok adms r"
  using assms by (auto simp: tables_ok_def)

lemma chain_ok_mono:
  assumes "chain_ok objs revs r" and "set revs \<subseteq> set revs'"
    and "\<And>m. m \<in> set objs \<Longrightarrow> \<exists>m' \<in> set objs'. memory_id m' = memory_id m \<and> mem_kind m' = mem_kind m
      \<and> mem_scope m' = mem_scope m"
  shows "chain_ok objs' revs' r"
  using assms unfolding chain_ok_def by (fastforce split: option.splits)

lemma tables_ok_first:
  assumes ok: "tables_ok objs revs adms"
    and fresh: "memory_id m \<notin> memory_id ` set objs" "object_key m \<notin> object_key ` set objs"
      "revision_id r \<notin> revision_id ` set revs"
    and r: "rev_memory_id r = memory_id m" "current_revision_id m = Some (revision_id r)"
      "rev_lifecycle r = mem_lifecycle m" "context_eligible m \<longleftrightarrow> mem_lifecycle m = Active"
      "mem_kind m = rev_kind r" "mem_scope m = rev_scope r" "revision_no r = 1" "supersedes r = None"
    and a: "dec_revision_id a = revision_id r" "lifecycle_for (dec_decision a) = rev_lifecycle r"
  shows "tables_ok (objs @ [m]) (revs @ [r]) (adms @ [a])"
proof -
  note D = tables_okD [OF ok]
  have none: "rev_memory_id x \<noteq> memory_id m" if "x \<in> set revs" for x
    using D(7) [OF that] fresh(1) unfolding chain_ok_def by (metis image_eqI)
  have "current_ok (revs @ [r]) m"
    using r none by (auto simp: current_ok_def)
  moreover have "current_ok (revs @ [r]) x" if "x \<in> set objs" for x
    using D(6) [OF that] that fresh(1) r(1) by (fastforce simp: current_ok_def)
  moreover have "chain_ok (objs @ [m]) (revs @ [r]) x" if "x \<in> set revs" for x
    by (rule chain_ok_mono [OF D(7) [OF that]]) auto
  moreover have "chain_ok (objs @ [m]) (revs @ [r]) r"
    using r by (auto simp: chain_ok_def)
  moreover have "dec_revision_id a \<notin> dec_revision_id ` set adms"
    using D(5) a(1) fresh(3) by (metis subsetD)
  moreover have "\<forall>x \<in> set (revs @ [r]). decided_ok (adms @ [a]) x"
    using D(8) a by (auto simp: decided_ok_def)
  ultimately show ?thesis
    using D(1-5) fresh a(1) unfolding tables_ok_def set_append ball_Un by auto
qed

lemma current_unique:
  assumes "tables_ok objs revs adms" and "m \<in> set objs" "m' \<in> set objs" and "memory_id m = memory_id m'"
  shows "m = m'"
  using assms tables_okD(1) [OF assms(1)] by (meson distinct_map inj_onD)

lemma tables_ok_next:
  assumes ok: "tables_ok objs revs adms"
    and m: "m \<in> set objs" "current_revision_id m = Some (revision_id old)" "old \<in> set revs"
    and r: "rev_memory_id r = memory_id m" "supersedes r = Some (revision_id old)"
      "revision_no r = revision_no old + 1" "mem_kind m = rev_kind r" "mem_scope m = rev_scope r"
      "revision_id r \<notin> revision_id ` set revs"
    and a: "dec_revision_id a = revision_id r" "lifecycle_for (dec_decision a) = rev_lifecycle r"
  shows "tables_ok (map (moved (memory_id m) (revision_id old) (revision_id r) (rev_lifecycle r) now) objs)
    (revs @ [r]) (adms @ [a])" (is "tables_ok (map ?f objs) _ _")
proof -
  note D = tables_okD [OF ok]
  have old: "rev_memory_id old = memory_id m"
    "\<forall>x \<in> set revs. rev_memory_id x = memory_id m \<longrightarrow> revision_no x \<le> revision_no old"
  proof -
    from D(6) [OF m(1)] obtain c where c: "c \<in> set revs" "current_revision_id m = Some (revision_id c)"
      "rev_memory_id c = memory_id m"
      "\<forall>x \<in> set revs. rev_memory_id x = memory_id m \<longrightarrow> revision_no x \<le> revision_no c"
      by (auto simp: current_ok_def)
    have "c = old"
      using c(1,2) m(2,3) D(3) by (metis distinct_map inj_onD option.inject)
    then show "rev_memory_id old = memory_id m"
      "\<forall>x \<in> set revs. rev_memory_id x = memory_id m \<longrightarrow> revision_no x \<le> revision_no old"
      using c by simp_all
  qed
  have "current_ok (revs @ [r]) (?f x)" if x: "x \<in> set objs" for x
  proof (cases "x = m")
    case True
    then show ?thesis
      using m r old(2) by (fastforce simp: current_ok_def moved_def)
  next
    case False
    then have "memory_id x \<noteq> memory_id m"
      using current_unique [OF ok x m(1)] by blast
    then show ?thesis
      using D(6) [OF x] r(1) by (fastforce simp: current_ok_def moved_def)
  qed
  moreover have "chain_ok (map ?f objs) (revs @ [r]) x" if "x \<in> set revs" for x
    by (rule chain_ok_mono [OF D(7) [OF that]]) force+
  moreover have "chain_ok (map ?f objs) (revs @ [r]) r"
    using m r old(1) by (fastforce simp: chain_ok_def)
  moreover have "dec_revision_id a \<notin> dec_revision_id ` set adms"
    using D(5) a(1) r(6) by (metis subsetD)
  moreover have "map memory_id (map ?f objs) = map memory_id objs"
    "map object_key (map ?f objs) = map object_key objs" by simp_all
  moreover have "\<forall>x \<in> set (revs @ [r]). decided_ok (adms @ [a]) x"
    using D(8) a by (auto simp: decided_ok_def)
  ultimately show ?thesis
    using D(1-5) r(6) a(1) unfolding tables_ok_def set_append ball_Un by (auto simp del: map_map)
qed

subsection \<open>The ledger only grows\<close>

definition extends :: "'g store \<Rightarrow> 'g store \<Rightarrow> bool" where
  "extends s s' \<longleftrightarrow> prefix (st_evidence s) (st_evidence s') \<and> prefix (st_candidates s) (st_candidates s')
     \<and> prefix (st_revisions s) (st_revisions s') \<and> prefix (st_links s) (st_links s')
     \<and> prefix (st_admissions s) (st_admissions s') \<and> prefix (st_statuses s) (st_statuses s')
     \<and> prefix (st_groups s) (st_groups s') \<and> prefix (st_members s) (st_members s')
     \<and> prefix (st_outbox s) (st_outbox s') \<and> prefix (st_mutations s) (st_mutations s')
     \<and> prefix (st_consumptions s) (st_consumptions s')
     \<and> prefix (map object_key (st_objects s)) (map object_key (st_objects s'))
     \<and> prefix (map memory_id (st_objects s)) (map memory_id (st_objects s'))
     \<and> st_ledger_epoch s \<le> st_ledger_epoch s' \<and> st_tombstone_epoch s' = st_tombstone_epoch s"

lemma extends_refl [intro, simp]: "extends s s"
  by (simp add: extends_def)

lemma extends_trans [trans]: "extends s t \<Longrightarrow> extends t u \<Longrightarrow> extends s u"
  unfolding extends_def by (auto intro: prefix_order.trans)

lemma jobs_extends: "jobs_only s s' \<Longrightarrow> extends s s'"
  using jobs_only_fields [of s s'] by (simp add: extends_def)

lemma sealed_extends: "sealed v k h w r s s' \<Longrightarrow> extends s s'"
  by (auto simp: sealed_def extends_def)

lemma written_extends:
  assumes "revision_written v q objs s s'"
    and "prefix (map object_key (st_objects s)) (map object_key objs)"
    and "prefix (map memory_id (st_objects s)) (map memory_id objs)"
  shows "extends s s'"
  using assms by (auto simp: revision_written_def extends_def)

lemma created_extends:
  assumes "created v q objs r s s'"
    and "prefix (map object_key (st_objects s)) (map object_key objs)"
    and "prefix (map memory_id (st_objects s)) (map memory_id objs)"
  shows "extends s s'"
proof -
  from assms(1) obtain t u where w: "revision_written v q objs s t" and j: "jobs_only t u"
    and l: "sealed v (co_idempotency_key q) (co_request_hash q)
      (claim_principal_id (co_actor q), cand_scope (co_candidate q)) r u s'"
    by (auto simp: created_def)
  from written_extends [OF w assms(2,3)] jobs_extends [OF j] have "extends s u"
    by (rule extends_trans)
  then show ?thesis
    using sealed_extends [OF l] by (rule extends_trans)
qed

subsection \<open>The tables of the memories\<close>

definition memories_ok :: "'g store \<Rightarrow> bool" where
  "memories_ok s \<longleftrightarrow> tables_ok (st_objects s) (st_revisions s) (st_admissions s)"

definition same_memories :: "'g store \<Rightarrow> 'g store \<Rightarrow> bool" where
  "same_memories s s' \<longleftrightarrow> st_objects s' = st_objects s \<and> st_revisions s' = st_revisions s
     \<and> st_admissions s' = st_admissions s"

lemma same_memories_ok: "same_memories s s' \<Longrightarrow> memories_ok s' = memories_ok s"
  by (simp add: same_memories_def memories_ok_def)

lemma created_tables:
  assumes "created v q objs r s s'"
  shows "st_objects s' = objs" "st_revisions s' = st_revisions s @ [new_revision v q]"
    "st_admissions s' = st_admissions s @ [new_admission v q]" "st_links s' = st_links s @ [new_link v q]"
    "new_revision_id v q \<notin> revision_id ` set (st_revisions s)"
    "st_evidence s' = st_evidence s" "st_groups s' = st_groups s" "st_consumptions s' = st_consumptions s"
    "\<exists>m. st_mutations s' = st_mutations s @ [m] \<and> mutation_row_ok v m \<and> mr_result m = Some r
      \<and> mr_idempotency_key m = co_idempotency_key q \<and> mr_request_hash m = co_request_hash q
      \<and> co_idempotency_key q \<notin> mr_idempotency_key ` set (st_mutations s)"
proof -
  from assms obtain t u where w: "revision_written v q objs s t" and j: "jobs_only t u"
    and l: "sealed v (co_idempotency_key q) (co_request_hash q)
      (claim_principal_id (co_actor q), cand_scope (co_candidate q)) r u s'"
    by (auto simp: created_def)
  note J = jobs_only_fields [OF j]
  from l have S: "st_objects s' = st_objects u" "st_revisions s' = st_revisions u" "st_admissions s' = st_admissions u"
    "st_links s' = st_links u" "st_evidence s' = st_evidence u" "st_groups s' = st_groups u"
    "st_consumptions s' = st_consumptions u"
    by (auto simp: sealed_def)
  from w show "st_objects s' = objs" "st_revisions s' = st_revisions s @ [new_revision v q]"
    "st_admissions s' = st_admissions s @ [new_admission v q]" "st_links s' = st_links s @ [new_link v q]"
    "new_revision_id v q \<notin> revision_id ` set (st_revisions s)"
    "st_evidence s' = st_evidence s" "st_groups s' = st_groups s" "st_consumptions s' = st_consumptions s"
    unfolding S J by (auto simp: revision_written_def)
  from w J l show "\<exists>m. st_mutations s' = st_mutations s @ [m] \<and> mutation_row_ok v m \<and> mr_result m = Some r
      \<and> mr_idempotency_key m = co_idempotency_key q \<and> mr_request_hash m = co_request_hash q
      \<and> co_idempotency_key q \<notin> mr_idempotency_key ` set (st_mutations s)"
    by (auto simp: revision_written_def sealed_def)
qed

lemma new_admission_fields [simp]:
  "dec_revision_id (new_admission v q) = new_revision_id v q"
  "dec_decision (new_admission v q) = co_decision q"
  by (simp_all add: new_admission_def)

lemma create_first_memories:
  assumes "create_memory v q s = Inr (r, s')" and "co_existing q = None" "co_supersedes q = None"
    "co_revision_number q = 1" and "memories_ok s"
  shows "memories_ok s' \<and> extends s s'"
proof -
  note c = create_memory_first [OF assms(1,2)]
  have "tables_ok (st_objects s @ [new_object v q]) (st_revisions s @ [new_revision v q])
    (st_admissions s @ [new_admission v q])"
    using assms c(2,3) created_tables(5) [OF c(1)]
    by (intro tables_ok_first) (simp_all add: memories_ok_def)
  moreover have "extends s s'"
    by (rule created_extends [OF c(1)]) simp_all
  ultimately show ?thesis
    by (simp add: memories_ok_def created_tables [OF c(1)])
qed

lemma new_memory_id_existing: "co_existing q = Some m \<Longrightarrow> new_memory_id v q = memory_id m"
  by (simp add: new_memory_id_def)

lemma create_next_memories:
  assumes "create_memory v q s = Inr (r, s')" and "co_existing q = Some m" "co_supersedes q = Some old"
    and "co_revision_number q = revision_no old + 1" and "memories_ok s"
    and "m \<in> set (st_objects s)" "current_revision_id m = Some (revision_id old)" "old \<in> set (st_revisions s)"
    and "cand_kind (co_candidate q) = mem_kind m" "cand_scope (co_candidate q) = mem_scope m"
  shows "memories_ok s' \<and> extends s s'"
proof -
  from create_memory_next [OF assms(1,2)] assms(3) have c: "created v q
      (map (moved (memory_id m) (revision_id old) (new_revision_id v q)
        (lifecycle_for (co_decision q)) (co_requested_at q)) (st_objects s)) r s s'"
    by (simp add: new_memory_id_existing [OF assms(2)])
  have "tables_ok (map (moved (memory_id m) (revision_id old) (revision_id (new_revision v q))
        (rev_lifecycle (new_revision v q)) (co_requested_at q)) (st_objects s))
      (st_revisions s @ [new_revision v q]) (st_admissions s @ [new_admission v q])"
    using assms created_tables(5) [OF c] new_memory_id_existing [OF assms(2)]
    by (intro tables_ok_next) (simp_all add: memories_ok_def)
  moreover have "extends s s'"
    by (rule created_extends [OF c]) (simp_all add: comp_def)
  ultimately show ?thesis
    by (simp add: memories_ok_def created_tables [OF c])
qed

subsection \<open>The commands\<close>

lemma insert_candidate_Inr:
  assumes "insert_candidate v c who es s = Inr s'"
  shows "\<exists>row. s' = s\<lparr>st_candidates := st_candidates s @ [row]\<rparr> \<and> candidate_id row = candidate_id c
    \<and> candidate_id c \<notin> candidate_id ` set (st_candidates s) \<and> cdr_principal row = who"
  using assms by (auto simp: insert_candidate_def Let_def run_inv)

lemma candidate_frame:
  assumes "insert_candidate v c who es s = Inr s'"
  shows "same_memories s s'" "extends s s'" "st_mutations s' = st_mutations s" "st_links s' = st_links s"
    "st_evidence s' = st_evidence s" "st_groups s' = st_groups s" "st_consumptions s' = st_consumptions s"
  using insert_candidate_Inr [OF assms] by (auto simp: same_memories_def extends_def)

lemma link_frame:
  assumes "link_candidate c m r now s = Inr s'"
  shows "same_memories s s'" "extends s s'" "st_mutations s' = st_mutations s"
  using assms by (auto simp: link_candidate_Inr same_memories_def extends_def)

lemma sealed_frame:
  assumes "sealed v k h w r s s'"
  shows "same_memories s s'" "extends s s'" "st_links s' = st_links s" "st_groups s' = st_groups s"
    "st_evidence s' = st_evidence s" "st_consumptions s' = st_consumptions s"
  using assms by (auto simp: sealed_def same_memories_def extends_def)

lemma jobs_frame:
  assumes "jobs_only s s'"
  shows "same_memories s s'" "extends s s'"
  using jobs_only_fields [OF assms] jobs_extends [OF assms] by (auto simp: same_memories_def)

lemma same_memories_trans [trans]: "same_memories s t \<Longrightarrow> same_memories t u \<Longrightarrow> same_memories s u"
  by (simp add: same_memories_def)

lemma conflict_group_for_Inr:
  assumes "conflict_group_for v q s = Inr (g, s')"
  shows "\<exists>gs. s' = s\<lparr>st_groups := st_groups s @ gs\<rparr>
    \<and> (\<exists>x \<in> set (st_groups s @ gs). gr_conflict_group_id x = g \<and> gr_open x \<and> gr_principal x = xo_who q
        \<and> gr_scope x = xo_scope q \<and> gr_logical_key_hash x = xo_logical_hash q)"
proof (cases "sort_key (\<lambda>g. iso (gr_created_at g)) (sort_key gr_conflict_group_id
    (open_groups s (xo_who q) (xo_scope q) (xo_logical_hash q)))")
  case Nil
  then show ?thesis
    using assms by (auto simp: conflict_group_for_def Let_def run_inv)
next
  case (Cons x xs)
  then have "x \<in> set (open_groups s (xo_who q) (xo_scope q) (xo_logical_hash q))"
    using sort_key_set [of "\<lambda>g. iso (gr_created_at g)"] sort_key_set [of gr_conflict_group_id]
    by (metis list.set_intros(1))
  then show ?thesis
    using assms Cons by (intro exI [of _ "[]"]) (auto simp: conflict_group_for_def open_groups_def)
qed

definition conflict_opened ::
  "'g governance_env \<Rightarrow> conflict_options \<Rightarrow> mutation_result \<Rightarrow> 'g store \<Rightarrow> 'g store \<Rightarrow> bool" where
  "conflict_opened v q r s s' \<longleftrightarrow> same_memories s s' \<and> extends s s'
     \<and> result_names r Conflict (memory_id (xo_memory q)) (revision_id (xo_current q))
         (mem_lifecycle (xo_memory q)) None
     \<and> (\<exists>g. mu_conflict_group_id r = Some g \<and> (g, xo_candidate_id q) \<in> set (st_members s')
          \<and> (\<exists>x \<in> set (st_groups s'). gr_conflict_group_id x = g \<and> gr_open x
               \<and> gr_principal x = xo_who q \<and> gr_scope x = xo_scope q
               \<and> gr_logical_key_hash x = xo_logical_hash q))
     \<and> (\<exists>u. sealed v (xo_idempotency_key q) (xo_request_hash q) (xo_who q, xo_scope q) r u s'
          \<and> st_mutations u = st_mutations s)
     \<and> st_evidence s' = st_evidence s \<and> st_consumptions s' = st_consumptions s"

lemma insert_member_fields [simp]:
  "st_objects (insert_member g c s) = st_objects s" "st_revisions (insert_member g c s) = st_revisions s"
  "st_admissions (insert_member g c s) = st_admissions s" "st_groups (insert_member g c s) = st_groups s"
  "st_mutations (insert_member g c s) = st_mutations s" "st_evidence (insert_member g c s) = st_evidence s"
  "st_consumptions (insert_member g c s) = st_consumptions s" "st_links (insert_member g c s) = st_links s"
  by (simp_all add: insert_member_def)

lemma insert_member_frame: "extends s (insert_member g c s)" "(g, c) \<in> set (st_members (insert_member g c s))"
  by (auto simp: insert_member_def extends_def)

lemma open_conflict_opened:
  assumes "open_conflict v q s = Inr (r, s')"
  shows "conflict_opened v q r s s'"
proof -
  from assms obtain cc where cc: "current_candidate s (memory_id (xo_memory q)) (revision_id (xo_current q)) = Some cc"
    by (auto simp: open_conflict_def Let_def split: option.splits)
  let ?s2 = "\<lambda>g s1. insert_member g (xo_candidate_id q) (insert_member g cc s1)"
  let ?fx = "\<lparr>fx_cause_id = xo_idempotency_key q, fx_memory_id = memory_id (xo_memory q),
    fx_revision_id = revision_id (xo_current q), fx_principal = xo_who q, fx_scope = xo_scope q,
    fx_occurred_at = xo_requested_at q\<rparr>"
  from assms cc obtain g s1 s3 j1 s4 j2 s5 where g: "conflict_group_for v q s = Inr (g, s1)"
    and l: "link_candidate (xo_candidate_id q) (memory_id (xo_memory q)) None (xo_requested_at q) (?s2 g s1) = Inr s3"
    and j1: "insert_outbox v ''fts_memory_invalidate'' (memory_id (xo_memory q)) (xo_requested_at q) s3 = Inr (j1, s4)"
    and j2: "suppress_in_store v ?fx s4 = Inr (j2, s5)"
    and seal: "seal_mutation v
        ((plain_seal (xo_idempotency_key q) (xo_request_hash q) (xo_who q) (xo_scope q) (xo_requested_at q) Conflict
            (xo_candidate_id q) (memory_id (xo_memory q)) (revision_id (xo_current q)) (mem_lifecycle (xo_memory q)) None)
           \<lparr>sq_conflict_group_id := Some g, sq_projection_jobs := [j1, j2],
            sq_warnings := [''OPEN_CONFLICT'']\<rparr>) s5 = Inr (r, s')"
    unfolding open_conflict_def Let_def cc option.case by (elim bindE_InrE2 bindE_InrE) (rule that; assumption)
  from conflict_group_for_Inr [OF g] obtain gs where s1: "s1 = s\<lparr>st_groups := st_groups s @ gs\<rparr>"
    and grp: "\<exists>x \<in> set (st_groups s1). gr_conflict_group_id x = g \<and> gr_open x \<and> gr_principal x = xo_who q
        \<and> gr_scope x = xo_scope q \<and> gr_logical_key_hash x = xo_logical_hash q" by auto
  have j: "jobs_only s3 s5"
    using insert_outbox_jobs [OF j1] suppress_jobs [OF j2] by (rule jobs_only_trans)
  have sealed: "sealed v (xo_idempotency_key q) (xo_request_hash q) (xo_who q, xo_scope q) r s5 s'"
    using seal_mutation_sealed [OF seal] by (simp add: plain_seal_def)
  have "extends s s1" by (simp add: s1 extends_def)
  also have "extends s1 (?s2 g s1)"
    by (rule extends_trans [OF insert_member_frame(1) insert_member_frame(1)])
  also have "extends (?s2 g s1) s3" by (rule link_frame(2) [OF l])
  also have "extends s3 s5" by (rule jobs_extends [OF j])
  also have "extends s5 s'" by (rule sealed_extends [OF sealed])
  finally have "extends s s'" .
  moreover have "same_memories s s'" "st_mutations s5 = st_mutations s" "st_evidence s' = st_evidence s"
    "st_consumptions s' = st_consumptions s" "st_groups s' = st_groups s1"
    "st_members s' = st_members (?s2 g s1)"
    using sealed jobs_only_fields [OF j] l by (auto simp: s1 sealed_def link_candidate_Inr same_memories_def)
  moreover have "result_names r Conflict (memory_id (xo_memory q)) (revision_id (xo_current q))
      (mem_lifecycle (xo_memory q)) None" "mu_conflict_group_id r = Some g"
    using seal_mutation_Inr(2-7) [OF seal] by (simp_all add: plain_seal_def result_names_def)
  ultimately show ?thesis
    using grp sealed insert_member_frame(2) [of g "xo_candidate_id q" "insert_member g cc s1"]
    unfolding conflict_opened_def by auto
qed

end
