(* ===== verification/Interfaces.thy ===== *)
theory Interfaces
  imports Prelude
begin

text \<open>
  The contracts that several repositories share. A transition system with an invariant; a command
  that is idempotent by key: its receipt is recorded with its effect, a failure changes nothing, and
  a key that is already recorded is answered from the record.
\<close>

locale ledger_system =
  fixes start :: "'s \<Rightarrow> bool"
    and step :: "'s \<Rightarrow> 's \<Rightarrow> bool"
    and inv :: "'s \<Rightarrow> bool"
  assumes start_inv: "start s \<Longrightarrow> inv s"
    and step_inv: "inv s \<Longrightarrow> step s t \<Longrightarrow> inv t"
begin

lemma steps_inv: "step\<^sup>*\<^sup>* s t \<Longrightarrow> inv s \<Longrightarrow> inv t"
  by (induction rule: rtranclp_induct) (auto intro: step_inv)

lemma reached_inv: "start s \<Longrightarrow> step\<^sup>*\<^sup>* s t \<Longrightarrow> inv t"
  by (blast intro: steps_inv start_inv)

end

locale idempotent_command = ledger_system start step inv
  for start :: "'s \<Rightarrow> bool" and step :: "'s \<Rightarrow> 's \<Rightarrow> bool" and inv :: "'s \<Rightarrow> bool" +
  fixes run :: "'c \<Rightarrow> 's \<Rightarrow> ('e + 'r) \<times> 's"
    and key :: "'c \<Rightarrow> 'k"
    and recorded :: "'s \<Rightarrow> 'k \<Rightarrow> 'm option"
    and replay :: "'c \<Rightarrow> 'm \<Rightarrow> 'e + 'r"
    and admissible :: "'c \<Rightarrow> bool"
    and preview :: "'r \<Rightarrow> bool"
    and marked :: "'r \<Rightarrow> 'r"
  assumes run_step: "admissible c \<Longrightarrow> step s (snd (run c s))"
    and kept: "step s t \<Longrightarrow> recorded s k = Some m \<Longrightarrow> recorded t k = Some m"
    and failed: "run c s = (Inl e, t) \<Longrightarrow> t = s"
    and repeated: "recorded s (key c) = Some m \<Longrightarrow> run c s = (replay c m, s)"
    and recording: "inv s \<Longrightarrow> run c s = (Inr r, t) \<Longrightarrow> \<not> preview r \<Longrightarrow>
      \<exists>m. recorded t (key c) = Some m \<and> replay c m = Inr (marked r)"
begin

lemma kept_steps: "step\<^sup>*\<^sup>* s t \<Longrightarrow> recorded s k = Some m \<Longrightarrow> recorded t k = Some m"
  by (induction rule: rtranclp_induct) (auto intro: kept)

lemma retry_replays:
  assumes "inv s" and "run c s = (Inr r, t)" and "\<not> preview r" and "step\<^sup>*\<^sup>* t u"
  shows "run c u = (Inr (marked r), u)"
proof -
  obtain m where "recorded t (key c) = Some m" and r: "replay c m = Inr (marked r)"
    using recording [OF assms(1-3)] by blast
  then have "recorded u (key c) = Some m"
    using kept_steps [OF assms(4)] by blast
  then show ?thesis
    using repeated r by auto
qed

lemma other_with_same_key:
  assumes "inv s" and "run c s = (Inr r, t)" and "\<not> preview r" and "step\<^sup>*\<^sup>* t u" and "key d = key c"
  shows "\<exists>m. recorded t (key c) = Some m \<and> run d u = (replay d m, u)"
  using recording [OF assms(1-3)] kept_steps [OF assms(4)] repeated [of u d] assms(5) by metis

end

end
