(* ===== verification/GovernanceCommands.thy ===== *)
theory GovernanceCommands
  imports GovernanceInvariant Interfaces
begin

text \<open>
  Inversion of the commands: \<open>admitMemory\<close> creates, reuses or opens a conflict, \<open>applyMemoryRevision\<close>
  previews, reuses or revises, a learning release adds one revision; each with what it does to the
  tables. Then the ledger as a transition system: a step is a command or the arrival of new evidence.
\<close>

subsection \<open>Admission\<close>

definition admit_options ::
  "'g governance_env \<Rightarrow> admit_command \<Rightarrow> string \<Rightarrow> evidence_row list \<Rightarrow> create_options" where
  "admit_options v cmd h es =
     \<lparr>co_idempotency_key = ac_idempotency_key cmd, co_request_hash = h,
      co_actor = actor_claim (ac_envelope cmd), co_requested_at = requested_at (ac_envelope cmd),
      co_candidate = ac_candidate cmd, co_evidence = es,
      co_logical_hash = key_hash v (logical_key (ac_candidate cmd)),
      co_decision = evl_decision (ac_evaluation cmd), co_reason = evl_reason (ac_evaluation cmd),
      co_outcome = Created, co_supersedes = None, co_revision_number = 1, co_existing = None\<rparr>"

definition admit_key :: "'g governance_env \<Rightarrow> admit_command \<Rightarrow> string \<times> scope \<times> memory_kind \<times> string" where
  "admit_key v cmd = (claim_principal_id (actor_claim (ac_envelope cmd)), cand_scope (ac_candidate cmd),
     cand_kind (ac_candidate cmd), key_hash v (logical_key (ac_candidate cmd)))"

text \<open>A reused memory: one more candidate link and a receipt.\<close>

definition reused ::
  "'g governance_env \<Rightarrow> ustring \<Rightarrow> string \<Rightarrow> string \<times> scope \<Rightarrow> string \<Rightarrow> object_row \<Rightarrow> revision_row
     \<Rightarrow> mutation_result \<Rightarrow> 'g store \<Rightarrow> 'g store \<Rightarrow> bool" where
  "reused v key h owner cid m r res s s' \<longleftrightarrow> same_memories s s' \<and> extends s s'
     \<and> (\<exists>u. sealed v key h owner res u s' \<and> st_mutations u = st_mutations s)
     \<and> (\<exists>d. read_admission s (revision_id r) = Inr d
          \<and> result_names res Reused (memory_id m) (revision_id r) (mem_lifecycle m) (Some d))
     \<and> (\<exists>l \<in> set (st_links s'). lk_candidate_id l = cid \<and> lk_memory_id l = memory_id m
          \<and> lk_revision_id l = Some (revision_id r))
     \<and> st_consumptions s' = st_consumptions s"

lemma read_admission_same: "same_memories s s' \<Longrightarrow> read_admission s' i = read_admission s i"
  by (simp add: read_admission_def same_memories_def)

lemma read_revision_same: "same_memories s s' \<Longrightarrow> read_revision s' i = read_revision s i"
  by (simp add: read_revision_def same_memories_def)

lemma read_revision_Inr: "read_revision s i = Inr r \<Longrightarrow> r \<in> set (st_revisions s) \<and> revision_id r = i"
  by (auto simp: read_revision_def split: option.splits dest!: find_Some_mem)

lemma link_seal_reused:
  assumes "link_candidate cid (memory_id m) (Some (revision_id r)) now s = Inr s2"
    and "read_admission s2 (revision_id r) = Inr d"
    and "seal_mutation v (plain_seal key h who sc now Reused cid (memory_id m) (revision_id r)
           (mem_lifecycle m) (Some d)) s2 = Inr (res, s')"
  shows "reused v key h (who, sc) cid m r res s s'"
proof -
  note l = link_frame [OF assms(1)]
  have seal: "sealed v key h (who, sc) res s2 s'"
    using seal_mutation_sealed [OF assms(3)] by (simp add: plain_seal_def)
  have "same_memories s s'" "extends s s'"
    using l(1,2) sealed_frame(1,2) [OF seal] by (blast intro: same_memories_trans extends_trans)+
  moreover have "result_names res Reused (memory_id m) (revision_id r) (mem_lifecycle m) (Some d)"
    using seal_mutation_Inr(2-6) [OF assms(3)] by (simp add: plain_seal_def result_names_def)
  moreover have "st_links s' = st_links s2" "st_consumptions s' = st_consumptions s2"
    using sealed_frame [OF seal] by simp_all
  ultimately show ?thesis
    using assms(1,2) l seal read_admission_same [OF l(1)]
    unfolding reused_def by (auto simp: link_candidate_Inr)
qed

lemma reused_frame: "reused v key h w c m r res s s' \<Longrightarrow> same_memories s s' \<and> extends s s'"
  by (simp add: reused_def)

lemma admit_effect_Inr:
  assumes "admit_effect v cmd h s = Inr (res, s')" and "read_mutation s (ac_idempotency_key cmd) = None"
  obtains es s1 where
    "validate_candidate v s (ac_candidate cmd) (claim_principal_id (actor_claim (ac_envelope cmd)))
       (evl_decision (ac_evaluation cmd)) = Inr es"
    "insert_candidate v (ac_candidate cmd) (claim_principal_id (actor_claim (ac_envelope cmd))) es s = Inr s1"
    "List.find (\<lambda>m. object_key m = admit_key v cmd) (st_objects s) = None
       \<and> create_memory v (admit_options v cmd h es) s1 = Inr (res, s')
     \<or> (\<exists>m r. m \<in> set (st_objects s) \<and> object_key m = admit_key v cmd \<and> r \<in> set (st_revisions s)
          \<and> current_revision_id m = Some (revision_id r)
          \<and> (rev_content_hash r = cand_content_hash (ac_candidate cmd)
               \<and> reused v (ac_idempotency_key cmd) h
                   (claim_principal_id (actor_claim (ac_envelope cmd)), cand_scope (ac_candidate cmd))
                   (candidate_id (ac_candidate cmd)) m r res s1 s'
             \<or> rev_content_hash r \<noteq> cand_content_hash (ac_candidate cmd)
               \<and> conflict_opened v
                   \<lparr>xo_idempotency_key = ac_idempotency_key cmd, xo_request_hash = h,
                    xo_who = claim_principal_id (actor_claim (ac_envelope cmd)),
                    xo_requested_at = requested_at (ac_envelope cmd),
                    xo_candidate_id = candidate_id (ac_candidate cmd), xo_memory = m, xo_current = r,
                    xo_logical_hash = key_hash v (logical_key (ac_candidate cmd)),
                    xo_scope = cand_scope (ac_candidate cmd)\<rparr> res s1 s'))"
proof -
  let ?who = "claim_principal_id (actor_claim (ac_envelope cmd))" and ?c = "ac_candidate cmd"
  from assms obtain es where es: "validate_candidate v s ?c ?who (evl_decision (ac_evaluation cmd)) = Inr es"
    by (auto simp: admit_effect_def Let_def run_inv)
  from assms es obtain s1 where s1: "insert_candidate v ?c ?who es s = Inr s1"
    by (auto simp: admit_effect_def Let_def run_inv)
  have same: "st_objects s1 = st_objects s" "st_revisions s1 = st_revisions s"
    using candidate_frame(1) [OF s1] by (simp_all add: same_memories_def)
  have key: "(?who, cand_scope ?c, cand_kind ?c, key_hash v (logical_key ?c)) = admit_key v cmd"
    by (simp add: admit_key_def)
  show thesis
  proof (cases "List.find (\<lambda>m. object_key m = admit_key v cmd) (st_objects s)")
    case None
    with assms es s1 have "create_memory v (admit_options v cmd h es) s1 = Inr (res, s')"
      by (simp add: admit_effect_def Let_def key same admit_options_def)
    then show thesis
      using None es s1 that by blast
  next
    case (Some m)
    then have m: "m \<in> set (st_objects s)" "object_key m = admit_key v cmd"
      by (auto dest: find_Some_mem)
    from assms es s1 Some obtain rid r where r: "current_revision_id m = Some rid" "read_revision s1 rid = Inr r"
      by (auto simp: admit_effect_def Let_def key same run_inv split: option.splits)
    then have r': "r \<in> set (st_revisions s)" "revision_id r = rid"
      using read_revision_Inr same by fastforce+
    show thesis
    proof (cases "rev_content_hash r = cand_content_hash ?c")
      case True
      with assms es s1 Some r obtain s2 rd where
        "link_candidate (candidate_id ?c) (memory_id m) (Some (revision_id r)) (requested_at (ac_envelope cmd)) s1 = Inr s2"
        "read_admission s2 (revision_id r) = Inr rd"
        "seal_mutation v (plain_seal (ac_idempotency_key cmd) h ?who (cand_scope ?c)
            (requested_at (ac_envelope cmd)) Reused (candidate_id ?c) (memory_id m) (revision_id r)
            (mem_lifecycle m) (Some rd)) s2 = Inr (res, s')"
        by (auto simp: admit_effect_def Let_def key same run_inv)
      from link_seal_reused [OF this] show thesis
        using True m r r' es s1 by (intro that [of es s1]) auto
    next
      case False
      with assms es s1 Some r have "open_conflict v
          \<lparr>xo_idempotency_key = ac_idempotency_key cmd, xo_request_hash = h, xo_who = ?who,
           xo_requested_at = requested_at (ac_envelope cmd), xo_candidate_id = candidate_id ?c,
           xo_memory = m, xo_current = r, xo_logical_hash = key_hash v (logical_key ?c),
           xo_scope = cand_scope ?c\<rparr> s1 = Inr (res, s')"
        by (simp add: admit_effect_def Let_def key same)
      from open_conflict_opened [OF this] show thesis
        using False m r r' es s1 by (intro that [of es s1]) auto
    qed
  qed
qed

lemma admit_frame:
  assumes "admit_effect v cmd h s = Inr (res, s')" and "read_mutation s (ac_idempotency_key cmd) = None"
  shows "(memories_ok s \<longrightarrow> memories_ok s') \<and> extends s s'"
  using assms
proof (rule admit_effect_Inr)
  fix es s1
  assume s1: "insert_candidate v (ac_candidate cmd) (claim_principal_id (actor_claim (ac_envelope cmd))) es s = Inr s1"
  note f = candidate_frame [OF s1]
  have mono: "(memories_ok s1 \<longrightarrow> memories_ok s') \<and> extends s1 s' \<Longrightarrow> ?thesis"
    using f same_memories_ok extends_trans by blast
  assume "List.find (\<lambda>m. object_key m = admit_key v cmd) (st_objects s) = None
       \<and> create_memory v (admit_options v cmd h es) s1 = Inr (res, s')
     \<or> (\<exists>m r. m \<in> set (st_objects s) \<and> object_key m = admit_key v cmd \<and> r \<in> set (st_revisions s)
          \<and> current_revision_id m = Some (revision_id r)
          \<and> (rev_content_hash r = cand_content_hash (ac_candidate cmd)
               \<and> reused v (ac_idempotency_key cmd) h
                   (claim_principal_id (actor_claim (ac_envelope cmd)), cand_scope (ac_candidate cmd))
                   (candidate_id (ac_candidate cmd)) m r res s1 s'
             \<or> rev_content_hash r \<noteq> cand_content_hash (ac_candidate cmd)
               \<and> conflict_opened v
                   \<lparr>xo_idempotency_key = ac_idempotency_key cmd, xo_request_hash = h,
                    xo_who = claim_principal_id (actor_claim (ac_envelope cmd)),
                    xo_requested_at = requested_at (ac_envelope cmd),
                    xo_candidate_id = candidate_id (ac_candidate cmd), xo_memory = m, xo_current = r,
                    xo_logical_hash = key_hash v (logical_key (ac_candidate cmd)),
                    xo_scope = cand_scope (ac_candidate cmd)\<rparr> res s1 s'))" (is "?new \<or> ?old")
  then show ?thesis
  proof
    assume new: ?new
    have "extends s1 s'"
      using create_memory_first(1) [of v "admit_options v cmd h es"] new
      by (intro created_extends) (auto simp: admit_options_def)
    then show ?thesis
      using create_first_memories [of v "admit_options v cmd h es" s1 res s'] new
      by (intro mono) (auto simp: admit_options_def)
  next
    assume ?old
    then have "same_memories s1 s' \<and> extends s1 s'"
      by (auto simp: reused_def conflict_opened_def)
    then show ?thesis
      using mono same_memories_ok by blast
  qed
qed

subsection \<open>Revision\<close>

definition revise_options ::
  "'g governance_env \<Rightarrow> revision_command \<Rightarrow> string \<Rightarrow> evidence_row list \<Rightarrow> object_row \<Rightarrow> revision_row
     \<Rightarrow> create_options" where
  "revise_options v c h es m r =
     \<lparr>co_idempotency_key = rc_idempotency_key c, co_request_hash = h, co_actor = rc_actor c,
      co_requested_at = rc_requested_at c, co_candidate = rc_candidate c, co_evidence = es,
      co_logical_hash = key_hash v (logical_key (rc_candidate c)),
      co_decision = evl_decision (rc_evaluation c), co_reason = evl_reason (rc_evaluation c),
      co_outcome = Revised, co_supersedes = Some r, co_revision_number = revision_no r + 1,
      co_existing = Some m\<rparr>"

lemma revisable_object_Inr:
  assumes "revisable_object v c s = Inr m"
  shows "m \<in> set (st_objects s)" "memory_id m = rc_memory_id c"
    "current_revision_id m = Some (rc_expected_revision_id c)"
    "obr_principal m = claim_principal_id (rc_actor c)" "mem_scope m = rc_scope c"
    "mem_kind m = cand_kind (rc_candidate c)"
    "obr_logical_key_hash m = key_hash v (logical_key (rc_candidate c))"
    "open_groups s (claim_principal_id (rc_actor c)) (rc_scope c)
       (key_hash v (logical_key (rc_candidate c))) = []"
  using assms
  by (auto simp: revisable_object_def find_object_def run_inv split: option.splits dest!: find_Some_mem)

lemma correction_evidence_frame:
  assumes "insert_correction_evidence v c s = Inr s'"
  shows "same_memories s s'" "extends s s'" "st_mutations s' = st_mutations s"
    "st_consumptions s' = st_consumptions s" "rc_correction_evidence c = None \<Longrightarrow> s' = s"
  using assms
  by (auto simp: insert_correction_evidence_def same_memories_def extends_def split: option.splits if_splits)

lemma consume_Inr:
  assumes "consume_revision_approval c h r s = Inr s'"
  shows "\<exists>cs. s' = s\<lparr>st_consumptions := st_consumptions s @ cs\<rparr>
    \<and> (case (rc_approval c, rc_approval_binding c) of
         (Some a, Some b) \<Rightarrow> map cn_approval_id cs = [grant_approval_id (va_grant a)]
           \<and> map cn_request_hash cs = [h] \<and> map cn_tool cs = [bind_tool b]
           \<and> map cn_receipt_id cs = [mx_receipt_id (mu_receipt r)]
           \<and> grant_approval_id (va_grant a) \<notin> cn_approval_id ` set (st_consumptions s)
       | _ \<Rightarrow> cs = [])"
proof (cases "rc_approval c")
  case None
  then have "rc_approval_binding c = None" "s' = s"
    using assms by (auto simp: consume_revision_approval_def split: option.splits)
  then show ?thesis
    using None by (intro exI [of _ "[]"]) simp
next
  case (Some a)
  then obtain b where "rc_approval_binding c = Some b"
    using assms by (auto simp: consume_revision_approval_def split: option.splits)
  then show ?thesis
    using assms Some by (auto simp: consume_revision_approval_def Let_def split: if_splits)
qed

lemma consume_frame:
  assumes "sealed_with_approval c h (r, s) = Inr (res, s')"
  shows "res = r" "same_memories s s'" "extends s s'" "st_mutations s' = st_mutations s"
proof -
  from assms have "consume_revision_approval c h r s = Inr s'" "res = r"
    by (auto simp: sealed_with_approval_def run_inv)
  from consume_Inr [OF this(1)] this(2) show "res = r" "same_memories s s'" "extends s s'"
    "st_mutations s' = st_mutations s"
    by (auto simp: same_memories_def extends_def)
qed

text \<open>The three ways in which a revision command succeeds.\<close>

lemma revision_effect_Inr:
  assumes "revision_effect v c h s = Inr (res, s')" and "read_mutation s (rc_idempotency_key c) = None"
  obtains m r s1 es where
    "validate_revision_approval v c h s = Inr ()" "revisable_object v c s = Inr m"
    "revalidate_impact v c s = Inr ()"
    "insert_correction_evidence v c s = Inr s1"
    "validate_candidate v s1 (rc_candidate c) (claim_principal_id (rc_actor c)) (evl_decision (rc_evaluation c)) = Inr es"
    "r \<in> set (st_revisions s)" "revision_id r = rc_expected_revision_id c"
    "rc_dry_run c \<and> s' = s1 \<and> mu_outcome res = Dry_run
     \<or> \<not> rc_dry_run c \<and> (\<exists>s2 t. insert_candidate v (rc_candidate c) (claim_principal_id (rc_actor c)) es s1 = Inr s2
         \<and> sealed_with_approval c h (res, t) = Inr (res, s')
         \<and> (rev_content_hash r = cand_content_hash (rc_candidate c)
              \<and> reused v (rc_idempotency_key c) h (claim_principal_id (rc_actor c), rc_scope c)
                  (candidate_id (rc_candidate c)) m r res s2 t
            \<or> rev_content_hash r \<noteq> cand_content_hash (rc_candidate c)
              \<and> create_memory v (revise_options v c h es m r) s2 = Inr (res, t)))"
proof -
  let ?who = "claim_principal_id (rc_actor c)" and ?c = "rc_candidate c" and ?d = "evl_decision (rc_evaluation c)"
  from assms obtain m s1 es r where
    pre: "validate_revision_approval v c h s = Inr ()" "revisable_object v c s = Inr m"
      "revalidate_impact v c s = Inr ()" "insert_correction_evidence v c s = Inr s1"
      "validate_candidate v s1 ?c ?who ?d = Inr es" "read_revision s1 (rc_expected_revision_id c) = Inr r"
    by (auto simp: revision_effect_def Let_def run_inv)
  have r: "r \<in> set (st_revisions s)" "revision_id r = rc_expected_revision_id c"
    using read_revision_Inr [OF pre(6)] correction_evidence_frame(1) [OF pre(4)]
    by (simp_all add: same_memories_def)
  have mid: "memory_id m = rc_memory_id c"
    by (rule revisable_object_Inr(2) [OF pre(2)])
  show thesis
  proof (cases "rc_dry_run c")
    case True
    with assms pre have "seal_mutation v ((plain_seal (rc_idempotency_key c) h ?who (rc_scope c)
         (rc_requested_at c) Dry_run (candidate_id ?c)
         (rc_memory_id c) (revision_id r) (mem_lifecycle m) (Some ?d))
         \<lparr>sq_warnings := [''DRY_RUN''], sq_advance_epoch := False\<rparr>) s1 = Inr (res, s')"
      by (simp add: revision_effect_def Let_def)
    from seal_mutation_dry [OF this] show thesis
      using that [OF pre(1-5) r] True by (simp add: plain_seal_def)
  next
    case False
    with assms pre obtain s2 where s2: "insert_candidate v ?c ?who es s1 = Inr s2"
      by (auto simp: revision_effect_def Let_def run_inv)
    show thesis
    proof (cases "rev_content_hash r = cand_content_hash ?c")
      case True
      with assms pre False s2 obtain s3 rd res' t where
        l: "link_candidate (candidate_id ?c) (memory_id m) (Some (revision_id r)) (rc_requested_at c) s2 = Inr s3"
        "read_admission s3 (revision_id r) = Inr rd"
        "seal_mutation v (plain_seal (rc_idempotency_key c) h ?who (rc_scope c) (rc_requested_at c) Reused
           (candidate_id ?c) (memory_id m) (revision_id r) (mem_lifecycle m) (Some rd)) s3 = Inr (res', t)"
        and w: "sealed_with_approval c h (res', t) = Inr (res, s')"
        by (auto simp: revision_effect_def Let_def run_inv mid)
      from w have "res' = res" by (auto dest: consume_frame)
      with link_seal_reused [OF l] w show thesis
        using that [OF pre(1-5) r] True False s2 by blast
    next
      case no: False
      with assms pre False s2 obtain res' t where
        cm: "create_memory v (revise_options v c h es m r) s2 = Inr (res', t)"
        and w: "sealed_with_approval c h (res', t) = Inr (res, s')"
        by (auto simp: revision_effect_def Let_def run_inv revise_options_def)
      from w have "res' = res" by (auto dest: consume_frame)
      with cm w show thesis
        using that [OF pre(1-5) r] no False s2 by blast
    qed
  qed
qed

lemma revise_frame:
  assumes "revision_effect v c h s = Inr (res, s')" and "read_mutation s (rc_idempotency_key c) = None"
    and scope: "rc_scope c = cand_scope (rc_candidate c)"
  shows "(memories_ok s \<longrightarrow> memories_ok s') \<and> extends s s'"
  using assms(1,2)
proof (rule revision_effect_Inr)
  fix m r s1 es
  assume m: "revisable_object v c s = Inr m" and s1: "insert_correction_evidence v c s = Inr s1"
    and r: "r \<in> set (st_revisions s)" "revision_id r = rc_expected_revision_id c"
    and alt: "rc_dry_run c \<and> s' = s1 \<and> mu_outcome res = Dry_run
     \<or> \<not> rc_dry_run c \<and> (\<exists>s2 t. insert_candidate v (rc_candidate c) (claim_principal_id (rc_actor c)) es s1 = Inr s2
         \<and> sealed_with_approval c h (res, t) = Inr (res, s')
         \<and> (rev_content_hash r = cand_content_hash (rc_candidate c)
              \<and> reused v (rc_idempotency_key c) h (claim_principal_id (rc_actor c), rc_scope c)
                  (candidate_id (rc_candidate c)) m r res s2 t
            \<or> rev_content_hash r \<noteq> cand_content_hash (rc_candidate c)
              \<and> create_memory v (revise_options v c h es m r) s2 = Inr (res, t)))"
      (is "?dry \<or> _")
  note f1 = correction_evidence_frame [OF s1]
  show ?thesis
  proof (cases ?dry)
    case True
    then show ?thesis
      using f1 same_memories_ok by blast
  next
    case False
    with alt obtain s2 t where s2: "insert_candidate v (rc_candidate c) (claim_principal_id (rc_actor c)) es s1 = Inr s2"
      and w: "sealed_with_approval c h (res, t) = Inr (res, s')"
      and or: "reused v (rc_idempotency_key c) h (claim_principal_id (rc_actor c), rc_scope c)
                  (candidate_id (rc_candidate c)) m r res s2 t
            \<or> create_memory v (revise_options v c h es m r) s2 = Inr (res, t)" by blast
    note f2 = candidate_frame [OF s2] and f3 = consume_frame [OF w]
    have same: "same_memories s s2" and ext: "extends s s2"
      using f1 f2 by (blast intro: same_memories_trans extends_trans)+
    have "(memories_ok s2 \<longrightarrow> memories_ok t) \<and> extends s2 t"
      using or
    proof
      assume "reused v (rc_idempotency_key c) h (claim_principal_id (rc_actor c), rc_scope c)
                  (candidate_id (rc_candidate c)) m r res s2 t"
      then show ?thesis
        using reused_frame same_memories_ok by blast
    next
      assume cm: "create_memory v (revise_options v c h es m r) s2 = Inr (res, t)"
      have q: "co_existing (revise_options v c h es m r) = Some m"
        "co_supersedes (revise_options v c h es m r) = Some r"
        by (simp_all add: revise_options_def)
      from create_memory_next [OF cm q(1)] obtain objs where
        "created v (revise_options v c h es m r) objs res s2 t"
        "map object_key objs = map object_key (st_objects s2)" "map memory_id objs = map memory_id (st_objects s2)"
        by (auto simp: comp_def)
      then have "extends s2 t" by (metis created_extends prefix_order.order_refl)
      moreover have "memories_ok s2 \<longrightarrow> memories_ok t"
        using create_next_memories [OF cm q] revisable_object_Inr [OF m] r same scope
        by (auto simp: revise_options_def same_memories_def)
      ultimately show ?thesis by simp
    qed
    then show ?thesis
      using same same_memories_ok [OF same] ext f3(2,3) same_memories_ok [OF f3(2)] extends_trans by blast
  qed
qed

subsection \<open>Learning releases\<close>

definition learning_revision ::
  "'g governance_env \<Rightarrow> learning_effect \<Rightarrow> revision_row \<Rightarrow> string \<Rightarrow> nat \<Rightarrow> revision_row" where
  "learning_revision v q src old n =
     src\<lparr>revision_id := learning_revision_id v (le_release_id q) (rev_memory_id src) (revision_id src),
       revision_no := n, abstraction := L1_memory, rev_lifecycle := learning_lifecycle q (rev_lifecycle src),
       derived_from := [], supersedes := Some old, rvr_created_at := le_activated_at q\<rparr>"

definition learning_admission_row ::
  "'g governance_env \<Rightarrow> learning_effect \<Rightarrow> revision_row \<Rightarrow> admission_decision" where
  "learning_admission_row v q src = admission_row v (rev_memory_id src)
     (learning_revision_id v (le_release_id q) (rev_memory_id src) (revision_id src)) (le_candidate_id q)
     \<lparr>claim_principal_id = le_principal q, claim_authority = rev_authority src\<rparr> (le_activated_at q)
     (learning_admission (learning_lifecycle q (rev_lifecycle src)))
     (code_points (if le_rollback q
        then ''Governed learning rollback restored canonical behavior.''
        else ''Governed learning release activated a canonical successor.'')) True"

definition next_revision :: "'g store \<Rightarrow> string \<Rightarrow> nat" where
  "next_revision s mid = Max (set (map revision_no (filter (\<lambda>r. rev_memory_id r = mid) (st_revisions s)))) + 1"

lemma write_learning_revision_Inr:
  fixes q src old
  assumes "write_learning_revision v q src old s = Inr s'"
  defines "R \<equiv> learning_revision v q src old (next_revision s (rev_memory_id src))"
  shows "\<exists>st. s' = s\<lparr>st_revisions := st_revisions s @ [R],
      st_objects := map (moved (rev_memory_id src) old (revision_id R) (rev_lifecycle R) (le_activated_at q)) (st_objects s),
      st_admissions := st_admissions s @ [learning_admission_row v q src],
      st_statuses := st_statuses s @ st\<rparr>"
    and "revision_id R \<notin> revision_id ` set (st_revisions s)"
proof -
  let ?mid = "rev_memory_id src" and ?now = "le_activated_at q"
  let ?rid = "learning_revision_id v (le_release_id q) ?mid (revision_id src)"
  let ?lc = "learning_lifecycle q (rev_lifecycle src)"
  let ?actor = "\<lparr>claim_principal_id = le_principal q, claim_authority = rev_authority src\<rparr>"
  have R: "revision_id R = ?rid" "rev_lifecycle R = ?lc"
    by (simp_all add: R_def learning_revision_def)
  from assms(1) obtain s1 s2 s3 s4 where
    s1: "insert_revision_row R s = Inr s1" and
    s2: "move_current ?mid old ?rid ?lc ?now s1 = Inr s2" and
    s3: "insert_admission v ?mid ?rid (le_candidate_id q) ?actor ?now (learning_admission ?lc)
      (code_points (if le_rollback q
        then ''Governed learning rollback restored canonical behavior.''
        else ''Governed learning release activated a canonical successor.'')) True s2 = Inr s3" and
    s4: "insert_status v ?mid old Act_suppress Superseded ?actor
      (code_points ''A governed learning release superseded this revision.'') ?now s3 = Inr s4" and
    s': "(if ?lc \<noteq> Quarantined then insert_status v ?mid ?rid
        (if ?lc = Active then Act_activate else Act_demote) ?lc ?actor
        (code_points (if le_rollback q then ''Governed learning rollback.''
           else ''Governed learning release.'')) ?now s4 else Inr s4) = Inr s'"
    unfolding write_learning_revision_def Let_def
    by (elim bindE_InrE) (rule that; (assumption | simp only: R_def learning_revision_def next_revision_def))
  from insert_status_Inr [OF s4] obtain e where e: "s4 = s3\<lparr>st_statuses := st_statuses s3 @ [e]\<rparr>" by blast
  have "\<exists>st. s' = s4\<lparr>st_statuses := st_statuses s4 @ st\<rparr>"
  proof (cases "?lc = Quarantined")
    case True
    then show ?thesis using s' by (intro exI [of _ "[]"]) simp
  next
    case False
    with s' obtain act why where "insert_status v ?mid ?rid act ?lc ?actor why ?now s4 = Inr s'" by auto
    from insert_status_Inr [OF this] show ?thesis by blast
  qed
  then obtain st where "s' = s4\<lparr>st_statuses := st_statuses s4 @ st\<rparr>" ..
  then have "s' = s\<lparr>st_revisions := st_revisions s @ [R],
      st_objects := map (moved ?mid old ?rid ?lc ?now) (st_objects s),
      st_admissions := st_admissions s @ [learning_admission_row v q src],
      st_statuses := st_statuses s @ (e # st)\<rparr>"
    using s1 s2 s3 by (simp add: insert_revision_row_Inr move_current_Inr insert_admission_Inr
      learning_admission_row_def e)
  then show "\<exists>st. s' = s\<lparr>st_revisions := st_revisions s @ [R],
      st_objects := map (moved (rev_memory_id src) old (revision_id R) (rev_lifecycle R) (le_activated_at q)) (st_objects s),
      st_admissions := st_admissions s @ [learning_admission_row v q src],
      st_statuses := st_statuses s @ st\<rparr>" unfolding R ..
  show "revision_id R \<notin> revision_id ` set (st_revisions s)"
    using s1 by (simp add: insert_revision_row_Inr)
qed

lemma learning_lifecycle_decided [simp]:
  "lifecycle_for (learning_admission (learning_lifecycle q lc)) = learning_lifecycle q lc"
  by (simp add: learning_admission_def learning_lifecycle_def)

lemma next_revision_current:
  assumes "tables_ok (st_objects s) (st_revisions s) adms" and "m \<in> set (st_objects s)"
    and "current_revision_id m = Some (revision_id r)" "r \<in> set (st_revisions s)"
  shows "next_revision s (memory_id m) = revision_no r + 1"
proof -
  note D = tables_okD [OF assms(1)]
  from D(6) [OF assms(2)] obtain c where c: "c \<in> set (st_revisions s)" "current_revision_id m = Some (revision_id c)"
    "rev_memory_id c = memory_id m"
    "\<forall>x \<in> set (st_revisions s). rev_memory_id x = memory_id m \<longrightarrow> revision_no x \<le> revision_no c"
    by (auto simp: current_ok_def)
  have "c = r"
    using c(1,2) assms(3,4) D(3) by (metis distinct_map inj_onD option.inject)
  then have "Max (revision_no ` {x \<in> set (st_revisions s). rev_memory_id x = memory_id m}) = revision_no r"
    using c by (intro Max_eqI) auto
  then show ?thesis
    by (simp add: next_revision_def)
qed

definition learning_jobs :: "string \<Rightarrow> learning_effect \<Rightarrow> revision_row \<Rightarrow> projection_effect" where
  "learning_jobs old q src = \<lparr>fx_cause_id = code_points (le_release_id q),
     fx_memory_id = rev_memory_id src, fx_revision_id = old, fx_principal = le_principal q,
     fx_scope = rev_scope src, fx_occurred_at = le_activated_at q\<rparr>"

lemma learning_source_Inr:
  assumes "learning_source q desired s = Inr (src, m)"
  shows "src \<in> set (st_revisions s)" "m \<in> set (st_objects s)" "memory_id m = rev_memory_id src"
    "obr_principal m = le_principal q" "rev_lifecycle src \<noteq> Revoked" "rev_lifecycle src \<noteq> Purged"
    "mem_lifecycle m \<noteq> Revoked" "mem_lifecycle m \<noteq> Purged" "rev_content src \<noteq> None"
    "scope_key (rev_scope src) \<in> scope_key ` set (le_scopes q)"
    "rev_content_hash src = lt_content_hash desired" "revision_id src = lt_revision_id desired"
  using assms
  by (auto simp: learning_source_def find_object_def split: option.splits if_splits dest!: find_Some_mem)

lemma learning_effect_Inr:
  assumes "apply_learning_release_effect v t q s = Inr (res, s')"
  obtains src m old s1 where "src \<in> set (st_revisions s)" "m \<in> set (st_objects s)"
    "memory_id m = rev_memory_id src" "current_revision_id m = Some old"
    "write_learning_revision v q src old s = Inr s1" "jobs_only s1 s'"
    "lr_memory_id res = rev_memory_id src" "lr_previous_revision_id res = old"
    "lr_current_revision_id res = learning_revision_id v (le_release_id q) (rev_memory_id src) (revision_id src)"
    "lr_lifecycle res = learning_lifecycle q (rev_lifecycle src)"
proof -
  from assms obtain current desired src m old where d: "learning_desired t q = Inr (current, desired)"
    and src: "learning_source q desired s = Inr (src, m)" and old: "learning_expected v t q current = Inr old"
    "current_revision_id m = Some old"
    by (auto simp: apply_learning_release_effect_def Let_def run_inv)
  let ?lc = "learning_lifecycle q (rev_lifecycle src)"
  let ?rid = "learning_revision_id v (le_release_id q) (rev_memory_id src) (revision_id src)"
  from assms d src old obtain s1 j1 s2 j2 s3 j3 s4 j4 where s1: "write_learning_revision v q src old s = Inr s1"
    and j1: "insert_outbox v ''fts_memory_delete'' old (le_activated_at q) s1 = Inr (j1, s2)"
    and j2: "optional_job (if ?lc = Active then Some ?rid else None) (\<lambda>i. insert_outbox v ''fts_memory_upsert'' i (le_activated_at q)) s2 = Inr (j2, s3)"
    and j3: "suppress_in_store v (learning_jobs old q src) s3 = Inr (j3, s4)"
    and j4: "optional_job (if ?lc = Active then Some ?rid else None) (\<lambda>i. refresh_in_store v ((learning_jobs old q src)\<lparr>fx_revision_id := i\<rparr>)) s4 = Inr (j4, s')"
    and res: "res = \<lparr>lr_memory_id = rev_memory_id src, lr_previous_revision_id = old,
      lr_current_revision_id = ?rid, lr_lifecycle = ?lc, lr_projection_jobs = [j1] @ j2 @ [j3] @ j4\<rparr>"
    by (auto simp: apply_learning_release_effect_def Let_def run_inv learning_jobs_def)
  have "jobs_only s1 s'"
    by (intro jobs_only_trans [OF insert_outbox_jobs [OF j1]] jobs_only_trans [OF suppress_jobs [OF j3]]
      jobs_only_trans [OF conjunct1 [OF optional_job_jobs [OF j2 insert_outbox_jobs]]]
      conjunct1 [OF optional_job_jobs [OF j4 refresh_jobs]])
  with learning_source_Inr [OF src] old s1 res show thesis
    by (intro that) simp_all
qed

lemma learning_frame:
  assumes "apply_learning_release_effect v t q s = Inr (res, s')"
  shows "(memories_ok s \<longrightarrow> memories_ok s') \<and> extends s s'"
  using assms
proof (rule learning_effect_Inr)
  fix src m old s1
  assume src: "src \<in> set (st_revisions s)" and m: "m \<in> set (st_objects s)"
    "memory_id m = rev_memory_id src" "current_revision_id m = Some old"
    and w: "write_learning_revision v q src old s = Inr s1" and j: "jobs_only s1 s'"
  let ?R = "learning_revision v q src old (next_revision s (rev_memory_id src))"
  let ?A = "learning_admission_row v q src"
  from write_learning_revision_Inr [OF w] obtain st where s1: "s1 = s\<lparr>st_revisions := st_revisions s @ [?R],
      st_objects := map (moved (rev_memory_id src) old (revision_id ?R) (rev_lifecycle ?R) (le_activated_at q)) (st_objects s),
      st_admissions := st_admissions s @ [?A], st_statuses := st_statuses s @ st\<rparr>"
    and fresh: "revision_id ?R \<notin> revision_id ` set (st_revisions s)" by blast
  have "memories_ok s1" if ok: "memories_ok s"
  proof -
    note t = ok [unfolded memories_ok_def]
    from tables_okD(6) [OF t m(1)] m(3) obtain c where c: "c \<in> set (st_revisions s)" "old = revision_id c"
      by (auto simp: current_ok_def)
    have no: "next_revision s (rev_memory_id src) = revision_no c + 1"
      using next_revision_current [OF t m(1), of c] m c by simp
    from tables_okD(7) [OF t src] current_unique [OF t _ m(1)] m(2)
    have kind: "mem_kind m = rev_kind src" "mem_scope m = rev_scope src"
      unfolding chain_ok_def by metis+
    have "tables_ok (map (moved (memory_id m) (revision_id c) (revision_id ?R) (rev_lifecycle ?R) (le_activated_at q))
        (st_objects s)) (st_revisions s @ [?R]) (st_admissions s @ [?A])"
      using m c no kind fresh
      by (intro tables_ok_next [OF t m(1)]) (simp_all add: learning_revision_def learning_admission_row_def)
    then show ?thesis
      using m c by (simp add: memories_ok_def s1)
  qed
  moreover have "extends s s1"
    by (simp add: s1 extends_def comp_def)
  ultimately show ?thesis
    using jobs_frame [OF j] same_memories_ok extends_trans by blast
qed

subsection \<open>The ledger as a transition system\<close>

datatype ledger_command = Admit_command admit_command | Revise_command revision_command

fun command_ok :: "'g governance_env \<Rightarrow> ledger_command \<Rightarrow> bool" where
  "command_ok v (Admit_command c) = admit_command_ok c"
| "command_ok v (Revise_command c) = revision_command_ok (env_sha v) c"

fun command_key :: "ledger_command \<Rightarrow> ustring" where
  "command_key (Admit_command c) = ac_idempotency_key c"
| "command_key (Revise_command c) = rc_idempotency_key c"

fun command_hash :: "'g governance_env \<Rightarrow> ledger_command \<Rightarrow> string" where
  "command_hash v (Admit_command c) = env_sha v (propose_json c)"
| "command_hash v (Revise_command c) = revision_request_hash v c"

fun run_command ::
  "'g governance_env \<Rightarrow> ledger_command \<Rightarrow> 'g store \<Rightarrow> (storage_error + mutation_result) \<times> 'g store" where
  "run_command v (Admit_command c) = admit_memory v c"
| "run_command v (Revise_command c) = apply_memory_revision v c"

fun command_effect ::
  "'g governance_env \<Rightarrow> ledger_command \<Rightarrow> 'g store \<Rightarrow> storage_error + (mutation_result \<times> 'g store)" where
  "command_effect v (Admit_command c) = admit_effect v c (env_sha v (propose_json c))"
| "command_effect v (Revise_command c) = revision_effect v c (revision_request_hash v c)"

text \<open>A step: a command, a release of the learning lab, new evidence, a stored artifact.\<close>

inductive ledger_step :: "'g governance_env \<Rightarrow> 'g store \<Rightarrow> 'g store \<Rightarrow> bool" for v where
  command: "command_ok v c \<Longrightarrow> ledger_step v s (snd (run_command v c s))"
| release: "apply_learning_release_effect v t q s = Inr (res, s') \<Longrightarrow> ledger_step v s s'"
| evidence: "evidence_id e \<notin> evidence_id ` set (st_evidence s)
    \<Longrightarrow> ledger_step v s (s\<lparr>st_evidence := st_evidence s @ [e]\<rparr>)"
| artifact: "ledger_step v s (s\<lparr>st_artifacts := h # st_artifacts s\<rparr>)"

inductive_cases ledger_stepE: "ledger_step v s s'"

definition ledger_initial :: "'g store \<Rightarrow> bool" where
  "ledger_initial s \<longleftrightarrow> st_candidates s = [] \<and> st_objects s = [] \<and> st_revisions s = [] \<and> st_links s = []
     \<and> st_admissions s = [] \<and> st_statuses s = [] \<and> st_groups s = [] \<and> st_members s = []
     \<and> st_mutations s = [] \<and> st_consumptions s = []"

definition receipts_ok :: "'g governance_env \<Rightarrow> 'g store \<Rightarrow> bool" where
  "receipts_ok v s \<longleftrightarrow> distinct (map mr_idempotency_key (st_mutations s))
     \<and> (\<forall>m \<in> set (st_mutations s). mutation_row_ok v m)
     \<and> distinct (map cn_approval_id (st_consumptions s))"

definition store_ok :: "'g governance_env \<Rightarrow> 'g store \<Rightarrow> bool" where
  "store_ok v s \<longleftrightarrow> memories_ok s \<and> receipts_ok v s"

lemma run_command_eq:
  "run_command v c s = (case read_mutation s (command_key c) of
     Some m \<Rightarrow> (parse_existing_result v m (command_hash v c), s)
   | None \<Rightarrow> governed_write (command_effect v c) s)"
  by (cases c) (auto simp: admit_memory_def apply_memory_revision_def Let_def split: option.split)

lemma run_command_cases:
  assumes "run_command v c s = (x, s')"
  shows "(\<exists>m. read_mutation s (command_key c) = Some m \<and> x = parse_existing_result v m (command_hash v c) \<and> s' = s)
    \<or> read_mutation s (command_key c) = None \<and> (\<exists>e. x = Inl e \<and> s' = s)
    \<or> read_mutation s (command_key c) = None \<and> (\<exists>r. x = Inr r \<and> command_effect v c s = Inr (r, s'))"
  using assms
  by (auto simp: run_command_eq governed_write_def split: option.splits sum.splits)

lemma effect_frame:
  assumes "command_effect v c s = Inr (r, s')" and "read_mutation s (command_key c) = None" and "command_ok v c"
  shows "(memories_ok s \<longrightarrow> memories_ok s') \<and> extends s s'"
proof (cases c)
  case (Admit_command a)
  then show ?thesis
    using assms admit_frame [of v a] by simp
next
  case (Revise_command a)
  then show ?thesis
    using assms revise_frame [of v a] by (simp add: revision_command_ok_def)
qed

lemma step_frame:
  assumes "ledger_step v s s'"
  shows "(memories_ok s \<longrightarrow> memories_ok s') \<and> extends s s'"
  using assms
proof (cases rule: ledger_step.cases)
  case (command c)
  then show ?thesis
    using run_command_cases [of v c s "fst (run_command v c s)" s'] effect_frame
    by (metis extends_refl prod.collapse)
next
  case (release t q res)
  then show ?thesis by (rule learning_frame)
next
  case (evidence e)
  then show ?thesis by (auto simp: memories_ok_def extends_def)
next
  case (artifact h)
  then show ?thesis by (auto simp: memories_ok_def extends_def)
qed

lemma find_append: "List.find P xs = Some x \<Longrightarrow> List.find P (xs @ zs) = Some x"
  by (induction xs) (auto split: if_splits)

lemma find_prefix: "prefix xs ys \<Longrightarrow> List.find P xs = Some x \<Longrightarrow> List.find P ys = Some x"
  by (auto simp: prefix_def find_append)

lemma read_mutation_kept: "extends s s' \<Longrightarrow> read_mutation s k = Some m \<Longrightarrow> read_mutation s' k = Some m"
  unfolding read_mutation_def extends_def by (blast intro: find_prefix)

text \<open>The row a successful command leaves, unless it was a preview.\<close>

definition records ::
  "'g governance_env \<Rightarrow> ustring \<Rightarrow> string \<Rightarrow> mutation_result \<Rightarrow> 'g store \<Rightarrow> 'g store \<Rightarrow> bool" where
  "records v key h r s s' \<longleftrightarrow> (\<exists>m. st_mutations s' = st_mutations s @ [m] \<and> mutation_row_ok v m
     \<and> mr_result m = Some r \<and> mr_idempotency_key m = key \<and> mr_request_hash m = h)"

lemma sealed_records:
  "sealed v key h w r u s' \<Longrightarrow> st_mutations u = st_mutations s \<Longrightarrow> records v key h r s s'"
  by (auto simp: sealed_def records_def)

lemma admit_records:
  assumes "admit_effect v cmd h s = Inr (res, s')" and "read_mutation s (ac_idempotency_key cmd) = None"
  shows "records v (ac_idempotency_key cmd) h res s s' \<and> st_consumptions s' = st_consumptions s"
  using assms
proof (rule admit_effect_Inr)
  fix es s1
  assume s1: "insert_candidate v (ac_candidate cmd) (claim_principal_id (actor_claim (ac_envelope cmd))) es s = Inr s1"
  note f = candidate_frame(3,7) [OF s1]
  assume "List.find (\<lambda>m. object_key m = admit_key v cmd) (st_objects s) = None
       \<and> create_memory v (admit_options v cmd h es) s1 = Inr (res, s')
     \<or> (\<exists>m r. m \<in> set (st_objects s) \<and> object_key m = admit_key v cmd \<and> r \<in> set (st_revisions s)
          \<and> current_revision_id m = Some (revision_id r)
          \<and> (rev_content_hash r = cand_content_hash (ac_candidate cmd)
               \<and> reused v (ac_idempotency_key cmd) h
                   (claim_principal_id (actor_claim (ac_envelope cmd)), cand_scope (ac_candidate cmd))
                   (candidate_id (ac_candidate cmd)) m r res s1 s'
             \<or> rev_content_hash r \<noteq> cand_content_hash (ac_candidate cmd)
               \<and> conflict_opened v
                   \<lparr>xo_idempotency_key = ac_idempotency_key cmd, xo_request_hash = h,
                    xo_who = claim_principal_id (actor_claim (ac_envelope cmd)),
                    xo_requested_at = requested_at (ac_envelope cmd),
                    xo_candidate_id = candidate_id (ac_candidate cmd), xo_memory = m, xo_current = r,
                    xo_logical_hash = key_hash v (logical_key (ac_candidate cmd)),
                    xo_scope = cand_scope (ac_candidate cmd)\<rparr> res s1 s'))" (is "?new \<or> ?old")
  then show ?thesis
  proof
    assume ?new
    then have "created v (admit_options v cmd h es) (st_objects s1 @ [new_object v (admit_options v cmd h es)]) res s1 s'"
      by (intro create_memory_first(1)) (simp_all add: admit_options_def)
    from created_tables(8,9) [OF this] show ?thesis
      using f by (auto simp: records_def admit_options_def)
  next
    assume ?old
    then show ?thesis
      using f by (auto simp: reused_def conflict_opened_def intro!: sealed_records)
  qed
qed

lemma consume_fresh:
  assumes "sealed_with_approval c h (r, s) = Inr (res, s')" and "distinct (map cn_approval_id (st_consumptions s))"
  shows "distinct (map cn_approval_id (st_consumptions s'))"
proof -
  from assms(1) have "consume_revision_approval c h r s = Inr s'"
    by (auto simp: sealed_with_approval_def run_inv)
  from consume_Inr [OF this] show ?thesis
    using assms(2) by (auto split: option.splits)
qed

lemma revise_records:
  assumes "revision_effect v c h s = Inr (res, s')" and "read_mutation s (rc_idempotency_key c) = None"
  shows "(if rc_dry_run c then mu_outcome res = Dry_run \<and> st_mutations s' = st_mutations s
      else records v (rc_idempotency_key c) h res s s')
    \<and> (distinct (map cn_approval_id (st_consumptions s)) \<longrightarrow> distinct (map cn_approval_id (st_consumptions s')))"
  using assms
proof (rule revision_effect_Inr)
  fix m r s1 es
  assume s1: "insert_correction_evidence v c s = Inr s1"
    and alt: "rc_dry_run c \<and> s' = s1 \<and> mu_outcome res = Dry_run
     \<or> \<not> rc_dry_run c \<and> (\<exists>s2 t. insert_candidate v (rc_candidate c) (claim_principal_id (rc_actor c)) es s1 = Inr s2
         \<and> sealed_with_approval c h (res, t) = Inr (res, s')
         \<and> (rev_content_hash r = cand_content_hash (rc_candidate c)
              \<and> reused v (rc_idempotency_key c) h (claim_principal_id (rc_actor c), rc_scope c)
                  (candidate_id (rc_candidate c)) m r res s2 t
            \<or> rev_content_hash r \<noteq> cand_content_hash (rc_candidate c)
              \<and> create_memory v (revise_options v c h es m r) s2 = Inr (res, t)))"
  note f1 = correction_evidence_frame(3,4) [OF s1]
  show ?thesis
  proof (cases "rc_dry_run c")
    case True
    then show ?thesis using alt f1 by simp
  next
    case False
    with alt obtain s2 t where s2: "insert_candidate v (rc_candidate c) (claim_principal_id (rc_actor c)) es s1 = Inr s2"
      and w: "sealed_with_approval c h (res, t) = Inr (res, s')"
      and or: "reused v (rc_idempotency_key c) h (claim_principal_id (rc_actor c), rc_scope c)
                  (candidate_id (rc_candidate c)) m r res s2 t
            \<or> create_memory v (revise_options v c h es m r) s2 = Inr (res, t)" by blast
    note f2 = candidate_frame(3,7) [OF s2]
    have "records v (rc_idempotency_key c) h res s t \<and> st_consumptions t = st_consumptions s"
      using or
    proof
      assume "reused v (rc_idempotency_key c) h (claim_principal_id (rc_actor c), rc_scope c)
                  (candidate_id (rc_candidate c)) m r res s2 t"
      then show ?thesis
        using f1 f2 by (auto simp: reused_def intro!: sealed_records)
    next
      assume cm: "create_memory v (revise_options v c h es m r) s2 = Inr (res, t)"
      have "co_existing (revise_options v c h es m r) = Some m"
        by (simp add: revise_options_def)
      from create_memory_next [OF cm this] obtain objs where
        "created v (revise_options v c h es m r) objs res s2 t" by blast
      from created_tables(8,9) [OF this] show ?thesis
        using f1 f2 by (auto simp: records_def revise_options_def)
    qed
    then show ?thesis
      using False consume_frame(4) [OF w] consume_fresh [OF w] by (auto simp: records_def)
  qed
qed

lemma read_mutation_None: "read_mutation s k = None \<longleftrightarrow> k \<notin> mr_idempotency_key ` set (st_mutations s)"
  by (auto simp: read_mutation_def find_None_iff_all)

lemma find_append_None: "List.find P xs = None \<Longrightarrow> List.find P (xs @ ys) = List.find P ys"
  by (induction xs) (auto split: if_splits)

lemma effect_records:
  assumes "command_effect v c s = Inr (r, s')" and "read_mutation s (command_key c) = None"
  shows "(records v (command_key c) (command_hash v c) r s s'
      \<or> mu_outcome r = Dry_run \<and> st_mutations s' = st_mutations s)
    \<and> (distinct (map cn_approval_id (st_consumptions s)) \<longrightarrow> distinct (map cn_approval_id (st_consumptions s')))"
proof (cases c)
  case (Admit_command a)
  then show ?thesis using assms admit_records [of v a] by simp
next
  case (Revise_command a)
  then show ?thesis using assms revise_records [of v a "revision_request_hash v a" s r s'] by (auto split: if_splits)
qed

lemma learning_receipts:
  assumes "apply_learning_release_effect v t q s = Inr (res, s')"
  shows "st_mutations s' = st_mutations s \<and> st_consumptions s' = st_consumptions s"
  using assms
proof (rule learning_effect_Inr)
  fix src m old s1
  assume "write_learning_revision v q src old s = Inr s1" "jobs_only s1 s'"
  then show ?thesis
    using write_learning_revision_Inr(1) [of v q src old s s1] jobs_only_fields [of s1 s'] by auto
qed

lemma step_receipts:
  assumes "ledger_step v s s'" and "receipts_ok v s"
  shows "receipts_ok v s'"
  using assms(1)
proof (cases rule: ledger_step.cases)
  case (command c)
  then consider "s' = s" | r where "read_mutation s (command_key c) = None" "command_effect v c s = Inr (r, s')"
    using run_command_cases [of v c s "fst (run_command v c s)" s'] by (metis prod.collapse)
  then show ?thesis
  proof cases
    case 2
    with effect_records [OF 2(2,1)] assms(2) show ?thesis
      by (auto simp: receipts_ok_def records_def read_mutation_None)
  qed (simp add: assms)
next
  case (release t q res)
  from learning_receipts [OF this] show ?thesis using assms(2) by (simp add: receipts_ok_def)
qed (use assms(2) in \<open>auto simp: receipts_ok_def\<close>)

lemma initial_ok: "ledger_initial s \<Longrightarrow> store_ok v s"
  by (simp add: ledger_initial_def store_ok_def memories_ok_def receipts_ok_def tables_ok_def)

lemma step_ok: "store_ok v s \<Longrightarrow> ledger_step v s s' \<Longrightarrow> store_ok v s'"
  using step_frame step_receipts by (auto simp: store_ok_def)

lemma replayed_twice: "mutation_row_ok v m \<Longrightarrow> mr_request_hash m = h \<Longrightarrow> mr_result m = Some r
    \<Longrightarrow> parse_existing_result v m h = Inr (r\<lparr>mu_replayed := True\<rparr>)"
  by (simp add: parse_existing_ok)

lemma command_recording:
  assumes "store_ok v s" and run: "run_command v c s = (Inr r, t)" and "mu_outcome r \<noteq> Dry_run"
  shows "\<exists>m. read_mutation t (command_key c) = Some m
    \<and> parse_existing_result v m (command_hash v c) = Inr (r\<lparr>mu_replayed := True\<rparr>)"
  using run_command_cases [OF run]
proof (elim disjE exE conjE)
  fix m assume m: "read_mutation s (command_key c) = Some m" "Inr r = parse_existing_result v m (command_hash v c)" "t = s"
  then have "mutation_row_ok v m"
    using assms(1) by (auto simp: store_ok_def receipts_ok_def read_mutation_def dest!: find_Some_mem)
  then show ?thesis
    using m by (auto simp: parse_existing_ok split: if_splits)
next
  fix r' assume r': "read_mutation s (command_key c) = None" "Inr r = Inr r'" "command_effect v c s = Inr (r', t)"
  then have "records v (command_key c) (command_hash v c) r s t"
    using effect_records [of v c s r t] assms(3) by simp
  then obtain m where m: "st_mutations t = st_mutations s @ [m]" "mutation_row_ok v m" "mr_result m = Some r"
    "mr_idempotency_key m = command_key c" "mr_request_hash m = command_hash v c"
    by (auto simp: records_def)
  have "read_mutation t (command_key c) = Some m"
    using r'(1) m by (auto simp: read_mutation_def find_append_None)
  then show ?thesis
    using m replayed_twice by blast
qed auto

interpretation ledger: idempotent_command ledger_initial "ledger_step v" "store_ok v" "run_command v"
  command_key read_mutation "\<lambda>c m. parse_existing_result v m (command_hash v c)" "command_ok v"
  "\<lambda>r. mu_outcome r = Dry_run" "\<lambda>r. r\<lparr>mu_replayed := True\<rparr>" for v :: "'g governance_env"
proof unfold_locales
  show "ledger_step v s (snd (run_command v c s))" if "command_ok v c" for c s
    using that by (rule ledger_step.command)
  show "read_mutation t k = Some m" if "ledger_step v s t" "read_mutation s k = Some m" for s t k m
    using that step_frame read_mutation_kept by blast
  show "t = s" if "run_command v c s = (Inl e, t)" for c s e t
    using run_command_cases [OF that] by auto
qed (auto simp: run_command_eq initial_ok intro: step_ok command_recording)

end
