(* ===== verification/GovernanceProperties.thy ===== *)
theory GovernanceProperties
  imports GovernanceCommands
begin

text \<open>
  The properties of the governed ledger. The samples below are a store with the evidence of one user
  and the commands that the witnesses run on it; their hash function is constant.
\<close>

subsection \<open>Samples\<close>

definition sample_env :: "unit governance_env" where
  "sample_env = \<lparr>env_sha = (\<lambda>j. sample_hash), env_nfkc = (\<lambda>t. t), env_lower = (\<lambda>t. t),
     env_injection = (\<lambda>t. False), env_delivery = (\<lambda>l t fx g. Inr g)\<rparr>"

definition sample_now :: timestamp where
  "sample_now = Timestamp ''2026-01-01T00:00:00.000Z'' 1767225600000"

definition sample_row :: "string \<Rightarrow> authority \<Rightarrow> evidence_row" where
  "sample_row i a = evidence_record.extend (sample_evidence i a) \<lparr>evr_purged_at = None\<rparr>"

definition sample_ledger :: "authority \<Rightarrow> unit store" where
  "sample_ledger a =
     \<lparr>st_evidence = [sample_row ''e1'' a, sample_row ''e2'' a], st_artifacts = [], st_candidates = [],
      st_objects = [], st_revisions = [], st_links = [], st_admissions = [], st_statuses = [],
      st_groups = [], st_members = [], st_outbox = [], st_fts_pending_since = None,
      st_ledger_epoch = 0, st_tombstone_epoch = 0, st_mutations = [], st_consumptions = [],
      st_projections = \<lparr>ps_revisions = [], ps_sources = [], ps_objects = [], ps_relations = [],
        ps_invalidations = [], ps_scope_states = [], ps_jobs = [], ps_pending_since = None,
        ps_projection_epoch = 0, ps_delivery = ()\<rparr>\<rparr>"

definition sample_proposal :: envelope where
  "sample_proposal = \<lparr>request_id = ''r1'', tool = Memory_propose,
     actor_claim = \<lparr>claim_principal_id = ''u'', claim_authority = User_stated\<rparr>,
     scopes = [\<lparr>scope_kind_of = Sk_workspace, scope_id = ''w''\<rparr>], purpose = [112], reason = [114],
     requested_at = sample_now\<rparr>"

definition sample_admit :: "nat \<Rightarrow> string \<Rightarrow> admission \<Rightarrow> admit_command" where
  "sample_admit k cid d = \<lparr>ac_envelope = sample_proposal,
     ac_idempotency_key = [107, 101, 121, 45, 48, 48, 48, k], ac_candidate = sample_candidate\<lparr>candidate_id := cid\<rparr>,
     ac_evaluation = \<lparr>evl_decision = d, evl_reason = [111, 107]\<rparr>\<rparr>"

subsection \<open>A first admission succeeds\<close>

lemma storage_identifier_ok:
  assumes "canonical_hash_ok (env_sha v (jobj ps))" and "pre \<noteq> []" "length pre \<le> 100"
    "ascii_alnum (hd pre)" "list_all identifier_char (tl pre)"
  shows "identifier_ok (storage_identifier v pre ps)"
proof (rule identifier_okI)
  show "list_all identifier_char (tl (storage_identifier v pre ps))"
    using assms lower_hex_identifier
    by (auto simp: storage_identifier_def canonical_hash_ok_def list_all_iff identifier_char_def
        dest!: in_set_takeD)
qed (use assms in \<open>auto simp: storage_identifier_def\<close>)

lemma stable_job_id_ok:
  assumes "\<And>j. canonical_hash_ok (sha j)"
  shows "identifier_ok (stable_job_id sha k fx)"
proof (rule identifier_okI)
  show "list_all identifier_char (tl (stable_job_id sha k fx))"
    using assms lower_hex_identifier
    by (auto simp: stable_job_id_def canonical_hash_ok_def list_all_iff identifier_char_def ascii_alnum_def Let_def
        dest!: in_set_takeD)
qed (use assms in \<open>auto simp: stable_job_id_def ascii_alnum_def Let_def\<close>)

definition hashes_ok :: "'g governance_env \<Rightarrow> bool" where
  "hashes_ok v \<longleftrightarrow> (\<forall>j. canonical_hash_ok (env_sha v j))"

definition delivers :: "'g governance_env \<Rightarrow> bool" where
  "delivers v \<longleftrightarrow> (\<forall>l t fx g. \<exists>g'. env_delivery v l t fx g = Inr g')"

definition untouched :: "'g store \<Rightarrow> bool" where
  "untouched s \<longleftrightarrow> ledger_initial s \<and> st_outbox s = [] \<and> ps_jobs (st_projections s) = []
     \<and> ps_scope_states (st_projections s) = []"

definition stored_in_order :: "memory_candidate \<Rightarrow> bool" where
  "stored_in_order c \<longleftrightarrow> (case valid_to (cand_validity c) of None \<Rightarrow> True
     | Some t \<Rightarrow> \<not> iso t < iso (valid_from (cand_validity c)))"

lemma insert_status_empty:
  "st_statuses s = [] \<Longrightarrow> \<exists>e. insert_status v mid rid act lc a why now s = Inr (s\<lparr>st_statuses := [e]\<rparr>)"
  by (simp add: insert_status_def insert_row_def) (rule exI, rule refl)

lemma announce_empty:
  assumes "st_statuses s = []"
  shows "\<exists>st. announce_revision v q s = Inr (s\<lparr>st_statuses := st\<rparr>)"
proof (cases "lifecycle_for (co_decision q) \<in> {Active, Candidate}")
  case True
  then show ?thesis
    using insert_status_empty [OF assms, of v "new_memory_id v q" "new_revision_id v q"]
    by (auto simp: announce_revision_def Let_def) blast+
next
  case False
  then show ?thesis
    using assms by (intro exI [of _ "[]"]) (auto simp: announce_revision_def Let_def)
qed

lemma write_rows_empty:
  assumes "st_revisions s = []" "st_links s = []" "st_admissions s = []"
    and "co_revision_number q = 1" "co_supersedes q = None" "artifact_known s (cand_content (co_candidate q))"
    and "stored_in_order (co_candidate q)"
  shows "write_rows v q s = Inr (s\<lparr>st_revisions := [new_revision v q], st_links := [new_link v q],
    st_admissions := [new_admission v q]\<rparr>)"
proof -
  have "insert_revision_row (new_revision v q) s = Inr (s\<lparr>st_revisions := [new_revision v q]\<rparr>)"
    using assms by (auto simp: insert_revision_row_Inr new_revision_def candidate_revision_def
      stored_in_order_def split: option.splits)
  then show ?thesis
    using assms by (simp add: write_rows_def Let_def insert_revision_def new_revision_def link_candidate_def
      insert_row_def new_link_def insert_admission_def new_admission_def admission_row_def)
qed

lemma refresh_empty:
  assumes "ps_jobs (st_projections s) = []" "ps_scope_states (st_projections s) = []" "delivers v"
  shows "\<exists>i s'. refresh_in_store v fx s = Inr (i, s')
    \<and> i = stable_job_id (env_sha v) Job_refresh fx \<and> (\<exists>ps. s' = s\<lparr>st_projections := ps\<rparr>)"
proof -
  obtain g where "env_delivery v (st_ledger_epoch s) (st_tombstone_epoch s) fx (ps_delivery (st_projections s)) = Inr g"
    using assms(3) unfolding delivers_def by blast
  then show ?thesis
    using assms by (auto simp: refresh_in_store_def enqueue_projection_refresh_def enqueue_job_def
        insert_row_def mark_scope_pending_def deliver_def Let_def)
qed

lemma outbox_empty:
  assumes "st_outbox s = []"
  shows "\<exists>i s'. insert_outbox v k a now s = Inr (i, s')
    \<and> i = storage_identifier v ''job'' [(''kind'', jstr k), (''aggregate_id'', jstr a), (''created_at'', jstr (iso now))]
    \<and> (\<exists>ob f. s' = s\<lparr>st_outbox := ob, st_fts_pending_since := f\<rparr>)"
  using assms by (auto simp: insert_outbox_def insert_row_def Let_def)

lemma seal_empty:
  assumes "st_mutations s = []" "hashes_ok v" "sq_advance_epoch q" "sq_conflict_group_id q = None"
    and "list_all identifier_ok ([sq_candidate_id q, sq_memory_id q, sq_current_revision_id q] @ sq_projection_jobs q)"
    and "sq_previous_revision_id q = None" "sq_warnings q = []" "idempotency_key_ok (sq_idempotency_key q)"
    and "sq_lifecycle q \<in> {Active, Candidate, Quarantined}" "sq_decision q \<noteq> Some Reject"
    and "canonical_hash_ok (sq_request_hash q)"
  shows "\<exists>r s'. seal_mutation v q s = Inr (r, s')"
proof -
  have "mutation_receipt_ok (sealed_receipt v q (st_ledger_epoch s + 1))"
    using assms by (auto simp: mutation_receipt_ok_def sealed_receipt_def Let_def hashes_ok_def
      ascii_alnum_def identifier_char_def intro!: storage_identifier_ok)
  then show ?thesis
    using assms by (auto simp: seal_mutation_def Let_def mutation_result_ok_def insert_row_def)
qed


lemma create_memory_empty:
  assumes s: "untouched (s\<lparr>st_candidates := []\<rparr>)" and v: "hashes_ok v" "delivers v"
    and q: "co_existing q = None" "co_revision_number q = 1" "co_supersedes q = None"
      "artifact_known s (cand_content (co_candidate q))"
      "stored_in_order (co_candidate q)"
    and ok: "identifier_ok (candidate_id (co_candidate q))" "idempotency_key_ok (co_idempotency_key q)"
      "co_decision q \<noteq> Reject" "canonical_hash_ok (co_request_hash q)"
  shows "\<exists>r t. create_memory v q s = Inr (r, t)"
proof -
  let ?lc = "lifecycle_for (co_decision q)" and ?mid = "new_memory_id v q" and ?rid = "new_revision_id v q"
  note e = s [unfolded untouched_def ledger_initial_def, simplified]
  let ?s1 = "s\<lparr>st_objects := [new_object v q]\<rparr>"
  have s1: "insert_object (new_object v q) s = Inr ?s1"
    using e by (simp add: insert_object_Inr)
  let ?s2 = "?s1\<lparr>st_revisions := [new_revision v q], st_links := [new_link v q], st_admissions := [new_admission v q]\<rparr>"
  have s2: "write_rows v q ?s1 = Inr ?s2"
    using e q by (intro write_rows_empty) (auto simp: artifact_known_def split: content_ref.splits)
  obtain st where s3: "announce_revision v q ?s2 = Inr (?s2\<lparr>st_statuses := st\<rparr>)"
    using announce_empty [of ?s2 v q] e by auto
  let ?s3 = "?s2\<lparr>st_statuses := st\<rparr>"
  have w: "write_revision v q s = Inr ?s3"
    using q(1) s3 by (simp add: write_revision_def s1 s2 replace_current_def)
  have j: "\<exists>j2 j4 t. optional_job (if ?lc = Active then Some ?rid else None)
        (\<lambda>i. insert_outbox v ''fts_memory_upsert'' i (co_requested_at q)) ?s3 = Inr (j2, t)
      \<and> (\<exists>u. optional_job (if ?lc = Active then Some ?rid else None)
        (\<lambda>i. refresh_in_store v (projection_effect_of q ?mid i)) t = Inr (j4, u)
        \<and> st_mutations u = [] \<and> list_all identifier_ok (j2 @ j4))"
  proof (cases "?lc = Active")
    case True
    obtain i t where t: "insert_outbox v ''fts_memory_upsert'' ?rid (co_requested_at q) ?s3 = Inr (i, t)"
      "identifier_ok i" "\<exists>ob f. t = ?s3\<lparr>st_outbox := ob, st_fts_pending_since := f\<rparr>"
      using outbox_empty [of ?s3 v "''fts_memory_upsert''" ?rid "co_requested_at q"] e v(1)
        storage_identifier_ok [of v _ "''job''"]
      by (auto simp: hashes_ok_def ascii_alnum_def identifier_char_def)
    then have "ps_jobs (st_projections t) = []" "ps_scope_states (st_projections t) = []" "st_mutations t = []"
      using e by auto
    then obtain i' u where "refresh_in_store v (projection_effect_of q ?mid ?rid) t = Inr (i', u)"
      "identifier_ok i'" "st_mutations u = []"
      using refresh_empty [of t v "projection_effect_of q ?mid ?rid"] v stable_job_id_ok [of "env_sha v"]
      by (auto simp: hashes_ok_def)
    then show ?thesis
      using t True by (auto simp: optional_job_def)
  next
    case False
    then show ?thesis
      using e by (auto simp: optional_job_def)
  qed
  then obtain j2 t j4 u where j2: "optional_job (if ?lc = Active then Some ?rid else None)
        (\<lambda>i. insert_outbox v ''fts_memory_upsert'' i (co_requested_at q)) ?s3 = Inr (j2, t)"
    and j4: "optional_job (if ?lc = Active then Some ?rid else None)
        (\<lambda>i. refresh_in_store v (projection_effect_of q ?mid i)) t = Inr (j4, u)"
    and u: "st_mutations u = []" "list_all identifier_ok (j2 @ j4)" by blast
  have ids: "identifier_ok ?mid" "identifier_ok ?rid"
    using q(1) v(1) storage_identifier_ok [of v _ "''memory''"] storage_identifier_ok [of v _ "''revision''"]
    by (auto simp: new_memory_id_def new_revision_id_def hashes_ok_def ascii_alnum_def identifier_char_def)
  have "\<exists>r t. seal_mutation v
       \<lparr>sq_idempotency_key = co_idempotency_key q, sq_request_hash = co_request_hash q,
        sq_who = claim_principal_id (co_actor q), sq_scope = cand_scope (co_candidate q),
        sq_requested_at = co_requested_at q, sq_outcome = co_outcome q,
        sq_candidate_id = candidate_id (co_candidate q), sq_memory_id = ?mid,
        sq_current_revision_id = ?rid, sq_conflict_group_id = None, sq_lifecycle = ?lc,
        sq_decision = Some (co_decision q), sq_previous_revision_id = None,
        sq_projection_jobs = [] @ j2 @ [] @ j4, sq_warnings = [], sq_advance_epoch = True\<rparr> u = Inr (r, t)"
    using u ids ok v(1) by (intro seal_empty) (cases "co_decision q"; simp)+
  then show ?thesis
    using w j2 j4 q(3) by (auto simp: create_memory_def Let_def optional_job_def)
qed

lemma created_epoch: "created v q objs r s t \<Longrightarrow> st_ledger_epoch t = st_ledger_epoch s + 1"
  by (auto simp: created_def revision_written_def sealed_def jobs_only_def)

lemma admit_first:
  assumes s: "untouched s" and v: "hashes_ok v" "delivers v" and cmd: "admit_command_ok cmd"
    and es: "validate_candidate v s (ac_candidate cmd) (claim_principal_id (actor_claim (ac_envelope cmd)))
      (evl_decision (ac_evaluation cmd)) = Inr es"
    and c: "artifact_known s (cand_content (ac_candidate cmd))" "stored_in_order (ac_candidate cmd)"
  shows "\<exists>r t. admit_memory v cmd s = (Inr r, t)
    \<and> created v (admit_options v cmd (env_sha v (propose_json cmd)) es)
        [new_object v (admit_options v cmd (env_sha v (propose_json cmd)) es)] r
        (s\<lparr>st_candidates := st_candidates t\<rparr>) t"
proof -
  let ?who = "claim_principal_id (actor_claim (ac_envelope cmd))" and ?h = "env_sha v (propose_json cmd)"
  let ?q = "admit_options v cmd ?h es"
  note e = s [unfolded untouched_def ledger_initial_def]
  obtain row where s1: "insert_candidate v (ac_candidate cmd) ?who es s = Inr (s\<lparr>st_candidates := [row]\<rparr>)"
    using e c by (simp add: insert_candidate_def Let_def insert_row_def)
  let ?s1 = "s\<lparr>st_candidates := [row]\<rparr>"
  have "request_ok (Proposal_request (ac_envelope cmd) (ac_idempotency_key cmd))"
    "memory_candidate_ok (ac_candidate cmd)" "evl_decision (ac_evaluation cmd) \<noteq> Reject"
    using cmd by (auto simp: admit_command_ok_def evaluation_ok_def)
  then have "\<exists>r t. create_memory v ?q ?s1 = Inr (r, t)"
    using e c v by (intro create_memory_empty)
      (simp_all add: untouched_def ledger_initial_def admit_options_def artifact_known_def
        memory_candidate_ok_def hashes_ok_def split: content_ref.splits)
  then obtain r t where t: "create_memory v ?q ?s1 = Inr (r, t)" by blast
  have eff: "admit_effect v cmd ?h s = Inr (r, t)"
    using e es s1 t by (simp add: admit_effect_def Let_def read_mutation_def admit_options_def)
  have c1: "created v ?q [new_object v ?q] r ?s1 t"
    using create_memory_first(1) [OF t] e by (simp add: admit_options_def)
  then have "st_candidates t = [row]"
    by (auto simp: created_def revision_written_def sealed_def jobs_only_def)
  then show ?thesis
    using eff c1 e by (auto simp: admit_memory_def Let_def read_mutation_def governed_write_def)
qed

text \<open>C22: a valid proposal whose evidence supports the requested decision is never refused or lost by a
  ledger that holds no memory yet: \<open>admitMemory\<close> returns \<open>CREATED\<close>, and the new memory, its first
  revision with the candidate's content and the decision are in the store, the epoch has advanced by
  one and the receipt is recorded under the idempotency key. It needs hashes of the documented form
  and a delivery queue that accepts; the stored validity must be ordered as text.\<close>

theorem first_admission_succeeds:
  assumes "untouched s" and "hashes_ok v" "delivers v" and "admit_command_ok cmd"
    and "validate_candidate v s (ac_candidate cmd) (claim_principal_id (actor_claim (ac_envelope cmd)))
      (evl_decision (ac_evaluation cmd)) = Inr es"
    and "artifact_known s (cand_content (ac_candidate cmd))" "stored_in_order (ac_candidate cmd)"
  shows "\<exists>r t m x. admit_memory v cmd s = (Inr r, t) \<and> mu_outcome r = Created
    \<and> st_objects t = [m] \<and> st_revisions t = [x] \<and> mu_memory_id r = memory_id m
    \<and> current_revision_id m = Some (revision_id x) \<and> rev_memory_id x = memory_id m
    \<and> rev_content_hash x = cand_content_hash (ac_candidate cmd)
    \<and> mem_lifecycle m = lifecycle_for (evl_decision (ac_evaluation cmd))
    \<and> obr_principal m = claim_principal_id (actor_claim (ac_envelope cmd))
    \<and> mem_scope m = cand_scope (ac_candidate cmd)
    \<and> st_ledger_epoch t = st_ledger_epoch s + 1
    \<and> (\<exists>row. read_mutation t (ac_idempotency_key cmd) = Some row \<and> mr_result row = Some r)"
proof -
  let ?q = "admit_options v cmd (env_sha v (propose_json cmd)) es"
  obtain r t where t: "admit_memory v cmd s = (Inr r, t)"
    and c: "created v ?q [new_object v ?q] r (s\<lparr>st_candidates := st_candidates t\<rparr>) t"
    using admit_first [OF assms] by blast
  note e = assms(1) [unfolded untouched_def ledger_initial_def]
  have "st_ledger_epoch t = st_ledger_epoch s + 1"
    using created_epoch [OF c] by simp
  moreover have "\<exists>row. read_mutation t (ac_idempotency_key cmd) = Some row \<and> mr_result row = Some r"
    using created_tables(9) [OF c] e by (auto simp: admit_options_def read_mutation_def)
  moreover have "mu_outcome r = Created" "mu_memory_id r = new_memory_id v ?q"
    using c by (auto simp: created_def result_names_def admit_options_def)
  ultimately show ?thesis
    using t created_tables(1,2) [OF c] e
    by (intro exI [of _ r] exI [of _ t] exI [of _ "new_object v ?q"] exI [of _ "new_revision v ?q"])
      (simp add: admit_options_def)
qed

subsection \<open>A sample run\<close>

lemma sample_env_simps [simp]:
  "env_sha sample_env j = sample_hash" "env_nfkc sample_env t = t" "env_lower sample_env t = t"
  "env_injection sample_env t = False" "env_delivery sample_env l n fx g = Inr g"
  by (simp_all add: sample_env_def)

lemma sample_env_ok: "hashes_ok sample_env" "delivers sample_env"
  by (simp_all add: hashes_ok_def delivers_def)

lemma sample_untouched: "untouched (sample_ledger a)"
  by (simp add: untouched_def ledger_initial_def sample_ledger_def)

lemma sample_has_injection [simp]: "has_injection sample_env c \<longleftrightarrow> cand_injection_risk c \<noteq> Risk_none"
  by (simp add: has_injection_def candidate_has_prompt_injection_signal_def split: content_ref.split)

lemma sample_validate:
  "validate_candidate sample_env (sample_ledger User_stated) (ac_candidate (sample_admit k cid Activate)) ''u'' Activate
     = Inr [sample_row ''e1'' User_stated, sample_row ''e2'' User_stated]"
  by (simp add: validate_candidate_def sample_admit_def sample_candidate_def sample_ledger_def sample_row_def
     sample_evidence_def evidence_record.extend_def minimum_admission_def row_authorities_def Let_def)

lemma sample_admit_ok: "admit_command_ok (sample_admit 49 ''c1'' Activate)"
  by (simp add: admit_command_ok_def sample_admit_def sample_proposal_def memory_candidate_ok_def
    sample_candidate_def evaluation_ok_def request_ok_defs idempotency_key_ok_def validity_window_ok_def)

lemma sample_admit_fields:
  "claim_principal_id (actor_claim (ac_envelope (sample_admit k cid d))) = ''u''"
  "evl_decision (ac_evaluation (sample_admit k cid d)) = d"
  "artifact_known s (cand_content (ac_candidate (sample_admit k cid d)))"
  "stored_in_order (ac_candidate (sample_admit k cid d))"
  by (simp_all add: sample_admit_def sample_proposal_def sample_candidate_def artifact_known_def stored_in_order_def)

lemma first_admission_succeeds_witness:
  "\<exists>r t. admit_memory sample_env (sample_admit 49 ''c1'' Activate) (sample_ledger User_stated) = (Inr r, t)
     \<and> mu_outcome r = Created"
  using first_admission_succeeds [OF sample_untouched sample_env_ok sample_admit_ok,
      of User_stated "[sample_row ''e1'' User_stated, sample_row ''e2'' User_stated]"]
  by (simp add: sample_admit_fields sample_validate) blast

subsection \<open>The ledger in every reachable state\<close>


text \<open>The ledger only grows: no step removes or rewrites evidence, candidates, revisions, links,
  decisions, status events, conflict groups, jobs, receipts or consumed approvals, no memory changes
  its owner, scope, kind or key, and the epoch never goes back.\<close>

theorem ledger_is_append_only:
  assumes "(ledger_step v)\<^sup>*\<^sup>* s t"
  shows "prefix (st_evidence s) (st_evidence t) \<and> prefix (st_candidates s) (st_candidates t)
    \<and> prefix (st_revisions s) (st_revisions t) \<and> prefix (st_links s) (st_links t)
    \<and> prefix (st_admissions s) (st_admissions t) \<and> prefix (st_statuses s) (st_statuses t)
    \<and> prefix (st_groups s) (st_groups t) \<and> prefix (st_members s) (st_members t)
    \<and> prefix (st_outbox s) (st_outbox t) \<and> prefix (st_mutations s) (st_mutations t)
    \<and> prefix (st_consumptions s) (st_consumptions t)
    \<and> prefix (map memory_id (st_objects s)) (map memory_id (st_objects t))
    \<and> prefix (map object_key (st_objects s)) (map object_key (st_objects t))
    \<and> st_ledger_epoch s \<le> st_ledger_epoch t"
proof -
  have "extends s t"
    using assms by (induction rule: rtranclp_induct) (auto intro: extends_trans dest: step_frame)
  then show ?thesis
    by (simp add: extends_def)
qed

text \<open>C9: a committed command is idempotent by its key: whatever steps follow, repeating it returns the
  same result marked as replayed and changes nothing, and another request under the same key is
  refused as a conflict, also without effect.\<close>

theorem committed_command_is_replayed:
  assumes "ledger_initial s0" and "(ledger_step v)\<^sup>*\<^sup>* s0 s"
    and "run_command v c s = (Inr r, t)" and "mu_outcome r \<noteq> Dry_run" and "(ledger_step v)\<^sup>*\<^sup>* t u"
  shows "run_command v c u = (Inr (r\<lparr>mu_replayed := True\<rparr>), u)
    \<and> (\<forall>d. command_key d = command_key c \<longrightarrow> command_hash v d \<noteq> command_hash v c
         \<longrightarrow> run_command v d u = (Inl Conflict_with_state, u))"
proof -
  have ok: "store_ok v s"
    by (rule ledger.reached_inv [OF assms(1,2)])
  have again: "run_command v c u = (Inr (r\<lparr>mu_replayed := True\<rparr>), u)"
    by (rule ledger.retry_replays [OF ok assms(3,4,5)])
  have "run_command v d u = (Inl Conflict_with_state, u)"
    if k: "command_key d = command_key c" and h: "command_hash v d \<noteq> command_hash v c" for d
  proof -
    obtain m where m: "read_mutation t (command_key c) = Some m"
      "parse_existing_result v m (command_hash v c) = Inr (r\<lparr>mu_replayed := True\<rparr>)"
      using command_recording [OF ok assms(3,4)] by blast
    then have "mr_request_hash m = command_hash v c"
      by (auto simp: parse_existing_result_def split: if_splits)
    then show ?thesis
      using m(1) ledger.kept_steps [OF assms(5) m(1)] k h
      by (auto simp: run_command_eq parse_existing_result_def)
  qed
  then show ?thesis
    using again by blast
qed

subsection \<open>Activation\<close>

lemma validate_candidate_Inr:
  assumes "validate_candidate v s c who d = Inr es"
  shows "es = sort_key evidence_id (filter (\<lambda>e. evidence_id e \<in> set (cand_evidence_ids c)) (st_evidence s))"
    "distinct (cand_evidence_ids c)" "cand_sensitivity c \<noteq> Secret" "length es = length (cand_evidence_ids c)"
    "\<forall>e \<in> set es. claim_principal_id (ev_actor e) = who \<and> ev_scope e = cand_scope c \<and> evr_purged_at e = None"
    "decision_rank (minimum_admission v c es) \<le> decision_rank d"
  using assms
  by (auto simp: validate_candidate_def Let_def run_inv list_ex_iff length_js_set_iff)

lemma minimum_Activate:
  assumes "decision_rank (minimum_admission v c es) \<le> decision_rank Activate"
  shows "\<not> has_injection v c" "cand_sensitivity c \<noteq> Sensitive" "\<not> inferred c" "\<not> requires_user_confirmation c"
    "\<forall>e \<in> set es. ev_sensitivity e \<noteq> Sensitive \<and> claim_authority (ev_actor e) = User_stated
       \<and> ev_authority e = User_stated"
proof -
  have m: "minimum_admission v c es = Activate"
    using assms by (cases "minimum_admission v c es") simp_all
  then show "\<not> has_injection v c" "cand_sensitivity c \<noteq> Sensitive" "\<not> inferred c" "\<not> requires_user_confirmation c"
    by (auto simp: minimum_admission_def Let_def split: if_splits)
  have "\<forall>a \<in> set (row_authorities es). a = User_stated"
  proof
    fix a assume "a \<in> set (row_authorities es)"
    with m show "a = User_stated"
      by (cases a) (auto simp: minimum_admission_def Let_def list_ex_iff split: if_splits)
  qed
  moreover have "\<forall>e \<in> set es. ev_sensitivity e \<noteq> Sensitive"
    using m by (auto simp: minimum_admission_def Let_def list_ex_iff split: if_splits)
  ultimately show "\<forall>e \<in> set es. ev_sensitivity e \<noteq> Sensitive \<and> claim_authority (ev_actor e) = User_stated
       \<and> ev_authority e = User_stated"
    by (auto simp: row_authorities_def)
qed

fun command_candidate :: "ledger_command \<Rightarrow> memory_candidate" where
  "command_candidate (Admit_command c) = ac_candidate c"
| "command_candidate (Revise_command c) = rc_candidate c"

fun command_principal :: "ledger_command \<Rightarrow> string" where
  "command_principal (Admit_command c) = claim_principal_id (actor_claim (ac_envelope c))"
| "command_principal (Revise_command c) = claim_principal_id (rc_actor c)"

fun command_decision :: "ledger_command \<Rightarrow> admission" where
  "command_decision (Admit_command c) = evl_decision (ac_evaluation c)"
| "command_decision (Revise_command c) = evl_decision (rc_evaluation c)"

text \<open>A command that wrote a revision validated its candidate against the evidence that is stored.\<close>

lemma effect_validated:
  assumes "command_effect v c s = Inr (r, t)" and "read_mutation s (command_key c) = None"
    and "mu_outcome r \<in> {Created, Revised}"
  shows "\<exists>u es. validate_candidate v u (command_candidate c) (command_principal c) (command_decision c) = Inr es
    \<and> st_evidence u = st_evidence t \<and> mu_lifecycle r = lifecycle_for (command_decision c)"
proof (cases c)
  case (Admit_command a)
  have "admit_effect v a (env_sha v (propose_json a)) s = Inr (r, t)" "read_mutation s (ac_idempotency_key a) = None"
    using assms Admit_command by simp_all
  then show ?thesis
  proof (rule admit_effect_Inr, goal_cases)
    case (1 es s1)
    note f = candidate_frame(5) [OF 1(2)]
    from 1(3) assms(3) have new: "create_memory v (admit_options v a (env_sha v (propose_json a)) es) s1 = Inr (r, t)"
      by (auto simp: reused_def conflict_opened_def result_names_def)
    then have "created v (admit_options v a (env_sha v (propose_json a)) es)
        (st_objects s1 @ [new_object v (admit_options v a (env_sha v (propose_json a)) es)]) r s1 t"
      by (intro create_memory_first(1)) (simp_all add: admit_options_def)
    then show ?thesis
      using 1(1) f created_tables(6) Admit_command
      by (intro exI [of _ s] exI [of _ es])
        (fastforce simp: created_def result_names_def admit_options_def)
  qed
next
  case (Revise_command a)
  let ?h = "revision_request_hash v a"
  have "revision_effect v a ?h s = Inr (r, t)" "read_mutation s (rc_idempotency_key a) = None"
    using assms Revise_command by simp_all
  then show ?thesis
  proof (rule revision_effect_Inr, goal_cases)
    case (1 m x s1 es)
    from 1(8) assms(3) obtain s2 u where s2: "insert_candidate v (rc_candidate a) (claim_principal_id (rc_actor a)) es s1 = Inr s2"
      and w: "sealed_with_approval a ?h (r, u) = Inr (r, t)"
      and cm: "create_memory v (revise_options v a ?h es m x) s2 = Inr (r, u)"
      by (auto simp: reused_def result_names_def)
    have "co_existing (revise_options v a ?h es m x) = Some m"
      by (simp add: revise_options_def)
    from create_memory_next [OF cm this] obtain objs where
      cr: "created v (revise_options v a ?h es m x) objs r s2 u" by blast
    have "st_evidence t = st_evidence u"
      using w consume_Inr by (fastforce simp: sealed_with_approval_def run_inv)
    then have "st_evidence s1 = st_evidence t"
      using created_tables(6) [OF cr] candidate_frame(5) [OF s2] by simp
    moreover have "mu_lifecycle r = lifecycle_for (evl_decision (rc_evaluation a))"
      using cr by (simp add: created_def result_names_def revise_options_def)
    ultimately show ?thesis
      using 1(5) Revise_command by auto
  qed
qed

text \<open>C2: no command activates a memory without the user's own word: when an admission or a revision
  leaves an active memory, every piece of evidence it cites is stored, unpurged, of the same principal
  and scope, not sensitive, and stated by the user in both its actor and its own authority; and the
  candidate is neither inferred nor sensitive nor secret, needs no confirmation and shows no injection.\<close>

theorem activation_needs_stated_evidence:
  assumes "run_command v c s = (Inr r, t)" and "\<not> mu_replayed r"
    and "mu_outcome r \<in> {Created, Revised}" and "mu_lifecycle r = Active"
  shows "length (filter (\<lambda>e. evidence_id e \<in> set (cand_evidence_ids (command_candidate c))) (st_evidence t))
      = length (cand_evidence_ids (command_candidate c))
    \<and> (\<forall>e \<in> set (st_evidence t). evidence_id e \<in> set (cand_evidence_ids (command_candidate c)) \<longrightarrow>
         claim_principal_id (ev_actor e) = command_principal c \<and> ev_scope e = cand_scope (command_candidate c)
         \<and> evr_purged_at e = None \<and> ev_sensitivity e \<noteq> Sensitive
         \<and> claim_authority (ev_actor e) = User_stated \<and> ev_authority e = User_stated)
    \<and> cand_sensitivity (command_candidate c) \<notin> {Sensitive, Secret} \<and> \<not> inferred (command_candidate c)
    \<and> \<not> requires_user_confirmation (command_candidate c) \<and> \<not> has_injection v (command_candidate c)"
proof -
  let ?c = "command_candidate c"
  have replayed: "mu_replayed r" if "Inr r = parse_existing_result v m h" for m h
    using that by (auto simp: parse_existing_result_def split: if_splits option.splits)
  then have eff: "read_mutation s (command_key c) = None" "command_effect v c s = Inr (r, t)"
    using run_command_cases [OF assms(1)] assms(2) replayed by blast+
  obtain u es where es: "validate_candidate v u ?c (command_principal c) (command_decision c) = Inr es"
    and u: "st_evidence u = st_evidence t" and d: "command_decision c = Activate"
    using effect_validated [OF eff(2,1) assms(3)] assms(4) by (metis lifecycle_for_Active)
  note V = validate_candidate_Inr [OF es] and M = minimum_Activate [OF V(6) [unfolded d]]
  have "set es = {e \<in> set (st_evidence t). evidence_id e \<in> set (cand_evidence_ids ?c)}"
    "length es = length (filter (\<lambda>e. evidence_id e \<in> set (cand_evidence_ids ?c)) (st_evidence t))"
    using V(1) u by auto
  then show ?thesis
    using V M by auto
qed

lemma sample_created:
  "\<exists>r t. run_command sample_env (Admit_command (sample_admit 49 ''c1'' Activate)) (sample_ledger User_stated) = (Inr r, t)
     \<and> \<not> mu_replayed r \<and> mu_outcome r = Created \<and> mu_lifecycle r = Active
     \<and> (\<exists>m. st_objects t = [m]) \<and> ledger_step sample_env (sample_ledger User_stated) t"
proof -
  obtain r t where t: "admit_memory sample_env (sample_admit 49 ''c1'' Activate) (sample_ledger User_stated) = (Inr r, t)"
    and c: "created sample_env (admit_options sample_env (sample_admit 49 ''c1'' Activate) sample_hash
        [sample_row ''e1'' User_stated, sample_row ''e2'' User_stated])
      [new_object sample_env (admit_options sample_env (sample_admit 49 ''c1'' Activate) sample_hash
        [sample_row ''e1'' User_stated, sample_row ''e2'' User_stated])] r
      ((sample_ledger User_stated)\<lparr>st_candidates := st_candidates t\<rparr>) t"
    using admit_first [OF sample_untouched sample_env_ok sample_admit_ok, of User_stated
        "[sample_row ''e1'' User_stated, sample_row ''e2'' User_stated]"]
    by (auto simp: sample_admit_fields sample_validate)
  then have "mu_outcome r = Created" "mu_lifecycle r = Active" "\<not> mu_replayed r" "\<exists>m. st_objects t = [m]"
    using created_tables(1) [OF c] by (auto simp: created_def sealed_def result_names_def admit_options_def sample_admit_fields)
  moreover have "ledger_step sample_env (sample_ledger User_stated) t"
    using ledger_step.command [of sample_env "Admit_command (sample_admit 49 ''c1'' Activate)" "sample_ledger User_stated"]
    by (simp add: sample_admit_ok t)
  ultimately show ?thesis
    using t by auto
qed

lemma activation_needs_stated_evidence_witness:
  "\<exists>r t. run_command sample_env (Admit_command (sample_admit 49 ''c1'' Activate)) (sample_ledger User_stated) = (Inr r, t)
     \<and> (\<forall>e \<in> set (st_evidence t). evidence_id e \<in> {''e1'', ''e2''} \<longrightarrow> ev_authority e = User_stated)"
proof -
  obtain r t where t: "run_command sample_env (Admit_command (sample_admit 49 ''c1'' Activate)) (sample_ledger User_stated) = (Inr r, t)"
    "\<not> mu_replayed r" "mu_outcome r = Created" "mu_lifecycle r = Active"
    using sample_created by blast
  have "mu_outcome r \<in> {Created, Revised}"
    using t by simp
  from activation_needs_stated_evidence [OF t(1,2) this t(4)] show ?thesis
    using t(1) by (auto simp: sample_admit_def sample_candidate_def)
qed


lemma ledger_is_append_only_witness:
  "\<exists>t. (ledger_step sample_env)\<^sup>*\<^sup>* (sample_ledger User_stated) t \<and> t \<noteq> sample_ledger User_stated
     \<and> prefix (st_evidence (sample_ledger User_stated)) (st_evidence t)"
proof -
  obtain t m where t: "ledger_step sample_env (sample_ledger User_stated) t" "st_objects t = [m]"
    using sample_created by blast
  then have "t \<noteq> sample_ledger User_stated"
    by (auto simp: sample_ledger_def)
  then show ?thesis
    using ledger_is_append_only [of sample_env "sample_ledger User_stated" t] t(1) by blast
qed

lemma committed_command_is_replayed_witness:
  "\<exists>r t. run_command sample_env (Admit_command (sample_admit 49 ''c1'' Activate)) (sample_ledger User_stated) = (Inr r, t)
     \<and> run_command sample_env (Admit_command (sample_admit 49 ''c1'' Activate)) t = (Inr (r\<lparr>mu_replayed := True\<rparr>), t)"
proof -
  obtain r t where t: "run_command sample_env (Admit_command (sample_admit 49 ''c1'' Activate)) (sample_ledger User_stated) = (Inr r, t)"
    "mu_outcome r = Created"
    using sample_created by blast
  have i: "ledger_initial (sample_ledger User_stated)"
    using sample_untouched by (simp add: untouched_def)
  show ?thesis
    using committed_command_is_replayed [OF i _ t(1), of t] t by auto
qed

subsection \<open>Concurrent revisions\<close>

lemma superseded_not_current:
  assumes "tables_ok objs revs adms" and "x \<in> set revs" "supersedes x = Some p"
    and "m \<in> set objs" "memory_id m = rev_memory_id x"
  shows "current_revision_id m \<noteq> Some p"
proof
  assume p: "current_revision_id m = Some p"
  note D = tables_okD [OF assms(1)]
  from D(7) [OF assms(2)] assms(3) obtain y where y: "y \<in> set revs" "revision_id y = p"
    "revision_no x = revision_no y + 1"
    by (auto simp: chain_ok_def)
  from D(6) [OF assms(4)] p obtain r where r: "r \<in> set revs" "revision_id r = p"
    "\<forall>x \<in> set revs. rev_memory_id x = memory_id m \<longrightarrow> revision_no x \<le> revision_no r"
    by (auto simp: current_ok_def)
  have "r = y"
    using r y D(3) by (metis distinct_map inj_onD)
  then show False
    using r(3) y(3) assms(2,5) by fastforce
qed

lemma extends_steps: "(ledger_step v)\<^sup>*\<^sup>* s t \<Longrightarrow> extends s t"
  by (induction rule: rtranclp_induct) (auto intro: extends_trans dest: step_frame)

lemma prefix_in: "prefix xs ys \<Longrightarrow> x \<in> set xs \<Longrightarrow> x \<in> set ys"
  by (auto simp: prefix_def)

lemma not_replayed_effect:
  assumes "run_command v c s = (Inr r, t)" and "\<not> mu_replayed r"
  shows "read_mutation s (command_key c) = None \<and> command_effect v c s = Inr (r, t)"
proof -
  have "mu_replayed r" if "Inr r = parse_existing_result v m h" for m h
    using that by (auto simp: parse_existing_result_def split: if_splits option.splits)
  then show ?thesis
    using run_command_cases [OF assms(1)] assms(2) by blast
qed

lemma fails_or_effect:
  assumes "read_mutation s (command_key c) = None"
  shows "(\<exists>e. run_command v c s = (Inl e, s)) \<or> (\<exists>r t. command_effect v c s = Inr (r, t))"
  using assms by (auto simp: run_command_eq governed_write_def split: sum.split)

lemma revised_supersedes:
  assumes "run_command v (Revise_command c) s = (Inr r, t)" and "\<not> mu_replayed r" and "mu_outcome r = Revised"
  shows "\<exists>x \<in> set (st_revisions t). supersedes x = Some (rc_expected_revision_id c)
    \<and> rev_memory_id x = rc_memory_id c \<and> revision_id x = mu_current_revision_id r"
proof -
  let ?h = "revision_request_hash v c"
  have "revision_effect v c ?h s = Inr (r, t)" "read_mutation s (rc_idempotency_key c) = None"
    using not_replayed_effect [OF assms(1,2)] by simp_all
  then show ?thesis
  proof (rule revision_effect_Inr, goal_cases)
    case (1 m x s1 es)
    from 1(8) assms(3) obtain s2 u where w: "sealed_with_approval c ?h (r, u) = Inr (r, t)"
      and cm: "create_memory v (revise_options v c ?h es m x) s2 = Inr (r, u)"
      by (auto simp: reused_def result_names_def)
    have ex: "co_existing (revise_options v c ?h es m x) = Some m"
      by (simp add: revise_options_def)
    from create_memory_next [OF cm this] obtain objs where
      cr: "created v (revise_options v c ?h es m x) objs r s2 u" by blast
    have mid: "new_memory_id v (revise_options v c ?h es m x) = rc_memory_id c"
      using new_memory_id_existing [OF ex] revisable_object_Inr(2) [OF 1(2)] by simp
    have "st_revisions t = st_revisions u"
      using consume_frame(2) [OF w] by (simp add: same_memories_def)
    then have "new_revision v (revise_options v c ?h es m x) \<in> set (st_revisions t)"
      using created_tables(2) [OF cr] by simp
    moreover have "mu_current_revision_id r = new_revision_id v (revise_options v c ?h es m x)"
      using cr by (simp add: created_def result_names_def)
    ultimately show ?thesis
      using mid 1(7) by (intro bexI) (auto simp: revise_options_def)
  qed
qed

text \<open>C11: no update is lost: once a command has revised a memory against the revision it expected, any
  other command that expects the same revision fails, at whatever later state it runs, and leaves
  the ledger as it was (\<open>store_ok\<close> holds in every reachable state).\<close>

theorem no_lost_update:
  assumes "store_ok v s" and "command_ok v (Revise_command c)"
    and "run_command v (Revise_command c) s = (Inr r, t)" "\<not> mu_replayed r" "mu_outcome r = Revised"
    and "(ledger_step v)\<^sup>*\<^sup>* t u"
    and "rc_memory_id d = rc_memory_id c" "rc_expected_revision_id d = rc_expected_revision_id c"
    and "read_mutation u (rc_idempotency_key d) = None"
  shows "\<exists>e. run_command v (Revise_command d) u = (Inl e, u)"
proof (rule ccontr)
  assume none: "\<nexists>e. run_command v (Revise_command d) u = (Inl e, u)"
  have "ledger_step v s t"
    using ledger_step.command [OF assms(2), of s] assms(3) by simp
  from step_ok [OF assms(1) this] have "store_ok v t" .
  then have u: "tables_ok (st_objects u) (st_revisions u) (st_admissions u)"
    using ledger.steps_inv [OF assms(6)] by (simp add: store_ok_def memories_ok_def)
  from revised_supersedes [OF assms(3-5)] obtain x where x: "x \<in> set (st_revisions t)"
    "supersedes x = Some (rc_expected_revision_id c)" "rev_memory_id x = rc_memory_id c" by blast
  have "x \<in> set (st_revisions u)"
    by (rule prefix_in [OF _ x(1)]) (use extends_steps [OF assms(6)] in \<open>simp add: extends_def\<close>)
  note gone = superseded_not_current [OF u this x(2)]
  from none assms(9) obtain r' u' where
    "revision_effect v d (revision_request_hash v d) u = Inr (r', u')"
    using fails_or_effect [of u "Revise_command d" v] by auto
  then show False
    using assms(9)
  proof (rule revision_effect_Inr, goal_cases)
    case (1 m y s1 es)
    from revisable_object_Inr(1-3) [OF 1(2)] gone x(3) assms(7,8) show ?thesis by auto
  qed
qed


subsection \<open>A sample revision\<close>

definition sample_where :: scope where
  "sample_where = \<lparr>scope_kind_of = Sk_workspace, scope_id = ''w''\<rparr>"

definition sample_old_hash :: string where
  "sample_old_hash = ''sha256:'' @ replicate 64 (CHR ''1'')"

definition sample_object :: object_row where
  "sample_object = \<lparr>memory_id = ''m1'', mem_kind = Semantic, mem_scope = sample_where, mem_lifecycle = Active,
     current_revision_id = Some ''r1'', pinned = False, context_eligible = True, mem_created_at = sample_now,
     mem_updated_at = sample_now, obr_principal = ''u'', obr_logical_key_hash = sample_hash\<rparr>"

definition sample_revision :: revision_row where
  "sample_revision = \<lparr>revision_id = ''r1'', rev_memory_id = ''m1'', revision_no = 1, abstraction = L1_memory,
     rev_lifecycle = Active, rev_kind = Semantic, rev_scope = sample_where, rev_authority = User_stated,
     rev_sensitivity = Internal,
     validity = \<lparr>valid_from = sample_now, valid_to = None, recorded_at = sample_now\<rparr>, rev_inferred = False,
     rev_content = Some (Inline [111] ''text/plain''), rev_content_hash = sample_old_hash,
     rev_evidence_ids = [''e1''], derived_from = [], supersedes = None,
     rev_transform = \<lparr>transform_name = ''manual'', transform_version = ''1.0.0''\<rparr>, rvr_created_at = sample_now\<rparr>"

definition sample_decision :: admission_decision where
  "sample_decision = \<lparr>decision_id = ''d1'', dec_memory_id = ''m1'', dec_revision_id = ''r1'',
     dec_decision = Activate, decided_by = \<lparr>claim_principal_id = ''u'', claim_authority = User_stated\<rparr>,
     decided_at = sample_now, dec_reason = [111], dec_conflict_group_id = None,
     dec_requires_user_confirmation = False\<rparr>"

definition sample_store :: "unit store" where
  "sample_store = (sample_ledger User_stated)\<lparr>st_objects := [sample_object],
     st_revisions := [sample_revision], st_admissions := [sample_decision]\<rparr>"

definition sample_approval :: verified_approval where
  "sample_approval = \<lparr>va_grant = \<lparr>grant_approval_id = ''a1'', grant_principal_id = ''u'',
       grant_tool = Memory_correct, grant_safety_class = Important_mutation, grant_scopes = [sample_where],
       grant_request_hash = sample_hash, grant_issued_at = Timestamp ''t0'' 0,
       grant_expires_at = Timestamp ''t9'' 10, grant_manifest_hash = sample_hash, grant_learning = None\<rparr>,
     va_registry_hash = sample_hash, va_verified_at = Timestamp ''t5'' 5\<rparr>"

definition sample_revise :: "nat \<Rightarrow> revision_command" where
  "sample_revise k = \<lparr>rc_idempotency_key = [107, 101, 121, 45, 48, 48, 48, k],
     rc_actor = \<lparr>claim_principal_id = ''u'', claim_authority = User_stated\<rparr>, rc_scope = sample_where,
     rc_requested_at = sample_now, rc_memory_id = ''m1'', rc_expected_revision_id = ''r1'',
     rc_candidate = sample_candidate, rc_evaluation = \<lparr>evl_decision = Quarantine, evl_reason = [111]\<rparr>,
     rc_dry_run = False, rc_request_hash = Some sample_hash,
     rc_approval_binding = Some \<lparr>bind_approval_id = ''a1'', bind_principal_id = ''u'', bind_tool = Memory_correct,
       bind_safety_class = Important_mutation, bind_scopes = [sample_where], bind_request_hash = sample_hash,
       bind_learning = None\<rparr>,
     rc_approval = Some sample_approval, rc_correction_evidence = None, rc_expected_impact = None\<rparr>"

lemma sample_store_ok: "store_ok sample_env sample_store"
  by (simp add: store_ok_def memories_ok_def receipts_ok_def tables_ok_def sample_store_def sample_ledger_def
    sample_object_def sample_revision_def sample_decision_def current_ok_def chain_ok_def decided_ok_def)

lemma sample_revise_ok: "command_ok sample_env (Revise_command (sample_revise 49))"
  by (simp add: revision_command_ok_def sample_revise_def sample_approval_def sample_where_def
    memory_candidate_ok_def sample_candidate_def evaluation_ok_def request_ok_defs idempotency_key_ok_def
    validity_window_ok_def approval_binding_ok_def approval_grant_ok_def learning_matches_tool_def)

lemma sample_approval_valid:
  "validate_revision_approval sample_env (sample_revise k) sample_hash sample_store = Inr ()"
  by (simp add: validate_revision_approval_def sample_revise_def sample_approval_def sample_store_def
    sample_ledger_def approval_grant_matches_def approval_binding_ok_def approval_grant_ok_def
    learning_matches_tool_def request_ok_defs sample_where_def Let_def)

lemma sample_key_hash: "key_hash sample_env k = sample_hash"
  by (simp add: key_hash_def logical_key_hash_def)

lemma sample_revisable: "revisable_object sample_env (sample_revise k) sample_store = Inr sample_object"
  by (simp add: revisable_object_def find_object_def sample_revise_def sample_store_def sample_object_def
    open_groups_def sample_key_hash sample_ledger_def sample_candidate_def)

lemma sample_revise_validate:
  "validate_candidate sample_env sample_store sample_candidate ''u'' Quarantine
     = Inr [sample_row ''e1'' User_stated, sample_row ''e2'' User_stated]"
  by (simp add: validate_candidate_def sample_candidate_def sample_ledger_def sample_row_def sample_store_def
     sample_evidence_def evidence_record.extend_def minimum_admission_def row_authorities_def Let_def)

definition sample_options :: "nat \<Rightarrow> create_options" where
  "sample_options k = revise_options sample_env (sample_revise k) sample_hash
     [sample_row ''e1'' User_stated, sample_row ''e2'' User_stated] sample_object sample_revision"

lemma sample_options_fields [simp]:
  "co_existing (sample_options k) = Some sample_object" "co_supersedes (sample_options k) = Some sample_revision"
  "co_revision_number (sample_options k) = 2" "co_decision (sample_options k) = Quarantine"
  "co_candidate (sample_options k) = sample_candidate" "co_requested_at (sample_options k) = sample_now"
  "co_actor (sample_options k) = \<lparr>claim_principal_id = ''u'', claim_authority = User_stated\<rparr>"
  "co_idempotency_key (sample_options k) = [107, 101, 121, 45, 48, 48, 48, k]"
  "co_request_hash (sample_options k) = sample_hash" "co_outcome (sample_options k) = Revised"
  "new_memory_id sample_env (sample_options k) = ''m1''"
  by (simp_all add: sample_options_def revise_options_def sample_revise_def sample_revision_def
    new_memory_id_def sample_object_def)

lemma sample_identifier: "storage_identifier sample_env pre ps = pre @ '':'' @ replicate 48 (CHR ''0'')"
  by (simp add: storage_identifier_def sample_hash_def)

lemma sample_new_revision_id:
  "new_revision_id sample_env (sample_options k) = ''revision:'' @ replicate 48 (CHR ''0'')"
  by (simp add: new_revision_id_def sample_identifier)

lemma sample_write_rows:
  assumes "st_revisions s = [sample_revision]" "st_links s = []" "st_admissions s = [sample_decision]"
  shows "write_rows sample_env (sample_options k) s = Inr (s\<lparr>
    st_revisions := [sample_revision, new_revision sample_env (sample_options k)],
    st_links := [new_link sample_env (sample_options k)],
    st_admissions := [sample_decision, new_admission sample_env (sample_options k)]\<rparr>)"
proof -
  have "insert_revision_row (new_revision sample_env (sample_options k)) s
      = Inr (s\<lparr>st_revisions := [sample_revision, new_revision sample_env (sample_options k)]\<rparr>)"
    using assms by (simp add: insert_revision_row_Inr sample_new_revision_id)
      (simp add: new_revision_def candidate_revision_def sample_revision_def sample_candidate_def artifact_known_def)
  then show ?thesis
    using assms by (simp add: write_rows_def Let_def insert_revision_def new_revision_def link_candidate_def
      insert_row_def new_link_def insert_admission_def new_admission_def admission_row_def sample_decision_def
      sample_identifier)
qed


lemma sample_create_next:
  assumes "st_objects s = [sample_object]" "st_revisions s = [sample_revision]" "st_links s = []"
    and "st_admissions s = [sample_decision]" "st_statuses s = []" "st_outbox s = []" "st_mutations s = []"
    and "st_projections s = st_projections (sample_ledger User_stated)"
    and "idempotency_key_ok [107, 101, 121, 45, 48, 48, 48, k]"
  shows "\<exists>r t. create_memory sample_env (sample_options k) s = Inr (r, t)"
proof -
  let ?q = "sample_options k"
  let ?s1 = "s\<lparr>st_revisions := [sample_revision, new_revision sample_env ?q],
    st_links := [new_link sample_env ?q], st_admissions := [sample_decision, new_admission sample_env ?q]\<rparr>"
  have s1: "write_rows sample_env ?q s = Inr ?s1"
    using assms by (intro sample_write_rows)
  have "\<exists>s2. replace_current sample_env ?q ?s1 = Inr s2 \<and> st_outbox s2 = [] \<and> st_mutations s2 = []
      \<and> st_projections s2 = st_projections s"
    using assms by (simp add: replace_current_def move_current_def insert_status_def insert_row_def
      sample_object_def sample_revision_def)
  then obtain s2 where s2: "replace_current sample_env ?q ?s1 = Inr s2" "st_outbox s2 = []" "st_mutations s2 = []"
    "st_projections s2 = st_projections s" by blast
  have w: "write_revision sample_env ?q s = Inr s2"
    using s2(1) by (simp add: write_revision_def s1 announce_revision_def)
  obtain s3 where s3: "insert_outbox sample_env ''fts_memory_delete'' ''r1'' sample_now s2
      = Inr (''job:'' @ replicate 48 (CHR ''0''), s3)" "st_mutations s3 = []" "st_projections s3 = st_projections s"
    using s2 by (simp add: insert_outbox_def insert_row_def Let_def sample_identifier)
  have "\<exists>ps. suppress_projection_descendants (env_sha sample_env) (env_delivery sample_env) l n fx
      (st_projections (sample_ledger User_stated)) = Inr (''projection-job:'' @ replicate 41 (CHR ''0''), ps)" for l n fx
    by (simp add: suppress_projection_descendants_def Let_def all_descendants_def derived_rows_def sample_ledger_def
      direct_descendants_def mark_scope_pending_def enqueue_job_def insert_row_def stable_job_id_def deliver_def
      sample_hash_def)
  then obtain ps where "suppress_projection_descendants (env_sha sample_env) (env_delivery sample_env)
      (st_ledger_epoch s3) (st_tombstone_epoch s3) (projection_effect_of ?q ''m1'' ''r1'')
      (st_projections (sample_ledger User_stated)) = Inr (''projection-job:'' @ replicate 41 (CHR ''0''), ps)" by blast
  then have "suppress_in_store sample_env (projection_effect_of ?q ''m1'' ''r1'') s3
      = Inr (''projection-job:'' @ replicate 41 (CHR ''0''), s3\<lparr>st_projections := ps\<rparr>)"
    unfolding suppress_in_store_def s3(3) assms(8) by simp
  then obtain s4 where s4: "suppress_in_store sample_env (projection_effect_of ?q ''m1'' ''r1'') s3
      = Inr (''projection-job:'' @ replicate 41 (CHR ''0''), s4)" "st_mutations s4 = []"
    using s3(2) that [of "s3\<lparr>st_projections := ps\<rparr>"] by simp
  have ids: "identifier_ok (''job:'' @ replicate 48 (CHR ''0''))"
    "identifier_ok (''projection-job:'' @ replicate 41 (CHR ''0''))"
    "identifier_ok (''revision:'' @ replicate 48 (CHR ''0''))"
    "identifier_ok (''receipt:'' @ replicate 48 (CHR ''0''))" "identifier_ok ''m1''" "identifier_ok ''r1''"
    "identifier_ok ''c1''"
    by (simp_all add: identifier_ok_def ascii_alnum_def list_all_iff)
  have "\<exists>r t. seal_mutation sample_env
       \<lparr>sq_idempotency_key = [107, 101, 121, 45, 48, 48, 48, k], sq_request_hash = sample_hash,
        sq_who = ''u'', sq_scope = cand_scope sample_candidate, sq_requested_at = sample_now,
        sq_outcome = Revised, sq_candidate_id = candidate_id sample_candidate, sq_memory_id = ''m1'',
        sq_current_revision_id = ''revision:'' @ replicate 48 (CHR ''0''), sq_conflict_group_id = None,
        sq_lifecycle = Quarantined, sq_decision = Some Quarantine, sq_previous_revision_id = Some ''r1'',
        sq_projection_jobs = [''job:'' @ replicate 48 (CHR ''0''), ''projection-job:'' @ replicate 41 (CHR ''0'')],
        sq_warnings = [], sq_advance_epoch = True\<rparr> s4 = Inr (r, t)"
    using s4(2) ids assms(9) by (simp add: seal_mutation_def sealed_receipt_def Let_def mutation_receipt_ok_def
      mutation_result_ok_def sample_identifier sample_candidate_def insert_row_def)
  moreover have "sample_revision = sample_revision \<and> revision_id sample_revision = ''r1''"
    by (simp add: sample_revision_def)
  ultimately show ?thesis
    using w s3(1) s4(1) by (simp add: create_memory_def Let_def optional_job_def sample_new_revision_id)
qed

lemma sample_keys_ok: "k \<in> {49, 50} \<Longrightarrow> idempotency_key_ok [107, 101, 121, 45, 48, 48, 48, k]"
  by (auto simp: idempotency_key_ok_def js_trim_def js_space_def utf16_def)

lemma sample_insert_candidate:
  "\<exists>row. insert_candidate sample_env sample_candidate ''u'' es sample_store
     = Inr (sample_store\<lparr>st_candidates := [row]\<rparr>)"
  by (simp add: insert_candidate_def Let_def insert_row_def sample_store_def sample_ledger_def
    artifact_known_def sample_candidate_def)

lemma sample_revision_run:
  "\<exists>r t. run_command sample_env (Revise_command (sample_revise 49)) sample_store = (Inr r, t)
     \<and> \<not> mu_replayed r \<and> mu_outcome r = Revised
     \<and> read_mutation t [107, 101, 121, 45, 48, 48, 48, 50] = None"
proof -
  let ?c = "sample_revise 49" and ?es = "[sample_row ''e1'' User_stated, sample_row ''e2'' User_stated]"
  obtain row where s2: "insert_candidate sample_env sample_candidate ''u'' ?es sample_store
      = Inr (sample_store\<lparr>st_candidates := [row]\<rparr>)"
    using sample_insert_candidate by blast
  let ?s2 = "sample_store\<lparr>st_candidates := [row]\<rparr>"
  obtain r t where t: "create_memory sample_env (sample_options 49) ?s2 = Inr (r, t)"
    using sample_create_next [of ?s2 49] sample_keys_ok [of 49] by (auto simp: sample_store_def sample_ledger_def)
  have ex: "co_existing (sample_options 49) = Some sample_object" by simp
  from create_memory_next [OF t ex] obtain objs where
    cr: "created sample_env (sample_options 49) objs r ?s2 t" by blast
  have r: "mu_outcome r = Revised" "\<not> mu_replayed r"
    using cr by (auto simp: created_def result_names_def sealed_def)
  have none: "st_consumptions t = []"
    using created_tables(8) [OF cr] by (simp add: sample_store_def sample_ledger_def)
  then obtain u where u: "sealed_with_approval ?c sample_hash (r, t) = Inr (r, u)" "st_mutations u = st_mutations t"
    by (auto simp: sealed_with_approval_def consume_revision_approval_def sample_revise_def Let_def)
  have fields: "rc_candidate ?c = sample_candidate" "rc_actor ?c = \<lparr>claim_principal_id = ''u'', claim_authority = User_stated\<rparr>"
    "evl_decision (rc_evaluation ?c) = Quarantine" "rc_expected_revision_id ?c = ''r1''" "\<not> rc_dry_run ?c"
    "rc_expected_impact ?c = None" "rc_correction_evidence ?c = None"
    "revision_request_hash sample_env ?c = sample_hash" "rc_idempotency_key ?c = [107, 101, 121, 45, 48, 48, 48, 49]"
    by (simp_all add: sample_revise_def revision_request_hash_def)
  have s: "read_mutation sample_store k = None" "read_revision sample_store ''r1'' = Inr sample_revision"
    "rev_content_hash sample_revision \<noteq> cand_content_hash sample_candidate" for k
    by (simp_all add: sample_store_def sample_ledger_def read_mutation_def read_revision_def sample_revision_def
      sample_candidate_def sample_old_hash_def sample_hash_def)
  have opts: "revise_options sample_env ?c sample_hash ?es sample_object sample_revision = sample_options 49"
    by (simp add: sample_options_def)
  have "bindE (create_memory sample_env (revise_options sample_env ?c sample_hash ?es sample_object sample_revision) ?s2)
      (sealed_with_approval ?c sample_hash) = Inr (r, u)"
    unfolding opts using t u by simp
  then have eff: "revision_effect sample_env ?c sample_hash sample_store = Inr (r, u)"
    unfolding revision_effect_def Let_def fields s option.case revise_options_def
      sample_approval_valid sample_revisable
    using s(3) sample_revise_validate s2
    by (simp add: revalidate_impact_def insert_correction_evidence_def fields s sample_revise_validate)
  moreover have "read_mutation u [107, 101, 121, 45, 48, 48, 48, 50] = None"
    using created_tables(9) [OF cr] u(2) by (auto simp: read_mutation_def sample_store_def sample_ledger_def)
  ultimately show ?thesis
    using r by (intro exI [of _ r] exI [of _ u])
      (simp add: apply_memory_revision_def Let_def fields s governed_write_def)
qed

lemma no_lost_update_witness:
  "\<exists>r t e. run_command sample_env (Revise_command (sample_revise 49)) sample_store = (Inr r, t)
     \<and> run_command sample_env (Revise_command (sample_revise 50)) t = (Inl e, t)"
proof -
  obtain r t where t: "run_command sample_env (Revise_command (sample_revise 49)) sample_store = (Inr r, t)"
    "\<not> mu_replayed r" "mu_outcome r = Revised" "read_mutation t (rc_idempotency_key (sample_revise 50)) = None"
    using sample_revision_run by (auto simp: sample_revise_def)
  have "\<exists>e. run_command sample_env (Revise_command (sample_revise 50)) t = (Inl e, t)"
    by (rule no_lost_update [OF sample_store_ok sample_revise_ok t(1-3) rtranclp.rtrancl_refl _ _ t(4)])
      (simp_all add: sample_revise_def)
  then show ?thesis
    using t(1) by blast
qed


end
