(* ===== verification/GovernanceRefinement.thy ===== *)
theory GovernanceRefinement
  imports GovernanceProperties
begin

text \<open>
  The abstract specification of the ledger: a versioned register per identity (owner, scope, kind,
  logical key). A proposal fills an empty register, confirms an equal content or is put aside as a
  conflict; a correction replaces a different content and counts a version. The tables, transactions,
  receipts, evidence and approvals of the governance repository refine it.
\<close>

type_synonym book = "string \<times> scope \<times> memory_kind \<times> string \<rightharpoonup> string \<times> lifecycle \<times> nat"

definition book_admit ::
  "string \<times> scope \<times> memory_kind \<times> string \<Rightarrow> string \<Rightarrow> lifecycle \<Rightarrow> book \<Rightarrow> mutation_outcome \<times> book" where
  "book_admit k h lc b = (case b k of
     None \<Rightarrow> (Created, b(k \<mapsto> (h, lc, 1)))
   | Some (h', lc', n) \<Rightarrow> (if h' = h then Reused else Conflict, b))"

definition book_revise ::
  "string \<times> scope \<times> memory_kind \<times> string \<Rightarrow> string \<Rightarrow> lifecycle \<Rightarrow> book \<Rightarrow> (mutation_outcome \<times> book) option" where
  "book_revise k h lc b = (case b k of
     None \<Rightarrow> None
   | Some (h', lc', n) \<Rightarrow> Some (if h' = h then (Reused, b) else (Revised, b(k \<mapsto> (h, lc, n + 1)))))"

definition book_of :: "'g store \<Rightarrow> book" where
  "book_of s k = (case List.find (\<lambda>m. object_key m = k) (st_objects s) of None \<Rightarrow> None
     | Some m \<Rightarrow> (case current_revision_id m of None \<Rightarrow> None
         | Some i \<Rightarrow> map_option (\<lambda>r. (rev_content_hash r, mem_lifecycle m, revision_no r))
             (List.find (\<lambda>r. revision_id r = i) (st_revisions s))))"

lemma find_unique: "distinct (map f xs) \<Longrightarrow> x \<in> set xs \<Longrightarrow> List.find (\<lambda>y. f y = f x) xs = Some x"
  by (induction xs) auto

lemma book_of_same: "same_memories s s' \<Longrightarrow> book_of s' = book_of s"
  by (simp add: fun_eq_iff book_of_def same_memories_def cong: option.case_cong)

lemma book_of_None: "List.find (\<lambda>m. object_key m = k) (st_objects s) = None \<Longrightarrow> book_of s k = None"
  by (simp add: book_of_def)

lemma book_of_Some:
  assumes "memories_ok s" and "m \<in> set (st_objects s)" and "current_revision_id m = Some (revision_id r)"
    and "r \<in> set (st_revisions s)"
  shows "book_of s (object_key m) = Some (rev_content_hash r, mem_lifecycle m, revision_no r)"
  using assms find_unique [of object_key "st_objects s" m] find_unique [of revision_id "st_revisions s" r]
  by (simp add: book_of_def memories_ok_def tables_ok_def)

lemma book_of_cases:
  assumes "memories_ok s"
  obtains "book_of s k = None" "k \<notin> object_key ` set (st_objects s)"
  | m r where "m \<in> set (st_objects s)" "object_key m = k" "r \<in> set (st_revisions s)"
      "current_revision_id m = Some (revision_id r)"
      "book_of s k = Some (rev_content_hash r, mem_lifecycle m, revision_no r)"
proof (cases "k \<in> object_key ` set (st_objects s)")
  case True
  then obtain m where m: "m \<in> set (st_objects s)" "object_key m = k" by blast
  then obtain r where "r \<in> set (st_revisions s)" "current_revision_id m = Some (revision_id r)"
    using tables_okD(6) [OF assms [unfolded memories_ok_def]] by (auto simp: current_ok_def)
  then show ?thesis
    using book_of_Some [OF assms] m that(2) by blast
next
  case False
  then have "book_of s k = None"
    by (intro book_of_None) (auto simp: find_None_iff_all)
  then show ?thesis
    using that(1) False by blast
qed

text \<open>A store whose tables have one more object and revision, or one moved object and a revision.\<close>

lemma book_of_first:
  assumes "memories_ok s" and "memories_ok s'" and "st_objects s' = st_objects s @ [m]"
    and "st_revisions s' = st_revisions s @ [r]" and "current_revision_id m = Some (revision_id r)"
    and "object_key m \<notin> object_key ` set (st_objects s)"
  shows "book_of s' = (book_of s)(object_key m \<mapsto> (rev_content_hash r, mem_lifecycle m, revision_no r))"
proof
  fix k
  show "book_of s' k = ((book_of s)(object_key m \<mapsto> (rev_content_hash r, mem_lifecycle m, revision_no r))) k"
  proof (cases "k = object_key m")
    case True
    then show ?thesis
      using book_of_Some [OF assms(2), of m r] assms(3,4,5) by simp
  next
    case False
    show ?thesis
    proof (cases rule: book_of_cases [OF assms(1), of k])
      case 1
      then have "book_of s' k = None"
        using False assms(3) by (intro book_of_None) (auto simp: find_None_iff_all)
      then show ?thesis
        using 1 False by simp
    next
      case (2 x y)
      then show ?thesis
        using book_of_Some [OF assms(2), of x y] assms(3,4) False by auto
    qed
  qed
qed

lemma book_of_next:
  assumes "memories_ok s" and "memories_ok s'" and "m \<in> set (st_objects s)"
    and "current_revision_id m = Some (revision_id old)"
    and "st_objects s' = map (moved (memory_id m) (revision_id old) (revision_id r) lc now) (st_objects s)"
    and "st_revisions s' = st_revisions s @ [r]"
  shows "book_of s' = (book_of s)(object_key m \<mapsto> (rev_content_hash r, lc, revision_no r))"
proof
  let ?f = "moved (memory_id m) (revision_id old) (revision_id r) lc now"
  fix k
  show "book_of s' k = ((book_of s)(object_key m \<mapsto> (rev_content_hash r, lc, revision_no r))) k"
  proof (cases "k = object_key m")
    case True
    have "?f m \<in> set (st_objects s')" "current_revision_id (?f m) = Some (revision_id r)" "mem_lifecycle (?f m) = lc"
      using assms(3-5) by (auto simp: moved_def)
    then show ?thesis
      using book_of_Some [OF assms(2), of "?f m" r] assms(6) True by simp
  next
    case False
    show ?thesis
    proof (cases rule: book_of_cases [OF assms(1), of k])
      case 1
      then have "book_of s' k = None"
        using assms(5) by (intro book_of_None) (auto simp: find_None_iff_all)
      then show ?thesis
        using 1 False by simp
    next
      case (2 x y)
      have "memory_id x \<noteq> memory_id m"
        using current_unique [OF assms(1) [unfolded memories_ok_def] 2(1) assms(3)] 2(2) False by blast
      then have "x \<in> set (st_objects s')"
        using 2(1) assms(5) by (force simp: moved_def image_iff)
      then show ?thesis
        using book_of_Some [OF assms(2), of x y] 2 assms(6) False by auto
    qed
  qed
qed


fun command_identity :: "'g governance_env \<Rightarrow> ledger_command \<Rightarrow> string \<times> scope \<times> memory_kind \<times> string" where
  "command_identity v (Admit_command c) = admit_key v c"
| "command_identity v (Revise_command c) = (claim_principal_id (rc_actor c), rc_scope c,
     cand_kind (rc_candidate c), key_hash v (logical_key (rc_candidate c)))"

fun book_step :: "'g governance_env \<Rightarrow> ledger_command \<Rightarrow> book \<Rightarrow> (mutation_outcome \<times> book) option" where
  "book_step v (Admit_command c) b = Some (book_admit (admit_key v c) (cand_content_hash (ac_candidate c))
     (lifecycle_for (evl_decision (ac_evaluation c))) b)"
| "book_step v (Revise_command c) b = book_revise (command_identity v (Revise_command c))
     (cand_content_hash (rc_candidate c)) (lifecycle_for (evl_decision (rc_evaluation c))) b"

lemma key_of_new_object:
  "object_key (new_object v (admit_options v c h es)) = admit_key v c"
  by (simp add: object_key_def admit_key_def admit_options_def)

lemma admit_refines:
  assumes ok: "memories_ok s" and eff: "admit_effect v c h s = Inr (r, t)"
    and none: "read_mutation s (ac_idempotency_key c) = None"
  shows "(mu_outcome r, book_of t) = book_admit (admit_key v c) (cand_content_hash (ac_candidate c))
    (lifecycle_for (evl_decision (ac_evaluation c))) (book_of s)"
  using eff none
proof (rule admit_effect_Inr, goal_cases)
  case (1 es s1)
  have same: "same_memories s s1"
    by (rule candidate_frame(1) [OF 1(2)])
  have ok1: "memories_ok s1"
    using same_memories_ok [OF same] ok by simp
  have okt: "memories_ok t"
    using admit_frame [OF eff none] ok by simp
  let ?q = "admit_options v c h es"
  from 1(3) show ?case
  proof (elim disjE conjE exE)
    assume n: "List.find (\<lambda>m. object_key m = admit_key v c) (st_objects s) = None"
      and cm: "create_memory v ?q s1 = Inr (r, t)"
    have "co_existing ?q = None" by (simp add: admit_options_def)
    note cr = create_memory_first [OF cm this]
    have "book_of t = (book_of s1)(admit_key v c \<mapsto>
        (rev_content_hash (new_revision v ?q), mem_lifecycle (new_object v ?q), revision_no (new_revision v ?q)))"
      using book_of_first [OF ok1 okt created_tables(1,2) [OF cr(1)]] cr(2) by (simp add: key_of_new_object)
    moreover have "mu_outcome r = Created"
      using cr(1) by (simp add: created_def result_names_def admit_options_def)
    ultimately show ?thesis
      using book_of_None [OF n] by (simp add: book_of_same [OF same] book_admit_def admit_options_def)
  next
    fix m x
    assume m: "m \<in> set (st_objects s)" "object_key m = admit_key v c" "x \<in> set (st_revisions s)"
      "current_revision_id m = Some (revision_id x)"
    have b: "book_of s (admit_key v c) = Some (rev_content_hash x, mem_lifecycle m, revision_no x)"
      using book_of_Some [OF ok m(1,4,3)] m(2) by simp
    {
      assume "rev_content_hash x = cand_content_hash (ac_candidate c)"
        "reused v (ac_idempotency_key c) h (claim_principal_id (actor_claim (ac_envelope c)), cand_scope (ac_candidate c))
           (candidate_id (ac_candidate c)) m x r s1 t"
      then show ?thesis
        using b book_of_same [of s1 t] by (auto simp: reused_def result_names_def book_admit_def book_of_same [OF same])
    next
      assume "rev_content_hash x \<noteq> cand_content_hash (ac_candidate c)"
        "conflict_opened v \<lparr>xo_idempotency_key = ac_idempotency_key c, xo_request_hash = h,
            xo_who = claim_principal_id (actor_claim (ac_envelope c)),
            xo_requested_at = requested_at (ac_envelope c), xo_candidate_id = candidate_id (ac_candidate c),
            xo_memory = m, xo_current = x, xo_logical_hash = key_hash v (logical_key (ac_candidate c)),
            xo_scope = cand_scope (ac_candidate c)\<rparr> r s1 t"
      then show ?thesis
        using b book_of_same [of s1 t]
        by (auto simp: conflict_opened_def result_names_def book_admit_def book_of_same [OF same])
    }
  qed
qed

lemma revise_refines:
  assumes ok: "memories_ok s" and eff: "revision_effect v c h s = Inr (r, t)"
    and none: "read_mutation s (rc_idempotency_key c) = None" and scope: "rc_scope c = cand_scope (rc_candidate c)"
  shows "if rc_dry_run c then mu_outcome r = Dry_run \<and> book_of t = book_of s
    else Some (mu_outcome r, book_of t) = book_revise (command_identity v (Revise_command c))
      (cand_content_hash (rc_candidate c)) (lifecycle_for (evl_decision (rc_evaluation c))) (book_of s)"
  using eff none
proof (rule revision_effect_Inr, goal_cases)
  case (1 m x s1 es)
  note R = revisable_object_Inr [OF 1(2)]
  have same1: "same_memories s s1"
    by (rule correction_evidence_frame(1) [OF 1(4)])
  have okt: "memories_ok t"
    using revise_frame [OF eff none scope] ok by simp
  have key: "object_key m = command_identity v (Revise_command c)"
    using R by (simp add: object_key_def)
  have cur: "current_revision_id m = Some (revision_id x)"
    using R(3) 1(7) by simp
  have b: "book_of s (object_key m) = Some (rev_content_hash x, mem_lifecycle m, revision_no x)"
    by (rule book_of_Some [OF ok R(1) cur 1(6)])
  show ?case
  proof (cases "rc_dry_run c")
    case True
    then show ?thesis
      using 1(8) book_of_same [OF same1] by simp
  next
    case False
    with 1(8) obtain s2 u where s2: "insert_candidate v (rc_candidate c) (claim_principal_id (rc_actor c)) es s1 = Inr s2"
      and w: "sealed_with_approval c h (r, u) = Inr (r, t)"
      and alt: "rev_content_hash x = cand_content_hash (rc_candidate c)
              \<and> reused v (rc_idempotency_key c) h (claim_principal_id (rc_actor c), rc_scope c)
                  (candidate_id (rc_candidate c)) m x r s2 u
            \<or> rev_content_hash x \<noteq> cand_content_hash (rc_candidate c)
              \<and> create_memory v (revise_options v c h es m x) s2 = Inr (r, u)"
      by blast
    have same2: "same_memories s s2"
      using same1 candidate_frame(1) [OF s2] by (rule same_memories_trans)
    have ut: "same_memories u t"
      by (rule consume_frame(2) [OF w])
    from alt show ?thesis
    proof (elim disjE conjE)
      assume "rev_content_hash x = cand_content_hash (rc_candidate c)"
        "reused v (rc_idempotency_key c) h (claim_principal_id (rc_actor c), rc_scope c)
           (candidate_id (rc_candidate c)) m x r s2 u"
      then show ?thesis
        using b key False book_of_same [OF ut] book_of_same [of s2 u] book_of_same [OF same2]
        by (auto simp: reused_def result_names_def book_revise_def)
    next
      assume d: "rev_content_hash x \<noteq> cand_content_hash (rc_candidate c)"
        and cm: "create_memory v (revise_options v c h es m x) s2 = Inr (r, u)"
      let ?q = "revise_options v c h es m x"
      have q: "co_existing ?q = Some m" "co_supersedes ?q = Some x" by (simp_all add: revise_options_def)
      have cr: "created v ?q (map (moved (memory_id m) (revision_id x) (revision_id (new_revision v ?q))
          (lifecycle_for (co_decision ?q)) (co_requested_at ?q)) (st_objects s2)) r s2 u"
        using create_memory_next [OF cm q(1)] q(2) by (simp add: new_memory_id_existing [OF q(1)])
      have m2: "m \<in> set (st_objects s2)" "memories_ok s2" "memories_ok u"
        using R(1) same2 same_memories_ok [OF same2] ok same_memories_ok [OF ut] okt
        by (simp_all add: same_memories_def)
      have "book_of u = (book_of s2)(object_key m \<mapsto> (rev_content_hash (new_revision v ?q),
          lifecycle_for (co_decision ?q), revision_no (new_revision v ?q)))"
        by (rule book_of_next [OF m2(2,3,1) cur created_tables(1,2) [OF cr]])
      moreover have "mu_outcome r = Revised"
        using cr by (simp add: created_def result_names_def revise_options_def)
      ultimately show ?thesis
        using b d key False by (simp add: book_of_same [OF ut] book_of_same [OF same2] book_revise_def revise_options_def)
    qed
  qed
qed

text \<open>C1: the governance repository refines the versioned registers: a command that fails, replays or
  previews leaves every register as it was; any other command has exactly the outcome and the effect
  that the specification computes from the registers alone, so a proposal never changes a register
  that is filled, and a correction changes only its own and counts one version.\<close>

theorem ledger_refines_registers:
  assumes "store_ok v s" and "command_ok v c" and "run_command v c s = (x, t)"
  shows "case x of Inl e \<Rightarrow> book_of t = book_of s
    | Inr r \<Rightarrow> if mu_replayed r \<or> mu_outcome r = Dry_run then book_of t = book_of s
        else book_step v c (book_of s) = Some (mu_outcome r, book_of t)"
  using run_command_cases [OF assms(3)]
proof (elim disjE exE conjE)
  fix m assume "x = parse_existing_result v m (command_hash v c)" "t = s"
  then show ?thesis
    by (auto simp: parse_existing_result_def split: sum.split if_splits option.splits)
next
  fix e assume "x = Inl e" "t = s"
  then show ?thesis by simp
next
  fix r assume r: "read_mutation s (command_key c) = None" "x = Inr r" "command_effect v c s = Inr (r, t)"
  have ok: "memories_ok s"
    using assms(1) by (simp add: store_ok_def)
  show ?thesis
  proof (cases c)
    case (Admit_command a)
    have "(mu_outcome r, book_of t) = book_admit (admit_key v a) (cand_content_hash (ac_candidate a))
        (lifecycle_for (evl_decision (ac_evaluation a))) (book_of s)"
      using admit_refines [OF ok] r Admit_command by simp
    moreover from this have "mu_outcome r \<noteq> Dry_run" "\<not> mu_replayed r"
      using effect_records [OF r(3,1)] by (auto simp: book_admit_def records_def mutation_row_ok_def split: option.splits if_splits)
    ultimately show ?thesis
      using r(2) Admit_command by simp
  next
    case (Revise_command a)
    have "if rc_dry_run a then mu_outcome r = Dry_run \<and> book_of t = book_of s
      else Some (mu_outcome r, book_of t) = book_revise (command_identity v c)
        (cand_content_hash (rc_candidate a)) (lifecycle_for (evl_decision (rc_evaluation a))) (book_of s)"
      using revise_refines [OF ok, of v a] r Revise_command assms(2) by (simp add: revision_command_ok_def)
    moreover from this have "\<not> rc_dry_run a \<longrightarrow> mu_outcome r \<noteq> Dry_run \<and> \<not> mu_replayed r"
      using effect_records [OF r(3,1)]
      by (auto simp: book_revise_def records_def mutation_row_ok_def split: option.splits if_splits)
    ultimately show ?thesis
      using r(2) Revise_command by (auto split: if_splits)
  qed
qed

lemma ledger_refines_registers_witness:
  "\<exists>r t. run_command sample_env (Revise_command (sample_revise 49)) sample_store = (Inr r, t)
     \<and> book_step sample_env (Revise_command (sample_revise 49)) (book_of sample_store) = Some (Revised, book_of t)"
proof -
  obtain r t where t: "run_command sample_env (Revise_command (sample_revise 49)) sample_store = (Inr r, t)"
    "\<not> mu_replayed r" "mu_outcome r = Revised"
    using sample_revision_run by blast
  show ?thesis
    using ledger_refines_registers [OF sample_store_ok sample_revise_ok t(1)] t by auto
qed

end
