(* ===== verification/GovernanceFindings.thy ===== *)
theory GovernanceFindings
  imports GovernanceRefinement
begin

text \<open>
  Where two parts of the program that must agree do or do not: the admission policy of the kernel
  against the floor that the storage enforces, and the revisions that a learning release writes
  against what the rest of the repository expects of a revision.
\<close>

subsection \<open>The kernel's policy and the storage floor\<close>

definition evidence_of :: "evidence_row list \<Rightarrow> evidence_record list" where
  "evidence_of = map evidence_record.truncate"

lemma truncate_fields [simp]:
  "ev_sensitivity (evidence_record.truncate e) = ev_sensitivity e"
  "ev_authority (evidence_record.truncate e) = ev_authority e"
  "ev_actor (evidence_record.truncate e) = ev_actor e"
  by (simp_all add: evidence_record.truncate_def)

lemma evidence_of_authorities: "evidence_authorities (evidence_of es) = row_authorities es"
  by (simp add: evidence_authorities_def evidence_of_def row_authorities_def comp_def)

text \<open>On stored evidence without secrets the kernel's decision is the storage's minimum, with one
  exception: an explicit confirmation by the automatic formation that also cites what the assistant
  observed, which the kernel activates and the storage floor quarantines.\<close>

theorem kernel_and_storage_disagree_iff:
  assumes "es \<noteq> []" and "cand_sensitivity c \<noteq> Secret" and "\<forall>e \<in> set es. ev_sensitivity e \<noteq> Secret"
  shows "evaluation (evaluate_admission (env_injection v) c (evidence_of es)) \<noteq> minimum_admission v c es \<longleftrightarrow>
    is_governed_automatic_confirmation c (evidence_of es) \<and> Observed \<in> set (row_authorities es)
    \<and> cand_sensitivity c \<noteq> Sensitive \<and> (\<forall>e \<in> set es. ev_sensitivity e \<noteq> Sensitive) \<and> \<not> has_injection v c"
proof -
  let ?A = "set (row_authorities es)" and ?gov = "is_governed_automatic_confirmation c (evidence_of es)"
  let ?sens = "cand_sensitivity c = Sensitive \<or> (\<exists>e \<in> set es. ev_sensitivity e = Sensitive)"
  let ?low = "Observed \<in> ?A \<or> Tool_result \<in> ?A \<or> Imported \<in> ?A" and ?weak = "Inferred \<in> ?A \<or> Derived \<in> ?A"
  have gov: "\<not> inferred c \<and> \<not> requires_user_confirmation c \<and> \<not> ?weak \<and> Tool_result \<notin> ?A \<and> Imported \<notin> ?A" if ?gov
    using that unfolding is_governed_automatic_confirmation_def evidence_of_authorities by (auto simp: list_all_iff)
  have stated: "list_all (\<lambda>a. a = User_stated) (row_authorities es)" if "\<not> ?low" "\<not> ?weak"
    unfolding list_all_iff
  proof
    fix a assume "a \<in> ?A" with that show "a = User_stated" by (cases a) blast+
  qed
  have sec: "\<not> list_ex (\<lambda>e. ev_sensitivity e = Secret) (evidence_of es)" "evidence_of es \<noteq> []"
    and sens: "list_ex (\<lambda>e. ev_sensitivity e = Sensitive) (evidence_of es) \<longleftrightarrow> (\<exists>e \<in> set es. ev_sensitivity e = Sensitive)"
    using assms(1,3) by (auto simp: evidence_of_def list_ex_iff)
  have low: "list_ex (\<lambda>a. a \<in> {Observed, Tool_result, Imported}) (row_authorities es) \<longleftrightarrow> ?low"
    and weak: "list_ex (\<lambda>a. a \<in> {Inferred, Derived}) (row_authorities es) \<longleftrightarrow> ?weak"
    by (auto simp: list_ex_iff)
  have kernel: "evaluation (evaluate_admission (env_injection v) c (evidence_of es)) =
      (if has_injection v c \<or> ?sens \<or> ?low \<and> \<not> ?gov then Quarantine
       else if inferred c \<or> requires_user_confirmation c \<or> ?weak then Candidate_only else Activate)"
    unfolding evaluate_admission_def Let_def has_injection_def evidence_of_authorities sens low weak
    using sec assms(2) stated by simp
  have storage: "minimum_admission v c es = (if has_injection v c \<or> ?sens \<or> ?low then Quarantine
       else if inferred c \<or> requires_user_confirmation c \<or> ?weak then Candidate_only else Activate)"
    unfolding minimum_admission_def Let_def low weak by (auto simp: list_ex_iff)
  show ?thesis
    unfolding kernel storage using gov by (cases ?gov) auto
qed

text \<open>C28: so a memory that the kernel activates as an explicit confirmation with observed context is
  never stored: \<open>admitMemory\<close> refuses the activation and the ledger stays as it was.\<close>

theorem confirmed_memory_is_refused:
  assumes "es = sort_key evidence_id (filter (\<lambda>e. evidence_id e \<in> set (cand_evidence_ids (ac_candidate cmd))) (st_evidence s))"
    and "evl_decision (ac_evaluation cmd) =
      evaluation (evaluate_admission (env_injection v) (ac_candidate cmd) (evidence_of es))"
    and "evl_decision (ac_evaluation cmd) = Activate" and "Observed \<in> set (row_authorities es)"
    and "read_mutation s (ac_idempotency_key cmd) = None"
  shows "\<exists>e. admit_memory v cmd s = (Inl e, s)"
proof -
  let ?who = "claim_principal_id (actor_claim (ac_envelope cmd))"
  have "minimum_admission v (ac_candidate cmd) es = Quarantine"
    using assms(4) by (auto simp: minimum_admission_def Let_def list_ex_iff)
  then have "validate_candidate v s (ac_candidate cmd) ?who (evl_decision (ac_evaluation cmd)) \<noteq> Inr x" for x
    using validate_candidate_Inr(1,6) [of v s "ac_candidate cmd" ?who Activate x] assms(1,3) by auto
  then obtain e where "validate_candidate v s (ac_candidate cmd) ?who (evl_decision (ac_evaluation cmd)) = Inl e"
    by (metis sum.exhaust)
  then have "admit_effect v cmd (env_sha v (propose_json cmd)) s = Inl e"
    using assms(5) by (simp add: admit_effect_def Let_def)
  then show ?thesis
    using assms(5) by (simp add: admit_memory_def Let_def governed_write_def)
qed

definition sample_mixed :: "unit store" where
  "sample_mixed = (sample_ledger User_stated)\<lparr>st_evidence := [sample_row ''e1'' User_stated, sample_row ''e2'' Observed]\<rparr>"

lemma sample_mixed_rows:
  "sort_key evidence_id (filter (\<lambda>e. evidence_id e \<in> set (cand_evidence_ids (ac_candidate (sample_admit 49 ''c1'' Activate))))
     (st_evidence sample_mixed)) = [sample_row ''e1'' User_stated, sample_row ''e2'' Observed]"
  by (simp add: sample_mixed_def sample_admit_def sample_candidate_def sample_row_def sample_evidence_def
    evidence_record.extend_def)

lemma sample_mixed_kernel:
  "evaluation (evaluate_admission (env_injection sample_env) (ac_candidate (sample_admit 49 ''c1'' Activate))
     (evidence_of [sample_row ''e1'' User_stated, sample_row ''e2'' Observed])) = Activate"
  by (simp add: evaluate_admission_def Let_def sample_admit_def sample_candidate_def evidence_of_def sample_row_def
    sample_evidence_def evidence_record.extend_def candidate_has_prompt_injection_signal_def
    is_governed_automatic_confirmation_def evidence_authorities_def)

lemma confirmed_memory_is_refused_witness:
  "\<exists>e. admit_memory sample_env (sample_admit 49 ''c1'' Activate) sample_mixed = (Inl e, sample_mixed)"
proof (rule confirmed_memory_is_refused [OF sample_mixed_rows [symmetric]])
  show "read_mutation sample_mixed (ac_idempotency_key (sample_admit 49 ''c1'' Activate)) = None"
    by (simp add: read_mutation_def sample_mixed_def sample_ledger_def)
  show "Observed \<in> set (row_authorities [sample_row ''e1'' User_stated, sample_row ''e2'' Observed])"
    by (simp add: row_authorities_def sample_row_def sample_evidence_def evidence_record.extend_def)
qed (simp_all only: sample_mixed_kernel sample_admit_fields)

lemma kernel_and_storage_disagree_iff_witness:
  "evaluation (evaluate_admission (env_injection sample_env) sample_candidate
     (evidence_of [sample_row ''e1'' User_stated, sample_row ''e2'' Observed]))
   \<noteq> minimum_admission sample_env sample_candidate [sample_row ''e1'' User_stated, sample_row ''e2'' Observed]"
  by (subst kernel_and_storage_disagree_iff)
    (simp_all add: sample_candidate_def evidence_of_def sample_row_def sample_evidence_def evidence_record.extend_def
      is_governed_automatic_confirmation_def evidence_authorities_def row_authorities_def)

subsection \<open>Learning releases\<close>

text \<open>The foreign key of \<open>memory_candidate_links\<close>: a link names a stored revision or none.\<close>

definition links_reference :: "'g store \<Rightarrow> bool" where
  "links_reference s \<longleftrightarrow> (\<forall>l \<in> set (st_links s). \<forall>i. lk_revision_id l = Some i \<longrightarrow> i \<in> revision_id ` set (st_revisions s))"

text \<open>The memory that a release touched: its new current revision has no candidate link.\<close>

lemma released_memory:
  assumes "store_ok v s" "links_reference s" "apply_learning_release_effect v tb q s = Inr (res, t)"
    and "m \<in> set (st_objects t)" "memory_id m = lr_memory_id res"
  shows "\<exists>x \<in> set (st_revisions t). current_revision_id m = Some (revision_id x)
    \<and> revision_id x = lr_current_revision_id res \<and> current_candidate t (memory_id m) (revision_id x) = None"
  using assms(3)
proof (rule learning_effect_Inr)
  fix src m0 old s1
  assume m0: "m0 \<in> set (st_objects s)" "memory_id m0 = rev_memory_id src" "current_revision_id m0 = Some old"
    and w: "write_learning_revision v q src old s = Inr s1" and j: "jobs_only s1 t"
    and res: "lr_memory_id res = rev_memory_id src"
      "lr_current_revision_id res = learning_revision_id v (le_release_id q) (rev_memory_id src) (revision_id src)"
  let ?R = "learning_revision v q src old (next_revision s (rev_memory_id src))"
  let ?f = "moved (rev_memory_id src) old (revision_id ?R) (rev_lifecycle ?R) (le_activated_at q)"
  from write_learning_revision_Inr [OF w] jobs_only_fields [OF j]
  have t: "st_revisions t = st_revisions s @ [?R]" "st_links t = st_links s" "st_objects t = map ?f (st_objects s)"
    and fresh: "revision_id ?R \<notin> revision_id ` set (st_revisions s)" by auto
  have "memories_ok t"
    using learning_frame [OF assms(3)] assms(1) by (simp add: store_ok_def)
  then have "m = ?f m0"
    using current_unique [OF _ assms(4), of _ _ "?f m0"] m0(1,2) t(3) assms(5) res(1)
    by (simp add: memories_ok_def)
  then have "current_revision_id m = Some (revision_id ?R)"
    using m0 by (simp add: moved_def)
  moreover have "filter (\<lambda>l. lk_memory_id l = memory_id m \<and> lk_revision_id l = Some (revision_id ?R)) (st_links t) = []"
    using assms(2) fresh t(2) by (auto simp: links_reference_def filter_empty_conv)
  then have "current_candidate t (memory_id m) (revision_id ?R) = None"
    by (simp add: current_candidate_def)
  moreover have "revision_id ?R = lr_current_revision_id res"
    by (simp add: learning_revision_def res)
  ultimately show ?thesis
    using t(1) by auto
qed

lemma admit_memory_fails:
  assumes "read_mutation s (ac_idempotency_key cmd) = None" and "admit_effect v cmd (env_sha v (propose_json cmd)) s = Inl e"
  shows "admit_memory v cmd s = (Inl e, s)"
  using assms by (simp add: admit_memory_def Let_def governed_write_def)

text \<open>A proposal of other content for a memory whose current revision has no candidate link.\<close>

lemma unlinked_memory_contested:
  assumes "memories_ok s" and "m \<in> set (st_objects s)" "object_key m = admit_key v cmd"
    and "x \<in> set (st_revisions s)" "current_revision_id m = Some (revision_id x)"
    and "rev_content_hash x \<noteq> cand_content_hash (ac_candidate cmd)"
    and "current_candidate s (memory_id m) (revision_id x) = None"
    and "read_mutation s (ac_idempotency_key cmd) = None"
    and "validate_candidate v s (ac_candidate cmd) (claim_principal_id (actor_claim (ac_envelope cmd)))
      (evl_decision (ac_evaluation cmd)) = Inr es"
    and "insert_candidate v (ac_candidate cmd) (claim_principal_id (actor_claim (ac_envelope cmd))) es s = Inr u"
  shows "admit_effect v cmd h s = Inl Corruption"
proof -
  note f = candidate_frame [OF assms(10)]
  have find: "List.find (\<lambda>x. object_key x = admit_key v cmd) (st_objects s) = Some m"
    using find_unique [of object_key "st_objects s" m] assms(1-3) by (simp add: memories_ok_def tables_ok_def)
  have read: "read_revision s (revision_id x) = Inr x"
    using find_unique [of revision_id "st_revisions s" x] assms(1,4)
    by (simp add: memories_ok_def tables_ok_def read_revision_def)
  have "open_conflict v y u = Inl Corruption" if "xo_memory y = m" "xo_current y = x" for y
    using assms(7) f(4) that by (simp add: open_conflict_def Let_def current_candidate_def)
  then show ?thesis
    using assms(5,6,8-10) find read_revision_same [OF f(1)] read f(1)
    by (simp add: admit_effect_def Let_def admit_key_def same_memories_def)
qed

text \<open>C27: a release or rollback of the learning lab leaves a memory that cannot be contested: its new
  current revision has no candidate link, which \<open>openConflict\<close> takes for granted, so a proposal of
  different content under the memory's key, valid as it may be, never opens a conflict but fails, with
  \<open>CORRUPTION\<close> when nothing else is wrong with it.\<close>

theorem released_memory_cannot_be_contested:
  assumes "store_ok v s" "links_reference s" "apply_learning_release_effect v tb q s = Inr (res, t)"
    and "m \<in> set (st_objects t)" "memory_id m = lr_memory_id res" "object_key m = admit_key v cmd"
    and "\<forall>x \<in> set (st_revisions t). revision_id x = lr_current_revision_id res \<longrightarrow>
      rev_content_hash x \<noteq> cand_content_hash (ac_candidate cmd)"
    and "read_mutation t (ac_idempotency_key cmd) = None"
  shows "\<exists>e. admit_memory v cmd t = (Inl e, t)
    \<and> (\<forall>es u. validate_candidate v t (ac_candidate cmd) (claim_principal_id (actor_claim (ac_envelope cmd)))
          (evl_decision (ac_evaluation cmd)) = Inr es
        \<and> insert_candidate v (ac_candidate cmd) (claim_principal_id (actor_claim (ac_envelope cmd))) es t = Inr u
        \<longrightarrow> e = Corruption)"
proof -
  let ?c = "ac_candidate cmd" and ?who = "claim_principal_id (actor_claim (ac_envelope cmd))"
  let ?d = "evl_decision (ac_evaluation cmd)" and ?h = "env_sha v (propose_json cmd)"
  obtain x where x: "x \<in> set (st_revisions t)" "current_revision_id m = Some (revision_id x)"
    "revision_id x = lr_current_revision_id res" "current_candidate t (memory_id m) (revision_id x) = None"
    using released_memory [OF assms(1-5)] by blast
  have ok: "memories_ok t"
    using learning_frame [OF assms(3)] assms(1) by (simp add: store_ok_def)
  note contested = unlinked_memory_contested [OF ok assms(4,6) x(1,2) _ x(4) assms(8)]
  consider e where "validate_candidate v t ?c ?who ?d = Inl e"
    | es e where "validate_candidate v t ?c ?who ?d = Inr es" "insert_candidate v ?c ?who es t = Inl e"
    | es u where "validate_candidate v t ?c ?who ?d = Inr es" "insert_candidate v ?c ?who es t = Inr u"
    by (metis sum.exhaust)
  then show ?thesis
  proof cases
    case 1
    then have "admit_effect v cmd ?h t = Inl e"
      using assms(8) by (simp add: admit_effect_def Let_def)
    from admit_memory_fails [OF assms(8) this] show ?thesis
      using 1 by auto
  next
    case 2
    then have "admit_effect v cmd ?h t = Inl e"
      using assms(8) by (simp add: admit_effect_def Let_def)
    from admit_memory_fails [OF assms(8) this] show ?thesis
      using 2 by auto
  next
    case 3
    have "admit_effect v cmd ?h t = Inl Corruption"
      by (rule contested) (use assms(7) x 3 in auto)
    from admit_memory_fails [OF assms(8) this] show ?thesis by auto
  qed
qed

subsection \<open>A sample release\<close>

text \<open>A hash of two values that tells the status event and the jobs of the old revision from those of
  the new one.\<close>

fun about_old :: "jval \<Rightarrow> bool" where
  "about_old (J_obj kvs) \<longleftrightarrow> list_ex (\<lambda>(k, x). x \<in> {jstr ''suppress'', jstr ''fts_memory_delete'', jstr ''invalidate''}) kvs"
| "about_old j = False"

definition release_env :: "unit governance_env" where
  "release_env = sample_env\<lparr>env_sha := (\<lambda>j. if about_old j then sample_old_hash else sample_hash)\<rparr>"

definition sample_target :: learning_target where
  "sample_target = \<lparr>lt_procedure = False, lt_memory_id = ''m1'', lt_revision_id = ''r1'', lt_content_hash = sample_old_hash\<rparr>"

definition sample_tables :: learning_tables where
  "sample_tables = \<lparr>ltb_release_candidate = Map.empty, ltb_candidate_target = [''lc'' \<mapsto> sample_target]\<rparr>"

definition sample_release :: learning_effect where
  "sample_release = \<lparr>le_rollback = False, le_release_id = ''rel1'', le_current_release_id = None,
     le_restored_release_id = None, le_candidate_id = ''lc'', le_principal = ''u'', le_scopes = [sample_where],
     le_activated_at = sample_now, le_target = sample_target\<rparr>"

lemma release_env_simps [simp]:
  "env_sha release_env j = (if about_old j then sample_old_hash else sample_hash)"
  "env_delivery release_env l n fx g = Inr g" "env_nfkc release_env t = t" "env_lower release_env t = t"
  "env_injection release_env t = False"
  by (simp_all add: release_env_def)

lemma sample_learning_pre:
  "learning_desired sample_tables sample_release = Inr (sample_target, sample_target)"
  "learning_source sample_release sample_target sample_store = Inr (sample_revision, sample_object)"
  "learning_expected release_env sample_tables sample_release sample_target = Inr ''r1''"
  by (simp_all add: learning_desired_def sample_tables_def sample_release_def target_for_candidate_def
    learning_source_def sample_store_def find_object_def sample_target_def sample_revision_def sample_object_def
    learning_expected_def)

lemma release_ids:
  "learning_revision_id release_env ''rel1'' ''m1'' ''r1'' = ''learning-revision:'' @ replicate 48 (CHR ''0'')"
  by (simp add: learning_revision_id_def storage_identifier_def code_points_inj sample_hash_def)

abbreviation release_id :: string where
  "release_id \<equiv> ''learning-revision:'' @ replicate 48 (CHR ''0'')"

abbreviation release_actor :: actor_claim where
  "release_actor \<equiv> \<lparr>claim_principal_id = ''u'', claim_authority = User_stated\<rparr>"

lemma release_status_old:
  assumes "st_statuses s = []"
  shows "\<exists>e. status_event_id e = ''status:'' @ replicate 48 (CHR ''1'')
    \<and> insert_status release_env ''m1'' ''r1'' Act_suppress Superseded release_actor
        (code_points ''A governed learning release superseded this revision.'') sample_now s
      = Inr (s\<lparr>st_statuses := [e]\<rparr>)"
  using assms by (simp add: insert_status_def insert_row_def storage_identifier_def code_points_inj sample_old_hash_def)
    (rule exI, rule conjI [rotated], rule refl, simp)

lemma release_status_new:
  assumes "st_statuses s = [e]" "status_event_id e = ''status:'' @ replicate 48 (CHR ''1'')"
  shows "\<exists>f. insert_status release_env ''m1'' release_id Act_activate Active release_actor
        (code_points ''Governed learning release.'') sample_now s = Inr (s\<lparr>st_statuses := [e, f]\<rparr>)"
  using assms by (simp add: insert_status_def insert_row_def storage_identifier_def code_points_inj sample_hash_def
      sample_now_def) (rule exI, rule refl)


lemma sample_write_learning:
  "\<exists>t. write_learning_revision release_env sample_release sample_revision ''r1'' sample_store = Inr t
     \<and> st_outbox t = [] \<and> st_projections t = st_projections (sample_ledger User_stated)"
proof -
  let ?R = "learning_revision release_env sample_release sample_revision ''r1'' 2"
  let ?s1 = "sample_store\<lparr>st_revisions := [sample_revision, ?R]\<rparr>"
  let ?s2 = "?s1\<lparr>st_objects := [moved ''m1'' ''r1'' release_id Active sample_now sample_object]\<rparr>"
  let ?A = "admission_row release_env ''m1'' release_id ''lc'' release_actor sample_now Activate
    (code_points ''Governed learning release activated a canonical successor.'') True"
  let ?s3 = "?s2\<lparr>st_admissions := [sample_decision, ?A]\<rparr>"
  have R: "revision_id ?R = release_id" "rev_memory_id ?R = ''m1''" "revision_no ?R = 2" "supersedes ?R = Some ''r1''"
    "validity ?R = validity sample_revision" "rev_content ?R = rev_content sample_revision"
    by (simp_all add: learning_revision_def sample_revision_def sample_release_def release_ids)
  have s1: "insert_revision_row ?R sample_store = Inr ?s1"
    unfolding insert_revision_row_Inr R
    by (simp add: sample_store_def sample_revision_def artifact_known_def)
  have s2: "move_current ''m1'' ''r1'' release_id Active sample_now ?s1 = Inr ?s2"
    by (simp add: move_current_Inr sample_store_def sample_object_def)
  have s3: "insert_admission release_env ''m1'' release_id ''lc'' release_actor sample_now Activate
      (code_points ''Governed learning release activated a canonical successor.'') True ?s2 = Inr ?s3"
    by (simp add: insert_admission_Inr admission_row_def sample_store_def sample_decision_def storage_identifier_def)
  obtain e where e: "status_event_id e = ''status:'' @ replicate 48 (CHR ''1'')"
    "insert_status release_env ''m1'' ''r1'' Act_suppress Superseded release_actor
        (code_points ''A governed learning release superseded this revision.'') sample_now ?s3
      = Inr (?s3\<lparr>st_statuses := [e]\<rparr>)"
    using release_status_old [of ?s3] by (auto simp: sample_store_def sample_ledger_def)
  obtain f where f: "insert_status release_env ''m1'' release_id Act_activate Active release_actor
        (code_points ''Governed learning release.'') sample_now (?s3\<lparr>st_statuses := [e]\<rparr>)
      = Inr (?s3\<lparr>st_statuses := [e, f]\<rparr>)"
    using release_status_new [of "?s3\<lparr>st_statuses := [e]\<rparr>" e] e(1) by auto
  have lc: "learning_lifecycle sample_release (rev_lifecycle sample_revision) = Active"
    "learning_admission Active = Activate" "le_activated_at sample_release = sample_now"
    "le_release_id sample_release = ''rel1''" "rev_memory_id sample_revision = ''m1''"
    "revision_id sample_revision = ''r1''" "le_principal sample_release = ''u''" "le_candidate_id sample_release = ''lc''"
    "rev_authority sample_revision = User_stated" "\<not> le_rollback sample_release"
    by (simp_all add: learning_lifecycle_def learning_admission_def sample_release_def sample_revision_def)
  have n: "Max (set (map revision_no (filter (\<lambda>r. rev_memory_id r = ''m1'') (st_revisions sample_store)))) + 1 = 2"
    by (simp add: sample_store_def sample_revision_def)
  have Rdef: "sample_revision\<lparr>revision_id := release_id, revision_no := 2, abstraction := L1_memory,
      rev_lifecycle := Active, derived_from := [], supersedes := Some ''r1'', rvr_created_at := sample_now\<rparr> = ?R"
    by (simp add: learning_revision_def lc release_ids)
  have "write_learning_revision release_env sample_release sample_revision ''r1'' sample_store
      = Inr (?s3\<lparr>st_statuses := [e, f]\<rparr>)"
    unfolding write_learning_revision_def Let_def lc release_ids n Rdef
    using s1 s2 s3 e(2) f lc by simp
  then show ?thesis
    by (simp add: sample_store_def sample_ledger_def)
qed

lemma sample_jobs:
  assumes "st_outbox s = []" "st_projections s = st_projections (sample_ledger User_stated)"
  shows "\<exists>j1 t1 j2 t2 j3 t3 j4 t4.
    insert_outbox release_env ''fts_memory_delete'' ''r1'' sample_now s = Inr (j1, t1)
    \<and> insert_outbox release_env ''fts_memory_upsert'' release_id sample_now t1 = Inr (j2, t2)
    \<and> suppress_in_store release_env (learning_jobs ''r1'' sample_release sample_revision) t2 = Inr (j3, t3)
    \<and> refresh_in_store release_env ((learning_jobs ''r1'' sample_release sample_revision)\<lparr>fx_revision_id := release_id\<rparr>) t3 = Inr (j4, t4)"
  using assms
  by (simp add: insert_outbox_def insert_row_def Let_def storage_identifier_def code_points_inj sample_now_def
    suppress_in_store_def refresh_in_store_def suppress_projection_descendants_def all_descendants_def
    derived_rows_def direct_descendants_def sample_ledger_def mark_scope_pending_def enqueue_job_def
    stable_job_id_def deliver_def learning_jobs_def sample_release_def sample_revision_def sample_hash_def
    sample_old_hash_def enqueue_projection_refresh_def)

lemma sample_release_run:
  "\<exists>res t. apply_learning_release_effect release_env sample_tables sample_release sample_store = Inr (res, t)"
proof -
  obtain s where s: "write_learning_revision release_env sample_release sample_revision ''r1'' sample_store = Inr s"
    "st_outbox s = []" "st_projections s = st_projections (sample_ledger User_stated)"
    using sample_write_learning by blast
  obtain j1 t1 j2 t2 j3 t3 j4 t4 where
    "insert_outbox release_env ''fts_memory_delete'' ''r1'' sample_now s = Inr (j1, t1)"
    "insert_outbox release_env ''fts_memory_upsert'' release_id sample_now t1 = Inr (j2, t2)"
    "suppress_in_store release_env (learning_jobs ''r1'' sample_release sample_revision) t2 = Inr (j3, t3)"
    "refresh_in_store release_env ((learning_jobs ''r1'' sample_release sample_revision)\<lparr>fx_revision_id := release_id\<rparr>) t3 = Inr (j4, t4)"
    using sample_jobs [OF s(2,3)] by blast
  moreover have "current_revision_id sample_object = Some ''r1''"
    by (simp add: sample_object_def)
  moreover have lc: "learning_lifecycle sample_release (rev_lifecycle sample_revision) = Active"
    "le_activated_at sample_release = sample_now"
    "le_release_id sample_release = ''rel1''" "rev_memory_id sample_revision = ''m1''"
    "revision_id sample_revision = ''r1''"
    by (simp_all add: learning_lifecycle_def sample_release_def sample_revision_def)
  ultimately show ?thesis
    using s(1) sample_learning_pre
    by (simp add: apply_learning_release_effect_def Let_def optional_job_def release_ids learning_jobs_def)
qed

lemma released_memory_cannot_be_contested_witness:
  "\<exists>res t e. apply_learning_release_effect release_env sample_tables sample_release sample_store = Inr (res, t)
     \<and> admit_memory release_env (sample_admit 49 ''c1'' Activate) t = (Inl e, t)"
proof -
  obtain res t where t: "apply_learning_release_effect release_env sample_tables sample_release sample_store = Inr (res, t)"
    using sample_release_run by blast
  have ok: "store_ok release_env sample_store"
    using sample_store_ok by (simp add: store_ok_def receipts_ok_def sample_store_def sample_ledger_def)
  have links: "links_reference sample_store"
    by (simp add: links_reference_def sample_store_def sample_ledger_def)
  obtain src m0 old s1 where w: "src \<in> set (st_revisions sample_store)"
    "write_learning_revision release_env sample_release src old sample_store = Inr s1" "jobs_only s1 t"
    "lr_memory_id res = rev_memory_id src"
    "lr_current_revision_id res = learning_revision_id release_env (le_release_id sample_release) (rev_memory_id src) (revision_id src)"
    using t by (rule learning_effect_Inr)
  then have src: "src = sample_revision"
    by (simp add: sample_store_def)
  let ?R = "learning_revision release_env sample_release src old (next_revision sample_store (rev_memory_id src))"
  from write_learning_revision_Inr [OF w(2)] jobs_only_fields [OF w(3)] learning_receipts [OF t]
  have f: "st_revisions t = [sample_revision, ?R]" "st_mutations t = []"
    "st_objects t = [moved (rev_memory_id src) old (revision_id ?R) (rev_lifecycle ?R) (le_activated_at sample_release) sample_object]"
    by (auto simp: sample_store_def sample_ledger_def)
  have "\<exists>e. admit_memory release_env (sample_admit 49 ''c1'' Activate) t = (Inl e, t)"
  proof -
    have "hd (st_objects t) \<in> set (st_objects t)" "memory_id (hd (st_objects t)) = lr_memory_id res"
      using w(4) src f(3) by (simp_all add: sample_object_def sample_revision_def)
    moreover have "object_key (hd (st_objects t)) = admit_key release_env (sample_admit 49 ''c1'' Activate)"
      by (simp add: f(3), simp add: object_key_def sample_object_def admit_key_def sample_admit_def
        sample_proposal_def sample_candidate_def key_hash_def logical_key_hash_def sample_where_def)
    moreover have "\<forall>x \<in> set (st_revisions t). revision_id x = lr_current_revision_id res \<longrightarrow>
        rev_content_hash x \<noteq> cand_content_hash (ac_candidate (sample_admit 49 ''c1'' Activate))"
      using src f(1) by (simp add: sample_revision_def learning_revision_def sample_admit_def sample_candidate_def
        sample_old_hash_def sample_hash_def)
    moreover have "read_mutation t (ac_idempotency_key (sample_admit 49 ''c1'' Activate)) = None"
      by (simp add: read_mutation_def f(2))
    ultimately show ?thesis
      using released_memory_cannot_be_contested [OF ok links t] by blast
  qed
  then show ?thesis
    using t by blast
qed

end
