(* ===== verification/ControlRepository.thy ===== *)
theory ControlRepository
  imports GovernanceRepository
begin

text \<open>
  The control repository (\<open>packages/storage-sqlite/src/control-repository.ts\<close>): pinning a memory,
  setting a usage rule, demoting and revoking it, each as one approved transaction over the tables
  of \<open>GovernanceStore\<close> and a few of its own. The learning candidates that name a memory are the pairs
  \<open>cs_learning_candidates\<close>. A command is the value its schema returns.

  A control command leaves its receipt among the mutations of the ledger; its result, a JSON text in
  the same table column as the results of the governance commands, is kept in \<open>cs_results\<close>, and the
  mutation row of the ledger has no result of its own. \<open>governedWrite\<close> reads the idempotency key a
  second time inside the transaction, with the same outcome: no other writer runs in between.
\<close>

subsection \<open>Requests\<close>

datatype usage_effect = Usage_allow | Usage_block

datatype control_action =
  Control_pin bool
| Control_demote
| Control_usage usage_effect "scope option"
| Control_revoke

fun control_tool :: "control_action \<Rightarrow> tool" where
  "control_tool (Control_pin p) = Memory_pin"
| "control_tool Control_demote = Memory_demote"
| "control_tool (Control_usage e sc) = Memory_usage_set"
| "control_tool Control_revoke = Memory_revoke"

record control_request =
  ctl_envelope :: envelope
  ctl_safety_class :: safety_class
  ctl_fields :: mutation_fields
  ctl_memory_id :: string
  ctl_action :: control_action

definition control_request_ok :: "control_request \<Rightarrow> bool" where
  "control_request_ok q \<longleftrightarrow>
     request_ok (Mutation_request (ctl_envelope q) (ctl_safety_class q) (ctl_fields q))
     \<and> tool (ctl_envelope q) = control_tool (ctl_action q) \<and> expected_revision_id (ctl_fields q) \<noteq> None
     \<and> identifier_ok (ctl_memory_id q)
     \<and> (case ctl_action q of Control_usage e (Some sc) \<Rightarrow>
            scope_ok sc \<and> list_ex (\<lambda>x. scope_key x = scope_key sc) (scopes (ctl_envelope q))
        | _ \<Rightarrow> True)"

record control_command =
  cc_request :: control_request
  cc_approval :: "verified_approval option"

definition control_command_ok :: "(jval \<Rightarrow> string) \<Rightarrow> control_command \<Rightarrow> bool" where
  "control_command_ok sha c \<longleftrightarrow> control_request_ok (cc_request c)
     \<and> (case cc_approval c of None \<Rightarrow> True | Some a \<Rightarrow>
          approval_grant_ok sha (va_grant a) \<and> canonical_hash_ok (va_registry_hash a))
     \<and> \<not> dry_run (ctl_fields (cc_request c)) \<noteq> (cc_approval c = None)"

fun usage_effect_string :: "usage_effect \<Rightarrow> string" where
  "usage_effect_string Usage_allow = ''allow''"
| "usage_effect_string Usage_block = ''block''"

definition control_envelope_json :: "control_request \<Rightarrow> jval" where
  "control_envelope_json q = (let e = ctl_envelope q; m = ctl_fields q in jobj
     [(''schema_version'', jstr ''1.0.0''), (''request_id'', jstr (request_id e)),
      (''tool'', jstr (tool_string (tool e))), (''actor_claim'', actor_json (actor_claim e)),
      (''scopes'', J_arr (map kind_id_json (scopes e))), (''purpose'', J_str (purpose e)),
      (''reason'', J_str (reason e)), (''requested_at'', jstr (iso (requested_at e))),
      (''safety_class'', jstr (safety_class_string (ctl_safety_class q))),
      (''idempotency_key'', J_str (mut_idempotency_key m)),
      (''expected_revision_id'', opt_json (expected_revision_id m)),
      (''approval_id'', opt_json (approval_id m)), (''dry_run'', J_bool (dry_run m))])"

definition control_json :: "control_request \<Rightarrow> jval" where
  "control_json q = jobj ([(''envelope'', control_envelope_json q), (''memory_id'', jstr (ctl_memory_id q))]
     @ (case ctl_action q of
          Control_pin p \<Rightarrow> [(''pinned'', J_bool p)]
        | Control_usage e sc \<Rightarrow> [(''effect'', jstr (usage_effect_string e)),
            (''context_scope'', nullable kind_id_json sc)]
        | _ \<Rightarrow> []))"

subsection \<open>Tables\<close>

record pin_row =
  pin_event_id :: string
  pin_memory_id :: string
  pin_revision_id :: string
  pin_pinned :: bool
  pin_actor :: actor_claim
  pin_reason :: ustring
  pin_occurred_at :: timestamp

record usage_row =
  usage_rule_id :: string
  usage_memory_id :: string
  usage_revision_id :: string
  usage_effect_of :: usage_effect
  usage_context_scope :: "scope option"
  usage_actor :: actor_claim
  usage_reason :: ustring
  usage_occurred_at :: timestamp

record learning_invalidation_row =
  li_invalidation_id :: string
  li_candidate_id :: string
  li_memory_id :: string
  li_revision_id :: string
  li_reason :: string
  li_tombstone_epoch :: "nat option"
  li_created_at :: timestamp

datatype control_outcome =
  Control_dry_run | Pinned | Unpinned | Demoted | Usage_allowed | Usage_blocked | Revoked_outcome

record control_result =
  cr_receipt :: mutation_receipt
  cr_replayed :: bool
  cr_outcome :: control_outcome
  cr_memory_id :: string
  cr_current_revision_id :: string
  cr_lifecycle :: lifecycle
  cr_pinned :: bool
  cr_usage_rule_id :: "string option"

definition control_result_ok :: "control_result \<Rightarrow> bool" where
  "control_result_ok r \<longleftrightarrow> mutation_receipt_ok (cr_receipt r) \<and> identifier_ok (cr_memory_id r)
     \<and> identifier_ok (cr_current_revision_id r)
     \<and> (case cr_usage_rule_id r of None \<Rightarrow> True | Some i \<Rightarrow> identifier_ok i)"

record 'g control_store =
  cs_ledger :: "'g store"
  cs_pins :: "pin_row list"
  cs_usage :: "usage_row list"
  cs_learning_candidates :: "(string \<times> string) list"
  cs_invalidations :: "learning_invalidation_row list"
  cs_results :: "(string \<times> control_result) list"

subsection \<open>Reading\<close>

definition control_hash :: "'g governance_env \<Rightarrow> control_command \<Rightarrow> string" where
  "control_hash v c = env_sha v (control_json (cc_request c))"

definition control_key :: "control_command \<Rightarrow> ustring" where
  "control_key c = mut_idempotency_key (ctl_fields (cc_request c))"

text \<open>The join of \<open>#readMutation\<close>.\<close>

definition read_control :: "'g control_store \<Rightarrow> ustring \<Rightarrow> (mutation_row \<times> control_result option) option" where
  "read_control s k = (case read_mutation (cs_ledger s) k of None \<Rightarrow> None
     | Some m \<Rightarrow> Some (m, map_of (cs_results s) (mx_receipt_id (mr_receipt m))))"

definition parse_existing_control ::
  "'g governance_env \<Rightarrow> mutation_row \<times> control_result option \<Rightarrow> string \<Rightarrow> storage_error + control_result" where
  "parse_existing_control v m request_hash =
     (if mr_request_hash (fst m) \<noteq> request_hash then Inl Conflict_with_state else
      case snd m of
        None \<Rightarrow> Inl (if mr_result (fst m) = None then Conflict_with_state else Schema_invalid)
      | Some r \<Rightarrow>
          if \<not> mutation_receipt_ok (mr_receipt (fst m)) \<or> \<not> control_result_ok r then Inl Schema_invalid
          else if mx_receipt_hash (mr_receipt (fst m)) \<noteq> env_sha v (unsealed_mutation_json (mr_receipt (fst m)))
               \<or> mx_receipt_hash (cr_receipt r) \<noteq> mx_receipt_hash (mr_receipt (fst m))
          then Inl Corruption
          else Inr (r\<lparr>cr_replayed := True\<rparr>))"

definition replay_control ::
  "'g governance_env \<Rightarrow> 'g control_store \<Rightarrow> ustring \<Rightarrow> string \<Rightarrow> storage_error + control_result option" where
  "replay_control v s k request_hash = (case read_control s k of
       None \<Rightarrow> Inr None
     | Some m \<Rightarrow> bindE (parse_existing_control v m request_hash) (\<lambda>r. Inr (Some r)))"

definition validate_target :: "control_command \<Rightarrow> object_row \<Rightarrow> storage_error + unit" where
  "validate_target c m =
     (let q = cc_request c; e = ctl_envelope q in
      bindE (guardE (obr_principal m = claim_principal_id (actor_claim e)
        \<and> list_ex (\<lambda>x. scope_key x = scope_key (mem_scope m)) (scopes e)) Invalid_input) (\<lambda>_.
      guardE (current_revision_id m = expected_revision_id (ctl_fields q)) Stale_revision))"

definition validate_control_approval ::
  "'g governance_env \<Rightarrow> control_command \<Rightarrow> string \<Rightarrow> 'g store \<Rightarrow> storage_error + unit" where
  "validate_control_approval v c h s =
     (let q = cc_request c; e = ctl_envelope q in
      case (cc_approval c, approval_id (ctl_fields q)) of
        (Some a, Some i) \<Rightarrow>
          (case approval_grant_matches (env_sha v)
              \<lparr>bind_approval_id = i, bind_principal_id = claim_principal_id (actor_claim e),
               bind_tool = tool e, bind_safety_class = ctl_safety_class q, bind_scopes = scopes e,
               bind_request_hash = h, bind_learning = None\<rparr> (va_grant a) (va_verified_at a) of
             None \<Rightarrow> Inl Schema_invalid
           | Some ok \<Rightarrow> guardE (\<not> (\<not> ok \<or> i \<in> cn_approval_id ` set (st_consumptions s))) Approval_invalid)
      | _ \<Rightarrow> Inl Approval_invalid)"

subsection \<open>Writing\<close>

text \<open>\<open>#setLifecycle\<close>: the \<open>UPDATE\<close> of one row, which must still point at the revision.\<close>

definition set_lifecycle ::
  "string \<Rightarrow> string \<Rightarrow> lifecycle \<Rightarrow> timestamp \<Rightarrow> 'g store \<Rightarrow> storage_error + 'g store" where
  "set_lifecycle mid rid lc now s =
     (let hit = (\<lambda>m. memory_id m = mid \<and> current_revision_id m = Some rid) in
      if length (filter hit (st_objects s)) \<noteq> 1 then Inl Stale_revision
      else Inr (s\<lparr>st_objects := map (\<lambda>m. if hit m then m\<lparr>mem_lifecycle := lc, context_eligible := False,
        mem_updated_at := now\<rparr> else m) (st_objects s)\<rparr>))"

text \<open>The \<open>UPDATE\<close> of \<open>memory_pin\<close>, whose count of rows is not checked.\<close>

definition set_pinned :: "string \<Rightarrow> string \<Rightarrow> bool \<Rightarrow> timestamp \<Rightarrow> 'g store \<Rightarrow> 'g store" where
  "set_pinned mid rid p now s = s\<lparr>st_objects := map (\<lambda>m.
     if memory_id m = mid \<and> current_revision_id m = Some rid then m\<lparr>pinned := p, mem_updated_at := now\<rparr> else m)
     (st_objects s)\<rparr>"

definition control_identifier :: "'g governance_env \<Rightarrow> string \<Rightarrow> control_command \<Rightarrow> string \<Rightarrow> string" where
  "control_identifier v pre c h = storage_identifier v pre
     [(''idempotency_key'', J_str (control_key c)), (''request_hash'', jstr h)]"

definition insert_control_status ::
  "'g governance_env \<Rightarrow> control_command \<Rightarrow> string \<Rightarrow> status_action \<Rightarrow> lifecycle \<Rightarrow> 'g store \<Rightarrow> storage_error + 'g store" where
  "insert_control_status v c rid act lc s =
     (let e = ctl_envelope (cc_request c) in
      bindE (insert_row status_event_id
        \<lparr>status_event_id = storage_identifier v ''status'' [(''idempotency_key'', J_str (control_key c)),
           (''action'', jstr (status_action_string act))],
         se_memory_id = ctl_memory_id (cc_request c), se_revision_id = rid, se_action = act, se_lifecycle = lc,
         se_actor = actor_claim e, se_occurred_at = requested_at e, se_reason = reason e,
         se_tombstone_epoch = None\<rparr> (st_statuses s)) (\<lambda>rows.
      Inr (s\<lparr>st_statuses := rows\<rparr>)))"

definition insert_control_invalidation ::
  "'g governance_env \<Rightarrow> string \<Rightarrow> timestamp \<Rightarrow> 'g store \<Rightarrow> storage_error + (string \<times> 'g store)" where
  "insert_control_invalidation v mid now s =
     (let i = storage_identifier v ''job'' [(''kind'', jstr ''fts_memory_invalidate''), (''memory_id'', jstr mid),
        (''created_at'', jstr (iso now))] in
      bindE (insert_row ob_job_id
        \<lparr>ob_job_id = i, ob_kind = ''fts_memory_invalidate'', ob_aggregate_id = mid, ob_created_at = now\<rparr> (st_outbox s)) (\<lambda>rows.
      Inr (i, s\<lparr>st_outbox := rows, st_fts_pending_since := Some now\<rparr>)))"

text \<open>\<open>invalidateLearningTargets\<close>: one row per candidate of the memory, existing rows left alone.\<close>

definition learning_invalidation ::
  "'g governance_env \<Rightarrow> string \<Rightarrow> string \<Rightarrow> string \<Rightarrow> nat option \<Rightarrow> timestamp \<Rightarrow> string \<Rightarrow> learning_invalidation_row" where
  "learning_invalidation v mid rid why epoch now cid =
     \<lparr>li_invalidation_id = ''learning-invalidation:'' @ take 41 (drop 7 (env_sha v (jobj
        [(''candidate_id'', jstr cid), (''memory_id'', jstr mid), (''revision_id'', jstr rid), (''reason'', jstr why),
         (''tombstone_epoch'', case epoch of None \<Rightarrow> J_null | Some n \<Rightarrow> jnat n)]))),
      li_candidate_id = cid, li_memory_id = mid, li_revision_id = rid, li_reason = why,
      li_tombstone_epoch = epoch, li_created_at = now\<rparr>"

definition invalidate_learning_targets ::
  "'g governance_env \<Rightarrow> string \<Rightarrow> string \<Rightarrow> string \<Rightarrow> nat option \<Rightarrow> timestamp \<Rightarrow> 'g control_store
     \<Rightarrow> string list \<times> 'g control_store" where
  "invalidate_learning_targets v mid rid why epoch now s =
     (let rows = map (learning_invalidation v mid rid why epoch now)
            (sort (map fst (filter (\<lambda>x. snd x = mid) (cs_learning_candidates s)))) in
      (map li_invalidation_id rows,
       s\<lparr>cs_invalidations := fold (\<lambda>r acc. if li_invalidation_id r \<in> li_invalidation_id ` set acc then acc
          else acc @ [r]) rows (cs_invalidations s)\<rparr>))"

definition on_ledger ::
  "('g store \<Rightarrow> storage_error + ('a \<times> 'g store)) \<Rightarrow> 'g control_store \<Rightarrow> storage_error + ('a \<times> 'g control_store)" where
  "on_ledger f s = bindE (f (cs_ledger s)) (\<lambda>(x, l). Inr (x, s\<lparr>cs_ledger := l\<rparr>))"

record control_effect =
  ce_outcome :: control_outcome
  ce_pinned :: bool
  ce_lifecycle :: lifecycle
  ce_usage_rule_id :: "string option"
  ce_projection_jobs :: "string list"

definition control_projection_effect :: "control_command \<Rightarrow> object_row \<Rightarrow> string \<Rightarrow> projection_effect" where
  "control_projection_effect c m rid = (let e = ctl_envelope (cc_request c) in
     \<lparr>fx_cause_id = control_key c, fx_memory_id = memory_id m, fx_revision_id = rid,
      fx_principal = claim_principal_id (actor_claim e), fx_scope = mem_scope m, fx_occurred_at = requested_at e\<rparr>)"

text \<open>The common part of \<open>memory_demote\<close> and \<open>memory_revoke\<close>: the two jobs that withdraw the memory.\<close>

definition withdraw_jobs ::
  "'g governance_env \<Rightarrow> control_command \<Rightarrow> object_row \<Rightarrow> string \<Rightarrow> 'g store \<Rightarrow> storage_error + (string list \<times> 'g store)" where
  "withdraw_jobs v c m rid s =
     bindE (insert_control_invalidation v (memory_id m) (requested_at (ctl_envelope (cc_request c))) s) (\<lambda>(i, s1).
     bindE (suppress_in_store v (control_projection_effect c m rid) s1) (\<lambda>(j, s2). Inr ([i, j], s2)))"

definition apply_pin ::
  "'g governance_env \<Rightarrow> control_command \<Rightarrow> object_row \<Rightarrow> string \<Rightarrow> string \<Rightarrow> bool \<Rightarrow> 'g control_store
     \<Rightarrow> storage_error + (control_effect \<times> 'g control_store)" where
  "apply_pin v c m h rid p s =
     (let e = ctl_envelope (cc_request c) in
      bindE (insert_row pin_event_id
        \<lparr>pin_event_id = control_identifier v ''pin'' c h, pin_memory_id = memory_id m, pin_revision_id = rid,
         pin_pinned = p, pin_actor = actor_claim e, pin_reason = reason e, pin_occurred_at = requested_at e\<rparr>
        (cs_pins s)) (\<lambda>rows.
      Inr (\<lparr>ce_outcome = (if p then Pinned else Unpinned), ce_pinned = p, ce_lifecycle = mem_lifecycle m,
            ce_usage_rule_id = None, ce_projection_jobs = []\<rparr>,
           s\<lparr>cs_ledger := set_pinned (memory_id m) rid p (requested_at e) (cs_ledger s), cs_pins := rows\<rparr>)))"

definition apply_usage ::
  "'g governance_env \<Rightarrow> control_command \<Rightarrow> object_row \<Rightarrow> string \<Rightarrow> string \<Rightarrow> usage_effect \<Rightarrow> scope option
     \<Rightarrow> 'g control_store \<Rightarrow> storage_error + (control_effect \<times> 'g control_store)" where
  "apply_usage v c m h rid u sc s =
     (let e = ctl_envelope (cc_request c); i = control_identifier v ''usage'' c h;
          fx = control_projection_effect c m rid in
      bindE (insert_row usage_rule_id
        \<lparr>usage_rule_id = i, usage_memory_id = memory_id m, usage_revision_id = rid, usage_effect_of = u,
         usage_context_scope = sc, usage_actor = actor_claim e, usage_reason = reason e,
         usage_occurred_at = requested_at e\<rparr> (cs_usage s)) (\<lambda>rows.
      bindE (on_ledger (if u = Usage_block then suppress_in_store v fx else refresh_in_store v fx)
        (s\<lparr>cs_usage := rows\<rparr>)) (\<lambda>(j, s1).
      Inr (\<lparr>ce_outcome = (if u = Usage_allow then Usage_allowed else Usage_blocked), ce_pinned = pinned m,
            ce_lifecycle = mem_lifecycle m, ce_usage_rule_id = Some i, ce_projection_jobs = [j]\<rparr>, s1))))"

definition apply_demote ::
  "'g governance_env \<Rightarrow> control_command \<Rightarrow> object_row \<Rightarrow> string \<Rightarrow> 'g control_store
     \<Rightarrow> storage_error + (control_effect \<times> 'g control_store)" where
  "apply_demote v c m rid s =
     bindE (guardE (mem_lifecycle m = Active) Conflict_with_state) (\<lambda>_.
     bindE (set_lifecycle (memory_id m) rid Candidate (requested_at (ctl_envelope (cc_request c))) (cs_ledger s)) (\<lambda>s1.
     bindE (insert_control_status v c rid Act_demote Candidate s1) (\<lambda>s2.
     bindE (withdraw_jobs v c m rid s2) (\<lambda>(js, s3).
     Inr (\<lparr>ce_outcome = Demoted, ce_pinned = pinned m, ce_lifecycle = Candidate, ce_usage_rule_id = None,
           ce_projection_jobs = js\<rparr>, s\<lparr>cs_ledger := s3\<rparr>)))))"

definition apply_revoke ::
  "'g governance_env \<Rightarrow> control_command \<Rightarrow> object_row \<Rightarrow> string \<Rightarrow> 'g control_store
     \<Rightarrow> storage_error + (control_effect \<times> 'g control_store)" where
  "apply_revoke v c m rid s =
     (let now = requested_at (ctl_envelope (cc_request c)) in
     bindE (guardE (mem_lifecycle m \<noteq> Purged) Conflict_with_state) (\<lambda>_.
     bindE (set_lifecycle (memory_id m) rid Revoked now (cs_ledger s)) (\<lambda>s1.
     let s2 = snd (invalidate_learning_targets v (memory_id m) rid ''revoked'' None now (s\<lparr>cs_ledger := s1\<rparr>)) in
     bindE (insert_control_status v c rid Act_revoke Revoked (cs_ledger s2)) (\<lambda>s3.
     bindE (withdraw_jobs v c m rid s3) (\<lambda>(js, s4).
     Inr (\<lparr>ce_outcome = Revoked_outcome, ce_pinned = pinned m, ce_lifecycle = Revoked, ce_usage_rule_id = None,
           ce_projection_jobs = js\<rparr>, s2\<lparr>cs_ledger := s4\<rparr>))))))"

definition apply_effect ::
  "'g governance_env \<Rightarrow> control_command \<Rightarrow> object_row \<Rightarrow> string \<Rightarrow> string \<Rightarrow> 'g control_store
     \<Rightarrow> storage_error + (control_effect \<times> 'g control_store)" where
  "apply_effect v c m h rid s = (case ctl_action (cc_request c) of
       Control_pin p \<Rightarrow> apply_pin v c m h rid p s
     | Control_usage u sc \<Rightarrow> apply_usage v c m h rid u sc s
     | Control_demote \<Rightarrow> apply_demote v c m rid s
     | Control_revoke \<Rightarrow> apply_revoke v c m rid s)"

subsection \<open>Receipts\<close>

definition control_receipt ::
  "'g governance_env \<Rightarrow> control_command \<Rightarrow> string \<Rightarrow> object_row \<Rightarrow> string list \<Rightarrow> bool \<Rightarrow> nat \<Rightarrow> mutation_receipt" where
  "control_receipt v c h m jobs advance epoch =
     (let unsealed = \<lparr>mx_receipt_id = control_identifier v ''receipt'' c h,
           mx_created_at = requested_at (ctl_envelope (cc_request c)),
           mx_state = (if length jobs > 0 then Rs_projection_pending else Rs_durable),
           mx_request_hash = h, mx_receipt_hash = ''sha256:'' @ replicate 64 (CHR ''0''),
           mx_idempotency_key = control_key c,
           mx_affected_memory_ids = (if advance then [memory_id m] else []),
           mx_affected_revision_ids = (if advance then (case current_revision_id m of None \<Rightarrow> [] | Some r \<Rightarrow> [r]) else []),
           mx_resulting_epoch = epoch, mx_projection_jobs = jobs,
           mx_warnings = (if advance then [] else [''DRY_RUN''])\<rparr>
      in unsealed\<lparr>mx_receipt_hash := env_sha v (unsealed_mutation_json unsealed)\<rparr>)"

definition seal_control ::
  "'g governance_env \<Rightarrow> control_command \<Rightarrow> string \<Rightarrow> object_row \<Rightarrow> control_effect \<Rightarrow> bool \<Rightarrow> 'g control_store
     \<Rightarrow> storage_error + (control_result \<times> 'g control_store)" where
  "seal_control v c h m x advance s =
     (let l = cs_ledger s;
          l1 = (if advance then l\<lparr>st_ledger_epoch := st_ledger_epoch l + 1\<rparr> else l);
          receipt = control_receipt v c h m (ce_projection_jobs x) advance (st_ledger_epoch l1) in
      case current_revision_id m of None \<Rightarrow> Inl Schema_invalid | Some rid \<Rightarrow>
      let r = \<lparr>cr_receipt = receipt, cr_replayed = False, cr_outcome = ce_outcome x, cr_memory_id = memory_id m,
            cr_current_revision_id = rid, cr_lifecycle = ce_lifecycle x, cr_pinned = ce_pinned x,
            cr_usage_rule_id = ce_usage_rule_id x\<rparr> in
      bindE (guardE (mutation_receipt_ok receipt \<and> control_result_ok r) Schema_invalid) (\<lambda>_.
      if \<not> advance then Inr (r, s)
      else bindE (guardE (mx_receipt_id receipt \<notin> (\<lambda>m. mx_receipt_id (mr_receipt m)) ` set (st_mutations l1)
             \<and> mx_receipt_hash receipt \<notin> (\<lambda>m. mx_receipt_hash (mr_receipt m)) ` set (st_mutations l1))
             Constraint_violation) (\<lambda>_.
           bindE (insert_row mr_idempotency_key
             \<lparr>mr_idempotency_key = control_key c, mr_request_hash = h, mr_receipt = receipt, mr_result = None,
              mr_owner = (claim_principal_id (actor_claim (ctl_envelope (cc_request c))), mem_scope m)\<rparr>
             (st_mutations l1)) (\<lambda>rows.
           Inr (r, s\<lparr>cs_ledger := l1\<lparr>st_mutations := rows\<rparr>,
                     cs_results := cs_results s @ [(mx_receipt_id receipt, r)]\<rparr>)))))"

definition consume_control_approval ::
  "control_command \<Rightarrow> string \<Rightarrow> string \<Rightarrow> 'g store \<Rightarrow> storage_error + 'g store" where
  "consume_control_approval c h receipt s = (case cc_approval c of None \<Rightarrow> Inl Approval_invalid
     | Some a \<Rightarrow>
         (let e = ctl_envelope (cc_request c);
              row = \<lparr>cn_approval_id = grant_approval_id (va_grant a), cn_idempotency_key = control_key c,
                cn_request_hash = h, cn_manifest_hash = grant_manifest_hash (va_grant a),
                cn_principal = claim_principal_id (actor_claim e), cn_tool = tool e,
                cn_scopes = sort_key (\<lambda>x. locale_key (scope_key x)) (scopes e),
                cn_consumed_at = va_verified_at a, cn_receipt_id = receipt\<rparr> in
          if cn_approval_id row \<in> cn_approval_id ` set (st_consumptions s)
             \<or> cn_idempotency_key row \<in> cn_idempotency_key ` set (st_consumptions s)
             \<or> cn_receipt_id row \<in> cn_receipt_id ` set (st_consumptions s)
          then Inl Approval_invalid
          else Inr (s\<lparr>st_consumptions := st_consumptions s @ [row]\<rparr>)))"

subsection \<open>The command\<close>

definition control_effect_of ::
  "'g governance_env \<Rightarrow> control_command \<Rightarrow> string \<Rightarrow> 'g control_store
     \<Rightarrow> storage_error + (control_result \<times> 'g control_store)" where
  "control_effect_of v c h s =
     (let q = cc_request c in
      case find_object (cs_ledger s) (ctl_memory_id q) of None \<Rightarrow> Inl Invalid_input | Some m \<Rightarrow>
      bindE (validate_target c m) (\<lambda>_.
      case current_revision_id m of None \<Rightarrow> Inl Stale_revision | Some rid \<Rightarrow>
      if dry_run (ctl_fields q) then
        seal_control v c h m \<lparr>ce_outcome = Control_dry_run, ce_pinned = pinned m,
          ce_lifecycle = mem_lifecycle m, ce_usage_rule_id = None, ce_projection_jobs = []\<rparr> False s
      else
        bindE (guardE (cc_approval c \<noteq> None) Approval_invalid) (\<lambda>_.
        bindE (validate_control_approval v c h (cs_ledger s)) (\<lambda>_.
        bindE (apply_effect v c m h rid s) (\<lambda>(x, s1).
        bindE (seal_control v c h m x True s1) (\<lambda>(r, s2).
        bindE (consume_control_approval c h (mx_receipt_id (cr_receipt r)) (cs_ledger s2)) (\<lambda>l.
        Inr (r, s2\<lparr>cs_ledger := l\<rparr>))))))))"

definition apply_control ::
  "'g governance_env \<Rightarrow> control_command \<Rightarrow> 'g control_store \<Rightarrow> (storage_error + control_result) \<times> 'g control_store" where
  "apply_control v c s =
     (let h = control_hash v c in
      case read_control s (control_key c) of
        Some m \<Rightarrow> (parse_existing_control v m h, s)
      | None \<Rightarrow> (case control_effect_of v c h s of Inl e \<Rightarrow> (Inl e, s) | Inr (r, s') \<Rightarrow> (Inr r, s')))"

end
