(* ===== verification/ControlProperties.thy ===== *)
theory ControlProperties
  imports ControlRepository GovernanceProperties
begin

text \<open>
  The control commands beside the governance commands: how each step of the ledger changes the rows
  of \<open>memory_objects\<close>, what a control command does to the tables, the combined transition system with
  its invariant, and the properties of both repositories together.
\<close>

subsection \<open>How the ledger changes a memory\<close>

text \<open>A row of \<open>memory_objects\<close> is left alone or points at a revision that is new.\<close>

definition object_moves :: "'g store \<Rightarrow> 'g store \<Rightarrow> bool" where
  "object_moves s s' \<longleftrightarrow> (\<forall>m' \<in> set (st_objects s'). m' \<in> set (st_objects s)
     \<or> (\<exists>r \<in> set (st_revisions s'). revision_id r \<notin> revision_id ` set (st_revisions s)
          \<and> current_revision_id m' = Some (revision_id r) \<and> (context_eligible m' \<longleftrightarrow> mem_lifecycle m' = Active)))"

lemma moves_same: "same_memories s s' \<Longrightarrow> object_moves s s'"
  by (simp add: same_memories_def object_moves_def)

lemma moves_after_same: "same_memories s t \<Longrightarrow> object_moves t u \<Longrightarrow> object_moves s u"
  by (simp add: same_memories_def object_moves_def)

lemma same_after_moves: "object_moves s t \<Longrightarrow> same_memories t u \<Longrightarrow> object_moves s u"
  by (simp add: same_memories_def object_moves_def)

lemma moves_moved:
  assumes "st_revisions s' = st_revisions s @ [r]" "revision_id r \<notin> revision_id ` set (st_revisions s)"
    and "st_objects s' = map (moved mid old (revision_id r) lc now) (st_objects s)"
  shows "object_moves s s'"
  using assms by (auto simp: object_moves_def moved_def)

lemma create_first_moves:
  assumes "create_memory v q s = Inr (r, s')" and "co_existing q = None"
  shows "object_moves s s'"
  using created_tables [OF create_memory_first(1) [OF assms]] by (auto simp: object_moves_def)

lemma create_next_moves:
  assumes "create_memory v q s = Inr (r, s')" and "co_existing q = Some m"
  shows "object_moves s s'"
proof -
  from create_memory_next [OF assms] obtain old where "co_supersedes q = Some old" and c: "created v q (map (moved (new_memory_id v q) (revision_id old)
      (new_revision_id v q) (lifecycle_for (co_decision q)) (co_requested_at q)) (st_objects s)) r s s'" by blast
  show ?thesis
    by (rule moves_moved [where r = "new_revision v q" and mid = "new_memory_id v q" and old = "revision_id old"
        and lc = "lifecycle_for (co_decision q)" and now = "co_requested_at q"]) (simp_all add: created_tables [OF c])
qed

lemma admit_moves:
  assumes "admit_effect v cmd h s = Inr (res, s')" and "read_mutation s (ac_idempotency_key cmd) = None"
  shows "object_moves s s'"
  using assms
proof (rule admit_effect_Inr, goal_cases)
  case (1 es s1)
  note same = candidate_frame(1) [OF 1(2)]
  from 1(3) consider "create_memory v (admit_options v cmd h es) s1 = Inr (res, s')" | "same_memories s1 s'"
    by (auto simp: reused_def conflict_opened_def)
  then show ?case
  proof cases
    case 1
    then show ?thesis using create_first_moves [OF 1] same by (simp add: admit_options_def moves_after_same)
  next
    case 2
    then show ?thesis using same moves_same same_memories_trans by blast
  qed
qed

lemma revise_moves:
  assumes "revision_effect v c h s = Inr (res, s')" and "read_mutation s (rc_idempotency_key c) = None"
  shows "object_moves s s'"
  using assms
proof (rule revision_effect_Inr, goal_cases)
  case (1 m r s1 es)
  note same1 = correction_evidence_frame(1) [OF 1(4)]
  from 1(8) show ?case
  proof (elim disjE conjE exE)
    assume "s' = s1"
    then show ?thesis using same1 moves_same by blast
  next
    fix s2 t
    assume s2: "insert_candidate v (rc_candidate c) (claim_principal_id (rc_actor c)) es s1 = Inr s2"
      and w: "sealed_with_approval c h (res, t) = Inr (res, s')"
      and re: "reused v (rc_idempotency_key c) h (claim_principal_id (rc_actor c), rc_scope c)
        (candidate_id (rc_candidate c)) m r res s2 t"
    note same1 also note candidate_frame(1) [OF s2]
    also note conjunct1 [OF reused_frame [OF re]] also note consume_frame(2) [OF w]
    finally show ?thesis by (rule moves_same)
  next
    fix s2 t
    assume s2: "insert_candidate v (rc_candidate c) (claim_principal_id (rc_actor c)) es s1 = Inr s2"
      and w: "sealed_with_approval c h (res, t) = Inr (res, s')"
      and cm: "create_memory v (revise_options v c h es m r) s2 = Inr (res, t)"
    have "object_moves s2 t" by (rule create_next_moves [OF cm]) (simp add: revise_options_def)
    moreover have "same_memories s s2" using same1 candidate_frame(1) [OF s2] same_memories_trans by blast
    ultimately show ?thesis
      using moves_after_same same_after_moves consume_frame(2) [OF w] by blast
  qed
qed

lemma learning_moves:
  assumes "apply_learning_release_effect v t q s = Inr (res, s')"
  shows "object_moves s s'"
  using assms
proof (rule learning_effect_Inr, goal_cases)
  case (1 src m old s1)
  from write_learning_revision_Inr [OF 1(5)] have "object_moves s s1"
    by (intro moves_moved [where r = "learning_revision v q src old (next_revision s (rev_memory_id src))"]) auto
  then show ?case by (rule same_after_moves [OF _ jobs_frame(1) [OF 1(6)]])
qed

lemma step_moves:
  assumes "ledger_step v s s'"
  shows "object_moves s s'"
  using assms
proof (cases rule: ledger_step.cases)
  case (command c)
  then consider "s' = s" | r where "read_mutation s (command_key c) = None" "command_effect v c s = Inr (r, s')"
    using run_command_cases [of v c s "fst (run_command v c s)" s'] by (metis prod.collapse)
  then show ?thesis
  proof cases
    case 2
    then show ?thesis by (cases c) (auto intro: admit_moves revise_moves)
  qed (simp add: object_moves_def)
next
  case (release t q res)
  then show ?thesis by (rule learning_moves)
qed (auto simp: object_moves_def)

subsection \<open>What a control command does\<close>

lemma control_invalidation_jobs: "insert_control_invalidation v mid now s = Inr (i, s') \<Longrightarrow> jobs_only s s'"
  unfolding jobs_only_def insert_control_invalidation_def
  by (auto simp: run_inv Let_def) (rule exI, rule exI, rule exI [of _ "st_projections s"], simp)

lemma withdraw_jobs_only:
  assumes "withdraw_jobs v c m rid s = Inr (js, s')"
  shows "jobs_only s s' \<and> length js = 2"
  using assms unfolding withdraw_jobs_def
  by (auto simp: run_inv intro: jobs_only_trans [OF control_invalidation_jobs suppress_jobs])

text \<open>The new columns of the row of the target, by action.\<close>

fun controlled :: "control_action \<Rightarrow> timestamp \<Rightarrow> object_row \<Rightarrow> object_row" where
  "controlled (Control_pin p) now m = m\<lparr>pinned := p, mem_updated_at := now\<rparr>"
| "controlled (Control_usage u sc) now m = m"
| "controlled Control_demote now m = m\<lparr>mem_lifecycle := Candidate, context_eligible := False, mem_updated_at := now\<rparr>"
| "controlled Control_revoke now m = m\<lparr>mem_lifecycle := Revoked, context_eligible := False, mem_updated_at := now\<rparr>"

definition controlled_rows :: "control_command \<Rightarrow> string \<Rightarrow> string \<Rightarrow> object_row list \<Rightarrow> object_row list" where
  "controlled_rows c mid rid = map (\<lambda>x. if memory_id x = mid \<and> current_revision_id x = Some rid
     then controlled (ctl_action (cc_request c)) (requested_at (ctl_envelope (cc_request c))) x else x)"

fun control_outcome_of :: "control_action \<Rightarrow> control_outcome" where
  "control_outcome_of (Control_pin p) = (if p then Pinned else Unpinned)"
| "control_outcome_of (Control_usage u sc) = (if u = Usage_allow then Usage_allowed else Usage_blocked)"
| "control_outcome_of Control_demote = Demoted"
| "control_outcome_of Control_revoke = Revoked_outcome"

text \<open>Which log the action adds a row to, and how many jobs it queues.\<close>

definition control_logs :: "control_action \<Rightarrow> nat \<times> nat \<times> nat \<times> nat" where
  "control_logs a = (case a of Control_pin p \<Rightarrow> (1, 0, 0, 0) | Control_usage u sc \<Rightarrow> (0, 1, 0, 1) | _ \<Rightarrow> (0, 0, 1, 2))"

lemma set_lifecycle_Inr:
  "set_lifecycle mid rid lc now s = Inr s' \<Longrightarrow>
     s' = s\<lparr>st_objects := map (\<lambda>m. if memory_id m = mid \<and> current_revision_id m = Some rid
        then m\<lparr>mem_lifecycle := lc, context_eligible := False, mem_updated_at := now\<rparr> else m) (st_objects s)\<rparr>"
  by (auto simp: set_lifecycle_def Let_def split: if_splits)

lemma control_status_Inr:
  "insert_control_status v c rid act lc s = Inr s' \<Longrightarrow> \<exists>e. s' = s\<lparr>st_statuses := st_statuses s @ [e]\<rparr>
     \<and> se_memory_id e = ctl_memory_id (cc_request c) \<and> se_revision_id e = rid \<and> se_action e = act \<and> se_lifecycle e = lc"
  by (auto simp: insert_control_status_def Let_def run_inv)

text \<open>The tables after the effect, before the receipt.\<close>

definition ledger_kept :: "'g store \<Rightarrow> 'g store \<Rightarrow> bool" where
  "ledger_kept l l' \<longleftrightarrow> st_evidence l' = st_evidence l \<and> st_artifacts l' = st_artifacts l
     \<and> st_candidates l' = st_candidates l \<and> st_revisions l' = st_revisions l \<and> st_links l' = st_links l
     \<and> st_admissions l' = st_admissions l \<and> st_groups l' = st_groups l \<and> st_members l' = st_members l
     \<and> st_tombstone_epoch l' = st_tombstone_epoch l \<and> prefix (st_outbox l) (st_outbox l')"

lemma ledger_kept_jobs: "jobs_only l l' \<Longrightarrow> ledger_kept l l'"
  using jobs_only_fields [of l l'] by (simp add: ledger_kept_def)

lemma ledger_kept_trans: "ledger_kept l m \<Longrightarrow> ledger_kept m n \<Longrightarrow> ledger_kept l n"
  by (auto simp: ledger_kept_def)

definition effect_written ::
  "control_command \<Rightarrow> string \<Rightarrow> string \<Rightarrow> control_effect \<Rightarrow> 'g control_store \<Rightarrow> 'g control_store \<Rightarrow> bool" where
  "effect_written c mid rid x s s' \<longleftrightarrow> ledger_kept (cs_ledger s) (cs_ledger s')
     \<and> st_objects (cs_ledger s') = controlled_rows c mid rid (st_objects (cs_ledger s))
     \<and> st_mutations (cs_ledger s') = st_mutations (cs_ledger s)
     \<and> st_consumptions (cs_ledger s') = st_consumptions (cs_ledger s)
     \<and> st_ledger_epoch (cs_ledger s') = st_ledger_epoch (cs_ledger s)
     \<and> cs_results s' = cs_results s \<and> cs_learning_candidates s' = cs_learning_candidates s
     \<and> (\<exists>pins us st. cs_pins s' = cs_pins s @ pins \<and> cs_usage s' = cs_usage s @ us
          \<and> st_statuses (cs_ledger s') = st_statuses (cs_ledger s) @ st
          \<and> control_logs (ctl_action (cc_request c)) = (length pins, length us, length st, length (ce_projection_jobs x)))
     \<and> ce_outcome x = control_outcome_of (ctl_action (cc_request c))"

lemma controlled_usage: "ctl_action (cc_request c) = Control_usage u sc \<Longrightarrow> controlled_rows c mid rid xs = xs"
  by (simp add: controlled_rows_def map_idI)

lemma apply_pin_written:
  assumes "apply_pin v c m h rid p s = Inr (x, s')" and "ctl_action (cc_request c) = Control_pin p"
  shows "effect_written c (memory_id m) rid x s s'"
  using assms
  by (auto simp: effect_written_def apply_pin_def Let_def set_pinned_def run_inv control_logs_def
      controlled_rows_def ledger_kept_def)

lemma apply_usage_written:
  assumes "apply_usage v c m h rid u sc s = Inr (x, s')" and "ctl_action (cc_request c) = Control_usage u sc"
  shows "effect_written c (memory_id m) rid x s s'"
proof -
  from assms(1) obtain j l row where
    j: "(if u = Usage_block then suppress_in_store v (control_projection_effect c m rid)
         else refresh_in_store v (control_projection_effect c m rid)) (cs_ledger s) = Inr (j, l)"
    and s': "s' = s\<lparr>cs_usage := cs_usage s @ [row], cs_ledger := l\<rparr>"
    and x: "ce_projection_jobs x = [j]" "ce_outcome x = (if u = Usage_allow then Usage_allowed else Usage_blocked)"
    by (auto simp: apply_usage_def Let_def run_inv on_ledger_def)
  have "jobs_only (cs_ledger s) l"
    using j by (auto split: if_splits intro: suppress_jobs refresh_jobs)
  from jobs_only_fields [OF this] ledger_kept_jobs [OF this] show ?thesis
    using assms(2) by (simp add: effect_written_def s' x controlled_usage control_logs_def)
qed

lemma withdrawn:
  assumes l1: "set_lifecycle mid rid lc now l = Inr l1" and l2: "insert_control_status v c rid act lc l1 = Inr l2"
    and l3: "withdraw_jobs v c m rid l2 = Inr (js, l3)"
  shows "ledger_kept l l3 \<and> st_mutations l3 = st_mutations l \<and> st_consumptions l3 = st_consumptions l
    \<and> st_ledger_epoch l3 = st_ledger_epoch l \<and> length js = 2
    \<and> (\<exists>e. st_statuses l3 = st_statuses l @ [e])
    \<and> st_objects l3 = map (\<lambda>m. if memory_id m = mid \<and> current_revision_id m = Some rid
        then m\<lparr>mem_lifecycle := lc, context_eligible := False, mem_updated_at := now\<rparr> else m) (st_objects l)"
proof -
  from withdraw_jobs_only [OF l3] have j: "jobs_only l2 l3" and js: "length js = 2" by simp_all
  from control_status_Inr [OF l2] obtain e where "l2 = l1\<lparr>st_statuses := st_statuses l1 @ [e]\<rparr>" by blast
  with set_lifecycle_Inr [OF l1] jobs_only_fields [OF j] js show ?thesis by (simp add: ledger_kept_def)
qed

lemma apply_demote_written:
  assumes "apply_demote v c m rid s = Inr (x, s')" and "ctl_action (cc_request c) = Control_demote"
  shows "effect_written c (memory_id m) rid x s s'"
proof -
  let ?now = "requested_at (ctl_envelope (cc_request c))"
  from assms(1) obtain l1 l2 l3 js where
    l: "set_lifecycle (memory_id m) rid Candidate ?now (cs_ledger s) = Inr l1"
      "insert_control_status v c rid Act_demote Candidate l1 = Inr l2" "withdraw_jobs v c m rid l2 = Inr (js, l3)"
    and s': "s' = s\<lparr>cs_ledger := l3\<rparr>" and x: "ce_projection_jobs x = js" "ce_outcome x = Demoted"
    by (auto simp: apply_demote_def run_inv)
  from withdrawn [OF l] show ?thesis
    using assms(2) by (auto simp: effect_written_def s' x control_logs_def controlled_rows_def)
qed

lemma apply_revoke_written:
  assumes "apply_revoke v c m rid s = Inr (x, s')" and "ctl_action (cc_request c) = Control_revoke"
  shows "effect_written c (memory_id m) rid x s s'"
proof -
  let ?now = "requested_at (ctl_envelope (cc_request c))"
  from assms(1) obtain l1 l2 l3 js inv where
    l: "set_lifecycle (memory_id m) rid Revoked ?now (cs_ledger s) = Inr l1"
      "insert_control_status v c rid Act_revoke Revoked l1 = Inr l2" "withdraw_jobs v c m rid l2 = Inr (js, l3)"
    and s': "s' = s\<lparr>cs_invalidations := inv, cs_ledger := l3\<rparr>" and x: "ce_projection_jobs x = js" "ce_outcome x = Revoked_outcome"
    by (auto simp: apply_revoke_def run_inv invalidate_learning_targets_def Let_def)
  from withdrawn [OF l] show ?thesis
    using assms(2) by (auto simp: effect_written_def s' x control_logs_def controlled_rows_def)
qed

lemma apply_effect_written:
  "apply_effect v c m h rid s = Inr (x, s') \<Longrightarrow> effect_written c (memory_id m) rid x s s'"
  unfolding apply_effect_def
  by (cases "ctl_action (cc_request c)")
    (auto intro: apply_pin_written apply_usage_written apply_demote_written apply_revoke_written)

subsection \<open>Receipts\<close>

definition control_sealed ::
  "'g governance_env \<Rightarrow> control_command \<Rightarrow> string \<Rightarrow> control_result \<Rightarrow> 'g control_store \<Rightarrow> 'g control_store \<Rightarrow> bool" where
  "control_sealed v c h r s s' \<longleftrightarrow> (\<exists>w.
     s' = s\<lparr>cs_ledger := (cs_ledger s)\<lparr>st_ledger_epoch := st_ledger_epoch (cs_ledger s) + 1,
              st_mutations := st_mutations (cs_ledger s) @ [w]\<rparr>,
            cs_results := cs_results s @ [(mx_receipt_id (mr_receipt w), r)]\<rparr>
     \<and> mr_idempotency_key w = control_key c \<and> mr_request_hash w = h \<and> mr_receipt w = cr_receipt r \<and> mr_result w = None
     \<and> mutation_receipt_ok (mr_receipt w)
     \<and> mx_receipt_hash (mr_receipt w) = env_sha v (unsealed_mutation_json (mr_receipt w))
     \<and> mx_receipt_id (mr_receipt w) \<notin> (\<lambda>m. mx_receipt_id (mr_receipt m)) ` set (st_mutations (cs_ledger s))
     \<and> control_key c \<notin> mr_idempotency_key ` set (st_mutations (cs_ledger s)))
   \<and> control_result_ok r \<and> \<not> cr_replayed r"

lemma control_receipt_hash:
  "mx_receipt_hash (control_receipt v c h m jobs b n) = env_sha v (unsealed_mutation_json (control_receipt v c h m jobs b n))"
  by (simp add: control_receipt_def Let_def unsealed_mutation_json_def)

lemma control_receipt_jobs [simp]: "mx_projection_jobs (control_receipt v c h m jobs b n) = jobs"
  by (simp add: control_receipt_def Let_def)

lemma seal_control_Inr:
  assumes "seal_control v c h m x True s = Inr (r, s')"
  shows "control_sealed v c h r s s' \<and> cr_outcome r = ce_outcome x \<and> cr_memory_id r = memory_id m
    \<and> current_revision_id m = Some (cr_current_revision_id r) \<and> cr_lifecycle r = ce_lifecycle x
    \<and> mx_projection_jobs (cr_receipt r) = ce_projection_jobs x"
proof -
  let ?R = "control_receipt v c h m (ce_projection_jobs x) True (Suc (st_ledger_epoch (cs_ledger s)))"
  let ?w = "\<lparr>mr_idempotency_key = control_key c, mr_request_hash = h, mr_receipt = ?R, mr_result = None,
      mr_owner = (claim_principal_id (actor_claim (ctl_envelope (cc_request c))), mem_scope m)\<rparr>"
  from assms obtain rid where rid: "current_revision_id m = Some rid"
    by (auto simp: seal_control_def Let_def split: option.splits)
  with assms have r: "r = \<lparr>cr_receipt = ?R, cr_replayed = False, cr_outcome = ce_outcome x, cr_memory_id = memory_id m,
            cr_current_revision_id = rid, cr_lifecycle = ce_lifecycle x, cr_pinned = ce_pinned x,
            cr_usage_rule_id = ce_usage_rule_id x\<rparr>"
    and ok: "mutation_receipt_ok ?R" "control_result_ok r"
      "mx_receipt_id ?R \<notin> (\<lambda>m. mx_receipt_id (mr_receipt m)) ` set (st_mutations (cs_ledger s))"
      "control_key c \<notin> mr_idempotency_key ` set (st_mutations (cs_ledger s))"
    and s': "s' = s\<lparr>cs_ledger := (cs_ledger s)\<lparr>st_ledger_epoch := st_ledger_epoch (cs_ledger s) + 1,
              st_mutations := st_mutations (cs_ledger s) @ [?w]\<rparr>,
            cs_results := cs_results s @ [(mx_receipt_id ?R, r)]\<rparr>"
    by (auto simp: seal_control_def Let_def run_inv)
  have "control_sealed v c h r s s'"
    unfolding control_sealed_def using r ok s' by (intro conjI exI [of _ ?w]) (simp_all add: control_receipt_hash)
  then show ?thesis using r rid by simp
qed

lemma seal_control_dry:
  "seal_control v c h m x False s = Inr (r, s') \<Longrightarrow> s' = s \<and> cr_outcome r = ce_outcome x \<and> \<not> cr_replayed r"
  by (auto simp: seal_control_def Let_def run_inv split: option.splits)

lemma consume_control_Inr:
  assumes "consume_control_approval c h i l = Inr l'"
  shows "\<exists>a w. cc_approval c = Some a \<and> l' = l\<lparr>st_consumptions := st_consumptions l @ [w]\<rparr>
    \<and> cn_approval_id w = grant_approval_id (va_grant a) \<and> cn_approval_id w \<notin> cn_approval_id ` set (st_consumptions l)"
  using assms by (auto simp: consume_control_approval_def Let_def split: option.splits if_splits)

text \<open>The whole command, once its target is found and it is not a preview.\<close>

lemma control_effect_Inr:
  assumes "control_effect_of v c h s = Inr (r, s')"
  obtains (dry) "dry_run (ctl_fields (cc_request c))" "s' = s" "cr_outcome r = Control_dry_run" "\<not> cr_replayed r"
  | (effect) m rid x s1 s2 w where "\<not> dry_run (ctl_fields (cc_request c))"
    "find_object (cs_ledger s) (ctl_memory_id (cc_request c)) = Some m" "validate_target c m = Inr ()"
    "current_revision_id m = Some rid" "validate_control_approval v c h (cs_ledger s) = Inr ()"
    "effect_written c (memory_id m) rid x s s1" "control_sealed v c h r s1 s2"
    "cr_outcome r = ce_outcome x" "cr_memory_id r = memory_id m" "cr_current_revision_id r = rid"
    "mx_projection_jobs (cr_receipt r) = ce_projection_jobs x"
    "s' = s2\<lparr>cs_ledger := (cs_ledger s2)\<lparr>st_consumptions := st_consumptions (cs_ledger s2) @ [w]\<rparr>\<rparr>"
    "cn_approval_id w \<notin> cn_approval_id ` set (st_consumptions (cs_ledger s2))"
    "\<exists>a. cc_approval c = Some a \<and> cn_approval_id w = grant_approval_id (va_grant a)"
proof -
  let ?q = "cc_request c"
  from assms obtain m rid where m: "find_object (cs_ledger s) (ctl_memory_id ?q) = Some m"
    "validate_target c m = Inr ()" "current_revision_id m = Some rid"
    by (auto simp: control_effect_of_def Let_def run_inv split: option.splits)
  show thesis
  proof (cases "dry_run (ctl_fields ?q)")
    case True
    with assms m have "seal_control v c h m \<lparr>ce_outcome = Control_dry_run, ce_pinned = pinned m,
        ce_lifecycle = mem_lifecycle m, ce_usage_rule_id = None, ce_projection_jobs = []\<rparr> False s = Inr (r, s')"
      by (simp add: control_effect_of_def Let_def)
    from seal_control_dry [OF this] show thesis using dry True by simp
  next
    case False
    with assms m obtain x s1 s2 l where v: "validate_control_approval v c h (cs_ledger s) = Inr ()"
      and x: "apply_effect v c m h rid s = Inr (x, s1)" and r: "seal_control v c h m x True s1 = Inr (r, s2)"
      and l: "consume_control_approval c h (mx_receipt_id (cr_receipt r)) (cs_ledger s2) = Inr l"
      and s': "s' = s2\<lparr>cs_ledger := l\<rparr>"
      by (auto simp: control_effect_of_def Let_def run_inv)
    from seal_control_Inr [OF r] m(3) have rid: "control_sealed v c h r s1 s2" "cr_outcome r = ce_outcome x"
      "cr_memory_id r = memory_id m" "cr_current_revision_id r = rid"
      "mx_projection_jobs (cr_receipt r) = ce_projection_jobs x" by simp_all
    from consume_control_Inr [OF l] show thesis
      using effect [OF False m v apply_effect_written [OF x] rid] s' by auto
  qed
qed

lemma apply_control_cases:
  assumes "apply_control v c s = (x, s')"
  obtains (replayed) m where "read_control s (control_key c) = Some m" "x = parse_existing_control v m (control_hash v c)" "s' = s"
  | (failed) e where "read_control s (control_key c) = None" "x = Inl e" "s' = s"
  | (ran) r where "read_control s (control_key c) = None" "x = Inr r" "control_effect_of v c (control_hash v c) s = Inr (r, s')"
  using assms by (auto simp: apply_control_def Let_def split: option.splits sum.splits)

subsection \<open>Both repositories as one transition system\<close>

text \<open>A step: a control command, a step of the ledger, a new learning candidate.\<close>

inductive control_step :: "'g governance_env \<Rightarrow> 'g control_store \<Rightarrow> 'g control_store \<Rightarrow> bool" for v where
  control: "control_command_ok (env_sha v) c \<Longrightarrow> control_step v s (snd (apply_control v c s))"
| ledger: "ledger_step v (cs_ledger s) l \<Longrightarrow> control_step v s (s\<lparr>cs_ledger := l\<rparr>)"
| learning: "control_step v s (s\<lparr>cs_learning_candidates := x # cs_learning_candidates s\<rparr>)"

definition control_initial :: "'g control_store \<Rightarrow> bool" where
  "control_initial s \<longleftrightarrow> ledger_initial (cs_ledger s) \<and> cs_pins s = [] \<and> cs_usage s = []
     \<and> cs_invalidations s = [] \<and> cs_results s = []"

text \<open>Every memory points at a stored revision and is only eligible while active.\<close>

definition object_ok :: "revision_row list \<Rightarrow> object_row \<Rightarrow> bool" where
  "object_ok revs m \<longleftrightarrow> (\<exists>r \<in> set revs. current_revision_id m = Some (revision_id r))
     \<and> (context_eligible m \<longrightarrow> mem_lifecycle m = Active)"

definition control_ok :: "'g control_store \<Rightarrow> bool" where
  "control_ok s \<longleftrightarrow> (\<forall>m \<in> set (st_objects (cs_ledger s)). object_ok (st_revisions (cs_ledger s)) m)
     \<and> fst ` set (cs_results s) \<subseteq> (\<lambda>w. mx_receipt_id (mr_receipt w)) ` set (st_mutations (cs_ledger s))"

lemma controlled_rows_cases:
  assumes "m' \<in> set (controlled_rows c mid rid ms)"
  obtains m where "m \<in> set ms" "m' = m \<or> m' = controlled (ctl_action (cc_request c)) (requested_at (ctl_envelope (cc_request c))) m"
  using assms by (auto simp: controlled_rows_def split: if_splits)

lemma controlled_fields [simp]:
  "current_revision_id (controlled a now m) = current_revision_id m" "memory_id (controlled a now m) = memory_id m"
  by (cases a; simp)+

lemma controlled_lifecycle:
  "context_eligible (controlled a now m) \<Longrightarrow> context_eligible m"
  "mem_lifecycle (controlled a now m) \<in> {mem_lifecycle m, Candidate, Revoked}"
  "context_eligible (controlled a now m) \<Longrightarrow> mem_lifecycle (controlled a now m) = mem_lifecycle m"
  by (cases a; simp)+

lemma object_ok_controlled: "object_ok revs m \<Longrightarrow> object_ok revs (controlled a now m)"
  using controlled_lifecycle [of a now m] by (auto simp: object_ok_def)

text \<open>What a control command that ran leaves behind.\<close>

lemma control_effect_tables:
  assumes "control_effect_of v c h s = Inr (r, s')" and "\<not> dry_run (ctl_fields (cc_request c))"
  shows "\<exists>m rid w. find_object (cs_ledger s) (ctl_memory_id (cc_request c)) = Some m \<and> current_revision_id m = Some rid
      \<and> validate_target c m = Inr () \<and> cr_memory_id r = memory_id m \<and> cr_current_revision_id r = rid
      \<and> st_objects (cs_ledger s') = controlled_rows c (memory_id m) rid (st_objects (cs_ledger s))
      \<and> ledger_kept (cs_ledger s) (cs_ledger s')
      \<and> cr_outcome r = control_outcome_of (ctl_action (cc_request c))
      \<and> st_mutations (cs_ledger s') = st_mutations (cs_ledger s) @ [w] \<and> mr_idempotency_key w = control_key c
      \<and> mr_request_hash w = h \<and> mr_receipt w = cr_receipt r \<and> mr_result w = None
      \<and> mutation_receipt_ok (mr_receipt w) \<and> control_result_ok r \<and> \<not> cr_replayed r
      \<and> mx_receipt_hash (mr_receipt w) = env_sha v (unsealed_mutation_json (mr_receipt w))
      \<and> mx_receipt_id (mr_receipt w) \<notin> (\<lambda>m. mx_receipt_id (mr_receipt m)) ` set (st_mutations (cs_ledger s))
      \<and> cs_results s' = cs_results s @ [(mx_receipt_id (mr_receipt w), r)]
      \<and> cs_learning_candidates s' = cs_learning_candidates s
      \<and> st_ledger_epoch (cs_ledger s') = Suc (st_ledger_epoch (cs_ledger s))
      \<and> (\<exists>a g. cc_approval c = Some a \<and> st_consumptions (cs_ledger s') = st_consumptions (cs_ledger s) @ [g]
           \<and> cn_approval_id g = grant_approval_id (va_grant a)
           \<and> cn_approval_id g \<notin> cn_approval_id ` set (st_consumptions (cs_ledger s)))
      \<and> (\<exists>pins us st. cs_pins s' = cs_pins s @ pins \<and> cs_usage s' = cs_usage s @ us
           \<and> st_statuses (cs_ledger s') = st_statuses (cs_ledger s) @ st
           \<and> control_logs (ctl_action (cc_request c))
               = (length pins, length us, length st, length (mx_projection_jobs (cr_receipt r))))"
  using assms(1)
proof (cases rule: control_effect_Inr)
  case dry
  then show ?thesis using assms(2) by simp
next
  case (effect m rid x s1 s2 w)
  from effect(7) obtain u where u: "s2 = s1\<lparr>cs_ledger := (cs_ledger s1)\<lparr>st_ledger_epoch := st_ledger_epoch (cs_ledger s1) + 1,
              st_mutations := st_mutations (cs_ledger s1) @ [u]\<rparr>,
            cs_results := cs_results s1 @ [(mx_receipt_id (mr_receipt u), r)]\<rparr>"
    "mr_idempotency_key u = control_key c" "mr_request_hash u = h" "mr_receipt u = cr_receipt r" "mr_result u = None"
    "mutation_receipt_ok (mr_receipt u)" "mx_receipt_hash (mr_receipt u) = env_sha v (unsealed_mutation_json (mr_receipt u))"
    "mx_receipt_id (mr_receipt u) \<notin> (\<lambda>m. mx_receipt_id (mr_receipt m)) ` set (st_mutations (cs_ledger s1))"
    "control_result_ok r" "\<not> cr_replayed r"
    unfolding control_sealed_def by (elim conjE exE) (rule that; assumption)
  from effect(6) have x: "ledger_kept (cs_ledger s) (cs_ledger s1)"
    "st_objects (cs_ledger s1) = controlled_rows c (memory_id m) rid (st_objects (cs_ledger s))"
    "st_mutations (cs_ledger s1) = st_mutations (cs_ledger s)" "st_consumptions (cs_ledger s1) = st_consumptions (cs_ledger s)"
    "st_ledger_epoch (cs_ledger s1) = st_ledger_epoch (cs_ledger s)" "cs_results s1 = cs_results s"
    "cs_learning_candidates s1 = cs_learning_candidates s" "ce_outcome x = control_outcome_of (ctl_action (cc_request c))"
    and logs: "\<exists>pins us st. cs_pins s1 = cs_pins s @ pins \<and> cs_usage s1 = cs_usage s @ us
          \<and> st_statuses (cs_ledger s1) = st_statuses (cs_ledger s) @ st
          \<and> control_logs (ctl_action (cc_request c)) = (length pins, length us, length st, length (ce_projection_jobs x))"
    unfolding effect_written_def by blast+
  have kept: "ledger_kept (cs_ledger s) (cs_ledger s')"
    using x(1) by (simp add: effect(12) u(1) ledger_kept_def)
  have f: "cs_pins s' = cs_pins s1" "cs_usage s' = cs_usage s1" "st_statuses (cs_ledger s') = st_statuses (cs_ledger s1)"
    "cs_learning_candidates s' = cs_learning_candidates s1" "st_objects (cs_ledger s') = st_objects (cs_ledger s1)"
    "st_mutations (cs_ledger s') = st_mutations (cs_ledger s1) @ [u]"
    "cs_results s' = cs_results s1 @ [(mx_receipt_id (mr_receipt u), r)]"
    "st_ledger_epoch (cs_ledger s') = Suc (st_ledger_epoch (cs_ledger s1))"
    "st_consumptions (cs_ledger s') = st_consumptions (cs_ledger s1) @ [w]"
    "st_consumptions (cs_ledger s2) = st_consumptions (cs_ledger s1)"
    by (simp_all add: effect(12) u(1))
  show ?thesis
  proof (rule exI [of _ m], rule exI [of _ rid], rule exI [of _ u], intro conjI)
    show "cr_outcome r = control_outcome_of (ctl_action (cc_request c))" using effect(8) x(8) by simp
    show "\<exists>a g. cc_approval c = Some a \<and> st_consumptions (cs_ledger s') = st_consumptions (cs_ledger s) @ [g]
        \<and> cn_approval_id g = grant_approval_id (va_grant a)
        \<and> cn_approval_id g \<notin> cn_approval_id ` set (st_consumptions (cs_ledger s))"
      using effect(13,14) by (auto simp: f x(4))
    show "\<exists>pins us st. cs_pins s' = cs_pins s @ pins \<and> cs_usage s' = cs_usage s @ us
           \<and> st_statuses (cs_ledger s') = st_statuses (cs_ledger s) @ st
           \<and> control_logs (ctl_action (cc_request c))
               = (length pins, length us, length st, length (mx_projection_jobs (cr_receipt r)))"
      using logs by (simp add: f effect(11))
    show "mx_receipt_id (mr_receipt u) \<notin> (\<lambda>m. mx_receipt_id (mr_receipt m)) ` set (st_mutations (cs_ledger s))"
      using u(8) by (simp only: x(3) not_False_eq_True)
  qed (rule effect u kept | simp only: f x)+
qed

lemma apply_control_changes:
  assumes "apply_control v c s = (x, s')"
  obtains (same) "s' = s"
  | (changed) r where "x = Inr r" "read_control s (control_key c) = None" "\<not> dry_run (ctl_fields (cc_request c))"
      "control_effect_of v c (control_hash v c) s = Inr (r, s')"
  using assms
proof (cases rule: apply_control_cases)
  case (ran r)
  show thesis
  proof (cases "dry_run (ctl_fields (cc_request c))")
    case True
    from ran(3) have "s' = s" by (cases rule: control_effect_Inr) (use True in simp_all)
    then show thesis by (rule same)
  qed (use ran changed in blast)
qed (use same in blast)+

lemma object_ok_mono: "object_ok revs m \<Longrightarrow> set revs \<subseteq> set revs' \<Longrightarrow> object_ok revs' m"
  by (auto simp: object_ok_def)

lemma ledger_step_control_ok:
  assumes "ledger_step v (cs_ledger s) l" and "control_ok s"
  shows "control_ok (s\<lparr>cs_ledger := l\<rparr>)"
proof -
  have x: "prefix (st_revisions (cs_ledger s)) (st_revisions l)" "prefix (st_mutations (cs_ledger s)) (st_mutations l)"
    using step_frame [OF assms(1)] by (simp_all add: extends_def)
  have "object_ok (st_revisions l) m" if "m \<in> set (st_objects l)" for m
    using step_moves [OF assms(1)] that assms(2) object_ok_mono [OF _ set_mono_prefix [OF x(1)]]
    unfolding object_moves_def control_ok_def by (fastforce simp: object_ok_def)
  then show ?thesis
    using assms(2) image_mono [OF set_mono_prefix [OF x(2)], of "\<lambda>w. mx_receipt_id (mr_receipt w)"]
    unfolding control_ok_def by (simp, blast)
qed

lemma control_effect_ok:
  assumes "control_effect_of v c h s = Inr (r, s')" and "\<not> dry_run (ctl_fields (cc_request c))" and "control_ok s"
  shows "control_ok s'"
proof -
  from control_effect_tables [OF assms(1,2)] obtain m :: object_row and rid w where
    o: "st_objects (cs_ledger s') = controlled_rows c (memory_id m) rid (st_objects (cs_ledger s))"
    and k: "ledger_kept (cs_ledger s) (cs_ledger s')"
    and w: "st_mutations (cs_ledger s') = st_mutations (cs_ledger s) @ [w]"
      "cs_results s' = cs_results s @ [(mx_receipt_id (mr_receipt w), r)]"
    by (elim exE conjE) (rule that, assumption+)
  have "object_ok (st_revisions (cs_ledger s')) x" if x: "x \<in> set (st_objects (cs_ledger s'))" for x
  proof -
    from x obtain y where "y \<in> set (st_objects (cs_ledger s))"
      "x = y \<or> x = controlled (ctl_action (cc_request c)) (requested_at (ctl_envelope (cc_request c))) y"
      unfolding o by (rule controlled_rows_cases)
    then show ?thesis
      using assms(3) object_ok_controlled k by (auto simp: control_ok_def ledger_kept_def)
  qed
  then show ?thesis
    using assms(3) by (auto simp: control_ok_def w)
qed

lemma control_step_ok:
  assumes "control_step v s t" and "control_ok s"
  shows "control_ok t"
  using assms(1)
proof (cases rule: control_step.cases)
  case (control c)
  obtain x where "apply_control v c s = (x, t)" using control by (metis prod.collapse)
  then show ?thesis by (cases rule: apply_control_changes) (use assms(2) control_effect_ok in blast)+
next
  case (ledger l)
  then show ?thesis using ledger_step_control_ok assms(2) by blast
next
  case (learning x)
  then show ?thesis using assms(2) by (simp add: control_ok_def)
qed

lemma control_initial_ok: "control_initial s \<Longrightarrow> control_ok s"
  by (simp add: control_initial_def control_ok_def ledger_initial_def)

subsection \<open>Receipts are kept\<close>

lemma read_control_Some:
  "read_control s k = Some m \<longleftrightarrow> read_mutation (cs_ledger s) k = Some (fst m)
     \<and> snd m = map_of (cs_results s) (mx_receipt_id (mr_receipt (fst m)))"
  by (cases m) (auto simp: read_control_def split: option.splits)

lemma read_mutation_mem: "read_mutation s k = Some m \<Longrightarrow> m \<in> set (st_mutations s) \<and> mr_idempotency_key m = k"
  by (auto simp: read_mutation_def dest!: find_Some_mem)

lemma control_effect_kept:
  assumes "control_effect_of v c h s = Inr (r, s')" and "\<not> dry_run (ctl_fields (cc_request c))"
    and "read_control s k = Some m"
  shows "read_control s' k = Some m"
proof -
  from control_effect_tables [OF assms(1,2)] obtain w where
    w: "st_mutations (cs_ledger s') = st_mutations (cs_ledger s) @ [w]"
      "cs_results s' = cs_results s @ [(mx_receipt_id (mr_receipt w), r)]"
    and new: "mx_receipt_id (mr_receipt w) \<notin> (\<lambda>m. mx_receipt_id (mr_receipt m)) ` set (st_mutations (cs_ledger s))"
    by blast
  from assms(3) have m: "read_mutation (cs_ledger s) k = Some (fst m)"
    "snd m = map_of (cs_results s) (mx_receipt_id (mr_receipt (fst m)))" by (simp_all add: read_control_Some)
  have "mx_receipt_id (mr_receipt (fst m)) \<noteq> mx_receipt_id (mr_receipt w)"
    using read_mutation_mem [OF m(1)] new by (metis imageI)
  then show ?thesis
    using m by (simp add: read_control_Some w map_of_append read_mutation_def find_append map_add_def split: option.split)
qed

lemma control_step_kept:
  assumes "control_step v s t" and "read_control s k = Some m"
  shows "read_control t k = Some m"
  using assms(1)
proof (cases rule: control_step.cases)
  case (control c)
  obtain x where "apply_control v c s = (x, t)" using control by (metis prod.collapse)
  then show ?thesis by (cases rule: apply_control_changes) (use assms(2) control_effect_kept in blast)+
next
  case (ledger l)
  then show ?thesis
    using assms(2) step_frame [OF ledger(2)] by (auto simp: read_control_Some intro: read_mutation_kept)
next
  case (learning x)
  then show ?thesis using assms(2) by (simp add: read_control_Some)
qed

lemma control_recording:
  assumes "control_ok s" and "apply_control v c s = (Inr r, t)" and "cr_outcome r \<noteq> Control_dry_run"
  shows "\<exists>m. read_control t (control_key c) = Some m
    \<and> parse_existing_control v m (control_hash v c) = Inr (r\<lparr>cr_replayed := True\<rparr>)"
  using assms(2)
proof (cases rule: apply_control_cases)
  case (replayed m)
  then show ?thesis
    by (intro exI [of _ m]) (auto simp: parse_existing_control_def split: if_splits option.splits)
next
  case (ran r')
  have nd: "\<not> dry_run (ctl_fields (cc_request c))"
  proof
    assume d: "dry_run (ctl_fields (cc_request c))"
    from ran(3) have "cr_outcome r' = Control_dry_run" by (cases rule: control_effect_Inr) (use d in simp_all)
    then show False using ran(2) assms(3) by simp
  qed
  from control_effect_tables [OF ran(3) nd] obtain w where
    w: "st_mutations (cs_ledger t) = st_mutations (cs_ledger s) @ [w]"
      "cs_results t = cs_results s @ [(mx_receipt_id (mr_receipt w), r')]"
      "mr_idempotency_key w = control_key c" "mr_request_hash w = control_hash v c" "mr_receipt w = cr_receipt r'"
      "mutation_receipt_ok (mr_receipt w)" "control_result_ok r'"
      "mx_receipt_hash (mr_receipt w) = env_sha v (unsealed_mutation_json (mr_receipt w))"
    and new: "mx_receipt_id (mr_receipt w) \<notin> (\<lambda>m. mx_receipt_id (mr_receipt m)) ` set (st_mutations (cs_ledger s))"
    by blast
  have "read_mutation (cs_ledger s) (control_key c) = None"
    using ran(1) by (simp add: read_control_def split: option.splits)
  then have "read_mutation (cs_ledger t) (control_key c) = Some w"
    by (simp add: read_mutation_def w find_append_None)
  moreover have "map_of (cs_results s) (mx_receipt_id (mr_receipt w)) = None"
    using assms(1) new by (auto simp: control_ok_def map_of_eq_None_iff)
  ultimately have "read_control t (control_key c) = Some (w, Some r')"
    by (simp add: read_control_Some w(2) map_of_append map_add_def)
  then show ?thesis
    using ran(2) w by (intro exI [of _ "(w, Some r')"]) (simp add: parse_existing_control_def)
qed simp

interpretation control: idempotent_command control_initial "control_step v" control_ok "apply_control v"
  control_key read_control "\<lambda>c m. parse_existing_control v m (control_hash v c)"
  "control_command_ok (env_sha v)" "\<lambda>r. cr_outcome r = Control_dry_run" "\<lambda>r. r\<lparr>cr_replayed := True\<rparr>"
  for v :: "'g governance_env"
proof unfold_locales
  show "control_step v s (snd (apply_control v c s))" if "control_command_ok (env_sha v) c" for c s
    using that by (rule control_step.control)
  show "t = s" if "apply_control v c s = (Inl e, t)" for c s e t
    using that by (cases rule: apply_control_cases) auto
  show "apply_control v c s = (parse_existing_control v m (control_hash v c), s)"
    if "read_control s (control_key c) = Some m" for c s m
    using that by (simp add: apply_control_def Let_def)
qed (blast intro: control_initial_ok control_step_ok control_step_kept control_recording)+

subsection \<open>Properties\<close>

lemma ran_not_replayed:
  assumes "apply_control v c s = (Inr r, t)" and "\<not> cr_replayed r"
  shows "read_control s (control_key c) = None \<and> control_effect_of v c (control_hash v c) s = Inr (r, t)"
  using assms(1)
proof (cases rule: apply_control_cases)
  case (replayed m)
  then show ?thesis
    using assms(2) by (auto simp: parse_existing_control_def split: if_splits option.splits)
qed simp_all


text \<open>A revision of a memory is retired when it is stored and no memory that points at it is active.\<close>

definition retired :: "string \<Rightarrow> string \<Rightarrow> 'g store \<Rightarrow> bool" where
  "retired mid rid l \<longleftrightarrow> rid \<in> revision_id ` set (st_revisions l)
     \<and> (\<forall>m \<in> set (st_objects l). memory_id m = mid \<longrightarrow> current_revision_id m = Some rid
          \<longrightarrow> \<not> context_eligible m \<and> mem_lifecycle m \<noteq> Active)"

lemma retired_ledger_step:
  assumes "ledger_step v l l'" and "retired mid rid l"
  shows "retired mid rid l'"
proof -
  have "prefix (st_revisions l) (st_revisions l')"
    using step_frame [OF assms(1)] by (simp add: extends_def)
  then have "rid \<in> revision_id ` set (st_revisions l')"
    using assms(2) set_mono_prefix by (fastforce simp: retired_def)
  moreover have "\<not> context_eligible m \<and> mem_lifecycle m \<noteq> Active"
    if m: "m \<in> set (st_objects l')" "memory_id m = mid" "current_revision_id m = Some rid" for m
  proof -
    from step_moves [OF assms(1)] m(1) have "m \<in> set (st_objects l)
        \<or> (\<exists>r \<in> set (st_revisions l'). revision_id r \<notin> revision_id ` set (st_revisions l)
             \<and> current_revision_id m = Some (revision_id r))"
      unfolding object_moves_def by blast
    then show ?thesis using assms(2) m unfolding retired_def image_iff by (metis option.inject)
  qed
  ultimately show ?thesis by (simp add: retired_def)
qed

lemma retired_control:
  assumes "control_effect_of v c h s = Inr (r, s')" and "\<not> dry_run (ctl_fields (cc_request c))"
    and "retired mid rid (cs_ledger s)"
  shows "retired mid rid (cs_ledger s')"
proof -
  from control_effect_tables [OF assms(1,2)] obtain m :: object_row and i where
    o: "st_objects (cs_ledger s') = controlled_rows c (memory_id m) i (st_objects (cs_ledger s))"
    and k: "ledger_kept (cs_ledger s) (cs_ledger s')"
    by (elim exE conjE) (rule that, assumption+)
  have "\<not> context_eligible x \<and> mem_lifecycle x \<noteq> Active"
    if x: "x \<in> set (st_objects (cs_ledger s'))" "memory_id x = mid" "current_revision_id x = Some rid" for x
  proof -
    from x(1) obtain y where y: "y \<in> set (st_objects (cs_ledger s))"
      "x = y \<or> x = controlled (ctl_action (cc_request c)) (requested_at (ctl_envelope (cc_request c))) y"
      unfolding o by (rule controlled_rows_cases)
    with x have "\<not> context_eligible y \<and> mem_lifecycle y \<noteq> Active"
      using assms(3) by (auto simp: retired_def)
    then show ?thesis
      using y(2) controlled_lifecycle(1,2) [of "ctl_action (cc_request c)" "requested_at (ctl_envelope (cc_request c))" y]
      by auto
  qed
  then show ?thesis using assms(3) k by (auto simp: retired_def ledger_kept_def)
qed

lemma retired_step:
  assumes "control_step v s t" and "retired mid rid (cs_ledger s)"
  shows "retired mid rid (cs_ledger t)"
  using assms(1)
proof (cases rule: control_step.cases)
  case (control c)
  obtain x where "apply_control v c s = (x, t)" using control by (metis prod.collapse)
  then show ?thesis by (cases rule: apply_control_changes) (use assms(2) retired_control in blast)+
qed (use assms(2) retired_ledger_step in auto)

lemma retired_steps: "(control_step v)\<^sup>*\<^sup>* s t \<Longrightarrow> retired mid rid (cs_ledger s) \<Longrightarrow> retired mid rid (cs_ledger t)"
  by (induction rule: rtranclp_induct) (auto intro: retired_step)

text \<open>C21: demotion and revocation hold: after a memory was demoted or revoked at a revision, no sequence of
  control commands, admissions, revisions, learning releases or new evidence makes that revision the
  context of an agent again. Only a new revision, with its own admission decision, can.\<close>

theorem retired_revision_stays_out:
  assumes "control_ok s"
    and "apply_control v c s = (Inr r, t)" "\<not> cr_replayed r" "cr_outcome r \<in> {Demoted, Revoked_outcome}"
    and "(control_step v)\<^sup>*\<^sup>* t u" and "m \<in> set (st_objects (cs_ledger u))"
    and "memory_id m = cr_memory_id r" "current_revision_id m = Some (cr_current_revision_id r)"
  shows "\<not> context_eligible m \<and> mem_lifecycle m \<noteq> Active"
proof -
  have ran: "control_effect_of v c (control_hash v c) s = Inr (r, t)"
    using ran_not_replayed [OF assms(2,3)] by simp
  have nd: "\<not> dry_run (ctl_fields (cc_request c))"
    using ran by (cases rule: control_effect_Inr) (use assms(4) in auto)
  from control_effect_tables [OF ran nd] obtain x rid where x: "find_object (cs_ledger s) (ctl_memory_id (cc_request c)) = Some x"
    "current_revision_id x = Some rid" "cr_memory_id r = memory_id x" "cr_current_revision_id r = rid"
    "st_objects (cs_ledger t) = controlled_rows c (memory_id x) rid (st_objects (cs_ledger s))"
    "ledger_kept (cs_ledger s) (cs_ledger t)" "cr_outcome r = control_outcome_of (ctl_action (cc_request c))"
    by (elim exE conjE) (rule that, assumption+)
  have "x \<in> set (st_objects (cs_ledger s))"
    using find_Some_mem [OF x(1) [unfolded find_object_def]] by simp
  then obtain z where "z \<in> set (st_revisions (cs_ledger s))" "current_revision_id x = Some (revision_id z)"
    using assms(1) by (auto simp: control_ok_def object_ok_def)
  then have "rid \<in> revision_id ` set (st_revisions (cs_ledger t))"
    using x(2,6) by (auto simp: ledger_kept_def)
  moreover have "ctl_action (cc_request c) \<in> {Control_demote, Control_revoke}"
    using x(7) assms(4) by (cases "ctl_action (cc_request c)") (auto split: if_splits)
  ultimately have "retired (memory_id x) rid (cs_ledger t)"
    by (auto simp: retired_def x(5) controlled_rows_def split: if_splits)
  from retired_steps [OF assms(5) this] show ?thesis
    using assms(6-8) x(3,4) by (auto simp: retired_def)
qed

subsection \<open>A sample demotion\<close>

definition sample_demote :: control_command where
  "sample_demote = \<lparr>cc_request = \<lparr>
       ctl_envelope = sample_proposal\<lparr>tool := Memory_demote, scopes := [sample_where]\<rparr>,
       ctl_safety_class = Important_mutation,
       ctl_fields = \<lparr>mut_idempotency_key = [107, 101, 121, 45, 48, 48, 48, 49], expected_revision_id = Some ''r1'',
         approval_id = Some ''a1'', dry_run = False\<rparr>,
       ctl_memory_id = ''m1'', ctl_action = Control_demote\<rparr>,
     cc_approval = Some (sample_approval\<lparr>va_grant := (va_grant sample_approval)\<lparr>grant_tool := Memory_demote\<rparr>\<rparr>)\<rparr>"

definition sample_controls :: "unit control_store" where
  "sample_controls = \<lparr>cs_ledger = sample_store, cs_pins = [], cs_usage = [], cs_learning_candidates = [],
     cs_invalidations = [], cs_results = []\<rparr>"

lemma sample_demote_fields [simp]:
  "ctl_action (cc_request sample_demote) = Control_demote" "ctl_memory_id (cc_request sample_demote) = ''m1''"
  "control_key sample_demote = [107, 101, 121, 45, 48, 48, 48, 49]"
  "requested_at (ctl_envelope (cc_request sample_demote)) = sample_now"
  "dry_run (ctl_fields (cc_request sample_demote)) \<longleftrightarrow> False"
  "control_hash sample_env sample_demote = sample_hash"
  by (simp_all add: sample_demote_def sample_proposal_def control_key_def control_hash_def)

lemma sample_demote_valid:
  "validate_target sample_demote sample_object = Inr ()"
  "validate_control_approval sample_env sample_demote sample_hash sample_store = Inr ()"
  by (simp_all add: validate_target_def validate_control_approval_def sample_demote_def sample_object_def
    sample_approval_def sample_store_def sample_proposal_def approval_grant_matches_def approval_binding_ok_def
    approval_grant_ok_def sample_ledger_def learning_matches_tool_def request_ok_defs sample_where_def Let_def)

lemma sample_demote_effect:
  "\<exists>x s1. apply_effect sample_env sample_demote sample_object sample_hash ''r1'' sample_controls = Inr (x, s1)
     \<and> ce_projection_jobs x = [''job:'' @ replicate 48 (CHR ''0''), ''projection-job:'' @ replicate 41 (CHR ''0'')]
     \<and> ce_usage_rule_id x = None \<and> ce_outcome x = Demoted"
  unfolding apply_effect_def apply_demote_def
  by (simp add: sample_object_def set_lifecycle_def insert_control_status_def insert_row_def withdraw_jobs_def
    insert_control_invalidation_def sample_identifier sample_controls_def sample_store_def sample_ledger_def Let_def
    suppress_in_store_def suppress_projection_descendants_def all_descendants_def derived_rows_def
    direct_descendants_def mark_scope_pending_def enqueue_job_def stable_job_id_def deliver_def sample_hash_def)

lemma sample_demote_run:
  "\<exists>r t. apply_control sample_env sample_demote sample_controls = (Inr r, t) \<and> \<not> cr_replayed r
     \<and> cr_outcome r = Demoted"
proof -
  obtain x s1 where x: "apply_effect sample_env sample_demote sample_object sample_hash ''r1'' sample_controls = Inr (x, s1)"
    "ce_projection_jobs x = [''job:'' @ replicate 48 (CHR ''0''), ''projection-job:'' @ replicate 41 (CHR ''0'')]"
    "ce_usage_rule_id x = None" "ce_outcome x = Demoted"
    using sample_demote_effect by blast
  have kept: "st_mutations (cs_ledger s1) = []" "st_consumptions (cs_ledger s1) = []"
    using apply_effect_written [OF x(1)]
    by (auto simp: effect_written_def sample_controls_def sample_store_def sample_ledger_def)
  have ids: "identifier_ok (''job:'' @ replicate 48 (CHR ''0''))"
    "identifier_ok (''projection-job:'' @ replicate 41 (CHR ''0''))"
    "identifier_ok (''receipt:'' @ replicate 48 (CHR ''0''))" "identifier_ok ''m1''" "identifier_ok ''r1''"
    by (simp_all add: identifier_ok_def ascii_alnum_def list_all_iff)
  have row: "current_revision_id sample_object = Some ''r1''" "memory_id sample_object = ''m1''"
    by (simp_all add: sample_object_def)
  obtain r s2 where r: "seal_control sample_env sample_demote sample_hash sample_object x True s1 = Inr (r, s2)"
    using kept ids row x sample_keys_ok [of 49]
    by (auto simp: seal_control_def control_receipt_def Let_def mutation_receipt_ok_def control_result_ok_def
      control_identifier_def sample_identifier insert_row_def)
  from seal_control_Inr [OF r] kept x(4) have s2: "st_consumptions (cs_ledger s2) = []" "\<not> cr_replayed r"
    "cr_outcome r = Demoted" by (auto simp: control_sealed_def)
  then obtain l where l: "consume_control_approval sample_demote sample_hash (mx_receipt_id (cr_receipt r)) (cs_ledger s2) = Inr l"
    by (auto simp: consume_control_approval_def sample_demote_def Let_def)
  have "find_object (cs_ledger sample_controls) ''m1'' = Some sample_object"
    "read_control sample_controls [107, 101, 121, 45, 48, 48, 48, 49] = None" "cc_approval sample_demote \<noteq> None"
    by (simp_all add: sample_controls_def sample_store_def sample_ledger_def find_object_def sample_object_def
      read_control_def read_mutation_def sample_demote_def)
  moreover have "validate_control_approval sample_env sample_demote sample_hash (cs_ledger sample_controls) = Inr ()"
    using sample_demote_valid by (simp add: sample_controls_def)
  ultimately have "apply_control sample_env sample_demote sample_controls = (Inr r, s2\<lparr>cs_ledger := l\<rparr>)"
    by (simp add: apply_control_def control_effect_of_def Let_def sample_demote_valid row x(1) r l)
  then show ?thesis using s2 by blast
qed


lemma retired_revision_stays_out_witness:
  "\<exists>r t m. apply_control sample_env sample_demote sample_controls = (Inr r, t) \<and> cr_outcome r = Demoted
     \<and> st_objects (cs_ledger t) = [m] \<and> \<not> context_eligible m \<and> mem_lifecycle m \<noteq> Active"
proof -
  obtain r t where r: "apply_control sample_env sample_demote sample_controls = (Inr r, t)" "\<not> cr_replayed r"
    "cr_outcome r = Demoted" using sample_demote_run by blast
  have ok: "control_ok sample_controls"
    by (simp add: control_ok_def object_ok_def sample_controls_def sample_store_def sample_ledger_def
      sample_object_def sample_revision_def)
  have ran: "control_effect_of sample_env sample_demote sample_hash sample_controls = Inr (r, t)"
    using ran_not_replayed [OF r(1,2)] by simp
  have "\<not> dry_run (ctl_fields (cc_request sample_demote))" by simp
  from control_effect_tables [OF ran this] obtain x rid where
    x: "find_object (cs_ledger sample_controls) (ctl_memory_id (cc_request sample_demote)) = Some x"
    "cr_memory_id r = memory_id x" "cr_current_revision_id r = rid" "current_revision_id x = Some rid"
    "st_objects (cs_ledger t) = controlled_rows sample_demote (memory_id x) rid (st_objects (cs_ledger sample_controls))"
    by (elim exE conjE) (rule that, assumption+)
  have "x = sample_object" using x(1)
    by (simp add: sample_controls_def sample_store_def find_object_def sample_object_def)
  then have m: "st_objects (cs_ledger t) = [controlled Control_demote sample_now sample_object]"
    "cr_memory_id r = ''m1''" "cr_current_revision_id r = ''r1''"
    using x by (auto simp: controlled_rows_def sample_controls_def sample_store_def sample_object_def)
  have "\<not> context_eligible (controlled Control_demote sample_now sample_object)
      \<and> mem_lifecycle (controlled Control_demote sample_now sample_object) \<noteq> Active"
    by (rule retired_revision_stays_out [OF ok r(1,2) _ rtranclp.rtrancl_refl])
      (simp_all add: r(3) m, simp_all add: sample_object_def)
  with r(1,3) m(1) show ?thesis by blast
qed

end
