(* ===== verification/ControlFindings.thy ===== *)
theory ControlFindings
  imports ControlProperties
begin

text \<open>
  What modelling showed of the control repository: the job that withdraws a memory from the full-text index
  is named by the memory and the instant only, so a memory can be withdrawn once per instant.
\<close>

subsection \<open>The job of a withdrawal\<close>

definition withdrawal_job :: "'g governance_env \<Rightarrow> string \<Rightarrow> timestamp \<Rightarrow> string" where
  "withdrawal_job v mid now = storage_identifier v ''job''
     [(''kind'', jstr ''fts_memory_invalidate''), (''memory_id'', jstr mid), (''created_at'', jstr (iso now))]"

definition withdraws :: "control_command \<Rightarrow> bool" where
  "withdraws c \<longleftrightarrow> ctl_action (cc_request c) \<in> {Control_demote, Control_revoke} \<and> \<not> dry_run (ctl_fields (cc_request c))"

abbreviation command_job :: "'g governance_env \<Rightarrow> control_command \<Rightarrow> string" where
  "command_job v c \<equiv> withdrawal_job v (ctl_memory_id (cc_request c)) (requested_at (ctl_envelope (cc_request c)))"

definition outbox_ids :: "'g control_store \<Rightarrow> string set" where
  "outbox_ids s = ob_job_id ` set (st_outbox (cs_ledger s))"

lemma invalidation_fresh:
  assumes "insert_control_invalidation v mid now l = Inr (i, l')"
  shows "withdrawal_job v mid now \<notin> ob_job_id ` set (st_outbox l)
    \<and> withdrawal_job v mid now \<in> ob_job_id ` set (st_outbox l')"
  using assms by (auto simp: insert_control_invalidation_def Let_def run_inv withdrawal_job_def)

lemma withdraw_fresh:
  assumes "withdraw_jobs v c m rid l = Inr (js, l')"
  shows "withdrawal_job v (memory_id m) (requested_at (ctl_envelope (cc_request c))) \<notin> ob_job_id ` set (st_outbox l)
    \<and> withdrawal_job v (memory_id m) (requested_at (ctl_envelope (cc_request c))) \<in> ob_job_id ` set (st_outbox l')"
proof -
  from assms obtain i l1 j where
    "insert_control_invalidation v (memory_id m) (requested_at (ctl_envelope (cc_request c))) l = Inr (i, l1)"
    and "suppress_in_store v (control_projection_effect c m rid) l1 = Inr (j, l')"
    by (auto simp: withdraw_jobs_def run_inv)
  from invalidation_fresh [OF this(1)] jobs_only_fields(15) [OF suppress_jobs [OF this(2)]] show ?thesis
    using set_mono_prefix by blast
qed

lemma set_lifecycle_outbox: "set_lifecycle mid rid lc now l = Inr l' \<Longrightarrow> st_outbox l' = st_outbox l"
  by (auto dest: set_lifecycle_Inr)

lemma control_status_outbox: "insert_control_status v c rid act lc l = Inr l' \<Longrightarrow> st_outbox l' = st_outbox l"
  by (auto dest: control_status_Inr)

lemma effect_fresh:
  assumes "apply_effect v c m h rid s = Inr (x, s')" and "withdraws c"
  shows "withdrawal_job v (memory_id m) (requested_at (ctl_envelope (cc_request c))) \<notin> outbox_ids s
    \<and> withdrawal_job v (memory_id m) (requested_at (ctl_envelope (cc_request c))) \<in> outbox_ids s'"
proof (cases "ctl_action (cc_request c)")
  case Control_demote
  with assms(1) obtain l1 l2 l3 js lc act where
    "set_lifecycle (memory_id m) rid lc (requested_at (ctl_envelope (cc_request c))) (cs_ledger s) = Inr l1"
    "insert_control_status v c rid act lc l1 = Inr l2" "withdraw_jobs v c m rid l2 = Inr (js, l3)" "cs_ledger s' = l3"
    by (auto simp: apply_effect_def apply_demote_def run_inv)
  then show ?thesis
    using withdraw_fresh [of v c m rid l2 js l3] by (simp add: outbox_ids_def set_lifecycle_outbox control_status_outbox)
next
  case Control_revoke
  with assms(1) obtain l1 l2 l3 js lc act where
    "set_lifecycle (memory_id m) rid lc (requested_at (ctl_envelope (cc_request c))) (cs_ledger s) = Inr l1"
    "insert_control_status v c rid act lc l1 = Inr l2" "withdraw_jobs v c m rid l2 = Inr (js, l3)" "cs_ledger s' = l3"
    by (auto simp: apply_effect_def apply_revoke_def run_inv invalidate_learning_targets_def Let_def)
  then show ?thesis
    using withdraw_fresh [of v c m rid l2 js l3] by (simp add: outbox_ids_def set_lifecycle_outbox control_status_outbox)
qed (use assms(2) in \<open>auto simp: withdraws_def\<close>)

lemma find_object_id: "find_object s i = Some m \<Longrightarrow> memory_id m = i"
  by (auto simp: find_object_def dest: find_Some_mem)

lemma control_effect_fresh:
  assumes "control_effect_of v c h s = Inr (r, s')" and "withdraws c"
  shows "command_job v c \<notin> outbox_ids s \<and> command_job v c \<in> outbox_ids s'"
proof -
  from assms obtain m rid x s1 s2 l where m: "find_object (cs_ledger s) (ctl_memory_id (cc_request c)) = Some m"
    and x: "apply_effect v c m h rid s = Inr (x, s1)" and r: "seal_control v c h m x True s1 = Inr (r, s2)"
    and l: "consume_control_approval c h (mx_receipt_id (cr_receipt r)) (cs_ledger s2) = Inr l"
    and s': "s' = s2\<lparr>cs_ledger := l\<rparr>"
    by (auto simp: control_effect_of_def Let_def run_inv withdraws_def split: option.splits)
  have "st_outbox (cs_ledger s') = st_outbox (cs_ledger s1)"
    using seal_control_Inr [OF r] consume_control_Inr [OF l] by (auto simp: s' control_sealed_def)
  with effect_fresh [OF x assms(2)] find_object_id [OF m] show ?thesis by (simp add: outbox_ids_def)
qed

lemma control_step_outbox:
  assumes "control_step v s t"
  shows "outbox_ids s \<subseteq> outbox_ids t"
  using assms
proof (cases rule: control_step.cases)
  case (control c)
  obtain x where x: "apply_control v c s = (x, t)" using control by (metis prod.collapse)
  then show ?thesis
  proof (cases rule: apply_control_changes)
    case (changed r)
    then show ?thesis
      using control_effect_tables [of v c "control_hash v c" s r t] set_mono_prefix
      unfolding outbox_ids_def ledger_kept_def by blast
  qed (simp_all add: outbox_ids_def)
next
  case (ledger l)
  then show ?thesis using step_frame [OF ledger(2)] set_mono_prefix by (auto simp: outbox_ids_def extends_def)
qed (simp add: outbox_ids_def)

lemma control_steps_outbox: "(control_step v)\<^sup>*\<^sup>* s t \<Longrightarrow> outbox_ids s \<subseteq> outbox_ids t"
  by (induction rule: rtranclp_induct) (auto dest: control_step_outbox)

text \<open>C29: a memory that was demoted or revoked cannot be demoted or revoked again by a command with the same
  \<open>requested_at\<close>: whatever ran in between and however well the second command is approved, it fails and
  changes nothing, because the identifier of its outbox job repeats that of the first (it hashes the memory and the
  instant, not the idempotency key). A revocation that follows a demotion within its millisecond is lost.\<close>

theorem second_withdrawal_fails:
  assumes "apply_control v c s = (Inr r, t)" "\<not> cr_replayed r" "withdraws c"
    and "(control_step v)\<^sup>*\<^sup>* t u" and "withdraws d" and "ctl_memory_id (cc_request d) = ctl_memory_id (cc_request c)"
    and "requested_at (ctl_envelope (cc_request d)) = requested_at (ctl_envelope (cc_request c))"
    and "read_control u (control_key d) = None"
  shows "\<exists>e. apply_control v d u = (Inl e, u)"
proof -
  have "command_job v c \<in> outbox_ids t"
    using control_effect_fresh [OF conjunct2 [OF ran_not_replayed [OF assms(1,2)]] assms(3)] by simp
  then have "command_job v d \<in> outbox_ids u"
    using control_steps_outbox [OF assms(4)] assms(6,7) by auto
  then have "control_effect_of v d (control_hash v d) u \<noteq> Inr x" for x
    using control_effect_fresh [OF _ assms(5)] by (cases x) blast
  then show ?thesis
    using assms(8) by (cases "control_effect_of v d (control_hash v d) u") (auto simp: apply_control_def Let_def)
qed

lemma second_withdrawal_fails_witness:
  "\<exists>r t e. apply_control sample_env sample_demote sample_controls = (Inr r, t)
     \<and> apply_control sample_env (sample_demote\<lparr>cc_request := (cc_request sample_demote)\<lparr>ctl_action := Control_revoke,
          ctl_fields := (ctl_fields (cc_request sample_demote))\<lparr>mut_idempotency_key := [107, 101, 121, 45, 48, 48, 48, 50]\<rparr>\<rparr>\<rparr>) t
       = (Inl e, t)"
proof -
  let ?d = "sample_demote\<lparr>cc_request := (cc_request sample_demote)\<lparr>ctl_action := Control_revoke,
          ctl_fields := (ctl_fields (cc_request sample_demote))\<lparr>mut_idempotency_key := [107, 101, 121, 45, 48, 48, 48, 50]\<rparr>\<rparr>\<rparr>"
  obtain r t where r: "apply_control sample_env sample_demote sample_controls = (Inr r, t)" "\<not> cr_replayed r"
    using sample_demote_run by blast
  have w: "withdraws sample_demote" by (simp add: withdraws_def)
  from control_effect_tables [OF conjunct2 [OF ran_not_replayed [OF r]]] obtain x :: mutation_row where
    "st_mutations (cs_ledger t) = st_mutations (cs_ledger sample_controls) @ [x]"
    "mr_idempotency_key x = control_key sample_demote"
    using w unfolding withdraws_def by blast
  then have "read_control t (control_key ?d) = None"
    by (simp add: read_control_def read_mutation_def control_key_def sample_controls_def sample_store_def
      sample_ledger_def sample_demote_def)
  then have "\<exists>e. apply_control sample_env ?d t = (Inl e, t)"
    using w by (intro second_withdrawal_fails [OF r w rtranclp.rtrancl_refl]) (simp_all add: withdraws_def)
  with r(1) show ?thesis by blast
qed

end
