(* ===== verification/WriterQueue.thy ===== *)
theory WriterQueue
  imports Prelude Doubles
begin

text \<open>
  The single writer of the storage client: \<open>writer-queue.ts\<close>, the admission control in front of it
  (\<open>admission-control.ts\<close>) and how \<open>client.ts\<close> joins the two.

  The promise chain of the queue (\<open>#tail\<close>) is the list of jobs whose start has not run; a job is then
  running, settled (its promise has an outcome, the \<open>finally\<close> callback has not run) and released. The
  callbacks of one promise run in the order of their registration, so the release of a job precedes
  the start of the next one. An operation is opaque: it ends when it ends. Every clock reading is an
  input of the step that takes it, in milliseconds, as a double.
\<close>

subsection \<open>Maintenance operations\<close>

datatype maintenance =
  Read_only_inspection | Canonical_write | Backup | Checkpoint | Rebuild_fts
| Rebuild_layered_projection | Rebuild_sqlite_relations | Purge_audit | Purge_retry | Key_inspection
| Key_rotation | Restore_publication | Learning_rollback | Learning_rollback_verification
| Operator_action | Secret_write

fun maintenance_string :: "maintenance \<Rightarrow> string" where
  "maintenance_string Read_only_inspection = ''read_only_inspection''"
| "maintenance_string Canonical_write = ''canonical_write''"
| "maintenance_string Backup = ''backup''"
| "maintenance_string Checkpoint = ''checkpoint''"
| "maintenance_string Rebuild_fts = ''rebuild_fts''"
| "maintenance_string Rebuild_layered_projection = ''rebuild_layered_projection''"
| "maintenance_string Rebuild_sqlite_relations = ''rebuild_sqlite_relations''"
| "maintenance_string Purge_audit = ''purge_audit''"
| "maintenance_string Purge_retry = ''purge_retry''"
| "maintenance_string Key_inspection = ''key_inspection''"
| "maintenance_string Key_rotation = ''key_rotation''"
| "maintenance_string Restore_publication = ''restore_publication''"
| "maintenance_string Learning_rollback = ''learning_rollback''"
| "maintenance_string Learning_rollback_verification = ''learning_rollback_verification''"
| "maintenance_string Operator_action = ''operator_action''"
| "maintenance_string Secret_write = ''secret_write''"

definition maintenance_operations :: "maintenance list" where
  "maintenance_operations = [Read_only_inspection, Canonical_write, Backup, Checkpoint, Rebuild_fts,
     Rebuild_layered_projection, Rebuild_sqlite_relations, Purge_audit, Purge_retry, Key_inspection,
     Key_rotation, Restore_publication, Learning_rollback, Learning_rollback_verification,
     Operator_action, Secret_write]"

definition parse_maintenance :: "string \<Rightarrow> maintenance option" where
  "parse_maintenance s = List.find (\<lambda>m. maintenance_string m = s) maintenance_operations"

text \<open>An operation that may run beside any other, because it only reads.\<close>

definition inspects :: "maintenance \<Rightarrow> bool" where
  "inspects m \<longleftrightarrow> m = Read_only_inspection \<or> m = Key_inspection \<or> m = Learning_rollback_verification"

definition maintenance_compatible :: "maintenance option \<Rightarrow> maintenance \<Rightarrow> bool" where
  "maintenance_compatible active requested = (case active of
       None \<Rightarrow> True
     | Some a \<Rightarrow> if inspects a \<or> inspects requested then True
         else a = requested \<and> requested = Canonical_write)"

subsection \<open>The admission controller\<close>

datatype queue_failure =
  Maintenance_blocked bool | Queue_saturated | Resource_pressure | Stale_root_lease | Operation_unknown

text \<open>\<open>retryable\<close> of the error; only a blocked maintenance is thrown with either value.\<close>

fun retryable :: "queue_failure \<Rightarrow> bool" where
  "retryable (Maintenance_blocked r) = r"
| "retryable Queue_saturated = True"
| "retryable Resource_pressure = True"
| "retryable Stale_root_lease = False"
| "retryable Operation_unknown = False"

record admission_policy =
  max_queue_depth :: nat
  max_queue_age_ms :: nat
  min_available_bytes_enter :: nat
  min_available_bytes_recover :: nat
  max_wal_bytes_enter :: nat
  max_wal_bytes_recover :: nat

definition max_safe_integer :: nat where "max_safe_integer = 9007199254740991"

definition admission_policy_ok :: "admission_policy \<Rightarrow> bool" where
  "admission_policy_ok p \<longleftrightarrow>
     0 < max_queue_depth p \<and> max_queue_depth p \<le> max_safe_integer
     \<and> 0 < max_queue_age_ms p \<and> max_queue_age_ms p \<le> max_safe_integer
     \<and> min_available_bytes_enter p \<le> max_safe_integer
     \<and> min_available_bytes_recover p \<le> max_safe_integer
     \<and> 0 < max_wal_bytes_enter p \<and> max_wal_bytes_enter p \<le> max_safe_integer
     \<and> max_wal_bytes_recover p \<le> max_safe_integer
     \<and> \<not> min_available_bytes_recover p \<le> min_available_bytes_enter p
     \<and> \<not> max_wal_bytes_recover p \<ge> max_wal_bytes_enter p"

definition default_admission_policy :: admission_policy where
  "default_admission_policy = \<lparr>max_queue_depth = 64, max_queue_age_ms = 5000,
     min_available_bytes_enter = 256 * 1024 * 1024, min_available_bytes_recover = 384 * 1024 * 1024,
     max_wal_bytes_enter = 64 * 1024 * 1024, max_wal_bytes_recover = 16 * 1024 * 1024\<rparr>"

record admission_observation =
  available_bytes :: nat
  wal_bytes :: nat
  checkpoint_healthy :: bool
  active_maintenance :: "maintenance option"

definition admission_observation_ok :: "admission_observation \<Rightarrow> bool" where
  "admission_observation_ok x \<longleftrightarrow> available_bytes x \<le> max_safe_integer \<and> wal_bytes x \<le> max_safe_integer"

datatype pressure = Disk_pressure | Wal_pressure

record controller =
  ac_policy :: admission_policy
  ac_read_only :: bool
  ac_pressure_reason :: "pressure option"
  ac_last_observation :: "admission_observation option"

definition new_controller :: "admission_policy option \<Rightarrow> controller option" where
  "new_controller q = (let p = (case q of None \<Rightarrow> default_admission_policy | Some p \<Rightarrow> p) in
     if admission_policy_ok p then
       Some \<lparr>ac_policy = p, ac_read_only = False, ac_pressure_reason = None, ac_last_observation = None\<rparr>
     else None)"

definition update_pressure :: "admission_observation \<Rightarrow> controller \<Rightarrow> controller" where
  "update_pressure x c =
     (if available_bytes x < min_available_bytes_enter (ac_policy c)
      then c\<lparr>ac_read_only := True, ac_pressure_reason := Some Disk_pressure\<rparr>
      else if wal_bytes x > max_wal_bytes_enter (ac_policy c)
      then c\<lparr>ac_read_only := True, ac_pressure_reason := Some Wal_pressure\<rparr>
      else if ac_read_only c \<and> available_bytes x \<ge> min_available_bytes_recover (ac_policy c)
        \<and> wal_bytes x \<le> max_wal_bytes_recover (ac_policy c) \<and> checkpoint_healthy x
      then c\<lparr>ac_read_only := False, ac_pressure_reason := None\<rparr>
      else c)"

text \<open>\<open>None\<close> is an observation that is not of the shape the schema demands.\<close>

definition refresh ::
  "admission_observation option \<Rightarrow> (controller, queue_failure, admission_observation) run" where
  "refresh seen c = (case seen of
       None \<Rightarrow> (Inl (Maintenance_blocked False), c)
     | Some x \<Rightarrow> if \<not> admission_observation_ok x then (Inl (Maintenance_blocked False), c)
         else (Inr x, update_pressure x (c\<lparr>ac_last_observation := Some x\<rparr>)))"

datatype queue_stage = Pre_enqueue | Transaction_start

record queue_metrics =
  qm_depth :: nat
  qm_oldest_age_ms :: rat
  qm_completed :: nat
  qm_rejected_pre_enqueue :: nat
  qm_rejected_transaction_start :: nat
  qm_active_operation :: "string option"

definition saturated :: "admission_policy \<Rightarrow> queue_stage \<Rightarrow> queue_metrics \<Rightarrow> bool" where
  "saturated p stage q \<longleftrightarrow> stage = Pre_enqueue \<and> qm_depth q \<ge> max_queue_depth p
     \<or> qm_oldest_age_ms q \<ge> of_nat (max_queue_age_ms p)"

definition assert_admission ::
  "admission_observation option \<Rightarrow> queue_stage \<Rightarrow> queue_metrics \<Rightarrow> string
     \<Rightarrow> (controller, queue_failure, unit) run" where
  "assert_admission seen stage q operation c = (case parse_maintenance operation of
       None \<Rightarrow> (Inl (Maintenance_blocked False), c)
     | Some requested \<Rightarrow>
         if saturated (ac_policy c) stage q then (Inl Queue_saturated, c)
         else bindR (refresh seen) (\<lambda>x. \<lambda>c'.
           let active = (case active_maintenance x of
                 Some m \<Rightarrow> Some m
               | None \<Rightarrow> Option.bind (qm_active_operation q) parse_maintenance) in
           if \<not> maintenance_compatible active requested then (Inl (Maintenance_blocked True), c')
           else if ac_read_only c' \<and> requested \<noteq> Checkpoint then (Inl Resource_pressure, c')
           else (Inr (), c')) c)"

subsection \<open>The queue\<close>

text \<open>An entry is an object of its own: \<open>qe_ticket\<close> is its identity.\<close>

record queued_entry =
  qe_ticket :: nat
  qe_enqueued_at :: rat

record queue_job =
  qj_entry :: queued_entry
  qj_operation :: string

record writer_queue =
  wq_tail :: "queue_job list"
  wq_running :: "queue_job option"
  wq_settled :: "queue_job option"
  wq_queued :: "queued_entry list"
  wq_completed :: nat
  wq_rejected_pre_enqueue :: nat
  wq_rejected_transaction_start :: nat
  wq_active_operation :: "string option"
  wq_tickets :: nat

definition new_queue :: writer_queue where
  "new_queue = \<lparr>wq_tail = [], wq_running = None, wq_settled = None, wq_queued = [], wq_completed = 0,
     wq_rejected_pre_enqueue = 0, wq_rejected_transaction_start = 0, wq_active_operation = None,
     wq_tickets = 0\<rparr>"

definition math_round :: "rat \<Rightarrow> rat" where
  "math_round x = of_int \<lfloor>x + 1 / 2\<rfloor>"

definition metrics :: "rat \<Rightarrow> writer_queue \<Rightarrow> queue_metrics" where
  "metrics now q =
     (let oldest = foldl (\<lambda>age e. max age (fl (now - qe_enqueued_at e))) 0 (wq_queued q) in
      \<lparr>qm_depth = length (wq_queued q),
       qm_oldest_age_ms = fl (math_round (fl (oldest * 1000)) / 1000),
       qm_completed = wq_completed q,
       qm_rejected_pre_enqueue = wq_rejected_pre_enqueue q,
       qm_rejected_transaction_start = wq_rejected_transaction_start q,
       qm_active_operation = wq_active_operation q\<rparr>)"

text \<open>The \<open>admit\<close> option of the constructor: a callback that may throw, over a state \<open>'w\<close> of its own.\<close>

type_synonym 'w admit = "queue_stage \<Rightarrow> queue_metrics \<Rightarrow> string \<Rightarrow> ('w, queue_failure, unit) run"

definition consult :: "'w admit option \<Rightarrow> queue_stage \<Rightarrow> queue_metrics \<Rightarrow> string \<Rightarrow> ('w, queue_failure, unit) run" where
  "consult admit stage q operation = (case admit of None \<Rightarrow> returnR () | Some f \<Rightarrow> f stage q operation)"

text \<open>\<open>enqueue\<close> reads the clock for the metrics (\<open>now\<close>) and for the entry (\<open>stamp\<close>); its result is the ticket.\<close>

definition enqueue ::
  "'w admit option \<Rightarrow> rat \<Rightarrow> rat \<Rightarrow> string \<Rightarrow> ('w \<times> writer_queue, queue_failure, nat) run" where
  "enqueue admit now stamp operation = (\<lambda>(w, q).
     case consult admit Pre_enqueue (metrics now q) operation w of
       (Inl e, w') \<Rightarrow> (Inl e, w', q\<lparr>wq_rejected_pre_enqueue := wq_rejected_pre_enqueue q + 1\<rparr>)
     | (Inr _, w') \<Rightarrow>
         let entry = \<lparr>qe_ticket = wq_tickets q, qe_enqueued_at = stamp\<rparr> in
         (Inr (qe_ticket entry), w', q\<lparr>wq_queued := wq_queued q @ [entry],
            wq_tail := wq_tail q @ [\<lparr>qj_entry = entry, qj_operation = operation\<rparr>],
            wq_tickets := wq_tickets q + 1\<rparr>))"

text \<open>The callback chained on the tail, for the job at its head, and the end of its operation.\<close>

definition start_job :: "'w admit option \<Rightarrow> rat \<Rightarrow> queue_job \<Rightarrow> 'w \<times> writer_queue \<Rightarrow> 'w \<times> writer_queue" where
  "start_job admit now j = (\<lambda>(w, q).
     case consult admit Transaction_start (metrics now q) (qj_operation j) w of
       (Inl e, w') \<Rightarrow> (w', q\<lparr>wq_rejected_transaction_start := wq_rejected_transaction_start q + 1,
          wq_settled := Some j\<rparr>)
     | (Inr _, w') \<Rightarrow> (w', q\<lparr>wq_active_operation := Some (qj_operation j), wq_running := Some j\<rparr>))"

definition settle_job :: "queue_job \<Rightarrow> writer_queue \<Rightarrow> writer_queue" where
  "settle_job j q = q\<lparr>wq_active_operation := None, wq_running := None, wq_settled := Some j\<rparr>"

text \<open>The \<open>finally\<close> callback.\<close>

definition release_job :: "queue_job \<Rightarrow> writer_queue \<Rightarrow> writer_queue" where
  "release_job j q = q\<lparr>wq_queued := filter (\<lambda>e. qe_ticket e \<noteq> qe_ticket (qj_entry j)) (wq_queued q),
     wq_completed := wq_completed q + 1, wq_settled := None\<rparr>"

subsection \<open>The client's admission\<close>

text \<open>
  \<open>client.ts\<close> renews the root lease before every admission; the controller is absent when the client
  only inspects. \<open>'w\<close> is the world the callbacks observe (the lease file, the file system).
\<close>

record 'w storage_client =
  sc_controller :: "controller option"
  sc_world :: 'w

definition client_admit ::
  "('w \<Rightarrow> (queue_failure + unit) \<times> 'w) option \<Rightarrow> ('w \<Rightarrow> admission_observation option) \<Rightarrow> 'w storage_client admit" where
  "client_admit heartbeat observe stage q operation s =
     (case (case heartbeat of None \<Rightarrow> (Inr (), sc_world s) | Some h \<Rightarrow> h (sc_world s)) of
        (Inl e, w) \<Rightarrow> (Inl e, s\<lparr>sc_world := w\<rparr>)
      | (Inr _, w) \<Rightarrow> (let s1 = s\<lparr>sc_world := w\<rparr> in case sc_controller s of
            None \<Rightarrow> (Inr (), s1)
          | Some c \<Rightarrow> (case parse_maintenance operation of
                None \<Rightarrow> (Inl Operation_unknown, s1)
              | Some m \<Rightarrow> (case assert_admission (observe w) stage q (maintenance_string m) c of
                    (r, c') \<Rightarrow> (r, s1\<lparr>sc_controller := Some c'\<rparr>)))))"

subsection \<open>Runs\<close>

datatype queue_event = Outside | Refused | Accepted nat | Taken nat | Ended nat | Released nat

inductive queue_step :: "'w admit option \<Rightarrow> ('w \<Rightarrow> 'w \<Rightarrow> bool) \<Rightarrow> queue_event \<Rightarrow> 'w \<times> writer_queue \<Rightarrow> 'w \<times> writer_queue \<Rightarrow> bool"
  for admit env where
  outside: "env w w' \<Longrightarrow> queue_step admit env Outside (w, q) (w', q)"
| refused: "enqueue admit now stamp operation s = (Inl e, s') \<Longrightarrow> queue_step admit env Refused s s'"
| accepted: "enqueue admit now stamp operation s = (Inr t, s') \<Longrightarrow> queue_step admit env (Accepted t) s s'"
| taken: "wq_tail q = j # js \<Longrightarrow> wq_running q = None \<Longrightarrow> wq_settled q = None \<Longrightarrow>
    s' = start_job admit now j (w, q\<lparr>wq_tail := js\<rparr>) \<Longrightarrow>
    queue_step admit env (Taken (qe_ticket (qj_entry j))) (w, q) s'"
| ended: "wq_running q = Some j \<Longrightarrow> queue_step admit env (Ended (qe_ticket (qj_entry j))) (w, q) (w, settle_job j q)"
| released: "wq_settled q = Some j \<Longrightarrow>
    queue_step admit env (Released (qe_ticket (qj_entry j))) (w, q) (w, release_job j q)"

inductive queue_trace :: "'w admit option \<Rightarrow> ('w \<Rightarrow> 'w \<Rightarrow> bool) \<Rightarrow> queue_event list \<Rightarrow> 'w \<times> writer_queue \<Rightarrow> 'w \<times> writer_queue \<Rightarrow> bool"
  for admit env where
  here: "queue_trace admit env [] s s"
| later: "queue_trace admit env es s t \<Longrightarrow> queue_step admit env e t u \<Longrightarrow> queue_trace admit env (es @ [e]) s u"

inductive_cases queue_step_outsideE: "queue_step admit env Outside s t"
inductive_cases queue_step_acceptedE: "queue_step admit env (Accepted n) s t"
inductive_cases queue_step_refusedE: "queue_step admit env Refused s t"

fun accepted_of :: "queue_event list \<Rightarrow> nat list" where
  "accepted_of [] = []"
| "accepted_of (Accepted t # es) = t # accepted_of es"
| "accepted_of (_ # es) = accepted_of es"

fun taken_of :: "queue_event list \<Rightarrow> nat list" where
  "taken_of [] = []"
| "taken_of (Taken t # es) = t # taken_of es"
| "taken_of (_ # es) = taken_of es"

fun released_of :: "queue_event list \<Rightarrow> nat list" where
  "released_of [] = []"
| "released_of (Released t # es) = t # released_of es"
| "released_of (_ # es) = released_of es"

lemma accepted_of_append [simp]: "accepted_of (es @ fs) = accepted_of es @ accepted_of fs"
  by (induction es rule: accepted_of.induct) simp_all

lemma taken_of_append [simp]: "taken_of (es @ fs) = taken_of es @ taken_of fs"
  by (induction es rule: taken_of.induct) simp_all

lemma released_of_append [simp]: "released_of (es @ fs) = released_of es @ released_of fs"
  by (induction es rule: released_of.induct) simp_all

subsection \<open>The invariant of the queue\<close>

abbreviation ticket_of :: "queue_job \<Rightarrow> nat" where
  "ticket_of j \<equiv> qe_ticket (qj_entry j)"

text \<open>The job between its start and its release.\<close>

definition in_flight :: "writer_queue \<Rightarrow> queue_job list" where
  "in_flight q = (case wq_running q of Some j \<Rightarrow> [j] | None \<Rightarrow>
     (case wq_settled q of Some j \<Rightarrow> [j] | None \<Rightarrow> []))"

lemma in_flight_frame [simp]:
  "in_flight (q\<lparr>wq_tail := a\<rparr>) = in_flight q" "in_flight (q\<lparr>wq_queued := b\<rparr>) = in_flight q"
  "in_flight (q\<lparr>wq_tickets := n\<rparr>) = in_flight q" "in_flight (q\<lparr>wq_rejected_pre_enqueue := n\<rparr>) = in_flight q"
  "in_flight (q\<lparr>wq_rejected_transaction_start := n\<rparr>) = in_flight q"
  "in_flight (q\<lparr>wq_active_operation := x\<rparr>) = in_flight q" "in_flight (q\<lparr>wq_completed := n\<rparr>) = in_flight q"
  by (simp_all add: in_flight_def split: option.splits)

lemma in_flight_simps [simp]:
  "wq_running q = Some j \<Longrightarrow> in_flight q = [j]" "wq_running q = None \<Longrightarrow> wq_settled q = Some j \<Longrightarrow> in_flight q = [j]"
  "wq_running q = None \<Longrightarrow> wq_settled q = None \<Longrightarrow> in_flight q = []"
  by (simp_all add: in_flight_def)

definition queue_ok :: "writer_queue \<Rightarrow> bool" where
  "queue_ok q \<longleftrightarrow> (wq_running q = None \<or> wq_settled q = None)
     \<and> wq_active_operation q = map_option qj_operation (wq_running q)
     \<and> wq_queued q = map qj_entry (in_flight q @ wq_tail q)
     \<and> map qe_ticket (wq_queued q) = [wq_completed q..<wq_tickets q]
     \<and> wq_completed q + length (wq_queued q) = wq_tickets q"

lemma queue_ok_new: "queue_ok new_queue"
  by (simp add: queue_ok_def new_queue_def in_flight_def)

lemma enqueue_Inl:
  "enqueue admit now stamp operation (w, q) = (Inl e, s') \<Longrightarrow>
     \<exists>w'. s' = (w', q\<lparr>wq_rejected_pre_enqueue := wq_rejected_pre_enqueue q + 1\<rparr>)
       \<and> consult admit Pre_enqueue (metrics now q) operation w = (Inl e, w')"
  by (auto simp: enqueue_def Let_def split: prod.splits sum.splits)

lemma enqueue_Inr:
  "enqueue admit now stamp operation (w, q) = (Inr t, s') \<Longrightarrow>
     t = wq_tickets q \<and> (\<exists>w'. s' = (w', q\<lparr>wq_queued := wq_queued q @ [\<lparr>qe_ticket = t, qe_enqueued_at = stamp\<rparr>],
       wq_tail := wq_tail q @ [\<lparr>qj_entry = \<lparr>qe_ticket = t, qe_enqueued_at = stamp\<rparr>, qj_operation = operation\<rparr>],
       wq_tickets := wq_tickets q + 1\<rparr>)
     \<and> consult admit Pre_enqueue (metrics now q) operation w = (Inr (), w'))"
  by (auto simp: enqueue_def Let_def split: prod.splits sum.splits)

lemma start_job_cases:
  obtains (refused) e w' where "consult admit Transaction_start (metrics now q) (qj_operation j) w = (Inl e, w')"
      "start_job admit now j (w, q) = (w', q\<lparr>wq_rejected_transaction_start := wq_rejected_transaction_start q + 1,
          wq_settled := Some j\<rparr>)"
  | (started) w' where "consult admit Transaction_start (metrics now q) (qj_operation j) w = (Inr (), w')"
      "start_job admit now j (w, q) = (w', q\<lparr>wq_active_operation := Some (qj_operation j), wq_running := Some j\<rparr>)"
proof -
  obtain r w' where r: "consult admit Transaction_start (metrics now q) (qj_operation j) w = (r, w')" by fastforce
  show thesis
    by (cases r) (use r that in \<open>simp_all add: start_job_def\<close>)
qed

lemma filter_head_ticket:
  assumes "map qe_ticket (e # es) = [n..<m]"
  shows "filter (\<lambda>x. qe_ticket x \<noteq> qe_ticket e) (e # es) = es" and "qe_ticket e = n"
    and "map qe_ticket es = [Suc n..<m]"
proof -
  have d: "distinct (map qe_ticket (e # es))" by (simp only: assms distinct_upt)
  then have "\<forall>x \<in> set es. qe_ticket x \<noteq> qe_ticket e" by (auto simp: in_set_conv_decomp)
  then show "filter (\<lambda>x. qe_ticket x \<noteq> qe_ticket e) (e # es) = es" by (simp add: filter_id_conv)
  from assms have "n < m" by (cases "n < m") auto
  with assms show "qe_ticket e = n" "map qe_ticket es = [Suc n..<m]" by (simp_all add: upt_rec)
qed

lemma step_queue_ok:
  assumes "queue_step admit env e s t" and "queue_ok (snd s)"
  shows "queue_ok (snd t)"
  using assms
proof (induction rule: queue_step.induct)
  case (refused now stamp operation s e s')
  then show ?case
    by (cases s) (auto dest!: enqueue_Inl simp: queue_ok_def)
next
  case (accepted now stamp operation s t s')
  then show ?case
    by (cases s) (auto dest!: enqueue_Inr simp: queue_ok_def)
next
  case (taken q j js s' now w)
  then show ?case
    by (rule_tac start_job_cases [of admit now "q\<lparr>wq_tail := js\<rparr>" j w])
      (auto simp: queue_ok_def)
next
  case (ended q j w)
  then show ?case
    by (auto simp: queue_ok_def settle_job_def)
next
  case (released q j w)
  then have "map qe_ticket (qj_entry j # map qj_entry (wq_tail q)) = [wq_completed q..<wq_tickets q]"
    "wq_queued q = qj_entry j # map qj_entry (wq_tail q)" "wq_running q = None"
    by (auto simp: queue_ok_def)
  with filter_head_ticket [OF this(1)] released show ?case
    by (simp add: queue_ok_def in_flight_def release_job_def)
qed auto

lemma trace_queue_ok:
  "queue_trace admit env es s t \<Longrightarrow> queue_ok (snd s) \<Longrightarrow> queue_ok (snd t)"
  by (induction rule: queue_trace.induct) (auto intro: step_queue_ok)

subsection \<open>Order, counts and bounds\<close>

lemma in_flight_at_most_one: "length (in_flight q) \<le> 1"
  by (simp add: in_flight_def split: option.splits)

lemma step_order:
  assumes "queue_step admit env e s t" and "queue_ok (snd s)"
  shows "map ticket_of (wq_tail (snd s)) @ accepted_of [e] = taken_of [e] @ map ticket_of (wq_tail (snd t))"
    and "map ticket_of (in_flight (snd s)) @ taken_of [e] = released_of [e] @ map ticket_of (in_flight (snd t))"
    and "wq_completed (snd t) = wq_completed (snd s) + length (released_of [e])"
    and "accepted_of [e] = [wq_tickets (snd s)..<wq_tickets (snd t)]"
proof -
  have "map ticket_of (wq_tail (snd s)) @ accepted_of [e] = taken_of [e] @ map ticket_of (wq_tail (snd t))
    \<and> map ticket_of (in_flight (snd s)) @ taken_of [e] = released_of [e] @ map ticket_of (in_flight (snd t))
    \<and> wq_completed (snd t) = wq_completed (snd s) + length (released_of [e])
    \<and> accepted_of [e] = [wq_tickets (snd s)..<wq_tickets (snd t)]"
    using assms
  proof (induction rule: queue_step.induct)
    case (refused now stamp operation s e s')
    then show ?case by (cases s) (auto dest!: enqueue_Inl)
  next
    case (accepted now stamp operation s t s')
    then show ?case by (cases s) (auto dest!: enqueue_Inr)
  next
    case (taken q j js s' now w)
    then show ?case
      by (rule_tac start_job_cases [of admit now "q\<lparr>wq_tail := js\<rparr>" j w]) auto
  next
    case (ended q j w)
    then show ?case by (auto simp: queue_ok_def settle_job_def)
  next
    case (released q j w)
    then show ?case by (auto simp: queue_ok_def release_job_def)
  qed simp
  then show "map ticket_of (wq_tail (snd s)) @ accepted_of [e] = taken_of [e] @ map ticket_of (wq_tail (snd t))"
    "map ticket_of (in_flight (snd s)) @ taken_of [e] = released_of [e] @ map ticket_of (in_flight (snd t))"
    "wq_completed (snd t) = wq_completed (snd s) + length (released_of [e])"
    "accepted_of [e] = [wq_tickets (snd s)..<wq_tickets (snd t)]" by blast+
qed

lemma step_tickets_mono:
  "queue_step admit env e s t \<Longrightarrow> wq_tickets (snd s) \<le> wq_tickets (snd t)"
proof (induction rule: queue_step.induct)
  case (refused now stamp operation s e s')
  then show ?case by (cases s) (auto dest!: enqueue_Inl)
next
  case (accepted now stamp operation s t s')
  then show ?case by (cases s) (auto dest!: enqueue_Inr)
next
  case (taken q j js s' now w)
  then show ?case by (rule_tac start_job_cases [of admit now "q\<lparr>wq_tail := js\<rparr>" j w]) auto
qed (simp_all add: settle_job_def release_job_def)

lemma trace_order:
  assumes "queue_trace admit env es s t" and "snd s = new_queue"
  shows "accepted_of es = taken_of es @ map ticket_of (wq_tail (snd t))"
    and "taken_of es = released_of es @ map ticket_of (in_flight (snd t))"
    and "wq_completed (snd t) = length (released_of es)"
    and "accepted_of es = [0..<wq_tickets (snd t)]"
proof -
  have "accepted_of es = taken_of es @ map ticket_of (wq_tail (snd t))
    \<and> taken_of es = released_of es @ map ticket_of (in_flight (snd t))
    \<and> wq_completed (snd t) = length (released_of es) \<and> accepted_of es = [0..<wq_tickets (snd t)]"
    using assms
  proof (induction rule: queue_trace.induct)
    case (here s)
    then show ?case by (simp add: new_queue_def)
  next
    case (later es s t e u)
    have "queue_ok (snd t)"
      using trace_queue_ok [OF later.hyps(1)] later.prems queue_ok_new by simp
    note o = step_order [OF later.hyps(2) this]
    have "[0..<wq_tickets (snd t)] @ [wq_tickets (snd t)..<wq_tickets (snd u)] = [0..<wq_tickets (snd u)]"
      using step_tickets_mono [OF later.hyps(2)] 
      using upt_add_eq_append [of 0 "wq_tickets (snd t)" "wq_tickets (snd u) - wq_tickets (snd t)"] by simp
    then show ?case using later.IH [OF later.prems] o by (metis append.assoc accepted_of_append taken_of_append released_of_append length_append)
  qed
  then show "accepted_of es = taken_of es @ map ticket_of (wq_tail (snd t))"
    "taken_of es = released_of es @ map ticket_of (in_flight (snd t))"
    "wq_completed (snd t) = length (released_of es)" "accepted_of es = [0..<wq_tickets (snd t)]" by blast+
qed

subsection \<open>Termination\<close>

text \<open>The steps the queue takes by itself: no new request arrives.\<close>

definition internal :: "queue_event \<Rightarrow> bool" where
  "internal e \<longleftrightarrow> (case e of Taken _ \<Rightarrow> True | Ended _ \<Rightarrow> True | Released _ \<Rightarrow> True | _ \<Rightarrow> False)"

definition queue_advances :: "'w admit option \<Rightarrow> ('w \<Rightarrow> 'w \<Rightarrow> bool) \<Rightarrow> 'w \<times> writer_queue \<Rightarrow> 'w \<times> writer_queue \<Rightarrow> bool" where
  "queue_advances admit env s t \<longleftrightarrow> (\<exists>e. internal e \<and> queue_step admit env e s t)"

definition work :: "writer_queue \<Rightarrow> nat" where
  "work q = 3 * length (wq_tail q) + (if wq_running q = None then 0 else 2) + (if wq_settled q = None then 0 else 1)"

lemma internal_step_work:
  assumes "queue_step admit env e s t" and "internal e"
  shows "work (snd t) < work (snd s)"
  using assms
proof (induction rule: queue_step.induct)
  case (taken q j js s' now w)
  then show ?case
    by (rule_tac start_job_cases [of admit now "q\<lparr>wq_tail := js\<rparr>" j w]) (auto simp: work_def)
qed (auto simp: internal_def work_def settle_job_def release_job_def)

lemma stuck_queue:
  assumes "queue_ok q" and "\<And>s. \<not> queue_advances admit env (w, q) s"
  shows "wq_queued q = [] \<and> wq_running q = None \<and> wq_settled q = None"
proof -
  have "wq_settled q = None"
  proof (cases "wq_settled q")
    case (Some j)
    then have "queue_step admit env (Released (ticket_of j)) (w, q) (w, release_job j q)" by (rule released)
    then show ?thesis using assms(2) [of "(w, release_job j q)"] unfolding queue_advances_def internal_def by force
  qed
  moreover have r: "wq_running q = None"
  proof (cases "wq_running q")
    case (Some j)
    then have "queue_step admit env (Ended (ticket_of j)) (w, q) (w, settle_job j q)" by (rule ended)
    then show ?thesis using assms(2) [of "(w, settle_job j q)"] unfolding queue_advances_def internal_def by force
  qed
  moreover have "wq_tail q = []"
  proof (cases "wq_tail q")
    case (Cons j js)
    have "queue_step admit env (Taken (ticket_of j)) (w, q) (start_job admit 0 j (w, q\<lparr>wq_tail := js\<rparr>))"
      by (rule taken [where now = 0]) (use Cons calculation in auto)
    then show ?thesis using assms(2) [of "start_job admit 0 j (w, q\<lparr>wq_tail := js\<rparr>)"]
      unfolding queue_advances_def internal_def by force
  qed
  ultimately show ?thesis using assms(1) by (simp add: queue_ok_def)
qed

lemma advances_queue_ok: "(queue_advances admit env)\<^sup>*\<^sup>* s t \<Longrightarrow> queue_ok (snd s) \<Longrightarrow> queue_ok (snd t)"
  by (induction rule: rtranclp_induct) (auto simp: queue_advances_def intro: step_queue_ok)

lemma advances_wf: "wf {(t, s). queue_advances admit env s t}"
  by (rule wf_subset [OF wf_measure [of "\<lambda>s. work (snd s)"]])
    (auto simp: queue_advances_def dest: internal_step_work)

lemma advances_tickets: "(queue_advances admit env)\<^sup>*\<^sup>* s t \<Longrightarrow> wq_tickets (snd t) = wq_tickets (snd s)"
proof (induction rule: rtranclp_induct)
  case (step t u)
  then obtain e where e: "internal e" "queue_step admit env e t u" by (auto simp: queue_advances_def)
  then have "wq_tickets (snd u) = wq_tickets (snd t)"
  proof (induction rule: queue_step.induct [OF e(2)])
    case (4 q j js s' now w)
    then show ?case by (rule_tac start_job_cases [of admit now "q\<lparr>wq_tail := js\<rparr>" j w]) auto
  qed (auto simp: internal_def settle_job_def release_job_def)
  then show ?case using step.IH by simp
qed simp

lemma advances_end: "\<exists>t. (queue_advances admit env)\<^sup>*\<^sup>* s t \<and> (\<nexists>u. queue_advances admit env t u)"
proof (induction "work (snd s)" arbitrary: s rule: less_induct)
  case less
  show ?case
  proof (cases "\<exists>u. queue_advances admit env s u")
    case True
    then obtain u where u: "queue_advances admit env s u" by blast
    then have "work (snd u) < work (snd s)" by (auto simp: queue_advances_def dest: internal_step_work)
    from less [OF this] u show ?thesis by (meson converse_rtranclp_into_rtranclp)
  next
    case False
    then show ?thesis by blast
  qed
qed

subsection \<open>Properties of the queue\<close>

text \<open>C16: the writer queue is serial and first in, first out: in every run, with any admission callback,
  the accepted requests are, in the order of their acceptance, the finished ones, then at most one in
  flight, then the waiting ones; a request that was taken is never taken again or overtaken; and the
  metrics count exactly these.\<close>

theorem writer_queue_serves_in_order:
  assumes "queue_trace admit env es (w0, new_queue) (w, q)"
  shows "accepted_of es = released_of es @ map ticket_of (in_flight q) @ map ticket_of (wq_tail q)
    \<and> taken_of es = released_of es @ map ticket_of (in_flight q) \<and> length (in_flight q) \<le> 1
    \<and> distinct (accepted_of es)
    \<and> qm_completed (metrics now q) + qm_depth (metrics now q) = length (accepted_of es)
    \<and> qm_completed (metrics now q) = length (released_of es)
    \<and> qm_active_operation (metrics now q) = map_option qj_operation (wq_running q)"
proof -
  have ok: "queue_ok q"
    using trace_queue_ok [OF assms] queue_ok_new by simp
  note order = trace_order [OF assms, simplified]
  have m: "qm_completed (metrics now q) = wq_completed q" "qm_depth (metrics now q) = length (wq_queued q)"
    "qm_active_operation (metrics now q) = wq_active_operation q" by (simp_all add: metrics_def Let_def)
  have "distinct (accepted_of es)" "length (accepted_of es) = wq_tickets q"
    by (simp_all only: order(4) distinct_upt length_upt diff_zero)
  then show ?thesis
    using ok order(1,2,3) in_flight_at_most_one [of q] unfolding m queue_ok_def by simp
qed


subsection \<open>Backpressure\<close>

text \<open>What else may touch the client while the queue runs: the world, and an explicit \<open>refresh\<close>.\<close>

definition client_env :: "'w storage_client \<Rightarrow> 'w storage_client \<Rightarrow> bool" where
  "client_env s t \<longleftrightarrow> sc_controller t = sc_controller s
     \<or> (\<exists>c seen. sc_controller s = Some c \<and> sc_controller t = Some (snd (refresh seen c)))"

lemma update_pressure_policy [simp]: "ac_policy (update_pressure x c) = ac_policy c"
  by (simp add: update_pressure_def)

lemma refresh_policy [simp]: "ac_policy (snd (refresh seen c)) = ac_policy c"
  by (simp add: refresh_def split: option.splits)

lemma assert_admission_policy [simp]: "ac_policy (snd (assert_admission seen stage m operation c)) = ac_policy c"
  using refresh_policy [of seen c]
  by (auto simp: assert_admission_def bindR_def Let_def simp del: refresh_policy split: option.splits prod.splits sum.splits)

abbreviation client_policy :: "'w storage_client \<Rightarrow> admission_policy option" where
  "client_policy s \<equiv> map_option ac_policy (sc_controller s)"

lemma client_admit_policy: "client_policy (snd (client_admit hb observe stage m operation s)) = client_policy s"
proof -
  obtain r w where h: "(case hb of None \<Rightarrow> (Inr (), sc_world s) | Some h \<Rightarrow> h (sc_world s)) = (r, w)" by fastforce
  show ?thesis
    using assert_admission_policy [of "observe w" stage m operation]
    by (auto simp: client_admit_def h Let_def split: sum.splits option.splits prod.splits) (metis assert_admission_policy snd_conv)+
qed

lemma client_admit_not_saturated:
  assumes "client_admit hb observe stage m operation s = (Inr u, s')" and "client_policy s = Some p"
  shows "\<not> saturated p stage m"
proof -
  obtain r w where h: "(case hb of None \<Rightarrow> (Inr (), sc_world s) | Some h \<Rightarrow> h (sc_world s)) = (r, w)" by fastforce
  show ?thesis
    using assms
    by (auto simp: client_admit_def h Let_def assert_admission_def split: sum.splits option.splits prod.splits if_splits)
qed

lemma client_step:
  assumes "queue_step (Some (client_admit hb observe)) client_env e s t" and "client_policy (fst s) = Some p"
    and "length (wq_queued (snd s)) \<le> max_queue_depth p"
  shows "client_policy (fst t) = Some p \<and> length (wq_queued (snd t)) \<le> max_queue_depth p"
  using assms
proof (induction rule: queue_step.induct)
  case (outside w w' q)
  then show ?case by (auto simp: client_env_def)
next
  case (refused now stamp operation s e s')
  obtain w q where s: "s = (w, q)" by fastforce
  obtain w' where "client_admit hb observe Pre_enqueue (metrics now q) operation w = (Inl e, w')"
    and "fst s' = w'" "wq_queued (snd s') = wq_queued q"
    using enqueue_Inl [of "Some (client_admit hb observe)" now stamp operation w q e s'] refused(1)
    by (auto simp: s consult_def)
  then show ?case
    using client_admit_policy [of hb observe Pre_enqueue "metrics now q" operation w] refused.prems s by simp
next
  case (accepted now stamp operation s n s')
  obtain w q where s: "s = (w, q)" by fastforce
  obtain w' where a: "client_admit hb observe Pre_enqueue (metrics now q) operation w = (Inr (), w')"
    and s': "fst s' = w'" "length (wq_queued (snd s')) = Suc (length (wq_queued q))"
    using enqueue_Inr [of "Some (client_admit hb observe)" now stamp operation w q n s'] accepted(1)
    by (auto simp: s consult_def)
  have "\<not> saturated p Pre_enqueue (metrics now q)"
    using client_admit_not_saturated [OF a] accepted.prems s by simp
  then have "length (wq_queued q) < max_queue_depth p" by (simp add: saturated_def metrics_def Let_def)
  then show ?case using client_admit_policy [of hb observe Pre_enqueue "metrics now q" operation w] a s s' accepted.prems by simp
next
  case (taken q j js s' now w)
  then show ?case
    using client_admit_policy [of hb observe Transaction_start "metrics now (q\<lparr>wq_tail := js\<rparr>)" "qj_operation j" w]
    by (rule_tac start_job_cases [of "Some (client_admit hb observe)" now "q\<lparr>wq_tail := js\<rparr>" j w]) (auto simp: consult_def)
next
  case (released q j w)
  then show ?case by (simp add: release_job_def) (meson le_trans length_filter_le)
qed (simp_all add: settle_job_def)

text \<open>Backpressure: in every run of the client's queue, however the file system, the lease and the
  clock behave, there are never more requests in the queue than the policy allows.\<close>

theorem queue_depth_bounded:
  assumes "new_controller (Some p) = Some c"
    and "queue_trace (Some (client_admit hb observe)) client_env es
      (\<lparr>sc_controller = Some c, sc_world = w\<rparr>, new_queue) (k, q)"
  shows "qm_depth (metrics now q) \<le> max_queue_depth p"
proof -
  have c: "ac_policy c = p" using assms(1) by (auto simp: new_controller_def Let_def split: if_splits)
  have "client_policy (fst (k, q)) = Some p \<and> length (wq_queued (snd (k, q))) \<le> max_queue_depth p"
    using assms(2)
  proof (induction "(\<lparr>sc_controller = Some c, sc_world = w\<rparr>, new_queue)" "(k, q)" arbitrary: k q rule: queue_trace.induct)
    case here
    then show ?case by (simp add: c new_queue_def)
  next
    case (later es t e)
    then show ?case using client_step by (metis surj_pair)
  qed
  then show ?thesis by (simp add: metrics_def Let_def)
qed

subsection \<open>Resource pressure\<close>

definition enters :: "admission_policy \<Rightarrow> admission_observation \<Rightarrow> bool" where
  "enters p x \<longleftrightarrow> available_bytes x < min_available_bytes_enter p \<or> wal_bytes x > max_wal_bytes_enter p"

definition recovers :: "admission_policy \<Rightarrow> admission_observation \<Rightarrow> bool" where
  "recovers p x \<longleftrightarrow> available_bytes x \<ge> min_available_bytes_recover p
     \<and> wal_bytes x \<le> max_wal_bytes_recover p \<and> checkpoint_healthy x"

definition observed :: "controller \<Rightarrow> admission_observation list \<Rightarrow> controller" where
  "observed c xs = foldl (\<lambda>c x. snd (refresh (Some x) c)) c xs"

lemma observed_snoc: "observed c (xs @ [x]) = snd (refresh (Some x) (observed c xs))"
  by (simp add: observed_def)

lemma observed_policy [simp]: "ac_policy (observed c xs) = ac_policy c"
  by (induction xs rule: rev_induct) (simp_all add: observed_snoc observed_def [of c "[]"])

lemma not_enters_and_recovers: "admission_policy_ok p \<Longrightarrow> enters p x \<Longrightarrow> \<not> recovers p x"
  by (auto simp: admission_policy_ok_def enters_def recovers_def)

lemma refresh_read_only:
  "admission_observation_ok x \<Longrightarrow> ac_read_only (snd (refresh (Some x) c)) \<longleftrightarrow>
     enters (ac_policy c) x \<or> ac_read_only c \<and> \<not> recovers (ac_policy c) x"
  by (auto simp: refresh_def update_pressure_def enters_def recovers_def)

text \<open>An entering observation that no recovering one follows.\<close>

fun under_pressure :: "admission_policy \<Rightarrow> admission_observation list \<Rightarrow> bool" where
  "under_pressure p [] = False"
| "under_pressure p (x # xs) =
     (enters p x \<and> list_all (\<lambda>z. \<not> recovers p z) xs \<or> under_pressure p xs)"

lemma under_pressure_snoc:
  "admission_policy_ok p \<Longrightarrow> under_pressure p (xs @ [x]) \<longleftrightarrow>
     enters p x \<or> under_pressure p xs \<and> \<not> recovers p x"
  by (induction xs) (auto dest: not_enters_and_recovers)

text \<open>The controller's hysteresis: after any history of observations the storage is read-only exactly
  if some observation crossed an entering threshold and none since was below both recovering
  thresholds with a healthy checkpoint; and while it is read-only nothing but a checkpoint is admitted.\<close>

theorem pressure_hysteresis:
  assumes "new_controller (Some p) = Some c" and "\<forall>x \<in> set xs. admission_observation_ok x"
  shows "(ac_read_only (observed c xs) \<longleftrightarrow> under_pressure p xs)
    \<and> (fst (assert_admission (Some y) stage m operation (observed c xs)) = Inr () \<and> under_pressure p (xs @ [y])
         \<longrightarrow> operation = ''checkpoint'')"
proof -
  have c: "ac_policy c = p" "admission_policy_ok p" "\<not> ac_read_only c"
    using assms(1) by (auto simp: new_controller_def Let_def split: if_splits)
  have iff: "ac_read_only (observed c zs) \<longleftrightarrow> under_pressure p zs" if "\<forall>x \<in> set zs. admission_observation_ok x" for zs
    using that
  proof (induction zs rule: rev_induct)
    case Nil
    then show ?case by (simp add: observed_def c)
  next
    case (snoc x zs)
    then show ?case by (simp add: observed_snoc refresh_read_only under_pressure_snoc c)
  qed
  have "operation = ''checkpoint''"
    if "fst (assert_admission (Some y) stage m operation (observed c xs)) = Inr ()"
      and y: "under_pressure p (xs @ [y])"
  proof -
    from that obtain c' where a: "assert_admission (Some y) stage m operation (observed c xs) = (Inr (), c')"
      by (metis prod.collapse)
    obtain r where r: "parse_maintenance operation = Some r"
    using a by (auto simp: assert_admission_def split: option.splits)
  have "admission_observation_ok y" "c' = observed c (xs @ [y])" "ac_read_only c' \<longrightarrow> r = Checkpoint"
    using a by (auto simp: assert_admission_def bindR_def r Let_def observed_snoc refresh_def split: if_splits)
    then have "r = Checkpoint" using iff [of "xs @ [y]"] assms(2) y by simp
    then show ?thesis
    using r find_Some_mem [of "\<lambda>m. maintenance_string m = operation" maintenance_operations r]
      by (simp add: parse_maintenance_def)
  qed
  then show ?thesis using iff assms(2) by blast
qed

subsection \<open>Witnesses\<close>

definition sample_entry :: "nat \<Rightarrow> queue_job" where
  "sample_entry n = \<lparr>qj_entry = \<lparr>qe_ticket = n, qe_enqueued_at = 0\<rparr>, qj_operation = ''canonical_write''\<rparr>"

definition sample_queue :: writer_queue where
  "sample_queue = \<lparr>wq_tail = [sample_entry 1], wq_running = Some (sample_entry 0), wq_settled = None,
     wq_queued = [qj_entry (sample_entry 0), qj_entry (sample_entry 1)], wq_completed = 0,
     wq_rejected_pre_enqueue = 0, wq_rejected_transaction_start = 0,
     wq_active_operation = Some ''canonical_write'', wq_tickets = 2\<rparr>"

lemma sample_trace:
  "queue_trace None (\<lambda>_ _. True) [Accepted 0, Accepted 1, Taken 0] ((), new_queue) ((), sample_queue)"
proof -
  let ?A = "queue_trace (None :: unit admit option) (\<lambda>_ _. True)"
  let ?one = "new_queue\<lparr>wq_queued := [qj_entry (sample_entry 0)], wq_tail := [sample_entry 0], wq_tickets := 1\<rparr>"
  let ?two = "new_queue\<lparr>wq_queued := map (qj_entry \<circ> sample_entry) [0, 1], wq_tail := [sample_entry 0, sample_entry 1],
    wq_tickets := 2\<rparr>"
  note defs = enqueue_def consult_def new_queue_def sample_entry_def Let_def
  have "enqueue (None :: unit admit option) 0 0 ''canonical_write'' ((), new_queue) = (Inr 0, (), ?one)"
    by (simp add: defs)
  from later [OF here accepted, OF this] have "?A ([] @ [Accepted 0]) ((), new_queue) ((), ?one)" .
  moreover have "enqueue (None :: unit admit option) 0 0 ''canonical_write'' ((), ?one) = (Inr 1, (), ?two)"
    by (simp add: defs)
  ultimately have "?A (([] @ [Accepted 0]) @ [Accepted 1]) ((), new_queue) ((), ?two)" by (blast intro: later accepted)
  moreover have "queue_step (None :: unit admit option) (\<lambda>_ _. True) (Taken (ticket_of (sample_entry 0)))
      ((), ?two) ((), sample_queue)"
    by (rule taken [where now = 0]) (simp_all add: start_job_def sample_queue_def defs)
  ultimately show ?thesis by (auto dest: later simp: sample_entry_def)
qed

lemma writer_queue_serves_in_order_witness:
  "accepted_of [Accepted 0, Accepted 1, Taken 0]
     = released_of [Accepted 0, Accepted 1, Taken 0] @ map ticket_of (in_flight sample_queue) @ map ticket_of (wq_tail sample_queue)
   \<and> qm_depth (metrics 7 sample_queue) = 2"
  using writer_queue_serves_in_order [OF sample_trace, of 7] by (auto simp: metrics_def sample_queue_def Let_def)


definition calm :: admission_observation where
  "calm = \<lparr>available_bytes = 1024 * 1024 * 1024, wal_bytes = 0, checkpoint_healthy = True, active_maintenance = None\<rparr>"

definition full_disk :: admission_observation where
  "full_disk = \<lparr>available_bytes = 0, wal_bytes = 0, checkpoint_healthy = True, active_maintenance = None\<rparr>"

definition sample_controller :: controller where
  "sample_controller = \<lparr>ac_policy = default_admission_policy, ac_read_only = False, ac_pressure_reason = None,
     ac_last_observation = None\<rparr>"

lemma sample_controller: "new_controller (Some default_admission_policy) = Some sample_controller"
  by (simp add: new_controller_def sample_controller_def Let_def admission_policy_ok_def
      default_admission_policy_def max_safe_integer_def)

lemma pressure_hysteresis_witness:
  "ac_read_only (observed sample_controller [calm, full_disk]) \<and> \<not> ac_read_only (observed sample_controller [full_disk, calm])"
  using pressure_hysteresis [OF sample_controller, of "[calm, full_disk]"]
    pressure_hysteresis [OF sample_controller, of "[full_disk, calm]"]
  by (simp add: admission_observation_ok_def calm_def full_disk_def max_safe_integer_def enters_def recovers_def
      default_admission_policy_def)

definition sample_client :: "unit storage_client" where
  "sample_client = \<lparr>sc_controller = Some sample_controller, sc_world = ()\<rparr>"

lemma sample_client_trace:
  "\<exists>k q. queue_trace (Some (client_admit None (\<lambda>_. Some calm))) client_env [Accepted 0]
      (sample_client, new_queue) (k, q)"
proof -
  have "metrics 0 new_queue = \<lparr>qm_depth = 0, qm_oldest_age_ms = 0, qm_completed = 0, qm_rejected_pre_enqueue = 0,
      qm_rejected_transaction_start = 0, qm_active_operation = None\<rparr>"
    by (simp add: metrics_def new_queue_def Let_def fl_def math_round_def floor_eq_iff)
  then have "\<exists>k q. enqueue (Some (client_admit None (\<lambda>_. Some calm))) 0 0 ''canonical_write'' (sample_client, new_queue)
      = (Inr 0, (k, q))"
    by (simp add: enqueue_def consult_def client_admit_def sample_client_def Let_def parse_maintenance_def
        maintenance_operations_def assert_admission_def saturated_def sample_controller_def default_admission_policy_def
        refresh_def calm_def admission_observation_ok_def max_safe_integer_def bindR_def update_pressure_def
        maintenance_compatible_def new_queue_def)
  then obtain k q where "enqueue (Some (client_admit None (\<lambda>_. Some calm))) 0 0 ''canonical_write'' (sample_client, new_queue)
      = (Inr 0, (k, q))" by blast
  from later [OF here accepted [OF this]] show ?thesis by force
qed

lemma queue_depth_bounded_witness:
  "\<exists>k q. queue_trace (Some (client_admit None (\<lambda>_. Some calm))) client_env [Accepted 0]
      (sample_client, new_queue) (k, q) \<and> qm_depth (metrics 1 q) \<le> max_queue_depth default_admission_policy"
proof -
  obtain k q where t: "queue_trace (Some (client_admit None (\<lambda>_. Some calm))) client_env [Accepted 0]
      (sample_client, new_queue) (k, q)" using sample_client_trace by blast
  from queue_depth_bounded [OF sample_controller this [unfolded sample_client_def]] t show ?thesis by blast
qed

end
