(* ===== verification/ProjectionPolicy.thy ===== *)
theory ProjectionPolicy
  imports ContextModel
begin

text \<open>
  The deterministic projection policy (\<open>packages/memory-kernel/src/projection-policy.ts\<close>): topics,
  scenarios, procedures, core statements and precedence relations built from the governed memories of one
  scope. A \<open>throw\<close> is an \<open>Inl\<close>; the tables of Unicode (NFKC, lower case), the collation of free text and
  the hash are fields of the environment. The content of a projection is the canonical JSON of its payload.
\<close>

subsection \<open>The environment and the input\<close>

record policy_env =
  pe_sha :: "jval \<Rightarrow> string"
  pe_fraction :: "rat \<Rightarrow> ustring"
  pe_nfkc :: "ustring \<Rightarrow> ustring"
  pe_lower :: "ustring \<Rightarrow> ustring"
  pe_collate :: "ustring \<Rightarrow> nat list"

record projection_input =
  pi_principal :: string
  pi_scope :: scope
  pi_ledger_epoch :: nat
  pi_tombstone_epoch :: nat
  pi_projection_epoch :: nat
  pi_sources :: "search_item list"

datatype policy_error = Not_inline | Not_canonical | No_source | Schema_rejects

definition projection_transform :: transform_ref where
  "projection_transform =
     \<lparr>transform_name = ''deterministic-layered-consolidation'', transform_version = ''1.0.0''\<rparr>"

definition unique_sorted :: "string list \<Rightarrow> string list" where
  "unique_sorted values = sort (js_set values)"

definition source_text :: "search_item \<Rightarrow> policy_error + ustring" where
  "source_text s = (case si_content s of Inline t m \<Rightarrow> Inr t | Blob h n m \<Rightarrow> Inl Not_inline)"

definition source_ref :: "string \<Rightarrow> search_item \<Rightarrow> policy_error + projection_source" where
  "source_ref who s =
     (let r = \<lparr>src_memory_id = si_memory_id s, src_revision_id = si_revision_id s, src_abstraction = L1_memory,
         src_principal_id = who, src_scope = si_scope s, src_authority = si_authority s,
         src_sensitivity = si_sensitivity s, src_validity = si_validity s, src_content_hash = si_content_hash s,
         src_evidence_ids = unique_sorted (si_evidence_ids s)\<rparr>
      in bindE (guardE (projection_source_ok r) Schema_rejects) (\<lambda>_. Inr r))"

definition normalized_source_order :: "search_item list \<Rightarrow> search_item list" where
  "normalized_source_order = sort_key (\<lambda>s. locale_key (si_revision_id s))"

subsection \<open>Payloads as JSON\<close>

fun relation_type_string :: "relation_type \<Rightarrow> string" where
  "relation_type_string Supports = ''supports''"
| "relation_type_string Contradicts = ''contradicts''"
| "relation_type_string Supersedes = ''supersedes''"
| "relation_type_string Depends_on = ''depends_on''"
| "relation_type_string Causes = ''causes''"
| "relation_type_string Precedes = ''precedes''"
| "relation_type_string Belongs_to_topic = ''belongs_to_topic''"
| "relation_type_string Applies_to_scenario = ''applies_to_scenario''"
| "relation_type_string References_entity = ''references_entity''"

abbreviation jtexts :: "ustring list \<Rightarrow> jval" where
  "jtexts ts \<equiv> J_arr (map J_str ts)"

fun payload_json :: "projection_payload \<Rightarrow> jval" where
  "payload_json (Topic_payload k s is) = jobj
     [(''kind'', jstr ''topic''), (''key'', J_str k), (''summary'', J_str s), (''open_items'', jtexts is)]"
| "payload_json (Scenario_payload k t ps os) = jobj
     [(''kind'', jstr ''scenario''), (''key'', J_str k), (''trigger'', J_str t), (''preconditions'', jtexts ps),
      (''outcomes'', jtexts os)]"
| "payload_json (Procedure_payload k g ps ss es fs rs) = jobj
     [(''kind'', jstr ''procedure''), (''key'', J_str k), (''goal'', J_str g), (''preconditions'', jtexts ps),
      (''steps'', jtexts ss), (''exceptions'', jtexts es), (''failure_modes'', jtexts fs),
      (''recovery_steps'', jtexts rs)]"
| "payload_json (Relation_payload s t r d x) = jobj
     [(''kind'', jstr ''relation''), (''source_revision_id'', jstr s), (''target_revision_id'', jstr t),
      (''relation_type'', jstr (relation_type_string r)),
      (''direction'', jstr (if d then ''directed'' else ''undirected'')),
      (''description'', case x of None \<Rightarrow> J_null | Some y \<Rightarrow> J_str y)]"
| "payload_json (Core_payload s as cs c ps) = jobj
     [(''kind'', jstr ''core''), (''statement'', J_str s), (''applicability'', jtexts as),
      (''constraints'', jtexts cs), (''confidence'', J_num c), (''promotion_basis'', jtexts ps)]"

text \<open>What \<open>ProjectionPayloadSchema\<close> returns: trimmed texts and normalised keys.\<close>

definition parse_key :: "policy_env \<Rightarrow> ustring \<Rightarrow> ustring" where
  "parse_key v t = collapse_spaces False (pe_lower v (pe_nfkc v (js_trim t)))"

fun parse_payload :: "policy_env \<Rightarrow> projection_payload \<Rightarrow> projection_payload" where
  "parse_payload v (Topic_payload k s is) = Topic_payload (parse_key v k) (js_trim s) (map js_trim is)"
| "parse_payload v (Scenario_payload k t ps os) =
     Scenario_payload (parse_key v k) (js_trim t) (map js_trim ps) (map js_trim os)"
| "parse_payload v (Procedure_payload k g ps ss es fs rs) =
     Procedure_payload (parse_key v k) (js_trim g) (map js_trim ps) (map js_trim ss) (map js_trim es)
       (map js_trim fs) (map js_trim rs)"
| "parse_payload v (Relation_payload s t r d x) = Relation_payload s t r d (map_option js_trim x)"
| "parse_payload v (Core_payload s as cs c ps) =
     Core_payload (js_trim s) (map js_trim as) (map js_trim cs) c (map js_trim ps)"

definition parse_projection :: "policy_env \<Rightarrow> projection_revision \<Rightarrow> policy_error + projection_revision" where
  "parse_projection v p = bindE (guardE (projection_revision_ok p) Schema_rejects)
     (\<lambda>_. Inr (p\<lparr>proj_payload := map_option (parse_payload v) (proj_payload p)\<rparr>))"

subsection \<open>Descriptors\<close>

record descriptor =
  de_payload :: projection_payload
  de_sources :: "search_item list"
  de_content :: content_ref
  de_content_hash :: string
  de_projection_id :: string

definition describe ::
  "policy_env \<Rightarrow> projection_input \<Rightarrow> projection_payload \<Rightarrow> search_item list \<Rightarrow> policy_error + descriptor" where
  "describe v i x sources =
     (let ordered = normalized_source_order sources in
      case canonical_json (pe_fraction v) (of_jval (payload_json x)) of
        Inl e \<Rightarrow> Inl Not_canonical
      | Inr text \<Rightarrow>
          let content = Inline text ''application/json''; h = pe_sha v (content_json content) in
          bindE (guardE (identifier_ok (pi_principal i) \<and> scope_ok (pi_scope i) \<and> sources \<noteq> []
            \<and> list_all identifier_ok (map si_revision_id ordered) \<and> canonical_hash_ok h) Schema_rejects) (\<lambda>_.
          Inr \<lparr>de_payload = x, de_sources = ordered, de_content = content, de_content_hash = h,
               de_projection_id = projection_identity (pe_sha v) (payload_kind x) (pi_principal i) (pi_scope i)
                 (map si_revision_id ordered) projection_transform h\<rparr>))"

definition intersect_validity :: "search_item list \<Rightarrow> policy_error + validity_window" where
  "intersect_validity sources =
     (if sources = [] then Inl No_source
      else let ends = sort_key iso (List.map_filter (\<lambda>s. valid_to (si_validity s)) sources) in
        Inr \<lparr>valid_from = last (sort_key iso (map (\<lambda>s. valid_from (si_validity s)) sources)),
             valid_to = (case ends of [] \<Rightarrow> None | t # ts \<Rightarrow> Some t),
             recorded_at = last (sort_key iso (map (\<lambda>s. recorded_at (si_validity s)) sources))\<rparr>)"

definition strictest_sensitivity :: "search_item list \<Rightarrow> policy_error + sensitivity" where
  "strictest_sensitivity sources =
     (case sort_key (\<lambda>s. - int (sensitivity_rank (si_sensitivity s))) sources of
        [] \<Rightarrow> Inl No_source | s # ss \<Rightarrow> Inr (si_sensitivity s))"

text \<open>\<open>String.prototype.slice(0, n)\<close> counts UTF-16 units and may keep half of a surrogate pair.\<close>

fun utf16_take :: "nat \<Rightarrow> ustring \<Rightarrow> ustring" where
  "utf16_take n [] = []"
| "utf16_take n (c # cs) =
     (if n = 0 then [] else if c < 65536 then c # utf16_take (n - 1) cs
      else if n = 1 then [55296 + (c - 65536) div 1024] else c # utf16_take (n - 2) cs)"

definition topic_line :: "search_item \<Rightarrow> policy_error + ustring" where
  "topic_line s = bindE (source_text s) (\<lambda>t.
     Inr (code_points (memory_kind_string (si_kind s) @ '': '') @ t))"

definition topic_descriptor :: "policy_env \<Rightarrow> projection_input \<Rightarrow> search_item list \<Rightarrow> policy_error + descriptor" where
  "topic_descriptor v i sources = bindE (mapE topic_line sources) (\<lambda>ls.
     describe v i (Topic_payload (code_points (scope_key (pi_scope i))) (utf16_take 8000 (join_texts [10] ls)) []) sources)"

definition single_descriptor :: "policy_env \<Rightarrow> projection_input \<Rightarrow> search_item \<Rightarrow> policy_error + descriptor list" where
  "single_descriptor v i s = bindE (source_text s) (\<lambda>t.
     let k = code_points (si_memory_id s) in
     case si_kind s of
       Episodic \<Rightarrow> bindE (describe v i (Scenario_payload k t [] [t]) [s]) (\<lambda>d. Inr [d])
     | Procedural \<Rightarrow> bindE (describe v i (Procedure_payload k t [] [t] [] [] []) [s]) (\<lambda>d. Inr [d])
     | Semantic \<Rightarrow> Inr [])"

text \<open>The groups of \<open>coreDescriptors\<close>: a \<open>Map\<close> keeps its keys in the order of their first insertion.\<close>

fun add_to_group :: "'k \<Rightarrow> 'a \<Rightarrow> ('k \<times> 'a list) list \<Rightarrow> ('k \<times> 'a list) list" where
  "add_to_group k x [] = [(k, [x])]"
| "add_to_group k x ((l, ys) # gs) = (if l = k then (l, ys @ [x]) # gs else (l, ys) # add_to_group k x gs)"

fun core_groups ::
  "policy_env \<Rightarrow> search_item list \<Rightarrow> (ustring \<times> search_item list) list
     \<Rightarrow> policy_error + (ustring \<times> search_item list) list" where
  "core_groups v [] gs = Inr gs"
| "core_groups v (s # ss) gs =
     (if si_kind s \<noteq> Semantic then core_groups v ss gs
      else bindE (source_text s) (\<lambda>t.
        core_groups v ss (add_to_group (normalize_logical_key (pe_nfkc v) (pe_lower v) t) s gs)))"

definition core_descriptor ::
  "policy_env \<Rightarrow> projection_input \<Rightarrow> ustring \<times> search_item list \<Rightarrow> policy_error + descriptor" where
  "core_descriptor v i g =
     bindE (source_text (hd (normalized_source_order (snd g)))) (\<lambda>t.
     describe v i (Core_payload t [code_points (scope_key (pi_scope i))]
       [code_points ''Revalidate every source revision before Context use.''] 1
       [nat_digits (length (snd g)) @ code_points '' exact governed sources carry the same statement.'']) (snd g))"

definition core_descriptors :: "policy_env \<Rightarrow> projection_input \<Rightarrow> search_item list \<Rightarrow> policy_error + descriptor list" where
  "core_descriptors v i sources = bindE (core_groups v sources []) (\<lambda>gs.
     mapE (core_descriptor v i) (sort_key (\<lambda>g. pe_collate v (fst g)) (filter (\<lambda>g. length (snd g) \<ge> 2) gs)))"

fun precedence_pairs :: "search_item list \<Rightarrow> (search_item \<times> search_item) list" where
  "precedence_pairs (s # t # ss) =
     (if iso (valid_from (si_validity s)) = iso (valid_from (si_validity t)) then [] else [(s, t)])
     @ precedence_pairs (t # ss)"
| "precedence_pairs ss = []"

definition relation_descriptor ::
  "policy_env \<Rightarrow> projection_input \<Rightarrow> search_item \<times> search_item \<Rightarrow> policy_error + descriptor" where
  "relation_descriptor v i p = describe v i
     (Relation_payload (si_revision_id (fst p)) (si_revision_id (snd p)) Precedes True
        (Some (code_points ''The source validity window begins before the target window.''))) [fst p, snd p]"

definition relation_descriptors ::
  "policy_env \<Rightarrow> projection_input \<Rightarrow> search_item list \<Rightarrow> policy_error + descriptor list" where
  "relation_descriptors v i sources = mapE (relation_descriptor v i) (precedence_pairs
     (sort_key (\<lambda>s. (locale_key (iso (valid_from (si_validity s))), locale_key (si_revision_id s))) sources))"

subsection \<open>Projections\<close>

definition policy_frontier :: "policy_env \<Rightarrow> projection_input \<Rightarrow> search_item list \<Rightarrow> descriptor list \<Rightarrow> projection_frontier" where
  "policy_frontier v i sources ds =
     \<lparr>pf_ledger_epoch = pi_ledger_epoch i, pf_tombstone_epoch = pi_tombstone_epoch i,
      pf_projection_epoch = pi_projection_epoch i, pf_transform = projection_transform,
      pf_source_frontier_hash = pe_sha v (J_arr (map (\<lambda>s. jobj
        [(''revision_id'', jstr (si_revision_id s)), (''content_hash'', jstr (si_content_hash s))]) sources)),
      pf_projection_frontier_hash = pe_sha v (J_arr (map (\<lambda>d. jobj
        [(''projection_id'', jstr (de_projection_id d)), (''content_hash'', jstr (de_content_hash d))])
          (sort_key (\<lambda>d. locale_key (de_projection_id d)) ds)))\<rparr>"

definition build_projection ::
  "policy_env \<Rightarrow> projection_input \<Rightarrow> projection_frontier \<Rightarrow> descriptor \<Rightarrow> policy_error + projection_revision" where
  "build_projection v i fr d =
     bindE (mapE (source_ref (pi_principal i)) (de_sources d)) (\<lambda>refs.
     bindE (intersect_validity (de_sources d)) (\<lambda>val.
     bindE (strictest_sensitivity (de_sources d)) (\<lambda>sens.
     parse_projection v
       \<lparr>projection_id = de_projection_id d,
        projection_revision_id = ''projection-revision:'' @ take 41 (drop 7 (pe_sha v (jobj
          [(''projection_id'', jstr (de_projection_id d)), (''frontier'', projection_frontier_json fr)]))),
        proj_revision_no = 1, projection_type = payload_kind (de_payload d),
        proj_abstraction = projection_abstraction (payload_kind (de_payload d)),
        proj_principal_id = pi_principal i, proj_scope = pi_scope i, proj_lifecycle = Active,
        proj_sensitivity = sens, proj_validity = val, proj_payload = Some (de_payload d),
        proj_content = Some (de_content d), proj_content_hash = de_content_hash d, source_revisions = refs,
        proj_evidence_ids = unique_sorted (concat (map src_evidence_ids refs)), supersedes_projection = None,
        proj_transform = projection_transform, proj_frontier = fr, proj_created_at = recorded_at val,
        invalidated_at = None, invalidation_reason = None\<rparr>)))"

definition policy_descriptors :: "policy_env \<Rightarrow> projection_input \<Rightarrow> search_item list \<Rightarrow> policy_error + descriptor list" where
  "policy_descriptors v i sources =
     bindE (topic_descriptor v i sources) (\<lambda>topic.
     bindE (mapE (single_descriptor v i) sources) (\<lambda>singles.
     bindE (core_descriptors v i sources) (\<lambda>cores.
     bindE (relation_descriptors v i sources) (\<lambda>rels.
     Inr (topic # concat singles @ cores @ rels)))))"

definition build_deterministic_projections ::
  "policy_env \<Rightarrow> projection_input \<Rightarrow> policy_error + projection_revision list" where
  "build_deterministic_projections v i =
     (let sources = normalized_source_order (pi_sources i) in
      if sources = [] then Inr []
      else bindE (policy_descriptors v i sources) (\<lambda>ds.
        bindE (mapE (build_projection v i (policy_frontier v i sources ds)) ds) (\<lambda>ps.
        Inr (sort_key (\<lambda>p. (locale_key (projection_type_string (projection_type p)), locale_key (projection_id p))) ps))))"

definition empty_projection_frontier :: "policy_env \<Rightarrow> nat \<Rightarrow> nat \<Rightarrow> nat \<Rightarrow> projection_frontier" where
  "empty_projection_frontier v ledger tombstone projection =
     \<lparr>pf_ledger_epoch = ledger, pf_tombstone_epoch = tombstone, pf_projection_epoch = projection,
      pf_transform = projection_transform, pf_source_frontier_hash = pe_sha v (J_arr []),
      pf_projection_frontier_hash = pe_sha v (J_arr [])\<rparr>"

definition structural_entry :: "bool \<Rightarrow> projection_revision \<Rightarrow> jval" where
  "structural_entry exact p = jobj
     ([(''projection_id'', jstr (projection_id p))]
      @ (if exact then [(''projection_revision_id'', jstr (projection_revision_id p))] else [])
      @ [(''projection_type'', jstr (projection_type_string (projection_type p))),
         (''content_hash'', jstr (proj_content_hash p)),
         (''source_revision_ids'', jstrs (sort (map src_revision_id (source_revisions p)))),
         (''relation'', case proj_payload p of
            Some (Relation_payload s t r d x) \<Rightarrow> payload_json (Relation_payload s t r d x) | _ \<Rightarrow> J_null)]
      @ (if exact then [(''frontier'', projection_frontier_json (proj_frontier p))] else []))"

text \<open>\<open>projectionStructuralDigest\<close>, and \<open>logicalStructure\<close> of the consolidation service.\<close>

definition projection_structural_digest :: "policy_env \<Rightarrow> projection_revision list \<Rightarrow> string" where
  "projection_structural_digest v ps =
     pe_sha v (J_arr (map (structural_entry True) (sort_key (\<lambda>p. locale_key (projection_id p)) ps)))"

end
