(* ===== verification/ProjectionPolicyProperties.thy ===== *)
theory ProjectionPolicyProperties
  imports ProjectionPolicy
begin

text \<open>
  The properties of the deterministic projection policy: on governed sources it never fails and everything
  it returns conforms to the projection schema; its result does not depend on the order of the sources; and the
  inputs of the contracts on which it does fail.
\<close>

subsection \<open>The length of canonical JSON\<close>

abbreviation units :: "ustring \<Rightarrow> nat" where
  "units t \<equiv> length (utf16 t)"

lemma utf16_Nil [simp]: "utf16 [] = []"
  by (simp add: utf16_def)

lemma utf16_append [simp]: "utf16 (a @ b) = utf16 a @ utf16 b"
  by (simp add: utf16_def)

lemma utf16_small: "c < 65536 \<Longrightarrow> utf16 (c # cs) = c # utf16 cs"
  by (simp add: utf16_def)

lemma utf16_large:
  "\<not> c < 65536 \<Longrightarrow> utf16 (c # cs) = (55296 + (c - 65536) div 1024) # (56320 + (c - 65536) mod 1024) # utf16 cs"
  by (simp add: utf16_def)

lemma utf16_Cons: "utf16 (c # cs) = utf16 [c] @ utf16 cs"
  by (simp add: utf16_def)

lemma units_pos: "1 \<le> units [c]" "units [c] \<le> 2"
  by (simp_all add: utf16_def)

lemma units_small: "c < 65536 \<Longrightarrow> units (c # cs) = Suc (units cs)"
  by (simp add: utf16_def)

lemma units_code_points [simp]: "units (code_points s) = length s"
proof (induction s)
  case (Cons c s)
  have "(of_char c :: nat) < 256" by simp
  then have "units (of_char c # code_points s) = Suc (units (code_points s))" by (intro units_small) linarith
  with Cons show ?case by (simp add: code_points_def)
qed (simp add: code_points_def)

lemma units_all_small: "list_all (\<lambda>c. c < 65536) t \<Longrightarrow> units t = length t"
  by (induction t) (simp_all add: units_small)

lemma hex_digit_small: "hex_digit (n mod 16) < 65536"
proof -
  have "n mod 16 < 16" by simp
  then show ?thesis unfolding hex_digit_def by (auto simp del: mod_less_divisor)
qed

lemma hex4_units: "units ([92, 117] @ hex4 c) = 6"
  by (subst units_all_small) (simp_all add: hex4_def hex_digit_small)

lemma units_escape: "units (escape_char c) \<le> 6 * units [c]"
proof -
  consider "\<exists>d < 65536. escape_char c = [92, d]" | "escape_char c = [92, 117] @ hex4 c" | "escape_char c = [c]"
    unfolding escape_char_def by (cases "c \<in> {8, 9, 10, 12, 13, 34, 92}") (force split: if_splits)+
  then show ?thesis
  proof cases
    case 1
    then have "units (escape_char c) = 2" by (auto simp: units_small)
    then show ?thesis using units_pos(1) [of c] by linarith
  next
    case 2
    then have "units (escape_char c) = 6" using hex4_units by simp
    then show ?thesis using units_pos(1) [of c] by linarith
  qed simp
qed

lemma units_quote: "units (quote_json t) \<le> 6 * units t + 2"
proof -
  have "units (concat (map escape_char t)) \<le> 6 * units t"
  proof (induction t)
    case (Cons c t)
    then show ?case using units_escape [of c] utf16_Cons [of c t] by simp
  qed simp
  then show ?thesis by (simp add: quote_json_def utf16_Cons [of 34] utf16_def)
qed

lemma units_join: "units (join_texts [44] ts) \<le> (\<Sum>t \<leftarrow> ts. units t + 1)"
proof (cases ts)
  case (Cons t us)
  have "units (concat (map (\<lambda>u. [44] @ u) us)) = (\<Sum>t \<leftarrow> us. units t + 1)"
    by (induction us) (simp_all add: units_small)
  then have "units (join_texts [44] ts) = units t + (\<Sum>t \<leftarrow> us. units t + 1)"
    unfolding Cons join_texts_def list.case utf16_append length_append by (rule arg_cong)
  with Cons show ?thesis by simp
qed (simp add: join_texts_def)

text \<open>The length of an object of leaf values, whatever order its keys are rendered in.\<close>

definition entry_units :: "(rat \<Rightarrow> ustring) \<Rightarrow> ustring \<times> jval \<Rightarrow> nat" where
  "entry_units ft p = 6 * units (fst p) + 4 + units (stringify ft (snd p))"

lemma units_object: "units (stringify ft (J_obj ps)) \<le> 2 + (\<Sum>p \<leftarrow> ps. entry_units ft p)"
proof -
  have "units (join_texts [44] (map (\<lambda>p. quote_json (fst p) @ [58] @ stringify ft (snd p)) ps))
      \<le> (\<Sum>p \<leftarrow> ps. units (quote_json (fst p) @ [58] @ stringify ft (snd p)) + 1)"
    using units_join [of "map (\<lambda>p. quote_json (fst p) @ [58] @ stringify ft (snd p)) ps"] by (simp add: o_def)
  also have "\<dots> \<le> (\<Sum>p \<leftarrow> ps. entry_units ft p)"
  proof (rule sum_list_mono)
    fix p :: "ustring \<times> jval"
    show "units (quote_json (fst p) @ [58] @ stringify ft (snd p)) + 1 \<le> entry_units ft p"
      using units_quote [of "fst p"] by (simp add: entry_units_def units_small)
  qed
  finally show ?thesis by (simp add: units_small)
qed

lemma units_array:
  "units (stringify ft (J_arr xs)) \<le> 2 + (\<Sum>x \<leftarrow> xs. units (stringify ft x) + 1)"
  using units_join [of "map (stringify ft) xs"] by (simp add: units_small o_def)

lemma sum_assign_all: "(\<Sum>p \<leftarrow> assign_all ps. f p) \<le> (\<Sum>p \<leftarrow> ps. f p :: nat)"
proof -
  have "(\<Sum>p \<leftarrow> enumerate_own qs. f p) = (\<Sum>p \<leftarrow> qs. f p)" for qs
  proof -
    have "mset (enumerate_own qs) = mset qs" by (simp add: enumerate_own_def)
    then show ?thesis by (metis mset_map sum_mset_sum_list)
  qed
  then show ?thesis by (simp add: assign_all_def sum_list_filter_le_nat)
qed

definition leaf_ok :: "jval \<Rightarrow> bool" where
  "leaf_ok j \<longleftrightarrow> normalize_canonical_value (of_jval j) = Inr j"

lemma leaf_simps [simp]: "leaf_ok J_null" "leaf_ok (J_str t)" "leaf_ok (J_num 1)"
  by (simp_all add: leaf_ok_def is_safe_integer_def max_safe_integer_def is_integer_def)

lemma leaf_texts [simp]: "leaf_ok (jtexts ts)"
proof -
  have "normalize_array (map (\<lambda>t. Some (of_jval (J_str t))) ts) = Inr (map J_str ts)"
    by (induction ts) simp_all
  then show ?thesis by (simp add: leaf_ok_def o_def)
qed

lemma canonical_object:
  assumes "list_all (\<lambda>p. leaf_ok (snd p)) ps"
  shows "\<exists>t. canonical_json ft (of_jval (J_obj ps)) = Inr t \<and> units t \<le> 2 + (\<Sum>p \<leftarrow> ps. entry_units ft p)
    \<and> 1 \<le> units t"
proof -
  let ?toprop = "\<lambda>p :: ustring \<times> jval. (Str_key (fst p), Data True (of_jval (snd p)))"
  let ?qs = "sort_key (\<lambda>p. utf16 (fst p)) ps"
  have "normalize_props (map ?toprop qs) = Inr qs" if "list_all (\<lambda>p. leaf_ok (snd p)) qs" for qs
    using that by (induction qs) (simp_all add: leaf_ok_def)
  moreover have "list_all (\<lambda>p. leaf_ok (snd p)) ?qs" using assms by (simp add: list_all_iff)
  ultimately have "normalize_props (map ?toprop ?qs) = Inr ?qs" by blast
  then have "canonical_json ft (of_jval (J_obj ps)) = Inr (stringify ft (J_obj (assign_all ?qs)))"
    by (auto simp: canonical_json_def sort_key_map)
  moreover have "(\<Sum>p \<leftarrow> assign_all ?qs. entry_units ft p) \<le> (\<Sum>p \<leftarrow> ps. entry_units ft p)"
    using sum_assign_all [of "entry_units ft" ?qs] by (simp add: sum_list_map_sort_key)
  moreover have "1 \<le> units (stringify ft (J_obj (assign_all ?qs)))" by (simp add: units_small)
  ultimately show ?thesis
    using units_object [of ft "assign_all ?qs"] by (intro exI [of _ "stringify ft (J_obj (assign_all ?qs))"]) linarith
qed

text \<open>The free texts of a payload bound the length of its canonical JSON.\<close>

fun payload_texts :: "projection_payload \<Rightarrow> ustring list" where
  "payload_texts (Topic_payload k s is) = k # s # is"
| "payload_texts (Scenario_payload k t ps os) = k # t # ps @ os"
| "payload_texts (Procedure_payload k g ps ss es fs rs) = k # g # ps @ ss @ es @ fs @ rs"
| "payload_texts (Relation_payload s t r d x) =
     code_points s # code_points t # (case x of None \<Rightarrow> [] | Some y \<Rightarrow> [y])"
| "payload_texts (Core_payload s as cs c ps) = s # as @ cs @ ps"

fun payload_confident :: "projection_payload \<Rightarrow> bool" where
  "payload_confident (Core_payload s as cs c ps) \<longleftrightarrow> c = 1"
| "payload_confident p \<longleftrightarrow> True"

lemma entry_str: "entry_units ft (code_points k, J_str t) \<le> 6 * length k + 6 + 6 * units t"
  using units_quote [of t] by (simp add: entry_units_def)

lemma entry_texts:
  "entry_units ft (code_points k, jtexts ts) \<le> 6 * length k + 6 + (\<Sum>t \<leftarrow> ts. 6 * units t + 3)"
proof -
  have "(\<Sum>t \<leftarrow> ts. units (quote_json t) + 1) \<le> (\<Sum>t \<leftarrow> ts. 6 * units t + 3)"
    by (rule sum_list_mono) (use units_quote in \<open>simp add: add.commute\<close>)
  then show ?thesis using units_array [of ft "map J_str ts"] by (simp add: entry_units_def o_def)
qed

lemma payload_canonical:
  assumes "payload_confident p"
  shows "\<exists>t. canonical_json ft (of_jval (payload_json p)) = Inr t \<and> 1 \<le> units t
    \<and> units t \<le> 1000 + (\<Sum>t \<leftarrow> payload_texts p. 6 * units t + 3)"
proof -
  obtain ps where ps: "payload_json p = J_obj ps" by (cases p) auto
  have leaves: "list_all (\<lambda>p. leaf_ok (snd p)) ps"
    using ps assms by (cases p) (auto split: option.splits)
  have "(\<Sum>p \<leftarrow> ps. entry_units ft p) \<le> 990 + (\<Sum>t \<leftarrow> payload_texts p. 6 * units t + 3)"
  proof (cases p)
    case (Topic_payload k s items)
    with ps entry_str [of ft "''kind''" "code_points ''topic''"] entry_str [of ft "''key''" k]
      entry_str [of ft "''summary''" s] entry_texts [of ft "''open_items''" items]
    show ?thesis by auto
  next
    case (Scenario_payload k t pr os)
    with ps entry_str [of ft "''kind''" "code_points ''scenario''"] entry_str [of ft "''key''" k]
      entry_str [of ft "''trigger''" t] entry_texts [of ft "''preconditions''" pr] entry_texts [of ft "''outcomes''" os]
    show ?thesis by auto
  next
    case (Procedure_payload k g pr ss es fs rs)
    with ps entry_str [of ft "''kind''" "code_points ''procedure''"] entry_str [of ft "''key''" k]
      entry_str [of ft "''goal''" g] entry_texts [of ft "''preconditions''" pr] entry_texts [of ft "''steps''" ss]
      entry_texts [of ft "''exceptions''" es] entry_texts [of ft "''failure_modes''" fs]
      entry_texts [of ft "''recovery_steps''" rs]
    show ?thesis by auto
  next
    case (Relation_payload s t r d x)
    have r: "length (relation_type_string r) \<le> 20" by (cases r) simp_all
    have d: "length (if d then ''directed'' else ''undirected'') \<le> 10" by simp
    have x: "entry_units ft (code_points ''description'', case x of None \<Rightarrow> J_null | Some y \<Rightarrow> J_str y)
        \<le> 80 + (\<Sum>t \<leftarrow> (case x of None \<Rightarrow> [] | Some y \<Rightarrow> [y]). 6 * units t + 3)"
      proof (cases x)
      case (Some y)
      with entry_str [of ft "''description''" y] show ?thesis by simp
    qed (simp add: entry_units_def)
    from Relation_payload ps entry_str [of ft "''kind''" "code_points ''relation''"]
      entry_str [of ft "''source_revision_id''" "code_points s"] entry_str [of ft "''target_revision_id''" "code_points t"]
      entry_str [of ft "''relation_type''" "code_points (relation_type_string r)"] r x
      entry_str [of ft "''direction''" "code_points (if d then ''directed'' else ''undirected'')"] d
    show ?thesis by auto
  next
    case (Core_payload s as cs c pb)
    have "entry_units ft (code_points ''confidence'', J_num 1) \<le> 100"
      by (simp add: entry_units_def number_text_def is_integer_def int_digits_def nat_digits.simps units_small)
    with Core_payload ps assms entry_str [of ft "''kind''" "code_points ''core''"] entry_str [of ft "''statement''" s]
      entry_texts [of ft "''applicability''" as] entry_texts [of ft "''constraints''" cs]
      entry_texts [of ft "''promotion_basis''" pb]
    show ?thesis by auto
  qed
  then show ?thesis using canonical_object [OF leaves, of ft] ps by fastforce
qed

subsection \<open>Texts\<close>

lemma utf16_take_units: "list_all (\<lambda>c. c < 1114112) t \<Longrightarrow> utf16 (utf16_take n t) = take n (utf16 t)"
proof (induction n t rule: utf16_take.induct)
  case (2 n c cs)
  show ?case
  proof (cases "c < 65536")
    case True
    with 2 show ?thesis by (cases n) (simp_all add: utf16_small)
  next
    case False
    consider "n = 0" | "n = 1" | m where "n = Suc (Suc m)"
      by (metis One_nat_def not0_implies_Suc)
    then show ?thesis
    proof cases
      case 2
      moreover have "(c - 65536) div 1024 < 1024" using "2.prems" by (intro less_mult_imp_div_less) auto
      ultimately show ?thesis using False by (simp add: utf16_large utf16_small)
    next
      case 3
      with "2" False show ?thesis by (simp add: utf16_large)
    qed simp
  qed
qed simp

lemma units_sum: "units t = (\<Sum>c \<leftarrow> t. units [c])"
proof (induction t)
  case (Cons c t)
  then show ?case using utf16_Cons [of c t] by simp
qed simp

lemma units_rev [simp]: "units (rev t) = units t"
  by (simp add: units_sum [of "rev t"] units_sum [of t] rev_map [symmetric])

lemma units_dropWhile: "units (dropWhile P t) \<le> units t"
proof (induction t)
  case (Cons c t)
  then show ?case using utf16_Cons [of c t] by auto
qed simp

lemma units_trim: "units (js_trim t) \<le> units t"
  using units_dropWhile [of js_space "rev (dropWhile js_space t)"] units_dropWhile [of js_space t]
  by (simp add: js_trim_def)

lemma units_ge_one: "t \<noteq> [] \<Longrightarrow> 1 \<le> units t"
  using units_pos(1) [of "hd t"] utf16_Cons [of "hd t" "tl t"] by (cases t) simp_all

lemma trim_nonempty: "t \<noteq> [] \<Longrightarrow> \<not> js_space (hd t) \<Longrightarrow> js_trim t \<noteq> []"
  by (cases t) (auto simp: js_trim_def)

lemma text_okI: "t \<noteq> [] \<Longrightarrow> \<not> js_space (hd t) \<Longrightarrow> units t \<le> 8000 \<Longrightarrow> projection_text_ok t"
  using units_trim [of t] units_ge_one [OF trim_nonempty] by (simp add: projection_text_ok_def)

lemma identifier_text:
  assumes "identifier_ok s"
  shows "code_points s \<noteq> []" "\<not> js_space (hd (code_points s))" "units (code_points s) \<le> 160"
proof -
  show "units (code_points s) \<le> 160" using assms by (simp add: identifier_ok_def)
  obtain c cs where c: "s = c # cs" "ascii_alnum c" using assms by (cases s) (auto simp: identifier_ok_def)
  then show "code_points s \<noteq> []" "\<not> js_space (hd (code_points s))"
    by (auto simp: code_points_def ascii_alnum_def js_space_def Let_def)
qed

lemma scope_key_text:
  assumes "scope_ok sc"
  shows "code_points (scope_key sc) \<noteq> []" "\<not> js_space (hd (code_points (scope_key sc)))"
    "units (code_points (scope_key sc)) \<le> 180"
proof -
  have "length (scope_id sc) \<le> 160" using assms by (simp add: scope_ok_def identifier_ok_def)
  then show "units (code_points (scope_key sc)) \<le> 180"
    unfolding units_code_points scope_key_def by (cases "scope_kind_of sc") simp_all
  show "code_points (scope_key sc) \<noteq> []" "\<not> js_space (hd (code_points (scope_key sc)))"
    unfolding scope_key_def by (cases "scope_kind_of sc"; simp add: code_points_def js_space_def)+
qed

subsection \<open>Validity and sensitivity\<close>

lemma sorted_map_last: "sorted (map f ys) \<Longrightarrow> y \<in> set ys \<Longrightarrow> f y \<le> f (last ys)"
  by (induction ys) auto

lemma sort_key_last: "x \<in> set xs \<Longrightarrow> f x \<le> f (last (sort_key f xs))"
  by (rule sorted_map_last) simp_all

lemma sort_key_last_mem: "xs \<noteq> [] \<Longrightarrow> last (sort_key f xs) \<in> set xs"
  using last_in_set [of "sort_key f xs"] by (metis set_empty set_sort)

lemma sort_key_hd: "sort_key f xs = y # ys \<Longrightarrow> x \<in> set xs \<Longrightarrow> f y \<le> f x"
  by (metis list.set_intros(1) list.simps(9) set_ConsD set_sort sorted_simps(2) sorted_sort_key set_map imageI order_refl)

lemma set_map_filter: "set (List.map_filter f xs) = {y. \<exists>x \<in> set xs. f x = Some y}"
  by (induction xs) (auto split: option.splits)

definition policy_times :: "search_item list \<Rightarrow> timestamp list" where
  "policy_times ss = concat (map (\<lambda>s. let w = si_validity s in
     [valid_from w, recorded_at w] @ (case valid_to w of None \<Rightarrow> [] | Some t \<Rightarrow> [t])) ss)"

text \<open>The texts of the timestamps sort as the instants they denote.\<close>

definition iso_consistent :: "timestamp list \<Rightarrow> bool" where
  "iso_consistent ts \<longleftrightarrow> (\<forall>x \<in> set ts. \<forall>y \<in> set ts. iso x \<le> iso y \<longrightarrow> epoch_ms x \<le> epoch_ms y)"

definition policy_source_ok :: "projection_input \<Rightarrow> int \<Rightarrow> search_item \<Rightarrow> bool" where
  "policy_source_ok i now s \<longleftrightarrow> search_item_ok s \<and> si_scope s = pi_scope i
     \<and> (case si_content s of Inline t m \<Rightarrow> projection_text_ok t \<and> units t \<le> 8000 \<and> list_all (\<lambda>c. c < 1114112) t
        | Blob h n m \<Rightarrow> False)
     \<and> epoch_ms (valid_from (si_validity s)) \<le> now
     \<and> (case valid_to (si_validity s) of None \<Rightarrow> True | Some e \<Rightarrow> now \<le> epoch_ms e)"

definition projection_input_ok :: "projection_input \<Rightarrow> int \<Rightarrow> bool" where
  "projection_input_ok i now \<longleftrightarrow> identifier_ok (pi_principal i) \<and> scope_ok (pi_scope i)
     \<and> list_all (policy_source_ok i now) (pi_sources i) \<and> distinct (map si_revision_id (pi_sources i))
     \<and> length (pi_sources i) \<le> 100000 \<and> iso_consistent (policy_times (pi_sources i))"

lemma input_source_ok: "projection_input_ok i now \<Longrightarrow> s \<in> set (pi_sources i) \<Longrightarrow> policy_source_ok i now s"
  by (simp add: projection_input_ok_def list_all_iff)

lemma intersect_ok:
  assumes "projection_input_ok i now" and "ss \<noteq> []" "set ss \<subseteq> set (pi_sources i)"
  shows "\<exists>w. intersect_validity ss = Inr w \<and> validity_window_ok w
    \<and> (\<forall>s \<in> set ss. epoch_ms (valid_from (si_validity s)) \<le> epoch_ms (valid_from w)
        \<and> epoch_ms (recorded_at (si_validity s)) \<le> epoch_ms (recorded_at w)
        \<and> (case valid_to (si_validity s) of None \<Rightarrow> True
           | Some t \<Rightarrow> (case valid_to w of None \<Rightarrow> False | Some u \<Rightarrow> epoch_ms u \<le> epoch_ms t)))"
proof -
  let ?from = "map (\<lambda>s. valid_from (si_validity s)) ss" and ?rec = "map (\<lambda>s. recorded_at (si_validity s)) ss"
  let ?ends = "List.map_filter (\<lambda>s. valid_to (si_validity s)) ss"
  have times: "set ?from \<union> set ?rec \<union> set ?ends \<subseteq> set (policy_times (pi_sources i))"
    using assms(3) by (force simp: policy_times_def Let_def set_map_filter)
  have order: "epoch_ms x \<le> epoch_ms y" if "iso x \<le> iso y" "x \<in> set ts" "y \<in> set ts" "ts \<in> {?from, ?rec, ?ends}" for x y ts
    using assms(1) times that unfolding projection_input_ok_def iso_consistent_def by blast
  have now: "epoch_ms (valid_from (si_validity s)) \<le> now"
    "\<And>e. valid_to (si_validity s) = Some e \<Longrightarrow> now \<le> epoch_ms e" if "s \<in> set ss" for s
    using input_source_ok [OF assms(1), of s] assms(3) that by (auto simp: policy_source_ok_def)
  let ?w = "\<lparr>valid_from = last (sort_key iso ?from), valid_to = (case sort_key iso ?ends of [] \<Rightarrow> None | t # ts \<Rightarrow> Some t),
    recorded_at = last (sort_key iso ?rec)\<rparr>"
  have last: "last (sort_key iso ?from) \<in> set ?from" "last (sort_key iso ?rec) \<in> set ?rec"
    using assms(2) by (intro sort_key_last_mem; simp)+
  have "epoch_ms (last (sort_key iso ?from)) \<le> now" using last(1) now(1) by auto
  moreover have "now \<le> epoch_ms u" if u: "valid_to ?w = Some u" for u
  proof -
    obtain us where "sort_key iso ?ends = u # us" using u by (auto split: list.splits)
    then have "u \<in> set ?ends" by (metis list.set_intros(1) set_sort)
    then show ?thesis using now(2) by (auto simp: set_map_filter)
  qed
  ultimately have "validity_window_ok ?w" unfolding validity_window_ok_def
    by (cases "sort_key iso ?ends") (auto intro: order_trans [of _ now])
  moreover have "epoch_ms x \<le> epoch_ms (last (sort_key iso ts))" if "x \<in> set ts" "ts \<in> {?from, ?rec}" for x ts
    using that last by (intro order [OF sort_key_last]) auto
  then have "epoch_ms (valid_from (si_validity s)) \<le> epoch_ms (valid_from ?w)
      \<and> epoch_ms (recorded_at (si_validity s)) \<le> epoch_ms (recorded_at ?w)" if "s \<in> set ss" for s
    using that by simp
  moreover have "case valid_to ?w of None \<Rightarrow> False | Some u \<Rightarrow> epoch_ms u \<le> epoch_ms t"
    if s: "s \<in> set ss" "valid_to (si_validity s) = Some t" for s t
  proof -
    have t: "t \<in> set ?ends" using s by (force simp: set_map_filter)
    then have "sort_key iso ?ends \<noteq> []" by (metis empty_iff list.set(1) set_sort)
    then obtain u us where u: "sort_key iso ?ends = u # us" by (meson neq_Nil_conv)
    then have "u \<in> set ?ends" by (metis list.set_intros(1) set_sort)
    then show ?thesis using u t sort_key_hd [OF u t] order by simp
  qed
  moreover have "intersect_validity ss = Inr ?w" using assms(2) by (simp add: intersect_validity_def)
  ultimately show ?thesis by (intro exI [of _ ?w] conjI ballI) (blast | simp split: option.split)+
qed

lemma strictest_ok:
  assumes "ss \<noteq> []"
  shows "\<exists>x. strictest_sensitivity ss = Inr x \<and> (\<forall>s \<in> set ss. sensitivity_rank (si_sensitivity s) \<le> sensitivity_rank x)"
proof -
  let ?f = "\<lambda>s. - int (sensitivity_rank (si_sensitivity s))"
  obtain y ys where y: "sort_key ?f ss = y # ys" using assms by (cases "sort_key ?f ss") (metis set_empty set_sort)+
  then show ?thesis using sort_key_hd [OF y] by (force simp: strictest_sensitivity_def)
qed

subsection \<open>One projection\<close>

lemma normalized_order_set [simp]:
  "set (normalized_source_order ss) = set ss" "normalized_source_order ss = [] \<longleftrightarrow> ss = []"
  "length (normalized_source_order ss) = length ss"
  by (simp_all add: normalized_source_order_def) (metis set_empty set_sort)

lemma normalized_order_distinct:
  "distinct (map si_revision_id (normalized_source_order ss)) \<longleftrightarrow> distinct (map si_revision_id ss)"
  by (simp add: distinct_map normalized_source_order_def)

lemma unique_sorted_facts [simp]:
  "set (unique_sorted xs) = set xs" "distinct (unique_sorted xs)" "unique_sorted xs = [] \<longleftrightarrow> xs = []"
  by (simp_all add: unique_sorted_def) (metis set_empty set_js_set set_sort)

lemma same_unique_sorted: "same_string_set (unique_sorted xs) xs"
proof -
  have "sort (js_set (unique_sorted xs)) = sort (js_set xs)"
    by (simp add: js_set_distinct) (simp add: unique_sorted_def sorted_sort_id)
  then show ?thesis
    by (simp add: same_string_set_def unique_sorted_def list.rel_eq Let_def js_set_distinct)
qed

text \<open>The reference to a governed source.\<close>

definition ref_of :: "string \<Rightarrow> search_item \<Rightarrow> projection_source" where
  "ref_of who s = \<lparr>src_memory_id = si_memory_id s, src_revision_id = si_revision_id s, src_abstraction = L1_memory,
     src_principal_id = who, src_scope = si_scope s, src_authority = si_authority s,
     src_sensitivity = si_sensitivity s, src_validity = si_validity s, src_content_hash = si_content_hash s,
     src_evidence_ids = unique_sorted (si_evidence_ids s)\<rparr>"

lemma ref_of_simps [simp]:
  "src_revision_id (ref_of who s) = si_revision_id s" "src_principal_id (ref_of who s) = who"
  "src_scope (ref_of who s) = si_scope s" "src_sensitivity (ref_of who s) = si_sensitivity s"
  "src_validity (ref_of who s) = si_validity s" "src_abstraction (ref_of who s) = L1_memory"
  "src_evidence_ids (ref_of who s) = unique_sorted (si_evidence_ids s)"
  by (simp_all add: ref_of_def)

lemma ref_ok: "search_item_ok s \<Longrightarrow> identifier_ok who \<Longrightarrow> projection_source_ok (ref_of who s)"
  by (auto simp: projection_source_ok_def ref_of_def search_item_ok_def list_all_iff js_set_distinct)

lemma source_ref_ok: "search_item_ok s \<Longrightarrow> identifier_ok who \<Longrightarrow> source_ref who s = Inr (ref_of who s)"
  using ref_ok [of s who] by (simp add: source_ref_def Let_def ref_of_def)

lemma refs_ok:
  assumes "projection_input_ok i now" and "set ss \<subseteq> set (pi_sources i)"
  shows "mapE (source_ref (pi_principal i)) ss = Inr (map (ref_of (pi_principal i)) ss)"
proof (rule mapE_total)
  fix s assume "s \<in> set ss"
  then have "search_item_ok s" using input_source_ok [OF assms(1), of s] assms(2) by (auto simp: policy_source_ok_def)
  then show "source_ref (pi_principal i) s = Inr (ref_of (pi_principal i) s)"
    using assms(1) by (simp add: source_ref_ok projection_input_ok_def)
qed

text \<open>A payload that the policy can turn into a projection of the sources.\<close>

definition payload_fits :: "projection_payload \<Rightarrow> search_item list \<Rightarrow> bool" where
  "payload_fits x ss \<longleftrightarrow> projection_payload_ok x \<and> payload_confident x
     \<and> (\<Sum>t \<leftarrow> payload_texts x. 6 * units t + 3) \<le> 255000
     \<and> (case x of Relation_payload a b r d y \<Rightarrow> {a, b} \<subseteq> si_revision_id ` set ss | _ \<Rightarrow> True)"

text \<open>\<open>ProjectionPayloadSchema\<close> applied to the payload of a conforming revision.\<close>

definition published :: "policy_env \<Rightarrow> projection_revision \<Rightarrow> projection_revision" where
  "published v q = q\<lparr>proj_payload := map_option (parse_payload v) (proj_payload q)\<rparr>"

lemma describe_ok:
  assumes "\<And>j. canonical_hash_ok (pe_sha v j)" and "projection_input_ok i now"
    and "ss \<noteq> []" "set ss \<subseteq> set (pi_sources i)" "payload_fits x ss"
  shows "\<exists>d. describe v i x ss = Inr d \<and> de_payload d = x \<and> de_sources d = normalized_source_order ss
    \<and> content_ref_ok (de_content d) \<and> canonical_hash_ok (de_content_hash d)
    \<and> identifier_ok (de_projection_id d)"
proof -
  obtain t where t: "canonical_json (pe_fraction v) (of_jval (payload_json x)) = Inr t" "1 \<le> units t" "units t \<le> 256000"
    using payload_canonical [of x "pe_fraction v"] assms(5) by (fastforce simp: payload_fits_def)
  have ids: "list_all identifier_ok (map si_revision_id (normalized_source_order ss))"
    using input_source_ok [OF assms(2)] assms(4)
    by (auto simp: list_all_iff policy_source_ok_def search_item_ok_def)
  have "take 64 (drop 7 (pe_sha v j)) = drop 7 (pe_sha v j)" for j
    using assms(1) [of j] by (simp add: canonical_hash_ok_def)
  then have "identifier_ok (projection_identity (pe_sha v) a b c e f g)" for a b c e f g
    using hashed_identifier_ok [OF assms(1), of "''projection:''" 64]
    by (simp add: projection_identity_def identifier_char_def ascii_alnum_def)
  then show ?thesis
    using t ids assms(1-3) by (simp add: describe_def Let_def projection_input_ok_def)
qed

lemma build_ok:
  assumes sha: "\<And>j. canonical_hash_ok (pe_sha v j)" and i: "projection_input_ok i now"
    and ss: "ss \<noteq> []" "set ss \<subseteq> set (pi_sources i)" "distinct (map si_revision_id ss)" and x: "payload_fits x ss"
    and d: "de_payload d = x" "de_sources d = normalized_source_order ss" "content_ref_ok (de_content d)"
      "canonical_hash_ok (de_content_hash d)" "identifier_ok (de_projection_id d)"
    and fr: "pf_transform fr = projection_transform"
  shows "\<exists>q. projection_revision_ok q \<and> build_projection v i fr d = Inr (published v q)
    \<and> projection_type q = payload_kind x \<and> proj_payload q = Some x
    \<and> source_revisions q = map (ref_of (pi_principal i)) (normalized_source_order ss)"
proof -
  let ?os = "normalized_source_order ss" and ?refs = "map (ref_of (pi_principal i)) (normalized_source_order ss)"
  have os: "?os \<noteq> []" "set ?os \<subseteq> set (pi_sources i)" using ss by simp_all
  obtain w where w: "intersect_validity ?os = Inr w" "validity_window_ok w"
    and inside: "\<And>s. s \<in> set ss \<Longrightarrow> epoch_ms (valid_from (si_validity s)) \<le> epoch_ms (valid_from w)
        \<and> epoch_ms (recorded_at (si_validity s)) \<le> epoch_ms (recorded_at w)
        \<and> (case valid_to (si_validity s) of None \<Rightarrow> True
           | Some t \<Rightarrow> (case valid_to w of None \<Rightarrow> False | Some u \<Rightarrow> epoch_ms u \<le> epoch_ms t))"
    using intersect_ok [OF i os] by auto
  obtain se where se: "strictest_sensitivity ?os = Inr se" "\<And>s. s \<in> set ss \<Longrightarrow> sensitivity_rank (si_sensitivity s) \<le> sensitivity_rank se"
    using strictest_ok [OF os(1)] by auto
  have item: "search_item_ok s" "si_scope s = pi_scope i" if "s \<in> set ss" for s
    using input_source_ok [OF i, of s] that ss(2) by (auto simp: policy_source_ok_def)
  define q where "q = \<lparr>projection_id = de_projection_id d,
        projection_revision_id = ''projection-revision:'' @ take 41 (drop 7 (pe_sha v (jobj
          [(''projection_id'', jstr (de_projection_id d)), (''frontier'', projection_frontier_json fr)]))),
        proj_revision_no = 1, projection_type = payload_kind (de_payload d),
        proj_abstraction = projection_abstraction (payload_kind (de_payload d)),
        proj_principal_id = pi_principal i, proj_scope = pi_scope i, proj_lifecycle = Active,
        proj_sensitivity = se, proj_validity = w, proj_payload = Some (de_payload d),
        proj_content = Some (de_content d), proj_content_hash = de_content_hash d, source_revisions = ?refs,
        proj_evidence_ids = unique_sorted (concat (map src_evidence_ids ?refs)), supersedes_projection = None,
        proj_transform = projection_transform, proj_frontier = fr, proj_created_at = recorded_at w,
        invalidated_at = None, invalidation_reason = None\<rparr>"
  have revision: "identifier_ok (projection_revision_id q)"
    using hashed_identifier_ok [OF sha, of "''projection-revision:''"]
    by (simp add: q_def identifier_char_def ascii_alnum_def)
  have evidence: "list_all identifier_ok (proj_evidence_ids q)" "proj_evidence_ids q \<noteq> []"
    using item(1) ss(1) by (auto simp: q_def list_all_iff search_item_ok_def)
  have admissible: "list_all (source_admissible q) (source_revisions q)"
  proof -
    have "source_admissible q (ref_of (pi_principal i) s)" if s: "s \<in> set ss" for s
      using item(2) [OF s] inside [OF s] se(2) [OF s]
      by (cases "payload_kind (de_payload d)") (auto simp: source_admissible_def q_def split: option.splits)
    then show ?thesis by (simp add: q_def list_all_iff)
  qed
  have sources: "list_all projection_source_ok (source_revisions q)"
    using item(1) i by (auto simp: q_def list_all_iff projection_input_ok_def intro: ref_ok)
  have "distinct (map src_revision_id (source_revisions q))"
    using ss(3) by (simp add: q_def o_def normalized_order_distinct)
  then have unique: "length (js_set (map src_revision_id (source_revisions q))) = length (source_revisions q)"
    by (simp add: js_set_distinct)
  have ends: "case proj_payload q of Some (Relation_payload a b r e y) \<Rightarrow>
      a \<in> set (map src_revision_id (source_revisions q)) \<and> b \<in> set (map src_revision_id (source_revisions q)) | _ \<Rightarrow> True"
    using x by (auto simp: q_def d(1) payload_fits_def image_image split: projection_payload.splits)
  have "projection_revision_ok q"
    unfolding projection_revision_ok_def
  proof (intro conjI)
    show "list_all identifier_ok ([projection_id q, projection_revision_id q, proj_principal_id q] @ proj_evidence_ids q)"
      using revision evidence(1) i d(5) by (simp add: projection_input_ok_def q_def)
    show "proj_abstraction q \<in> {L2_topic, L2_scenario, L2_relation, L3_core}"
      by (cases "payload_kind (de_payload d)") (simp_all add: q_def)
    show "same_string_set (proj_evidence_ids q) (concat (map src_evidence_ids (source_revisions q)))"
      by (simp add: q_def same_unique_sorted)
  qed (use i w d x fr os evidence sources unique admissible ends in
    \<open>simp_all add: q_def projection_input_ok_def payload_fits_def\<close>)
  moreover from this have "build_projection v i fr d = Inr (published v q)"
    unfolding build_projection_def d(2) refs_ok [OF i os(2)] bindE_simps w(1) se(1)
    by (simp add: parse_projection_def q_def published_def)
  ultimately show ?thesis
    using d by (intro exI [of _ q]) (simp add: q_def)
qed

subsection \<open>The payloads of the policy\<close>

lemma mapE_ex:
  assumes "\<And>x. x \<in> set xs \<Longrightarrow> \<exists>y. f x = Inr y \<and> P x y"
  shows "\<exists>ys. mapE f xs = Inr ys \<and> list_all2 P xs ys"
  using assms
proof (induction xs)
  case (Cons x xs)
  then obtain y ys where "f x = Inr y" "P x y" "mapE f xs = Inr ys" "list_all2 P xs ys"
    by (metis list.set_intros)
  then show ?case by simp
qed simp

lemma key_okI: "t \<noteq> [] \<Longrightarrow> \<not> js_space (hd t) \<Longrightarrow> units t \<le> 500 \<Longrightarrow> projection_key_ok t"
  using units_trim [of t] units_ge_one [OF trim_nonempty] by (simp add: projection_key_ok_def)

lemma source_text_ok:
  assumes "projection_input_ok i now" "s \<in> set (pi_sources i)"
  obtains t where "source_text s = Inr t" "projection_text_ok t" "units t \<le> 8000" "list_all (\<lambda>c. c < 1114112) t"
    "identifier_ok (si_memory_id s)"
  using input_source_ok [OF assms]
  by (auto simp: policy_source_ok_def source_text_def search_item_ok_def split: content_ref.splits)

lemma kind_line: "code_points (memory_kind_string k @ '': '') \<noteq> []"
  "hd (code_points (memory_kind_string k @ '': '') @ t) < 65536"
  "\<not> js_space (hd (code_points (memory_kind_string k @ '': '') @ t))"
  "list_all (\<lambda>c. c < 1114112) (code_points (memory_kind_string k @ '': ''))"
  by (cases k; simp add: code_points_def js_space_def)+

lemma topic_lines:
  assumes "projection_input_ok i now" "set ss \<subseteq> set (pi_sources i)" "ss \<noteq> []"
  shows "\<exists>ls. mapE topic_line ss = Inr ls \<and> projection_text_ok (utf16_take 8000 (join_texts [10] ls))
    \<and> units (utf16_take 8000 (join_texts [10] ls)) \<le> 8000"
proof -
  let ?P = "\<lambda>(s :: search_item) l. l \<noteq> [] \<and> hd l < 65536 \<and> \<not> js_space (hd l) \<and> list_all (\<lambda>c. c < 1114112) l"
  have "\<exists>ls. mapE topic_line ss = Inr ls \<and> list_all2 ?P ss ls"
  proof (rule mapE_ex)
    fix s assume "s \<in> set ss"
    then obtain t where "source_text s = Inr t" "list_all (\<lambda>c. c < 1114112) t"
      using source_text_ok [OF assms(1), of s] assms(2) by blast
    then show "\<exists>l. topic_line s = Inr l \<and> ?P s l"
      using kind_line [of "si_kind s"] by (simp add: topic_line_def)
  qed
  then obtain ls where ls: "mapE topic_line ss = Inr ls" "list_all2 ?P ss ls" by blast
  then obtain c cs us where c: "ls = (c # cs) # us" "c < 65536" "\<not> js_space c"
    using assms(3) by (cases ss; cases ls) (auto simp: neq_Nil_conv)
  have "list_all (list_all (\<lambda>c. c < 1114112)) ls" using ls(2) by (induction rule: list_all2_induct) auto
  then have valid: "list_all (\<lambda>c. c < 1114112) (join_texts [10] ls)"
    using c(1) by (auto simp: join_texts_def list_all_iff)
  obtain rest where "join_texts [10] ls = c # rest" using c(1) by (simp add: join_texts_def)
  then have first: "utf16_take 8000 (join_texts [10] ls) \<noteq> []" "\<not> js_space (hd (utf16_take 8000 (join_texts [10] ls)))"
    using c by simp_all
  have "units (utf16_take 8000 (join_texts [10] ls)) \<le> 8000" using utf16_take_units [OF valid, of 8000] by simp
  with ls(1) first show ?thesis by (auto intro: text_okI)
qed

lemma topic_ok:
  assumes "\<And>j. canonical_hash_ok (pe_sha v j)" and "projection_input_ok i now" "set ss \<subseteq> set (pi_sources i)" "ss \<noteq> []"
  shows "\<exists>x d. topic_descriptor v i ss = Inr d \<and> describe v i x ss = Inr d \<and> payload_fits x ss \<and> payload_kind x = Pt_topic"
proof -
  obtain ls where ls: "mapE topic_line ss = Inr ls" "projection_text_ok (utf16_take 8000 (join_texts [10] ls))"
    "units (utf16_take 8000 (join_texts [10] ls)) \<le> 8000"
    using topic_lines [OF assms(2-4)] by blast
  let ?x = "Topic_payload (code_points (scope_key (pi_scope i))) (utf16_take 8000 (join_texts [10] ls)) []"
  have "scope_ok (pi_scope i)" using assms(2) by (simp add: projection_input_ok_def)
  note k = scope_key_text [OF this]
  have fits: "payload_fits ?x ss" using ls(2,3) k by (simp add: payload_fits_def key_okI text_list_ok_def del: units_code_points)
  then obtain d where "describe v i ?x ss = Inr d" using describe_ok [OF assms(1,2,4,3) fits] by blast
  with fits ls(1) show ?thesis by (intro exI [of _ ?x] exI [of _ d]) (simp add: topic_descriptor_def)
qed

lemma single_ok:
  assumes "\<And>j. canonical_hash_ok (pe_sha v j)" and i: "projection_input_ok i now" and s: "s \<in> set (pi_sources i)"
  shows "\<exists>ds. single_descriptor v i s = Inr ds
    \<and> (\<forall>d \<in> set ds. \<exists>x. describe v i x [s] = Inr d \<and> payload_fits x [s])
    \<and> (si_kind s \<noteq> Semantic \<longrightarrow> (\<exists>x d. ds = [d] \<and> describe v i x [s] = Inr d \<and> payload_fits x [s]
        \<and> payload_kind x = (if si_kind s = Episodic then Pt_scenario else Pt_procedure)))"
proof -
  obtain t where t: "source_text s = Inr t" "projection_text_ok t" "units t \<le> 8000" "identifier_ok (si_memory_id s)"
    using source_text_ok [OF i s] by blast
  note k = identifier_text [OF t(4)]
  let ?k = "code_points (si_memory_id s)"
  have fits: "payload_fits (Scenario_payload ?k t [] [t]) [s]" "payload_fits (Procedure_payload ?k t [] [t] [] [] []) [s]"
    using t(2,3) k by (simp_all add: payload_fits_def key_okI text_list_ok_def del: units_code_points)
  have sub: "[s] \<noteq> []" "set [s] \<subseteq> set (pi_sources i)" using s by simp_all
  obtain d e where "describe v i (Scenario_payload ?k t [] [t]) [s] = Inr d"
    "describe v i (Procedure_payload ?k t [] [t] [] [] []) [s] = Inr e"
    using describe_ok [OF assms(1) i sub fits(1)] describe_ok [OF assms(1) i sub fits(2)] by blast
  then show ?thesis
    using t(1) fits by (cases "si_kind s") (force simp: single_descriptor_def Let_def)+
qed

subsection \<open>Groups and pairs\<close>

lemma add_to_group_mset: "mset (concat (map snd (add_to_group k x gs))) = add_mset x (mset (concat (map snd gs)))"
  by (induction k x gs rule: add_to_group.induct) auto

lemma core_groups_mset:
  assumes "\<And>s. s \<in> set ss \<Longrightarrow> \<exists>t. source_text s = Inr t"
  shows "\<exists>hs. core_groups v ss gs = Inr hs \<and> mset (concat (map snd hs))
    = mset (concat (map snd gs)) + mset (filter (\<lambda>s. si_kind s = Semantic) ss)"
  using assms
proof (induction ss arbitrary: gs)
  case (Cons s ss)
  obtain t where t: "source_text s = Inr t" using Cons.prems by auto
  show ?case
  proof (cases "si_kind s = Semantic")
    case True
    from Cons.IH [of "add_to_group (normalize_logical_key (pe_nfkc v) (pe_lower v) t) s gs"] Cons.prems
    show ?thesis using True t by (auto simp: add_to_group_mset)
  next
    case False
    with Cons show ?thesis by simp
  qed
qed simp

lemma distinct_submset:
  assumes "distinct ys" and "mset xs \<subseteq># mset ys"
  shows "distinct xs"
  unfolding distinct_count_atmost_1
proof
  fix a
  have "count (mset xs) a \<le> count (mset ys) a" using assms(2) by (rule mset_subset_eq_count)
  also have "\<dots> \<le> 1" using assms(1) by (simp add: distinct_count_atmost_1)
  finally show "count (mset xs) a = (if a \<in> set xs then 1 else 0)"
    using count_greater_zero_iff [of "mset xs" a] by (auto simp del: count_greater_zero_iff)
qed

lemma group_sources:
  assumes "core_groups v ss [] = Inr hs" and "\<And>s. s \<in> set ss \<Longrightarrow> \<exists>t. source_text s = Inr t"
    and "distinct (map si_revision_id ss)" and "g \<in> set hs"
  shows "set (snd g) \<subseteq> set ss \<and> distinct (map si_revision_id (snd g)) \<and> length (snd g) \<le> length ss"
proof -
  have "mset (concat (map snd hs)) = mset (filter (\<lambda>s. si_kind s = Semantic) ss)"
    using core_groups_mset [of ss v "[]"] assms(1,2) by auto
  also have "\<dots> \<subseteq># mset ss" by simp
  finally have all: "mset (concat (map snd hs)) \<subseteq># mset ss" .
  have "mset (snd g) \<subseteq># mset (concat (map snd hs))"
    using assms(4) by (induction hs) (auto intro: subset_mset.order_trans)
  with all have sub: "mset (snd g) \<subseteq># mset ss" by (rule subset_mset.order_trans [rotated])
  then have "mset (map si_revision_id (snd g)) \<subseteq># mset (map si_revision_id ss)"
    by (simp add: image_mset_subseteq_mono)
  then have "distinct (map si_revision_id (snd g))"
    by (rule distinct_submset [OF assms(3)])
  with sub show ?thesis using set_mset_mono [OF sub] size_mset_mono [OF sub] by simp
qed

lemma precedence_pairs_sources:
  assumes "(s, t) \<in> set (precedence_pairs ss)" and "distinct (map si_revision_id ss)"
  shows "s \<in> set ss \<and> t \<in> set ss \<and> si_revision_id s \<noteq> si_revision_id t"
  using assms by (induction ss rule: precedence_pairs.induct) (auto split: if_splits)

lemma nat_digits_units: "n < 10 ^ Suc k \<Longrightarrow> units (nat_digits n) \<le> Suc k"
proof (induction k arbitrary: n)
  case 0
  then show ?case by (simp add: nat_digits.simps [of n] units_small)
next
  case (Suc k)
  then have "n div 10 < 10 ^ Suc k" by (simp add: less_mult_imp_div_less)
  from Suc.IH [OF this] show ?case
    by (simp add: nat_digits.simps [of n] units_small)
qed

lemma nat_digits_first: "nat_digits n \<noteq> []" "\<not> js_space (hd (nat_digits n))"
proof -
  have "nat_digits n \<noteq> [] \<and> 48 \<le> hd (nat_digits n) \<and> hd (nat_digits n) < 58"
  proof (induction n rule: nat_digits.induct)
    case (1 n)
    then show ?case by (simp add: nat_digits.simps [of n])
  qed
  then show "nat_digits n \<noteq> []" "\<not> js_space (hd (nat_digits n))" by (auto simp: js_space_def)
qed

lemma core_ok:
  assumes "\<And>j. canonical_hash_ok (pe_sha v j)" and i: "projection_input_ok i now"
    and g: "set (snd g) \<subseteq> set (pi_sources i)" "2 \<le> length (snd g)" "length (snd g) \<le> 100000"
  shows "\<exists>d x. core_descriptor v i g = Inr d \<and> describe v i x (snd g) = Inr d \<and> payload_fits x (snd g)"
proof -
  have ne: "snd g \<noteq> []" using g(2) by auto
  then have "hd (normalized_source_order (snd g)) \<in> set (snd g)"
    using hd_in_set [of "normalized_source_order (snd g)"] by simp
  then obtain t where t: "source_text (hd (normalized_source_order (snd g))) = Inr t" "projection_text_ok t" "units t \<le> 8000"
    using source_text_ok [OF i] g(1) by blast
  have "scope_ok (pi_scope i)" using i by (simp add: projection_input_ok_def)
  note k = scope_key_text [OF this]
  let ?why = "nat_digits (length (snd g)) @ code_points '' exact governed sources carry the same statement.''"
  have why: "units ?why \<le> 100" "?why \<noteq> []" "\<not> js_space (hd ?why)"
    using nat_digits_units [of "length (snd g)" 5] g(3) nat_digits_first [of "length (snd g)"] by simp_all
  let ?rule = "code_points ''Revalidate every source revision before Context use.''"
  have rule: "units ?rule \<le> 60" "?rule \<noteq> []" "\<not> js_space (hd ?rule)"
    by (simp, simp_all add: code_points_def js_space_def)
  let ?x = "Core_payload t [code_points (scope_key (pi_scope i))] [?rule] 1 [?why]"
  have "projection_text_ok (code_points (scope_key (pi_scope i)))" "projection_text_ok ?rule" "projection_text_ok ?why"
    using k rule why by (auto intro!: text_okI simp del: units_code_points)
  then have fits: "payload_fits ?x (snd g)"
    unfolding payload_fits_def using t(2,3) k(3) rule(1) why(1)
    by (simp add: text_list_ok_def del: units_code_points utf16_append)
  from describe_ok [OF assms(1) i ne g(1) fits] obtain d where "describe v i ?x (snd g) = Inr d" by blast
  with fits t(1) show ?thesis by (intro exI [of _ d] exI [of _ ?x]) (simp add: core_descriptor_def)
qed

lemma relation_ok:
  assumes "\<And>j. canonical_hash_ok (pe_sha v j)" and i: "projection_input_ok i now"
    and p: "{fst p, snd p} \<subseteq> set (pi_sources i)" "si_revision_id (fst p) \<noteq> si_revision_id (snd p)"
  shows "\<exists>d x. relation_descriptor v i p = Inr d \<and> describe v i x [fst p, snd p] = Inr d
    \<and> payload_fits x [fst p, snd p]"
proof -
  let ?d = "code_points ''The source validity window begins before the target window.''"
  let ?x = "Relation_payload (si_revision_id (fst p)) (si_revision_id (snd p)) Precedes True (Some ?d)"
  have d: "units ?d \<le> 60" by simp
  have "?d \<noteq> []" "\<not> js_space (hd ?d)" by (simp_all add: code_points_def js_space_def)
  then have "projection_text_ok ?d" using d by (intro text_okI) (assumption | linarith)+
  moreover have ids: "identifier_ok (si_revision_id (fst p))" "identifier_ok (si_revision_id (snd p))"
    using input_source_ok [OF i] p(1) by (auto simp: policy_source_ok_def search_item_ok_def)
  moreover have "units (code_points (si_revision_id (fst p))) \<le> 160" "units (code_points (si_revision_id (snd p))) \<le> 160"
    using identifier_text(3) ids by blast+
  ultimately have fits: "payload_fits ?x [fst p, snd p]"
    unfolding payload_fits_def using p(2) d by (simp del: units_code_points)
  have "[fst p, snd p] \<noteq> []" "set [fst p, snd p] \<subseteq> set (pi_sources i)" using p(1) by simp_all
  from describe_ok [OF assms(1) i this fits] obtain e where "describe v i ?x [fst p, snd p] = Inr e" by blast
  with fits show ?thesis by (intro exI [of _ e] exI [of _ ?x]) (simp add: relation_descriptor_def)
qed

subsection \<open>The policy never fails on governed sources\<close>

definition described :: "policy_env \<Rightarrow> projection_input \<Rightarrow> descriptor \<Rightarrow> bool" where
  "described v i d \<longleftrightarrow> (\<exists>x ss. describe v i x ss = Inr d \<and> payload_fits x ss \<and> ss \<noteq> []
     \<and> set ss \<subseteq> set (pi_sources i) \<and> distinct (map si_revision_id ss))"

lemma describedI:
  "describe v i x ss = Inr d \<Longrightarrow> payload_fits x ss \<Longrightarrow> ss \<noteq> [] \<Longrightarrow> set ss \<subseteq> set (pi_sources i)
     \<Longrightarrow> distinct (map si_revision_id ss) \<Longrightarrow> described v i d"
  unfolding described_def by blast

lemma describe_fields:
  "describe v i x ss = Inr d \<Longrightarrow> de_payload d = x \<and> de_sources d = normalized_source_order ss"
  by (auto simp: describe_def Let_def bindE_Inr_iff split: sum.splits)

lemma cores_ok:
  assumes "\<And>j. canonical_hash_ok (pe_sha v j)" and i: "projection_input_ok i now"
    and ss: "set ss \<subseteq> set (pi_sources i)" "distinct (map si_revision_id ss)" "length ss \<le> 100000"
  shows "\<exists>ds. core_descriptors v i ss = Inr ds \<and> (\<forall>d \<in> set ds. described v i d)"
proof -
  have readable: "\<exists>t. source_text s = Inr t" if "s \<in> set ss" for s
    using source_text_ok [OF i, of s] ss(1) that by blast
  obtain gs where gs: "core_groups v ss [] = Inr gs" using core_groups_mset [OF readable] by blast
  let ?gs = "sort_key (\<lambda>g. pe_collate v (fst g)) (filter (\<lambda>g. length (snd g) \<ge> 2) gs)"
  have "\<exists>d. core_descriptor v i g = Inr d \<and> described v i d" if g: "g \<in> set ?gs" for g
  proof -
    from g have g': "g \<in> set gs" "2 \<le> length (snd g)" by simp_all
    note sub = group_sources [OF gs readable ss(2) g'(1)]
    then obtain d x where "core_descriptor v i g = Inr d" "describe v i x (snd g) = Inr d" "payload_fits x (snd g)"
      using core_ok [OF assms(1) i, of g] g'(2) ss(1,3) by (meson le_trans subset_trans)
    then show ?thesis
      using sub ss(1) g'(2) by (intro exI [of _ d]) (auto intro!: describedI [of v i x "snd g"])
  qed
  then have "\<exists>ds. mapE (core_descriptor v i) ?gs = Inr ds \<and> list_all2 (\<lambda>g d. described v i d) ?gs ds"
    by (intro mapE_ex) blast
  then show ?thesis using gs by (auto simp: core_descriptors_def dest: list_all2_setD2)
qed

lemma relations_ok:
  assumes "\<And>j. canonical_hash_ok (pe_sha v j)" and i: "projection_input_ok i now"
    and ss: "set ss \<subseteq> set (pi_sources i)" "distinct (map si_revision_id ss)"
  shows "\<exists>ds. relation_descriptors v i ss = Inr ds \<and> (\<forall>d \<in> set ds. described v i d)"
proof -
  let ?os = "sort_key (\<lambda>s. (locale_key (iso (valid_from (si_validity s))), locale_key (si_revision_id s))) ss"
  have os: "distinct (map si_revision_id ?os)" using ss(2) by (simp add: distinct_map)
  have "\<exists>d. relation_descriptor v i p = Inr d \<and> described v i d" if p: "p \<in> set (precedence_pairs ?os)" for p
  proof -
    have p': "fst p \<in> set ss" "snd p \<in> set ss" "si_revision_id (fst p) \<noteq> si_revision_id (snd p)"
      using precedence_pairs_sources [of "fst p" "snd p" ?os] p os by simp_all
    then obtain d x where "relation_descriptor v i p = Inr d" "describe v i x [fst p, snd p] = Inr d"
      "payload_fits x [fst p, snd p]"
      using relation_ok [OF assms(1) i, of p] ss(1) by blast
    then show ?thesis
      using p' ss(1) by (intro exI [of _ d]) (auto intro!: describedI [of v i x "[fst p, snd p]"])
  qed
  then have "\<exists>ds. mapE (relation_descriptor v i) (precedence_pairs ?os) = Inr ds
      \<and> list_all2 (\<lambda>p d. described v i d) (precedence_pairs ?os) ds"
    by (intro mapE_ex) blast
  then show ?thesis by (auto simp: relation_descriptors_def dest: list_all2_setD2)
qed

text \<open>The kind of projection a single memory gives rise to.\<close>

fun own_projection :: "memory_kind \<Rightarrow> projection_type option" where
  "own_projection Episodic = Some Pt_scenario"
| "own_projection Procedural = Some Pt_procedure"
| "own_projection Semantic = None"

definition about :: "descriptor \<Rightarrow> projection_type \<Rightarrow> search_item list \<Rightarrow> bool" where
  "about d k ss \<longleftrightarrow> payload_kind (de_payload d) = k \<and> de_sources d = normalized_source_order ss"

lemma singles_ok:
  assumes "\<And>j. canonical_hash_ok (pe_sha v j)" and i: "projection_input_ok i now" and ss: "set ss \<subseteq> set (pi_sources i)"
  shows "\<exists>dss. mapE (single_descriptor v i) ss = Inr dss \<and> (\<forall>d \<in> set (concat dss). described v i d)
    \<and> (\<forall>s \<in> set ss. \<forall>k. own_projection (si_kind s) = Some k \<longrightarrow> (\<exists>d \<in> set (concat dss). about d k [s]))"
proof -
  let ?P = "\<lambda>s ds. (\<forall>d \<in> set ds. described v i d)
    \<and> (\<forall>k. own_projection (si_kind s) = Some k \<longrightarrow> (\<exists>d \<in> set ds. about d k [s]))"
  have "\<exists>ds. single_descriptor v i s = Inr ds \<and> ?P s ds" if "s \<in> set ss" for s
  proof -
    have s: "s \<in> set (pi_sources i)" using that ss by blast
    obtain ds where ds: "single_descriptor v i s = Inr ds"
      "\<And>d. d \<in> set ds \<Longrightarrow> \<exists>x. describe v i x [s] = Inr d \<and> payload_fits x [s]"
      "si_kind s \<noteq> Semantic \<Longrightarrow> (\<exists>x d. ds = [d] \<and> describe v i x [s] = Inr d \<and> payload_fits x [s]
        \<and> payload_kind x = (if si_kind s = Episodic then Pt_scenario else Pt_procedure))"
      using single_ok [OF assms(1) i s] by blast
    have "described v i d" if "d \<in> set ds" for d
      using ds(2) [OF that] s by (auto intro!: describedI [of v i _ "[s]"])
    moreover have "\<exists>d \<in> set ds. about d k [s]" if "own_projection (si_kind s) = Some k" for k
      using ds(3) that by (cases "si_kind s") (auto simp: about_def dest!: describe_fields)
    ultimately show ?thesis using ds(1) by blast
  qed
  then obtain dss where "mapE (single_descriptor v i) ss = Inr dss" "list_all2 ?P ss dss"
    using mapE_ex [of ss "single_descriptor v i" ?P] by blast
  then show ?thesis using list_all2_setD1 [of ?P ss dss] list_all2_setD2 [of ?P ss dss] by fastforce
qed

lemma described_builds:
  assumes "\<And>j. canonical_hash_ok (pe_sha v j)" and i: "projection_input_ok i now" and d: "described v i d"
    and fr: "pf_transform fr = projection_transform"
  shows "\<exists>q. projection_revision_ok q \<and> build_projection v i fr d = Inr (published v q)
    \<and> projection_type q = payload_kind (de_payload d)
    \<and> source_revisions q = map (ref_of (pi_principal i)) (de_sources d)
    \<and> set (de_sources d) \<subseteq> set (pi_sources i)"
proof -
  from d obtain x ss where x: "describe v i x ss = Inr d" "payload_fits x ss" "ss \<noteq> []"
    "set ss \<subseteq> set (pi_sources i)" "distinct (map si_revision_id ss)" by (auto simp: described_def)
  from describe_ok [OF assms(1) i x(3,4,2)] x(1) have f: "de_payload d = x" "de_sources d = normalized_source_order ss"
    "content_ref_ok (de_content d)" "canonical_hash_ok (de_content_hash d)" "identifier_ok (de_projection_id d)"
    by simp_all
  from build_ok [OF assms(1) i x(3-5,2) f fr] show ?thesis using f(1,2) x(4) by auto
qed

lemma published_simps [simp]:
  "projection_type (published v q) = projection_type q" "source_revisions (published v q) = source_revisions q"
  by (simp_all add: published_def)

lemma all_described:
  assumes "\<And>j. canonical_hash_ok (pe_sha v j)" and i: "projection_input_ok i now" and "pi_sources i \<noteq> []"
  shows "\<exists>ds. policy_descriptors v i (normalized_source_order (pi_sources i)) = Inr ds
    \<and> (\<forall>d \<in> set ds. described v i d) \<and> (\<exists>d \<in> set ds. about d Pt_topic (normalized_source_order (pi_sources i)))
    \<and> (\<forall>s \<in> set (pi_sources i). \<forall>k. own_projection (si_kind s) = Some k \<longrightarrow> (\<exists>d \<in> set ds. about d k [s]))"
proof -
  let ?ss = "normalized_source_order (pi_sources i)"
  have ss: "set ?ss \<subseteq> set (pi_sources i)" "?ss \<noteq> []" "distinct (map si_revision_id ?ss)" "length ?ss \<le> 100000"
    using i assms(3) by (simp_all add: projection_input_ok_def normalized_order_distinct)
  obtain x topic where t: "topic_descriptor v i ?ss = Inr topic" "describe v i x ?ss = Inr topic" "payload_fits x ?ss"
    "payload_kind x = Pt_topic"
    using topic_ok [OF assms(1) i ss(1,2)] by blast
  obtain dss where s: "mapE (single_descriptor v i) ?ss = Inr dss" "\<forall>d \<in> set (concat dss). described v i d"
    "\<forall>s \<in> set ?ss. \<forall>k. own_projection (si_kind s) = Some k \<longrightarrow> (\<exists>d \<in> set (concat dss). about d k [s])"
    using singles_ok [OF assms(1) i ss(1)] by blast
  obtain cs where c: "core_descriptors v i ?ss = Inr cs" "\<forall>d \<in> set cs. described v i d"
    using cores_ok [OF assms(1) i ss(1,3,4)] by blast
  obtain rs where r: "relation_descriptors v i ?ss = Inr rs" "\<forall>d \<in> set rs. described v i d"
    using relations_ok [OF assms(1) i ss(1,3)] by blast
  have "policy_descriptors v i ?ss = Inr (topic # concat dss @ cs @ rs)"
    by (simp add: policy_descriptors_def t(1) s(1) c(1) r(1))
  moreover have "described v i topic" by (rule describedI [OF t(2,3) ss(2,1,3)])
  moreover have "about topic Pt_topic ?ss" using describe_fields [OF t(2)] t(4) by (simp add: about_def)
  moreover have "\<exists>d \<in> set (topic # concat dss @ cs @ rs). about d k [x]"
    if x: "x \<in> set (pi_sources i)" "own_projection (si_kind x) = Some k" for x k
  proof -
    obtain d where "d \<in> set (concat dss)" "about d k [x]" using s(3) x unfolding normalized_order_set by blast
    then show ?thesis by (intro bexI [of _ d]) auto
  qed
  ultimately show ?thesis using s(2) c(2) r(2) by (intro exI [of _ "topic # concat dss @ cs @ rs"]) auto
qed

text \<open>C34: the projector never fails on governed sources: when every memory of the scope conforms to its schema,
  holds an inline text of at most 8000 UTF-16 units that is not blank, is valid at one common instant, and
  the timestamps sort as they denote, the projections are built; each conforms to the projection schema and
  cites memories of the input only, the topic cites all of them, and every episodic or procedural memory has
  its scenario or procedure.\<close>

theorem projections_are_built:
  assumes "\<forall>j. canonical_hash_ok (pe_sha v j)" and "projection_input_ok i now"
  shows "\<exists>ps. build_deterministic_projections v i = Inr ps
    \<and> (\<forall>p \<in> set ps. (\<exists>q. projection_revision_ok q \<and> p = published v q)
         \<and> src_revision_id ` set (source_revisions p) \<subseteq> si_revision_id ` set (pi_sources i))
    \<and> (pi_sources i \<noteq> [] \<longrightarrow> (\<exists>p \<in> set ps. projection_type p = Pt_topic
         \<and> src_revision_id ` set (source_revisions p) = si_revision_id ` set (pi_sources i)))
    \<and> (\<forall>s \<in> set (pi_sources i). \<forall>k. own_projection (si_kind s) = Some k \<longrightarrow>
         (\<exists>p \<in> set ps. projection_type p = k \<and> map src_revision_id (source_revisions p) = [si_revision_id s]))"
proof (cases "pi_sources i = []")
  case True
  then show ?thesis by (simp add: build_deterministic_projections_def Let_def normalized_source_order_def)
next
  case False
  let ?ss = "normalized_source_order (pi_sources i)"
  have sha: "canonical_hash_ok (pe_sha v j)" for j using assms(1) by simp
  obtain ds where ds: "policy_descriptors v i ?ss = Inr ds" "\<And>d. d \<in> set ds \<Longrightarrow> described v i d"
    "\<exists>d \<in> set ds. about d Pt_topic ?ss"
    "\<forall>s \<in> set (pi_sources i). \<forall>k. own_projection (si_kind s) = Some k \<longrightarrow> (\<exists>d \<in> set ds. about d k [s])"
    using all_described [OF sha assms(2) False] by blast
  let ?fr = "policy_frontier v i ?ss ds"
  let ?Q = "\<lambda>d p. (\<exists>q. projection_revision_ok q \<and> p = published v q) \<and> projection_type p = payload_kind (de_payload d)
    \<and> source_revisions p = map (ref_of (pi_principal i)) (de_sources d) \<and> set (de_sources d) \<subseteq> set (pi_sources i)"
  have "\<exists>p. build_projection v i ?fr d = Inr p \<and> ?Q d p" if d: "d \<in> set ds" for d
    using described_builds [OF sha assms(2) ds(2) [OF d], of ?fr] by (fastforce simp: policy_frontier_def)
  then obtain ps where ps: "mapE (build_projection v i ?fr) ds = Inr ps" "list_all2 ?Q ds ps"
    using mapE_ex [of ds "build_projection v i ?fr" ?Q] by blast
  let ?ps = "sort_key (\<lambda>p. (locale_key (projection_type_string (projection_type p)), locale_key (projection_id p))) ps"
  have "build_deterministic_projections v i = Inr ?ps"
    using False by (simp add: build_deterministic_projections_def ds(1) ps(1))
  moreover have "(\<exists>q. projection_revision_ok q \<and> p = published v q)
      \<and> src_revision_id ` set (source_revisions p) \<subseteq> si_revision_id ` set (pi_sources i)" if "p \<in> set ps" for p
    using list_all2_setD2 [OF ps(2) that] by (fastforce simp: image_image)
  moreover have about: "\<exists>p \<in> set ps. projection_type p = k \<and> source_revisions p = map (ref_of (pi_principal i)) (normalized_source_order ts)"
    if "\<exists>d \<in> set ds. about d k ts" for k ts
    using that list_all2_setD1 [OF ps(2)] by (fastforce simp: about_def)
  moreover have "\<exists>p \<in> set ps. projection_type p = Pt_topic
      \<and> src_revision_id ` set (source_revisions p) = si_revision_id ` set (pi_sources i)"
  proof -
    obtain p where "p \<in> set ps" "projection_type p = Pt_topic"
      "source_revisions p = map (ref_of (pi_principal i)) (normalized_source_order ?ss)" using about [OF ds(3)] by blast
    then show ?thesis by (intro bexI [of _ p]) (simp_all add: image_image)
  qed
  moreover have "\<exists>p \<in> set ps. projection_type p = k \<and> map src_revision_id (source_revisions p) = [si_revision_id s]"
    if "s \<in> set (pi_sources i)" "own_projection (si_kind s) = Some k" for s k
    using about [of k "[s]"] ds(4) that by (fastforce simp: normalized_source_order_def)
  ultimately show ?thesis by (intro exI [of _ ?ps]) simp
qed

lemma describe_sources [simp]: "describe v (i\<lparr>pi_sources := xs\<rparr>) = describe v i"
  by (intro ext) (simp add: describe_def Let_def cong: sum.case_cong)

text \<open>C35: the projections of a scope are a function of the set of its memories: the order in which storage lists
  the sources changes neither the projections, their order and identifiers, nor the hashes of the frontier.\<close>

theorem projections_ignore_source_order:
  assumes "mset xs = mset (pi_sources i)" and "distinct (map si_revision_id xs)"
    and "list_all identifier_ok (map si_revision_id xs)"
  shows "build_deterministic_projections v (i\<lparr>pi_sources := xs\<rparr>) = build_deterministic_projections v i"
proof -
  have "distinct (map (\<lambda>s. locale_key (si_revision_id s)) xs)"
    unfolding distinct_map
  proof (intro conjI inj_onI)
    show "distinct xs" using assms(2) by (simp add: distinct_map)
    fix a b assume ab: "a \<in> set xs" "b \<in> set xs" "locale_key (si_revision_id a) = locale_key (si_revision_id b)"
    then have "identifier_ok (si_revision_id a)" "identifier_ok (si_revision_id b)"
      using assms(3) by (simp_all add: list_all_iff)
    then have "si_revision_id a = si_revision_id b" using ab(3) by (intro locale_key_inj identifier_id_chars)
    then show "a = b" using assms(2) ab(1,2) by (simp add: distinct_map inj_on_def)
  qed
  then have order: "normalized_source_order xs = normalized_source_order (pi_sources i)"
    unfolding normalized_source_order_def by (rule sort_key_permute [OF assms(1)])
  have parts: "topic_descriptor v (i\<lparr>pi_sources := xs\<rparr>) = topic_descriptor v i"
    "single_descriptor v (i\<lparr>pi_sources := xs\<rparr>) = single_descriptor v i"
    "core_descriptor v (i\<lparr>pi_sources := xs\<rparr>) = core_descriptor v i"
    "relation_descriptor v (i\<lparr>pi_sources := xs\<rparr>) = relation_descriptor v i"
    "policy_frontier v (i\<lparr>pi_sources := xs\<rparr>) = policy_frontier v i"
    "build_projection v (i\<lparr>pi_sources := xs\<rparr>) = build_projection v i"
    by (intro ext, simp add: topic_descriptor_def single_descriptor_def core_descriptor_def relation_descriptor_def
      policy_frontier_def build_projection_def Let_def cong: memory_kind.case_cong)+
  show ?thesis
    by (simp add: build_deterministic_projections_def order parts policy_descriptors_def core_descriptors_def
      relation_descriptors_def Let_def)
qed

subsection \<open>Where it fails\<close>

lemma build_Inr:
  assumes "build_deterministic_projections v i = Inr ps" and "pi_sources i \<noteq> []"
  shows "\<exists>ds fr. policy_descriptors v i (normalized_source_order (pi_sources i)) = Inr ds
    \<and> (\<forall>d \<in> set ds. \<exists>p. build_projection v i fr d = Inr p)"
proof -
  from assms obtain ds qs where ds: "policy_descriptors v i (normalized_source_order (pi_sources i)) = Inr ds"
    "mapE (build_projection v i (policy_frontier v i (normalized_source_order (pi_sources i)) ds)) ds = Inr qs"
    by (auto simp: build_deterministic_projections_def Let_def bindE_Inr_iff)
  then show ?thesis using list_all2_setD1 [OF ds(2) [unfolded mapE_Inr_iff]] by blast
qed

lemma build_projection_Inr:
  assumes "build_projection v i fr d = Inr p"
  shows "\<exists>w q. intersect_validity (de_sources d) = Inr w \<and> projection_revision_ok q \<and> proj_payload q = Some (de_payload d)
    \<and> proj_validity q = w \<and> src_validity ` set (source_revisions q) = si_validity ` set (de_sources d)"
proof -
  from assms obtain refs w x where r: "mapE (source_ref (pi_principal i)) (de_sources d) = Inr refs"
    "intersect_validity (de_sources d) = Inr w"
    and q: "\<exists>q. parse_projection v q = Inr p \<and> proj_payload q = Some (de_payload d) \<and> proj_validity q = w
      \<and> source_revisions q = refs"
    unfolding build_projection_def bindE_Inr_iff
    by (elim exE conjE) (rule that, assumption+, rule exI, rule conjI, assumption, simp)
  have "src_validity ` set refs = si_validity ` set (de_sources d)"
  proof -
    have "map src_validity refs = map si_validity (de_sources d)"
      using r(1) unfolding mapE_Inr_iff
      by (induction rule: list_all2_induct) (auto simp: source_ref_def Let_def bindE_Inr_iff)
    then show ?thesis by (metis set_map)
  qed
  with q r(2) show ?thesis by (auto simp: parse_projection_def bindE_Inr_iff)
qed

text \<open>One episodic or procedural memory whose text is longer than 8000 UTF-16 units stops the projection of its
  whole scope: the governed contracts admit inline texts up to 256000 units, but the text is copied into a
  projection payload, whose schema admits 8000; the whole build fails, for every memory of the scope.\<close>

theorem long_memory_blocks_scope:
  assumes "s \<in> set (pi_sources i)" and "si_kind s \<noteq> Semantic" and "si_content s = Inline t m"
    and "8000 < units (js_trim t)"
  shows "\<exists>e. build_deterministic_projections v i = Inl e"
proof (rule ccontr)
  assume "\<nexists>e. build_deterministic_projections v i = Inl e"
  then obtain ps where "build_deterministic_projections v i = Inr ps" by (metis sum.exhaust)
  moreover have "pi_sources i \<noteq> []" using assms(1) by auto
  ultimately obtain ds fr where ds: "policy_descriptors v i (normalized_source_order (pi_sources i)) = Inr ds"
    "\<And>d. d \<in> set ds \<Longrightarrow> \<exists>p. build_projection v i fr d = Inr p"
    using build_Inr by blast
  from ds(1) obtain topic dss cs rs where
    dss: "mapE (single_descriptor v i) (normalized_source_order (pi_sources i)) = Inr dss"
    and all: "ds = topic # concat dss @ cs @ rs"
    by (auto simp: policy_descriptors_def bindE_Inr_iff)
  have "s \<in> set (normalized_source_order (pi_sources i))" using assms(1) by simp
  then obtain es where es: "es \<in> set dss" "single_descriptor v i s = Inr es"
    using list_all2_setD1 [OF dss [unfolded mapE_Inr_iff]] by blast
  from es(2) obtain d where d: "es = [d]" "\<not> projection_payload_ok (de_payload d)"
    using assms(2-4)
    by (cases "si_kind s") (auto simp: single_descriptor_def source_text_def bindE_Inr_iff Let_def projection_text_ok_def
      dest!: describe_fields)
  then have "d \<in> set es" by simp
  then have "d \<in> set ds" using es(1) unfolding all set_append list.set set_concat by blast
  then obtain p where "build_projection v i fr d = Inr p" using ds(2) by blast
  from build_projection_Inr [OF this] d(2) show False by (auto simp: projection_revision_ok_def)
qed

text \<open>Timestamps with different offsets stop the projection of a scope: the validity of a projection takes the
  start whose text sorts last, and the schema compares instants; when every source whose text sorts last starts
  before some other source, the topic of the scope is rejected and nothing is projected.\<close>

theorem mixed_offsets_block_scope:
  assumes "s \<in> set (pi_sources i)" "t \<in> set (pi_sources i)"
    and "\<And>u. u \<in> set (pi_sources i) \<Longrightarrow> iso (valid_from (si_validity s)) \<le> iso (valid_from (si_validity u))
      \<Longrightarrow> epoch_ms (valid_from (si_validity u)) < epoch_ms (valid_from (si_validity t))"
  shows "\<exists>e. build_deterministic_projections v i = Inl e"
proof (rule ccontr)
  assume "\<nexists>e. build_deterministic_projections v i = Inl e"
  then obtain ps where "build_deterministic_projections v i = Inr ps" by (metis sum.exhaust)
  moreover have ne: "pi_sources i \<noteq> []" using assms(1) by auto
  ultimately obtain ds fr where ds: "policy_descriptors v i (normalized_source_order (pi_sources i)) = Inr ds"
    "\<And>d. d \<in> set ds \<Longrightarrow> \<exists>p. build_projection v i fr d = Inr p"
    using build_Inr by blast
  from ds(1) obtain d where d: "topic_descriptor v i (normalized_source_order (pi_sources i)) = Inr d" "d \<in> set ds"
    by (auto simp: policy_descriptors_def bindE_Inr_iff)
  then have srcs: "set (de_sources d) = set (pi_sources i)"
    by (auto simp: topic_descriptor_def bindE_Inr_iff dest!: describe_fields)
  obtain p where "build_projection v i fr d = Inr p" using ds(2) [OF d(2)] by blast
  from build_projection_Inr [OF this] obtain w q where w: "intersect_validity (de_sources d) = Inr w"
    "projection_revision_ok q" "proj_validity q = w"
    "src_validity ` set (source_revisions q) = si_validity ` set (de_sources d)" by blast
  let ?from = "map (\<lambda>s. valid_from (si_validity s)) (de_sources d)"
  have "valid_from w = last (sort_key iso ?from)"
    using w(1) by (auto simp: intersect_validity_def Let_def split: if_splits)
  moreover have "?from \<noteq> []" using assms(1) srcs by auto
  ultimately have "valid_from w \<in> set ?from" "iso (valid_from (si_validity s)) \<le> iso (valid_from w)"
    using sort_key_last_mem [of ?from iso] sort_key_last [of "valid_from (si_validity s)" ?from iso] assms(1) srcs by auto
  then obtain u where "u \<in> set (pi_sources i)" "iso (valid_from (si_validity s)) \<le> iso (valid_from (si_validity u))"
    "valid_from w = valid_from (si_validity u)" using srcs by auto
  then have early: "epoch_ms (valid_from w) < epoch_ms (valid_from (si_validity t))" using assms(3) by auto
  obtain r where "r \<in> set (source_revisions q)" "src_validity r = si_validity t"
    using w(4) srcs assms(2) by (metis imageE imageI)
  then have "source_admissible q r" "src_validity r = si_validity t"
    using w(2) unfolding projection_revision_ok_def list_all_iff by blast+
  then have "epoch_ms (valid_from (si_validity t)) \<le> epoch_ms (valid_from w)"
    using w(3) by (auto simp: source_admissible_def)
  with early show False by simp
qed

subsection \<open>A sample scope\<close>

definition sample_policy_env :: policy_env where
  "sample_policy_env = \<lparr>pe_sha = (\<lambda>j. sample_hash), pe_fraction = (\<lambda>q. []), pe_nfkc = (\<lambda>t. t), pe_lower = (\<lambda>t. t),
     pe_collate = (\<lambda>t. t)\<rparr>"

definition governed_sample :: "string \<Rightarrow> memory_kind \<Rightarrow> ustring \<Rightarrow> timestamp \<Rightarrow> search_item" where
  "governed_sample i k t from = \<lparr>si_memory_id = ''m'' @ i, si_revision_id = ''r'' @ i, si_lifecycle = Active,
     si_kind = k, si_scope = \<lparr>scope_kind_of = Sk_workspace, scope_id = ''w''\<rparr>, si_authority = User_stated,
     si_sensitivity = Internal, si_validity = \<lparr>valid_from = from, valid_to = None, recorded_at = Timestamp ''t'' 0\<rparr>,
     si_content = Inline t ''text/plain'', si_content_hash = sample_hash, si_evidence_ids = [''e'' @ i],
     si_transform = None, si_reason_codes = [''ok'']\<rparr>"

definition sample_scope_input :: "search_item list \<Rightarrow> projection_input" where
  "sample_scope_input ss = \<lparr>pi_principal = ''u'', pi_scope = \<lparr>scope_kind_of = Sk_workspace, scope_id = ''w''\<rparr>,
     pi_ledger_epoch = 1, pi_tombstone_epoch = 0, pi_projection_epoch = 1, pi_sources = ss\<rparr>"

abbreviation sample_sources :: "search_item list" where
  "sample_sources \<equiv> [governed_sample ''2'' Episodic [97] (Timestamp ''t'' 0), governed_sample ''1'' Semantic [98] (Timestamp ''t'' 0)]"

lemma sample_scope_input_ok: "projection_input_ok (sample_scope_input sample_sources) 0"
  by (simp add: projection_input_ok_def sample_scope_input_def governed_sample_def policy_source_ok_def search_item_ok_def
    identifier_ok_def ascii_alnum_def scope_ok_def validity_window_ok_def projection_text_ok_def js_trim_def js_space_def
    utf16_def iso_consistent_def policy_times_def code_points_def)

lemma projections_are_built_witness:
  "\<exists>ps. build_deterministic_projections sample_policy_env (sample_scope_input sample_sources) = Inr ps
     \<and> (\<exists>p \<in> set ps. projection_type p = Pt_topic \<and> src_revision_id ` set (source_revisions p) = {''r1'', ''r2''})
     \<and> (\<exists>p \<in> set ps. projection_type p = Pt_scenario \<and> map src_revision_id (source_revisions p) = [''r2''])"
proof -
  have sha: "\<forall>j. canonical_hash_ok (pe_sha sample_policy_env j)" by (simp add: sample_policy_env_def sample_hash_ok)
  have srcs: "pi_sources (sample_scope_input sample_sources) = sample_sources" by (simp add: sample_scope_input_def)
  from projections_are_built [OF sha sample_scope_input_ok] obtain ps where
    ps: "build_deterministic_projections sample_policy_env (sample_scope_input sample_sources) = Inr ps"
    and t: "sample_sources \<noteq> [] \<longrightarrow> (\<exists>p \<in> set ps. projection_type p = Pt_topic
         \<and> src_revision_id ` set (source_revisions p) = si_revision_id ` set sample_sources)"
    and o: "\<forall>s \<in> set sample_sources. \<forall>k. own_projection (si_kind s) = Some k \<longrightarrow>
         (\<exists>p \<in> set ps. projection_type p = k \<and> map src_revision_id (source_revisions p) = [si_revision_id s])"
    unfolding srcs by (elim exE conjE) (rule that)
  have "si_revision_id ` set sample_sources = {''r1'', ''r2''}" by (auto simp: governed_sample_def)
  with t have "\<exists>p \<in> set ps. projection_type p = Pt_topic \<and> src_revision_id ` set (source_revisions p) = {''r1'', ''r2''}"
    by simp
  moreover have "\<exists>p \<in> set ps. projection_type p = Pt_scenario \<and> map src_revision_id (source_revisions p) = [''r2'']"
  proof -
    let ?g = "governed_sample ''2'' Episodic [97] (Timestamp ''t'' 0)"
    have g: "own_projection (si_kind ?g) = Some Pt_scenario" "si_revision_id ?g = ''r2''" by (simp_all add: governed_sample_def)
    have "?g \<in> set sample_sources" by (rule list.set_intros(1))
    from o [rule_format, OF this g(1)] show ?thesis unfolding g(2) .
  qed
  ultimately show ?thesis by (intro exI [of _ ps] conjI ps)
qed

lemma projections_ignore_source_order_witness:
  "build_deterministic_projections sample_policy_env (sample_scope_input (rev sample_sources))
     = build_deterministic_projections sample_policy_env (sample_scope_input sample_sources)"
proof -
  have "(sample_scope_input sample_sources)\<lparr>pi_sources := rev sample_sources\<rparr> = sample_scope_input (rev sample_sources)"
    by (simp add: sample_scope_input_def)
  then show ?thesis
    using projections_ignore_source_order [of "rev sample_sources" "sample_scope_input sample_sources" sample_policy_env]
    by (simp add: sample_scope_input_def governed_sample_def identifier_ok_def ascii_alnum_def)
qed

lemma long_memory_blocks_scope_witness:
  "\<exists>e. build_deterministic_projections sample_policy_env (sample_scope_input
     [governed_sample ''1'' Semantic [98] (Timestamp ''t'' 0), governed_sample ''2'' Procedural (replicate 8001 97) (Timestamp ''t'' 0)]) = Inl e"
proof (rule long_memory_blocks_scope)
  have "dropWhile js_space (replicate n 97) = replicate n 97" for n
    by (cases n) (simp_all add: js_space_def)
  then have "js_trim (replicate n 97) = replicate n 97" for n
    by (simp add: js_trim_def)
  then have "units (js_trim (replicate n 97)) = n" for n by (simp add: units_all_small list_all_iff)
  then show "8000 < units (js_trim (replicate 8001 97))" by (simp only:)
  show "governed_sample ''2'' Procedural (replicate 8001 97) (Timestamp ''t'' 0) \<in> set (pi_sources (sample_scope_input
     [governed_sample ''1'' Semantic [98] (Timestamp ''t'' 0), governed_sample ''2'' Procedural (replicate 8001 97) (Timestamp ''t'' 0)]))"
    unfolding sample_scope_input_def projection_input.simps list.set by blast
qed (simp_all only: governed_sample_def search_item.simps memory_kind.distinct not_False_eq_True)

lemma mixed_offsets_block_scope_witness:
  "\<exists>e. build_deterministic_projections sample_policy_env (sample_scope_input
     [governed_sample ''1'' Semantic [97] (Timestamp ''2026-01-01T09:00:00+09:00'' 1767225600000),
      governed_sample ''2'' Semantic [98] (Timestamp ''2026-01-01T08:00:00Z'' 1767254400000)]) = Inl e"
  by (rule mixed_offsets_block_scope [where s = "governed_sample ''1'' Semantic [97] (Timestamp ''2026-01-01T09:00:00+09:00'' 1767225600000)"
      and t = "governed_sample ''2'' Semantic [98] (Timestamp ''2026-01-01T08:00:00Z'' 1767254400000)"])
    (auto simp: sample_scope_input_def governed_sample_def)

end
