(* ===== verification/BackgroundSupervisor.thy ===== *)
theory BackgroundSupervisor
  imports Interfaces
begin

text \<open>
  The supervisor of the background lanes (\<open>packages/runtime-host/src/background-supervisor.ts\<close>): lanes that
  run on an interval with exponential back-off, at most \<open>maxConcurrency\<close> at a time, woken by one timer, and
  the drain that stops them. Time is in milliseconds; a step that reads the clock reads \<open>sv_now\<close>, which
  the environment advances. A lane is \<open>Awaiting\<close> while its \<open>runOnce\<close> is pending and \<open>Settled\<close> between
  the end of \<open>#runLane\<close> and the \<open>finally\<close> that clears \<open>inFlight\<close>; \<open>sv_pending\<close> counts the
  calls of \<open>#scheduleNext\<close> that the fired timers still owe.
\<close>

subsection \<open>Lanes\<close>

definition upper_code_char :: "char \<Rightarrow> bool" where
  "upper_code_char c \<longleftrightarrow> is_upper c \<or> c \<in> set ''0123456789_''"

definition failure_code_ok :: "string \<Rightarrow> bool" where
  "failure_code_ok s \<longleftrightarrow> (case s of [] \<Rightarrow> False
     | c # cs \<Rightarrow> is_upper c \<and> list_all upper_code_char cs \<and> length cs \<le> 63)"

record lane_result =
  lr_claimed :: nat
  lr_completed :: nat
  lr_failed :: nat
  lr_retrying :: nat
  lr_terminal :: nat
  lr_failure_code :: "string option"

text \<open>How \<open>runOnce\<close> ends: a result, something the result schema rejects, or an exception, with its \<open>code\<close> if
  it has a string there.\<close>

datatype lane_outcome = Lane_result lane_result | Lane_malformed | Lane_exception "string option"

definition failure_code :: "string option \<Rightarrow> string" where
  "failure_code c = (case c of Some s \<Rightarrow> if failure_code_ok s then s else ''BACKGROUND_LANE_FAILED''
     | None \<Rightarrow> ''BACKGROUND_LANE_FAILED'')"

datatype lane_phase = Idle | Awaiting | Settled

record lane_state =
  ln_name :: string
  ln_interval :: nat
  ln_phase :: lane_phase
  ln_failures :: nat
  ln_next_run :: nat
  ln_last_success :: "nat option"
  ln_last_failure :: "string option"
  ln_claimed :: nat
  ln_completed :: nat
  ln_failed :: nat
  ln_retrying :: nat
  ln_terminal :: nat

abbreviation in_flight :: "lane_state \<Rightarrow> bool" where
  "in_flight l \<equiv> ln_phase l \<noteq> Idle"

definition lane_backoff :: "nat \<Rightarrow> nat \<Rightarrow> nat \<Rightarrow> nat" where
  "lane_backoff max_backoff interval failures = min max_backoff (interval * 2 ^ min 10 (failures - 1))"

definition lane_failed :: "nat \<Rightarrow> nat \<Rightarrow> string \<Rightarrow> lane_state \<Rightarrow> lane_state" where
  "lane_failed max_backoff now code l = l\<lparr>ln_failures := ln_failures l + 1, ln_last_failure := Some code,
     ln_next_run := now + lane_backoff max_backoff (ln_interval l) (ln_failures l + 1)\<rparr>"

text \<open>\<open>#runLane\<close> after its \<open>await\<close>.\<close>

fun finish_run :: "nat \<Rightarrow> nat \<Rightarrow> lane_outcome \<Rightarrow> lane_state \<Rightarrow> lane_state" where
  "finish_run max_backoff now (Lane_exception c) l = lane_failed max_backoff now (failure_code c) l"
| "finish_run max_backoff now Lane_malformed l = lane_failed max_backoff now ''BACKGROUND_LANE_FAILED'' l"
| "finish_run max_backoff now (Lane_result r) l =
     (if \<not> (case lr_failure_code r of None \<Rightarrow> True | Some c \<Rightarrow> failure_code_ok c)
      then lane_failed max_backoff now ''BACKGROUND_LANE_FAILED'' l
      else let l1 = l\<lparr>ln_claimed := ln_claimed l + lr_claimed r, ln_completed := ln_completed l + lr_completed r,
          ln_failed := ln_failed l + lr_failed r, ln_retrying := lr_retrying r, ln_terminal := lr_terminal r\<rparr> in
        if lr_failed r > 0 \<or> lr_retrying r > 0 then
          let k = max 1 (ln_failures l + (if lr_failed r > 0 then 1 else 0)) in
          l1\<lparr>ln_failures := k,
             ln_last_failure := Some (case lr_failure_code r of None \<Rightarrow> ''BACKGROUND_WORK_FAILED'' | Some c \<Rightarrow> c),
             ln_next_run := now + lane_backoff max_backoff (ln_interval l) k\<rparr>
        else l1\<lparr>ln_failures := 0, ln_last_failure := None, ln_last_success := Some now,
             ln_next_run := now + ln_interval l\<rparr>)"

subsection \<open>The supervisor\<close>

datatype supervisor_state = Starting | Running | Draining | Stopped

record supervisor =
  sv_state :: supervisor_state
  sv_lanes :: "lane_state list"
  sv_timer :: "nat option"
  sv_pending :: nat
  sv_now :: nat
  sv_max_concurrency :: nat
  sv_max_backoff :: nat

definition lane_name_ok :: "string \<Rightarrow> bool" where
  "lane_name_ok s \<longleftrightarrow> (case s of [] \<Rightarrow> False
     | c # cs \<Rightarrow> c \<in> set ''abcdefghijklmnopqrstuvwxyz'' \<and> length cs \<le> 63
         \<and> list_all (\<lambda>x. x \<in> set ''abcdefghijklmnopqrstuvwxyz0123456789_'') cs)"

definition new_lane :: "nat \<Rightarrow> string \<times> nat \<Rightarrow> lane_state" where
  "new_lane now x = \<lparr>ln_name = fst x, ln_interval = snd x, ln_phase = Idle, ln_failures = 0, ln_next_run = now,
     ln_last_success = None, ln_last_failure = None, ln_claimed = 0, ln_completed = 0, ln_failed = 0,
     ln_retrying = 0, ln_terminal = 0\<rparr>"

text \<open>The constructor; \<open>None\<close> when it throws.\<close>

definition new_supervisor :: "nat \<Rightarrow> (string \<times> nat) list \<Rightarrow> nat \<Rightarrow> nat \<Rightarrow> supervisor option" where
  "new_supervisor now lanes concurrency backoff =
     (if list_all (\<lambda>x. lane_name_ok (fst x)) lanes \<and> length (js_set (map fst lanes)) = length lanes
        \<and> 1 \<le> concurrency \<and> concurrency \<le> 8 \<and> 100 \<le> backoff \<and> backoff \<le> 3600000
        \<and> list_all (\<lambda>x. 10 \<le> snd x \<and> snd x \<le> 3600000) lanes
      then Some \<lparr>sv_state = Starting, sv_lanes = map (new_lane now) lanes, sv_timer = None, sv_pending = 0,
        sv_now = now, sv_max_concurrency = concurrency, sv_max_backoff = backoff\<rparr>
      else None)"

definition schedule :: "nat \<Rightarrow> supervisor \<Rightarrow> supervisor" where
  "schedule delay s = (if sv_state s \<noteq> Running then s else s\<lparr>sv_timer := Some (sv_now s + delay)\<rparr>)"

definition schedule_next :: "supervisor \<Rightarrow> supervisor" where
  "schedule_next s =
     (if sv_state s \<noteq> Running then s
      else case map ln_next_run (filter (\<lambda>l. \<not> in_flight l) (sv_lanes s)) of
        [] \<Rightarrow> s
      | t # ts \<Rightarrow> schedule (fold min ts t - sv_now s) s)"

definition start :: "supervisor \<Rightarrow> supervisor" where
  "start s = (if sv_state s \<noteq> Starting then s else schedule 0 (s\<lparr>sv_state := Running\<rparr>))"

text \<open>The loop of \<open>runDueOnce\<close>; \<open>available\<close> may not be positive.\<close>

fun start_due :: "int \<Rightarrow> nat \<Rightarrow> lane_state list \<Rightarrow> lane_state list" where
  "start_due available now [] = []"
| "start_due available now (l # ls) =
     (if available \<le> 0 \<or> in_flight l \<or> ln_next_run l > now then l # start_due available now ls
      else l\<lparr>ln_phase := Awaiting\<rparr> # start_due (available - 1) now ls)"

definition flying :: "lane_state list \<Rightarrow> nat" where
  "flying ls = length (filter in_flight ls)"

definition run_due_once :: "supervisor \<Rightarrow> supervisor" where
  "run_due_once s =
     (if sv_state s \<noteq> Running then s
      else s\<lparr>sv_lanes := start_due (int (sv_max_concurrency s) - int (flying (sv_lanes s))) (sv_now s) (sv_lanes s)\<rparr>)"

text \<open>The callback of the timer, up to the \<open>then\<close>.\<close>

definition fire_timer :: "supervisor \<Rightarrow> supervisor" where
  "fire_timer s = (run_due_once (s\<lparr>sv_timer := None\<rparr>))\<lparr>sv_pending := sv_pending s + 1\<rparr>"

definition owed_schedule :: "supervisor \<Rightarrow> supervisor" where
  "owed_schedule s = schedule_next (s\<lparr>sv_pending := sv_pending s - 1\<rparr>)"

definition settle_lane :: "nat \<Rightarrow> lane_outcome \<Rightarrow> supervisor \<Rightarrow> supervisor" where
  "settle_lane k x s = s\<lparr>sv_lanes := (sv_lanes s)[k :=
     (finish_run (sv_max_backoff s) (sv_now s) x (sv_lanes s ! k))\<lparr>ln_phase := Settled\<rparr>]\<rparr>"

text \<open>The \<open>finally\<close> of a run.\<close>

definition clear_lane :: "nat \<Rightarrow> supervisor \<Rightarrow> supervisor" where
  "clear_lane k s = (let s1 = s\<lparr>sv_lanes := (sv_lanes s)[k := (sv_lanes s ! k)\<lparr>ln_phase := Idle\<rparr>]\<rparr> in
     if sv_state s = Running then schedule_next s1 else s1)"

text \<open>\<open>drain\<close>: its synchronous part, with the result when it need not wait, and what follows the race.\<close>

definition begin_drain :: "supervisor \<Rightarrow> bool option \<times> supervisor" where
  "begin_drain s =
     (if sv_state s = Stopped then (Some True, s)
      else let s1 = s\<lparr>sv_state := Draining, sv_timer := None\<rparr> in
        if flying (sv_lanes s) = 0 then (Some True, s1\<lparr>sv_state := Stopped\<rparr>) else (None, s1))"

definition end_drain :: "supervisor \<Rightarrow> supervisor" where
  "end_drain s = s\<lparr>sv_state := Stopped\<rparr>"

subsection \<open>Observations\<close>

datatype observed_state = Obs_idle | Obs_running | Obs_retrying | Obs_terminal | Obs_stopped

definition observed :: "supervisor \<Rightarrow> lane_state \<Rightarrow> observed_state" where
  "observed s l =
     (if sv_state s = Stopped then Obs_stopped else if in_flight l then Obs_running
      else if ln_terminal l > 0 then Obs_terminal else if ln_failures l > 0 then Obs_retrying else Obs_idle)"

definition observed_next_run :: "supervisor \<Rightarrow> lane_state \<Rightarrow> nat option" where
  "observed_next_run s l = (if sv_state s = Running then Some (ln_next_run l) else None)"

subsection \<open>Steps\<close>

text \<open>What can happen next: a call from outside, the passage of time, the timer, the end of a run.\<close>

inductive supervisor_step :: "supervisor \<Rightarrow> supervisor \<Rightarrow> bool" where
  call_start: "supervisor_step s (start s)"
| call_run_due: "supervisor_step s (run_due_once s)"
| call_drain: "supervisor_step s (snd (begin_drain s))"
| drained: "sv_state s \<in> {Draining, Stopped} \<Longrightarrow> supervisor_step s (end_drain s)"
| tick: "sv_now s \<le> t \<Longrightarrow> supervisor_step s (s\<lparr>sv_now := t\<rparr>)"
| timer: "sv_timer s = Some d \<Longrightarrow> d \<le> sv_now s \<Longrightarrow> supervisor_step s (fire_timer s)"
| owed: "0 < sv_pending s \<Longrightarrow> supervisor_step s (owed_schedule s)"
| settles: "k < length (sv_lanes s) \<Longrightarrow> ln_phase (sv_lanes s ! k) = Awaiting \<Longrightarrow> supervisor_step s (settle_lane k x s)"
| clears: "k < length (sv_lanes s) \<Longrightarrow> ln_phase (sv_lanes s ! k) = Settled \<Longrightarrow> supervisor_step s (clear_lane k s)"

definition supervisor_initial :: "supervisor \<Rightarrow> bool" where
  "supervisor_initial s \<longleftrightarrow> (\<exists>now lanes c b. new_supervisor now lanes c b = Some s)"

subsection \<open>Invariant\<close>

text \<open>A wake-up is coming for a lane: the timer is set no later than the lane is due, a fired timer still owes
  its rescheduling, or a run that ended is about to reschedule.\<close>

definition woken :: "supervisor \<Rightarrow> lane_state \<Rightarrow> bool" where
  "woken s l \<longleftrightarrow> (\<exists>d. sv_timer s = Some d \<and> d \<le> max (sv_now s) (ln_next_run l)) \<or> 0 < sv_pending s
     \<or> (\<exists>m \<in> set (sv_lanes s). ln_phase m = Settled)"

definition supervisor_ok :: "supervisor \<Rightarrow> bool" where
  "supervisor_ok s \<longleftrightarrow> flying (sv_lanes s) \<le> sv_max_concurrency s
     \<and> (sv_timer s \<noteq> None \<longrightarrow> sv_state s = Running)
     \<and> (sv_state s = Starting \<longrightarrow> flying (sv_lanes s) = 0)
     \<and> (sv_state s = Running \<longrightarrow> (\<forall>l \<in> set (sv_lanes s). \<not> in_flight l \<longrightarrow> woken s l))"

lemma schedule_fields [simp]:
  "sv_state (schedule d s) = sv_state s" "sv_lanes (schedule d s) = sv_lanes s" "sv_now (schedule d s) = sv_now s"
  "sv_max_concurrency (schedule d s) = sv_max_concurrency s" "sv_max_backoff (schedule d s) = sv_max_backoff s"
  "sv_pending (schedule d s) = sv_pending s"
  by (simp_all add: schedule_def)

lemma schedule_next_fields [simp]:
  "sv_state (schedule_next s) = sv_state s" "sv_lanes (schedule_next s) = sv_lanes s" "sv_now (schedule_next s) = sv_now s"
  "sv_max_concurrency (schedule_next s) = sv_max_concurrency s" "sv_max_backoff (schedule_next s) = sv_max_backoff s"
  "sv_pending (schedule_next s) = sv_pending s"
  by (simp_all add: schedule_next_def split: list.split)

lemma fold_min_le: "x \<in> set (t # ts) \<Longrightarrow> fold min ts t \<le> (x :: nat)"
proof (induction ts arbitrary: t x)
  case (Cons a ts)
  have "fold min ts (min a t) \<le> min a t" by (rule Cons.IH) simp
  moreover have "fold min ts (min a t) \<le> y" if "y \<in> set ts" for y by (rule Cons.IH) (simp add: that)
  ultimately show ?case using Cons.prems by auto
qed simp

lemma schedule_next_first:
  "sv_state s = Running \<Longrightarrow> map ln_next_run (filter (\<lambda>l. \<not> in_flight l) (sv_lanes s)) = t # ts
     \<Longrightarrow> schedule_next s = schedule (fold min ts t - sv_now s) s"
  unfolding schedule_next_def by (simp del: map_eq_Cons_conv)

lemma schedule_next_wakes:
  assumes "sv_state s = Running" and "l \<in> set (sv_lanes s)" "\<not> in_flight l"
  shows "\<exists>d. sv_timer (schedule_next s) = Some d \<and> d \<le> max (sv_now s) (ln_next_run l)"
proof -
  let ?ts = "map ln_next_run (filter (\<lambda>l. \<not> in_flight l) (sv_lanes s))"
  have l: "ln_next_run l \<in> set ?ts" using assms(2,3) by simp
  then have "?ts \<noteq> []" by (metis empty_iff list.set(1))
  then obtain t ts where t: "?ts = t # ts" by (meson neq_Nil_conv)
  then have "fold min ts t \<le> ln_next_run l" using l by (intro fold_min_le) simp
  then show ?thesis using assms(1) by (auto simp only: schedule_next_def t) (auto simp: schedule_def)
qed

lemma flying_start_due: "int (flying (start_due a now ls)) \<le> int (flying ls) + max 0 a"
proof (induction a now ls rule: start_due.induct)
  case (2 a now l ls)
  then show ?case by (auto simp: flying_def)
qed (simp add: flying_def)

lemma start_due_idle:
  "l \<in> set (start_due a now ls) \<Longrightarrow> \<not> in_flight l \<Longrightarrow> l \<in> set ls"
  by (induction a now ls rule: start_due.induct) (auto split: if_splits)

lemma start_due_settled:
  "m \<in> set ls \<Longrightarrow> ln_phase m = Settled \<Longrightarrow> m \<in> set (start_due a now ls)"
  by (induction a now ls rule: start_due.induct) (auto split: if_splits)

lemma run_due_flying:
  assumes "flying (sv_lanes s) \<le> sv_max_concurrency s"
  shows "flying (sv_lanes (run_due_once s)) \<le> sv_max_concurrency s"
proof (cases "sv_state s = Running")
  case True
  then have "sv_lanes (run_due_once s)
      = start_due (int (sv_max_concurrency s) - int (flying (sv_lanes s))) (sv_now s) (sv_lanes s)"
    by (simp add: run_due_once_def)
  then show ?thesis
    using flying_start_due [of "int (sv_max_concurrency s) - int (flying (sv_lanes s))" "sv_now s" "sv_lanes s"] assms
    by simp
qed (use assms in \<open>simp add: run_due_once_def\<close>)

lemma ok_run_due:
  assumes "supervisor_ok s"
  shows "supervisor_ok (run_due_once s)"
proof (cases "sv_state s = Running")
  case True
  let ?ls = "start_due (int (sv_max_concurrency s) - int (flying (sv_lanes s))) (sv_now s) (sv_lanes s)"
  have "flying ?ls \<le> sv_max_concurrency s"
    using run_due_flying [of s] assms True by (simp add: supervisor_ok_def run_due_once_def)
  moreover have "woken (s\<lparr>sv_lanes := ?ls\<rparr>) l" if "l \<in> set ?ls" "\<not> in_flight l" for l
  proof -
    have "woken s l" using assms True start_due_idle [OF that] that(2) by (simp add: supervisor_ok_def)
    then show ?thesis unfolding woken_def using start_due_settled by (simp del: start_due.simps) blast
  qed
  moreover have "run_due_once s = s\<lparr>sv_lanes := ?ls\<rparr>" using True by (simp add: run_due_once_def)
  ultimately show ?thesis using assms True unfolding supervisor_ok_def by simp
qed (use assms in \<open>simp add: run_due_once_def\<close>)

lemma ok_schedule_next:
  assumes "flying (sv_lanes s) \<le> sv_max_concurrency s" and "sv_timer s \<noteq> None \<longrightarrow> sv_state s = Running"
    and "sv_state s = Starting \<longrightarrow> flying (sv_lanes s) = 0"
  shows "supervisor_ok (schedule_next s)"
proof -
  have "sv_timer (schedule_next s) \<noteq> None \<longrightarrow> sv_state s = Running"
    using assms(2) by (auto simp: schedule_next_def)
  moreover have "woken (schedule_next s) l" if "sv_state s = Running" "l \<in> set (sv_lanes s)" "\<not> in_flight l" for l
    using schedule_next_wakes [OF that] by (simp add: woken_def)
  ultimately show ?thesis using assms(1,3) unfolding supervisor_ok_def by simp
qed

lemma run_due_fields [simp]:
  "sv_state (run_due_once s) = sv_state s" "sv_timer (run_due_once s) = sv_timer s" "sv_now (run_due_once s) = sv_now s"
  "sv_max_concurrency (run_due_once s) = sv_max_concurrency s" "sv_pending (run_due_once s) = sv_pending s"
  "sv_max_backoff (run_due_once s) = sv_max_backoff s"
  by (simp_all add: run_due_once_def)

lemma flying_update_le:
  "k < length ls \<Longrightarrow> (in_flight l \<Longrightarrow> in_flight (ls ! k)) \<Longrightarrow> flying (ls[k := l]) \<le> flying ls"
  unfolding flying_def
proof (induction ls arbitrary: k)
  case (Cons x xs)
  then show ?case by (cases k) auto
qed simp

lemma ok_fire: "supervisor_ok s \<Longrightarrow> supervisor_ok (fire_timer s)"
proof -
  assume s: "supervisor_ok s"
  have "flying (sv_lanes (run_due_once (s\<lparr>sv_timer := None\<rparr>))) \<le> sv_max_concurrency s"
    using run_due_flying [of "s\<lparr>sv_timer := None\<rparr>"] s by (simp add: supervisor_ok_def)
  moreover have "sv_state s = Starting \<longrightarrow> flying (sv_lanes (run_due_once (s\<lparr>sv_timer := None\<rparr>))) = 0"
    using s by (simp add: supervisor_ok_def run_due_once_def)
  ultimately show ?thesis by (simp add: fire_timer_def supervisor_ok_def woken_def)
qed

lemma finish_run_phase [simp]: "ln_phase (finish_run b now x l) = ln_phase l"
  by (cases x) (simp_all add: lane_failed_def Let_def)

lemma supervisor_step_ok:
  assumes "supervisor_ok s" and "supervisor_step s t"
  shows "supervisor_ok t"
  using assms(2)
proof (cases rule: supervisor_step.cases)
  case call_start
  then show ?thesis using assms(1) by (auto simp: supervisor_ok_def start_def schedule_def woken_def)
next
  case call_run_due
  then show ?thesis using assms(1) ok_run_due by simp
next
  case call_drain
  then show ?thesis using assms(1) by (auto simp: supervisor_ok_def begin_drain_def Let_def)
next
  case drained
  then show ?thesis using assms(1) by (auto simp: supervisor_ok_def end_drain_def)
next
  case (tick n)
  then show ?thesis using assms(1) by (fastforce simp: supervisor_ok_def woken_def)
next
  case (timer d)
  then show ?thesis using assms(1) ok_fire by simp
next
  case owed
  have "supervisor_ok (schedule_next (s\<lparr>sv_pending := sv_pending s - 1\<rparr>))"
    by (rule ok_schedule_next) (use assms(1) in \<open>simp_all add: supervisor_ok_def\<close>)
  then show ?thesis using owed by (simp add: owed_schedule_def)
next
  case (settles k x)
  have "flying (sv_lanes t) \<le> flying (sv_lanes s)"
    using settles by (auto simp: settle_lane_def intro!: flying_update_le)
  moreover have "(finish_run (sv_max_backoff s) (sv_now s) x (sv_lanes s ! k))\<lparr>ln_phase := Settled\<rparr> \<in> set (sv_lanes t)"
    using settles by (simp add: settle_lane_def set_update_memI)
  then have "\<exists>m \<in> set (sv_lanes t). ln_phase m = Settled" by (rule bexI [rotated]) simp
  ultimately show ?thesis
    using assms(1) settles(1) by (auto simp: supervisor_ok_def woken_def settle_lane_def)
next
  case (clears k)
  let ?s = "s\<lparr>sv_lanes := (sv_lanes s)[k := (sv_lanes s ! k)\<lparr>ln_phase := Idle\<rparr>]\<rparr>"
  have "flying (sv_lanes ?s) \<le> flying (sv_lanes s)"
    using clears by (auto intro!: flying_update_le)
  then have next_ok: "supervisor_ok (schedule_next ?s)"
    by (intro ok_schedule_next) (use assms(1) in \<open>auto simp: supervisor_ok_def\<close>)
  show ?thesis
  proof (cases "sv_state s = Running")
    case True
    then show ?thesis using clears(1) next_ok by (simp add: clear_lane_def Let_def)
  next
    case False
    then have "schedule_next ?s = ?s" by (simp add: schedule_next_def)
    then show ?thesis using clears(1) next_ok False by (simp add: clear_lane_def Let_def)
  qed
qed

lemma supervisor_initial_ok: "supervisor_initial s \<Longrightarrow> supervisor_ok s"
  by (auto simp: supervisor_initial_def new_supervisor_def supervisor_ok_def flying_def new_lane_def split: if_splits)

interpretation supervisor: ledger_system supervisor_initial supervisor_step supervisor_ok
  by unfold_locales (blast intro: supervisor_initial_ok supervisor_step_ok)+

subsection \<open>Properties\<close>

text \<open>C36: no lane is forgotten and the host is not overrun: whatever the lanes do and however calls, timers and
  runs interleave, at most \<open>maxConcurrency\<close> lanes run at once, and while the supervisor runs, every lane that
  is not running has a wake-up coming, no later than the moment it is due.\<close>

theorem supervisor_bounded_and_awake:
  assumes "supervisor_initial s0" and "supervisor_step\<^sup>*\<^sup>* s0 s"
  shows "flying (sv_lanes s) \<le> sv_max_concurrency s
    \<and> (sv_state s = Running \<longrightarrow> (\<forall>l \<in> set (sv_lanes s). \<not> in_flight l \<longrightarrow> woken s l))"
  using supervisor.reached_inv [OF assms] by (simp add: supervisor_ok_def)

text \<open>Lanes that run after some steps.\<close>

definition running_lanes :: "supervisor \<Rightarrow> nat set" where
  "running_lanes s = {k. k < length (sv_lanes s) \<and> in_flight (sv_lanes s ! k)}"

lemma stopped_step:
  assumes "supervisor_step s t" and "sv_state s \<in> {Draining, Stopped}"
  shows "sv_state t \<in> {Draining, Stopped} \<and> running_lanes t \<subseteq> running_lanes s"
  using assms
  by (cases rule: supervisor_step.cases)
    (auto simp: start_def run_due_once_def begin_drain_def end_drain_def fire_timer_def owed_schedule_def
      schedule_next_def settle_lane_def clear_lane_def Let_def running_lanes_def nth_list_update split: if_splits)

text \<open>A drain is final: from the moment it is called no lane starts, whatever timers, pending
  callbacks and calls to \<open>start\<close> or \<open>runDueOnce\<close> still happen; the lanes in flight can only end.\<close>

theorem drain_starts_nothing:
  assumes "supervisor_step\<^sup>*\<^sup>* (snd (begin_drain s)) t"
  shows "sv_state t \<in> {Draining, Stopped} \<and> running_lanes t \<subseteq> running_lanes s"
  using assms
proof (induction rule: rtranclp_induct)
  case base
  then show ?case by (auto simp: begin_drain_def Let_def running_lanes_def)
next
  case (step t u)
  then show ?case using stopped_step [of t u] by blast
qed

lemma lane_backoff_range: "1 \<le> b \<Longrightarrow> 1 \<le> i \<Longrightarrow> 0 < lane_backoff b i k \<and> lane_backoff b i k \<le> b"
  by (simp add: lane_backoff_def)

text \<open>The back-off of a lane: after any run, a lane either has no failures on its count and runs again after its
  interval, or it waits \<open>interval * 2 ^ (failures - 1)\<close> milliseconds, with the exponent capped at ten and
  the wait capped at the maximum; the count grows by at most one a run, and the wait is never zero.\<close>

theorem lane_backoff_exact:
  assumes "1 \<le> ln_interval l" and "1 \<le> b"
  shows "let m = finish_run b now x l in
    (if ln_failures m = 0 then ln_next_run m = now + ln_interval l \<and> ln_last_failure m = None
     else ln_next_run m = now + min b (ln_interval l * 2 ^ min 10 (ln_failures m - 1))
       \<and> now < ln_next_run m \<and> ln_next_run m \<le> now + b \<and> ln_last_failure m \<noteq> None)
    \<and> ln_failures m \<le> ln_failures l + 1"
  unfolding lane_backoff_def [symmetric] Let_def
  using lane_backoff_range [OF assms(2,1)]
  by (cases x) (simp_all add: lane_failed_def Let_def)

text \<open>C37: with every slot taken and another lane due, the supervisor spins: the timer fires, starts nothing and is set
  again for the same instant, over and over until a run ends, because \<open>#scheduleNext\<close> looks at the lanes that do
  not run and not at the free slots. The host runs its lanes with \<open>maxConcurrency\<close> 1, so one long run is enough.\<close>

theorem saturated_supervisor_spins:
  assumes "sv_state s = Running" and "sv_max_concurrency s \<le> flying (sv_lanes s)"
    and "l \<in> set (sv_lanes s)" "\<not> in_flight l" "ln_next_run l \<le> sv_now s"
  shows "owed_schedule (fire_timer s) = s\<lparr>sv_timer := Some (sv_now s)\<rparr>"
proof -
  have "start_due a now ls = ls" if "a \<le> 0" for a now ls
    using that by (induction a now ls rule: start_due.induct) auto
  then have "fire_timer s = s\<lparr>sv_timer := None, sv_pending := sv_pending s + 1\<rparr>"
    using assms(1,2) by (simp add: fire_timer_def run_due_once_def)
  then have owed: "owed_schedule (fire_timer s) = schedule_next (s\<lparr>sv_timer := None\<rparr>)"
    by (simp add: owed_schedule_def)
  let ?ts = "map ln_next_run (filter (\<lambda>l. \<not> in_flight l) (sv_lanes s))"
  have l: "ln_next_run l \<in> set ?ts" using assms(3,4) by simp
  then have "?ts \<noteq> []" by (metis empty_iff list.set(1))
  then obtain t ts where t: "?ts = t # ts" by (meson neq_Nil_conv)
  then have "fold min ts t \<le> ln_next_run l" using l by (intro fold_min_le) simp
  then have "fold min ts t - sv_now s = 0" using assms(5) by simp
  moreover have "schedule_next (s\<lparr>sv_timer := None\<rparr>) = schedule (fold min ts t - sv_now s) (s\<lparr>sv_timer := None\<rparr>)"
    using schedule_next_first [of "s\<lparr>sv_timer := None\<rparr>" t ts] assms(1) t by simp
  ultimately show ?thesis using owed assms(1) by (simp add: schedule_def)
qed

subsection \<open>Witnesses\<close>

definition sample_supervisor :: supervisor where
  "sample_supervisor = \<lparr>sv_state = Starting, sv_lanes = [new_lane 0 (''fts'', 100), new_lane 0 (''graph'', 200)],
     sv_timer = None, sv_pending = 0, sv_now = 0, sv_max_concurrency = 1, sv_max_backoff = 1000\<rparr>"

lemma sample_supervisor_initial: "supervisor_initial sample_supervisor"
proof -
  have "new_supervisor 0 [(''fts'', 100), (''graph'', 200)] 1 1000 = Some sample_supervisor"
    by (simp add: new_supervisor_def sample_supervisor_def lane_name_ok_def)
  then show ?thesis unfolding supervisor_initial_def by blast
qed

lemma sample_supervisor_fired:
  "supervisor_step\<^sup>*\<^sup>* sample_supervisor (fire_timer (start sample_supervisor))"
proof -
  have "supervisor_step (start sample_supervisor) (fire_timer (start sample_supervisor))"
    by (rule supervisor_step.timer [of _ 0]) (simp_all add: start_def schedule_def sample_supervisor_def)
  with supervisor_step.call_start [of sample_supervisor] show ?thesis by (meson r_into_rtranclp rtranclp.rtrancl_into_rtrancl)
qed

lemma supervisor_bounded_and_awake_witness:
  "flying (sv_lanes (fire_timer (start sample_supervisor))) = 1
     \<and> woken (fire_timer (start sample_supervisor)) (new_lane 0 (''graph'', 200))"
proof -
  have "sv_state (fire_timer (start sample_supervisor)) = Running
      \<and> sv_lanes (fire_timer (start sample_supervisor)) = [(new_lane 0 (''fts'', 100))\<lparr>ln_phase := Awaiting\<rparr>, new_lane 0 (''graph'', 200)]"
    by (simp add: sample_supervisor_def start_def schedule_def fire_timer_def run_due_once_def flying_def new_lane_def)
  then show ?thesis
    using supervisor_bounded_and_awake [OF sample_supervisor_initial sample_supervisor_fired]
    by (simp add: flying_def new_lane_def)
qed

lemma drain_starts_nothing_witness:
  "running_lanes (fire_timer (snd (begin_drain (fire_timer (start sample_supervisor)))))
     \<subseteq> running_lanes (fire_timer (start sample_supervisor))"
proof -
  have "fire_timer (snd (begin_drain (fire_timer (start sample_supervisor))))
      = (snd (begin_drain (fire_timer (start sample_supervisor))))\<lparr>sv_pending := 2\<rparr>"
    by (simp add: sample_supervisor_def start_def schedule_def fire_timer_def run_due_once_def flying_def new_lane_def
      begin_drain_def Let_def)
  then have "running_lanes (fire_timer (snd (begin_drain (fire_timer (start sample_supervisor)))))
      = running_lanes (snd (begin_drain (fire_timer (start sample_supervisor))))"
    by (simp add: running_lanes_def)
  then show ?thesis using drain_starts_nothing [OF rtranclp.rtrancl_refl, of "fire_timer (start sample_supervisor)"] by simp
qed

lemma lane_backoff_exact_witness:
  "ln_next_run (finish_run 1000 50 (Lane_exception None) ((new_lane 0 (''fts'', 100))\<lparr>ln_failures := 2\<rparr>)) = 450"
  using lane_backoff_exact [of "(new_lane 0 (''fts'', 100))\<lparr>ln_failures := 2\<rparr>" 1000 50 "Lane_exception None"]
  by (simp add: new_lane_def lane_failed_def Let_def)

lemma saturated_supervisor_spins_witness:
  "let s = (fire_timer (start sample_supervisor))\<lparr>sv_now := 7\<rparr> in
     owed_schedule (fire_timer s) = s\<lparr>sv_timer := Some 7\<rparr>"
proof -
  have s: "sv_state (fire_timer (start sample_supervisor)) = Running"
    "sv_lanes (fire_timer (start sample_supervisor)) = [(new_lane 0 (''fts'', 100))\<lparr>ln_phase := Awaiting\<rparr>, new_lane 0 (''graph'', 200)]"
    "sv_max_concurrency (fire_timer (start sample_supervisor)) = 1"
    by (simp_all add: sample_supervisor_def start_def schedule_def fire_timer_def run_due_once_def flying_def new_lane_def)
  show ?thesis unfolding Let_def
    using saturated_supervisor_spins [of "(fire_timer (start sample_supervisor))\<lparr>sv_now := 7\<rparr>" "new_lane 0 (''graph'', 200)"] s
    by (simp add: flying_def new_lane_def)
qed

end
