(* ===== verification/AutomaticRecall.thy ===== *)
theory AutomaticRecall
  imports ContextModel
begin

text \<open>
  Automatic recall (\<open>packages/memory-kernel/src/automatic-recall.ts\<close>) and the marker of its contexts
  (\<open>automaticContextReceiptMarker\<close>, \<open>detectAutomaticContextReceipt\<close> of
  \<open>packages/context-compiler/src/index.ts\<close>): the listed memories of a project are filtered, ordered by
  scope and relevance to the prompt, packed into the budgets, rendered, and the use is recorded before the
  context is handed out. The storage client is two stateful operations; the Unicode tables (NFKC, lower case,
  the class of letters and digits) and the hash are fields of the environment.
\<close>

subsection \<open>Text measures\<close>

definition utf8_length :: "ustring \<Rightarrow> nat" where
  "utf8_length t = (\<Sum>c \<leftarrow> t. if c < 128 then 1 else if c < 2048 then 2 else if c < 65536 then 3 else 4)"

text \<open>\<open>Math.max(1, Math.ceil(bytes / 4))\<close>.\<close>

definition token_estimate :: "ustring \<Rightarrow> nat" where
  "token_estimate t = max 1 ((utf8_length t + 3) div 4)"

record recall_env =
  re_sha :: "jval \<Rightarrow> string"
  re_nfkc :: "ustring \<Rightarrow> ustring"
  re_lower :: "ustring \<Rightarrow> ustring"
  re_letter :: "nat \<Rightarrow> bool"

definition term_char :: "recall_env \<Rightarrow> nat \<Rightarrow> bool" where
  "term_char v c \<longleftrightarrow> re_letter v c \<or> c = 95 \<or> c = 45"

text \<open>The matches of \<open>[\p{L}\p{N}_-]{2,}\<close>: the maximal runs of at least two such characters.\<close>

fun term_runs :: "(nat \<Rightarrow> bool) \<Rightarrow> ustring \<Rightarrow> ustring \<Rightarrow> ustring list" where
  "term_runs P run [] = (if length run \<ge> 2 then [rev run] else [])"
| "term_runs P run (c # cs) =
     (if P c then term_runs P (c # run) cs
      else (if length run \<ge> 2 then [rev run] else []) @ term_runs P [] cs)"

definition recall_terms :: "recall_env \<Rightarrow> ustring \<Rightarrow> ustring list" where
  "recall_terms v t = take 64 (js_set (term_runs (term_char v) [] (re_lower v (re_nfkc v t))))"

definition has_part :: "ustring \<Rightarrow> ustring \<Rightarrow> bool" where
  "has_part t part \<longleftrightarrow> sublist part t"

definition prompt_relevance :: "recall_env \<Rightarrow> ustring list \<Rightarrow> ustring \<Rightarrow> nat" where
  "prompt_relevance v ts t = length (filter (has_part (re_lower v (re_nfkc v t))) ts)"

subsection \<open>Summaries and limits\<close>

datatype summary_content = Available ustring string | Unavailable string

record memory_summary =
  su_memory_id :: string
  su_revision_id :: string
  su_scope :: scope
  su_lifecycle :: lifecycle
  su_sensitivity :: sensitivity
  su_recorded_at :: timestamp
  su_content :: summary_content
  su_is_current :: bool
  su_non_current_reason :: "string option"

record recall_limits =
  rl_max_items :: nat
  rl_max_tokens :: nat
  rl_max_bytes :: nat

definition default_automatic_recall_limits :: recall_limits where
  "default_automatic_recall_limits = \<lparr>rl_max_items = 8, rl_max_tokens = 600, rl_max_bytes = 8000\<rparr>"

record recall_options =
  ro_principal :: string
  ro_project_id :: string
  ro_project_scope :: scope
  ro_session_id :: string
  ro_turn_id :: string
  ro_prompt :: ustring
  ro_as_of :: timestamp
  ro_limits :: recall_limits

definition recall_scopes :: "recall_options \<Rightarrow> scope list" where
  "recall_scopes q = [ro_project_scope q, \<lparr>scope_kind_of = Sk_user, scope_id = ro_principal q\<rparr>]"

definition scope_priority :: "scope \<Rightarrow> nat" where
  "scope_priority s = (case scope_kind_of s of Sk_workspace \<Rightarrow> 0 | Sk_user \<Rightarrow> 1 | _ \<Rightarrow> 2)"

text \<open>The loop over the listed items: the reason of an exclusion, or the text of an eligible item.\<close>

definition recall_exclusion :: "recall_options \<Rightarrow> memory_summary \<Rightarrow> string + ustring" where
  "recall_exclusion q m =
     (if su_scope m \<notin> set (recall_scopes q) then Inl ''SCOPE_EXCLUDED''
      else if \<not> su_is_current m \<or> su_lifecycle m \<noteq> Active \<or> su_non_current_reason m \<noteq> None
        then Inl (case su_non_current_reason m of None \<Rightarrow> ''NOT_CURRENT'' | Some r \<Rightarrow> r)
      else if su_sensitivity m = Sensitive \<or> su_sensitivity m = Secret then Inl ''SENSITIVITY_EXCLUDED''
      else case su_content m of Unavailable r \<Rightarrow> Inl r | Available t h \<Rightarrow> Inr t)"

definition recall_text :: "memory_summary \<Rightarrow> ustring" where
  "recall_text m = (case su_content m of Available t h \<Rightarrow> t | Unavailable r \<Rightarrow> [])"

definition recall_eligible :: "recall_options \<Rightarrow> memory_summary list \<Rightarrow> memory_summary list" where
  "recall_eligible q = filter (\<lambda>m. \<exists>t. recall_exclusion q m = Inr t)"

definition recall_exclusions :: "recall_options \<Rightarrow> memory_summary list \<Rightarrow> string list" where
  "recall_exclusions q ms = concat (map (\<lambda>m. case recall_exclusion q m of Inl r \<Rightarrow> [r] | Inr t \<Rightarrow> []) ms)"

text \<open>
  The order of \<open>eligible.sort\<close>: scope, relevance (highest first), time of recording (latest text first), identifier.
  The sorts are stable, so sorting by the last criterion first and by the first criterion last is the chain.
\<close>

definition sort_down :: "('a \<Rightarrow> 'k::linorder) \<Rightarrow> 'a list \<Rightarrow> 'a list" where
  "sort_down f xs = rev (sort_key f (rev xs))"

definition recall_order :: "recall_env \<Rightarrow> ustring list \<Rightarrow> memory_summary list \<Rightarrow> memory_summary list" where
  "recall_order v ts ms =
     sort_key (\<lambda>m. scope_priority (su_scope m))
       (sort_down (\<lambda>m. prompt_relevance v ts (recall_text m))
         (sort_down (\<lambda>m. locale_key (iso (su_recorded_at m)))
           (sort_key (\<lambda>m. locale_key (su_memory_id m)) ms)))"

subsection \<open>The marker and the rendered context\<close>

definition marker_prefix :: ustring where
  "marker_prefix = code_points ''[memo-graph automatic-context v1 receipt=''"

definition automatic_context_receipt_marker :: "string \<Rightarrow> ustring" where
  "automatic_context_receipt_marker rid = marker_prefix @ code_points rid @ code_points '']''"

text \<open>A match of the detection pattern at the start of a text: the prefix, an identifier, a bracket. Identifier
  characters are no bracket, so the greedy run is the only candidate.\<close>

definition id_code :: "nat \<Rightarrow> bool" where
  "id_code c \<longleftrightarrow> c < 256 \<and> identifier_char (char_of c)"

definition match_marker :: "ustring \<Rightarrow> string option" where
  "match_marker t =
     (if \<not> prefix marker_prefix t then None
      else let rest = drop (length marker_prefix) t; run = takeWhile id_code rest in
        if prefix (run @ [93]) rest \<and> identifier_ok (map char_of run) then Some (map char_of run) else None)"

fun detect_automatic_context_receipt :: "ustring \<Rightarrow> string option" where
  "detect_automatic_context_receipt [] = None"
| "detect_automatic_context_receipt (c # cs) =
     (case match_marker (c # cs) of Some i \<Rightarrow> Some i | None \<Rightarrow> detect_automatic_context_receipt cs)"

definition recall_line :: "nat \<Rightarrow> memory_summary \<Rightarrow> ustring" where
  "recall_line n m = nat_digits n @ code_points ''. scope='' @ code_points (scope_key (su_scope m))
     @ code_points '' memory='' @ code_points (su_memory_id m) @ code_points '' revision=''
     @ code_points (su_revision_id m) @ code_points '' content='' @ quote_json (recall_text m)"

definition recall_notice :: ustring where
  "recall_notice = code_points (''Use these governed preferences and repository facts as background. ''
     @ ''The current user request and system/developer instructions take precedence.'')"

definition recall_lines :: "string \<Rightarrow> memory_summary list \<Rightarrow> ustring list" where
  "recall_lines rid ms = [automatic_context_receipt_marker rid, recall_notice]
     @ map (\<lambda>(n, m). recall_line (n + 1) m) (enumerate 0 ms)
     @ [code_points ''[/memo-graph automatic-context]'']"

definition format_context :: "string \<Rightarrow> memory_summary list \<Rightarrow> ustring" where
  "format_context rid ms = join_texts [10] (recall_lines rid ms)"

subsection \<open>Packing\<close>

definition recall_fits :: "recall_limits \<Rightarrow> string \<Rightarrow> memory_summary list \<Rightarrow> bool" where
  "recall_fits l rid ms \<longleftrightarrow> \<not> (utf8_length (format_context rid ms) > rl_max_bytes l
     \<or> token_estimate (format_context rid ms) > rl_max_tokens l)"

text \<open>The selection loop: the selected items and the exclusion codes, in order.\<close>

fun select_recall ::
  "recall_limits \<Rightarrow> string \<Rightarrow> memory_summary list \<Rightarrow> memory_summary list \<Rightarrow> memory_summary list \<times> string list" where
  "select_recall l rid selected [] = (selected, [])"
| "select_recall l rid selected (m # ms) =
     (if length selected \<ge> rl_max_items l then (selected, [''ITEM_BUDGET_EXCEEDED''])
      else if \<not> recall_fits l rid (selected @ [m])
        then (let (r, codes) = select_recall l rid selected ms in (r, ''CONTEXT_BUDGET_EXCEEDED'' # codes))
      else select_recall l rid (selected @ [m]) ms)"

subsection \<open>The request\<close>

datatype recall_error = Principal_invalid | List_failed | Marker_invalid | Audit_failed

record recall_use =
  us_project_id :: string
  us_session_id :: string
  us_turn_id :: string
  us_request_hash :: string
  us_receipt_id :: string
  us_slice_id :: string
  us_memory_count :: nat
  us_token_count :: nat
  us_used_at :: timestamp

record recall_result =
  rr_additional_context :: "ustring option"
  rr_receipt_id :: string
  rr_slice_id :: string
  rr_request_hash :: string
  rr_token_count :: nat
  rr_selected :: "memory_summary list"
  rr_exclusion_reason_codes :: "string list"

definition recall_request_hash :: "recall_env \<Rightarrow> recall_options \<Rightarrow> string" where
  "recall_request_hash v q = re_sha v (jobj
     [(''domain'', jstr ''memo-graph/automatic-recall/v1''), (''principal_id'', jstr (ro_principal q)),
      (''project_id'', jstr (ro_project_id q)), (''session_id'', jstr (ro_session_id q)),
      (''turn_id'', jstr (ro_turn_id q)), (''project_scope'', projection_scope_json (ro_project_scope q)),
      (''prompt_hash'', jstr (re_sha v (J_str (ro_prompt q)))), (''as_of'', jstr (iso (ro_as_of q))),
      (''limits'', jobj [(''maxItems'', jnat (rl_max_items (ro_limits q))),
        (''maxTokens'', jnat (rl_max_tokens (ro_limits q))), (''maxBytes'', jnat (rl_max_bytes (ro_limits q)))])])"

definition summary_hash :: "memory_summary \<Rightarrow> string" where
  "summary_hash m = (case su_content m of Available t h \<Rightarrow> h | Unavailable r \<Rightarrow> [])"

definition recall_slice_id :: "recall_env \<Rightarrow> string \<Rightarrow> memory_summary list \<Rightarrow> string" where
  "recall_slice_id v h ms = ''automatic_slice:'' @ take 41 (drop 7 (re_sha v (jobj
     [(''request_hash'', jstr h), (''selected'', J_arr (map (\<lambda>m. jobj
        [(''memory_id'', jstr (su_memory_id m)), (''revision_id'', jstr (su_revision_id m)),
         (''content_hash'', jstr (summary_hash m))]) ms))])))"

definition recall_result_of ::
  "recall_env \<Rightarrow> recall_options \<Rightarrow> memory_summary list \<Rightarrow> string list \<Rightarrow> recall_result" where
  "recall_result_of v q items listed_codes =
     (let h = recall_request_hash v q; rid = ''automatic_recall:'' @ take 41 (drop 7 h);
          ordered = recall_order v (recall_terms v (ro_prompt q)) (recall_eligible q items);
          (selected, codes) = select_recall (ro_limits q) rid [] ordered;
          context = (if selected = [] then None else Some (format_context rid selected)) in
      \<lparr>rr_additional_context = context, rr_receipt_id = rid, rr_slice_id = recall_slice_id v h selected,
       rr_request_hash = h, rr_token_count = (case context of None \<Rightarrow> 0 | Some t \<Rightarrow> token_estimate t),
       rr_selected = selected,
       rr_exclusion_reason_codes = sort (js_set (listed_codes @ recall_exclusions q items @ codes))\<rparr>)"

definition recall_use_of :: "recall_options \<Rightarrow> recall_result \<Rightarrow> recall_use" where
  "recall_use_of q r = \<lparr>us_project_id = ro_project_id q, us_session_id = ro_session_id q, us_turn_id = ro_turn_id q,
     us_request_hash = rr_request_hash r, us_receipt_id = rr_receipt_id r, us_slice_id = rr_slice_id r,
     us_memory_count = length (rr_selected r), us_token_count = rr_token_count r, us_used_at = ro_as_of q\<rparr>"

text \<open>
  \<open>compileAutomaticRecall\<close>. The marker is rendered for the first item within the item budget; an invalid
  receipt identifier throws there.
\<close>

definition compile_automatic_recall ::
  "recall_env \<Rightarrow> ('s, unit, memory_summary list \<times> string list) run \<Rightarrow> (recall_use \<Rightarrow> ('s, unit, unit) run)
     \<Rightarrow> recall_options \<Rightarrow> ('s, recall_error, recall_result) run" where
  "compile_automatic_recall v list_memories record_use q = (\<lambda>s.
     if \<not> identifier_ok (ro_principal q) then (Inl Principal_invalid, s)
     else case list_memories s of (Inl e, s1) \<Rightarrow> (Inl List_failed, s1)
     | (Inr (items, codes), s1) \<Rightarrow>
         let r = recall_result_of v q items codes in
         if recall_eligible q items \<noteq> [] \<and> 0 < rl_max_items (ro_limits q) \<and> \<not> identifier_ok (rr_receipt_id r)
         then (Inl Marker_invalid, s1)
         else case record_use (recall_use_of q r) s1 of
             (Inl e, s2) \<Rightarrow> (Inl Audit_failed, s2)
           | (Inr u, s2) \<Rightarrow> (Inr r, s2))"

subsection \<open>Selection\<close>

lemma select_recall_facts:
  assumes "select_recall l rid selected ms = (r, codes)" and "length selected \<le> rl_max_items l"
    and "selected \<noteq> [] \<longrightarrow> recall_fits l rid selected"
  shows "(\<exists>us. r = selected @ us \<and> subseq us ms) \<and> length r \<le> rl_max_items l \<and> (r \<noteq> [] \<longrightarrow> recall_fits l rid r)"
  using assms
proof (induction l rid selected ms arbitrary: r codes rule: select_recall.induct)
  case (2 l rid selected m ms)
  consider "length selected \<ge> rl_max_items l" | "\<not> length selected \<ge> rl_max_items l" "\<not> recall_fits l rid (selected @ [m])"
    | "\<not> length selected \<ge> rl_max_items l" "recall_fits l rid (selected @ [m])" by blast
  then show ?case
  proof cases
    case 1
    then show ?thesis using "2.prems" by auto
  next
    case 2
    then obtain codes' where "select_recall l rid selected ms = (r, codes')"
      using "2.prems"(1) by (auto split: prod.splits)
    from "2.IH"(1) [OF 2 this "2.prems"(2,3)] show ?thesis by (auto intro!: list_emb_Cons)
  next
    case 3
    have rest: "select_recall l rid (selected @ [m]) ms = (r, codes)" using "2.prems"(1) 3 by simp
    have "length (selected @ [m]) \<le> rl_max_items l" "selected @ [m] \<noteq> [] \<longrightarrow> recall_fits l rid (selected @ [m])"
      using 3 by simp_all
    from "2.IH"(2) [OF 3(1) _ rest this] 3(2) obtain us where
      "r = selected @ m # us" "subseq us ms" "length r \<le> rl_max_items l" "recall_fits l rid r" by auto
    then show ?thesis by auto
  qed
qed auto

lemma sort_down_set [simp]: "set (sort_down f xs) = set xs" "mset (sort_down f xs) = mset xs"
  by (simp_all add: sort_down_def)

lemma recall_order_set [simp]: "set (recall_order v ts ms) = set ms"
  by (simp add: recall_order_def)

lemma eligible_facts:
  "m \<in> set (recall_eligible q ms) \<Longrightarrow> m \<in> set ms \<and> su_scope m \<in> set (recall_scopes q) \<and> su_is_current m
     \<and> su_lifecycle m = Active \<and> su_non_current_reason m = None \<and> su_sensitivity m \<notin> {Sensitive, Secret}
     \<and> (\<exists>t h. su_content m = Available t h)"
  by (auto simp: recall_eligible_def recall_exclusion_def split: if_splits summary_content.splits)

lemma recall_result_facts:
  assumes "recall_result_of v q items codes = r"
  shows "subseq (rr_selected r) (recall_order v (recall_terms v (ro_prompt q)) (recall_eligible q items))
    \<and> length (rr_selected r) \<le> rl_max_items (ro_limits q)
    \<and> rr_additional_context r = (if rr_selected r = [] then None else Some (format_context (rr_receipt_id r) (rr_selected r)))
    \<and> (rr_selected r \<noteq> [] \<longrightarrow> recall_fits (ro_limits q) (rr_receipt_id r) (rr_selected r))
    \<and> rr_token_count r = (if rr_selected r = [] then 0 else token_estimate (format_context (rr_receipt_id r) (rr_selected r)))"
proof -
  let ?h = "recall_request_hash v q"
  let ?rid = "''automatic_recall:'' @ take 41 (drop 7 ?h)"
  let ?ms = "recall_order v (recall_terms v (ro_prompt q)) (recall_eligible q items)"
  obtain sel cs where sel: "select_recall (ro_limits q) ?rid [] ?ms = (sel, cs)" by fastforce
  from select_recall_facts [OF sel] have "subseq sel ?ms" "length sel \<le> rl_max_items (ro_limits q)"
    "sel \<noteq> [] \<longrightarrow> recall_fits (ro_limits q) ?rid sel" by auto
  then show ?thesis using assms sel by (auto simp: recall_result_of_def Let_def)
qed

text \<open>C38: a recall hands out nothing it should not: every memory in it was listed by storage, lies in the project's scope
  or the caller's own, is current, active, neither sensitive nor secret and readable; there are at most
  \<open>maxItems\<close> of them, the rendered context keeps within \<open>maxBytes\<close> and \<open>maxTokens\<close>, its tokens are counted
  exactly, and its use was recorded, with these counts, before it is returned.\<close>

theorem recall_is_governed:
  assumes "compile_automatic_recall v list_memories record_use q s = (Inr r, s2)"
  shows "(\<exists>items codes s1. list_memories s = (Inr (items, codes), s1) \<and> set (rr_selected r) \<subseteq> set items
      \<and> record_use (recall_use_of q r) s1 = (Inr (), s2))
    \<and> (\<forall>m \<in> set (rr_selected r). su_scope m \<in> {ro_project_scope q, \<lparr>scope_kind_of = Sk_user, scope_id = ro_principal q\<rparr>}
         \<and> su_is_current m \<and> su_lifecycle m = Active \<and> su_sensitivity m \<notin> {Sensitive, Secret}
         \<and> (\<exists>t h. su_content m = Available t h))
    \<and> length (rr_selected r) \<le> rl_max_items (ro_limits q)
    \<and> (case rr_additional_context r of None \<Rightarrow> rr_selected r = [] \<and> rr_token_count r = 0
       | Some t \<Rightarrow> t = format_context (rr_receipt_id r) (rr_selected r) \<and> utf8_length t \<le> rl_max_bytes (ro_limits q)
           \<and> token_estimate t \<le> rl_max_tokens (ro_limits q) \<and> rr_token_count r = token_estimate t
           \<and> identifier_ok (rr_receipt_id r))"
proof -
  from assms obtain items codes s1 where l: "list_memories s = (Inr (items, codes), s1)"
    and r: "r = recall_result_of v q items codes" and u: "record_use (recall_use_of q r) s1 = (Inr (), s2)"
    and i: "recall_eligible q items \<noteq> [] \<Longrightarrow> 0 < rl_max_items (ro_limits q) \<Longrightarrow> identifier_ok (rr_receipt_id r)"
    by (auto simp: compile_automatic_recall_def Let_def split: if_splits prod.splits sum.splits)
  note f = recall_result_facts [OF r [symmetric]]
  have sub: "set (rr_selected r) \<subseteq> set (recall_eligible q items)"
    using conjunct1 [OF f] by (metis recall_order_set subseq_conv_nths set_nths_subset)
  have elig: "m \<in> set items \<and> su_scope m \<in> {ro_project_scope q, \<lparr>scope_kind_of = Sk_user, scope_id = ro_principal q\<rparr>}
      \<and> su_is_current m \<and> su_lifecycle m = Active \<and> su_sensitivity m \<notin> {Sensitive, Secret}
      \<and> (\<exists>t h. su_content m = Available t h)" if "m \<in> set (rr_selected r)" for m
    using eligible_facts [of m q items] sub that by (auto simp: recall_scopes_def)
  have "identifier_ok (rr_receipt_id r)" if "rr_selected r \<noteq> []"
    using i sub f that by (metis empty_subsetI le_zero_eq length_0_conv list.set(1) neq0_conv set_empty subset_empty)
  then show ?thesis using l u f elig by (auto simp: recall_fits_def not_less)
qed

subsection \<open>The order\<close>

text \<open>A stable sort by \<open>f\<close> of a list sorted by \<open>R\<close> is sorted by \<open>f\<close>, with \<open>R\<close> among equals.\<close>

lemma insort_chain:
  assumes "sorted_wrt (\<lambda>x y. f x < f y \<or> f x = f y \<and> R x y) ys" and "\<forall>y \<in> set ys. R x y"
  shows "sorted_wrt (\<lambda>x y. f x < f y \<or> f x = f y \<and> R x y) (insort_key f x ys)"
  using assms by (induction ys) (auto simp: set_insort_key)

lemma sort_key_chain:
  "sorted_wrt R xs \<Longrightarrow> sorted_wrt (\<lambda>x y. f x < f y \<or> f x = f y \<and> R x y) (sort_key f xs)"
  by (induction xs) (auto intro!: insort_chain)

lemma sort_down_chain:
  assumes "sorted_wrt R xs"
  shows "sorted_wrt (\<lambda>x y. f y < f x \<or> f x = f y \<and> R x y) (sort_down f xs)"
proof -
  have "sorted_wrt (\<lambda>x y. R y x) (rev xs)" using assms by (simp add: sorted_wrt_rev)
  from sort_key_chain [OF this, of f] show ?thesis
    unfolding sort_down_def sorted_wrt_rev by (rule sorted_wrt_mono_rel [rotated]) auto
qed

lemma sorted_wrt_subseq: "subseq xs ys \<Longrightarrow> sorted_wrt R ys \<Longrightarrow> sorted_wrt R xs"
  by (induction rule: list_emb.induct) (auto dest: list_emb_set)

text \<open>The comparator chain of \<open>eligible.sort\<close>, as a relation.\<close>

definition recall_before :: "recall_env \<Rightarrow> ustring list \<Rightarrow> memory_summary \<Rightarrow> memory_summary \<Rightarrow> bool" where
  "recall_before v ts a b \<longleftrightarrow>
     (let pa = scope_priority (su_scope a); pb = scope_priority (su_scope b);
          ra = prompt_relevance v ts (recall_text a); rb = prompt_relevance v ts (recall_text b);
          ta = locale_key (iso (su_recorded_at a)); tb = locale_key (iso (su_recorded_at b)) in
      pa < pb \<or> pa = pb \<and> (rb < ra \<or> ra = rb \<and> (tb < ta
        \<or> ta = tb \<and> locale_key (su_memory_id a) \<le> locale_key (su_memory_id b))))"

text \<open>The order in which memories compete for the budget is the comparator of the code: the workspace's before the
  user's before any other scope's; within a scope the more prompt terms a memory contains the earlier; then the later
  recorded text; then the identifier. The sort loses and invents no memory, and the context lists in this order.\<close>

theorem recall_order_is_chain:
  "sorted_wrt (recall_before v ts) (recall_order v ts ms) \<and> mset (recall_order v ts ms) = mset ms
     \<and> sorted_wrt (recall_before v (recall_terms v (ro_prompt q))) (rr_selected (recall_result_of v q items codes))"
proof -
  have sorted: "sorted_wrt (recall_before v ts) (recall_order v ts ms)" for ts ms
  proof -
    have "sorted_wrt (\<lambda>a b. locale_key (su_memory_id a) \<le> locale_key (su_memory_id b))
        (sort_key (\<lambda>m. locale_key (su_memory_id m)) ms)"
      using sorted_sort_key [of "\<lambda>m. locale_key (su_memory_id m)" ms] by (simp add: sorted_map)
    from sort_key_chain [OF sort_down_chain [OF sort_down_chain [OF this, of "\<lambda>m. locale_key (iso (su_recorded_at m))"],
        of "\<lambda>m. prompt_relevance v ts (recall_text m)"], of "\<lambda>m. scope_priority (su_scope m)"]
    show ?thesis
      unfolding recall_order_def [symmetric] by (rule sorted_wrt_mono_rel [rotated]) (auto simp: recall_before_def Let_def)
  qed
  have "subseq (rr_selected (recall_result_of v q items codes))
      (recall_order v (recall_terms v (ro_prompt q)) (recall_eligible q items))"
    using recall_result_facts [OF refl, of v q items codes] by blast
  then have "sorted_wrt (recall_before v (recall_terms v (ro_prompt q))) (rr_selected (recall_result_of v q items codes))"
    using sorted by (rule sorted_wrt_subseq)
  then show ?thesis using sorted by (simp add: recall_order_def)
qed

subsection \<open>The context cannot be forged\<close>

fun lines_of :: "ustring \<Rightarrow> ustring list" where
  "lines_of [] = [[]]"
| "lines_of (c # cs) = (if c = 10 then [] # lines_of cs else (c # hd (lines_of cs)) # tl (lines_of cs))"

lemma lines_of_line: "10 \<notin> set t \<Longrightarrow> lines_of t = [t]"
  by (induction t) auto

lemma lines_of_append: "10 \<notin> set t \<Longrightarrow> lines_of (t @ 10 # us) = t # lines_of us"
  by (induction t) auto

lemma lines_of_join:
  assumes "ts \<noteq> []" and "\<forall>t \<in> set ts. 10 \<notin> set t"
  shows "lines_of (join_texts [10] ts) = ts"
proof -
  obtain t us where ts: "ts = t # us" using assms(1) by (cases ts) auto
  have "lines_of (t @ concat (map (\<lambda>u. 10 # u) us)) = t # us" if "10 \<notin> set t" "\<forall>t \<in> set us. 10 \<notin> set t" for t
    using that by (induction us arbitrary: t) (simp_all add: lines_of_line lines_of_append)
  moreover have "(\<lambda>u. [10] @ u) = (#) (10::nat)" by auto
  ultimately show ?thesis using assms(2) ts by (simp add: join_texts_def del: append.simps)
qed

lemma hex_digit_print: "hex_digit d \<noteq> 10"
  by (simp add: hex_digit_def)

lemma quote_json_line: "10 \<notin> set (quote_json t)"
proof -
  have "10 \<notin> set (escape_char c)" for c
    by (simp add: escape_char_def hex4_def hex_digit_print [THEN not_sym])
  then show ?thesis by (simp add: quote_json_def)
qed

lemma nat_digits_line: "10 \<notin> set (nat_digits n)"
proof (induction n rule: nat_digits.induct)
  case (1 n)
  then show ?case by (subst nat_digits.simps) auto
qed

lemma identifier_chars: "identifier_ok s \<Longrightarrow> list_all identifier_char s"
  by (cases s) (auto simp: identifier_ok_def identifier_char_def list_all_iff)

lemma id_code_of_char [simp]: "id_code (of_char c) \<longleftrightarrow> identifier_char c"
  by (simp add: id_code_def)

lemma identifier_line:
  assumes "identifier_ok i"
  shows "10 \<notin> set (code_points i)"
proof
  assume "10 \<in> set (code_points i)"
  then obtain c where c: "c \<in> set i" "of_char c = (10::nat)" by (auto simp: code_points_def)
  then have "id_code 10" using identifier_chars [OF assms] by (metis id_code_of_char list_all_iff)
  then show False using id_code_of_char [of "CHR 0x0A"] by (simp add: identifier_char_def ascii_alnum_def)
qed

lemma scope_key_line: "scope_ok sc \<Longrightarrow> 10 \<notin> set (code_points (scope_key sc))"
  using identifier_line [of "scope_id sc"]
  by (cases "scope_kind_of sc") (auto simp: scope_key_def scope_ok_def code_points_def)

text \<open>The fixed lines and fragments of the context.\<close>

lemma recall_fragments:
  "10 \<notin> set marker_prefix" "10 \<notin> set recall_notice" "10 \<notin> set (code_points ''[/memo-graph automatic-context]'')"
  "10 \<notin> set (code_points ''. scope='')" "10 \<notin> set (code_points '' memory='')"
  "10 \<notin> set (code_points '' revision='')" "10 \<notin> set (code_points '' content='')" "10 \<notin> set (code_points '']'')"
  by (simp_all add: marker_prefix_def recall_notice_def code_points_def)

definition summary_ids_ok :: "memory_summary \<Rightarrow> bool" where
  "summary_ids_ok m \<longleftrightarrow> scope_ok (su_scope m) \<and> identifier_ok (su_memory_id m) \<and> identifier_ok (su_revision_id m)"

lemma recall_line_line: "summary_ids_ok m \<Longrightarrow> 10 \<notin> set (recall_line n m)"
  unfolding summary_ids_ok_def recall_line_def
  by (simp only: set_append Un_iff recall_fragments nat_digits_line quote_json_line identifier_line scope_key_line simp_thms)

lemma lines_of_context:
  assumes "identifier_ok rid" and "\<forall>m \<in> set ms. summary_ids_ok m"
  shows "lines_of (format_context rid ms) = recall_lines rid ms"
  unfolding format_context_def
proof (rule lines_of_join)
  have "10 \<notin> set (automatic_context_receipt_marker rid)"
    unfolding automatic_context_receipt_marker_def
    by (simp only: set_append Un_iff recall_fragments identifier_line [OF assms(1)] simp_thms)
  moreover have "10 \<notin> set (recall_line n m)" if "(n', m) \<in> set (enumerate 0 ms)" for n n' m
  proof -
    have "m \<in> set ms" using that by (auto simp: in_set_enumerate_eq)
    then show ?thesis using assms(2) recall_line_line by blast
  qed
  ultimately show "\<forall>t \<in> set (recall_lines rid ms). 10 \<notin> set t"
    by (auto simp: recall_lines_def recall_fragments)
qed (simp add: recall_lines_def)

lemma match_marker_own:
  assumes "identifier_ok rid"
  shows "match_marker (automatic_context_receipt_marker rid @ t) = Some rid"
proof -
  have ids: "list_all id_code (code_points rid)" and chars: "map char_of (code_points rid) = rid"
    using identifier_chars [OF assms] by (auto simp: code_points_def list_all_iff comp_def)
  have "\<not> id_code 93" using id_code_of_char [of "CHR '']''"] by (simp add: identifier_char_def ascii_alnum_def)
  then have "takeWhile id_code (code_points rid @ 93 # t) = code_points rid"
    using ids by (auto simp: list_all_iff takeWhile_append2 takeWhile_tail)
  moreover have "drop (length marker_prefix) (automatic_context_receipt_marker rid @ t) = code_points rid @ 93 # t"
    by (simp add: automatic_context_receipt_marker_def code_points_def)
  moreover have "prefix marker_prefix (automatic_context_receipt_marker rid @ t)"
    by (simp add: automatic_context_receipt_marker_def)
  ultimately show ?thesis using assms chars by (simp add: match_marker_def Let_def)
qed

text \<open>C39: a memory cannot forge the context it is shown in. Whatever the texts of the selected memories are (line breaks,
  quotes, the marker itself), the rendered context has exactly the lines the code joined: the marker, the notice, one line
  per memory and the end line; and detecting the receipt in it yields the receipt it was rendered with.\<close>

theorem recall_context_not_forged:
  assumes "identifier_ok rid" and "\<forall>m \<in> set ms. summary_ids_ok m"
  shows "detect_automatic_context_receipt (format_context rid ms @ t) = Some rid
    \<and> lines_of (format_context rid ms) = recall_lines rid ms
    \<and> length (lines_of (format_context rid ms)) = length ms + 3"
proof -
  obtain u where u: "format_context rid ms = automatic_context_receipt_marker rid @ u"
    by (simp add: format_context_def recall_lines_def join_texts_def)
  have "detect_automatic_context_receipt (c # cs) = Some i" if "match_marker (c # cs) = Some i" for c cs i
    using that by simp
  moreover obtain c cs where "automatic_context_receipt_marker rid @ u @ t = c # cs"
    by (simp add: automatic_context_receipt_marker_def marker_prefix_def code_points_def)
  ultimately have "detect_automatic_context_receipt (format_context rid ms @ t) = Some rid"
    using match_marker_own [OF assms(1), of "u @ t"] u by simp
  moreover have "length (recall_lines rid ms) = length ms + 3" by (simp add: recall_lines_def)
  ultimately show ?thesis using lines_of_context [OF assms] by simp
qed

subsection \<open>Witnesses\<close>

definition sample_summary :: memory_summary where
  "sample_summary = \<lparr>su_memory_id = ''memory:1'', su_revision_id = ''revision:1'',
     su_scope = \<lparr>scope_kind_of = Sk_user, scope_id = ''ann''\<rparr>, su_lifecycle = Active, su_sensitivity = Public,
     su_recorded_at = Timestamp ''2026-01-01T00:00:00.000Z'' 1767225600000,
     su_content = Available [97, 10, 91] ''h'', su_is_current = True, su_non_current_reason = None\<rparr>"

definition sample_recall :: recall_options where
  "sample_recall = \<lparr>ro_principal = ''ann'', ro_project_id = ''p'',
     ro_project_scope = \<lparr>scope_kind_of = Sk_workspace, scope_id = ''w''\<rparr>, ro_session_id = ''s'', ro_turn_id = ''t'',
     ro_prompt = [97, 98], ro_as_of = Timestamp ''2026-01-01T00:00:00.000Z'' 1767225600000,
     ro_limits = default_automatic_recall_limits\<rparr>"

definition sample_recall_env :: recall_env where
  "sample_recall_env = \<lparr>re_sha = (\<lambda>j. ''sha256:'' @ replicate 64 CHR ''a''), re_nfkc = (\<lambda>t. t), re_lower = (\<lambda>t. t),
     re_letter = (\<lambda>c. 97 \<le> c \<and> c \<le> 122)\<rparr>"

definition sample_receipt :: string where
  "sample_receipt = ''automatic_recall:'' @ replicate 41 CHR ''a''"

definition sample_list :: "(nat, unit, memory_summary list \<times> string list) run" where
  "sample_list s = (Inr ([sample_summary], []), s + 1)"

definition sample_use :: "recall_use \<Rightarrow> (nat, unit, unit) run" where
  "sample_use u s = (Inr (), s + 1)"

lemma sample_receipt_ok: "identifier_ok sample_receipt" "identifier_ok ''ann''" "summary_ids_ok sample_summary"
  by (simp_all add: identifier_ok_def ascii_alnum_def sample_receipt_def summary_ids_ok_def scope_ok_def
    sample_summary_def list_all_iff Let_def)

lemma sample_fits: "recall_fits default_automatic_recall_limits sample_receipt [sample_summary]"
  by (simp add: recall_fits_def default_automatic_recall_limits_def format_context_def recall_lines_def join_texts_def
    automatic_context_receipt_marker_def marker_prefix_def recall_notice_def code_points_def sample_receipt_def
    utf8_length_def token_estimate_def recall_line_def nat_digits.simps quote_json_def escape_char_def sample_summary_def
    recall_text_def scope_key_def sum_list_replicate)

lemma sample_recall_result:
  "rr_selected (recall_result_of sample_recall_env sample_recall [sample_summary] []) = [sample_summary]
   \<and> rr_receipt_id (recall_result_of sample_recall_env sample_recall [sample_summary] []) = sample_receipt"
proof -
  have h: "recall_request_hash sample_recall_env sample_recall = ''sha256:'' @ replicate 64 CHR ''a''"
    by (simp add: recall_request_hash_def sample_recall_env_def)
  have elig: "recall_eligible sample_recall [sample_summary] = [sample_summary]"
    by (simp add: recall_eligible_def recall_exclusion_def sample_summary_def recall_scopes_def sample_recall_def)
  have ord: "recall_order v ts [sample_summary] = [sample_summary]" for v ts
    by (simp add: recall_order_def sort_down_def)
  have sel: "select_recall (ro_limits sample_recall) sample_receipt [] [sample_summary] = ([sample_summary], [])"
    using sample_fits by (simp add: sample_recall_def default_automatic_recall_limits_def)
  have rid: "''automatic_recall:'' @ take 41 (drop 7 (''sha256:'' @ replicate 64 CHR ''a'')) = sample_receipt"
    by (simp add: sample_receipt_def)
  show ?thesis unfolding recall_result_of_def Let_def h rid elig ord sel by simp
qed

text \<open>Witness of the recall: one eligible memory, selected and rendered.\<close>

theorem recall_is_governed_witness:
  "\<exists>r. compile_automatic_recall sample_recall_env sample_list sample_use sample_recall 0 = (Inr r, 2)
     \<and> rr_selected r = [sample_summary] \<and> identifier_ok (rr_receipt_id r) \<and> length (rr_selected r) \<le> 8"
proof -
  let ?r = "recall_result_of sample_recall_env sample_recall [sample_summary] []"
  have run: "compile_automatic_recall sample_recall_env sample_list sample_use sample_recall 0 = (Inr ?r, 2)"
    using sample_receipt_ok(1,2) sample_recall_result
    by (simp add: compile_automatic_recall_def sample_list_def sample_use_def sample_recall_def Let_def)
  from recall_is_governed [OF this] have "length (rr_selected ?r) \<le> 8"
    by (simp add: sample_recall_def default_automatic_recall_limits_def)
  then show ?thesis using run sample_recall_result sample_receipt_ok(1) by auto
qed

text \<open>Witness of the rendering: a memory whose text has a line break and an opening bracket.\<close>

theorem recall_context_not_forged_witness:
  "detect_automatic_context_receipt (format_context sample_receipt [sample_summary]) = Some sample_receipt
   \<and> length (lines_of (format_context sample_receipt [sample_summary])) = 4"
  using recall_context_not_forged [of sample_receipt "[sample_summary]" "[]"] sample_receipt_ok
  by (simp del: length_0_conv add: recall_lines_def)

end
