(* ===== verification/LearningContracts.thy ===== *)
theory LearningContracts
  imports ControlRepository
begin

text \<open>
  The artifacts of the learning laboratory (\<open>packages/contracts/src/learning.ts\<close>) and the receipts of its
  commands (\<open>receipts.ts\<close>): traces, candidates, their transitions, evaluations, canaries, releases, pointers,
  monitors and the pause switch. A record is the value its schema returns; \<open>schema_version\<close> is \<open>1.0.0\<close>. An
  artifact is sealed by the hash of its JSON without the hash, which its schema recomputes.
\<close>

subsection \<open>Shared checks\<close>

definition ascii_digit :: "char \<Rightarrow> bool" where
  "ascii_digit c \<longleftrightarrow> c \<in> set ''0123456789''"

text \<open>\<open>^[1-9]\d*\.[0-9]+\.[0-9]+$\<close>.\<close>

definition contract_version_ok :: "string \<Rightarrow> bool" where
  "contract_version_ok s \<longleftrightarrow>
     (let a = takeWhile ascii_digit s; r = drop (length a) s;
          b = takeWhile ascii_digit (tl r); q = drop (length b) (tl r) in
      a \<noteq> [] \<and> hd a \<noteq> CHR ''0'' \<and> r \<noteq> [] \<and> hd r = CHR ''.'' \<and> b \<noteq> [] \<and> q \<noteq> [] \<and> hd q = CHR ''.''
      \<and> tl q \<noteq> [] \<and> list_all ascii_digit (tl q))"

definition git_commit_ok :: "string \<Rightarrow> bool" where
  "git_commit_ok s \<longleftrightarrow> length s = 40 \<and> list_all lower_hex s"

definition media_type_ok :: "string \<Rightarrow> bool" where
  "media_type_ok m \<longleftrightarrow> 1 \<le> length (js_trim (code_points m)) \<and> length (js_trim (code_points m)) \<le> 160"

definition unique :: "'a list \<Rightarrow> bool" where
  "unique xs \<longleftrightarrow> length (js_set xs) = length xs"

definition opt_ok :: "('a \<Rightarrow> bool) \<Rightarrow> 'a option \<Rightarrow> bool" where
  "opt_ok P x \<longleftrightarrow> (case x of None \<Rightarrow> True | Some y \<Rightarrow> P y)"

text \<open>\<open>addCanonicalScopeSetIssues\<close>.\<close>

definition canonical_scopes_ok :: "scope list \<Rightarrow> bool" where
  "canonical_scopes_ok ss \<longleftrightarrow> ss \<noteq> [] \<and> list_all scope_ok ss
     \<and> unique (map scope_key ss) \<and> map scope_key ss = sort (map scope_key ss)"

definition scopes_json :: "scope list \<Rightarrow> jval" where
  "scopes_json ss = J_arr (map kind_id_json ss)"

definition time_json :: "timestamp \<Rightarrow> jval" where
  "time_json t = jstr (iso t)"

text \<open>The JSON of an artifact: that of its content with the hash that seals it.\<close>

definition with_seal :: "string \<Rightarrow> string \<Rightarrow> jval \<Rightarrow> jval" where
  "with_seal k h j = (case j of J_obj ps \<Rightarrow> J_obj (ps @ [(code_points k, jstr h)]) | _ \<Rightarrow> j)"

subsection \<open>Traces\<close>

datatype learning_outcome = Succeeded | Failed | Partial
datatype observation_kind = Ok_feedback | Ok_error | Ok_gap | Ok_offline_evaluation
datatype observation_polarity = Pol_positive | Pol_negative | Pol_conflicting | Pol_neutral
datatype step_kind = Step_model | Step_tool | Step_evidence | Step_control

text \<open>A step keeps a reference to its evidence, or a redaction with the reason.\<close>

datatype step_retention =
  Retain_reference string string string
| Retain_redacted "string option" string string

record learning_observation =
  lo_observation_id :: string
  lo_kind :: observation_kind
  lo_polarity :: observation_polarity
  lo_code :: string
  lo_evidence_id :: "string option"

record trace_step =
  sp_step_id :: string
  sp_ordinal :: nat
  sp_kind :: step_kind
  sp_retention :: step_retention
  sp_step_hash :: string

record task_spec =
  tk_task_id :: string
  tk_goal_hash :: string
  tk_input_hash :: string
  tk_success_criteria_hash :: string

record trace_context =
  tc_context_slice_id :: string
  tc_frozen_hash :: string
  tc_frontier_hash :: string
  tc_compiler_version :: string

record trace_result =
  to_status :: learning_outcome
  to_units_completed :: "string list"
  to_output_hash :: "string option"

record trace_runtime =
  rt_runtime_version :: string
  rt_compiler_version :: string
  rt_model_provider :: string
  rt_model_id :: string
  rt_toolset_hash :: string
  rt_dependency_lock_hash :: string

record trace_costs =
  tx_input_tokens :: nat
  tx_output_tokens :: nat
  tx_latency_ms :: rat
  tx_side_effect_ids :: "string list"

record learning_trace =
  tr_trace_id :: string
  tr_episode_id :: string
  tr_task_spec :: task_spec
  tr_principal :: string
  tr_scopes :: "scope list"
  tr_context :: trace_context
  tr_trajectory :: "trace_step list"
  tr_outcome :: trace_result
  tr_observations :: "learning_observation list"
  tr_active_release_set_hash :: string
  tr_retrieval_configuration_hash :: string
  tr_runtime :: trace_runtime
  tr_costs :: trace_costs
  tr_control_epoch :: nat
  tr_captured_at :: timestamp
  tr_trace_hash :: string

fun outcome_string :: "learning_outcome \<Rightarrow> string" where
  "outcome_string Succeeded = ''succeeded''"
| "outcome_string Failed = ''failed''"
| "outcome_string Partial = ''partial''"

fun observation_kind_string :: "observation_kind \<Rightarrow> string" where
  "observation_kind_string Ok_feedback = ''feedback''"
| "observation_kind_string Ok_error = ''error''"
| "observation_kind_string Ok_gap = ''gap''"
| "observation_kind_string Ok_offline_evaluation = ''offline_evaluation''"

fun polarity_string :: "observation_polarity \<Rightarrow> string" where
  "polarity_string Pol_positive = ''positive''"
| "polarity_string Pol_negative = ''negative''"
| "polarity_string Pol_conflicting = ''conflicting''"
| "polarity_string Pol_neutral = ''neutral''"

fun step_kind_string :: "step_kind \<Rightarrow> string" where
  "step_kind_string Step_model = ''model''"
| "step_kind_string Step_tool = ''tool''"
| "step_kind_string Step_evidence = ''evidence''"
| "step_kind_string Step_control = ''control''"

fun retention_json :: "step_retention \<Rightarrow> jval" where
  "retention_json (Retain_reference e h m) = jobj
     [(''mode'', jstr ''reference''), (''evidence_id'', jstr e), (''content_hash'', jstr h), (''media_type'', jstr m)]"
| "retention_json (Retain_redacted h m r) = jobj
     [(''mode'', jstr ''redacted''), (''content_hash'', opt_json h), (''media_type'', jstr m), (''reason_code'', jstr r)]"

definition step_json :: "trace_step \<Rightarrow> jval" where
  "step_json s = jobj [(''step_id'', jstr (sp_step_id s)), (''ordinal'', jnat (sp_ordinal s)),
     (''kind'', jstr (step_kind_string (sp_kind s))), (''retention'', retention_json (sp_retention s)),
     (''step_hash'', jstr (sp_step_hash s))]"

definition observation_json :: "learning_observation \<Rightarrow> jval" where
  "observation_json x = jobj [(''observation_id'', jstr (lo_observation_id x)),
     (''kind'', jstr (observation_kind_string (lo_kind x))), (''polarity'', jstr (polarity_string (lo_polarity x))),
     (''code'', jstr (lo_code x)), (''evidence_id'', opt_json (lo_evidence_id x))]"

definition unsealed_trace_json :: "learning_trace \<Rightarrow> jval" where
  "unsealed_trace_json t = jobj
     [(''schema_version'', jstr ''1.0.0''), (''trace_id'', jstr (tr_trace_id t)), (''episode_id'', jstr (tr_episode_id t)),
      (''task_spec'', let k = tr_task_spec t in jobj [(''task_id'', jstr (tk_task_id k)), (''goal_hash'', jstr (tk_goal_hash k)),
         (''input_hash'', jstr (tk_input_hash k)), (''success_criteria_hash'', jstr (tk_success_criteria_hash k))]),
      (''principal_id'', jstr (tr_principal t)), (''scopes'', scopes_json (tr_scopes t)),
      (''context'', let c = tr_context t in jobj [(''context_slice_id'', jstr (tc_context_slice_id c)),
         (''frozen_hash'', jstr (tc_frozen_hash c)), (''frontier_hash'', jstr (tc_frontier_hash c)),
         (''compiler_version'', jstr (tc_compiler_version c))]),
      (''trajectory'', J_arr (map step_json (tr_trajectory t))),
      (''outcome'', let r = tr_outcome t in jobj [(''status'', jstr (outcome_string (to_status r))),
         (''required_task_units_completed'', jstrs (to_units_completed r)), (''output_hash'', opt_json (to_output_hash r))]),
      (''observations'', J_arr (map observation_json (tr_observations t))),
      (''active_release_set_hash'', jstr (tr_active_release_set_hash t)),
      (''retrieval_configuration_hash'', jstr (tr_retrieval_configuration_hash t)),
      (''runtime'', let r = tr_runtime t in jobj [(''runtime_version'', jstr (rt_runtime_version r)),
         (''compiler_version'', jstr (rt_compiler_version r)), (''model_provider'', jstr (rt_model_provider r)),
         (''model_id'', jstr (rt_model_id r)), (''toolset_hash'', jstr (rt_toolset_hash r)),
         (''dependency_lock_hash'', jstr (rt_dependency_lock_hash r))]),
      (''costs'', let x = tr_costs t in jobj [(''input_tokens'', jnat (tx_input_tokens x)),
         (''output_tokens'', jnat (tx_output_tokens x)), (''latency_ms'', J_num (tx_latency_ms x)),
         (''side_effect_ids'', jstrs (tx_side_effect_ids x))]),
      (''control_epoch'', jnat (tr_control_epoch t)), (''captured_at'', time_json (tr_captured_at t))]"

fun retention_ok :: "step_retention \<Rightarrow> bool" where
  "retention_ok (Retain_reference e h m) \<longleftrightarrow> identifier_ok e \<and> canonical_hash_ok h \<and> media_type_ok m"
| "retention_ok (Retain_redacted h m r) \<longleftrightarrow> opt_ok canonical_hash_ok h \<and> media_type_ok m \<and> reason_code_ok r"

fun retained_evidence :: "step_retention \<Rightarrow> string list" where
  "retained_evidence (Retain_reference e h m) = [e]"
| "retained_evidence (Retain_redacted h m r) = []"

definition learning_trace_ok :: "(jval \<Rightarrow> string) \<Rightarrow> learning_trace \<Rightarrow> bool" where
  "learning_trace_ok sha t \<longleftrightarrow>
     list_all identifier_ok ([tr_trace_id t, tr_episode_id t, tk_task_id (tr_task_spec t), tr_principal t,
       tc_context_slice_id (tr_context t), rt_model_provider (tr_runtime t), rt_model_id (tr_runtime t)]
       @ map sp_step_id (tr_trajectory t) @ to_units_completed (tr_outcome t)
       @ map lo_observation_id (tr_observations t) @ List.map_filter lo_evidence_id (tr_observations t)
       @ tx_side_effect_ids (tr_costs t))
     \<and> list_all canonical_hash_ok ([tk_goal_hash (tr_task_spec t), tk_input_hash (tr_task_spec t),
       tk_success_criteria_hash (tr_task_spec t), tc_frozen_hash (tr_context t), tc_frontier_hash (tr_context t),
       tr_active_release_set_hash t, tr_retrieval_configuration_hash t, rt_toolset_hash (tr_runtime t),
       rt_dependency_lock_hash (tr_runtime t), tr_trace_hash t] @ map sp_step_hash (tr_trajectory t))
     \<and> list_all contract_version_ok [tc_compiler_version (tr_context t), rt_runtime_version (tr_runtime t),
       rt_compiler_version (tr_runtime t)]
     \<and> canonical_scopes_ok (tr_scopes t) \<and> tr_trajectory t \<noteq> [] \<and> tr_observations t \<noteq> []
     \<and> list_all retention_ok (map sp_retention (tr_trajectory t))
     \<and> list_all reason_code_ok (map lo_code (tr_observations t))
     \<and> opt_ok canonical_hash_ok (to_output_hash (tr_outcome t)) \<and> 0 \<le> tx_latency_ms (tr_costs t)
     \<and> unique (map sp_step_id (tr_trajectory t))
     \<and> unique (concat (map (\<lambda>s. retained_evidence (sp_retention s)) (tr_trajectory t)))
     \<and> unique (map lo_observation_id (tr_observations t)) \<and> unique (tx_side_effect_ids (tr_costs t))
     \<and> map sp_ordinal (tr_trajectory t) = [0..<length (tr_trajectory t)]
     \<and> tr_trace_hash t = sha (unsealed_trace_json t)"

subsection \<open>Candidates\<close>

datatype candidate_type =
  Ct_memory | Ct_procedure | Ct_retrieval_policy | Ct_prompt | Ct_core_projection | Ct_scenario_pattern

datatype candidate_state =
  Proposed | Held | Evaluating | Approved_for_canary | In_canary | Rejected | Released | Rolled_back

datatype impact = Impact_low | Impact_medium | Impact_high

fun candidate_type_string :: "candidate_type \<Rightarrow> string" where
  "candidate_type_string Ct_memory = ''memory''"
| "candidate_type_string Ct_procedure = ''procedure''"
| "candidate_type_string Ct_retrieval_policy = ''retrieval_policy''"
| "candidate_type_string Ct_prompt = ''prompt''"
| "candidate_type_string Ct_core_projection = ''core_projection''"
| "candidate_type_string Ct_scenario_pattern = ''scenario_pattern''"

fun release_type :: "candidate_type \<Rightarrow> bool" where
  "release_type Ct_memory = True"
| "release_type Ct_procedure = True"
| "release_type Ct_retrieval_policy = True"
| "release_type _ = False"

fun candidate_state_string :: "candidate_state \<Rightarrow> string" where
  "candidate_state_string Proposed = ''proposed''"
| "candidate_state_string Held = ''quarantined''"
| "candidate_state_string Evaluating = ''evaluating''"
| "candidate_state_string Approved_for_canary = ''approved_for_canary''"
| "candidate_state_string In_canary = ''canary''"
| "candidate_state_string Rejected = ''rejected''"
| "candidate_state_string Released = ''released''"
| "candidate_state_string Rolled_back = ''rolled_back''"

fun impact_string :: "impact \<Rightarrow> string" where
  "impact_string Impact_low = ''low''"
| "impact_string Impact_medium = ''medium''"
| "impact_string Impact_high = ''high''"

record release_slot =
  rs_principal :: string
  rs_candidate_type :: candidate_type
  rs_scopes :: "scope list"
  rs_target_key :: string
  rs_slot_hash :: string

text \<open>The target of a candidate: a memory or a procedure is a \<open>learning_target\<close>; an artifact that is only
  evaluated names its type.\<close>

datatype candidate_target =
  Canonical_target learning_target
| Policy_target lane_request
| Evaluation_target candidate_type string string

record learning_candidate =
  ln_candidate_id :: string
  ln_type :: candidate_type
  ln_release_capable :: bool
  ln_principal :: string
  ln_scopes :: "scope list"
  ln_slot :: "release_slot option"
  ln_target :: candidate_target
  ln_base_release_ids :: "string list"
  ln_active_base_release_id :: "string option"
  ln_trace_ids :: "string list"
  ln_evidence_ids :: "string list"
  ln_improvement_ids :: "string list"
  ln_invariant_ids :: "string list"
  ln_authority :: authority
  ln_sensitivity :: sensitivity
  ln_impact :: impact
  ln_confidence :: rat
  ln_confirmation :: bool
  ln_evaluation_contract_hash :: string
  ln_rollback_target :: "string option"
  ln_proposed_at :: timestamp
  ln_proposed_by :: string
  ln_reason :: ustring
  ln_candidate_hash :: string

definition unsealed_slot_json :: "release_slot \<Rightarrow> jval" where
  "unsealed_slot_json x = jobj
     [(''principal_id'', jstr (rs_principal x)), (''candidate_type'', jstr (candidate_type_string (rs_candidate_type x))),
      (''scopes'', scopes_json (rs_scopes x)), (''target_key'', jstr (rs_target_key x))]"

definition slot_json :: "release_slot \<Rightarrow> jval" where
  "slot_json x = jobj
     [(''principal_id'', jstr (rs_principal x)), (''candidate_type'', jstr (candidate_type_string (rs_candidate_type x))),
      (''scopes'', scopes_json (rs_scopes x)), (''target_key'', jstr (rs_target_key x)),
      (''slot_hash'', jstr (rs_slot_hash x))]"

fun target_kind_string :: "candidate_target \<Rightarrow> string" where
  "target_kind_string (Canonical_target t) = (if lt_procedure t then ''procedure'' else ''memory'')"
| "target_kind_string (Policy_target p) = ''retrieval_policy''"
| "target_kind_string (Evaluation_target k i h) = ''evaluation_only''"

fun target_json :: "candidate_target \<Rightarrow> jval" where
  "target_json (Canonical_target t) = jobj
     [(''kind'', jstr (if lt_procedure t then ''procedure'' else ''memory'')), (''memory_id'', jstr (lt_memory_id t)),
      (''revision_id'', jstr (lt_revision_id t)), (''content_hash'', jstr (lt_content_hash t))]"
| "target_json (Policy_target p) = jobj
     [(''kind'', jstr ''retrieval_policy''),
      (''requested_lanes'', J_arr (map (\<lambda>l. jstr (lane_string l)) (requested_lanes p))),
      (''limits'', limits_json (request_limits p))]"
| "target_json (Evaluation_target k i h) = jobj
     [(''kind'', jstr ''evaluation_only''), (''artifact_type'', jstr (candidate_type_string k)),
      (''artifact_ref'', jstr i), (''artifact_hash'', jstr h)]"

definition unsealed_candidate_json :: "learning_candidate \<Rightarrow> jval" where
  "unsealed_candidate_json c = jobj
     [(''schema_version'', jstr ''1.0.0''), (''candidate_id'', jstr (ln_candidate_id c)),
      (''candidate_type'', jstr (candidate_type_string (ln_type c))),
      (''release_capability'', jstr (if ln_release_capable c then ''release_capable'' else ''evaluation_only'')),
      (''principal_id'', jstr (ln_principal c)), (''scopes'', scopes_json (ln_scopes c)),
      (''release_slot'', nullable slot_json (ln_slot c)), (''target'', target_json (ln_target c)),
      (''base_release_ids'', jstrs (ln_base_release_ids c)),
      (''active_base_release_id'', opt_json (ln_active_base_release_id c)), (''trace_ids'', jstrs (ln_trace_ids c)),
      (''evidence_ids'', jstrs (ln_evidence_ids c)), (''expected_improvement_ids'', jstrs (ln_improvement_ids c)),
      (''protected_invariant_ids'', jstrs (ln_invariant_ids c)), (''authority'', jstr (authority_string (ln_authority c))),
      (''sensitivity'', jstr (sensitivity_string (ln_sensitivity c))), (''impact'', jstr (impact_string (ln_impact c))),
      (''confidence'', J_num (ln_confidence c)), (''requires_user_confirmation'', J_bool (ln_confirmation c)),
      (''evaluation_contract_hash'', jstr (ln_evaluation_contract_hash c)),
      (''rollback_target_release_id'', opt_json (ln_rollback_target c)), (''proposed_at'', time_json (ln_proposed_at c)),
      (''proposed_by'', jstr (ln_proposed_by c)), (''reason'', J_str (ln_reason c))]"

definition release_slot_ok :: "(jval \<Rightarrow> string) \<Rightarrow> release_slot \<Rightarrow> bool" where
  "release_slot_ok sha x \<longleftrightarrow> identifier_ok (rs_principal x) \<and> release_type (rs_candidate_type x)
     \<and> canonical_scopes_ok (rs_scopes x) \<and> identifier_ok (rs_target_key x) \<and> canonical_hash_ok (rs_slot_hash x)
     \<and> rs_slot_hash x = sha (unsealed_slot_json x)"

fun candidate_target_ok :: "candidate_target \<Rightarrow> bool" where
  "candidate_target_ok (Canonical_target t) \<longleftrightarrow>
     identifier_ok (lt_memory_id t) \<and> identifier_ok (lt_revision_id t) \<and> canonical_hash_ok (lt_content_hash t)"
| "candidate_target_ok (Policy_target p) \<longleftrightarrow>
     lane_request_ok p \<and> Relation_graph \<notin> set (requested_lanes p) \<and> Semantic_vector \<notin> set (requested_lanes p)"
| "candidate_target_ok (Evaluation_target k i h) \<longleftrightarrow>
     k \<in> {Ct_prompt, Ct_core_projection, Ct_scenario_pattern} \<and> identifier_ok i \<and> canonical_hash_ok h"

fun target_type :: "candidate_target \<Rightarrow> candidate_type" where
  "target_type (Canonical_target t) = (if lt_procedure t then Ct_procedure else Ct_memory)"
| "target_type (Policy_target p) = Ct_retrieval_policy"
| "target_type (Evaluation_target k i h) = k"

definition needs_confirmation :: "learning_candidate \<Rightarrow> bool" where
  "needs_confirmation c \<longleftrightarrow> ln_impact c = Impact_high \<or> ln_confidence c < 4 / 5
     \<or> ln_sensitivity c = Sensitive \<or> ln_sensitivity c = Secret \<or> \<not> ln_release_capable c"

definition learning_candidate_ok :: "(jval \<Rightarrow> string) \<Rightarrow> learning_candidate \<Rightarrow> bool" where
  "learning_candidate_ok sha c \<longleftrightarrow>
     list_all identifier_ok ([ln_candidate_id c, ln_principal c, ln_proposed_by c] @ ln_base_release_ids c
       @ ln_trace_ids c @ ln_evidence_ids c @ ln_improvement_ids c @ ln_invariant_ids c)
     \<and> opt_ok identifier_ok (ln_active_base_release_id c) \<and> opt_ok identifier_ok (ln_rollback_target c)
     \<and> canonical_hash_ok (ln_evaluation_contract_hash c) \<and> canonical_hash_ok (ln_candidate_hash c)
     \<and> opt_ok (release_slot_ok sha) (ln_slot c) \<and> candidate_target_ok (ln_target c)
     \<and> ln_trace_ids c \<noteq> [] \<and> ln_evidence_ids c \<noteq> [] \<and> ln_improvement_ids c \<noteq> [] \<and> ln_invariant_ids c \<noteq> []
     \<and> 0 \<le> ln_confidence c \<and> ln_confidence c \<le> 1 \<and> reason_ok (ln_reason c) \<and> canonical_scopes_ok (ln_scopes c)
     \<and> unique (ln_base_release_ids c) \<and> unique (ln_trace_ids c) \<and> unique (ln_evidence_ids c)
     \<and> unique (ln_improvement_ids c) \<and> unique (ln_invariant_ids c)
     \<and> release_type (ln_type c) = ln_release_capable c
     \<and> \<not> (release_type (ln_type c) \<and> ln_slot c = None) \<and> \<not> (\<not> release_type (ln_type c) \<and> ln_slot c \<noteq> None)
     \<and> (case ln_slot c of None \<Rightarrow> True | Some x \<Rightarrow> rs_principal x = ln_principal c \<and> rs_candidate_type x = ln_type c
          \<and> map scope_key (rs_scopes x) = map scope_key (ln_scopes c))
     \<and> target_type (ln_target c) = ln_type c
     \<and> \<not> (needs_confirmation c \<and> \<not> ln_confirmation c)
     \<and> ln_candidate_hash c = sha (unsealed_candidate_json c)"

subsection \<open>Transitions\<close>

text \<open>\<open>LEGAL_TRANSITIONS\<close>.\<close>

fun legal_transitions :: "candidate_state \<Rightarrow> candidate_state list" where
  "legal_transitions Proposed = [Held, Rejected]"
| "legal_transitions Held = [Evaluating, Rejected]"
| "legal_transitions Evaluating = [Approved_for_canary, Rejected]"
| "legal_transitions Approved_for_canary = [In_canary, Rejected]"
| "legal_transitions In_canary = [Released, Rolled_back, Rejected]"
| "legal_transitions Rejected = []"
| "legal_transitions Released = [Rolled_back]"
| "legal_transitions Rolled_back = []"

record transition =
  tn_transition_id :: string
  tn_candidate_id :: string
  tn_sequence :: nat
  tn_from :: candidate_state
  tn_to :: candidate_state
  tn_previous_hash :: "string option"
  tn_control_epoch :: nat
  tn_actor_id :: string
  tn_authority_id :: "string option"
  tn_reason_code :: string
  tn_evidence_receipt_ids :: "string list"
  tn_idempotency_key :: ustring
  tn_transitioned_at :: timestamp
  tn_transition_hash :: string

definition unsealed_transition_json :: "transition \<Rightarrow> jval" where
  "unsealed_transition_json t = jobj
     [(''schema_version'', jstr ''1.0.0''), (''transition_id'', jstr (tn_transition_id t)),
      (''candidate_id'', jstr (tn_candidate_id t)), (''sequence'', jnat (tn_sequence t)),
      (''from_state'', jstr (candidate_state_string (tn_from t))), (''to_state'', jstr (candidate_state_string (tn_to t))),
      (''expected_previous_transition_hash'', opt_json (tn_previous_hash t)),
      (''control_epoch'', jnat (tn_control_epoch t)), (''actor_id'', jstr (tn_actor_id t)),
      (''authority_id'', opt_json (tn_authority_id t)), (''reason_code'', jstr (tn_reason_code t)),
      (''evidence_receipt_ids'', jstrs (tn_evidence_receipt_ids t)), (''idempotency_key'', J_str (tn_idempotency_key t)),
      (''transitioned_at'', time_json (tn_transitioned_at t))]"

definition transition_ok :: "(jval \<Rightarrow> string) \<Rightarrow> transition \<Rightarrow> bool" where
  "transition_ok sha t \<longleftrightarrow>
     list_all identifier_ok ([tn_transition_id t, tn_candidate_id t, tn_actor_id t] @ tn_evidence_receipt_ids t)
     \<and> 0 < tn_sequence t \<and> opt_ok canonical_hash_ok (tn_previous_hash t) \<and> opt_ok identifier_ok (tn_authority_id t)
     \<and> reason_code_ok (tn_reason_code t) \<and> tn_evidence_receipt_ids t \<noteq> [] \<and> idempotency_key_ok (tn_idempotency_key t)
     \<and> canonical_hash_ok (tn_transition_hash t) \<and> unique (tn_evidence_receipt_ids t)
     \<and> tn_to t \<in> set (legal_transitions (tn_from t))
     \<and> tn_transition_hash t = sha (unsealed_transition_json t)"

subsection \<open>Evaluations\<close>

datatype partition = Calibration | Holdout | Transfer
datatype arm = No_candidate | Current_arm | Candidate_arm

fun partition_string :: "partition \<Rightarrow> string" where
  "partition_string Calibration = ''calibration''"
| "partition_string Holdout = ''holdout''"
| "partition_string Transfer = ''transfer''"

fun arm_string :: "arm \<Rightarrow> string" where
  "arm_string No_candidate = ''no_candidate''"
| "arm_string Current_arm = ''current''"
| "arm_string Candidate_arm = ''candidate''"

record evaluation_identity =
  ei_run_id :: string
  ei_candidate_id :: string
  ei_base_release_id :: "string option"
  ei_current_release_id :: "string option"
  ei_implementation_commit :: string
  ei_implementation_tree :: string
  ei_dependency_lock_hash :: string
  ei_migration_set_hash :: string
  ei_runtime_identity_hash :: string
  ei_accepted_g3r_commit :: string
  ei_accepted_g4a_commit :: string
  ei_accepted_g4b_commit :: string
  ei_retrieval_configuration_hash :: string
  ei_corpus_hash :: string
  ei_partition_manifest_hash :: string
  ei_scorer_hash :: string
  ei_thresholds_hash :: string
  ei_seed :: nat
  ei_environment_hash :: string
  ei_common_identity_hash :: string

definition unsealed_identity_json :: "evaluation_identity \<Rightarrow> jval" where
  "unsealed_identity_json e = jobj
     [(''schema_version'', jstr ''1.0.0''), (''run_id'', jstr (ei_run_id e)), (''candidate_id'', jstr (ei_candidate_id e)),
      (''base_release_id'', opt_json (ei_base_release_id e)), (''current_release_id'', opt_json (ei_current_release_id e)),
      (''implementation_commit'', jstr (ei_implementation_commit e)),
      (''implementation_tree'', jstr (ei_implementation_tree e)),
      (''dependency_lock_hash'', jstr (ei_dependency_lock_hash e)),
      (''migration_set_hash'', jstr (ei_migration_set_hash e)),
      (''runtime_identity_hash'', jstr (ei_runtime_identity_hash e)),
      (''accepted_g3r_commit'', jstr (ei_accepted_g3r_commit e)),
      (''accepted_g4a_commit'', jstr (ei_accepted_g4a_commit e)),
      (''accepted_g4b_commit'', jstr (ei_accepted_g4b_commit e)),
      (''retrieval_configuration_hash'', jstr (ei_retrieval_configuration_hash e)),
      (''corpus_hash'', jstr (ei_corpus_hash e)), (''partition_manifest_hash'', jstr (ei_partition_manifest_hash e)),
      (''scorer_hash'', jstr (ei_scorer_hash e)), (''thresholds_hash'', jstr (ei_thresholds_hash e)),
      (''seed'', jnat (ei_seed e)), (''environment_hash'', jstr (ei_environment_hash e))]"

definition evaluation_identity_ok :: "(jval \<Rightarrow> string) \<Rightarrow> evaluation_identity \<Rightarrow> bool" where
  "evaluation_identity_ok sha e \<longleftrightarrow>
     identifier_ok (ei_run_id e) \<and> identifier_ok (ei_candidate_id e) \<and> opt_ok identifier_ok (ei_base_release_id e)
     \<and> opt_ok identifier_ok (ei_current_release_id e)
     \<and> list_all git_commit_ok [ei_implementation_commit e, ei_implementation_tree e, ei_accepted_g3r_commit e,
         ei_accepted_g4a_commit e, ei_accepted_g4b_commit e]
     \<and> list_all canonical_hash_ok [ei_dependency_lock_hash e, ei_migration_set_hash e, ei_runtime_identity_hash e,
         ei_retrieval_configuration_hash e, ei_corpus_hash e, ei_partition_manifest_hash e, ei_scorer_hash e,
         ei_thresholds_hash e, ei_environment_hash e, ei_common_identity_hash e]
     \<and> ei_common_identity_hash e = sha (unsealed_identity_json e)"

record eval_context =
  xc_token_budget :: nat
  xc_token_used :: nat
  xc_pollution_count :: nat
  xc_selected_item_ids :: "string list"

record eval_result =
  er_eval_result_id :: string
  er_run_id :: string
  er_case_id :: string
  er_partition :: partition
  er_arm :: arm
  er_common_identity_hash :: string
  er_passed_units :: "string list"
  er_failed_units :: "string list"
  er_error_codes :: "string list"
  er_negative_transfer_units :: "string list"
  er_context :: eval_context
  er_latency_ms :: rat
  er_side_effect_ids :: "string list"
  er_violation_codes :: "string list"
  er_critical_failure_codes :: "string list"
  er_evaluated_at :: timestamp
  er_result_hash :: string

definition eval_result_fields :: "eval_result \<Rightarrow> (string \<times> jval) list" where
  "eval_result_fields r =
     [(''schema_version'', jstr ''1.0.0''), (''eval_result_id'', jstr (er_eval_result_id r)),
      (''run_id'', jstr (er_run_id r)), (''case_id'', jstr (er_case_id r)),
      (''partition'', jstr (partition_string (er_partition r))), (''arm'', jstr (arm_string (er_arm r))),
      (''common_identity_hash'', jstr (er_common_identity_hash r)),
      (''passed_required_task_units'', jstrs (er_passed_units r)),
      (''failed_required_task_units'', jstrs (er_failed_units r)), (''error_codes'', jstrs (er_error_codes r)),
      (''negative_transfer_units'', jstrs (er_negative_transfer_units r)),
      (''context'', let x = er_context r in jobj [(''token_budget'', jnat (xc_token_budget x)),
         (''token_used'', jnat (xc_token_used x)), (''pollution_count'', jnat (xc_pollution_count x)),
         (''selected_item_ids'', jstrs (xc_selected_item_ids x))]),
      (''latency_ms'', J_num (er_latency_ms r)), (''side_effect_ids'', jstrs (er_side_effect_ids r)),
      (''violation_codes'', jstrs (er_violation_codes r)),
      (''critical_failure_codes'', jstrs (er_critical_failure_codes r)),
      (''evaluated_at'', time_json (er_evaluated_at r))]"

definition eval_result_ok :: "(jval \<Rightarrow> string) \<Rightarrow> eval_result \<Rightarrow> bool" where
  "eval_result_ok sha r \<longleftrightarrow>
     list_all identifier_ok ([er_eval_result_id r, er_run_id r, er_case_id r] @ er_passed_units r @ er_failed_units r
       @ er_negative_transfer_units r @ xc_selected_item_ids (er_context r) @ er_side_effect_ids r)
     \<and> canonical_hash_ok (er_common_identity_hash r) \<and> canonical_hash_ok (er_result_hash r)
     \<and> list_all reason_code_ok (er_error_codes r @ er_violation_codes r @ er_critical_failure_codes r)
     \<and> 0 < xc_token_budget (er_context r) \<and> 0 \<le> er_latency_ms r
     \<and> unique (er_passed_units r) \<and> unique (er_failed_units r) \<and> unique (er_error_codes r)
     \<and> unique (er_negative_transfer_units r) \<and> unique (xc_selected_item_ids (er_context r))
     \<and> unique (er_side_effect_ids r) \<and> unique (er_violation_codes r) \<and> unique (er_critical_failure_codes r)
     \<and> \<not> xc_token_used (er_context r) > xc_token_budget (er_context r)
     \<and> er_result_hash r = sha (jobj (eval_result_fields r))"

record result_set =
  es_run_id :: string
  es_case_id :: string
  es_partition :: partition
  es_common_identity_hash :: string
  es_results :: "eval_result list"
  es_result_set_hash :: string

definition unsealed_result_set_json :: "result_set \<Rightarrow> jval" where
  "unsealed_result_set_json x = jobj
     [(''run_id'', jstr (es_run_id x)), (''case_id'', jstr (es_case_id x)),
      (''partition'', jstr (partition_string (es_partition x))),
      (''common_identity_hash'', jstr (es_common_identity_hash x)),
      (''results'', J_arr (map (\<lambda>r. jobj (eval_result_fields r @ [(''result_hash'', jstr (er_result_hash r))]))
         (es_results x)))]"

definition result_set_ok :: "(jval \<Rightarrow> string) \<Rightarrow> result_set \<Rightarrow> bool" where
  "result_set_ok sha x \<longleftrightarrow>
     identifier_ok (es_run_id x) \<and> identifier_ok (es_case_id x) \<and> canonical_hash_ok (es_common_identity_hash x)
     \<and> canonical_hash_ok (es_result_set_hash x) \<and> length (es_results x) = 3 \<and> list_all (eval_result_ok sha) (es_results x)
     \<and> set (map er_arm (es_results x)) = {No_candidate, Current_arm, Candidate_arm}
     \<and> list_all (\<lambda>r. er_run_id r = es_run_id x \<and> er_case_id r = es_case_id x \<and> er_partition r = es_partition x
          \<and> er_common_identity_hash r = es_common_identity_hash x) (es_results x)
     \<and> es_result_set_hash x = sha (unsealed_result_set_json x)"

record partition_seal =
  ps_seal_id :: string
  ps_partition :: partition
  ps_manifest_hash :: string
  ps_case_hashes :: "string list"
  ps_oracle_hashes :: "string list"
  ps_sealed_at :: timestamp

definition partition_seal_ok :: "partition_seal \<Rightarrow> bool" where
  "partition_seal_ok x \<longleftrightarrow> identifier_ok (ps_seal_id x) \<and> canonical_hash_ok (ps_manifest_hash x)
     \<and> 3 \<le> length (ps_case_hashes x) \<and> list_all canonical_hash_ok (ps_case_hashes x)
     \<and> 3 \<le> length (ps_oracle_hashes x) \<and> list_all canonical_hash_ok (ps_oracle_hashes x)
     \<and> unique (ps_case_hashes x) \<and> unique (ps_oracle_hashes x)"

record contamination_event =
  cx_event_id :: string
  cx_run_id :: string
  cx_partition :: partition
  cx_case_id :: "string option"
  cx_code :: string
  cx_detected_at :: timestamp
  cx_event_hash :: string

definition unsealed_contamination_json :: "contamination_event \<Rightarrow> jval" where
  "unsealed_contamination_json x = jobj
     [(''contamination_event_id'', jstr (cx_event_id x)), (''run_id'', jstr (cx_run_id x)),
      (''partition'', jstr (partition_string (cx_partition x))), (''case_id'', opt_json (cx_case_id x)),
      (''code'', jstr (cx_code x)), (''detected_at'', time_json (cx_detected_at x))]"

definition contamination_event_ok :: "contamination_event \<Rightarrow> bool" where
  "contamination_event_ok x \<longleftrightarrow> identifier_ok (cx_event_id x) \<and> identifier_ok (cx_run_id x)
     \<and> opt_ok identifier_ok (cx_case_id x) \<and> reason_code_ok (cx_code x) \<and> canonical_hash_ok (cx_event_hash x)"

subsection \<open>Canaries\<close>

datatype run_status = Run_running | Run_passed | Run_failed | Run_aborted | Run_frozen

fun run_status_string :: "run_status \<Rightarrow> string" where
  "run_status_string Run_running = ''running''"
| "run_status_string Run_passed = ''passed''"
| "run_status_string Run_failed = ''failed''"
| "run_status_string Run_aborted = ''aborted''"
| "run_status_string Run_frozen = ''frozen''"

record canary_authorization =
  au_authorization_id :: string
  au_principal :: string
  au_scopes :: "scope list"
  au_candidate_id :: string
  au_release_slot_hash :: string
  au_base_release_id :: "string option"
  au_evaluation_receipt_id :: string
  au_evaluation_receipt_hash :: string
  au_canary_manifest_id :: string
  au_canary_manifest_hash :: string
  au_case_hashes :: "string list"
  au_deadline_at :: timestamp
  au_control_epoch :: nat
  au_request_hash :: string
  au_issued_at :: timestamp
  au_expires_at :: timestamp
  au_authorization_hash :: string

definition unsealed_authorization_json :: "canary_authorization \<Rightarrow> jval" where
  "unsealed_authorization_json a = jobj
     [(''schema_version'', jstr ''1.0.0''), (''authorization_id'', jstr (au_authorization_id a)),
      (''principal_id'', jstr (au_principal a)), (''tool'', jstr ''learning_canary''),
      (''safety_class'', jstr ''important_mutation''), (''scopes'', scopes_json (au_scopes a)),
      (''candidate_id'', jstr (au_candidate_id a)), (''release_slot_hash'', jstr (au_release_slot_hash a)),
      (''base_release_id'', opt_json (au_base_release_id a)),
      (''evaluation_receipt_id'', jstr (au_evaluation_receipt_id a)),
      (''evaluation_receipt_hash'', jstr (au_evaluation_receipt_hash a)),
      (''canary_manifest_id'', jstr (au_canary_manifest_id a)),
      (''canary_manifest_hash'', jstr (au_canary_manifest_hash a)), (''case_hashes'', jstrs (au_case_hashes a)),
      (''maximum_exposures'', jnat 3), (''deadline_at'', time_json (au_deadline_at a)),
      (''control_epoch'', jnat (au_control_epoch a)), (''request_hash'', jstr (au_request_hash a)),
      (''issued_at'', time_json (au_issued_at a)), (''expires_at'', time_json (au_expires_at a))]"

definition canary_authorization_ok :: "(jval \<Rightarrow> string) \<Rightarrow> canary_authorization \<Rightarrow> bool" where
  "canary_authorization_ok sha a \<longleftrightarrow>
     list_all identifier_ok [au_authorization_id a, au_principal a, au_candidate_id a, au_evaluation_receipt_id a,
       au_canary_manifest_id a]
     \<and> list_all canonical_hash_ok ([au_release_slot_hash a, au_evaluation_receipt_hash a, au_canary_manifest_hash a,
       au_request_hash a, au_authorization_hash a] @ au_case_hashes a)
     \<and> opt_ok identifier_ok (au_base_release_id a) \<and> length (au_case_hashes a) = 3
     \<and> canonical_scopes_ok (au_scopes a) \<and> unique (au_case_hashes a)
     \<and> \<not> (epoch_ms (au_deadline_at a) > epoch_ms (au_expires_at a)
          \<or> epoch_ms (au_expires_at a) \<le> epoch_ms (au_issued_at a))
     \<and> au_authorization_hash a = sha (unsealed_authorization_json a)"

record canary_manifest =
  cm_manifest_id :: string
  cm_candidate_id :: string
  cm_stable_release_id :: "string option"
  cm_case_ids :: "string list"
  cm_case_hashes :: "string list"
  cm_maximum_duration_ms :: nat
  cm_promote_metric_ids :: "string list"
  cm_abort_metric_ids :: "string list"
  cm_environment_hash :: string
  cm_configuration_hash :: string
  cm_runtime_identity_hash :: string
  cm_control_epoch :: nat
  cm_manifest_hash :: string

definition manifest_fields :: "canary_manifest \<Rightarrow> (string \<times> jval) list" where
  "manifest_fields m =
     [(''schema_version'', jstr ''1.0.0''), (''canary_manifest_id'', jstr (cm_manifest_id m)),
      (''candidate_id'', jstr (cm_candidate_id m)), (''stable_release_id'', opt_json (cm_stable_release_id m)),
      (''case_ids'', jstrs (cm_case_ids m)), (''case_hashes'', jstrs (cm_case_hashes m)),
      (''maximum_exposures_per_case'', jnat 1), (''maximum_duration_ms'', jnat (cm_maximum_duration_ms m)),
      (''promote_metric_ids'', jstrs (cm_promote_metric_ids m)), (''abort_metric_ids'', jstrs (cm_abort_metric_ids m)),
      (''environment_hash'', jstr (cm_environment_hash m)), (''configuration_hash'', jstr (cm_configuration_hash m)),
      (''runtime_identity_hash'', jstr (cm_runtime_identity_hash m)), (''control_epoch'', jnat (cm_control_epoch m))]"

definition canary_manifest_ok :: "(jval \<Rightarrow> string) \<Rightarrow> canary_manifest \<Rightarrow> bool" where
  "canary_manifest_ok sha m \<longleftrightarrow>
     list_all identifier_ok ([cm_manifest_id m, cm_candidate_id m] @ cm_case_ids m @ cm_promote_metric_ids m
       @ cm_abort_metric_ids m)
     \<and> opt_ok identifier_ok (cm_stable_release_id m)
     \<and> list_all canonical_hash_ok (cm_case_hashes m @ [cm_environment_hash m, cm_configuration_hash m,
         cm_runtime_identity_hash m, cm_manifest_hash m])
     \<and> length (cm_case_ids m) = 3 \<and> length (cm_case_hashes m) = 3
     \<and> 0 < cm_maximum_duration_ms m \<and> cm_maximum_duration_ms m \<le> 600000
     \<and> cm_promote_metric_ids m \<noteq> [] \<and> cm_abort_metric_ids m \<noteq> []
     \<and> unique (cm_case_ids m) \<and> unique (cm_case_hashes m) \<and> cm_manifest_hash m = sha (jobj (manifest_fields m))"

record canary_run =
  cu_run_id :: string
  cu_candidate_id :: string
  cu_authorization_id :: string
  cu_manifest_hash :: string
  cu_stable_release_id :: "string option"
  cu_started_at :: timestamp
  cu_deadline_at :: timestamp
  cu_control_epoch :: nat
  cu_status :: run_status
  cu_exposure_count :: nat
  cu_run_hash :: string

definition unsealed_run_json :: "canary_run \<Rightarrow> jval" where
  "unsealed_run_json r = jobj
     [(''schema_version'', jstr ''1.0.0''), (''canary_run_id'', jstr (cu_run_id r)),
      (''candidate_id'', jstr (cu_candidate_id r)), (''authorization_id'', jstr (cu_authorization_id r)),
      (''canary_manifest_hash'', jstr (cu_manifest_hash r)),
      (''stable_release_id'', opt_json (cu_stable_release_id r)), (''started_at'', time_json (cu_started_at r)),
      (''deadline_at'', time_json (cu_deadline_at r)), (''control_epoch'', jnat (cu_control_epoch r)),
      (''status'', jstr (run_status_string (cu_status r))), (''exposure_count'', jnat (cu_exposure_count r))]"

definition canary_run_ok :: "(jval \<Rightarrow> string) \<Rightarrow> canary_run \<Rightarrow> bool" where
  "canary_run_ok sha r \<longleftrightarrow>
     identifier_ok (cu_run_id r) \<and> identifier_ok (cu_candidate_id r) \<and> identifier_ok (cu_authorization_id r)
     \<and> canonical_hash_ok (cu_manifest_hash r) \<and> opt_ok identifier_ok (cu_stable_release_id r)
     \<and> cu_exposure_count r \<le> 3 \<and> canonical_hash_ok (cu_run_hash r)
     \<and> \<not> epoch_ms (cu_deadline_at r) \<le> epoch_ms (cu_started_at r)
     \<and> cu_run_hash r = sha (unsealed_run_json r)"

subsection \<open>Releases\<close>

text \<open>The approval of a release or a rollback after the canary; \<open>pa_details\<close> are the twelve fields the grant repeats
  (\<open>approvalDetails\<close>).\<close>

record post_canary_approval =
  pa_approval_id :: string
  pa_principal :: string
  pa_scopes :: "scope list"
  pa_details :: learning_details
  pa_request_hash :: string
  pa_issued_at :: timestamp
  pa_expires_at :: timestamp
  pa_approval_hash :: string

definition unsealed_approval_json :: "post_canary_approval \<Rightarrow> jval" where
  "unsealed_approval_json a = (let d = pa_details a in jobj
     [(''schema_version'', jstr ''1.0.0''), (''approval_id'', jstr (pa_approval_id a)),
      (''principal_id'', jstr (pa_principal a)),
      (''action'', jstr (if ld_is_rollback d then ''rollback'' else ''release'')), (''scopes'', scopes_json (pa_scopes a)),
      (''candidate_id'', jstr (ld_candidate_id d)), (''release_slot_hash'', jstr (ld_release_slot_hash d)),
      (''base_release_id'', opt_json (ld_base_release_id d)),
      (''evaluation_receipt_id'', jstr (ld_evaluation_receipt_id d)),
      (''evaluation_receipt_hash'', jstr (ld_evaluation_receipt_hash d)),
      (''canary_receipt_id'', jstr (ld_canary_receipt_id d)),
      (''canary_receipt_hash'', jstr (ld_canary_receipt_hash d)),
      (''expected_pointer_revision'', jnat (ld_expected_pointer_revision d)),
      (''target_release_id'', opt_json (ld_target_release_id d)), (''control_epoch'', jnat (ld_control_epoch d)),
      (''request_hash'', jstr (pa_request_hash a)), (''effect_manifest_hash'', jstr (ld_effect_manifest_hash d)),
      (''issued_at'', time_json (pa_issued_at a)), (''expires_at'', time_json (pa_expires_at a))])"

definition post_canary_approval_ok :: "(jval \<Rightarrow> string) \<Rightarrow> post_canary_approval \<Rightarrow> bool" where
  "post_canary_approval_ok sha a \<longleftrightarrow> identifier_ok (pa_approval_id a) \<and> identifier_ok (pa_principal a)
     \<and> canonical_scopes_ok (pa_scopes a) \<and> learning_details_ok (pa_details a) \<and> canonical_hash_ok (pa_request_hash a)
     \<and> canonical_hash_ok (pa_approval_hash a) \<and> \<not> epoch_ms (pa_expires_at a) \<le> epoch_ms (pa_issued_at a)
     \<and> pa_approval_hash a = sha (unsealed_approval_json a)"

record release_version =
  rl_release_id :: string
  rl_is_rollback :: bool
  rl_slot_hash :: string
  rl_candidate_id :: string
  rl_previous_release_id :: "string option"
  rl_restored_release_id :: "string option"
  rl_evaluation_receipt_id :: string
  rl_canary_receipt_id :: string
  rl_approval_id :: string
  rl_monitor_contract_hash :: string
  rl_configuration_hash :: string
  rl_activated_at :: timestamp
  rl_release_hash :: string

definition unsealed_release_json :: "release_version \<Rightarrow> jval" where
  "unsealed_release_json r = jobj
     [(''schema_version'', jstr ''1.0.0''), (''release_id'', jstr (rl_release_id r)),
      (''action'', jstr (if rl_is_rollback r then ''rollback'' else ''release'')),
      (''release_slot_hash'', jstr (rl_slot_hash r)), (''candidate_id'', jstr (rl_candidate_id r)),
      (''previous_release_id'', opt_json (rl_previous_release_id r)),
      (''restored_release_id'', opt_json (rl_restored_release_id r)),
      (''evaluation_receipt_id'', jstr (rl_evaluation_receipt_id r)),
      (''canary_receipt_id'', jstr (rl_canary_receipt_id r)), (''approval_id'', jstr (rl_approval_id r)),
      (''monitor_contract_hash'', jstr (rl_monitor_contract_hash r)),
      (''configuration_hash'', jstr (rl_configuration_hash r)), (''activated_at'', time_json (rl_activated_at r))]"

definition release_version_ok :: "(jval \<Rightarrow> string) \<Rightarrow> release_version \<Rightarrow> bool" where
  "release_version_ok sha r \<longleftrightarrow>
     list_all identifier_ok [rl_release_id r, rl_candidate_id r, rl_evaluation_receipt_id r, rl_canary_receipt_id r,
       rl_approval_id r]
     \<and> opt_ok identifier_ok (rl_previous_release_id r) \<and> opt_ok identifier_ok (rl_restored_release_id r)
     \<and> list_all canonical_hash_ok [rl_slot_hash r, rl_monitor_contract_hash r, rl_configuration_hash r, rl_release_hash r]
     \<and> \<not> (\<not> rl_is_rollback r \<and> rl_restored_release_id r \<noteq> None)
     \<and> rl_release_hash r = sha (unsealed_release_json r)"

record release_pointer =
  pt_slot_hash :: string
  pt_active_release_id :: "string option"
  pt_revision :: nat
  pt_updated_at :: timestamp
  pt_pointer_hash :: string

definition unsealed_pointer_json :: "release_pointer \<Rightarrow> jval" where
  "unsealed_pointer_json p = jobj
     [(''schema_version'', jstr ''1.0.0''), (''release_slot_hash'', jstr (pt_slot_hash p)),
      (''active_release_id'', opt_json (pt_active_release_id p)), (''pointer_revision'', jnat (pt_revision p)),
      (''updated_at'', time_json (pt_updated_at p))]"

definition release_pointer_ok :: "(jval \<Rightarrow> string) \<Rightarrow> release_pointer \<Rightarrow> bool" where
  "release_pointer_ok sha p \<longleftrightarrow> canonical_hash_ok (pt_slot_hash p) \<and> opt_ok identifier_ok (pt_active_release_id p)
     \<and> canonical_hash_ok (pt_pointer_hash p) \<and> pt_pointer_hash p = sha (unsealed_pointer_json p)"

record monitor_result =
  mo_monitor_id :: string
  mo_release_id :: string
  mo_pointer_revision :: nat
  mo_canary_receipt_id :: string
  mo_replayed_case_ids :: "string list"
  mo_passed :: bool
  mo_failure_codes :: "string list"
  mo_rollback_required :: bool
  mo_monitored_at :: timestamp
  mo_monitor_hash :: string

definition unsealed_monitor_json :: "monitor_result \<Rightarrow> jval" where
  "unsealed_monitor_json m = jobj
     [(''schema_version'', jstr ''1.0.0''), (''monitor_id'', jstr (mo_monitor_id m)),
      (''release_id'', jstr (mo_release_id m)), (''pointer_revision'', jnat (mo_pointer_revision m)),
      (''canary_receipt_id'', jstr (mo_canary_receipt_id m)), (''replayed_case_ids'', jstrs (mo_replayed_case_ids m)),
      (''passed'', J_bool (mo_passed m)), (''failure_codes'', jstrs (mo_failure_codes m)),
      (''rollback_required'', J_bool (mo_rollback_required m)), (''monitored_at'', time_json (mo_monitored_at m))]"

definition monitor_result_ok :: "(jval \<Rightarrow> string) \<Rightarrow> monitor_result \<Rightarrow> bool" where
  "monitor_result_ok sha m \<longleftrightarrow>
     list_all identifier_ok ([mo_monitor_id m, mo_release_id m, mo_canary_receipt_id m] @ mo_replayed_case_ids m)
     \<and> length (mo_replayed_case_ids m) = 3 \<and> list_all reason_code_ok (mo_failure_codes m)
     \<and> unique (mo_replayed_case_ids m) \<and> mo_passed m \<noteq> mo_rollback_required m
     \<and> canonical_hash_ok (mo_monitor_hash m) \<and> mo_monitor_hash m = sha (unsealed_monitor_json m)"

record learning_control =
  lc_principal :: string
  lc_paused :: bool
  lc_control_epoch :: nat
  lc_reason_code :: string
  lc_actor_id :: string
  lc_changed_at :: timestamp
  lc_frontier_hash :: string
  lc_runtime_identity_hash :: string
  lc_configuration_hash :: string
  lc_corpus_hash :: string

definition learning_control_ok :: "learning_control \<Rightarrow> bool" where
  "learning_control_ok c \<longleftrightarrow> identifier_ok (lc_principal c) \<and> reason_code_ok (lc_reason_code c)
     \<and> identifier_ok (lc_actor_id c)
     \<and> list_all canonical_hash_ok [lc_frontier_hash c, lc_runtime_identity_hash c, lc_configuration_hash c,
         lc_corpus_hash c]"

subsection \<open>Receipts\<close>

record learning_feedback =
  fb_feedback_id :: string
  fb_task_id :: string
  fb_context_slice_id :: string
  fb_outcome :: learning_outcome
  fb_evidence_ids :: "string list"
  fb_error_codes :: "string list"
  fb_gap_codes :: "string list"
  fb_observed_at :: timestamp
  fb_feedback_hash :: string

definition feedback_fields :: "learning_feedback \<Rightarrow> (string \<times> jval) list" where
  "feedback_fields f =
     [(''schema_version'', jstr ''1.0.0''), (''feedback_id'', jstr (fb_feedback_id f)), (''task_id'', jstr (fb_task_id f)),
      (''context_slice_id'', jstr (fb_context_slice_id f)), (''outcome'', jstr (outcome_string (fb_outcome f))),
      (''evidence_ids'', jstrs (fb_evidence_ids f)), (''error_codes'', jstrs (fb_error_codes f)),
      (''gap_codes'', jstrs (fb_gap_codes f)), (''observed_at'', time_json (fb_observed_at f))]"

definition learning_feedback_ok :: "(jval \<Rightarrow> string) \<Rightarrow> learning_feedback \<Rightarrow> bool" where
  "learning_feedback_ok sha f \<longleftrightarrow>
     list_all identifier_ok ([fb_feedback_id f, fb_task_id f, fb_context_slice_id f] @ fb_evidence_ids f)
     \<and> list_all reason_code_ok (fb_error_codes f @ fb_gap_codes f) \<and> length (fb_evidence_ids f) \<le> 100
     \<and> length (fb_error_codes f) \<le> 100 \<and> length (fb_gap_codes f) \<le> 100 \<and> canonical_hash_ok (fb_feedback_hash f)
     \<and> unique (fb_evidence_ids f) \<and> unique (fb_error_codes f) \<and> unique (fb_gap_codes f)
     \<and> fb_feedback_hash f = sha (jobj (feedback_fields f))"

record stop_body =
  sb_principal :: string
  sb_trace_id :: "string option"
  sb_candidate_id :: "string option"
  sb_control_epoch :: nat
  sb_reason_code :: string
  sb_feedback :: "learning_feedback option"

record transition_body =
  tb_candidate_id :: string
  tb_transition_id :: string
  tb_sequence :: nat
  tb_from :: candidate_state
  tb_to :: candidate_state
  tb_authority_id :: "string option"
  tb_evidence_receipt_ids :: "string list"
  tb_control_epoch :: nat

record evaluation_body =
  eb_candidate_id :: string
  eb_run_id :: string
  eb_evaluation_version :: string
  eb_fixture_manifest_hash :: string
  eb_thresholds_hash :: string
  eb_common_identity_hash :: string
  eb_baseline_release_id :: "string option"
  eb_result_set_hashes :: "string list"
  eb_passed :: bool
  eb_invalidated :: bool
  eb_failed_case_ids :: "string list"
  eb_quarantined_case_ids :: "string list"
  eb_contamination_event_ids :: "string list"

record canary_body =
  cb_candidate_id :: string
  cb_authorization_id :: string
  cb_authorization_hash :: string
  cb_evaluation_receipt_id :: string
  cb_manifest_hash :: string
  cb_exposures :: nat
  cb_passed :: bool
  cb_failure_codes :: "string list"
  cb_control_epoch :: nat

record release_body =
  xb_release_id :: string
  xb_slot_hash :: string
  xb_candidate_id :: string
  xb_previous_release_id :: "string option"
  xb_evaluation_receipt_id :: string
  xb_canary_receipt_id :: string
  xb_approval_id :: string
  xb_approval_hash :: string
  xb_pointer_revision :: nat
  xb_control_epoch :: nat
  xb_configuration_hash :: string

record monitor_body =
  mb_release_id :: string
  mb_pointer_revision :: nat
  mb_canary_receipt_id :: string
  mb_monitor_contract_hash :: string
  mb_replayed_case_ids :: "string list"
  mb_passed :: bool
  mb_failure_codes :: "string list"
  mb_rollback_required :: bool

record pause_body =
  pb_principal :: string
  pb_is_pause :: bool
  pb_previous_epoch :: nat
  pb_resulting_epoch :: nat
  pb_previous_frontier_hash :: string
  pb_frontier_hash :: string
  pb_runtime_identity_hash :: string
  pb_configuration_hash :: string
  pb_corpus_hash :: string
  pb_reason_code :: string

record rollback_body =
  bb_release_id :: string
  bb_rolled_back_release_id :: string
  bb_restored_release_id :: "string option"
  bb_approval_id :: string
  bb_approval_hash :: string
  bb_monitor_receipt_id :: "string option"
  bb_pointer_revision :: nat
  bb_control_epoch :: nat
  bb_configuration_hash :: string
  bb_reason :: ustring

datatype receipt_body =
  Stop_receipt stop_body
| Transition_receipt transition_body
| Evaluation_receipt evaluation_body
| Canary_receipt canary_body
| Release_receipt release_body
| Monitor_receipt monitor_body
| Pause_receipt pause_body
| Rollback_receipt rollback_body

record learning_receipt =
  rx_receipt_id :: string
  rx_created_at :: timestamp
  rx_state :: receipt_state
  rx_request_hash :: string
  rx_receipt_hash :: string
  rx_body :: receipt_body

fun receipt_kind :: "receipt_body \<Rightarrow> string" where
  "receipt_kind (Stop_receipt b) = ''learning_stop''"
| "receipt_kind (Transition_receipt b) = ''learning_transition''"
| "receipt_kind (Evaluation_receipt b) = ''evaluation''"
| "receipt_kind (Canary_receipt b) = ''learning_canary''"
| "receipt_kind (Release_receipt b) = ''release''"
| "receipt_kind (Monitor_receipt b) = ''learning_monitor''"
| "receipt_kind (Pause_receipt b) = ''learning_control''"
| "receipt_kind (Rollback_receipt b) = ''rollback''"

fun receipt_body_fields :: "receipt_body \<Rightarrow> (string \<times> jval) list" where
  "receipt_body_fields (Stop_receipt b) =
     [(''principal_id'', jstr (sb_principal b)), (''trace_id'', opt_json (sb_trace_id b)),
      (''candidate_id'', opt_json (sb_candidate_id b)), (''control_epoch'', jnat (sb_control_epoch b)),
      (''reason_code'', jstr (sb_reason_code b))]
     @ field ''feedback'' (\<lambda>f. jobj (feedback_fields f @ [(''feedback_hash'', jstr (fb_feedback_hash f))])) (sb_feedback b)"
| "receipt_body_fields (Transition_receipt b) =
     [(''candidate_id'', jstr (tb_candidate_id b)), (''transition_id'', jstr (tb_transition_id b)),
      (''sequence'', jnat (tb_sequence b)), (''from_state'', jstr (candidate_state_string (tb_from b))),
      (''to_state'', jstr (candidate_state_string (tb_to b))), (''authority_id'', opt_json (tb_authority_id b)),
      (''evidence_receipt_ids'', jstrs (tb_evidence_receipt_ids b)), (''control_epoch'', jnat (tb_control_epoch b))]"
| "receipt_body_fields (Evaluation_receipt b) =
     [(''candidate_id'', jstr (eb_candidate_id b)), (''run_id'', jstr (eb_run_id b)),
      (''evaluation_version'', jstr (eb_evaluation_version b)),
      (''fixture_manifest_hash'', jstr (eb_fixture_manifest_hash b)), (''thresholds_hash'', jstr (eb_thresholds_hash b)),
      (''common_identity_hash'', jstr (eb_common_identity_hash b)),
      (''baseline_release_id'', opt_json (eb_baseline_release_id b)),
      (''result_set_hashes'', jstrs (eb_result_set_hashes b)), (''passed'', J_bool (eb_passed b)),
      (''invalidated'', J_bool (eb_invalidated b)), (''failed_case_ids'', jstrs (eb_failed_case_ids b)),
      (''quarantined_case_ids'', jstrs (eb_quarantined_case_ids b)),
      (''contamination_event_ids'', jstrs (eb_contamination_event_ids b))]"
| "receipt_body_fields (Canary_receipt b) =
     [(''candidate_id'', jstr (cb_candidate_id b)), (''authorization_id'', jstr (cb_authorization_id b)),
      (''authorization_hash'', jstr (cb_authorization_hash b)),
      (''evaluation_receipt_id'', jstr (cb_evaluation_receipt_id b)),
      (''canary_manifest_hash'', jstr (cb_manifest_hash b)), (''exposures'', jnat (cb_exposures b)),
      (''passed'', J_bool (cb_passed b)), (''failure_codes'', jstrs (cb_failure_codes b)),
      (''control_epoch'', jnat (cb_control_epoch b))]"
| "receipt_body_fields (Release_receipt b) =
     [(''release_id'', jstr (xb_release_id b)), (''release_slot_hash'', jstr (xb_slot_hash b)),
      (''candidate_id'', jstr (xb_candidate_id b)), (''previous_release_id'', opt_json (xb_previous_release_id b)),
      (''evaluation_receipt_id'', jstr (xb_evaluation_receipt_id b)),
      (''canary_receipt_id'', jstr (xb_canary_receipt_id b)), (''approval_id'', jstr (xb_approval_id b)),
      (''approval_hash'', jstr (xb_approval_hash b)), (''resulting_pointer_revision'', jnat (xb_pointer_revision b)),
      (''control_epoch'', jnat (xb_control_epoch b)),
      (''retrieval_configuration_hash'', jstr (xb_configuration_hash b))]"
| "receipt_body_fields (Monitor_receipt b) =
     [(''release_id'', jstr (mb_release_id b)), (''pointer_revision'', jnat (mb_pointer_revision b)),
      (''canary_receipt_id'', jstr (mb_canary_receipt_id b)),
      (''monitor_contract_hash'', jstr (mb_monitor_contract_hash b)),
      (''replayed_case_ids'', jstrs (mb_replayed_case_ids b)), (''passed'', J_bool (mb_passed b)),
      (''failure_codes'', jstrs (mb_failure_codes b)), (''rollback_required'', J_bool (mb_rollback_required b))]"
| "receipt_body_fields (Pause_receipt b) =
     [(''principal_id'', jstr (pb_principal b)), (''action'', jstr (if pb_is_pause b then ''pause'' else ''resume'')),
      (''previous_epoch'', jnat (pb_previous_epoch b)), (''resulting_epoch'', jnat (pb_resulting_epoch b)),
      (''previous_frontier_hash'', jstr (pb_previous_frontier_hash b)), (''frontier_hash'', jstr (pb_frontier_hash b)),
      (''runtime_identity_hash'', jstr (pb_runtime_identity_hash b)),
      (''configuration_hash'', jstr (pb_configuration_hash b)), (''corpus_hash'', jstr (pb_corpus_hash b)),
      (''reason_code'', jstr (pb_reason_code b))]"
| "receipt_body_fields (Rollback_receipt b) =
     [(''release_id'', jstr (bb_release_id b)), (''rolled_back_release_id'', jstr (bb_rolled_back_release_id b)),
      (''restored_release_id'', opt_json (bb_restored_release_id b)), (''approval_id'', jstr (bb_approval_id b)),
      (''approval_hash'', jstr (bb_approval_hash b)), (''monitor_receipt_id'', opt_json (bb_monitor_receipt_id b)),
      (''resulting_pointer_revision'', jnat (bb_pointer_revision b)), (''control_epoch'', jnat (bb_control_epoch b)),
      (''restored_configuration_hash'', jstr (bb_configuration_hash b)), (''reason'', J_str (bb_reason b))]"

definition unsealed_learning_receipt_json :: "learning_receipt \<Rightarrow> jval" where
  "unsealed_learning_receipt_json r = jobj
     ([(''schema_version'', jstr ''1.0.0''), (''receipt_id'', jstr (rx_receipt_id r)),
       (''created_at'', time_json (rx_created_at r)), (''state'', jstr (receipt_state_string (rx_state r))),
       (''request_hash'', jstr (rx_request_hash r)), (''kind'', jstr (receipt_kind (rx_body r)))]
      @ receipt_body_fields (rx_body r))"

fun receipt_body_ok :: "(jval \<Rightarrow> string) \<Rightarrow> receipt_body \<Rightarrow> bool" where
  "receipt_body_ok sha (Stop_receipt b) \<longleftrightarrow> identifier_ok (sb_principal b) \<and> opt_ok identifier_ok (sb_trace_id b)
     \<and> opt_ok identifier_ok (sb_candidate_id b) \<and> reason_code_ok (sb_reason_code b)
     \<and> opt_ok (learning_feedback_ok sha) (sb_feedback b)"
| "receipt_body_ok sha (Transition_receipt b) \<longleftrightarrow>
     list_all identifier_ok ([tb_candidate_id b, tb_transition_id b] @ tb_evidence_receipt_ids b)
     \<and> 0 < tb_sequence b \<and> opt_ok identifier_ok (tb_authority_id b) \<and> tb_evidence_receipt_ids b \<noteq> []
     \<and> unique (tb_evidence_receipt_ids b)"
| "receipt_body_ok sha (Evaluation_receipt b) \<longleftrightarrow>
     list_all identifier_ok ([eb_candidate_id b, eb_run_id b] @ eb_failed_case_ids b @ eb_quarantined_case_ids b
       @ eb_contamination_event_ids b)
     \<and> contract_version_ok (eb_evaluation_version b) \<and> opt_ok identifier_ok (eb_baseline_release_id b)
     \<and> list_all canonical_hash_ok ([eb_fixture_manifest_hash b, eb_thresholds_hash b, eb_common_identity_hash b]
         @ eb_result_set_hashes b)
     \<and> eb_result_set_hashes b \<noteq> [] \<and> \<not> (eb_passed b \<and> eb_invalidated b)"
| "receipt_body_ok sha (Canary_receipt b) \<longleftrightarrow>
     list_all identifier_ok [cb_candidate_id b, cb_authorization_id b, cb_evaluation_receipt_id b]
     \<and> canonical_hash_ok (cb_authorization_hash b) \<and> canonical_hash_ok (cb_manifest_hash b) \<and> cb_exposures b \<le> 3
     \<and> list_all reason_code_ok (cb_failure_codes b) \<and> \<not> (cb_passed b \<and> cb_exposures b \<noteq> 3)
     \<and> \<not> (cb_passed b \<and> cb_failure_codes b \<noteq> [])"
| "receipt_body_ok sha (Release_receipt b) \<longleftrightarrow>
     list_all identifier_ok [xb_release_id b, xb_candidate_id b, xb_evaluation_receipt_id b, xb_canary_receipt_id b,
       xb_approval_id b]
     \<and> opt_ok identifier_ok (xb_previous_release_id b)
     \<and> list_all canonical_hash_ok [xb_slot_hash b, xb_approval_hash b, xb_configuration_hash b] \<and> 0 < xb_pointer_revision b"
| "receipt_body_ok sha (Monitor_receipt b) \<longleftrightarrow>
     list_all identifier_ok ([mb_release_id b, mb_canary_receipt_id b] @ mb_replayed_case_ids b)
     \<and> 0 < mb_pointer_revision b \<and> canonical_hash_ok (mb_monitor_contract_hash b) \<and> length (mb_replayed_case_ids b) = 3
     \<and> list_all reason_code_ok (mb_failure_codes b) \<and> unique (mb_replayed_case_ids b)
     \<and> mb_passed b \<noteq> mb_rollback_required b"
| "receipt_body_ok sha (Pause_receipt b) \<longleftrightarrow> identifier_ok (pb_principal b) \<and> 0 < pb_resulting_epoch b
     \<and> list_all canonical_hash_ok [pb_previous_frontier_hash b, pb_frontier_hash b, pb_runtime_identity_hash b,
         pb_configuration_hash b, pb_corpus_hash b]
     \<and> reason_code_ok (pb_reason_code b) \<and> pb_resulting_epoch b = pb_previous_epoch b + 1"
| "receipt_body_ok sha (Rollback_receipt b) \<longleftrightarrow>
     list_all identifier_ok [bb_release_id b, bb_rolled_back_release_id b, bb_approval_id b]
     \<and> opt_ok identifier_ok (bb_restored_release_id b) \<and> opt_ok identifier_ok (bb_monitor_receipt_id b)
     \<and> canonical_hash_ok (bb_approval_hash b) \<and> canonical_hash_ok (bb_configuration_hash b)
     \<and> 0 < bb_pointer_revision b \<and> reason_ok (bb_reason b)"

definition learning_receipt_ok :: "(jval \<Rightarrow> string) \<Rightarrow> learning_receipt \<Rightarrow> bool" where
  "learning_receipt_ok sha r \<longleftrightarrow> identifier_ok (rx_receipt_id r) \<and> canonical_hash_ok (rx_request_hash r)
     \<and> canonical_hash_ok (rx_receipt_hash r) \<and> receipt_body_ok sha (rx_body r)"

text \<open>\<open>receiptHashIsValid\<close> and \<open>sealReceipt\<close>.\<close>

definition receipt_sealed :: "(jval \<Rightarrow> string) \<Rightarrow> learning_receipt \<Rightarrow> bool" where
  "receipt_sealed sha r \<longleftrightarrow> rx_receipt_hash r = sha (unsealed_learning_receipt_json r)"

definition seal_learning_receipt :: "(jval \<Rightarrow> string) \<Rightarrow> learning_receipt \<Rightarrow> learning_receipt" where
  "seal_learning_receipt sha r = r\<lparr>rx_receipt_hash := sha (unsealed_learning_receipt_json r)\<rparr>"

lemma receipt_sealed_seal [simp]: "receipt_sealed sha (seal_learning_receipt sha r)"
  by (simp add: receipt_sealed_def seal_learning_receipt_def unsealed_learning_receipt_json_def)

end
