(* ===== verification/LearningLedger.thy ===== *)
theory LearningLedger
  imports LearningContracts
begin

text \<open>
  The learning ledger (\<open>packages/storage-sqlite/src/learning-repository.ts\<close>): ten kinds of command, each one
  transaction over the tables of the control store and its own, idempotent by key, and the read and replay
  queries. A table is the list of its rows in insertion order; a row is the artifact its JSON column holds, and
  the indexed columns are read from the artifact. The rows of \<open>learning_trace_evidence_refs\<close>,
  \<open>learning_candidate_traces\<close>, \<open>learning_candidate_evidence\<close> and \<open>learning_evaluation_results\<close> are those of their
  artifacts. Primary keys, unique columns and foreign keys that a valid command can violate are
  \<open>Constraint_violation\<close>. The write guard is open exactly inside the transaction and is not represented; the wall
  clock stamps of the guard, the epoch and the idempotency row, which nothing reads, are left out.
\<close>

subsection \<open>Commands\<close>

datatype failure_point =
  After_guard | After_transition | After_authorization | After_canary_run | After_control | After_canonical_effect
| After_release | After_pointer | After_receipt | After_approval | After_idempotency

datatype release_effect = Policy_effect | Memory_effect learning_target

record stop_command =
  sw_principal :: string
  sw_scopes :: "scope list"
  sw_receipt :: learning_receipt

record evaluation_command =
  ew_principal :: string
  ew_scopes :: "scope list"
  ew_identity :: evaluation_identity
  ew_seals :: "partition_seal list"
  ew_result_sets :: "result_set list"
  ew_contaminations :: "contamination_event list"
  ew_receipt :: learning_receipt

record canary_command =
  yw_principal :: string
  yw_scopes :: "scope list"
  yw_authorization :: canary_authorization
  yw_transition :: transition
  yw_run :: canary_run
  yw_receipt :: learning_receipt

record monitor_command =
  mw_principal :: string
  mw_scopes :: "scope list"
  mw_monitor :: monitor_result
  mw_receipt :: learning_receipt

record pause_command =
  pw_expected_epoch :: nat
  pw_expected_frontier :: string
  pw_control :: learning_control
  pw_receipt :: learning_receipt
  pw_binding :: approval_binding
  pw_approval :: verified_approval

record release_command =
  rw_rollback :: bool
  rw_principal :: string
  rw_scopes :: "scope list"
  rw_expected_epoch :: nat
  rw_expected_revision :: nat
  rw_artifact :: post_canary_approval
  rw_binding :: approval_binding
  rw_approval :: verified_approval
  rw_effect :: release_effect
  rw_release :: release_version
  rw_pointer :: release_pointer
  rw_transition :: transition
  rw_receipt :: learning_receipt

datatype ledger_write =
  Write_trace learning_trace
| Write_stop stop_command
| Write_candidate learning_candidate
| Write_transition transition "learning_receipt option"
| Write_evaluation evaluation_command
| Write_canary canary_command
| Write_monitor monitor_command
| Write_pause pause_command
| Write_release release_command

record learning_command =
  lw_key :: ustring
  lw_idempotency_hash :: "string option"
  lw_request_hash :: string
  lw_failure :: "failure_point option"
  lw_write :: ledger_write

fun write_kind :: "ledger_write \<Rightarrow> string" where
  "write_kind (Write_trace t) = ''trace''"
| "write_kind (Write_stop x) = ''stop''"
| "write_kind (Write_candidate c) = ''candidate''"
| "write_kind (Write_transition t r) = ''transition''"
| "write_kind (Write_evaluation x) = ''evaluation''"
| "write_kind (Write_canary x) = ''canary''"
| "write_kind (Write_monitor x) = ''monitor''"
| "write_kind (Write_pause x) = ''control''"
| "write_kind (Write_release x) = (if rw_rollback x then ''rollback'' else ''release'')"

definition scope_set_ok :: "scope list \<Rightarrow> bool" where
  "scope_set_ok ss \<longleftrightarrow> ss \<noteq> [] \<and> list_all scope_ok ss"

definition receipt_is :: "string \<Rightarrow> (jval \<Rightarrow> string) \<Rightarrow> learning_receipt \<Rightarrow> bool" where
  "receipt_is k sha r \<longleftrightarrow> receipt_kind (rx_body r) = k \<and> learning_receipt_ok sha r"

definition verified_approval_ok :: "(jval \<Rightarrow> string) \<Rightarrow> verified_approval \<Rightarrow> bool" where
  "verified_approval_ok sha a \<longleftrightarrow> approval_grant_ok sha (va_grant a) \<and> canonical_hash_ok (va_registry_hash a)"

fun write_ok :: "(jval \<Rightarrow> string) \<Rightarrow> ledger_write \<Rightarrow> bool" where
  "write_ok sha (Write_trace t) \<longleftrightarrow> learning_trace_ok sha t"
| "write_ok sha (Write_stop x) \<longleftrightarrow> identifier_ok (sw_principal x) \<and> scope_set_ok (sw_scopes x)
     \<and> receipt_is ''learning_stop'' sha (sw_receipt x)"
| "write_ok sha (Write_candidate c) \<longleftrightarrow> learning_candidate_ok sha c"
| "write_ok sha (Write_transition t r) \<longleftrightarrow> transition_ok sha t \<and> opt_ok (receipt_is ''learning_transition'' sha) r"
| "write_ok sha (Write_evaluation x) \<longleftrightarrow> identifier_ok (ew_principal x) \<and> scope_set_ok (ew_scopes x)
     \<and> evaluation_identity_ok sha (ew_identity x) \<and> length (ew_seals x) = 3 \<and> list_all partition_seal_ok (ew_seals x)
     \<and> ew_result_sets x \<noteq> [] \<and> list_all (result_set_ok sha) (ew_result_sets x)
     \<and> list_all contamination_event_ok (ew_contaminations x) \<and> receipt_is ''evaluation'' sha (ew_receipt x)"
| "write_ok sha (Write_canary x) \<longleftrightarrow> identifier_ok (yw_principal x) \<and> scope_set_ok (yw_scopes x)
     \<and> canary_authorization_ok sha (yw_authorization x) \<and> transition_ok sha (yw_transition x)
     \<and> canary_run_ok sha (yw_run x) \<and> receipt_is ''learning_canary'' sha (yw_receipt x)"
| "write_ok sha (Write_monitor x) \<longleftrightarrow> identifier_ok (mw_principal x) \<and> scope_set_ok (mw_scopes x)
     \<and> monitor_result_ok sha (mw_monitor x) \<and> receipt_is ''learning_monitor'' sha (mw_receipt x)"
| "write_ok sha (Write_pause x) \<longleftrightarrow> canonical_hash_ok (pw_expected_frontier x) \<and> learning_control_ok (pw_control x)
     \<and> receipt_is ''learning_control'' sha (pw_receipt x) \<and> approval_binding_ok (pw_binding x)
     \<and> verified_approval_ok sha (pw_approval x)"
| "write_ok sha (Write_release x) \<longleftrightarrow> identifier_ok (rw_principal x) \<and> scope_set_ok (rw_scopes x)
     \<and> post_canary_approval_ok sha (rw_artifact x) \<and> approval_binding_ok (rw_binding x)
     \<and> verified_approval_ok sha (rw_approval x)
     \<and> (case rw_effect x of Policy_effect \<Rightarrow> True | Memory_effect t \<Rightarrow> candidate_target_ok (Canonical_target t))
     \<and> release_version_ok sha (rw_release x) \<and> release_pointer_ok sha (rw_pointer x) \<and> transition_ok sha (rw_transition x)
     \<and> receipt_is (if rw_rollback x then ''rollback'' else ''release'') sha (rw_receipt x)
     \<and> rl_is_rollback (rw_release x) = rw_rollback x"

definition failure_points :: "ledger_write \<Rightarrow> failure_point list" where
  "failure_points w = (case w of
     Write_canary x \<Rightarrow> [After_guard, After_transition, After_authorization, After_canary_run, After_receipt, After_idempotency]
   | Write_pause x \<Rightarrow> [After_guard, After_control, After_receipt, After_approval, After_idempotency]
   | Write_release x \<Rightarrow> [After_guard, After_canonical_effect, After_release, After_pointer, After_transition, After_receipt,
       After_approval, After_idempotency]
   | _ \<Rightarrow> [])"

definition learning_command_ok :: "(jval \<Rightarrow> string) \<Rightarrow> learning_command \<Rightarrow> bool" where
  "learning_command_ok sha c \<longleftrightarrow> idempotency_key_ok (lw_key c) \<and> opt_ok canonical_hash_ok (lw_idempotency_hash c)
     \<and> canonical_hash_ok (lw_request_hash c) \<and> write_ok sha (lw_write c)
     \<and> (case lw_failure c of None \<Rightarrow> True | Some p \<Rightarrow> p \<in> set (failure_points (lw_write c)))"

subsection \<open>The hash of a command\<close>

definition receipt_json :: "learning_receipt \<Rightarrow> jval" where
  "receipt_json r = with_seal ''receipt_hash'' (rx_receipt_hash r) (unsealed_learning_receipt_json r)"

definition transition_json :: "transition \<Rightarrow> jval" where
  "transition_json t = with_seal ''transition_hash'' (tn_transition_hash t) (unsealed_transition_json t)"

definition partition_seal_json :: "partition_seal \<Rightarrow> jval" where
  "partition_seal_json x = jobj [(''seal_id'', jstr (ps_seal_id x)), (''partition'', jstr (partition_string (ps_partition x))),
     (''manifest_hash'', jstr (ps_manifest_hash x)), (''case_hashes'', jstrs (ps_case_hashes x)),
     (''oracle_hashes'', jstrs (ps_oracle_hashes x)), (''sealed_at'', time_json (ps_sealed_at x))]"

text \<open>The fields of the kinds whose hash the repository recomputes; a control command and a release bring theirs.\<close>

fun write_fields :: "ledger_write \<Rightarrow> (string \<times> jval) list" where
  "write_fields (Write_trace t) = [(''trace'', with_seal ''trace_hash'' (tr_trace_hash t) (unsealed_trace_json t))]"
| "write_fields (Write_stop x) = [(''principal_id'', jstr (sw_principal x)), (''scopes'', scopes_json (sw_scopes x)),
     (''receipt'', receipt_json (sw_receipt x))]"
| "write_fields (Write_candidate c) =
     [(''candidate'', with_seal ''candidate_hash'' (ln_candidate_hash c) (unsealed_candidate_json c))]"
| "write_fields (Write_transition t r) = [(''transition'', transition_json t)] @ field ''receipt'' receipt_json r"
| "write_fields (Write_evaluation x) = [(''principal_id'', jstr (ew_principal x)), (''scopes'', scopes_json (ew_scopes x)),
     (''identity'', with_seal ''common_identity_hash'' (ei_common_identity_hash (ew_identity x))
        (unsealed_identity_json (ew_identity x))),
     (''partition_seals'', J_arr (map partition_seal_json (ew_seals x))),
     (''result_sets'', J_arr (map (\<lambda>s. with_seal ''result_set_hash'' (es_result_set_hash s) (unsealed_result_set_json s))
        (ew_result_sets x))),
     (''contamination_events'', J_arr (map (\<lambda>e. with_seal ''event_hash'' (cx_event_hash e) (unsealed_contamination_json e))
        (ew_contaminations x))),
     (''receipt'', receipt_json (ew_receipt x))]"
| "write_fields (Write_canary x) = [(''principal_id'', jstr (yw_principal x)), (''scopes'', scopes_json (yw_scopes x)),
     (''authorization'', with_seal ''authorization_hash'' (au_authorization_hash (yw_authorization x))
        (unsealed_authorization_json (yw_authorization x))),
     (''transition'', transition_json (yw_transition x)),
     (''run'', with_seal ''run_hash'' (cu_run_hash (yw_run x)) (unsealed_run_json (yw_run x))),
     (''receipt'', receipt_json (yw_receipt x))]"
| "write_fields (Write_monitor x) = [(''principal_id'', jstr (mw_principal x)), (''scopes'', scopes_json (mw_scopes x)),
     (''monitor'', with_seal ''monitor_hash'' (mo_monitor_hash (mw_monitor x)) (unsealed_monitor_json (mw_monitor x))),
     (''receipt'', receipt_json (mw_receipt x))]"
| "write_fields (Write_pause x) = []"
| "write_fields (Write_release x) = []"

text \<open>\<open>requestHash\<close>, which omits the request hash and the test point.\<close>

definition request_hash_of :: "(jval \<Rightarrow> string) \<Rightarrow> learning_command \<Rightarrow> string" where
  "request_hash_of sha c = sha (jobj ([(''kind'', jstr (write_kind (lw_write c))), (''idempotency_key'', J_str (lw_key c))]
     @ field ''idempotency_hash'' jstr (lw_idempotency_hash c) @ write_fields (lw_write c)))"

definition brings_hash :: "ledger_write \<Rightarrow> bool" where
  "brings_hash w \<longleftrightarrow> (case w of Write_pause x \<Rightarrow> True | Write_release x \<Rightarrow> True | _ \<Rightarrow> False)"

definition learning_command_hash :: "(jval \<Rightarrow> string) \<Rightarrow> learning_command \<Rightarrow> string" where
  "learning_command_hash sha c = (if brings_hash (lw_write c) then lw_request_hash c else request_hash_of sha c)"

definition idempotency_hash_of :: "(jval \<Rightarrow> string) \<Rightarrow> learning_command \<Rightarrow> string" where
  "idempotency_hash_of sha c = (case lw_idempotency_hash c of None \<Rightarrow> learning_command_hash sha c | Some h \<Rightarrow> h)"

subsection \<open>Tables\<close>

record evaluation_row =
  vr_identity :: evaluation_identity
  vr_principal :: string
  vr_scopes :: "scope list"
  vr_started_at :: timestamp

text \<open>The rows of a receipt in \<open>mutation_receipts\<close>, \<open>learning_receipt_links\<close> and \<open>receipt_access_scopes\<close>.\<close>

record receipt_row =
  xr_receipt :: learning_receipt
  xr_key :: ustring
  xr_epoch :: nat
  xr_aggregate_kind :: string
  xr_aggregate_id :: string
  xr_principal :: string
  xr_scopes :: "scope list"

record ledger_result =
  lz_kind :: string
  lz_replayed :: bool
  lz_epoch :: nat
  lz_receipt :: "learning_receipt option"

record result_row =
  zr_key :: ustring
  zr_request_hash :: string
  zr_result :: ledger_result

record 'g learning_store =
  lg_control :: "'g control_store"
  lg_traces :: "learning_trace list"
  lg_candidates :: "learning_candidate list"
  lg_transitions :: "transition list"
  lg_seals :: "partition_seal list"
  lg_evaluations :: "evaluation_row list"
  lg_result_sets :: "result_set list"
  lg_contaminations :: "contamination_event list"
  lg_authorizations :: "canary_authorization list"
  lg_runs :: "canary_run list"
  lg_releases :: "release_version list"
  lg_pointers :: "release_pointer list"
  lg_monitors :: "monitor_result list"
  lg_controls :: "learning_control list"
  lg_receipts :: "receipt_row list"
  lg_results :: "result_row list"

abbreviation lg_ledger :: "'g learning_store \<Rightarrow> 'g store" where
  "lg_ledger s \<equiv> cs_ledger (lg_control s)"

definition with_ledger :: "'g store \<Rightarrow> 'g learning_store \<Rightarrow> 'g learning_store" where
  "with_ledger l s = s\<lparr>lg_control := (lg_control s)\<lparr>cs_ledger := l\<rparr>\<rparr>"

text \<open>The stored order of a scope set (\<open>scopesJson\<close>).\<close>

definition scope_order :: "scope list \<Rightarrow> scope list" where
  "scope_order ss = sort_key (\<lambda>x. locale_key (scope_key x)) ss"

definition same_scopes :: "scope list \<Rightarrow> scope list \<Rightarrow> bool" where
  "same_scopes xs ys \<longleftrightarrow> scope_order xs = scope_order ys"

definition find_candidate :: "'g learning_store \<Rightarrow> string \<Rightarrow> learning_candidate option" where
  "find_candidate s i = List.find (\<lambda>c. ln_candidate_id c = i) (lg_candidates s)"

definition find_release :: "'g learning_store \<Rightarrow> string \<Rightarrow> release_version option" where
  "find_release s i = List.find (\<lambda>r. rl_release_id r = i) (lg_releases s)"

definition find_pointer :: "'g learning_store \<Rightarrow> string \<Rightarrow> release_pointer option" where
  "find_pointer s h = List.find (\<lambda>p. pt_slot_hash p = h) (lg_pointers s)"

definition find_control :: "'g learning_store \<Rightarrow> string \<Rightarrow> learning_control option" where
  "find_control s p = List.find (\<lambda>c. lc_principal c = p) (lg_controls s)"

definition find_receipt :: "'g learning_store \<Rightarrow> string \<Rightarrow> receipt_row option" where
  "find_receipt s i = List.find (\<lambda>r. rx_receipt_id (xr_receipt r) = i) (lg_receipts s)"

text \<open>The transition of a candidate with the highest sequence number.\<close>

definition transitions_of :: "'g learning_store \<Rightarrow> string \<Rightarrow> transition list" where
  "transitions_of s i = sort_key tn_sequence (filter (\<lambda>t. tn_candidate_id t = i) (lg_transitions s))"

definition latest_transition :: "'g learning_store \<Rightarrow> string \<Rightarrow> transition option" where
  "latest_transition s i = (case transitions_of s i of [] \<Rightarrow> None | t # ts \<Rightarrow> Some (last (t # ts)))"

definition current_candidate_state :: "'g learning_store \<Rightarrow> string \<Rightarrow> candidate_state" where
  "current_candidate_state s i = (case latest_transition s i of None \<Rightarrow> Proposed | Some t \<Rightarrow> tn_to t)"

definition fail_at :: "learning_command \<Rightarrow> failure_point \<Rightarrow> storage_error + unit" where
  "fail_at c p = guardE (lw_failure c \<noteq> Some p) Storage_unavailable"

definition assert_candidate_access ::
  "'g learning_store \<Rightarrow> string \<Rightarrow> string \<Rightarrow> scope list \<Rightarrow> storage_error + learning_candidate" where
  "assert_candidate_access s i who ss = (case find_candidate s i of
       None \<Rightarrow> Inl Invalid_input
     | Some c \<Rightarrow> if ln_principal c \<noteq> who \<or> \<not> same_scopes (ln_scopes c) ss then Inl Invalid_input else Inr c)"

subsection \<open>Traces, stops and candidates\<close>

definition insert_trace :: "learning_trace \<Rightarrow> 'g learning_store \<Rightarrow> storage_error + 'g learning_store" where
  "insert_trace t s =
     bindE (guardE (tr_trace_hash t \<notin> tr_trace_hash ` set (lg_traces s)) Constraint_violation) (\<lambda>_.
     bindE (insert_row tr_trace_id t (lg_traces s)) (\<lambda>rows. Inr (s\<lparr>lg_traces := rows\<rparr>)))"

text \<open>The trace exists and belongs to the principal and the scopes.\<close>

definition trace_accessible :: "'g learning_store \<Rightarrow> string \<Rightarrow> scope list \<Rightarrow> string \<Rightarrow> bool" where
  "trace_accessible s who ss i \<longleftrightarrow> (case List.find (\<lambda>t. tr_trace_id t = i) (lg_traces s) of
       None \<Rightarrow> False | Some t \<Rightarrow> tr_principal t = who \<and> same_scopes (tr_scopes t) ss)"

definition validate_stop :: "stop_command \<Rightarrow> 'g learning_store \<Rightarrow> storage_error + unit" where
  "validate_stop x s = (case rx_body (sw_receipt x) of
       Stop_receipt b \<Rightarrow>
         bindE (guardE (sb_principal b = sw_principal x) Invalid_input) (\<lambda>_.
         bindE (guardE (opt_ok (trace_accessible s (sw_principal x) (sw_scopes x)) (sb_trace_id b)) Invalid_input) (\<lambda>_.
         case sb_candidate_id b of
           None \<Rightarrow> Inr ()
         | Some i \<Rightarrow> bindE (assert_candidate_access s i (sw_principal x) (sw_scopes x)) (\<lambda>_. Inr ())))
     | _ \<Rightarrow> Inl Schema_invalid)"

text \<open>The target row of a memory or procedure candidate: its current revision, with the stated content.\<close>

definition target_accessible :: "learning_candidate \<Rightarrow> learning_target \<Rightarrow> 'g store \<Rightarrow> bool" where
  "target_accessible c t l \<longleftrightarrow>
     (case (find_object l (lt_memory_id t),
            List.find (\<lambda>r. revision_id r = lt_revision_id t \<and> rev_memory_id r = lt_memory_id t) (st_revisions l)) of
        (Some m, Some r) \<Rightarrow>
          obr_principal m = ln_principal c \<and> scope_key (mem_scope m) \<in> set (map scope_key (ln_scopes c))
          \<and> mem_lifecycle m \<noteq> Revoked \<and> mem_lifecycle m \<noteq> Purged \<and> current_revision_id m = Some (lt_revision_id t)
          \<and> rev_content_hash r = lt_content_hash t \<and> rev_content r \<noteq> None
      | _ \<Rightarrow> False)"

definition note_target :: "learning_candidate \<Rightarrow> 'g control_store \<Rightarrow> 'g control_store" where
  "note_target c s = (case ln_target c of
       Canonical_target t \<Rightarrow> s\<lparr>cs_learning_candidates := cs_learning_candidates s @ [(ln_candidate_id c, lt_memory_id t)]\<rparr>
     | _ \<Rightarrow> s)"

definition insert_learning_candidate ::
  "learning_candidate \<Rightarrow> 'g learning_store \<Rightarrow> storage_error + 'g learning_store" where
  "insert_learning_candidate c s =
     bindE (guardE (list_all (trace_accessible s (ln_principal c) (ln_scopes c)) (ln_trace_ids c)) Invalid_input) (\<lambda>_.
     bindE (guardE (case ln_target c of Canonical_target t \<Rightarrow> target_accessible c t (lg_ledger s) | _ \<Rightarrow> True) Invalid_input) (\<lambda>_.
     bindE (guardE (ln_candidate_hash c \<notin> ln_candidate_hash ` set (lg_candidates s)) Constraint_violation) (\<lambda>_.
     bindE (insert_row ln_candidate_id c (lg_candidates s)) (\<lambda>rows.
     Inr (s\<lparr>lg_candidates := rows, lg_control := note_target c (lg_control s)\<rparr>)))))"

subsection \<open>Transitions\<close>

definition insert_transition :: "transition \<Rightarrow> 'g learning_store \<Rightarrow> storage_error + 'g learning_store" where
  "insert_transition t s =
     (let latest = latest_transition s (tn_candidate_id t) in
      bindE (guardE (tn_sequence t = (case latest of None \<Rightarrow> 1 | Some x \<Rightarrow> tn_sequence x + 1)
        \<and> tn_from t = (case latest of None \<Rightarrow> Proposed | Some x \<Rightarrow> tn_to x)
        \<and> tn_previous_hash t = map_option tn_transition_hash latest) Conflict_with_state) (\<lambda>_.
      bindE (guardE (find_candidate s (tn_candidate_id t) \<noteq> None
        \<and> tn_transition_hash t \<notin> tn_transition_hash ` set (lg_transitions s)) Constraint_violation) (\<lambda>_.
      bindE (insert_row tn_transition_id t (lg_transitions s)) (\<lambda>rows.
      Inr (s\<lparr>lg_transitions := rows\<rparr>)))))"

definition validate_transition_receipt :: "transition \<Rightarrow> learning_receipt \<Rightarrow> storage_error + unit" where
  "validate_transition_receipt t r = (case rx_body r of
       Transition_receipt b \<Rightarrow> guardE (tb_candidate_id b = tn_candidate_id t \<and> tb_transition_id b = tn_transition_id t
         \<and> tb_sequence b = tn_sequence t \<and> tb_from b = tn_from t \<and> tb_to b = tn_to t
         \<and> tb_authority_id b = tn_authority_id t \<and> tb_control_epoch b = tn_control_epoch t
         \<and> tb_evidence_receipt_ids b = tn_evidence_receipt_ids t) Invalid_input
     | _ \<Rightarrow> Inl Schema_invalid)"

subsection \<open>Evaluations\<close>

text \<open>\<open>INSERT ... ON CONFLICT(seal_id) DO NOTHING\<close>, then the stored seal must be the one of the command.\<close>

definition insert_seal :: "partition_seal \<Rightarrow> 'g learning_store \<Rightarrow> storage_error + 'g learning_store" where
  "insert_seal x s = (case List.find (\<lambda>y. ps_seal_id y = ps_seal_id x) (lg_seals s) of
       Some y \<Rightarrow> if y = x then Inr s else Inl Conflict_with_state
     | None \<Rightarrow> if (ps_partition x, ps_manifest_hash x) \<in> (\<lambda>y. (ps_partition y, ps_manifest_hash y)) ` set (lg_seals s)
               then Inl Constraint_violation else Inr (s\<lparr>lg_seals := lg_seals s @ [x]\<rparr>))"

definition stored_results :: "'g learning_store \<Rightarrow> eval_result list" where
  "stored_results s = concat (map es_results (lg_result_sets s))"

definition insert_result_set :: "result_set \<Rightarrow> 'g learning_store \<Rightarrow> storage_error + 'g learning_store" where
  "insert_result_set x s =
     (let key = (\<lambda>y. (es_run_id y, es_case_id y, es_partition y));
          ids = map er_eval_result_id (es_results x); hs = map er_result_hash (es_results x) in
      bindE (guardE (key x \<notin> key ` set (lg_result_sets s) \<and> distinct ids \<and> distinct hs
        \<and> set ids \<inter> er_eval_result_id ` set (stored_results s) = {}
        \<and> set hs \<inter> er_result_hash ` set (stored_results s) = {}) Constraint_violation) (\<lambda>_.
      bindE (insert_row es_result_set_hash x (lg_result_sets s)) (\<lambda>rows. Inr (s\<lparr>lg_result_sets := rows\<rparr>))))"

definition insert_contamination ::
  "(jval \<Rightarrow> string) \<Rightarrow> string \<Rightarrow> contamination_event \<Rightarrow> 'g learning_store \<Rightarrow> storage_error + 'g learning_store" where
  "insert_contamination sha run x s =
     bindE (guardE (cx_run_id x = run \<and> cx_event_hash x = sha (unsealed_contamination_json x)) Invalid_input) (\<lambda>_.
     bindE (guardE (cx_event_hash x \<notin> cx_event_hash ` set (lg_contaminations s)) Constraint_violation) (\<lambda>_.
     bindE (insert_row cx_event_id x (lg_contaminations s)) (\<lambda>rows. Inr (s\<lparr>lg_contaminations := rows\<rparr>))))"

fun insert_each :: "('a \<Rightarrow> 's \<Rightarrow> storage_error + 's) \<Rightarrow> 'a list \<Rightarrow> 's \<Rightarrow> storage_error + 's" where
  "insert_each f [] s = Inr s"
| "insert_each f (x # xs) s = bindE (f x s) (insert_each f xs)"

definition insert_run_row :: "evaluation_command \<Rightarrow> 'g learning_store \<Rightarrow> storage_error + 'g learning_store" where
  "insert_run_row x s =
     (let row = \<lparr>vr_identity = ew_identity x, vr_principal = ew_principal x, vr_scopes = scope_order (ew_scopes x),
                 vr_started_at = rx_created_at (ew_receipt x)\<rparr> in
      bindE (guardE (ei_common_identity_hash (ew_identity x)
          \<notin> (\<lambda>r. ei_common_identity_hash (vr_identity r)) ` set (lg_evaluations s)) Constraint_violation) (\<lambda>_.
      bindE (insert_row (\<lambda>r. ei_run_id (vr_identity r)) row (lg_evaluations s)) (\<lambda>rows.
      Inr (s\<lparr>lg_evaluations := rows\<rparr>))))"

definition insert_evaluation ::
  "(jval \<Rightarrow> string) \<Rightarrow> evaluation_command \<Rightarrow> 'g learning_store \<Rightarrow> storage_error + 'g learning_store" where
  "insert_evaluation sha x s =
     (let e = ew_identity x in
      case rx_body (ew_receipt x) of
        Evaluation_receipt b \<Rightarrow>
          bindE (assert_candidate_access s (ei_candidate_id e) (ew_principal x) (ew_scopes x)) (\<lambda>_.
          bindE (guardE (set (map ps_partition (ew_seals x)) = {Calibration, Holdout, Transfer}
            \<and> eb_run_id b = ei_run_id e \<and> eb_candidate_id b = ei_candidate_id e
            \<and> eb_common_identity_hash b = ei_common_identity_hash e
            \<and> list_all (\<lambda>r. es_run_id r = ei_run_id e \<and> es_common_identity_hash r = ei_common_identity_hash e)
                (ew_result_sets x)) Invalid_input) (\<lambda>_.
          bindE (guardE (sort (map es_result_set_hash (ew_result_sets x)) = sort (eb_result_set_hashes b)) Invalid_input) (\<lambda>_.
          bindE (guardE (sort (map cx_event_id (ew_contaminations x)) = sort (eb_contamination_event_ids b)) Invalid_input) (\<lambda>_.
          bindE (insert_each insert_seal (ew_seals x) s) (\<lambda>s1.
          bindE (insert_run_row x s1) (\<lambda>s2.
          bindE (insert_each insert_result_set (ew_result_sets x) s2) (\<lambda>s3.
          insert_each (insert_contamination sha (ei_run_id e)) (ew_contaminations x) s3)))))))
      | _ \<Rightarrow> Inl Schema_invalid)"

subsection \<open>Canaries and monitors\<close>

text \<open>The evaluation receipt of an authorization, with its hash: \<open>EvalReceiptSchema\<close> throws on another kind.\<close>

definition stored_evaluation :: "'g learning_store \<Rightarrow> string \<Rightarrow> storage_error + (string \<times> evaluation_body) option" where
  "stored_evaluation s i = (case find_receipt s i of
       Some r \<Rightarrow> (case rx_body (xr_receipt r) of
           Evaluation_receipt b \<Rightarrow> Inr (Some (rx_receipt_hash (xr_receipt r), b)) | _ \<Rightarrow> Inl Schema_invalid)
     | None \<Rightarrow> if i \<in> (\<lambda>m. mx_receipt_id (mr_receipt m)) ` set (st_mutations (lg_ledger s)) then Inl Schema_invalid
               else Inr None)"

text \<open>The pause switch lets a run end: at its own epoch while active, or one epoch later when the pause stopped it.\<close>

definition control_allows_run :: "learning_control option \<Rightarrow> canary_run \<Rightarrow> learning_receipt \<Rightarrow> canary_body \<Rightarrow> bool" where
  "control_allows_run ctl r rx b \<longleftrightarrow> (case ctl of
       None \<Rightarrow> cu_control_epoch r = 0
     | Some c \<Rightarrow> \<not> lc_paused c \<and> lc_control_epoch c = cu_control_epoch r
         \<or> lc_paused c \<and> lc_control_epoch c = cu_control_epoch r + 1 \<and> cu_status r \<in> {Run_aborted, Run_frozen}
           \<and> \<not> cb_passed b \<and> ''LEARNING_PAUSED'' \<in> set (cb_failure_codes b)
           \<and> epoch_ms (cu_started_at r) \<le> epoch_ms (lc_changed_at c)
           \<and> epoch_ms (lc_changed_at c) \<le> epoch_ms (rx_created_at rx))"

definition canary_consistent :: "learning_command \<Rightarrow> canary_command \<Rightarrow> canary_body \<Rightarrow> bool" where
  "canary_consistent c x b \<longleftrightarrow>
     (let a = yw_authorization x; r = yw_run x; rx = yw_receipt x; t = yw_transition x in
      au_principal a = yw_principal x \<and> same_scopes (au_scopes a) (yw_scopes x)
      \<and> au_candidate_id a = cu_candidate_id r \<and> lw_idempotency_hash c = Some (au_request_hash a)
      \<and> au_authorization_id a = cu_authorization_id r \<and> au_canary_manifest_hash a = cu_manifest_hash r
      \<and> au_base_release_id a = cu_stable_release_id r \<and> au_control_epoch a = cu_control_epoch r
      \<and> iso (cu_deadline_at r) = iso (au_deadline_at a) \<and> cb_candidate_id b = cu_candidate_id r
      \<and> cb_authorization_id b = au_authorization_id a \<and> cb_authorization_hash b = au_authorization_hash a
      \<and> cb_evaluation_receipt_id b = au_evaluation_receipt_id a \<and> cb_manifest_hash b = cu_manifest_hash r
      \<and> cb_exposures b = cu_exposure_count r \<and> cb_control_epoch b = cu_control_epoch r
      \<and> lw_idempotency_hash c = Some (rx_request_hash rx) \<and> cb_passed b = (cu_status r = Run_passed)
      \<and> cu_status r \<noteq> Run_running \<and> \<not> (cu_status r = Run_passed \<and> cu_exposure_count r \<noteq> 3)
      \<and> \<not> epoch_ms (cu_started_at r) < epoch_ms (au_issued_at a)
      \<and> \<not> epoch_ms (cu_started_at r) \<ge> epoch_ms (cu_deadline_at r)
      \<and> \<not> epoch_ms (cu_deadline_at r) > epoch_ms (au_expires_at a)
      \<and> \<not> epoch_ms (rx_created_at rx) < epoch_ms (cu_started_at r)
      \<and> \<not> epoch_ms (rx_created_at rx) > epoch_ms (au_expires_at a)
      \<and> tn_candidate_id t = cu_candidate_id r \<and> tn_from t = Approved_for_canary \<and> tn_to t = In_canary
      \<and> tn_authority_id t = Some (au_authorization_id a) \<and> tn_control_epoch t = cu_control_epoch r
      \<and> iso (tn_transitioned_at t) = iso (cu_started_at r)
      \<and> au_evaluation_receipt_id a \<in> set (tn_evidence_receipt_ids t)
      \<and> rx_receipt_id rx \<in> set (tn_evidence_receipt_ids t))"

definition insert_authorization :: "canary_authorization \<Rightarrow> 'g learning_store \<Rightarrow> storage_error + 'g learning_store" where
  "insert_authorization a s =
     bindE (guardE (au_authorization_hash a \<notin> au_authorization_hash ` set (lg_authorizations s)) Constraint_violation) (\<lambda>_.
     bindE (insert_row au_authorization_id a (lg_authorizations s)) (\<lambda>rows. Inr (s\<lparr>lg_authorizations := rows\<rparr>)))"

definition insert_run :: "canary_run \<Rightarrow> 'g learning_store \<Rightarrow> storage_error + 'g learning_store" where
  "insert_run r s =
     bindE (guardE (cu_run_hash r \<notin> cu_run_hash ` set (lg_runs s)) Constraint_violation) (\<lambda>_.
     bindE (insert_row cu_run_id r (lg_runs s)) (\<lambda>rows. Inr (s\<lparr>lg_runs := rows\<rparr>)))"

definition insert_canary ::
  "learning_command \<Rightarrow> canary_command \<Rightarrow> 'g learning_store \<Rightarrow> storage_error + 'g learning_store" where
  "insert_canary c x s =
     (let a = yw_authorization x; r = yw_run x in
      case rx_body (yw_receipt x) of
        Canary_receipt b \<Rightarrow>
          bindE (assert_candidate_access s (cu_candidate_id r) (yw_principal x) (yw_scopes x)) (\<lambda>cand.
          bindE (stored_evaluation s (au_evaluation_receipt_id a)) (\<lambda>ev.
          bindE (guardE (current_candidate_state s (cu_candidate_id r) = Approved_for_canary
            \<and> ln_release_capable cand \<and> map_option rs_slot_hash (ln_slot cand) = Some (au_release_slot_hash a)
            \<and> control_allows_run (find_control s (yw_principal x)) r (yw_receipt x) b
            \<and> canary_consistent c x b
            \<and> (case ev of None \<Rightarrow> False
                 | Some (h, e) \<Rightarrow> h = au_evaluation_receipt_hash a \<and> eb_candidate_id e = cu_candidate_id r
                     \<and> eb_passed e \<and> \<not> eb_invalidated e)) Invalid_input) (\<lambda>_.
          bindE (insert_transition (yw_transition x) s) (\<lambda>s1.
          bindE (fail_at c After_transition) (\<lambda>_.
          bindE (insert_authorization a s1) (\<lambda>s2.
          bindE (fail_at c After_authorization) (\<lambda>_.
          bindE (insert_run r s2) (\<lambda>s3.
          bindE (fail_at c After_canary_run) (\<lambda>_. Inr s3)))))))))
      | _ \<Rightarrow> Inl Schema_invalid)"

definition insert_monitor :: "monitor_command \<Rightarrow> 'g learning_store \<Rightarrow> storage_error + 'g learning_store" where
  "insert_monitor x s =
     (let m = mw_monitor x in
      case rx_body (mw_receipt x) of
        Monitor_receipt b \<Rightarrow>
          (case find_release s (mo_release_id m) of None \<Rightarrow> Inl Invalid_input | Some rel \<Rightarrow>
          bindE (assert_candidate_access s (rl_candidate_id rel) (mw_principal x) (mw_scopes x)) (\<lambda>_.
          bindE (guardE ((case List.find (\<lambda>p. pt_active_release_id p = Some (mo_release_id m)) (lg_pointers s) of
                None \<Rightarrow> False | Some p \<Rightarrow> pt_revision p = mo_pointer_revision m)
            \<and> mb_release_id b = mo_release_id m \<and> mb_pointer_revision b = mo_pointer_revision m
            \<and> mb_canary_receipt_id b = mo_canary_receipt_id m \<and> mb_replayed_case_ids b = mo_replayed_case_ids m
            \<and> mb_passed b = mo_passed m \<and> mb_failure_codes b = mo_failure_codes m
            \<and> mb_rollback_required b = mo_rollback_required m) Invalid_input) (\<lambda>_.
          bindE (guardE (mo_monitor_hash m \<notin> mo_monitor_hash ` set (lg_monitors s)) Constraint_violation) (\<lambda>_.
          bindE (insert_row mo_monitor_id m (lg_monitors s)) (\<lambda>rows. Inr (s\<lparr>lg_monitors := rows\<rparr>))))))
      | _ \<Rightarrow> Inl Schema_invalid)"

subsection \<open>The frontier and the pause switch\<close>

definition control_row_json :: "learning_control \<Rightarrow> jval" where
  "control_row_json c = jobj [(''principal_id'', jstr (lc_principal c)),
     (''status'', jstr (if lc_paused c then ''paused'' else ''active'')), (''control_epoch'', jnat (lc_control_epoch c)),
     (''frontier_hash'', jstr (lc_frontier_hash c)), (''runtime_identity_hash'', jstr (lc_runtime_identity_hash c)),
     (''configuration_hash'', jstr (lc_configuration_hash c)), (''corpus_hash'', jstr (lc_corpus_hash c))]"

definition pointer_row_json :: "release_pointer \<Rightarrow> jval" where
  "pointer_row_json p = jobj [(''release_slot_hash'', jstr (pt_slot_hash p)),
     (''active_release_id'', opt_json (pt_active_release_id p)), (''pointer_revision'', jnat (pt_revision p)),
     (''pointer_hash'', jstr (pt_pointer_hash p))]"

record ledger_frontier =
  fr_control_epoch :: nat
  fr_release_revision :: nat
  fr_hash :: string

definition learning_frontier :: "(jval \<Rightarrow> string) \<Rightarrow> 'g learning_store \<Rightarrow> ledger_frontier" where
  "learning_frontier sha s =
     \<lparr>fr_control_epoch = Max (set (0 # map lc_control_epoch (lg_controls s))),
      fr_release_revision = Max (set (0 # map pt_revision (lg_pointers s))),
      fr_hash = sha (jobj [(''controls'', J_arr (map control_row_json (sort_key lc_principal (lg_controls s)))),
        (''pointers'', J_arr (map pointer_row_json (sort_key pt_slot_hash (lg_pointers s))))])\<rparr>"

definition pause_consistent :: "learning_command \<Rightarrow> pause_command \<Rightarrow> pause_body \<Rightarrow> bool" where
  "pause_consistent c x b \<longleftrightarrow>
     (let ctl = pw_control x in
      bind_tool (pw_binding x) = (if lc_paused ctl then Learning_pause else Learning_resume)
      \<and> bind_principal_id (pw_binding x) = lc_principal ctl \<and> bind_request_hash (pw_binding x) = lw_request_hash c
      \<and> rx_request_hash (pw_receipt x) = lw_request_hash c \<and> pb_principal b = lc_principal ctl
      \<and> pb_is_pause b = lc_paused ctl \<and> pb_frontier_hash b = lc_frontier_hash ctl
      \<and> pb_runtime_identity_hash b = lc_runtime_identity_hash ctl \<and> pb_configuration_hash b = lc_configuration_hash ctl
      \<and> pb_corpus_hash b = lc_corpus_hash ctl \<and> pb_resulting_epoch b = lc_control_epoch ctl)"

definition store_control :: "learning_control \<Rightarrow> 'g learning_store \<Rightarrow> 'g learning_store" where
  "store_control ctl s = (case find_control s (lc_principal ctl) of
       None \<Rightarrow> s\<lparr>lg_controls := lg_controls s @ [ctl]\<rparr>
     | Some old \<Rightarrow> s\<lparr>lg_controls := map (\<lambda>x. if lc_principal x = lc_principal ctl then ctl else x) (lg_controls s)\<rparr>)"

definition insert_control ::
  "(jval \<Rightarrow> string) \<Rightarrow> learning_command \<Rightarrow> pause_command \<Rightarrow> 'g learning_store \<Rightarrow> storage_error + 'g learning_store" where
  "insert_control sha c x s =
     (let ctl = pw_control x in
      case rx_body (pw_receipt x) of
        Pause_receipt b \<Rightarrow>
          bindE (guardE (pause_consistent c x b) Invalid_input) (\<lambda>_.
          let current = find_control s (lc_principal ctl);
              epoch = (case current of None \<Rightarrow> 0 | Some o' \<Rightarrow> lc_control_epoch o');
              frontier = fr_hash (learning_frontier sha s) in
          bindE (guardE (pw_expected_epoch x = epoch \<and> pw_expected_frontier x = frontier
            \<and> pb_previous_epoch b = epoch \<and> pb_previous_frontier_hash b = frontier
            \<and> lc_control_epoch ctl = epoch + 1
            \<and> (case current of None \<Rightarrow> True | Some o' \<Rightarrow> lc_paused o' \<noteq> lc_paused ctl)) Conflict_with_state) (\<lambda>_.
          bindE (fail_at c After_control) (\<lambda>_. Inr (store_control ctl s))))
      | _ \<Rightarrow> Inl Schema_invalid)"

subsection \<open>Releases and rollbacks\<close>

definition release_consistent :: "learning_command \<Rightarrow> release_command \<Rightarrow> learning_control option \<Rightarrow> bool" where
  "release_consistent c x ctl \<longleftrightarrow>
     (let a = rw_artifact x; d = pa_details a; b = rw_binding x; r = rw_release x; t = rw_transition x in
      (case ctl of None \<Rightarrow> 0 | Some k \<Rightarrow> lc_control_epoch k) = rw_expected_epoch x
      \<and> \<not> (\<not> rw_rollback x \<and> (case ctl of None \<Rightarrow> False | Some k \<Rightarrow> lc_paused k))
      \<and> bind_tool b = (if rw_rollback x then Learning_rollback else Learning_release)
      \<and> bind_principal_id b = rw_principal x \<and> same_scopes (bind_scopes b) (rw_scopes x)
      \<and> bind_request_hash b = lw_request_hash c \<and> rx_request_hash (rw_receipt x) = lw_request_hash c
      \<and> pa_principal a = rw_principal x \<and> same_scopes (pa_scopes a) (rw_scopes x)
      \<and> pa_request_hash a = lw_request_hash c \<and> pa_approval_id a = grant_approval_id (va_grant (rw_approval x))
      \<and> bind_learning b = Some d
      \<and> rl_slot_hash r = ld_release_slot_hash d \<and> rl_candidate_id r = ld_candidate_id d
      \<and> rl_approval_id r = pa_approval_id a \<and> rl_evaluation_receipt_id r = ld_evaluation_receipt_id d
      \<and> rl_canary_receipt_id r = ld_canary_receipt_id d \<and> tn_candidate_id t = rl_candidate_id r
      \<and> tn_authority_id t = Some (pa_approval_id a)
      \<and> ld_evaluation_receipt_id d \<in> set (tn_evidence_receipt_ids t)
      \<and> ld_canary_receipt_id d \<in> set (tn_evidence_receipt_ids t)
      \<and> tn_to t = (if rw_rollback x then Rolled_back else Released))"

fun expected_effect :: "candidate_target \<Rightarrow> release_effect option" where
  "expected_effect (Policy_target p) = Some Policy_effect"
| "expected_effect (Canonical_target t) = Some (Memory_effect t)"
| "expected_effect (Evaluation_target k i h) = None"

text \<open>The two receipts the approval cites are stored under their kinds with the hashes it states.\<close>

definition receipt_stored :: "'g learning_store \<Rightarrow> string \<Rightarrow> string \<Rightarrow> string \<Rightarrow> bool" where
  "receipt_stored s kind i h \<longleftrightarrow> (case find_receipt s i of None \<Rightarrow> False
     | Some r \<Rightarrow> receipt_kind (rx_body (xr_receipt r)) = kind \<and> rx_receipt_hash (xr_receipt r) = h)"

definition pointer_matches :: "release_command \<Rightarrow> release_pointer option \<Rightarrow> bool" where
  "pointer_matches x current \<longleftrightarrow>
     (let d = pa_details (rw_artifact x); r = rw_release x; p = rw_pointer x;
          n = (case current of None \<Rightarrow> 0 | Some q \<Rightarrow> pt_revision q);
          active = (case current of None \<Rightarrow> None | Some q \<Rightarrow> pt_active_release_id q) in
      n = rw_expected_revision x \<and> ld_expected_pointer_revision d = n \<and> pt_revision p = n + 1
      \<and> pt_slot_hash p = rl_slot_hash r \<and> ld_base_release_id d = active \<and> rl_previous_release_id r = active
      \<and> rl_restored_release_id r = ld_target_release_id d
      \<and> pt_active_release_id p = (if rw_rollback x then rl_restored_release_id r else Some (rl_release_id r)))"

definition restored_accessible :: "release_command \<Rightarrow> 'g learning_store \<Rightarrow> storage_error + unit" where
  "restored_accessible x s =
     (case (rw_rollback x, rl_restored_release_id (rw_release x)) of
        (True, Some i) \<Rightarrow>
          (case find_release s i of None \<Rightarrow> Inl Invalid_input | Some r \<Rightarrow>
             bindE (guardE (rl_slot_hash r = rl_slot_hash (rw_release x)
               \<and> rl_candidate_id r \<notin> li_candidate_id ` set (cs_invalidations (lg_control s))) Invalid_input) (\<lambda>_.
             bindE (assert_candidate_access s (rl_candidate_id r) (rw_principal x) (rw_scopes x)) (\<lambda>_. Inr ())))
      | _ \<Rightarrow> Inr ())"

definition learning_tables_of :: "'g learning_store \<Rightarrow> learning_tables" where
  "learning_tables_of s = \<lparr>ltb_release_candidate = (\<lambda>i. map_option rl_candidate_id (find_release s i)),
     ltb_candidate_target = (\<lambda>i. case find_candidate s i of
        Some c \<Rightarrow> (case ln_target c of Canonical_target t \<Rightarrow> Some t | _ \<Rightarrow> None) | None \<Rightarrow> None)\<rparr>"

definition canonical_effect ::
  "'g governance_env \<Rightarrow> release_command \<Rightarrow> 'g learning_store \<Rightarrow> storage_error + 'g learning_store" where
  "canonical_effect v x s = (case rw_effect x of
       Policy_effect \<Rightarrow> Inr s
     | Memory_effect t \<Rightarrow>
         (let r = rw_release x in
          bindE (apply_learning_release_effect v (learning_tables_of s)
            \<lparr>le_rollback = rw_rollback x, le_release_id = rl_release_id r,
             le_current_release_id = rl_previous_release_id r, le_restored_release_id = rl_restored_release_id r,
             le_candidate_id = rl_candidate_id r, le_principal = rw_principal x, le_scopes = rw_scopes x,
             le_activated_at = rl_activated_at r, le_target = t\<rparr> (lg_ledger s)) (\<lambda>(res, l).
          Inr (with_ledger l s))))"

definition release_receipt_matches :: "release_command \<Rightarrow> bool" where
  "release_receipt_matches x \<longleftrightarrow>
     (let r = rw_release x; a = rw_artifact x; p = rw_pointer x in
      case rx_body (rw_receipt x) of
        Release_receipt b \<Rightarrow> \<not> rw_rollback x \<and> xb_release_id b = rl_release_id r \<and> xb_slot_hash b = rl_slot_hash r
          \<and> xb_candidate_id b = rl_candidate_id r \<and> xb_previous_release_id b = rl_previous_release_id r
          \<and> xb_evaluation_receipt_id b = rl_evaluation_receipt_id r \<and> xb_canary_receipt_id b = rl_canary_receipt_id r
          \<and> xb_approval_id b = rl_approval_id r \<and> xb_approval_hash b = pa_approval_hash a
          \<and> xb_pointer_revision b = pt_revision p \<and> xb_control_epoch b = rw_expected_epoch x
      | Rollback_receipt b \<Rightarrow> rw_rollback x \<and> bb_release_id b = rl_release_id r
          \<and> Some (bb_rolled_back_release_id b) = rl_previous_release_id r
          \<and> bb_restored_release_id b = rl_restored_release_id r \<and> bb_approval_id b = rl_approval_id r
          \<and> bb_approval_hash b = pa_approval_hash a \<and> bb_pointer_revision b = pt_revision p
          \<and> bb_control_epoch b = rw_expected_epoch x
      | _ \<Rightarrow> False)"

text \<open>The monitor receipt a rollback may cite.\<close>

definition monitor_cited :: "release_command \<Rightarrow> 'g learning_store \<Rightarrow> bool" where
  "monitor_cited x s \<longleftrightarrow> (case rx_body (rw_receipt x) of
       Rollback_receipt b \<Rightarrow> (case bb_monitor_receipt_id b of None \<Rightarrow> True | Some i \<Rightarrow>
         (case find_receipt s i of None \<Rightarrow> False | Some row \<Rightarrow> (case rx_body (xr_receipt row) of
             Monitor_receipt m \<Rightarrow> Some (mb_release_id m) = rl_previous_release_id (rw_release x)
               \<and> i \<in> set (tn_evidence_receipt_ids (rw_transition x))
           | _ \<Rightarrow> False)))
     | _ \<Rightarrow> True)"

definition insert_release_row :: "release_version \<Rightarrow> 'g learning_store \<Rightarrow> storage_error + 'g learning_store" where
  "insert_release_row r s =
     bindE (guardE (rl_release_hash r \<notin> rl_release_hash ` set (lg_releases s)) Constraint_violation) (\<lambda>_.
     bindE (insert_row rl_release_id r (lg_releases s)) (\<lambda>rows. Inr (s\<lparr>lg_releases := rows\<rparr>)))"

text \<open>The upsert of the pointer: the update is guarded by the revision that was read.\<close>

definition store_pointer :: "release_pointer \<Rightarrow> nat \<Rightarrow> 'g learning_store \<Rightarrow> storage_error + 'g learning_store" where
  "store_pointer p expected s =
     (case find_pointer s (pt_slot_hash p) of
        None \<Rightarrow> if pt_pointer_hash p \<in> pt_pointer_hash ` set (lg_pointers s) then Inl Constraint_violation
                else Inr (s\<lparr>lg_pointers := lg_pointers s @ [p]\<rparr>)
      | Some q \<Rightarrow> if pt_revision q \<noteq> expected then Inl Conflict_with_state
                  else if pt_pointer_hash p \<in> pt_pointer_hash ` set (filter (\<lambda>x. pt_slot_hash x \<noteq> pt_slot_hash p) (lg_pointers s))
                  then Inl Constraint_violation
                  else Inr (s\<lparr>lg_pointers := map (\<lambda>x. if pt_slot_hash x = pt_slot_hash p then p else x) (lg_pointers s)\<rparr>))"

definition insert_release ::
  "'g governance_env \<Rightarrow> learning_command \<Rightarrow> release_command \<Rightarrow> 'g learning_store \<Rightarrow> storage_error + 'g learning_store" where
  "insert_release v c x s =
     (let d = pa_details (rw_artifact x); r = rw_release x in
      bindE (assert_candidate_access s (rl_candidate_id r) (rw_principal x) (rw_scopes x)) (\<lambda>cand.
      bindE (guardE (release_consistent c x (find_control s (rw_principal x))) Invalid_input) (\<lambda>_.
      bindE (guardE (expected_effect (ln_target cand) = Some (rw_effect x)) Invalid_input) (\<lambda>_.
      bindE (guardE (receipt_stored s ''evaluation'' (ld_evaluation_receipt_id d) (ld_evaluation_receipt_hash d)
        \<and> receipt_stored s ''learning_canary'' (ld_canary_receipt_id d) (ld_canary_receipt_hash d)) Invalid_input) (\<lambda>_.
      bindE (guardE (pointer_matches x (find_pointer s (rl_slot_hash r))) Conflict_with_state) (\<lambda>_.
      bindE (restored_accessible x s) (\<lambda>_.
      bindE (canonical_effect v x s) (\<lambda>s1.
      bindE (fail_at c After_canonical_effect) (\<lambda>_.
      bindE (guardE (release_receipt_matches x \<and> monitor_cited x s1) Invalid_input) (\<lambda>_.
      bindE (insert_release_row r s1) (\<lambda>s2.
      bindE (fail_at c After_release) (\<lambda>_.
      bindE (store_pointer (rw_pointer x) (rw_expected_revision x) s2) (\<lambda>s3.
      bindE (fail_at c After_pointer) (\<lambda>_.
      bindE (insert_transition (rw_transition x) s3) (\<lambda>s4.
      bindE (fail_at c After_transition) (\<lambda>_. Inr s4))))))))))))))))"

subsection \<open>Receipts and approvals\<close>

definition receipt_access :: "ledger_write \<Rightarrow> 'g learning_store \<Rightarrow> (string \<times> scope list) option" where
  "receipt_access w s = (case w of
       Write_trace t \<Rightarrow> None
     | Write_candidate k \<Rightarrow> None
     | Write_transition t r \<Rightarrow>
         map_option (\<lambda>k. (ln_principal k, scope_order (ln_scopes k))) (find_candidate s (tn_candidate_id t))
     | Write_pause x \<Rightarrow> Some (lc_principal (pw_control x), bind_scopes (pw_binding x))
     | Write_stop x \<Rightarrow> Some (sw_principal x, sw_scopes x)
     | Write_evaluation x \<Rightarrow> Some (ew_principal x, ew_scopes x)
     | Write_canary x \<Rightarrow> Some (yw_principal x, yw_scopes x)
     | Write_monitor x \<Rightarrow> Some (mw_principal x, mw_scopes x)
     | Write_release x \<Rightarrow> Some (rw_principal x, rw_scopes x))"

text \<open>\<open>mutation_receipts\<close> is shared with the governance commands, whose receipts are the mutations of the ledger.\<close>

definition insert_receipt ::
  "(jval \<Rightarrow> string) \<Rightarrow> learning_command \<Rightarrow> learning_receipt \<Rightarrow> string \<Rightarrow> nat \<Rightarrow> 'g learning_store
     \<Rightarrow> storage_error + 'g learning_store" where
  "insert_receipt sha c r aggregate epoch s =
     bindE (guardE (receipt_sealed sha r) Invalid_input) (\<lambda>_.
     (case receipt_access (lw_write c) s of None \<Rightarrow> Inl Invalid_input | Some (who, ss) \<Rightarrow>
      let ms = st_mutations (lg_ledger s) in
      bindE (guardE (rx_receipt_id r \<notin> (\<lambda>m. mx_receipt_id (mr_receipt m)) ` set ms
        \<and> rx_receipt_hash r \<notin> (\<lambda>m. mx_receipt_hash (mr_receipt m)) ` set ms \<and> lw_key c \<notin> mr_idempotency_key ` set ms
        \<and> rx_receipt_hash r \<notin> (\<lambda>x. rx_receipt_hash (xr_receipt x)) ` set (lg_receipts s)
        \<and> lw_key c \<notin> xr_key ` set (lg_receipts s) \<and> distinct ss) Constraint_violation) (\<lambda>_.
      bindE (insert_row (\<lambda>x. rx_receipt_id (xr_receipt x))
        \<lparr>xr_receipt = r, xr_key = lw_key c, xr_epoch = epoch, xr_aggregate_kind = write_kind (lw_write c),
         xr_aggregate_id = aggregate, xr_principal = who, xr_scopes = ss\<rparr> (lg_receipts s)) (\<lambda>rows.
      Inr (s\<lparr>lg_receipts := rows\<rparr>)))))"

definition approval_of :: "ledger_write \<Rightarrow> (approval_binding \<times> verified_approval) option" where
  "approval_of w = (case w of Write_pause x \<Rightarrow> Some (pw_binding x, pw_approval x)
     | Write_release x \<Rightarrow> Some (rw_binding x, rw_approval x) | _ \<Rightarrow> None)"

definition assert_approval_available ::
  "(jval \<Rightarrow> string) \<Rightarrow> approval_binding \<times> verified_approval \<Rightarrow> 'g learning_store \<Rightarrow> storage_error + unit" where
  "assert_approval_available sha x s =
     (case approval_grant_matches sha (fst x) (va_grant (snd x)) (va_verified_at (snd x)) of
        None \<Rightarrow> Inl Schema_invalid
      | Some ok \<Rightarrow> guardE (ok \<and> grant_approval_id (va_grant (snd x))
            \<notin> cn_approval_id ` set (st_consumptions (lg_ledger s))) Approval_invalid)"

definition consume_approval ::
  "(jval \<Rightarrow> string) \<Rightarrow> learning_command \<Rightarrow> string \<Rightarrow> approval_binding \<times> verified_approval \<Rightarrow> 'g learning_store
     \<Rightarrow> storage_error + 'g learning_store" where
  "consume_approval sha c receipt x s =
     bindE (assert_approval_available sha x s) (\<lambda>_.
     let row = \<lparr>cn_approval_id = grant_approval_id (va_grant (snd x)), cn_idempotency_key = lw_key c,
           cn_request_hash = lw_request_hash c, cn_manifest_hash = grant_manifest_hash (va_grant (snd x)),
           cn_principal = bind_principal_id (fst x), cn_tool = bind_tool (fst x),
           cn_scopes = scope_order (bind_scopes (fst x)), cn_consumed_at = va_verified_at (snd x),
           cn_receipt_id = receipt\<rparr>; cs = st_consumptions (lg_ledger s) in
     if cn_idempotency_key row \<in> cn_idempotency_key ` set cs \<or> cn_receipt_id row \<in> cn_receipt_id ` set cs
     then Inl Approval_invalid
     else Inr (with_ledger ((lg_ledger s)\<lparr>st_consumptions := cs @ [row]\<rparr>) s))"

subsection \<open>The transaction\<close>

text \<open>The switch of \<open>write\<close>: the effect of the command, its receipt and the aggregate it is filed under.\<close>

definition apply_write ::
  "'g governance_env \<Rightarrow> learning_command \<Rightarrow> 'g learning_store
     \<Rightarrow> storage_error + (learning_receipt option \<times> string \<times> 'g learning_store)" where
  "apply_write v c s = (let sha = env_sha v in case lw_write c of
       Write_trace t \<Rightarrow> bindE (insert_trace t s) (\<lambda>s1. Inr (None, tr_trace_id t, s1))
     | Write_stop x \<Rightarrow> bindE (validate_stop x s) (\<lambda>_. Inr (Some (sw_receipt x), sw_principal x, s))
     | Write_candidate k \<Rightarrow> bindE (insert_learning_candidate k s) (\<lambda>s1. Inr (None, ln_candidate_id k, s1))
     | Write_transition t r \<Rightarrow> bindE (insert_transition t s) (\<lambda>s1.
         case r of None \<Rightarrow> Inr (None, tn_candidate_id t, s1)
         | Some x \<Rightarrow> bindE (validate_transition_receipt t x) (\<lambda>_. Inr (Some x, tn_candidate_id t, s1)))
     | Write_evaluation x \<Rightarrow> bindE (insert_evaluation sha x s) (\<lambda>s1.
         Inr (Some (ew_receipt x), ei_run_id (ew_identity x), s1))
     | Write_canary x \<Rightarrow> bindE (insert_canary c x s) (\<lambda>s1. Inr (Some (yw_receipt x), cu_candidate_id (yw_run x), s1))
     | Write_monitor x \<Rightarrow> bindE (insert_monitor x s) (\<lambda>s1. Inr (Some (mw_receipt x), mo_release_id (mw_monitor x), s1))
     | Write_pause x \<Rightarrow> bindE (assert_approval_available sha (pw_binding x, pw_approval x) s) (\<lambda>_.
         bindE (insert_control sha c x s) (\<lambda>s1. Inr (Some (pw_receipt x), lc_principal (pw_control x), s1)))
     | Write_release x \<Rightarrow> bindE (assert_approval_available sha (rw_binding x, rw_approval x) s) (\<lambda>_.
         bindE (insert_release v c x s) (\<lambda>s1. Inr (Some (rw_receipt x), rl_release_id (rw_release x), s1))))"

definition advance_epoch :: "'g learning_store \<Rightarrow> 'g learning_store" where
  "advance_epoch s = with_ledger ((lg_ledger s)\<lparr>st_ledger_epoch := st_ledger_epoch (lg_ledger s) + 1\<rparr>) s"

definition file_receipt ::
  "(jval \<Rightarrow> string) \<Rightarrow> learning_command \<Rightarrow> learning_receipt option \<Rightarrow> string \<Rightarrow> nat \<Rightarrow> 'g learning_store
     \<Rightarrow> storage_error + 'g learning_store" where
  "file_receipt sha c r aggregate epoch s = (case r of None \<Rightarrow> Inr s
     | Some x \<Rightarrow> bindE (insert_receipt sha c x aggregate epoch s) (\<lambda>s1.
         bindE (fail_at c After_receipt) (\<lambda>_. Inr s1)))"

definition spend_approval ::
  "(jval \<Rightarrow> string) \<Rightarrow> learning_command \<Rightarrow> learning_receipt option \<Rightarrow> 'g learning_store
     \<Rightarrow> storage_error + 'g learning_store" where
  "spend_approval sha c r s = (case approval_of (lw_write c) of None \<Rightarrow> Inr s
     | Some x \<Rightarrow> bindE (consume_approval sha c (case r of None \<Rightarrow> [] | Some y \<Rightarrow> rx_receipt_id y) x s) (\<lambda>s1.
         bindE (fail_at c After_approval) (\<lambda>_. Inr s1)))"

definition ledger_effect ::
  "'g governance_env \<Rightarrow> learning_command \<Rightarrow> 'g learning_store \<Rightarrow> storage_error + (ledger_result \<times> 'g learning_store)" where
  "ledger_effect v c s =
     (let sha = env_sha v in
      bindE (fail_at c After_guard) (\<lambda>_.
      bindE (apply_write v c s) (\<lambda>(r, aggregate, s1).
      let s2 = advance_epoch s1; epoch = st_ledger_epoch (lg_ledger s2) in
      bindE (file_receipt sha c r aggregate epoch s2) (\<lambda>s3.
      bindE (spend_approval sha c r s3) (\<lambda>s4.
      let res = \<lparr>lz_kind = write_kind (lw_write c), lz_replayed = False, lz_epoch = epoch, lz_receipt = r\<rparr> in
      bindE (insert_row zr_key
        \<lparr>zr_key = lw_key c, zr_request_hash = idempotency_hash_of sha c, zr_result = res\<rparr> (lg_results s4)) (\<lambda>rows.
      bindE (fail_at c After_idempotency) (\<lambda>_. Inr (res, s4\<lparr>lg_results := rows\<rparr>))))))))"

definition read_result :: "'g learning_store \<Rightarrow> ustring \<Rightarrow> result_row option" where
  "read_result s k = List.find (\<lambda>z. zr_key z = k) (lg_results s)"

definition replay_row :: "result_row \<Rightarrow> string \<Rightarrow> storage_error + ledger_result" where
  "replay_row z h = (if zr_request_hash z \<noteq> h then Inl Conflict_with_state else Inr ((zr_result z)\<lparr>lz_replayed := True\<rparr>))"

definition replay_ledger :: "'g learning_store \<Rightarrow> ustring \<Rightarrow> string \<Rightarrow> storage_error + ledger_result option" where
  "replay_ledger s k h = (case read_result s k of None \<Rightarrow> Inr None
     | Some z \<Rightarrow> bindE (replay_row z h) (\<lambda>r. Inr (Some r)))"

text \<open>\<open>write\<close>: the checks before the transaction, and the transaction; outside it a constraint of the database
  becomes a conflict.\<close>

definition check_command :: "'g governance_env \<Rightarrow> bool \<Rightarrow> learning_command \<Rightarrow> storage_error + unit" where
  "check_command v test c =
     bindE (guardE (learning_command_ok (env_sha v) c) Schema_invalid) (\<lambda>_.
     bindE (guardE (lw_failure c = None \<or> test) Invalid_input) (\<lambda>_.
     guardE (brings_hash (lw_write c) \<or> lw_request_hash c = learning_command_hash (env_sha v) c) Invalid_input))"

definition run_ledger ::
  "'g governance_env \<Rightarrow> learning_command \<Rightarrow> 'g learning_store \<Rightarrow> (storage_error + ledger_result) \<times> 'g learning_store" where
  "run_ledger v c s = (case read_result s (lw_key c) of
       Some z \<Rightarrow> (replay_row z (idempotency_hash_of (env_sha v) c), s)
     | None \<Rightarrow> (case ledger_effect v c s of
         Inl e \<Rightarrow> (Inl (if e = Constraint_violation then Conflict_with_state else e), s)
       | Inr (r, s') \<Rightarrow> (Inr r, s')))"

definition write_ledger ::
  "'g governance_env \<Rightarrow> bool \<Rightarrow> learning_command \<Rightarrow> 'g learning_store
     \<Rightarrow> (storage_error + ledger_result) \<times> 'g learning_store" where
  "write_ledger v test c s = (case check_command v test c of Inl e \<Rightarrow> (Inl e, s) | Inr u \<Rightarrow> run_ledger v c s)"

subsection \<open>Reading\<close>

record ledger_read_input =
  lq_principal :: string
  lq_scopes :: "scope list"
  lq_trace :: "string option"
  lq_candidate :: "string option"
  lq_slot_hash :: "string option"

record candidate_state_row =
  sr_candidate_id :: string
  sr_state :: candidate_state
  sr_sequence :: nat
  sr_transition_hash :: "string option"

record ledger_view =
  lv_traces :: "learning_trace list"
  lv_candidates :: "learning_candidate list"
  lv_transitions :: "transition list"
  lv_states :: "candidate_state_row list"
  lv_identities :: "evaluation_identity list"
  lv_result_sets :: "result_set list"
  lv_contaminations :: "contamination_event list"
  lv_authorizations :: "canary_authorization list"
  lv_runs :: "canary_run list"
  lv_releases :: "release_version list"
  lv_pointers :: "release_pointer list"
  lv_monitors :: "monitor_result list"
  lv_controls :: "learning_control list"
  lv_receipts :: "learning_receipt list"
  lv_invalid :: "string list"

definition ledger_read_ok :: "ledger_read_input \<Rightarrow> bool" where
  "ledger_read_ok q \<longleftrightarrow> identifier_ok (lq_principal q) \<and> scope_set_ok (lq_scopes q)
     \<and> distinct (map scope_key (lq_scopes q)) \<and> opt_ok identifier_ok (lq_trace q)
     \<and> opt_ok identifier_ok (lq_candidate q) \<and> opt_ok canonical_hash_ok (lq_slot_hash q)"

text \<open>\<open>ORDER BY time, id\<close> over the stored text of a time.\<close>

definition by_time :: "('a \<Rightarrow> timestamp) \<Rightarrow> ('a \<Rightarrow> string) \<Rightarrow> 'a list \<Rightarrow> 'a list" where
  "by_time f i xs = sort_key (\<lambda>x. (iso (f x), i x)) xs"

definition read_candidates :: "ledger_read_input \<Rightarrow> 'g learning_store \<Rightarrow> learning_candidate list" where
  "read_candidates q s = by_time ln_proposed_at ln_candidate_id
     (filter (\<lambda>c. ln_principal c = lq_principal q \<and> same_scopes (ln_scopes c) (lq_scopes q)
        \<and> opt_ok (\<lambda>i. ln_candidate_id c = i) (lq_candidate q)
        \<and> opt_ok (\<lambda>h. map_option rs_slot_hash (ln_slot c) = Some h) (lq_slot_hash q)) (lg_candidates s))"

definition read_traces ::
  "ledger_read_input \<Rightarrow> learning_candidate list \<Rightarrow> 'g learning_store \<Rightarrow> learning_trace list" where
  "read_traces q cs s = by_time tr_captured_at tr_trace_id
     (filter (\<lambda>t. tr_principal t = lq_principal q \<and> same_scopes (tr_scopes t) (lq_scopes q)
        \<and> (case lq_trace q of Some i \<Rightarrow> tr_trace_id t = i
           | None \<Rightarrow> cs \<noteq> [] \<longrightarrow> (\<exists>c \<in> set cs. tr_trace_id t \<in> set (ln_trace_ids c)))) (lg_traces s))"

definition state_row :: "'g learning_store \<Rightarrow> string \<Rightarrow> candidate_state_row" where
  "state_row s i = (case latest_transition s i of
       None \<Rightarrow> \<lparr>sr_candidate_id = i, sr_state = Proposed, sr_sequence = 0, sr_transition_hash = None\<rparr>
     | Some t \<Rightarrow> \<lparr>sr_candidate_id = tn_candidate_id t, sr_state = tn_to t, sr_sequence = tn_sequence t,
         sr_transition_hash = Some (tn_transition_hash t)\<rparr>)"

text \<open>The receipts filed under an aggregate, in the order of their epochs; each must be intact.\<close>

definition read_receipts ::
  "(jval \<Rightarrow> string) \<Rightarrow> ledger_read_input \<Rightarrow> string list \<Rightarrow> 'g learning_store \<Rightarrow> storage_error + learning_receipt list" where
  "read_receipts sha q ids s =
     (let rows = filter (\<lambda>r. xr_principal r = lq_principal q \<and> xr_aggregate_id r \<in> set ids
           \<and> sort (map scope_key (xr_scopes r)) = sort (map scope_key (lq_scopes q))) (lg_receipts s);
          rs = map xr_receipt (sort_key (\<lambda>r. (xr_epoch r, rx_receipt_id (xr_receipt r))) rows) in
      if list_all (receipt_sealed sha) rs then Inr rs else Inl Corruption)"

definition read_evaluations :: "string list \<Rightarrow> 'g learning_store \<Rightarrow> evaluation_row list" where
  "read_evaluations ids s = by_time vr_started_at (\<lambda>r. ei_run_id (vr_identity r))
     (filter (\<lambda>r. ei_candidate_id (vr_identity r) \<in> set ids) (lg_evaluations s))"

definition read_releases :: "string list \<Rightarrow> 'g learning_store \<Rightarrow> release_version list" where
  "read_releases ids s = by_time rl_activated_at rl_release_id (filter (\<lambda>r. rl_candidate_id r \<in> set ids) (lg_releases s))"

text \<open>The slots of the candidates and of the releases.\<close>

definition read_slots :: "learning_candidate list \<Rightarrow> release_version list \<Rightarrow> string list" where
  "read_slots cs rels = concat (map (\<lambda>c. case ln_slot c of None \<Rightarrow> [] | Some z \<Rightarrow> [rs_slot_hash z]) cs) @ map rl_slot_hash rels"

definition view_of ::
  "ledger_read_input \<Rightarrow> learning_candidate list \<Rightarrow> evaluation_row list \<Rightarrow> release_version list \<Rightarrow> learning_receipt list
     \<Rightarrow> 'g learning_store \<Rightarrow> ledger_view" where
  "view_of q cs evs rels rs s =
     (let ids = map ln_candidate_id cs; runs = map (\<lambda>r. ei_run_id (vr_identity r)) evs in
      \<lparr>lv_traces = read_traces q cs s,
        lv_candidates = cs,
        lv_transitions = sort_key (\<lambda>t. (tn_candidate_id t, tn_sequence t))
          (filter (\<lambda>t. tn_candidate_id t \<in> set ids) (lg_transitions s)),
        lv_states = map (state_row s) ids,
        lv_identities = map vr_identity evs,
        lv_result_sets = sort_key (\<lambda>x. (es_run_id x, partition_string (es_partition x), es_case_id x))
          (filter (\<lambda>x. es_run_id x \<in> set runs) (lg_result_sets s)),
        lv_contaminations = by_time cx_detected_at cx_event_id
          (filter (\<lambda>x. cx_run_id x \<in> set runs) (lg_contaminations s)),
        lv_authorizations = by_time au_issued_at au_authorization_id
          (filter (\<lambda>a. au_candidate_id a \<in> set ids) (lg_authorizations s)),
        lv_runs = by_time cu_started_at cu_run_id (filter (\<lambda>r. cu_candidate_id r \<in> set ids) (lg_runs s)),
        lv_releases = rels,
        lv_pointers = sort_key pt_slot_hash (filter (\<lambda>p. pt_slot_hash p \<in> set (read_slots cs rels)) (lg_pointers s)),
        lv_monitors = by_time mo_monitored_at mo_monitor_id
          (filter (\<lambda>m. mo_release_id m \<in> set (map rl_release_id rels)) (lg_monitors s)),
        lv_controls = filter (\<lambda>c. lc_principal c = lq_principal q) (lg_controls s),
        lv_receipts = rs,
        lv_invalid = sort (remdups (filter (\<lambda>i. i \<in> set ids) (map li_candidate_id (cs_invalidations (lg_control s)))))\<rparr>)"

definition read_ledger ::
  "(jval \<Rightarrow> string) \<Rightarrow> ledger_read_input \<Rightarrow> 'g learning_store \<Rightarrow> storage_error + ledger_view" where
  "read_ledger sha q s =
     (if \<not> ledger_read_ok q then Inl Schema_invalid else
      let cs = read_candidates q s; ids = map ln_candidate_id cs;
          evs = read_evaluations ids s; rels = read_releases ids s in
      bindE (read_receipts sha q (lq_principal q # ids @ map (\<lambda>r. ei_run_id (vr_identity r)) evs @ map rl_release_id rels) s)
        (\<lambda>rs. Inr (view_of q cs evs rels rs s)))"

end
