(* ===== verification/LearningLaws.thy ===== *)
theory LearningLaws
  imports LearningLedger ControlProperties
begin

text \<open>
  What a command of the learning ledger that runs leaves behind: inversion lemmas for its steps, the tables each
  step leaves alone, and the transition, the release and the approval a command writes.
\<close>

subsection \<open>The steps\<close>

lemma fail_at_Inr [simp]: "fail_at c p = Inr u \<longleftrightarrow> lw_failure c \<noteq> Some p"
  by (simp add: fail_at_def guardE_iff)

lemmas ledger_inv = bindE_Inr_iff insert_row_Inr guardE_iff fail_at_Inr

text \<open>The transition continues what is stored of its candidate.\<close>

definition follows :: "transition option \<Rightarrow> transition \<Rightarrow> bool" where
  "follows latest t \<longleftrightarrow> tn_sequence t = (case latest of None \<Rightarrow> 1 | Some x \<Rightarrow> tn_sequence x + 1)
     \<and> tn_from t = (case latest of None \<Rightarrow> Proposed | Some x \<Rightarrow> tn_to x)
     \<and> tn_previous_hash t = map_option tn_transition_hash latest"

lemma insert_transition_Inr:
  "insert_transition t s = Inr s' \<longleftrightarrow> follows (latest_transition s (tn_candidate_id t)) t
     \<and> find_candidate s (tn_candidate_id t) \<noteq> None
     \<and> tn_transition_hash t \<notin> tn_transition_hash ` set (lg_transitions s)
     \<and> tn_transition_id t \<notin> tn_transition_id ` set (lg_transitions s)
     \<and> s' = s\<lparr>lg_transitions := lg_transitions s @ [t]\<rparr>"
  by (auto simp: insert_transition_def Let_def ledger_inv follows_def)

fun transition_of :: "ledger_write \<Rightarrow> transition option" where
  "transition_of (Write_transition t r) = Some t"
| "transition_of (Write_canary x) = Some (yw_transition x)"
| "transition_of (Write_release x) = Some (rw_transition x)"
| "transition_of w = None"

lemma with_ledger_fields [simp]:
  "lg_transitions (with_ledger l s) = lg_transitions s" "lg_candidates (with_ledger l s) = lg_candidates s"
  "lg_releases (with_ledger l s) = lg_releases s" "lg_pointers (with_ledger l s) = lg_pointers s"
  "lg_results (with_ledger l s) = lg_results s" "lg_ledger (with_ledger l s) = l"
  "lg_controls (with_ledger l s) = lg_controls s" "lg_receipts (with_ledger l s) = lg_receipts s"
  by (simp_all add: with_ledger_def)

lemma latest_transition_cong: "lg_transitions s = lg_transitions s' \<Longrightarrow> latest_transition s i = latest_transition s' i"
  by (simp add: latest_transition_def transitions_of_def)

text \<open>A step over a list that keeps a column keeps it through the whole list.\<close>

lemma insert_each_keeps:
  assumes "insert_each f xs s = Inr s'" and "\<And>x s s'. f x s = Inr s' \<Longrightarrow> g s' = g s"
  shows "g s' = g s"
  using assms(1)
proof (induction xs arbitrary: s)
  case (Cons x xs)
  then obtain s1 where "f x s = Inr s1" "insert_each f xs s1 = Inr s'" by (auto simp: ledger_inv)
  then show ?case using Cons.IH assms(2) by metis
qed simp

text \<open>The columns the evaluation tables do not share.\<close>

definition core :: "'g learning_store \<Rightarrow>
    'g control_store \<times> learning_candidate list \<times> transition list \<times> release_version list \<times> release_pointer list \<times> learning_control list
      \<times> receipt_row list \<times> result_row list" where
  "core s = (lg_control s, lg_candidates s, lg_transitions s, lg_releases s, lg_pointers s, lg_controls s, lg_receipts s, lg_results s)"

lemma insert_seal_core: "insert_seal x s = Inr s' \<Longrightarrow> core s' = core s"
  by (auto simp: insert_seal_def core_def split: option.splits if_splits)

lemma insert_result_set_core: "insert_result_set x s = Inr s' \<Longrightarrow> core s' = core s"
  by (auto simp: insert_result_set_def core_def Let_def ledger_inv)

lemma insert_contamination_core: "insert_contamination sha i x s = Inr s' \<Longrightarrow> core s' = core s"
  by (auto simp: insert_contamination_def core_def ledger_inv)

lemma insert_run_row_core: "insert_run_row x s = Inr s' \<Longrightarrow> core s' = core s"
  by (auto simp: insert_run_row_def core_def Let_def ledger_inv)

lemma insert_evaluation_core:
  assumes "insert_evaluation sha x s = Inr s'" shows "core s' = core s"
proof -
  from assms obtain s1 s2 s3 where "insert_each insert_seal (ew_seals x) s = Inr s1" "insert_run_row x s1 = Inr s2"
    "insert_each insert_result_set (ew_result_sets x) s2 = Inr s3"
    "insert_each (insert_contamination sha (ei_run_id (ew_identity x))) (ew_contaminations x) s3 = Inr s'"
    by (auto simp: insert_evaluation_def Let_def ledger_inv split: receipt_body.splits)
  then show ?thesis
    using insert_each_keeps [of insert_seal _ _ _ core] insert_each_keeps [of insert_result_set _ _ _ core]
      insert_each_keeps [of "insert_contamination sha (ei_run_id (ew_identity x))" _ _ _ core]
      insert_seal_core insert_result_set_core insert_contamination_core insert_run_row_core
    by metis
qed

lemma insert_trace_core: "insert_trace t s = Inr s' \<Longrightarrow> core s' = core s"
  by (auto simp: insert_trace_def core_def ledger_inv)

lemma insert_monitor_core: "insert_monitor x s = Inr s' \<Longrightarrow> core s' = core s"
  by (auto simp: insert_monitor_def core_def Let_def ledger_inv split: receipt_body.splits option.splits)

lemma insert_authorization_core: "insert_authorization a s = Inr s' \<Longrightarrow> core s' = core s"
  by (auto simp: insert_authorization_def core_def ledger_inv)

lemma insert_run_core: "insert_run r s = Inr s' \<Longrightarrow> core s' = core s"
  by (auto simp: insert_run_def core_def ledger_inv)

lemma note_target_ledger [simp]: "cs_ledger (note_target c s) = cs_ledger s"
  by (auto simp: note_target_def split: candidate_target.splits)

lemma insert_learning_candidate_Inr:
  "insert_learning_candidate c s = Inr s' \<Longrightarrow> ln_candidate_id c \<notin> ln_candidate_id ` set (lg_candidates s)
     \<and> s' = s\<lparr>lg_candidates := lg_candidates s @ [c], lg_control := note_target c (lg_control s)\<rparr>"
  by (auto simp: insert_learning_candidate_def ledger_inv)

lemma insert_canary_Inr:
  assumes "insert_canary c x s = Inr s'"
  obtains s1 where "insert_transition (yw_transition x) s = Inr s1" "core s' = core s1"
    "current_candidate_state s (cu_candidate_id (yw_run x)) = Approved_for_canary"
proof -
  from assms obtain s1 s2 where "insert_transition (yw_transition x) s = Inr s1"
    "insert_authorization (yw_authorization x) s1 = Inr s2" "insert_run (yw_run x) s2 = Inr s'"
    "current_candidate_state s (cu_candidate_id (yw_run x)) = Approved_for_canary"
    by (auto simp: insert_canary_def Let_def ledger_inv split: receipt_body.splits)
  moreover from this(2,3) have "core s' = core s1" by (auto dest!: insert_authorization_core insert_run_core)
  ultimately show thesis by (blast intro: that)
qed

lemma insert_control_Inr:
  assumes "insert_control sha c x s = Inr s'"
  shows "s' = store_control (pw_control x) s \<and> pw_expected_frontier x = fr_hash (learning_frontier sha s)
    \<and> lc_control_epoch (pw_control x)
        = (case find_control s (lc_principal (pw_control x)) of None \<Rightarrow> 0 | Some k \<Rightarrow> lc_control_epoch k) + 1
    \<and> (\<forall>k. find_control s (lc_principal (pw_control x)) = Some k \<longrightarrow> lc_paused k \<noteq> lc_paused (pw_control x))"
  using assms by (auto simp: insert_control_def Let_def ledger_inv split: receipt_body.splits option.splits)

lemma store_control_fields [simp]:
  "lg_control (store_control k s) = lg_control s" "lg_transitions (store_control k s) = lg_transitions s"
  "lg_releases (store_control k s) = lg_releases s" "lg_pointers (store_control k s) = lg_pointers s"
  "lg_receipts (store_control k s) = lg_receipts s" "lg_results (store_control k s) = lg_results s"
  "lg_candidates (store_control k s) = lg_candidates s"
  by (auto simp: store_control_def split: option.splits)

lemma canonical_effect_Inr:
  assumes "canonical_effect v x s = Inr s'"
  shows "\<exists>l. s' = with_ledger l s \<and> (l = lg_ledger s \<or> ledger_step v (lg_ledger s) l)
    \<and> st_mutations l = st_mutations (lg_ledger s) \<and> st_consumptions l = st_consumptions (lg_ledger s)"
proof (cases "rw_effect x")
  case Policy_effect
  then have "s' = with_ledger (lg_ledger s) s" using assms by (simp add: canonical_effect_def with_ledger_def)
  then show ?thesis by blast
next
  case (Memory_effect t)
  then obtain res l where "apply_learning_release_effect v (learning_tables_of s)
            \<lparr>le_rollback = rw_rollback x, le_release_id = rl_release_id (rw_release x),
             le_current_release_id = rl_previous_release_id (rw_release x),
             le_restored_release_id = rl_restored_release_id (rw_release x),
             le_candidate_id = rl_candidate_id (rw_release x), le_principal = rw_principal x, le_scopes = rw_scopes x,
             le_activated_at = rl_activated_at (rw_release x), le_target = t\<rparr> (lg_ledger s) = Inr (res, l)"
    and s': "s' = with_ledger l s"
    using assms by (auto simp: canonical_effect_def Let_def ledger_inv)
  then show ?thesis using ledger_step.release [of v] learning_receipts by blast
qed


lemma insert_release_row_Inr:
  "insert_release_row r s = Inr s' \<longleftrightarrow> rl_release_hash r \<notin> rl_release_hash ` set (lg_releases s)
     \<and> rl_release_id r \<notin> rl_release_id ` set (lg_releases s) \<and> s' = s\<lparr>lg_releases := lg_releases s @ [r]\<rparr>"
  by (auto simp: insert_release_row_def ledger_inv)

definition put_pointer :: "release_pointer \<Rightarrow> release_pointer list \<Rightarrow> release_pointer list" where
  "put_pointer p ps = (if pt_slot_hash p \<in> pt_slot_hash ` set ps
     then map (\<lambda>x. if pt_slot_hash x = pt_slot_hash p then p else x) ps else ps @ [p])"

lemma find_pointer_None: "find_pointer s h = None \<longleftrightarrow> h \<notin> pt_slot_hash ` set (lg_pointers s)"
  by (auto simp: find_pointer_def find_None_iff)

lemma store_pointer_Inr:
  assumes "store_pointer p n s = Inr s'"
  shows "s' = s\<lparr>lg_pointers := put_pointer p (lg_pointers s)\<rparr>
    \<and> (\<forall>q. find_pointer s (pt_slot_hash p) = Some q \<longrightarrow> pt_revision q = n)"
  using assms find_pointer_None [of s "pt_slot_hash p"]
  by (auto simp: store_pointer_def put_pointer_def split: option.splits if_splits)

lemma find_end: "List.find P (xs @ [y]) = (case List.find P xs of None \<Rightarrow> if P y then Some y else None | Some x \<Rightarrow> Some x)"
  by (induction xs) auto

lemma find_map_put:
  "List.find (\<lambda>x. pt_slot_hash x = h) (map (\<lambda>x. if pt_slot_hash x = pt_slot_hash p then p else x) ps)
     = (if h = pt_slot_hash p \<and> h \<in> pt_slot_hash ` set ps then Some p else List.find (\<lambda>x. pt_slot_hash x = h) ps)"
  by (induction ps) (auto split: if_splits)

lemma find_put_pointer:
  "List.find (\<lambda>x. pt_slot_hash x = h) (put_pointer p ps)
     = (if h = pt_slot_hash p then Some p else List.find (\<lambda>x. pt_slot_hash x = h) ps)"
proof (cases "pt_slot_hash p \<in> pt_slot_hash ` set ps")
  case True
  then show ?thesis by (simp add: put_pointer_def find_map_put)
next
  case False
  then have "h = pt_slot_hash p \<Longrightarrow> List.find (\<lambda>x. pt_slot_hash x = h) ps = None"
    by (metis (mono_tags, lifting) find_None_iff imageI)
  then show ?thesis using False by (auto simp: put_pointer_def find_end split: option.splits)
qed

text \<open>A release that runs: its row, its pointer, its transition, over the ledger its effect leaves.\<close>

lemma insert_release_Inr:
  assumes "insert_release v c x s = Inr s'"
  shows "\<exists>l. (l = lg_ledger s \<or> ledger_step v (lg_ledger s) l)
      \<and> st_mutations l = st_mutations (lg_ledger s) \<and> st_consumptions l = st_consumptions (lg_ledger s)
      \<and> s' = with_ledger l (s\<lparr>lg_releases := lg_releases s @ [rw_release x],
            lg_pointers := put_pointer (rw_pointer x) (lg_pointers s),
            lg_transitions := lg_transitions s @ [rw_transition x]\<rparr>)
      \<and> rl_release_id (rw_release x) \<notin> rl_release_id ` set (lg_releases s)
      \<and> follows (latest_transition s (tn_candidate_id (rw_transition x))) (rw_transition x)
      \<and> tn_transition_hash (rw_transition x) \<notin> tn_transition_hash ` set (lg_transitions s)
      \<and> tn_transition_id (rw_transition x) \<notin> tn_transition_id ` set (lg_transitions s)
      \<and> find_candidate s (rl_candidate_id (rw_release x)) \<noteq> None
      \<and> release_consistent c x (find_control s (rw_principal x))
      \<and> pointer_matches x (find_pointer s (rl_slot_hash (rw_release x)))
      \<and> restored_accessible x s = Inr ()
      \<and> release_receipt_matches x"
proof -
  from assms obtain s1 s2 s3 where
    c: "canonical_effect v x s = Inr s1" and r: "insert_release_row (rw_release x) s1 = Inr s2"
    and p: "store_pointer (rw_pointer x) (rw_expected_revision x) s2 = Inr s3"
    and t: "insert_transition (rw_transition x) s3 = Inr s'"
    and rest: "release_consistent c x (find_control s (rw_principal x))"
      "pointer_matches x (find_pointer s (rl_slot_hash (rw_release x)))" "restored_accessible x s = Inr ()"
      "release_receipt_matches x"
    unfolding insert_release_def Let_def by (auto simp: ledger_inv)
  from canonical_effect_Inr [OF c] obtain l where l: "s1 = with_ledger l s"
    "l = lg_ledger s \<or> ledger_step v (lg_ledger s) l"
    "st_mutations l = st_mutations (lg_ledger s)" "st_consumptions l = st_consumptions (lg_ledger s)" by blast
  from r l(1) have s2: "s2 = s1\<lparr>lg_releases := lg_releases s @ [rw_release x]\<rparr>"
    "rl_release_id (rw_release x) \<notin> rl_release_id ` set (lg_releases s)"
    by (simp_all add: insert_release_row_Inr)
  from store_pointer_Inr [OF p] s2(1) l(1) have s3: "s3 = s2\<lparr>lg_pointers := put_pointer (rw_pointer x) (lg_pointers s)\<rparr>"
    by simp
  have same: "lg_transitions s3 = lg_transitions s" "lg_candidates s3 = lg_candidates s"
    using s3 s2 l(1) by simp_all
  have cand: "tn_candidate_id (rw_transition x) = rl_candidate_id (rw_release x)"
    using rest(1) by (simp add: release_consistent_def Let_def)
  from t same have tr: "follows (latest_transition s (tn_candidate_id (rw_transition x))) (rw_transition x)"
    "tn_transition_hash (rw_transition x) \<notin> tn_transition_hash ` set (lg_transitions s)"
    "tn_transition_id (rw_transition x) \<notin> tn_transition_id ` set (lg_transitions s)"
    "find_candidate s (rl_candidate_id (rw_release x)) \<noteq> None"
    "s' = s3\<lparr>lg_transitions := lg_transitions s @ [rw_transition x]\<rparr>"
    using latest_transition_cong [OF same(1)] cand by (simp_all add: insert_transition_Inr find_candidate_def)
  have "s' = with_ledger l (s\<lparr>lg_releases := lg_releases s @ [rw_release x],
            lg_pointers := put_pointer (rw_pointer x) (lg_pointers s),
            lg_transitions := lg_transitions s @ [rw_transition x]\<rparr>)"
    using tr(5) s3 s2(1) l(1) by (simp add: with_ledger_def)
  with l(2-4) s2(2) tr(1-4) rest show ?thesis by blast
qed


subsection \<open>A command as a whole\<close>

text \<open>The transitions, releases and pointers a command writes, and the results it files.\<close>

definition writes :: "ledger_write \<Rightarrow> 'g learning_store \<Rightarrow> 'g learning_store \<Rightarrow> bool" where
  "writes w s s' \<longleftrightarrow>
     lg_transitions s' = lg_transitions s @ (case transition_of w of None \<Rightarrow> [] | Some t \<Rightarrow> [t])
     \<and> (\<forall>k. w = Write_candidate k \<longrightarrow> ln_candidate_id k \<notin> ln_candidate_id ` set (lg_candidates s))
     \<and> lg_candidates s' = lg_candidates s @ (case w of Write_candidate k \<Rightarrow> [k] | _ \<Rightarrow> [])
     \<and> (\<forall>t. transition_of w = Some t \<longrightarrow> follows (latest_transition s (tn_candidate_id t)) t
          \<and> tn_transition_hash t \<notin> tn_transition_hash ` set (lg_transitions s)
          \<and> tn_transition_id t \<notin> tn_transition_id ` set (lg_transitions s))
     \<and> lg_releases s' = lg_releases s @ (case w of Write_release x \<Rightarrow> [rw_release x] | _ \<Rightarrow> [])
     \<and> (\<forall>x. w = Write_release x \<longrightarrow> rl_release_id (rw_release x) \<notin> rl_release_id ` set (lg_releases s)
          \<and> pointer_matches x (find_pointer s (rl_slot_hash (rw_release x))) \<and> restored_accessible x s = Inr ()
          \<and> tn_candidate_id (rw_transition x) = rl_candidate_id (rw_release x)
          \<and> tn_to (rw_transition x) = (if rw_rollback x then Rolled_back else Released))
     \<and> lg_pointers s' = (case w of Write_release x \<Rightarrow> put_pointer (rw_pointer x) (lg_pointers s) | _ \<Rightarrow> lg_pointers s)
     \<and> lg_controls s' = (case w of Write_pause x \<Rightarrow> lg_controls (store_control (pw_control x) s) | _ \<Rightarrow> lg_controls s)"

lemma core_fields:
  assumes "core s' = core s"
  shows "lg_control s' = lg_control s" "lg_candidates s' = lg_candidates s" "lg_transitions s' = lg_transitions s"
    "lg_releases s' = lg_releases s" "lg_pointers s' = lg_pointers s" "lg_controls s' = lg_controls s" "lg_receipts s' = lg_receipts s"
    "lg_results s' = lg_results s"
  using assms by (simp_all add: core_def)

text \<open>The governance ledger after the effect of a command: untouched, or one release effect later.\<close>

definition ledger_effect_kept :: "'g governance_env \<Rightarrow> 'g learning_store \<Rightarrow> 'g learning_store \<Rightarrow> bool" where
  "ledger_effect_kept v s s' \<longleftrightarrow> (lg_ledger s' = lg_ledger s \<or> ledger_step v (lg_ledger s) (lg_ledger s'))
     \<and> st_mutations (lg_ledger s') = st_mutations (lg_ledger s)
     \<and> st_consumptions (lg_ledger s') = st_consumptions (lg_ledger s)
     \<and> lg_receipts s' = lg_receipts s \<and> lg_results s' = lg_results s
     \<and> cs_results (lg_control s') = cs_results (lg_control s)"

lemma kept_same: "core s' = core s \<Longrightarrow> ledger_effect_kept v s s'"
  by (auto simp: ledger_effect_kept_def dest: core_fields)

lemma note_target_results [simp]: "cs_results (note_target c s) = cs_results s"
  by (auto simp: note_target_def split: candidate_target.splits)

lemma apply_write_writes:
  assumes "apply_write v c s = Inr (r, aggregate, s')"
  shows "writes (lw_write c) s s' \<and> ledger_effect_kept v s s'"
proof (cases "lw_write c")
  case (Write_trace t)
  then show ?thesis using assms insert_trace_core [of t s s'] core_fields [of s' s] kept_same [of s' s v]
    by (auto simp: apply_write_def ledger_inv writes_def)
next
  case (Write_stop x)
  then show ?thesis using assms kept_same [of s s v] by (auto simp: apply_write_def ledger_inv writes_def)
next
  case (Write_candidate k)
  then show ?thesis using assms
    by (auto simp: apply_write_def ledger_inv writes_def ledger_effect_kept_def dest!: insert_learning_candidate_Inr)
next
  case (Write_transition t rx)
  then have "insert_transition t s = Inr s'"
    using assms by (auto simp: apply_write_def ledger_inv split: option.splits)
  then show ?thesis using Write_transition
    by (auto simp: insert_transition_Inr writes_def ledger_effect_kept_def)
next
  case (Write_evaluation x)
  then show ?thesis
    using assms insert_evaluation_core [of "env_sha v" x s s'] core_fields [of s' s] kept_same [of s' s v]
    by (auto simp: apply_write_def ledger_inv writes_def)
next
  case (Write_canary x)
  then have "insert_canary c x s = Inr s'" using assms by (auto simp: apply_write_def ledger_inv)
  then obtain s1 where "insert_transition (yw_transition x) s = Inr s1" "core s' = core s1" by (rule insert_canary_Inr)
  then show ?thesis using Write_canary core_fields [of s' s1]
    by (auto simp: insert_transition_Inr writes_def ledger_effect_kept_def)
next
  case (Write_monitor x)
  then show ?thesis using assms insert_monitor_core [of x s s'] core_fields [of s' s] kept_same [of s' s v]
    by (auto simp: apply_write_def ledger_inv writes_def)
next
  case (Write_pause x)
  then have "insert_control (env_sha v) c x s = Inr s'" using assms by (auto simp: apply_write_def Let_def ledger_inv)
  then show ?thesis using Write_pause
    by (auto simp: writes_def ledger_effect_kept_def dest!: insert_control_Inr)
next
  case (Write_release x)
  then have "insert_release v c x s = Inr s'" using assms by (auto simp: apply_write_def Let_def ledger_inv)
  from insert_release_Inr [OF this] obtain l where l: "l = lg_ledger s \<or> ledger_step v (lg_ledger s) l"
      "st_mutations l = st_mutations (lg_ledger s)" "st_consumptions l = st_consumptions (lg_ledger s)"
    and s': "s' = with_ledger l (s\<lparr>lg_releases := lg_releases s @ [rw_release x],
            lg_pointers := put_pointer (rw_pointer x) (lg_pointers s),
            lg_transitions := lg_transitions s @ [rw_transition x]\<rparr>)"
    and t: "rl_release_id (rw_release x) \<notin> rl_release_id ` set (lg_releases s)"
      "follows (latest_transition s (tn_candidate_id (rw_transition x))) (rw_transition x)"
      "tn_transition_hash (rw_transition x) \<notin> tn_transition_hash ` set (lg_transitions s)"
      "tn_transition_id (rw_transition x) \<notin> tn_transition_id ` set (lg_transitions s)"
      "pointer_matches x (find_pointer s (rl_slot_hash (rw_release x)))" "restored_accessible x s = Inr ()"
    and m: "release_consistent c x (find_control s (rw_principal x))"
    by blast
  from m have "tn_candidate_id (rw_transition x) = rl_candidate_id (rw_release x)"
    "tn_to (rw_transition x) = (if rw_rollback x then Rolled_back else Released)"
    by (simp_all add: release_consistent_def Let_def)
  then have "writes (lw_write c) s s'" using Write_release s' t by (simp add: writes_def)
  moreover have "ledger_effect_kept v s s'" using s' l by (simp add: ledger_effect_kept_def) (simp add: with_ledger_def)
  ultimately show ?thesis by blast
qed

lemma insert_receipt_Inr:
  assumes "insert_receipt sha c r aggregate epoch s = Inr s'"
  shows "\<exists>row. s' = s\<lparr>lg_receipts := lg_receipts s @ [row]\<rparr> \<and> xr_receipt row = r \<and> xr_aggregate_id row = aggregate
    \<and> xr_epoch row = epoch \<and> receipt_sealed sha r
    \<and> receipt_access (lw_write c) s = Some (xr_principal row, xr_scopes row)
    \<and> rx_receipt_id r \<notin> (\<lambda>x. rx_receipt_id (xr_receipt x)) ` set (lg_receipts s)"
  using assms by (auto simp: insert_receipt_def Let_def ledger_inv split: option.splits)

text \<open>The identifiers of the receipts are a key.\<close>

definition receipts_keyed :: "receipt_row list \<Rightarrow> bool" where
  "receipts_keyed rows \<longleftrightarrow> distinct (map (\<lambda>x. rx_receipt_id (xr_receipt x)) rows)"

lemma file_receipt_Inr:
  assumes "file_receipt sha c r aggregate epoch s = Inr s'"
  shows "\<exists>rows. s' = s\<lparr>lg_receipts := lg_receipts s @ rows\<rparr>
    \<and> (receipts_keyed (lg_receipts s) \<longrightarrow> receipts_keyed (lg_receipts s @ rows))"
proof (cases r)
  case None
  then show ?thesis using assms by (simp add: file_receipt_def exI [of _ "[]"])
next
  case (Some x)
  then have "insert_receipt sha c x aggregate epoch s = Inr s'" using assms by (auto simp: file_receipt_def ledger_inv)
  from insert_receipt_Inr [OF this] obtain row where "s' = s\<lparr>lg_receipts := lg_receipts s @ [row]\<rparr>" "xr_receipt row = x"
    "rx_receipt_id x \<notin> (\<lambda>x. rx_receipt_id (xr_receipt x)) ` set (lg_receipts s)" by blast
  then show ?thesis by (intro exI [of _ "[row]"]) (auto simp: receipts_keyed_def)
qed

lemma consume_approval_Inr:
  assumes "consume_approval sha c i x s = Inr s'"
  shows "\<exists>row. s' = with_ledger ((lg_ledger s)\<lparr>st_consumptions := st_consumptions (lg_ledger s) @ [row]\<rparr>) s
    \<and> cn_approval_id row = grant_approval_id (va_grant (snd x))
    \<and> cn_approval_id row \<notin> cn_approval_id ` set (st_consumptions (lg_ledger s))
    \<and> approval_grant_matches sha (fst x) (va_grant (snd x)) (va_verified_at (snd x)) = Some True"
  using assms
  by (auto simp: consume_approval_def assert_approval_available_def Let_def ledger_inv split: option.splits if_splits)

definition approval_id_of :: "ledger_write \<Rightarrow> string option" where
  "approval_id_of w = map_option (\<lambda>x. grant_approval_id (va_grant (snd x))) (approval_of w)"

lemma spend_approval_Inr:
  assumes "spend_approval sha c r s = Inr s'"
  shows "\<exists>cs. s' = with_ledger ((lg_ledger s)\<lparr>st_consumptions := st_consumptions (lg_ledger s) @ cs\<rparr>) s
    \<and> map cn_approval_id cs = (case approval_id_of (lw_write c) of None \<Rightarrow> [] | Some i \<Rightarrow> [i])
    \<and> (\<forall>i. approval_id_of (lw_write c) = Some i \<longrightarrow> i \<notin> cn_approval_id ` set (st_consumptions (lg_ledger s)))"
proof (cases "approval_of (lw_write c)")
  case None
  then show ?thesis using assms
    by (auto simp: spend_approval_def approval_id_of_def with_ledger_def intro!: exI [of _ "[]"])
next
  case (Some x)
  then obtain i where "consume_approval sha c i x s = Inr s'"
    using assms by (auto simp: spend_approval_def ledger_inv)
  from consume_approval_Inr [OF this] obtain row where
    "s' = with_ledger ((lg_ledger s)\<lparr>st_consumptions := st_consumptions (lg_ledger s) @ [row]\<rparr>) s"
    "cn_approval_id row = grant_approval_id (va_grant (snd x))"
    "cn_approval_id row \<notin> cn_approval_id ` set (st_consumptions (lg_ledger s))" by blast
  then show ?thesis using Some by (intro exI [of _ "[row]"]) (auto simp: approval_id_of_def)
qed

text \<open>A command that runs: its effect, the epoch, the receipt, the approval and the stored result.\<close>

lemma ledger_effect_Inr:
  assumes "ledger_effect v c s = Inr (res, s')"
  obtains r aggregate s1 rows cs where
    "apply_write v c s = Inr (r, aggregate, s1)"
    "lg_results s' = lg_results s @ [\<lparr>zr_key = lw_key c, zr_request_hash = idempotency_hash_of (env_sha v) c, zr_result = res\<rparr>]"
    "lg_receipts s' = lg_receipts s @ rows" "receipts_keyed (lg_receipts s) \<longrightarrow> receipts_keyed (lg_receipts s')"
    "lw_key c \<notin> zr_key ` set (lg_results s)"
    "lz_receipt res = r" "lz_kind res = write_kind (lw_write c)" "\<not> lz_replayed res"
    "lz_epoch res = st_ledger_epoch (lg_ledger s1) + 1" "st_ledger_epoch (lg_ledger s') = lz_epoch res"
    "writes (lw_write c) s s'"
    "st_mutations (lg_ledger s') = st_mutations (lg_ledger s)"
    "st_consumptions (lg_ledger s') = st_consumptions (lg_ledger s) @ cs"
    "map cn_approval_id cs = (case approval_id_of (lw_write c) of None \<Rightarrow> [] | Some i \<Rightarrow> [i])"
    "\<forall>i. approval_id_of (lw_write c) = Some i \<longrightarrow> i \<notin> cn_approval_id ` set (st_consumptions (lg_ledger s))"
proof -
  let ?sha = "env_sha v"
  from assms obtain r aggregate s1 s3 s4 where a: "apply_write v c s = Inr (r, aggregate, s1)"
    and f: "file_receipt ?sha c r aggregate (st_ledger_epoch (lg_ledger (advance_epoch s1))) (advance_epoch s1) = Inr s3"
    and p: "spend_approval ?sha c r s3 = Inr s4"
    and new: "lw_key c \<notin> zr_key ` set (lg_results s4)"
    and res: "res = \<lparr>lz_kind = write_kind (lw_write c), lz_replayed = False,
        lz_epoch = st_ledger_epoch (lg_ledger (advance_epoch s1)), lz_receipt = r\<rparr>"
    and s': "s' = s4\<lparr>lg_results := lg_results s4 @
        [\<lparr>zr_key = lw_key c, zr_request_hash = idempotency_hash_of ?sha c, zr_result = res\<rparr>]\<rparr>"
    unfolding ledger_effect_def Let_def by (auto simp: ledger_inv)
  from apply_write_writes [OF a] have w: "writes (lw_write c) s s1" and k: "ledger_effect_kept v s s1" by simp_all
  from file_receipt_Inr [OF f] obtain rows where s3: "s3 = (advance_epoch s1)\<lparr>lg_receipts := lg_receipts s1 @ rows\<rparr>"
    and keyed: "receipts_keyed (lg_receipts s1) \<longrightarrow> receipts_keyed (lg_receipts s1 @ rows)"
    by (auto simp: advance_epoch_def)
  from spend_approval_Inr [OF p] s3 obtain cs where
    s4: "s4 = with_ledger ((lg_ledger s3)\<lparr>st_consumptions := st_consumptions (lg_ledger s1) @ cs\<rparr>) s3"
    and cs: "map cn_approval_id cs = (case approval_id_of (lw_write c) of None \<Rightarrow> [] | Some i \<Rightarrow> [i])"
      "\<forall>i. approval_id_of (lw_write c) = Some i \<longrightarrow> i \<notin> cn_approval_id ` set (st_consumptions (lg_ledger s1))"
    by (auto simp: advance_epoch_def)
  note all = s' s4 s3 advance_epoch_def with_ledger_def
  show thesis
    by (rule that [OF a, of rows cs]) (use k w new res cs keyed in \<open>simp_all add: all ledger_effect_kept_def writes_def
        cong: option.case_cong ledger_write.case_cong\<close>)
qed

end
