(* ===== verification/LearningInvariant.thy ===== *)
theory LearningInvariant
  imports LearningLaws Interfaces
begin

text \<open>
  The learning ledger as a transition system, and its invariant: the transitions of a candidate form one legal chain,
  and the pointer of a release slot is the replay of the releases stored for the slot. Both locales of
  \<open>Interfaces\<close> are interpreted on it.
\<close>

subsection \<open>Chains of transitions\<close>

text \<open>Each transition continues the one before it, from the state, the number and the hash it left.\<close>

fun chained :: "nat \<Rightarrow> candidate_state \<Rightarrow> string option \<Rightarrow> transition list \<Rightarrow> bool" where
  "chained n st h [] \<longleftrightarrow> True"
| "chained n st h (t # ts) \<longleftrightarrow> tn_sequence t = Suc n \<and> tn_from t = st \<and> tn_previous_hash t = h
     \<and> tn_to t \<in> set (legal_transitions st) \<and> chained (Suc n) (tn_to t) (Some (tn_transition_hash t)) ts"

definition state_after :: "candidate_state \<Rightarrow> transition list \<Rightarrow> candidate_state" where
  "state_after st ts = (if ts = [] then st else tn_to (last ts))"

lemma chained_sequences: "chained n st h ts \<Longrightarrow> map tn_sequence ts = [Suc n ..< Suc (n + length ts)]"
  by (induction n st h ts rule: chained.induct) (auto simp: upt_rec)

lemma chained_sorted: "chained n st h ts \<Longrightarrow> sort_key tn_sequence ts = ts"
  by (rule sort_key_id_if_sorted) (simp add: chained_sequences del: upt_Suc)

lemma chained_end:
  assumes "chained n st h ts" and "tn_sequence t = Suc (n + length ts)" and "tn_from t = state_after st ts"
    and "tn_previous_hash t = (if ts = [] then h else Some (tn_transition_hash (last ts)))"
    and "tn_to t \<in> set (legal_transitions (tn_from t))"
  shows "chained n st h (ts @ [t])"
  using assms by (induction n st h ts rule: chained.induct) (auto simp: state_after_def split: if_splits)

text \<open>Every legal transition moves towards the end of the lifecycle.\<close>

fun stage :: "candidate_state \<Rightarrow> nat" where
  "stage Proposed = 0" | "stage Held = 1" | "stage Evaluating = 2" | "stage Approved_for_canary = 3"
| "stage In_canary = 4" | "stage Released = 5" | "stage Rolled_back = 6" | "stage Rejected = 6"

lemma stage_legal: "b \<in> set (legal_transitions a) \<Longrightarrow> stage a < stage b"
  by (cases a) auto

lemma stage_le: "stage a \<le> 6"
  by (cases a) auto

lemma chained_stages:
  "chained n st h ts \<Longrightarrow> sorted_wrt (<) (stage st # map (\<lambda>t. stage (tn_to t)) ts)"
proof (induction n st h ts rule: chained.induct)
  case (2 n st h t ts)
  then show ?case using stage_legal [of "tn_to t" st] by fastforce
qed simp

lemma chained_length: "chained n st h ts \<Longrightarrow> stage st + length ts \<le> stage (state_after st ts)"
proof (induction n st h ts rule: chained.induct)
  case (2 n st h t ts)
  then show ?case using stage_legal [of "tn_to t" st] by (auto simp: state_after_def split: if_splits)
qed (simp add: state_after_def)

subsection \<open>The log of a release slot\<close>

text \<open>What a release leaves active in its slot.\<close>

definition activates :: "release_version \<Rightarrow> string option" where
  "activates r = (if rl_is_rollback r then rl_restored_release_id r else Some (rl_release_id r))"

fun replayed :: "string option \<Rightarrow> string set \<Rightarrow> release_version list \<Rightarrow> bool" where
  "replayed a ids [] \<longleftrightarrow> True"
| "replayed a ids (r # rs) \<longleftrightarrow> rl_previous_release_id r = a
     \<and> (\<forall>i. activates r = Some i \<longrightarrow> i \<in> insert (rl_release_id r) ids)
     \<and> replayed (activates r) (insert (rl_release_id r) ids) rs"

definition active_after :: "string option \<Rightarrow> release_version list \<Rightarrow> string option" where
  "active_after a rs = (if rs = [] then a else activates (last rs))"

lemma replayed_end:
  assumes "replayed a ids rs" and "rl_previous_release_id r = active_after a rs"
    and "\<forall>i. activates r = Some i \<longrightarrow> i \<in> insert (rl_release_id r) (ids \<union> rl_release_id ` set rs)"
  shows "replayed a ids (rs @ [r])"
  using assms by (induction a ids rs rule: replayed.induct) (auto simp: active_after_def split: if_splits)

lemma replayed_active:
  "replayed a ids rs \<Longrightarrow> (\<forall>i. a = Some i \<longrightarrow> i \<in> ids) \<Longrightarrow> active_after a rs = Some i
     \<Longrightarrow> i \<in> ids \<union> rl_release_id ` set rs"
proof (induction a ids rs rule: replayed.induct)
  case (2 a ids r rs)
  then show ?case by (cases rs) (auto simp: active_after_def)
qed (simp add: active_after_def)

definition slot_log :: "'g learning_store \<Rightarrow> string \<Rightarrow> release_version list" where
  "slot_log s h = filter (\<lambda>r. rl_slot_hash r = h) (lg_releases s)"

subsection \<open>The transition system\<close>

text \<open>A step: a command of the learning ledger, or a step of the repositories that share its store.\<close>

inductive learning_step :: "'g governance_env \<Rightarrow> bool \<Rightarrow> 'g learning_store \<Rightarrow> 'g learning_store \<Rightarrow> bool" for v test where
  command: "learning_step v test s (snd (write_ledger v test c s))"
| other: "control_step v (lg_control s) k \<Longrightarrow> learning_step v test s (s\<lparr>lg_control := k\<rparr>)"

inductive_cases learning_stepE: "learning_step v test s s'"

definition learning_initial :: "'g learning_store \<Rightarrow> bool" where
  "learning_initial s \<longleftrightarrow> control_initial (lg_control s) \<and> lg_traces s = [] \<and> lg_candidates s = []
     \<and> lg_transitions s = [] \<and> lg_releases s = [] \<and> lg_pointers s = [] \<and> lg_controls s = []
     \<and> lg_receipts s = [] \<and> lg_results s = []"

definition candidate_chain :: "'g learning_store \<Rightarrow> string \<Rightarrow> transition list" where
  "candidate_chain s i = filter (\<lambda>t. tn_candidate_id t = i) (lg_transitions s)"

definition pointer_ok :: "'g learning_store \<Rightarrow> string \<Rightarrow> bool" where
  "pointer_ok s h \<longleftrightarrow> (case find_pointer s h of None \<Rightarrow> slot_log s h = []
     | Some p \<Rightarrow> slot_log s h \<noteq> [] \<and> pt_revision p = length (slot_log s h)
         \<and> pt_active_release_id p = active_after None (slot_log s h))"

text \<open>The keys of the tables that are looked up by key.\<close>

definition keyed :: "'g learning_store \<Rightarrow> bool" where
  "keyed s \<longleftrightarrow> distinct (map lc_principal (lg_controls s)) \<and> distinct (map pt_slot_hash (lg_pointers s))
     \<and> distinct (map ln_candidate_id (lg_candidates s)) \<and> receipts_keyed (lg_receipts s)"

definition learning_ok :: "(jval \<Rightarrow> string) \<Rightarrow> 'g learning_store \<Rightarrow> bool" where
  "learning_ok sha s \<longleftrightarrow> (\<forall>i. chained 0 Proposed None (candidate_chain s i))
     \<and> (\<forall>h. replayed None {} (slot_log s h) \<and> pointer_ok s h)
     \<and> distinct (map rl_release_id (lg_releases s))
     \<and> list_all (transition_ok sha) (lg_transitions s) \<and> list_all (learning_candidate_ok sha) (lg_candidates s)
     \<and> keyed s"

lemma learning_ok_same:
  assumes "lg_releases s' = lg_releases s"
  shows "slot_log s' h = slot_log s h"
    and "lg_pointers s' = lg_pointers s \<Longrightarrow> find_pointer s' h = find_pointer s h"
    and "lg_pointers s' = lg_pointers s \<Longrightarrow> pointer_ok s' h = pointer_ok s h"
  using assms by (simp_all add: slot_log_def find_pointer_def pointer_ok_def cong: option.case_cong)

lemma learning_okD:
  assumes "learning_ok sha s"
  shows "chained 0 Proposed None (candidate_chain s i)" "replayed None {} (slot_log s h)" "pointer_ok s h"
    "distinct (map rl_release_id (lg_releases s))"
    "list_all (transition_ok sha) (lg_transitions s)" "list_all (learning_candidate_ok sha) (lg_candidates s)"
    "keyed s"
  using assms by (simp_all add: learning_ok_def)

lemma transitions_of_chain:
  assumes "chained 0 Proposed None (candidate_chain s i)"
  shows "transitions_of s i = candidate_chain s i"
  using chained_sorted [OF assms] by (simp add: transitions_of_def candidate_chain_def)

lemma latest_of_chain:
  assumes "chained 0 Proposed None (candidate_chain s i)"
  shows "latest_transition s i = (if candidate_chain s i = [] then None else Some (last (candidate_chain s i)))"
  by (simp add: latest_transition_def transitions_of_chain [OF assms] split: list.splits)

lemma current_state_chain:
  assumes "chained 0 Proposed None (candidate_chain s i)"
  shows "current_candidate_state s i = state_after Proposed (candidate_chain s i)"
  by (simp add: current_candidate_state_def latest_of_chain [OF assms] state_after_def)

lemma follows_chain:
  assumes c: "chained 0 Proposed None (candidate_chain s i)" and "follows (latest_transition s i) t"
    and "tn_to t \<in> set (legal_transitions (tn_from t))"
  shows "chained 0 Proposed None (candidate_chain s i @ [t])"
proof (rule chained_end [OF c])
  have "tn_sequence (last (candidate_chain s i)) = length (candidate_chain s i)" if "candidate_chain s i \<noteq> []"
    using chained_sequences [OF c] that by (metis (no_types, lifting) add_0 last_map last_upt length_greater_0_conv
      less_Suc_eq_le diff_Suc_1 Suc_le_eq map_is_Nil_conv upt_eq_Nil_conv)
  then show "tn_sequence t = Suc (0 + length (candidate_chain s i))"
    using assms(2) by (auto simp: follows_def latest_of_chain [OF c])
  show "tn_from t = state_after Proposed (candidate_chain s i)"
    using assms(2) by (auto simp: follows_def latest_of_chain [OF c] state_after_def)
  show "tn_previous_hash t = (if candidate_chain s i = [] then None else Some (tn_transition_hash (last (candidate_chain s i))))"
    using assms(2) by (auto simp: follows_def latest_of_chain [OF c])
qed (rule assms(3))


subsection \<open>Preservation\<close>

lemma candidate_chain_add:
  "lg_transitions s' = lg_transitions s @ ts
     \<Longrightarrow> candidate_chain s' i = candidate_chain s i @ filter (\<lambda>t. tn_candidate_id t = i) ts"
  by (simp add: candidate_chain_def)

lemma write_transition_ok: "write_ok sha w \<Longrightarrow> transition_of w = Some t \<Longrightarrow> tn_to t \<in> set (legal_transitions (tn_from t))"
  by (cases w) (auto simp: transition_ok_def)

lemma writes_chain:
  assumes "\<forall>i. chained 0 Proposed None (candidate_chain s i)" and "writes w s s'" and "write_ok sha w"
  shows "chained 0 Proposed None (candidate_chain s' i)"
proof (cases "transition_of w")
  case None
  then show ?thesis using assms(1,2) by (simp add: writes_def candidate_chain_def)
next
  case (Some t)
  then have t: "lg_transitions s' = lg_transitions s @ [t]" "follows (latest_transition s (tn_candidate_id t)) t"
    using assms(2) by (simp_all add: writes_def)
  then show ?thesis
    using candidate_chain_add [OF t(1), of i] assms(1) write_transition_ok [OF assms(3) Some]
      follows_chain [of s "tn_candidate_id t" t] by (cases "tn_candidate_id t = i") auto
qed

lemma write_release_ok:
  "write_ok sha (Write_release x) \<Longrightarrow> rl_is_rollback (rw_release x) = rw_rollback x
     \<and> (\<not> rw_rollback x \<longrightarrow> rl_restored_release_id (rw_release x) = None)"
  by (auto simp: release_version_ok_def)

lemma restored_in_log:
  assumes "restored_accessible x s = Inr ()" and "rw_rollback x" and "rl_restored_release_id (rw_release x) = Some i"
  shows "i \<in> rl_release_id ` set (slot_log s (rl_slot_hash (rw_release x)))"
  using assms
  by (auto simp: restored_accessible_def slot_log_def find_release_def ledger_inv split: option.splits
    dest!: find_Some_mem)

lemma find_pointer_put:
  "lg_pointers s' = put_pointer p (lg_pointers s)
     \<Longrightarrow> find_pointer s' h = (if h = pt_slot_hash p then Some p else find_pointer s h)"
  by (simp add: find_pointer_def find_put_pointer)

lemma writes_pointers:
  assumes ok: "replayed None {} (slot_log s h)" "pointer_ok s h" and w: "writes w s s'" "write_ok sha w"
  shows "replayed None {} (slot_log s' h) \<and> pointer_ok s' h"
proof (cases "\<exists>x. w = Write_release x")
  case False
  then have "lg_releases s' = lg_releases s" "lg_pointers s' = lg_pointers s"
    using w(1) by (auto simp: writes_def split: ledger_write.splits)
  then show ?thesis using ok learning_ok_same by metis
next
  case True
  then obtain x where x: "w = Write_release x" by blast
  let ?r = "rw_release x" and ?p = "rw_pointer x"
  have rel: "lg_releases s' = lg_releases s @ [?r]" "lg_pointers s' = put_pointer ?p (lg_pointers s)"
    and m: "pointer_matches x (find_pointer s (rl_slot_hash ?r))" "restored_accessible x s = Inr ()"
    using w(1) x by (simp_all add: writes_def)
  have wr: "rl_is_rollback ?r = rw_rollback x" using write_release_ok w(2) x by blast
  have slot: "pt_slot_hash ?p = rl_slot_hash ?r" using m(1) by (simp add: pointer_matches_def Let_def)
  show ?thesis
  proof (cases "h = rl_slot_hash ?r")
    case False
    then show ?thesis
      using ok rel slot find_pointer_put [OF rel(2), of h] by (simp add: slot_log_def pointer_ok_def cong: option.case_cong)
  next
    case True
    have log: "slot_log s' h = slot_log s h @ [?r]" using rel(1) True by (simp add: slot_log_def)
    have prev: "rl_previous_release_id ?r = active_after None (slot_log s h)"
      "pt_revision ?p = Suc (length (slot_log s h))" "pt_active_release_id ?p = activates ?r"
      using m(1) ok(2) True wr
      by (auto simp: pointer_matches_def Let_def pointer_ok_def active_after_def activates_def split: option.splits)
    have "\<forall>i. activates ?r = Some i \<longrightarrow> i \<in> insert (rl_release_id ?r) ({} \<union> rl_release_id ` set (slot_log s h))"
      using restored_in_log [OF m(2)] wr True by (auto simp: activates_def)
    with replayed_end [OF ok(1)] prev(1) log have "replayed None {} (slot_log s' h)" by simp
    moreover have "pointer_ok s' h"
      using find_pointer_put [OF rel(2), of h] slot True log prev(2,3) by (simp add: pointer_ok_def active_after_def)
    ultimately show ?thesis by blast
  qed
qed

lemma put_pointer_keyed:
  assumes "distinct (map pt_slot_hash ps)"
  shows "distinct (map pt_slot_hash (put_pointer p ps))"
proof -
  have "map pt_slot_hash (map (\<lambda>x. if pt_slot_hash x = pt_slot_hash p then p else x) ps) = map pt_slot_hash ps"
    by simp
  then show ?thesis using assms by (auto simp: put_pointer_def simp del: map_map)
qed

lemma store_control_keyed:
  assumes "distinct (map lc_principal (lg_controls s))"
  shows "distinct (map lc_principal (lg_controls (store_control k s)))"
proof -
  have "map lc_principal (map (\<lambda>x. if lc_principal x = lc_principal k then k else x) (lg_controls s)) = map lc_principal (lg_controls s)"
    by simp
  then show ?thesis using assms
    by (auto simp: store_control_def find_control_def find_None_iff image_iff simp del: map_map split: option.splits)
qed

lemma writes_ok:
  assumes "learning_ok sha s" and "writes w s s'" and "write_ok sha w" and "receipts_keyed (lg_receipts s')"
  shows "learning_ok sha s'"
proof -
  have "distinct (map rl_release_id (lg_releases s'))"
    using assms(1,2) by (auto simp: learning_ok_def writes_def split: ledger_write.splits)
  moreover have "list_all (transition_ok sha) (lg_transitions s')" "list_all (learning_candidate_ok sha) (lg_candidates s')"
    using assms by (cases w; auto simp: learning_ok_def writes_def)+
  moreover have "keyed s'"
    using learning_okD(7) [OF assms(1)] assms(2,4) put_pointer_keyed store_control_keyed
    by (cases w) (auto simp: keyed_def writes_def)
  ultimately show ?thesis
    using assms writes_chain [of s w s' sha] writes_pointers [of s _ w s' sha] by (simp add: learning_ok_def)
qed

text \<open>Every outcome of a command.\<close>

lemma check_command_Inr:
  "check_command v test c = Inr u \<longleftrightarrow> learning_command_ok (env_sha v) c \<and> (lw_failure c = None \<or> test)
     \<and> (brings_hash (lw_write c) \<or> lw_request_hash c = learning_command_hash (env_sha v) c)"
  by (auto simp: check_command_def ledger_inv)

lemma run_ledger_cases:
  assumes "run_ledger v c s = (y, s')"
  obtains (failed) e where "y = Inl e" "s' = s"
  | (replayed) z where "read_result s (lw_key c) = Some z" "y = replay_row z (idempotency_hash_of (env_sha v) c)" "s' = s"
  | (ran) res where "y = Inr res" "read_result s (lw_key c) = None" "ledger_effect v c s = Inr (res, s')"
  using assms by (auto simp: run_ledger_def split: option.splits sum.splits)

lemma write_ledger_accepted: "check_command v test c = Inr u \<Longrightarrow> write_ledger v test c s = run_ledger v c s"
  by (simp add: write_ledger_def)

lemma write_ledger_cases:
  assumes "write_ledger v test c s = (y, s')"
  obtains (refused) e where "y = Inl e" "s' = s"
  | (accepted) "check_command v test c = Inr ()" "run_ledger v c s = (y, s')"
  using assms by (auto simp: write_ledger_def split: sum.splits)

lemma write_ledger_ran:
  assumes "write_ledger v test c s = (Inr r, s')"
  shows "check_command v test c = Inr () \<and> run_ledger v c s = (Inr r, s')"
  using assms by (cases rule: write_ledger_cases) auto

lemma run_ledger_ok:
  assumes "learning_ok (env_sha v) s" and "learning_command_ok (env_sha v) c" and "run_ledger v c s = (y, s')"
  shows "learning_ok (env_sha v) s'"
  using assms(3)
proof (cases rule: run_ledger_cases)
  case (ran res)
  from ran(3) have "writes (lw_write c) s s' \<and> (receipts_keyed (lg_receipts s) \<longrightarrow> receipts_keyed (lg_receipts s'))"
    by (rule ledger_effect_Inr) blast
  moreover have "write_ok (env_sha v) (lw_write c)" using assms(2) by (simp add: learning_command_ok_def)
  moreover have "receipts_keyed (lg_receipts s)" using learning_okD(7) [OF assms(1)] by (simp add: keyed_def)
  ultimately show ?thesis using writes_ok [OF assms(1)] by blast
qed (use assms(1) in simp_all)

lemma learning_ok_cong:
  "lg_transitions s' = lg_transitions s \<Longrightarrow> lg_releases s' = lg_releases s \<Longrightarrow> lg_pointers s' = lg_pointers s
     \<Longrightarrow> lg_candidates s' = lg_candidates s \<Longrightarrow> lg_controls s' = lg_controls s
     \<Longrightarrow> lg_receipts s' = lg_receipts s \<Longrightarrow> learning_ok sha s' = learning_ok sha s"
  by (simp add: learning_ok_def keyed_def candidate_chain_def learning_ok_same [of s' s])

lemma learning_initial_ok: "learning_initial s \<Longrightarrow> learning_ok sha s"
  by (simp add: learning_initial_def learning_ok_def candidate_chain_def slot_log_def pointer_ok_def find_pointer_def
    keyed_def receipts_keyed_def)

lemma learning_step_cases:
  assumes "learning_step v test s s'"
  obtains (same) "s' = s"
  | (ran) c res where "check_command v test c = Inr ()" "read_result s (lw_key c) = None"
      "ledger_effect v c s = Inr (res, s')"
  | (other) k where "control_step v (lg_control s) k" "s' = s\<lparr>lg_control := k\<rparr>"
  using assms
proof (cases rule: learning_step.cases)
  case (command c)
  then have "write_ledger v test c s = (fst (write_ledger v test c s), s')" by simp
  then show thesis
  proof (cases rule: write_ledger_cases)
    case accepted
    from accepted(2) show thesis
      by (cases rule: run_ledger_cases) (use that accepted(1) in blast)+
  qed (rule that(1))
qed (rule that(3))

lemma learning_step_ok:
  assumes "learning_ok (env_sha v) s" and "learning_step v test s s'"
  shows "learning_ok (env_sha v) s'"
  using assms(2)
proof (cases rule: learning_step_cases)
  case (ran c res)
  then have "run_ledger v c s = (Inr res, s')" by (simp add: run_ledger_def)
  with assms(1) ran(1) show ?thesis using run_ledger_ok by (metis check_command_Inr)
next
  case (other k)
  then show ?thesis using assms(1) learning_ok_cong [of s' s] by simp
qed (use assms(1) in simp)

lemma read_result_kept:
  assumes "learning_step v test s s'" and "read_result s k = Some z"
  shows "read_result s' k = Some z"
  using assms(1)
proof (cases rule: learning_step_cases)
  case (ran c res)
  from ran(3) obtain row where "lg_results s' = lg_results s @ [row]" by (rule ledger_effect_Inr) blast
  then show ?thesis using assms(2) by (simp add: read_result_def find_end)
next
  case (other k)
  then show ?thesis using assms(2) by (simp add: read_result_def)
qed (use assms(2) in simp)

lemma ledger_recording:
  assumes "run_ledger v c s = (Inr r, s')"
  shows "\<exists>z. read_result s' (lw_key c) = Some z
    \<and> replay_row z (idempotency_hash_of (env_sha v) c) = Inr (r\<lparr>lz_replayed := True\<rparr>)"
  using assms
proof (cases rule: run_ledger_cases)
  case (ran res)
  from ran(3) have "lg_results s' = lg_results s @
      [\<lparr>zr_key = lw_key c, zr_request_hash = idempotency_hash_of (env_sha v) c, zr_result = res\<rparr>]"
    by (rule ledger_effect_Inr)
  then show ?thesis using ran(1,2) by (simp add: read_result_def find_end replay_row_def)
qed (auto simp: replay_row_def split: if_splits)

interpretation learning: idempotent_command learning_initial "learning_step v test" "learning_ok (env_sha v)" "run_ledger v"
  lw_key read_result "\<lambda>c z. replay_row z (idempotency_hash_of (env_sha v) c)"
  "\<lambda>c. check_command v test c = Inr ()" "\<lambda>r. False" "\<lambda>r. r\<lparr>lz_replayed := True\<rparr>"
  for v :: "'g governance_env" and test :: bool
proof unfold_locales
  show "learning_step v test s (snd (run_ledger v c s))" if "check_command v test c = Inr ()" for c s
    using learning_step.command [of v test s c] write_ledger_accepted [OF that, of s] by simp
  show "t = s" if "run_ledger v c s = (Inl e, t)" for c s e t
    using that by (cases rule: run_ledger_cases) auto
  show "run_ledger v c s = (replay_row z (idempotency_hash_of (env_sha v) c), s)"
    if "read_result s (lw_key c) = Some z" for c s z
    using that by (simp add: run_ledger_def)
qed (blast intro: learning_initial_ok learning_step_ok read_result_kept ledger_recording)+

end
