(* ===== verification/LearningLifecycle.thy ===== *)
theory LearningLifecycle
  imports LearningInvariant
begin

text \<open>
  The lifecycle of a candidate in the learning laboratory (\<open>packages/learning-lab/src/lifecycle.ts\<close>,
  \<open>learning-stop.ts\<close>): the reducer that folds stored transitions into a state, the standalone transitions, and the
  receipt of a stop. The storage port is the learning ledger. An \<open>await\<close> on it is one operation on the store, so the
  part of a method between its reads and its write is a function of what it read.
\<close>

subsection \<open>Errors\<close>

text \<open>The codes of the error classes of the laboratory (lifecycle, evaluation, canary, release); a schema that throws;
  an error of the storage; an error of a registry or another collaborator.\<close>

datatype lab_error =
  Lab_candidate_inaccessible | Lab_transition_conflict | Lab_evaluation_ineligible | Lab_learning_paused
| Lab_control_frontier_stale | Lab_evidence_receipt_inaccessible | Lab_replay_incomplete
| Lab_candidate_not_canary | Lab_rollback_not_released | Lab_release_ineligible | Lab_approval_invalid
| Lab_pointer_conflict | Lab_configuration_widening | Lab_rollback_target_invalid
| Lab_candidate_not_approved | Lab_configuration_drift | Lab_authorization_invalid | Lab_source_incomplete
| Lab_schema_invalid | Lab_storage storage_error | Lab_collaborator string

definition stable_identifier :: "(jval \<Rightarrow> string) \<Rightarrow> string \<Rightarrow> jval \<Rightarrow> string" where
  "stable_identifier sha pre j = pre @ '':'' @ take 41 (drop 7 (sha j))"

definition from_storage :: "storage_error + 'a \<Rightarrow> lab_error + 'a" where
  "from_storage x = (case x of Inl e \<Rightarrow> Inl (Lab_storage e) | Inr y \<Rightarrow> Inr y)"

definition parsed :: "('a \<Rightarrow> bool) \<Rightarrow> 'a \<Rightarrow> lab_error + 'a" where
  "parsed ok x = (if ok x then Inr x else Inl Lab_schema_invalid)"

subsection \<open>The state of a candidate\<close>

text \<open>\<open>reduceCandidateState\<close>.\<close>

fun reduce_steps :: "candidate_state_row \<Rightarrow> transition list \<Rightarrow> lab_error + candidate_state_row" where
  "reduce_steps x [] = Inr x"
| "reduce_steps x (t # ts) =
     (if tn_sequence t \<noteq> sr_sequence x + 1 \<or> tn_from t \<noteq> sr_state x \<or> tn_previous_hash t \<noteq> sr_transition_hash x
      then Inl Lab_transition_conflict
      else reduce_steps (x\<lparr>sr_state := tn_to t, sr_sequence := tn_sequence t,
        sr_transition_hash := Some (tn_transition_hash t)\<rparr>) ts)"

definition reduce_candidate_state ::
  "(jval \<Rightarrow> string) \<Rightarrow> string \<Rightarrow> transition list \<Rightarrow> lab_error + candidate_state_row" where
  "reduce_candidate_state sha i ts =
     bindE (guardE (identifier_ok i \<and> list_all (transition_ok sha) ts) Lab_schema_invalid) (\<lambda>_.
     reduce_steps \<lparr>sr_candidate_id = i, sr_state = Proposed, sr_sequence = 0, sr_transition_hash = None\<rparr>
       (sort_key tn_sequence (filter (\<lambda>t. tn_candidate_id t = i) ts)))"

subsection \<open>Standalone transitions\<close>

record lifecycle_input =
  lf_key :: ustring
  lf_principal :: string
  lf_scopes :: "scope list"
  lf_candidate_id :: string
  lf_expected_state :: candidate_state
  lf_expected_sequence :: nat
  lf_expected_hash :: "string option"
  lf_to :: candidate_state
  lf_control_epoch :: nat
  lf_actor_id :: string
  lf_authority_id :: "string option"
  lf_evidence_receipt_ids :: "string list"
  lf_reason_code :: string
  lf_transitioned_at :: timestamp

definition lifecycle_input_ok :: "lifecycle_input \<Rightarrow> bool" where
  "lifecycle_input_ok q \<longleftrightarrow> idempotency_key_ok (lf_key q)
     \<and> list_all identifier_ok ([lf_principal q, lf_candidate_id q, lf_actor_id q] @ lf_evidence_receipt_ids q)
     \<and> scope_set_ok (lf_scopes q) \<and> opt_ok canonical_hash_ok (lf_expected_hash q)
     \<and> lf_to q \<in> {Held, Evaluating, Approved_for_canary, Rejected} \<and> opt_ok identifier_ok (lf_authority_id q)
     \<and> lf_evidence_receipt_ids q \<noteq> [] \<and> reason_code_ok (lf_reason_code q)
     \<and> unique (map scope_key (lf_scopes q)) \<and> unique (lf_evidence_receipt_ids q)"

definition lifecycle_input_json :: "lifecycle_input \<Rightarrow> jval" where
  "lifecycle_input_json q = jobj
     [(''schema_version'', jstr ''1.0.0''), (''idempotency_key'', J_str (lf_key q)),
      (''principal_id'', jstr (lf_principal q)), (''scopes'', scopes_json (lf_scopes q)),
      (''candidate_id'', jstr (lf_candidate_id q)),
      (''expected_state'', jstr (candidate_state_string (lf_expected_state q))),
      (''expected_sequence'', jnat (lf_expected_sequence q)),
      (''expected_previous_transition_hash'', opt_json (lf_expected_hash q)),
      (''to_state'', jstr (candidate_state_string (lf_to q))), (''control_epoch'', jnat (lf_control_epoch q)),
      (''actor_id'', jstr (lf_actor_id q)), (''authority_id'', opt_json (lf_authority_id q)),
      (''evidence_receipt_ids'', jstrs (lf_evidence_receipt_ids q)), (''reason_code'', jstr (lf_reason_code q)),
      (''transitioned_at'', time_json (lf_transitioned_at q))]"

text \<open>The request with its scopes in order, and the hash that identifies it.\<close>

definition lifecycle_request :: "lifecycle_input \<Rightarrow> lifecycle_input" where
  "lifecycle_request q = q\<lparr>lf_scopes := scope_order (lf_scopes q)\<rparr>"

definition lifecycle_hash :: "(jval \<Rightarrow> string) \<Rightarrow> lifecycle_input \<Rightarrow> string" where
  "lifecycle_hash sha q = sha (lifecycle_input_json (lifecycle_request q))"

record lifecycle_result =
  fr_transition :: transition
  fr_receipt :: learning_receipt
  fr_replayed :: bool

definition lifecycle_query :: "lifecycle_input \<Rightarrow> ledger_read_input" where
  "lifecycle_query q = \<lparr>lq_principal = lf_principal q, lq_scopes = scope_order (lf_scopes q), lq_trace = None,
     lq_candidate = Some (lf_candidate_id q), lq_slot_hash = None\<rparr>"

text \<open>What a key that is already recorded is answered with.\<close>

definition lifecycle_replay :: "lifecycle_input \<Rightarrow> ledger_view \<Rightarrow> lab_error + lifecycle_result" where
  "lifecycle_replay q w =
     (case List.find (\<lambda>t. tn_idempotency_key t = lf_key q) (lv_transitions w) of
        None \<Rightarrow> Inl Lab_replay_incomplete
      | Some t \<Rightarrow>
          (case List.find (\<lambda>r. case rx_body r of Transition_receipt b \<Rightarrow> tb_transition_id b = tn_transition_id t
               | _ \<Rightarrow> False) (lv_receipts w) of
             None \<Rightarrow> Inl Lab_replay_incomplete
           | Some r \<Rightarrow> Inr \<lparr>fr_transition = t, fr_receipt = r, fr_replayed = True\<rparr>))"

definition control_of :: "ledger_view \<Rightarrow> learning_control option" where
  "control_of w = (if lv_controls w = [] then None else Some (last (lv_controls w)))"

definition epoch_of :: "learning_control option \<Rightarrow> nat" where
  "epoch_of c = (case c of None \<Rightarrow> 0 | Some k \<Rightarrow> lc_control_epoch k)"

definition paused_now :: "learning_control option \<Rightarrow> bool" where
  "paused_now c \<longleftrightarrow> (case c of None \<Rightarrow> False | Some k \<Rightarrow> lc_paused k)"

definition find_viewed :: "ledger_view \<Rightarrow> string \<Rightarrow> learning_candidate option" where
  "find_viewed w i = List.find (\<lambda>c. ln_candidate_id c = i) (lv_candidates w)"

text \<open>The candidate is visible and its target has not been invalidated.\<close>

definition accessible_candidate :: "ledger_view \<Rightarrow> string \<Rightarrow> lab_error + learning_candidate" where
  "accessible_candidate w i = (case find_viewed w i of
       None \<Rightarrow> Inl Lab_candidate_inaccessible
     | Some c \<Rightarrow> if i \<in> set (lv_invalid w) then Inl Lab_candidate_inaccessible else Inr c)"

text \<open>A receipt of an evaluation the candidate passed.\<close>

definition passed_evaluation :: "string \<Rightarrow> learning_receipt \<Rightarrow> bool" where
  "passed_evaluation i r \<longleftrightarrow> (case rx_body r of
       Evaluation_receipt b \<Rightarrow> eb_candidate_id b = i \<and> eb_passed b \<and> \<not> eb_invalidated b | _ \<Rightarrow> False)"

definition new_transition :: "(jval \<Rightarrow> string) \<Rightarrow> lifecycle_input \<Rightarrow> candidate_state_row \<Rightarrow> transition" where
  "new_transition sha q x =
     (let t = \<lparr>tn_transition_id = stable_identifier sha ''transition'' (jobj
           [(''candidate_id'', jstr (lf_candidate_id q)), (''sequence'', jnat (sr_sequence x + 1)),
            (''idempotency_key'', J_str (lf_key q))]),
         tn_candidate_id = lf_candidate_id q, tn_sequence = sr_sequence x + 1, tn_from = sr_state x, tn_to = lf_to q,
         tn_previous_hash = sr_transition_hash x, tn_control_epoch = lf_control_epoch q, tn_actor_id = lf_actor_id q,
         tn_authority_id = lf_authority_id q, tn_reason_code = lf_reason_code q,
         tn_evidence_receipt_ids = lf_evidence_receipt_ids q, tn_idempotency_key = lf_key q,
         tn_transitioned_at = lf_transitioned_at q, tn_transition_hash = []\<rparr>
      in t\<lparr>tn_transition_hash := sha (unsealed_transition_json t)\<rparr>)"

definition transition_receipt_of :: "(jval \<Rightarrow> string) \<Rightarrow> string \<Rightarrow> transition \<Rightarrow> learning_receipt" where
  "transition_receipt_of sha h t = seal_learning_receipt sha
     \<lparr>rx_receipt_id = stable_identifier sha ''transition-receipt'' (jobj
        [(''transition_id'', jstr (tn_transition_id t)), (''transition_hash'', jstr (tn_transition_hash t))]),
      rx_created_at = tn_transitioned_at t, rx_state = Rs_durable, rx_request_hash = h, rx_receipt_hash = [],
      rx_body = Transition_receipt \<lparr>tb_candidate_id = tn_candidate_id t, tb_transition_id = tn_transition_id t,
        tb_sequence = tn_sequence t, tb_from = tn_from t, tb_to = tn_to t, tb_authority_id = tn_authority_id t,
        tb_evidence_receipt_ids = tn_evidence_receipt_ids t, tb_control_epoch = tn_control_epoch t\<rparr>\<rparr>"

text \<open>From what was read to the transition and its receipt.\<close>

definition lifecycle_plan ::
  "(jval \<Rightarrow> string) \<Rightarrow> lifecycle_input \<Rightarrow> ledger_view \<Rightarrow> lab_error + (transition \<times> learning_receipt)" where
  "lifecycle_plan sha q w =
     bindE (accessible_candidate w (lf_candidate_id q)) (\<lambda>c.
     bindE (reduce_candidate_state sha (lf_candidate_id q) (lv_transitions w)) (\<lambda>x.
     bindE (guardE (sr_state x = lf_expected_state q \<and> sr_sequence x = lf_expected_sequence q
       \<and> sr_transition_hash x = lf_expected_hash q) Lab_transition_conflict) (\<lambda>_.
     bindE (guardE (\<not> paused_now (control_of w)) Lab_learning_paused) (\<lambda>_.
     bindE (guardE (epoch_of (control_of w) = lf_control_epoch q) Lab_control_frontier_stale) (\<lambda>_.
     let rs = filter (\<lambda>r. rx_receipt_id r \<in> set (lf_evidence_receipt_ids q)) (lv_receipts w) in
     bindE (guardE (length rs = length (lf_evidence_receipt_ids q)) Lab_evidence_receipt_inaccessible) (\<lambda>_.
     bindE (guardE (lf_to q = Approved_for_canary \<longrightarrow> ln_release_capable c \<and> ln_slot c \<noteq> None
       \<and> list_ex (passed_evaluation (ln_candidate_id c)) rs) Lab_evaluation_ineligible) (\<lambda>_.
     bindE (parsed (transition_ok sha) (new_transition sha q x)) (\<lambda>t.
     bindE (parsed (receipt_is ''learning_transition'' sha) (transition_receipt_of sha (lifecycle_hash sha q) t)) (\<lambda>r.
     Inr (t, r))))))))))"

text \<open>A command whose request hash is the one the repository recomputes.\<close>

definition hashed_command :: "(jval \<Rightarrow> string) \<Rightarrow> ustring \<Rightarrow> string \<Rightarrow> ledger_write \<Rightarrow> learning_command" where
  "hashed_command sha k h w =
     (let c = \<lparr>lw_key = k, lw_idempotency_hash = Some h, lw_request_hash = [], lw_failure = None, lw_write = w\<rparr>
      in c\<lparr>lw_request_hash := request_hash_of sha c\<rparr>)"

definition lifecycle_command :: "(jval \<Rightarrow> string) \<Rightarrow> lifecycle_input \<Rightarrow> transition \<times> learning_receipt \<Rightarrow> learning_command" where
  "lifecycle_command sha q x =
     hashed_command sha (lf_key q) (lifecycle_hash sha q) (Write_transition (fst x) (Some (snd x)))"

definition lifecycle_transition ::
  "'g governance_env \<Rightarrow> bool \<Rightarrow> lifecycle_input \<Rightarrow> 'g learning_store
     \<Rightarrow> (lab_error + lifecycle_result) \<times> 'g learning_store" where
  "lifecycle_transition v test q s =
     (let sha = env_sha v in
      if \<not> lifecycle_input_ok q then (Inl Lab_schema_invalid, s) else
      case replay_ledger s (lf_key q) (lifecycle_hash sha q) of
        Inl e \<Rightarrow> (Inl (Lab_storage e), s)
      | Inr (Some z) \<Rightarrow>
          (if lz_kind z \<noteq> ''transition'' then Inl Lab_replay_incomplete
           else bindE (from_storage (read_ledger sha (lifecycle_query q) s)) (lifecycle_replay q), s)
      | Inr None \<Rightarrow>
          (case bindE (from_storage (read_ledger sha (lifecycle_query q) s)) (lifecycle_plan sha q) of
             Inl e \<Rightarrow> (Inl e, s)
           | Inr x \<Rightarrow>
               (case write_ledger v test (lifecycle_command sha q x) s of
                  (Inl e, s') \<Rightarrow> (Inl (Lab_storage e), s')
                | (Inr res, s') \<Rightarrow> (Inr \<lparr>fr_transition = fst x, fr_receipt = snd x, fr_replayed = False\<rparr>, s'))))"

subsection \<open>Stops\<close>

record stop_options =
  so_key :: ustring
  so_idempotency_hash :: string
  so_principal :: string
  so_scopes :: "scope list"
  so_control_epoch :: nat
  so_reason_code :: string
  so_created_at :: timestamp
  so_request_identity :: jval
  so_feedback :: "learning_feedback option"

definition stop_receipt_of :: "(jval \<Rightarrow> string) \<Rightarrow> stop_options \<Rightarrow> learning_receipt" where
  "stop_receipt_of sha x = seal_learning_receipt sha
     \<lparr>rx_receipt_id = stable_identifier sha ''learning-stop'' (jobj
        [(''idempotency_key'', J_str (so_key x)), (''principal_id'', jstr (so_principal x)),
         (''reason_code'', jstr (so_reason_code x))]),
      rx_created_at = so_created_at x, rx_state = Rs_durable, rx_request_hash = sha (so_request_identity x),
      rx_receipt_hash = [],
      rx_body = Stop_receipt \<lparr>sb_principal = so_principal x, sb_trace_id = None, sb_candidate_id = None,
        sb_control_epoch = so_control_epoch x, sb_reason_code = so_reason_code x, sb_feedback = so_feedback x\<rparr>\<rparr>"

text \<open>\<open>persistLearningStop\<close>: the receipt the ledger answers with must be a stop receipt.\<close>

definition persist_learning_stop ::
  "'g governance_env \<Rightarrow> bool \<Rightarrow> stop_options \<Rightarrow> 'g learning_store
     \<Rightarrow> (lab_error + (learning_receipt \<times> bool)) \<times> 'g learning_store" where
  "persist_learning_stop v test x s =
     (let sha = env_sha v; r = stop_receipt_of sha x in
      if \<not> receipt_is ''learning_stop'' sha r then (Inl Lab_schema_invalid, s) else
      case write_ledger v test (hashed_command sha (so_key x) (so_idempotency_hash x)
          (Write_stop \<lparr>sw_principal = so_principal x, sw_scopes = so_scopes x, sw_receipt = r\<rparr>)) s of
        (Inl e, s') \<Rightarrow> (Inl (Lab_storage e), s')
      | (Inr res, s') \<Rightarrow>
          ((case lz_receipt res of None \<Rightarrow> Inl Lab_schema_invalid
            | Some y \<Rightarrow> if receipt_is ''learning_stop'' sha y then Inr (y, lz_replayed res) else Inl Lab_schema_invalid), s'))"

end
