(* ===== verification/LearningSamples.thy ===== *)
theory LearningSamples
  imports LearningLifecycle
begin

text \<open>
  Concrete ledgers and commands on which the properties of the learning ledger are applied.
\<close>

subsection \<open>An empty ledger and its pause switch\<close>

definition empty_learning :: "unit learning_store" where
  "empty_learning = \<lparr>lg_control = \<lparr>cs_ledger = sample_ledger User_stated, cs_pins = [], cs_usage = [],
       cs_learning_candidates = [], cs_invalidations = [], cs_results = []\<rparr>,
     lg_traces = [], lg_candidates = [], lg_transitions = [], lg_seals = [], lg_evaluations = [], lg_result_sets = [],
     lg_contaminations = [], lg_authorizations = [], lg_runs = [], lg_releases = [], lg_pointers = [], lg_monitors = [],
     lg_controls = [], lg_receipts = [], lg_results = []\<rparr>"

definition sample_key :: "nat \<Rightarrow> ustring" where
  "sample_key k = [107, 101, 121, 45, 48, 48, 48, k]"

lemma sample_key_ok [simp]: "idempotency_key_ok (sample_key 49)" "idempotency_key_ok (sample_key 50)"
  "idempotency_key_ok (sample_key 51)" "sample_key j = sample_key k \<longleftrightarrow> j = k"
  by (simp_all add: sample_key_def idempotency_key_ok_def request_ok_defs)

definition pause_control :: learning_control where
  "pause_control = \<lparr>lc_principal = ''u'', lc_paused = True, lc_control_epoch = 1, lc_reason_code = ''OPERATOR_PAUSE'',
     lc_actor_id = ''u'', lc_changed_at = sample_now, lc_frontier_hash = sample_hash,
     lc_runtime_identity_hash = sample_hash, lc_configuration_hash = sample_hash, lc_corpus_hash = sample_hash\<rparr>"

definition pause_receipt :: learning_receipt where
  "pause_receipt = \<lparr>rx_receipt_id = ''pause-receipt'', rx_created_at = sample_now, rx_state = Rs_durable,
     rx_request_hash = sample_hash, rx_receipt_hash = sample_hash,
     rx_body = Pause_receipt \<lparr>pb_principal = ''u'', pb_is_pause = True, pb_previous_epoch = 0, pb_resulting_epoch = 1,
       pb_previous_frontier_hash = sample_hash, pb_frontier_hash = sample_hash, pb_runtime_identity_hash = sample_hash,
       pb_configuration_hash = sample_hash, pb_corpus_hash = sample_hash, pb_reason_code = ''OPERATOR_PAUSE''\<rparr>\<rparr>"

definition pause_binding :: approval_binding where
  "pause_binding = \<lparr>bind_approval_id = ''a1'', bind_principal_id = ''u'', bind_tool = Learning_pause,
     bind_safety_class = Important_mutation, bind_scopes = [sample_where], bind_request_hash = sample_hash,
     bind_learning = None\<rparr>"

definition pause_approval :: verified_approval where
  "pause_approval = sample_approval\<lparr>va_grant := (va_grant sample_approval)\<lparr>grant_tool := Learning_pause\<rparr>\<rparr>"

definition sample_pause :: "nat \<Rightarrow> learning_command" where
  "sample_pause k = \<lparr>lw_key = sample_key k, lw_idempotency_hash = None, lw_request_hash = sample_hash, lw_failure = None,
     lw_write = Write_pause \<lparr>pw_expected_epoch = 0, pw_expected_frontier = sample_hash, pw_control = pause_control,
       pw_receipt = pause_receipt, pw_binding = pause_binding, pw_approval = pause_approval\<rparr>\<rparr>"

lemma sample_pause_checks: "k \<in> {49, 50} \<Longrightarrow> check_command sample_env test (sample_pause k) = Inr ()"
  by (auto simp: check_command_def learning_command_ok_def sample_pause_def pause_control_def pause_receipt_def
    pause_binding_def pause_approval_def sample_approval_def learning_control_ok_def receipt_is_def learning_receipt_ok_def
    approval_binding_ok_def verified_approval_ok_def approval_grant_ok_def learning_matches_tool_def sample_where_def
    opt_ok_def brings_hash_def reason_code_ok_def code_points_def request_ok_defs)


lemma empty_learning_initial: "learning_initial empty_learning"
  by (simp add: learning_initial_def empty_learning_def control_initial_def ledger_initial_def sample_ledger_def)

text \<open>The pause is written once.\<close>

definition paused_learning :: "nat \<Rightarrow> unit learning_store" where
  "paused_learning k = snd (write_ledger sample_env False (sample_pause k) empty_learning)"

definition pause_result :: ledger_result where
  "pause_result = \<lparr>lz_kind = ''control'', lz_replayed = False, lz_epoch = 1, lz_receipt = Some pause_receipt\<rparr>"

lemma pause_accepted: "assert_approval_available (env_sha sample_env) (pause_binding, pause_approval) empty_learning = Inr ()"
  by (simp add: assert_approval_available_def approval_grant_matches_def pause_binding_def pause_approval_def
    sample_approval_def empty_learning_def sample_ledger_def approval_binding_ok_def approval_grant_ok_def
    learning_matches_tool_def sample_where_def request_ok_defs)

lemmas pause_run_simps = write_ledger_def run_ledger_def ledger_effect_def apply_write_def insert_control_def pause_consistent_def
  read_result_def file_receipt_def insert_receipt_def receipt_access_def receipt_sealed_def insert_row_def
  spend_approval_def approval_of_def consume_approval_def assert_approval_available_def approval_grant_matches_def
  approval_binding_ok_def approval_grant_ok_def learning_matches_tool_def request_ok_defs store_control_def
  find_control_def learning_frontier_def advance_epoch_def with_ledger_def fail_at_def pause_result_def
  sample_pause_def pause_control_def pause_receipt_def pause_binding_def pause_approval_def sample_approval_def
  empty_learning_def sample_ledger_def sample_where_def Let_def

lemma pause_writes:
  assumes "k \<in> {49, 50}"
  shows "write_ledger sample_env False (sample_pause k) empty_learning = (Inr pause_result, paused_learning k)"
proof -
  have "fst (write_ledger sample_env False (sample_pause k) empty_learning) = Inr pause_result"
    using sample_pause_checks [OF assms] pause_accepted by (simp add: pause_run_simps)
  then show ?thesis by (simp add: paused_learning_def prod_eq_iff)
qed

lemma paused_read: "read_result (paused_learning 49) (lw_key (sample_pause 50)) = None"
  using sample_pause_checks [of 49 False] pause_accepted by (simp add: paused_learning_def pause_run_simps)

subsection \<open>A trace, a candidate and its first transition\<close>

definition sample_trace :: learning_trace where
  "sample_trace = \<lparr>tr_trace_id = ''t1'', tr_episode_id = ''e1'',
     tr_task_spec = \<lparr>tk_task_id = ''k1'', tk_goal_hash = sample_hash, tk_input_hash = sample_hash,
       tk_success_criteria_hash = sample_hash\<rparr>,
     tr_principal = ''u'', tr_scopes = [sample_where],
     tr_context = \<lparr>tc_context_slice_id = ''x1'', tc_frozen_hash = sample_hash, tc_frontier_hash = sample_hash,
       tc_compiler_version = ''1.0.0''\<rparr>,
     tr_trajectory = [\<lparr>sp_step_id = ''p1'', sp_ordinal = 0, sp_kind = Step_model,
       sp_retention = Retain_reference ''e1'' sample_hash ''text/plain'', sp_step_hash = sample_hash\<rparr>],
     tr_outcome = \<lparr>to_status = Succeeded, to_units_completed = [], to_output_hash = None\<rparr>,
     tr_observations = [\<lparr>lo_observation_id = ''o1'', lo_kind = Ok_feedback, lo_polarity = Pol_positive,
       lo_code = ''TASK_DONE'', lo_evidence_id = Some ''e1''\<rparr>],
     tr_active_release_set_hash = sample_hash, tr_retrieval_configuration_hash = sample_hash,
     tr_runtime = \<lparr>rt_runtime_version = ''1.0.0'', rt_compiler_version = ''1.0.0'', rt_model_provider = ''local'',
       rt_model_id = ''m1'', rt_toolset_hash = sample_hash, rt_dependency_lock_hash = sample_hash\<rparr>,
     tr_costs = \<lparr>tx_input_tokens = 10, tx_output_tokens = 5, tx_latency_ms = 3, tx_side_effect_ids = []\<rparr>,
     tr_control_epoch = 0, tr_captured_at = sample_now, tr_trace_hash = sample_hash\<rparr>"

definition sample_slot :: release_slot where
  "sample_slot = \<lparr>rs_principal = ''u'', rs_candidate_type = Ct_retrieval_policy, rs_scopes = [sample_where],
     rs_target_key = ''default_recall'', rs_slot_hash = sample_hash\<rparr>"

definition sample_policy :: lane_request where
  "sample_policy = \<lparr>requested_lanes = [Recent_l1], request_limits = (\<lambda>_. None)\<rparr>"

definition sample_learner :: learning_candidate where
  "sample_learner = \<lparr>ln_candidate_id = ''c1'', ln_type = Ct_retrieval_policy, ln_release_capable = True,
     ln_principal = ''u'', ln_scopes = [sample_where], ln_slot = Some sample_slot, ln_target = Policy_target sample_policy,
     ln_base_release_ids = [], ln_active_base_release_id = None, ln_trace_ids = [''t1''], ln_evidence_ids = [''e1''],
     ln_improvement_ids = [''i1''], ln_invariant_ids = [''v1''], ln_authority = User_stated, ln_sensitivity = Internal,
     ln_impact = Impact_low, ln_confidence = 1, ln_confirmation = False, ln_evaluation_contract_hash = sample_hash,
     ln_rollback_target = None, ln_proposed_at = sample_now, ln_proposed_by = ''learner'', ln_reason = [111, 107],
     ln_candidate_hash = sample_hash\<rparr>"

definition held_transition :: transition where
  "held_transition = \<lparr>tn_transition_id = ''n1'', tn_candidate_id = ''c1'', tn_sequence = 1, tn_from = Proposed, tn_to = Held,
     tn_previous_hash = None, tn_control_epoch = 0, tn_actor_id = ''u'', tn_authority_id = None,
     tn_reason_code = ''G5_INTAKE'', tn_evidence_receipt_ids = [''r1''], tn_idempotency_key = sample_key 51,
     tn_transitioned_at = sample_now, tn_transition_hash = sample_hash\<rparr>"

definition sample_write :: "nat \<Rightarrow> ledger_write \<Rightarrow> learning_command" where
  "sample_write k w = \<lparr>lw_key = sample_key k, lw_idempotency_hash = None, lw_request_hash = sample_hash,
     lw_failure = None, lw_write = w\<rparr>"


lemmas sample_scope_simps = sample_where_def scope_set_ok_def canonical_scopes_ok_def unique_def scope_ok_def
  request_ok_defs

lemma sample_trace_ok: "learning_trace_ok (env_sha sample_env) sample_trace"
  by (simp add: learning_trace_ok_def sample_trace_def sample_scope_simps contract_version_ok_def media_type_ok_def
    ascii_digit_def map_filter_def opt_ok_def reason_code_ok_def code_points_def)

lemma sample_slot_ok: "release_slot_ok (env_sha sample_env) sample_slot"
  by (simp add: release_slot_ok_def sample_slot_def sample_scope_simps)

lemma sample_learner_ok: "learning_candidate_ok (env_sha sample_env) sample_learner"
  using sample_slot_ok
  by (simp add: learning_candidate_ok_def sample_learner_def sample_scope_simps sample_policy_def lane_request_ok_def
    limit_overrides_ok_iff opt_ok_def needs_confirmation_def sample_slot_def)

lemma held_transition_ok: "transition_ok (env_sha sample_env) held_transition"
  by (simp add: transition_ok_def held_transition_def opt_ok_def reason_code_ok_def code_points_def unique_def
    request_ok_defs)

text \<open>The three commands, and what each leaves.\<close>

definition plain_result :: "nat \<Rightarrow> string \<Rightarrow> result_row" where
  "plain_result n kind = \<lparr>zr_key = sample_key (48 + n), zr_request_hash = sample_hash,
     zr_result = \<lparr>lz_kind = kind, lz_replayed = False, lz_epoch = n, lz_receipt = None\<rparr>\<rparr>"

definition learning_at :: "nat \<Rightarrow> unit learning_store" where
  "learning_at n = empty_learning\<lparr>lg_control := (lg_control empty_learning)\<lparr>cs_ledger :=
       (sample_ledger User_stated)\<lparr>st_ledger_epoch := n\<rparr>\<rparr>,
     lg_traces := (if 1 \<le> n then [sample_trace] else []), lg_candidates := (if 2 \<le> n then [sample_learner] else []),
     lg_transitions := (if 3 \<le> n then [held_transition] else []),
     lg_results := take n [plain_result 1 ''trace'', plain_result 2 ''candidate'', plain_result 3 ''transition'']\<rparr>"

lemmas sample_run_simps = write_ledger_def run_ledger_def ledger_effect_def apply_write_def read_result_def file_receipt_def
  insert_row_def spend_approval_def approval_of_def advance_epoch_def with_ledger_def fail_at_def sample_write_def Let_def
  check_command_def learning_command_ok_def brings_hash_def opt_ok_def learning_at_def empty_learning_def sample_ledger_def
  learning_command_hash_def request_hash_of_def idempotency_hash_of_def plain_result_def

lemma traced: "write_ledger sample_env False (sample_write 49 (Write_trace sample_trace)) empty_learning
     = (Inr (zr_result (plain_result 1 ''trace'')), learning_at 1)"
  using sample_trace_ok by (simp add: sample_run_simps insert_trace_def)

lemma proposed: "write_ledger sample_env False (sample_write 50 (Write_candidate sample_learner)) (learning_at 1)
     = (Inr (zr_result (plain_result 2 ''candidate'')), learning_at 2)"
  using sample_learner_ok
  by (simp add: sample_run_simps insert_learning_candidate_def trace_accessible_def sample_learner_def sample_trace_def
    note_target_def same_scopes_def)

lemma held: "write_ledger sample_env False (sample_write 51 (Write_transition held_transition None)) (learning_at 2)
     = (Inr (zr_result (plain_result 3 ''transition'')), learning_at 3)"
  using held_transition_ok
  by (simp add: sample_run_simps insert_transition_def latest_transition_def transitions_of_def find_candidate_def
    sample_learner_def held_transition_def)


lemma held_learning_reached: "(learning_step sample_env False)\<^sup>*\<^sup>* empty_learning (learning_at 3)"
proof -
  have "learning_step sample_env False empty_learning (learning_at 1)"
    "learning_step sample_env False (learning_at 1) (learning_at 2)"
    "learning_step sample_env False (learning_at 2) (learning_at 3)"
    using learning_step.command [of sample_env False empty_learning "sample_write 49 (Write_trace sample_trace)"]
      learning_step.command [of sample_env False "learning_at 1" "sample_write 50 (Write_candidate sample_learner)"]
      learning_step.command [of sample_env False "learning_at 2" "sample_write 51 (Write_transition held_transition None)"]
    by (simp_all only: traced proposed held snd_conv)
  then show ?thesis by (meson converse_rtranclp_into_rtranclp rtranclp.rtrancl_refl)
qed

text \<open>A reader of the principal.\<close>

definition sample_query :: ledger_read_input where
  "sample_query = \<lparr>lq_principal = ''u'', lq_scopes = [sample_where], lq_trace = None, lq_candidate = None, lq_slot_hash = None\<rparr>"

lemma sample_view: "\<exists>w. read_ledger (env_sha sample_env) sample_query (learning_at 3) = Inr w \<and> lv_candidates w = [sample_learner]
     \<and> lv_transitions w = [held_transition] \<and> lv_receipts w = []"
proof -
  have c: "read_candidates sample_query (learning_at 3) = [sample_learner]"
    by (simp add: read_candidates_def by_time_def sample_query_def learning_at_def sample_learner_def same_scopes_def opt_ok_def)
  show ?thesis
    by (simp add: read_ledger_def c view_of_def Let_def read_receipts_def bindE_def)
      (simp add: ledger_read_ok_def sample_query_def sample_scope_simps opt_ok_def learning_at_def empty_learning_def
        sample_learner_def held_transition_def)
qed


subsection \<open>A planned transition\<close>

text \<open>A hash that tells what happens now from what happens later.\<close>

definition sample_later :: timestamp where
  "sample_later = Timestamp ''2026-01-02T00:00:00.000Z'' 1767312000000"

definition late_sha :: "jval \<Rightarrow> string" where
  "late_sha j = (case j of J_obj ps \<Rightarrow> if time_json sample_later \<in> snd ` set ps then sample_old_hash else sample_hash
     | _ \<Rightarrow> sample_hash)"

definition late_env :: "unit governance_env" where
  "late_env = sample_env\<lparr>env_sha := late_sha\<rparr>"

lemma late_sha_object: "late_sha (J_obj ps) = (if time_json sample_later \<in> snd ` set ps then sample_old_hash else sample_hash)"
  by (simp add: late_sha_def)

lemma late_env_sha [simp]: "env_sha late_env = late_sha"
  by (simp add: late_env_def)

lemma sample_old_hash_ok [simp]: "canonical_hash_ok sample_old_hash" "sample_old_hash \<noteq> sample_hash" "sample_hash \<noteq> sample_old_hash"
  by (simp_all add: sample_old_hash_def sample_hash_def canonical_hash_ok_def lower_hex_def list_all_iff)

lemma late_sha_ok [simp]: "canonical_hash_ok (late_sha j)"
  by (simp add: late_sha_def split: jval.split)


lemma late_identifier: "stable_identifier late_sha pre j = pre @ '':'' @ replicate 41 (if late_sha j = sample_old_hash then CHR ''1'' else CHR ''0'')"
proof -
  have "late_sha j = sample_old_hash \<or> late_sha j = sample_hash" by (simp add: late_sha_def split: jval.split)
  then show ?thesis by (auto simp: stable_identifier_def sample_old_hash_def sample_hash_def)
qed

lemma later_differs:
  "code_points (c # cs) = n # ns \<longleftrightarrow> of_char c = n \<and> code_points cs = ns" "(''2026-01-02T00:00:00.000Z'' = sample_hash) = False"
  "(''2026-01-02T00:00:00.000Z'' = sample_old_hash) = False"
  by (simp_all add: code_points_def sample_hash_def sample_old_hash_def)

lemmas late_simps = later_differs late_sha_object time_json_def sample_later_def sample_now_def code_points_inj opt_json_def nullable_def
  jnat_def scopes_json_def jstrs_def

lemma late_learner_ok: "learning_candidate_ok late_sha sample_learner"
proof -
  have "release_slot_ok late_sha sample_slot"
    by (simp add: release_slot_ok_def sample_slot_def sample_scope_simps unsealed_slot_json_def late_simps)
  then show ?thesis
    by (simp add: learning_candidate_ok_def sample_learner_def sample_scope_simps sample_policy_def lane_request_ok_def
      limit_overrides_ok_iff opt_ok_def needs_confirmation_def sample_slot_def unsealed_candidate_json_def late_simps slot_json_def)
qed

definition stop_receipt :: learning_receipt where
  "stop_receipt = \<lparr>rx_receipt_id = ''r1'', rx_created_at = sample_now, rx_state = Rs_durable, rx_request_hash = sample_hash,
     rx_receipt_hash = sample_hash, rx_body = Stop_receipt \<lparr>sb_principal = ''u'', sb_trace_id = None, sb_candidate_id = Some ''c1'',
       sb_control_epoch = 0, sb_reason_code = ''G5_STOP'', sb_feedback = None\<rparr>\<rparr>"

text \<open>The candidate with one receipt filed for it.\<close>

definition evidenced_learning :: "unit learning_store" where
  "evidenced_learning = (learning_at 2)\<lparr>lg_receipts := [\<lparr>xr_receipt = stop_receipt, xr_key = sample_key 52, xr_epoch = 2,
     xr_aggregate_kind = ''stop'', xr_aggregate_id = ''c1'', xr_principal = ''u'', xr_scopes = [sample_where]\<rparr>]\<rparr>"

definition intake :: lifecycle_input where
  "intake = \<lparr>lf_key = sample_key 53, lf_principal = ''u'', lf_scopes = [sample_where], lf_candidate_id = ''c1'',
     lf_expected_state = Proposed, lf_expected_sequence = 0, lf_expected_hash = None, lf_to = Held, lf_control_epoch = 0,
     lf_actor_id = ''u'', lf_authority_id = None, lf_evidence_receipt_ids = [''r1''], lf_reason_code = ''G5_INTAKE'',
     lf_transitioned_at = sample_later\<rparr>"

definition intake_transition :: transition where
  "intake_transition = new_transition late_sha intake
     \<lparr>sr_candidate_id = ''c1'', sr_state = Proposed, sr_sequence = 0, sr_transition_hash = None\<rparr>"

definition intake_receipt :: learning_receipt where
  "intake_receipt = transition_receipt_of late_sha (lifecycle_hash late_sha intake) intake_transition"

lemma intake_transition_fields:
  "intake_transition = \<lparr>tn_transition_id = ''transition:'' @ replicate 41 (CHR ''0''), tn_candidate_id = ''c1'', tn_sequence = 1,
     tn_from = Proposed, tn_to = Held, tn_previous_hash = None, tn_control_epoch = 0, tn_actor_id = ''u'', tn_authority_id = None,
     tn_reason_code = ''G5_INTAKE'', tn_evidence_receipt_ids = [''r1''], tn_idempotency_key = sample_key 53,
     tn_transitioned_at = sample_later, tn_transition_hash = sample_old_hash\<rparr>"
  by (simp add: intake_transition_def new_transition_def intake_def late_identifier late_simps unsealed_transition_json_def sample_key_def)


lemma intake_receipt_fields:
  "intake_receipt = \<lparr>rx_receipt_id = ''transition-receipt:'' @ replicate 41 (CHR ''0''), rx_created_at = sample_later,
     rx_state = Rs_durable, rx_request_hash = sample_old_hash, rx_receipt_hash = sample_old_hash,
     rx_body = Transition_receipt \<lparr>tb_candidate_id = ''c1'', tb_transition_id = ''transition:'' @ replicate 41 (CHR ''0''),
       tb_sequence = 1, tb_from = Proposed, tb_to = Held, tb_authority_id = None, tb_evidence_receipt_ids = [''r1''],
       tb_control_epoch = 0\<rparr>\<rparr>"
  by (simp add: intake_receipt_def transition_receipt_of_def seal_learning_receipt_def unsealed_learning_receipt_json_def
    intake_transition_fields late_identifier late_sha_object lifecycle_hash_def lifecycle_input_json_def lifecycle_request_def
    intake_def time_json_def)
    (simp add: late_simps)


lemma learning_identifiers: "identifier_ok ''c1''" "identifier_ok ''u''" "identifier_ok ''r1''" "reason_code_ok ''G5_INTAKE''"
  "idempotency_key_ok (sample_key 53)"
  by (simp_all add: request_ok_defs reason_code_ok_def code_points_def sample_key_def idempotency_key_ok_def)

lemma replicate_identifier: "identifier_ok (''transition:'' @ replicate 41 (CHR ''0''))"
  "identifier_ok (''transition-receipt:'' @ replicate 41 (CHR ''0''))"
  by (simp_all add: request_ok_defs eval_nat_numeral)

lemmas stamped_identifier = replicate_identifier [simplified]

lemma intake_ok: "transition_ok late_sha intake_transition" "receipt_is ''learning_transition'' late_sha intake_receipt"
proof -
  show "transition_ok late_sha intake_transition"
    by (simp add: transition_ok_def intake_transition_fields stamped_identifier learning_identifiers opt_ok_def unique_def
      unsealed_transition_json_def late_sha_object time_json_def)
  show "receipt_is ''learning_transition'' late_sha intake_receipt"
    by (simp add: receipt_is_def learning_receipt_ok_def intake_receipt_fields stamped_identifier learning_identifiers
      opt_ok_def unique_def)
qed

lemma evidenced_ok: "learning_ok late_sha evidenced_learning"
  using late_learner_ok
  by (simp add: learning_ok_def evidenced_learning_def learning_at_def empty_learning_def candidate_chain_def slot_log_def
    pointer_ok_def find_pointer_def keyed_def receipts_keyed_def)

lemma intake_view:
  "\<exists>w. read_ledger late_sha (lifecycle_query intake) evidenced_learning = Inr w
     \<and> lifecycle_plan late_sha intake w = Inr (intake_transition, intake_receipt)"
proof -
  let ?q = "lifecycle_query intake"
  have c: "read_candidates ?q evidenced_learning = [sample_learner]"
    by (simp add: read_candidates_def by_time_def lifecycle_query_def intake_def evidenced_learning_def learning_at_def
      sample_learner_def same_scopes_def scope_order_def opt_ok_def)
  have ok: "ledger_read_ok ?q"
    by (simp add: ledger_read_ok_def lifecycle_query_def intake_def scope_order_def sample_scope_simps opt_ok_def)
  have seal: "receipt_sealed late_sha stop_receipt"
    by (simp add: receipt_sealed_def stop_receipt_def unsealed_learning_receipt_json_def late_simps field_def)
  have r: "read_receipts late_sha ?q (''u'' # ids) evidenced_learning = Inr [stop_receipt]"
    if "''c1'' \<in> set ids" for ids
    using seal that by (simp add: read_receipts_def lifecycle_query_def intake_def scope_order_def evidenced_learning_def)
  define w where "w = view_of ?q [sample_learner] [] [] [stop_receipt] evidenced_learning"
  have read: "read_ledger late_sha ?q evidenced_learning = Inr w"
    using r [of "[''c1'']"]
    by (simp add: read_ledger_def c ok Let_def bindE_def w_def read_evaluations_def read_releases_def by_time_def)
      (simp add: lifecycle_query_def intake_def sample_learner_def evidenced_learning_def learning_at_def empty_learning_def)
  have v: "lv_candidates w = [sample_learner]" "lv_transitions w = []" "lv_receipts w = [stop_receipt]" "lv_controls w = []"
    "lv_invalid w = []"
    by (simp_all add: w_def view_of_def Let_def evidenced_learning_def learning_at_def empty_learning_def)
  have "lifecycle_plan late_sha intake w = Inr (intake_transition, intake_receipt)"
    using intake_ok
    by (simp add: lifecycle_plan_def accessible_candidate_def find_viewed_def v sample_learner_def intake_def
      reduce_candidate_state_def learning_identifiers control_of_def paused_now_def epoch_of_def stop_receipt_def parsed_def
      bindE_def guardE_def Let_def)
      (simp add: intake_transition_def intake_receipt_def intake_def)
  with read show ?thesis by blast
qed


definition intake_command :: learning_command where
  "intake_command = lifecycle_command late_sha intake (intake_transition, intake_receipt)"

lemma intake_command_fields:
  "lw_key intake_command = sample_key 53" "lw_failure intake_command = None"
  "lw_write intake_command = Write_transition intake_transition (Some intake_receipt)"
  "check_command late_env False intake_command = Inr ()"
  using intake_ok
  by (simp_all add: intake_command_def lifecycle_command_def hashed_command_def intake_def check_command_def
    learning_command_ok_def learning_identifiers opt_ok_def brings_hash_def learning_command_hash_def request_hash_of_def
    lifecycle_hash_def Let_def)

lemma intake_names: "tn_candidate_id intake_transition = ''c1''" "rx_receipt_id intake_receipt \<noteq> ''r1''"
  "rx_receipt_hash intake_receipt = sample_old_hash"
  by (simp_all add: intake_transition_fields intake_receipt_fields)

lemma intake_written: "\<exists>r t. write_ledger late_env False intake_command evidenced_learning = (Inr r, t) \<and> \<not> lz_replayed r"
proof -
  let ?s1 = "evidenced_learning\<lparr>lg_transitions := [intake_transition]\<rparr>"
  let ?s2 = "advance_epoch ?s1"
  have t: "insert_transition intake_transition evidenced_learning = Inr ?s1"
    by (simp add: insert_transition_def latest_transition_def transitions_of_def find_candidate_def insert_row_def
      intake_transition_fields evidenced_learning_def learning_at_def empty_learning_def sample_learner_def)
  have v: "validate_transition_receipt intake_transition intake_receipt = Inr ()"
    by (simp add: validate_transition_receipt_def intake_transition_fields intake_receipt_fields)
  have a: "apply_write late_env intake_command evidenced_learning = Inr (Some intake_receipt, ''c1'', ?s1)"
    by (simp add: apply_write_def intake_command_fields t v intake_names)
  have sealed: "receipt_sealed late_sha intake_receipt"
    by (simp add: intake_receipt_def transition_receipt_of_def)
  obtain s3 where f: "file_receipt late_sha intake_command (Some intake_receipt) ''c1'' (st_ledger_epoch (lg_ledger ?s2)) ?s2 = Inr s3"
    and r: "lg_results s3 = lg_results evidenced_learning"
    by (simp add: file_receipt_def insert_receipt_def sealed receipt_access_def intake_command_fields intake_names
        find_candidate_def insert_row_def fail_at_def advance_epoch_def with_ledger_def evidenced_learning_def
        learning_at_def empty_learning_def sample_learner_def sample_ledger_def stop_receipt_def scope_order_def Let_def)
  have new: "read_result evidenced_learning (sample_key 53) = None" "sample_key 53 \<notin> zr_key ` set (lg_results evidenced_learning)"
    by (simp_all add: read_result_def evidenced_learning_def learning_at_def plain_result_def)
  show ?thesis using f
    by (simp add: write_ledger_def intake_command_fields run_ledger_def ledger_effect_def fail_at_def a r new
      spend_approval_def approval_of_def insert_row_def Let_def)
qed

end
