(* ===== verification/LearningProperties.thy ===== *)
theory LearningProperties
  imports LearningSamples
begin

text \<open>
  The properties of the learning ledger: the lifecycle of a candidate, its release slots, idempotency, the approvals
  it spends, what a reader sees, and the standalone transitions of the laboratory over it.
\<close>

subsection \<open>What a reader sees\<close>

lemma read_ledger_Inr:
  assumes "read_ledger sha q s = Inr w"
  shows "ledger_read_ok q" "lv_candidates w = read_candidates q s"
    "lv_transitions w = sort_key (\<lambda>t. (tn_candidate_id t, tn_sequence t))
       (filter (\<lambda>t. tn_candidate_id t \<in> ln_candidate_id ` set (lv_candidates w)) (lg_transitions s))"
    "lv_states w = map (\<lambda>c. state_row s (ln_candidate_id c)) (lv_candidates w)"
    "lv_controls w = filter (\<lambda>c. lc_principal c = lq_principal q) (lg_controls s)"
    "set (lv_releases w) = {r \<in> set (lg_releases s). rl_candidate_id r \<in> ln_candidate_id ` set (lv_candidates w)}"
    "set (lv_runs w) = {r \<in> set (lg_runs s). cu_candidate_id r \<in> ln_candidate_id ` set (lv_candidates w)}"
    "\<exists>ids. read_receipts sha q ids s = Inr (lv_receipts w)"
proof -
  from assms obtain rs evs ids where "ledger_read_ok q" "read_receipts sha q ids s = Inr rs"
    "w = view_of q (read_candidates q s) evs (read_releases (map ln_candidate_id (read_candidates q s)) s) rs s"
    by (auto simp: read_ledger_def Let_def ledger_inv split: if_splits)
  note w = this
  show "ledger_read_ok q" by (rule w(1))
  show "\<exists>ids. read_receipts sha q ids s = Inr (lv_receipts w)"
    using w(2) unfolding w(3) by (auto simp: view_of_def Let_def)
  show "lv_candidates w = read_candidates q s"
    "lv_transitions w = sort_key (\<lambda>t. (tn_candidate_id t, tn_sequence t))
       (filter (\<lambda>t. tn_candidate_id t \<in> ln_candidate_id ` set (lv_candidates w)) (lg_transitions s))"
    "lv_states w = map (\<lambda>c. state_row s (ln_candidate_id c)) (lv_candidates w)"
    "lv_controls w = filter (\<lambda>c. lc_principal c = lq_principal q) (lg_controls s)"
    "set (lv_releases w) = {r \<in> set (lg_releases s). rl_candidate_id r \<in> ln_candidate_id ` set (lv_candidates w)}"
    "set (lv_runs w) = {r \<in> set (lg_runs s). cu_candidate_id r \<in> ln_candidate_id ` set (lv_candidates w)}"
    unfolding w(3) by (auto simp: view_of_def Let_def by_time_def read_releases_def)
qed

lemma read_candidates_mine:
  "c \<in> set (read_candidates q s) \<Longrightarrow> c \<in> set (lg_candidates s) \<and> ln_principal c = lq_principal q
     \<and> same_scopes (ln_scopes c) (lq_scopes q) \<and> opt_ok (\<lambda>i. ln_candidate_id c = i) (lq_candidate q)"
  by (auto simp: read_candidates_def by_time_def)

lemma read_receipts_mine:
  assumes "read_receipts sha q ids s = Inr rs" and "r \<in> set rs"
  shows "\<exists>x \<in> set (lg_receipts s). xr_receipt x = r \<and> xr_principal x = lq_principal q
    \<and> sort (map scope_key (xr_scopes x)) = sort (map scope_key (lq_scopes q)) \<and> receipt_sealed sha r"
proof -
  from assms obtain x where "x \<in> set (lg_receipts s)" "xr_receipt x = r" "xr_principal x = lq_principal q"
    "sort (map scope_key (xr_scopes x)) = sort (map scope_key (lq_scopes q))" "receipt_sealed sha r"
    by (auto simp: read_receipts_def Let_def list_all_iff split: if_splits)
  then show ?thesis by blast
qed

lemma sorted_pair:
  "sorted (map f ts) \<Longrightarrow> \<forall>t \<in> set ts. g t = a \<Longrightarrow> sorted (map (\<lambda>t. (g t, f t :: nat)) ts)"
  by (induction ts) auto

text \<open>The transitions of a candidate in the view are its stored ones, in their order.\<close>

lemma view_chain:
  assumes "learning_ok sha s" and "read_ledger sha q s = Inr w" and "c \<in> set (lv_candidates w)"
  shows "filter (\<lambda>t. tn_candidate_id t = ln_candidate_id c) (lv_transitions w) = candidate_chain s (ln_candidate_id c)"
proof -
  let ?i = "ln_candidate_id c" and ?f = "\<lambda>t. (tn_candidate_id t, tn_sequence t)"
  have "filter (\<lambda>t. tn_candidate_id t = ?i) (filter (\<lambda>t. tn_candidate_id t \<in> ln_candidate_id ` set (lv_candidates w)) (lg_transitions s))
      = candidate_chain s ?i"
    using assms(3) by (auto simp: candidate_chain_def intro!: filter_cong)
  moreover have "sort_key ?f (candidate_chain s ?i) = candidate_chain s ?i"
  proof (rule sort_key_id_if_sorted)
    have "sorted (map tn_sequence (candidate_chain s ?i))"
      using chained_sequences [OF learning_okD(1) [OF assms(1), of ?i]] by (simp del: upt_Suc)
    moreover have "\<forall>t \<in> set (candidate_chain s ?i). tn_candidate_id t = ?i" by (simp add: candidate_chain_def)
    ultimately show "sorted (map ?f (candidate_chain s ?i))"
      by (rule sorted_pair)
  qed
  ultimately show ?thesis
    using read_ledger_Inr(3) [OF assms(2)] by (simp add: filter_sort)
qed

lemma view_sound:
  assumes "learning_ok sha s" and "read_ledger sha q s = Inr w"
  shows "list_all (transition_ok sha) (lv_transitions w)" "list_all (learning_candidate_ok sha) (lv_candidates w)"
  using assms(1) read_ledger_Inr(2,3) [OF assms(2)] read_candidates_mine [of _ q s]
  by (auto simp: learning_ok_def list_all_iff)

subsection \<open>The reducer\<close>

definition end_row :: "string \<Rightarrow> transition list \<Rightarrow> candidate_state_row" where
  "end_row i ts = \<lparr>sr_candidate_id = i, sr_state = state_after Proposed ts, sr_sequence = length ts,
     sr_transition_hash = (if ts = [] then None else Some (tn_transition_hash (last ts)))\<rparr>"

lemma reduce_chained:
  "chained n st h ts \<Longrightarrow> reduce_steps \<lparr>sr_candidate_id = i, sr_state = st, sr_sequence = n, sr_transition_hash = h\<rparr> ts
     = Inr \<lparr>sr_candidate_id = i, sr_state = state_after st ts, sr_sequence = n + length ts,
        sr_transition_hash = (if ts = [] then h else Some (tn_transition_hash (last ts)))\<rparr>"
  by (induction n st h ts rule: chained.induct) (auto simp: state_after_def)

lemma state_row_end:
  assumes "chained 0 Proposed None (candidate_chain s i)"
  shows "state_row s i = end_row i (candidate_chain s i)"
proof (cases "candidate_chain s i = []")
  case True
  then show ?thesis by (simp add: state_row_def latest_of_chain [OF assms] end_row_def state_after_def)
next
  case False
  then have "tn_candidate_id (last (candidate_chain s i)) = i"
    using last_in_set [OF False] by (simp add: candidate_chain_def)
  moreover have "tn_sequence (last (candidate_chain s i)) = length (candidate_chain s i)"
    using chained_sequences [OF assms] False by (metis add_0 last_map last_upt length_greater_0_conv zero_less_Suc
      diff_Suc_1 upt_Suc_append Suc_leI last_snoc)
  ultimately show ?thesis using False
    by (simp add: state_row_def latest_of_chain [OF assms] end_row_def state_after_def)
qed

text \<open>What the laboratory relies on: the view holds the chain of each of its candidates.\<close>

locale learning_port =
  fixes sha :: "jval \<Rightarrow> string"
    and legit :: "'s \<Rightarrow> bool"
    and read_view :: "ledger_read_input \<Rightarrow> 's \<Rightarrow> storage_error + ledger_view"
    and chain :: "'s \<Rightarrow> string \<Rightarrow> transition list"
  assumes linked: "legit s \<Longrightarrow> chained 0 Proposed None (chain s i)"
    and viewed: "legit s \<Longrightarrow> read_view q s = Inr w \<Longrightarrow> c \<in> set (lv_candidates w) \<Longrightarrow>
      filter (\<lambda>t. tn_candidate_id t = ln_candidate_id c) (lv_transitions w) = chain s (ln_candidate_id c)"
    and sound: "legit s \<Longrightarrow> read_view q s = Inr w \<Longrightarrow>
      list_all (transition_ok sha) (lv_transitions w) \<and> list_all (learning_candidate_ok sha) (lv_candidates w)"
begin

lemma reducer:
  assumes "legit s" and "read_view q s = Inr w" and "c \<in> set (lv_candidates w)"
  shows "reduce_candidate_state sha (ln_candidate_id c) (lv_transitions w)
    = Inr (end_row (ln_candidate_id c) (chain s (ln_candidate_id c)))"
proof -
  have "identifier_ok (ln_candidate_id c)"
    using sound [OF assms(1,2)] assms(3) by (auto simp: list_all_iff learning_candidate_ok_def)
  then show ?thesis
    using sound [OF assms(1,2)] viewed [OF assms] chained_sorted [OF linked [OF assms(1)]]
      reduce_chained [OF linked [OF assms(1)], of "ln_candidate_id c" "ln_candidate_id c"]
    by (simp add: reduce_candidate_state_def guardE_def bindE_def end_row_def)
qed

text \<open>A plan made from a view states the end of the chain it read.\<close>

lemma planned:
  assumes "legit s" and "read_view (lifecycle_query q) s = Inr w" and "lifecycle_plan sha q w = Inr (t, r)"
  shows "tn_candidate_id t = lf_candidate_id q" "tn_sequence t = Suc (length (chain s (lf_candidate_id q)))"
    "tn_from t = state_after Proposed (chain s (lf_candidate_id q))" "tn_to t = lf_to q"
    "tn_from t = lf_expected_state q" "length (chain s (lf_candidate_id q)) = lf_expected_sequence q"
proof -
  from assms(3) obtain c x where c: "find_viewed w (lf_candidate_id q) = Some c"
    and x: "reduce_candidate_state sha (lf_candidate_id q) (lv_transitions w) = Inr x"
      "sr_state x = lf_expected_state q" "sr_sequence x = lf_expected_sequence q"
    and t: "t = new_transition sha q x"
    by (auto simp: lifecycle_plan_def accessible_candidate_def parsed_def Let_def ledger_inv split: option.splits if_splits)
  have "c \<in> set (lv_candidates w)" "ln_candidate_id c = lf_candidate_id q"
    using c by (auto simp: find_viewed_def dest!: find_Some_mem)
  from reducer [OF assms(1,2) this(1)] this(2) x
  have "x = end_row (lf_candidate_id q) (chain s (lf_candidate_id q))" by simp
  then show "tn_candidate_id t = lf_candidate_id q" "tn_sequence t = Suc (length (chain s (lf_candidate_id q)))"
    "tn_from t = state_after Proposed (chain s (lf_candidate_id q))" "tn_to t = lf_to q"
    "tn_from t = lf_expected_state q" "length (chain s (lf_candidate_id q)) = lf_expected_sequence q"
    using t x(2,3) by (simp_all add: new_transition_def Let_def end_row_def)
qed

end

interpretation ledger_port: learning_port sha "learning_ok sha" "read_ledger sha" candidate_chain
  for sha :: "jval \<Rightarrow> string"
  by unfold_locales (simp_all add: learning_okD view_chain view_sound)


subsection \<open>The lifecycle of a candidate\<close>

lemma sorted_once:
  assumes "sorted_wrt (<) (map f ts)"
  shows "length (filter (\<lambda>t. f t = (k::nat)) ts) \<le> 1"
  using assms
proof (induction ts)
  case (Cons t ts)
  then have "f t = k \<Longrightarrow> filter (\<lambda>t. f t = k) ts = []" by (auto simp: filter_empty_conv)
  with Cons show ?case by auto
qed simp

lemma stage_Released: "stage a = 5 \<longleftrightarrow> a = Released"
  by (cases a) auto

text \<open>C3: in every state the ledger can reach, the transitions of a candidate form one chain: numbered from one without
  a gap, each from the state and the hash the one before it left, each legal, so that a candidate makes at most six
  transitions and is released at most once.\<close>

theorem candidate_lifecycle_is_a_chain:
  assumes "learning_initial s0" and "(learning_step v test)\<^sup>*\<^sup>* s0 s"
  shows "chained 0 Proposed None (transitions_of s i)
    \<and> set (transitions_of s i) = {t \<in> set (lg_transitions s). tn_candidate_id t = i}
    \<and> length (transitions_of s i) \<le> 6 \<and> length (filter (\<lambda>t. tn_to t = Released) (transitions_of s i)) \<le> 1"
proof -
  from learning.reached_inv [OF assms] have c: "chained 0 Proposed None (candidate_chain s i)" by (rule learning_okD)
  have "length (candidate_chain s i) \<le> 6"
    using chained_length [OF c] stage_le [of "state_after Proposed (candidate_chain s i)"] by simp
  moreover have "length (filter (\<lambda>t. tn_to t = Released) (candidate_chain s i)) \<le> 1"
    using sorted_once [of "\<lambda>t. stage (tn_to t)" "candidate_chain s i" 5] chained_stages [OF c] by (simp add: stage_Released)
  ultimately show ?thesis
    using c by (auto simp: transitions_of_chain candidate_chain_def)
qed

lemma candidate_lifecycle_is_a_chain_witness:
  "transitions_of (learning_at 3) ''c1'' = [held_transition] \<and> chained 0 Proposed None (transitions_of (learning_at 3) ''c1'')"
  using candidate_lifecycle_is_a_chain [OF empty_learning_initial held_learning_reached, of "''c1''"]
  by (simp add: transitions_of_def learning_at_def held_transition_def)

text \<open>C15: the state the laboratory reduces from a view is the one the repository reports: over any reachable ledger the
  fold of the transitions of a visible candidate never conflicts and equals the row the repository builds from the
  latest transition alone.\<close>

theorem reducer_agrees_with_repository:
  assumes "learning_initial s0" and "(learning_step v test)\<^sup>*\<^sup>* s0 s"
    and "read_ledger (env_sha v) q s = Inr w" and "c \<in> set (lv_candidates w)"
  shows "reduce_candidate_state (env_sha v) (ln_candidate_id c) (lv_transitions w) = Inr (state_row s (ln_candidate_id c))
    \<and> state_row s (ln_candidate_id c) \<in> set (lv_states w)"
proof -
  from learning.reached_inv [OF assms(1,2)] have ok: "learning_ok (env_sha v) s" .
  from ledger_port.reducer [OF ok assms(3,4)] state_row_end [OF learning_okD(1) [OF ok]]
  show ?thesis using assms(4) read_ledger_Inr(4) [OF assms(3)] by auto
qed

lemma reducer_agrees_with_repository_witness:
  "\<exists>w. read_ledger (env_sha sample_env) sample_query (learning_at 3) = Inr w
     \<and> reduce_candidate_state (env_sha sample_env) ''c1'' (lv_transitions w) = Inr (state_row (learning_at 3) ''c1'')
     \<and> sr_state (state_row (learning_at 3) ''c1'') = Held"
proof -
  obtain w where w: "read_ledger (env_sha sample_env) sample_query (learning_at 3) = Inr w" "lv_candidates w = [sample_learner]"
    using sample_view by blast
  have "ln_candidate_id sample_learner = ''c1''" by (simp add: sample_learner_def)
  moreover have "sr_state (state_row (learning_at 3) ''c1'') = Held"
    by (simp add: state_row_def latest_transition_def transitions_of_def learning_at_def held_transition_def)
  ultimately show ?thesis
    using reducer_agrees_with_repository [OF empty_learning_initial held_learning_reached w(1), of sample_learner] w by auto
qed

subsection \<open>Release slots\<close>

text \<open>C7: the pointer of a release slot is the replay of the releases stored for it: its revision counts them, its
  active release is what the last of them activates, each of them names what was active before it, and the active
  release is one of them.\<close>

theorem pointer_replays_releases:
  assumes "learning_initial s0" and "(learning_step v test)\<^sup>*\<^sup>* s0 s"
  shows "replayed None {} (slot_log s h)
    \<and> (find_pointer s h = None \<longleftrightarrow> slot_log s h = [])
    \<and> (\<forall>p. find_pointer s h = Some p \<longrightarrow> pt_revision p = length (slot_log s h)
         \<and> pt_active_release_id p = active_after None (slot_log s h)
         \<and> (\<forall>i. pt_active_release_id p = Some i \<longrightarrow> i \<in> rl_release_id ` set (slot_log s h)))"
proof -
  from learning.reached_inv [OF assms] have r: "replayed None {} (slot_log s h)" and p: "pointer_ok s h"
    by (simp_all add: learning_okD)
  from replayed_active [OF r] have "active_after None (slot_log s h) = Some i \<Longrightarrow> i \<in> rl_release_id ` set (slot_log s h)" for i
    by simp
  then show ?thesis using r p by (auto simp: pointer_ok_def split: option.splits)
qed

lemma pointer_replays_releases_witness:
  "find_pointer (learning_at 3) sample_hash = None \<and> replayed None {} (slot_log (learning_at 3) sample_hash)"
  using pointer_replays_releases [OF empty_learning_initial held_learning_reached, of sample_hash]
  by (simp add: slot_log_def learning_at_def empty_learning_def)

lemma find_candidate_Some: "find_candidate s i = Some c \<Longrightarrow> c \<in> set (lg_candidates s) \<and> ln_candidate_id c = i"
  by (auto simp: find_candidate_def dest!: find_Some_mem)

lemma ran_effect:
  assumes "write_ledger v test c s = (Inr r, t)" and "\<not> lz_replayed r"
  shows "check_command v test c = Inr () \<and> ledger_effect v c s = Inr (r, t)"
proof -
  from write_ledger_ran [OF assms(1)] have a: "check_command v test c = Inr ()" "run_ledger v c s = (Inr r, t)" by simp_all
  from a(2) show ?thesis
    by (cases rule: run_ledger_cases) (use assms(2) a(1) in \<open>auto simp: replay_row_def split: if_splits\<close>)
qed

lemma release_effect_Inr:
  assumes "write_ledger v test c s = (Inr r, t)" and "\<not> lz_replayed r" and "lw_write c = Write_release x"
  obtains s1 where "insert_release v c x s = Inr s1" "writes (Write_release x) s t" "write_ok (env_sha v) (Write_release x)"
    "assert_approval_available (env_sha v) (rw_binding x, rw_approval x) s = Inr ()"
proof -
  from ran_effect [OF assms(1,2)] have e: "ledger_effect v c s = Inr (r, t)" and c: "check_command v test c = Inr ()"
    by simp_all
  from c assms(3) have ok: "write_ok (env_sha v) (Write_release x)"
    by (auto simp: check_command_Inr learning_command_ok_def)
  from e obtain rc agg s1 where "apply_write v c s = Inr (rc, agg, s1)" "writes (lw_write c) s t" by (rule ledger_effect_Inr)
  with assms(3) ok show thesis by (intro that [of s1]) (auto simp: apply_write_def Let_def ledger_inv)
qed

subsection \<open>Idempotency and approvals\<close>

text \<open>C14: a learning command that succeeded is idempotent by its key: whatever steps follow, the same command returns the
  same result marked as replayed and changes nothing, a different request under its key is a conflict, and a command
  that fails changes nothing.\<close>

theorem learning_command_is_replayed:
  assumes "learning_initial s0" and "(learning_step v test)\<^sup>*\<^sup>* s0 s"
    and "write_ledger v test c s = (Inr r, t)" and "(learning_step v test)\<^sup>*\<^sup>* t u"
  shows "write_ledger v test c u = (Inr (r\<lparr>lz_replayed := True\<rparr>), u)
    \<and> (\<forall>d. check_command v test d = Inr () \<and> lw_key d = lw_key c
         \<and> idempotency_hash_of (env_sha v) d \<noteq> idempotency_hash_of (env_sha v) c
         \<longrightarrow> write_ledger v test d u = (Inl Conflict_with_state, u))
    \<and> (\<forall>d e x. write_ledger v test d u = (Inl e, x) \<longrightarrow> x = u)"
proof -
  from write_ledger_ran [OF assms(3)] have c: "check_command v test c = Inr ()" and run: "run_ledger v c s = (Inr r, t)"
    by simp_all
  from learning.reached_inv [OF assms(1,2)] have ok: "learning_ok (env_sha v) s" .
  have "write_ledger v test c u = (Inr (r\<lparr>lz_replayed := True\<rparr>), u)"
    using learning.retry_replays [OF ok run _ assms(4)] write_ledger_accepted [OF c] by simp
  moreover have "write_ledger v test d u = (Inl Conflict_with_state, u)"
    if d: "check_command v test d = Inr ()" "lw_key d = lw_key c"
      "idempotency_hash_of (env_sha v) d \<noteq> idempotency_hash_of (env_sha v) c" for d
  proof -
    from ledger_recording [OF run] obtain z where z: "read_result t (lw_key c) = Some z"
      "replay_row z (idempotency_hash_of (env_sha v) c) = Inr (r\<lparr>lz_replayed := True\<rparr>)" by blast
    from learning.kept_steps [OF assms(4) z(1)] d(2) have "read_result u (lw_key d) = Some z" by simp
    then show ?thesis
      using z(2) d(3) write_ledger_accepted [OF d(1)] by (auto simp: run_ledger_def replay_row_def split: if_splits)
  qed
  moreover have "x = u" if "write_ledger v test d u = (Inl e, x)" for d e x
    using that by (cases rule: write_ledger_cases) (auto elim!: run_ledger_cases)
  ultimately show ?thesis by blast
qed

lemma learning_command_is_replayed_witness:
  "write_ledger sample_env False (sample_pause 49) (paused_learning 49)
     = (Inr (pause_result\<lparr>lz_replayed := True\<rparr>), paused_learning 49)"
  using learning_command_is_replayed [OF empty_learning_initial rtranclp.rtrancl_refl pause_writes [of 49] rtranclp.rtrancl_refl]
  by simp


lemma control_step_consumptions:
  assumes "control_step v s s'"
  shows "prefix (st_consumptions (cs_ledger s)) (st_consumptions (cs_ledger s'))"
  using assms
proof (cases rule: control_step.cases)
  case (control c)
  then have "apply_control v c s = (fst (apply_control v c s), s')" by simp
  then show ?thesis
  proof (cases rule: apply_control_changes)
    case (changed r)
    from control_effect_tables [OF changed(4,3)] show ?thesis by auto
  qed simp
next
  case (ledger l)
  from step_frame [OF ledger(2)] show ?thesis using ledger(1) by (simp add: extends_def)
qed simp

lemma learning_step_consumptions:
  assumes "learning_step v test s s'"
  shows "prefix (st_consumptions (lg_ledger s)) (st_consumptions (lg_ledger s'))"
  using assms
proof (cases rule: learning_step_cases)
  case (ran c res)
  from ran(3) show ?thesis by (rule ledger_effect_Inr) auto
next
  case (other k)
  then show ?thesis using control_step_consumptions by simp
qed simp

lemma learning_steps_consumptions:
  "(learning_step v test)\<^sup>*\<^sup>* s t \<Longrightarrow> prefix (st_consumptions (lg_ledger s)) (st_consumptions (lg_ledger t))"
  by (induction rule: rtranclp_induct) (auto intro: prefix_order.trans learning_step_consumptions)

text \<open>C13: an approval is spent once: after a release, a rollback, a pause or a resume was written under an approval, no
  other command carrying an approval of that identity is written at any later state, and whatever the memory
  repositories do in between does not bring it back.\<close>

theorem learning_approval_is_single_use:
  assumes "write_ledger v test c s = (Inr r, t)" and "\<not> lz_replayed r" and "approval_id_of (lw_write c) = Some i"
    and "(learning_step v test)\<^sup>*\<^sup>* t u"
    and "approval_id_of (lw_write d) = Some i" and "read_result u (lw_key d) = None"
  shows "\<exists>e. write_ledger v test d u = (Inl e, u)"
proof -
  from ran_effect [OF assms(1,2)] have "ledger_effect v c s = Inr (r, t)" by simp
  then have "i \<in> set (map cn_approval_id (st_consumptions (lg_ledger t)))"
    by (rule ledger_effect_Inr) (use assms(3) in simp)
  then have used: "i \<in> cn_approval_id ` set (st_consumptions (lg_ledger u))"
    using learning_steps_consumptions [OF assms(4)] by (auto simp: prefix_def)
  show ?thesis
  proof (cases "write_ledger v test d u")
    case (Pair y x)
    then show ?thesis
    proof (cases rule: write_ledger_cases)
      case accepted
      from accepted(2) show ?thesis
      proof (cases rule: run_ledger_cases)
        case (ran res)
        from ran(3) have False by (rule ledger_effect_Inr) (use assms(5) used in blast)
        then show ?thesis ..
      qed (use Pair assms(6) in auto)
    qed (use Pair in simp)
  qed
qed

lemma learning_approval_is_single_use_witness:
  "\<exists>e. write_ledger sample_env False (sample_pause 50) (paused_learning 49) = (Inl e, paused_learning 49)"
proof -
  have k: "lw_key (sample_pause 50) \<noteq> lw_key (sample_pause 49)" by (simp add: sample_pause_def)
  have i: "approval_id_of (lw_write (sample_pause n)) = Some ''a1''" for n
    by (simp add: approval_id_of_def approval_of_def sample_pause_def pause_approval_def sample_approval_def)
  show ?thesis
    by (rule learning_approval_is_single_use [OF pause_writes [of 49] _ i rtranclp.rtrancl_refl i paused_read])
      (simp_all add: pause_result_def)
qed

subsection \<open>Reading\<close>

text \<open>A reader sees only its own: every candidate of a view belongs to the principal and to exactly the scopes asked
  for, every transition, canary and release of the view belongs to one of these candidates, the pause switch is the
  principal's, and every receipt was filed for the principal under exactly these scopes and is intact.\<close>

theorem reader_sees_only_its_own:
  assumes "read_ledger sha q s = Inr w"
  shows "(\<forall>c \<in> set (lv_candidates w). ln_principal c = lq_principal q \<and> same_scopes (ln_scopes c) (lq_scopes q))
    \<and> tn_candidate_id ` set (lv_transitions w) \<subseteq> ln_candidate_id ` set (lv_candidates w)
    \<and> cu_candidate_id ` set (lv_runs w) \<subseteq> ln_candidate_id ` set (lv_candidates w)
    \<and> rl_candidate_id ` set (lv_releases w) \<subseteq> ln_candidate_id ` set (lv_candidates w)
    \<and> (\<forall>k \<in> set (lv_controls w). lc_principal k = lq_principal q)
    \<and> (\<forall>r \<in> set (lv_receipts w). receipt_sealed sha r \<and> (\<exists>x \<in> set (lg_receipts s). xr_receipt x = r
         \<and> xr_principal x = lq_principal q \<and> sort (map scope_key (xr_scopes x)) = sort (map scope_key (lq_scopes q))))"
proof -
  from read_ledger_Inr(8) [OF assms] obtain ids where "read_receipts sha q ids s = Inr (lv_receipts w)" by blast
  from read_receipts_mine [OF this] have "r \<in> set (lv_receipts w) \<Longrightarrow> receipt_sealed sha r \<and> (\<exists>x \<in> set (lg_receipts s). xr_receipt x = r
         \<and> xr_principal x = lq_principal q \<and> sort (map scope_key (xr_scopes x)) = sort (map scope_key (lq_scopes q)))" for r
    by blast
  moreover have "\<forall>c \<in> set (lv_candidates w). ln_principal c = lq_principal q \<and> same_scopes (ln_scopes c) (lq_scopes q)"
    using read_candidates_mine read_ledger_Inr(2) [OF assms] by metis
  moreover have "tn_candidate_id ` set (lv_transitions w) \<subseteq> ln_candidate_id ` set (lv_candidates w)"
    unfolding read_ledger_Inr(3) [OF assms] by auto
  ultimately show ?thesis
    unfolding read_ledger_Inr(5-7) [OF assms] by auto
qed

lemma reader_sees_only_its_own_witness:
  "\<exists>w. read_ledger (env_sha sample_env) sample_query (learning_at 3) = Inr w \<and> lv_candidates w = [sample_learner]
     \<and> tn_candidate_id ` set (lv_transitions w) \<subseteq> ln_candidate_id ` set (lv_candidates w)"
  using sample_view reader_sees_only_its_own [of "env_sha sample_env" sample_query "learning_at 3"] by blast

subsection \<open>Standalone transitions\<close>

lemma chain_grows:
  assumes "learning_step v test s s'"
  shows "prefix (candidate_chain s i) (candidate_chain s' i)"
  using assms
proof (cases rule: learning_step_cases)
  case (ran c res)
  from ran(3) have "writes (lw_write c) s s'" by (rule ledger_effect_Inr)
  then show ?thesis by (auto simp: writes_def candidate_chain_def)
qed (auto simp: candidate_chain_def)

lemma chain_grows_steps: "(learning_step v test)\<^sup>*\<^sup>* s u \<Longrightarrow> prefix (candidate_chain s i) (candidate_chain u i)"
  by (induction rule: rtranclp_induct) (auto intro: prefix_order.trans chain_grows)

text \<open>C12: a standalone transition is atomic although the laboratory reads first and writes later: if what was planned
  from a view is written at a later state, whatever commands ran in between, then the candidate had made no
  transition in between, it was in the state and at the number the caller expected, and exactly the planned
  transition was added.\<close>

theorem planned_transition_is_atomic:
  assumes "learning_ok (env_sha v) s" and "read_ledger (env_sha v) (lifecycle_query q) s = Inr w"
    and "lifecycle_plan (env_sha v) q w = Inr x" and "(learning_step v test)\<^sup>*\<^sup>* s u"
    and "write_ledger v test (lifecycle_command (env_sha v) q x) u = (Inr r, t)" and "\<not> lz_replayed r"
  shows "candidate_chain u (lf_candidate_id q) = candidate_chain s (lf_candidate_id q)
    \<and> current_candidate_state u (lf_candidate_id q) = lf_expected_state q
    \<and> length (candidate_chain u (lf_candidate_id q)) = lf_expected_sequence q
    \<and> candidate_chain t (lf_candidate_id q) = candidate_chain u (lf_candidate_id q) @ [fst x]
    \<and> current_candidate_state t (lf_candidate_id q) = lf_to q"
proof -
  let ?i = "lf_candidate_id q"
  have plan: "lifecycle_plan (env_sha v) q w = Inr (fst x, snd x)" using assms(3) by simp
  note p = ledger_port.planned [OF assms(1,2) plan]
  have u: "learning_ok (env_sha v) u" using learning.steps_inv [OF assms(4,1)] .
  note cu = learning_okD(1) [OF u, of ?i]
  from ran_effect [OF assms(5,6)] have e: "ledger_effect v (lifecycle_command (env_sha v) q x) u = Inr (r, t)" by simp
  then have w: "writes (Write_transition (fst x) (Some (snd x))) u t"
    by (rule ledger_effect_Inr) (simp add: lifecycle_command_def hashed_command_def Let_def)
  then have f: "follows (latest_transition u ?i) (fst x)" and t: "lg_transitions t = lg_transitions u @ [fst x]"
    using p(1) by (simp_all add: writes_def)
  have t': "learning_ok (env_sha v) t"
    using learning_step_ok [OF u learning_step.command [of v test u "lifecycle_command (env_sha v) q x"]] assms(5) by simp
  have "tn_sequence (fst x) = Suc (length (candidate_chain u ?i))"
    using f state_row_end [OF cu] by (auto simp: follows_def state_row_def end_row_def split: option.splits)
  then have len: "length (candidate_chain u ?i) = length (candidate_chain s ?i)" using p(2) by simp
  from chain_grows_steps [OF assms(4), of ?i] obtain zs where "candidate_chain u ?i = candidate_chain s ?i @ zs"
    by (auto simp: prefix_def)
  with len have same: "candidate_chain u ?i = candidate_chain s ?i" by simp
  moreover have ct: "candidate_chain t ?i = candidate_chain u ?i @ [fst x]"
    using candidate_chain_add [OF t, of ?i] p(1) by simp
  moreover have "current_candidate_state u ?i = lf_expected_state q"
    using current_state_chain [OF cu] same p(3,5) by simp
  moreover have "current_candidate_state t ?i = lf_to q"
    using current_state_chain [OF learning_okD(1) [OF t'], of ?i] ct p(4) by (simp add: state_after_def)
  ultimately show ?thesis using p(6) by simp
qed

lemma planned_transition_is_atomic_witness:
  "\<exists>r t. write_ledger late_env False intake_command evidenced_learning = (Inr r, t)
     \<and> candidate_chain t ''c1'' = candidate_chain evidenced_learning ''c1'' @ [intake_transition]"
proof -
  obtain w where w: "read_ledger late_sha (lifecycle_query intake) evidenced_learning = Inr w"
    "lifecycle_plan late_sha intake w = Inr (intake_transition, intake_receipt)"
    using intake_view by blast
  obtain r t where t: "write_ledger late_env False intake_command evidenced_learning = (Inr r, t)" "\<not> lz_replayed r"
    using intake_written by blast
  have "lf_candidate_id intake = ''c1''" by (simp add: intake_def)
  then show ?thesis
    using planned_transition_is_atomic [of late_env evidenced_learning intake w "(intake_transition, intake_receipt)" False
      evidenced_learning r t] evidenced_ok w t by (simp add: intake_command_def)
qed

end
