(* ===== verification/ReleaseManager.thy ===== *)
theory ReleaseManager
  imports LearningProperties
begin

text \<open>
  Releases and rollbacks (\<open>packages/learning-lab/src/release-manager.ts\<close>): \<open>LearningReleaseManager.apply\<close> reads the
  ledger twice, checks the candidate, its canary and its approvals, and writes one release command. The two registries
  and the clock are parameters: \<open>ReleaseAuthorityRegistry\<close> and \<open>ReleaseApprovalRegistry\<close> are interfaces of the file,
  and a registry may refuse.
\<close>

subsection \<open>Requests\<close>

record release_input =
  rq_rollback :: bool
  rq_key :: ustring
  rq_principal :: string
  rq_scopes :: "scope list"
  rq_candidate_id :: string
  rq_approval_id :: string
  rq_target_release_id :: "string option"
  rq_lane_policy :: "lane_policy option"
  rq_base_configuration_hash :: string
  rq_monitor_contract_hash :: string
  rq_monitor_receipt_id :: "string option"
  rq_reason :: ustring
  rq_activated_at :: timestamp
  rq_failure :: "failure_point option"

record release_expectation =
  ex_slot_hash :: string
  ex_evaluation_receipt_id :: string
  ex_canary_receipt_id :: string
  ex_pointer_revision :: nat
  ex_control_epoch :: nat
  ex_effect_manifest_hash :: string
  ex_current_release_id :: "string option"

record release_options =
  op_request_hash :: "string option"
  op_expected :: "release_expectation option"

record release_registries =
  rg_authority :: "string \<Rightarrow> lab_error + (post_canary_approval \<times> string \<times> timestamp)"
  rg_authority_unchanged :: "post_canary_approval \<times> string \<times> timestamp \<Rightarrow> lab_error + unit"
  rg_verify :: "approval_binding \<Rightarrow> lab_error + (approval_grant \<times> string)"
  rg_unchanged :: "approval_grant \<times> string \<Rightarrow> lab_error + unit"
  rg_clock :: timestamp

definition release_failure_points :: "failure_point list" where
  "release_failure_points = [After_guard, After_canonical_effect, After_release, After_pointer, After_transition,
     After_receipt, After_approval, After_idempotency]"

fun failure_point_string :: "failure_point \<Rightarrow> string" where
  "failure_point_string After_guard = ''after_guard''"
| "failure_point_string After_transition = ''after_transition''"
| "failure_point_string After_authorization = ''after_authorization''"
| "failure_point_string After_canary_run = ''after_canary_run''"
| "failure_point_string After_control = ''after_control''"
| "failure_point_string After_canonical_effect = ''after_canonical_effect''"
| "failure_point_string After_release = ''after_release''"
| "failure_point_string After_pointer = ''after_pointer''"
| "failure_point_string After_receipt = ''after_receipt''"
| "failure_point_string After_approval = ''after_approval''"
| "failure_point_string After_idempotency = ''after_idempotency''"

definition release_input_ok :: "release_input \<Rightarrow> bool" where
  "release_input_ok q \<longleftrightarrow> idempotency_key_ok (rq_key q)
     \<and> list_all identifier_ok [rq_principal q, rq_candidate_id q, rq_approval_id q] \<and> scope_set_ok (rq_scopes q)
     \<and> opt_ok identifier_ok (rq_target_release_id q) \<and> opt_ok lane_policy_ok (rq_lane_policy q)
     \<and> canonical_hash_ok (rq_base_configuration_hash q) \<and> canonical_hash_ok (rq_monitor_contract_hash q)
     \<and> opt_ok identifier_ok (rq_monitor_receipt_id q) \<and> reason_ok (rq_reason q)
     \<and> opt_ok (\<lambda>p. p \<in> set release_failure_points) (rq_failure q)
     \<and> unique (map scope_key (rq_scopes q)) \<and> \<not> (\<not> rq_rollback q \<and> rq_target_release_id q \<noteq> None)"

definition action_string :: "bool \<Rightarrow> string" where
  "action_string rollback = (if rollback then ''rollback'' else ''release'')"

definition release_input_json :: "release_input \<Rightarrow> jval" where
  "release_input_json q = jobj
     ([(''schema_version'', jstr ''1.0.0''), (''action'', jstr (action_string (rq_rollback q))),
       (''idempotency_key'', J_str (rq_key q)), (''principal_id'', jstr (rq_principal q)),
       (''scopes'', scopes_json (rq_scopes q)), (''candidate_id'', jstr (rq_candidate_id q)),
       (''approval_id'', jstr (rq_approval_id q)), (''target_release_id'', opt_json (rq_target_release_id q)),
       (''operator_lane_policy'', nullable lane_policy_json (rq_lane_policy q)),
       (''base_configuration_hash'', jstr (rq_base_configuration_hash q)),
       (''monitor_contract_hash'', jstr (rq_monitor_contract_hash q)),
       (''monitor_receipt_id'', opt_json (rq_monitor_receipt_id q)), (''reason'', J_str (rq_reason q)),
       (''activated_at'', time_json (rq_activated_at q))]
      @ field ''test_failure_point'' (\<lambda>p. jstr (failure_point_string p)) (rq_failure q))"

definition release_request :: "release_input \<Rightarrow> release_input" where
  "release_request q = q\<lparr>rq_scopes := scope_order (rq_scopes q)\<rparr>"

definition release_hash_of :: "(jval \<Rightarrow> string) \<Rightarrow> release_input \<Rightarrow> release_options \<Rightarrow> string" where
  "release_hash_of sha q op' = (case op_request_hash op' of
     None \<Rightarrow> sha (release_input_json (release_request q)) | Some h \<Rightarrow> h)"

text \<open>\<open>learningReleaseEffectManifestHash\<close>.\<close>

definition effect_manifest_hash_of ::
  "(jval \<Rightarrow> string) \<Rightarrow> release_input \<Rightarrow> learning_candidate \<Rightarrow> string option \<Rightarrow> string \<Rightarrow> string" where
  "effect_manifest_hash_of sha q c base resulting = sha (jobj
     ([(''schema_version'', jstr ''1.0.0''), (''action'', jstr (action_string (rq_rollback q))),
       (''candidate_id'', jstr (ln_candidate_id c)), (''candidate_hash'', jstr (ln_candidate_hash c))]
      @ field ''release_slot_hash'' (\<lambda>z. jstr (rs_slot_hash z)) (ln_slot c)
      @ [(''base_release_id'', opt_json base), (''target_release_id'', opt_json (rq_target_release_id q)),
         (''base_configuration_hash'', jstr (rq_base_configuration_hash q)),
         (''resulting_configuration_hash'', jstr resulting), (''target'', target_json (ln_target c))]))"

subsection \<open>Checks over the ledger\<close>

definition slot_eligible :: "release_input \<Rightarrow> learning_candidate \<Rightarrow> release_slot \<Rightarrow> bool" where
  "slot_eligible q c z \<longleftrightarrow> ln_release_capable c \<and> rs_principal z = rq_principal q
     \<and> (case ln_target c of Policy_target p \<Rightarrow> rs_target_key z = ''default_recall'' | _ \<Rightarrow> True)
     \<and> same_scopes (ln_scopes c) (rq_scopes q) \<and> same_scopes (rs_scopes z) (rq_scopes q)"

definition release_candidate :: "release_input \<Rightarrow> ledger_view \<Rightarrow> lab_error + (learning_candidate \<times> release_slot)" where
  "release_candidate q w =
     bindE (accessible_candidate w (rq_candidate_id q)) (\<lambda>c.
     case ln_slot c of None \<Rightarrow> Inl Lab_release_ineligible
     | Some z \<Rightarrow> if slot_eligible q c z then Inr (c, z) else Inl Lab_release_ineligible)"

text \<open>The slot as the second read shows it.\<close>

record slot_status =
  sl_state :: candidate_state_row
  sl_control :: "learning_control option"
  sl_revision :: nat
  sl_active :: "string option"
  sl_current :: "release_version option"

definition slot_status_of ::
  "(jval \<Rightarrow> string) \<Rightarrow> release_input \<Rightarrow> release_slot \<Rightarrow> ledger_view \<Rightarrow> lab_error + slot_status" where
  "slot_status_of sha q z w =
     bindE (reduce_candidate_state sha (rq_candidate_id q) (lv_transitions w)) (\<lambda>x.
     bindE (guardE (\<not> (\<not> rq_rollback q \<and> sr_state x \<noteq> In_canary)) Lab_candidate_not_canary) (\<lambda>_.
     bindE (guardE (\<not> (rq_rollback q \<and> sr_state x \<noteq> Released)) Lab_rollback_not_released) (\<lambda>_.
     let k = control_of w in
     bindE (guardE (\<not> (paused_now k \<and> \<not> rq_rollback q)) Lab_learning_paused) (\<lambda>_.
     let p = List.find (\<lambda>p. pt_slot_hash p = rs_slot_hash z) (lv_pointers w);
         active = (case p of None \<Rightarrow> None | Some y \<Rightarrow> pt_active_release_id y);
         cur = (case active of None \<Rightarrow> None | Some i \<Rightarrow> List.find (\<lambda>r. rl_release_id r = i) (lv_releases w)) in
     bindE (guardE (\<not> (rq_rollback q \<and> (case cur of None \<Rightarrow> True
       | Some r \<Rightarrow> rl_candidate_id r \<noteq> rq_candidate_id q))) Lab_pointer_conflict) (\<lambda>_.
     Inr \<lparr>sl_state = x, sl_control = k, sl_revision = (case p of None \<Rightarrow> 0 | Some y \<Rightarrow> pt_revision y),
          sl_active = active, sl_current = cur\<rparr>)))))"

definition evaluation_for :: "release_input \<Rightarrow> slot_status \<Rightarrow> ledger_view \<Rightarrow> learning_receipt option" where
  "evaluation_for q y w = (case (rq_rollback q, sl_current y) of
       (True, Some r) \<Rightarrow> List.find (\<lambda>x. receipt_kind (rx_body x) = ''evaluation''
          \<and> rx_receipt_id x = rl_evaluation_receipt_id r) (lv_receipts w)
     | _ \<Rightarrow> List.find (passed_evaluation (rq_candidate_id q)) (rev (lv_receipts w)))"

definition passed_canary :: "string \<Rightarrow> learning_receipt \<Rightarrow> bool" where
  "passed_canary i r \<longleftrightarrow> (case rx_body r of Canary_receipt b \<Rightarrow> cb_candidate_id b = i \<and> cb_passed b | _ \<Rightarrow> False)"

definition canary_for :: "release_input \<Rightarrow> slot_status \<Rightarrow> ledger_view \<Rightarrow> learning_receipt option" where
  "canary_for q y w = (case (rq_rollback q, sl_current y) of
       (True, Some r) \<Rightarrow> List.find (\<lambda>x. receipt_kind (rx_body x) = ''learning_canary''
          \<and> rx_receipt_id x = rl_canary_receipt_id r) (lv_receipts w)
     | _ \<Rightarrow> List.find (passed_canary (rq_candidate_id q)) (rev (lv_receipts w)))"

text \<open>Both receipts, passed; a canary from before an abandoned drift does not count.\<close>

definition release_receipts ::
  "release_input \<Rightarrow> slot_status \<Rightarrow> ledger_view \<Rightarrow> lab_error + (learning_receipt \<times> learning_receipt)" where
  "release_receipts q y w =
     (case (evaluation_for q y w, canary_for q y w) of
        (Some ev, Some ca) \<Rightarrow>
          (case (rx_body ev, rx_body ca) of
             (Evaluation_receipt e, Canary_receipt b) \<Rightarrow>
               if \<not> eb_passed e \<or> eb_invalidated e \<or> \<not> cb_passed b then Inl Lab_release_ineligible
               else if \<not> rq_rollback q \<and> (case sl_control y of None \<Rightarrow> False
                   | Some k \<Rightarrow> lc_reason_code k = ''IN_FLIGHT_ABANDONED_AFTER_DRIFT'' \<and> cb_control_epoch b < lc_control_epoch k)
               then Inl Lab_release_ineligible
               else Inr (ev, ca)
           | _ \<Rightarrow> Inl Lab_release_ineligible)
      | _ \<Rightarrow> Inl Lab_release_ineligible)"

text \<open>What the caller says it expects of the slot.\<close>

definition expectation_met ::
  "release_input \<Rightarrow> release_expectation option \<Rightarrow> release_slot \<Rightarrow> slot_status \<Rightarrow> learning_receipt \<times> learning_receipt
     \<Rightarrow> lab_error + unit" where
  "expectation_met q ex z y rs = (case ex of None \<Rightarrow> Inr () | Some e \<Rightarrow>
     bindE (guardE (ex_slot_hash e = rs_slot_hash z \<and> ex_evaluation_receipt_id e = rx_receipt_id (fst rs)
       \<and> ex_canary_receipt_id e = rx_receipt_id (snd rs)) Lab_release_ineligible) (\<lambda>_.
     bindE (guardE (ex_pointer_revision e = sl_revision y) Lab_pointer_conflict) (\<lambda>_.
     bindE (guardE (ex_control_epoch e = epoch_of (sl_control y)) Lab_control_frontier_stale) (\<lambda>_.
     guardE (\<not> (rq_rollback q \<and> ex_current_release_id e \<noteq> None \<and> ex_current_release_id e \<noteq> sl_active y))
       Lab_pointer_conflict))))"

subsection \<open>Configurations\<close>

text \<open>\<open>#candidateConfigurationHash\<close>; a learned policy may only narrow the policy of the operator.\<close>

definition candidate_configuration_hash ::
  "(jval \<Rightarrow> string) \<Rightarrow> release_input \<Rightarrow> learning_candidate \<Rightarrow> lab_error + string" where
  "candidate_configuration_hash sha q c = (case ln_target c of
       Policy_target learned \<Rightarrow>
         (case rq_lane_policy q of None \<Rightarrow> Inl Lab_configuration_widening
          | Some p \<Rightarrow> if sha (lane_policy_json p) \<noteq> rq_base_configuration_hash q then Inl Lab_configuration_widening
              else (case compute_narrowed_lane_policy p learned of
                  Inl e \<Rightarrow> Inl Lab_configuration_widening | Inr n \<Rightarrow> Inr (sha (lane_policy_json n))))
     | t \<Rightarrow> Inr (sha (target_json t)))"

definition configuration_hash ::
  "(jval \<Rightarrow> string) \<Rightarrow> release_input \<Rightarrow> learning_candidate \<Rightarrow> ledger_view \<Rightarrow> lab_error + string" where
  "configuration_hash sha q c w =
     (if \<not> rq_rollback q then candidate_configuration_hash sha q c else
      case rq_target_release_id q of None \<Rightarrow> Inr (rq_base_configuration_hash q)
      | Some i \<Rightarrow>
         (case List.find (\<lambda>r. rl_release_id r = i) (lv_releases w) of None \<Rightarrow> Inl Lab_rollback_target_invalid
          | Some r \<Rightarrow>
             (case find_viewed w (rl_candidate_id r) of None \<Rightarrow> Inl Lab_rollback_target_invalid
              | Some k \<Rightarrow>
                 if ln_candidate_id k \<in> set (lv_invalid w) then Inl Lab_rollback_target_invalid
                 else bindE (candidate_configuration_hash sha q k) (\<lambda>h.
                   if h \<noteq> rl_configuration_hash r then Inl Lab_rollback_target_invalid
                   else Inr (rl_configuration_hash r)))))"

subsection \<open>Approvals\<close>

definition approval_details_of ::
  "release_input \<Rightarrow> release_slot \<Rightarrow> slot_status \<Rightarrow> learning_receipt \<times> learning_receipt \<Rightarrow> string \<Rightarrow> learning_details" where
  "approval_details_of q z y rs effect =
     \<lparr>ld_is_rollback = rq_rollback q, ld_candidate_id = rq_candidate_id q, ld_release_slot_hash = rs_slot_hash z,
      ld_base_release_id = sl_active y, ld_evaluation_receipt_id = rx_receipt_id (fst rs),
      ld_evaluation_receipt_hash = rx_receipt_hash (fst rs), ld_canary_receipt_id = rx_receipt_id (snd rs),
      ld_canary_receipt_hash = rx_receipt_hash (snd rs), ld_expected_pointer_revision = sl_revision y,
      ld_target_release_id = rq_target_release_id q, ld_control_epoch = epoch_of (sl_control y),
      ld_effect_manifest_hash = effect\<rparr>"

text \<open>The approval of the registry must be for exactly this release, in force when it was verified.\<close>

definition authority_matches ::
  "release_input \<Rightarrow> string \<Rightarrow> learning_details \<Rightarrow> post_canary_approval \<Rightarrow> timestamp \<Rightarrow> bool" where
  "authority_matches q h d a verified_at \<longleftrightarrow> pa_approval_id a = rq_approval_id q \<and> pa_principal a = rq_principal q
     \<and> same_scopes (pa_scopes a) (rq_scopes q) \<and> pa_details a = d \<and> pa_request_hash a = h
     \<and> \<not> epoch_ms (pa_issued_at a) > epoch_ms verified_at \<and> \<not> epoch_ms (pa_expires_at a) \<le> epoch_ms verified_at"

definition release_binding :: "release_input \<Rightarrow> string \<Rightarrow> post_canary_approval \<Rightarrow> approval_binding" where
  "release_binding q h a =
     \<lparr>bind_approval_id = pa_approval_id a, bind_principal_id = pa_principal a,
      bind_tool = (if rq_rollback q then Learning_rollback else Learning_release),
      bind_safety_class = Important_mutation, bind_scopes = scope_order (rq_scopes q), bind_request_hash = h,
      bind_learning = Some (pa_details a)\<rparr>"

subsection \<open>The artifacts of a release\<close>

definition new_release ::
  "(jval \<Rightarrow> string) \<Rightarrow> release_input \<Rightarrow> string \<Rightarrow> slot_status \<Rightarrow> post_canary_approval \<Rightarrow> string \<Rightarrow> release_version" where
  "new_release sha q h y a conf =
     (let d = pa_details a;
          r = \<lparr>rl_release_id = stable_identifier sha (action_string (rq_rollback q))
                 (jobj [(''idempotency_key'', J_str (rq_key q)), (''request_hash'', jstr h)]),
               rl_is_rollback = rq_rollback q, rl_slot_hash = ld_release_slot_hash d, rl_candidate_id = rq_candidate_id q,
               rl_previous_release_id = sl_active y,
               rl_restored_release_id = (if rq_rollback q then rq_target_release_id q else None),
               rl_evaluation_receipt_id = ld_evaluation_receipt_id d, rl_canary_receipt_id = ld_canary_receipt_id d,
               rl_approval_id = pa_approval_id a,
               rl_monitor_contract_hash = (case (rq_rollback q, sl_current y) of
                  (True, Some k) \<Rightarrow> rl_monitor_contract_hash k | _ \<Rightarrow> rq_monitor_contract_hash q),
               rl_configuration_hash = conf, rl_activated_at = rq_activated_at q, rl_release_hash = []\<rparr>
      in r\<lparr>rl_release_hash := sha (unsealed_release_json r)\<rparr>)"

definition sealed_pointer ::
  "(jval \<Rightarrow> string) \<Rightarrow> string \<Rightarrow> string option \<Rightarrow> nat \<Rightarrow> timestamp \<Rightarrow> release_pointer" where
  "sealed_pointer sha slot active n at' =
     (let p = \<lparr>pt_slot_hash = slot, pt_active_release_id = active, pt_revision = n, pt_updated_at = at',
               pt_pointer_hash = []\<rparr>
      in p\<lparr>pt_pointer_hash := sha (unsealed_pointer_json p)\<rparr>)"

definition release_transition ::
  "(jval \<Rightarrow> string) \<Rightarrow> release_input \<Rightarrow> candidate_state_row \<Rightarrow> post_canary_approval \<Rightarrow> transition" where
  "release_transition sha q x a =
     (let t = \<lparr>tn_transition_id = stable_identifier sha ''transition'' (jobj
           [(''candidate_id'', jstr (rq_candidate_id q)), (''sequence'', jnat (sr_sequence x + 1)),
            (''approval_id'', jstr (pa_approval_id a))]),
         tn_candidate_id = rq_candidate_id q, tn_sequence = sr_sequence x + 1, tn_from = sr_state x,
         tn_to = (if rq_rollback q then Rolled_back else Released), tn_previous_hash = sr_transition_hash x,
         tn_control_epoch = ld_control_epoch (pa_details a), tn_actor_id = rq_principal q,
         tn_authority_id = Some (pa_approval_id a),
         tn_reason_code = (if rq_rollback q then ''EXACT_ROLLBACK_APPROVED'' else ''POST_CANARY_RELEASE_APPROVED''),
         tn_evidence_receipt_ids = [ld_evaluation_receipt_id (pa_details a), ld_canary_receipt_id (pa_details a)]
           @ (case rq_monitor_receipt_id q of None \<Rightarrow> [] | Some i \<Rightarrow> [i]),
         tn_idempotency_key = rq_key q, tn_transitioned_at = rq_activated_at q, tn_transition_hash = []\<rparr>
      in t\<lparr>tn_transition_hash := sha (unsealed_transition_json t)\<rparr>)"

definition release_receipt_of ::
  "(jval \<Rightarrow> string) \<Rightarrow> release_input \<Rightarrow> string \<Rightarrow> post_canary_approval \<Rightarrow> release_version \<Rightarrow> release_pointer \<Rightarrow> learning_receipt" where
  "release_receipt_of sha q h a r p = seal_learning_receipt sha
     \<lparr>rx_receipt_id = stable_identifier sha (action_string (rq_rollback q) @ ''-receipt'')
        (jobj [(''release_id'', jstr (rl_release_id r)), (''request_hash'', jstr h)]),
      rx_created_at = rq_activated_at q, rx_state = (if rq_rollback q then Rs_rolled_back else Rs_durable),
      rx_request_hash = h, rx_receipt_hash = [],
      rx_body = (if rq_rollback q
        then Rollback_receipt \<lparr>bb_release_id = rl_release_id r,
          bb_rolled_back_release_id = (case rl_previous_release_id r of None \<Rightarrow> [] | Some i \<Rightarrow> i),
          bb_restored_release_id = rq_target_release_id q, bb_approval_id = pa_approval_id a,
          bb_approval_hash = pa_approval_hash a, bb_monitor_receipt_id = rq_monitor_receipt_id q,
          bb_pointer_revision = pt_revision p, bb_control_epoch = ld_control_epoch (pa_details a),
          bb_configuration_hash = rl_configuration_hash r, bb_reason = rq_reason q\<rparr>
        else Release_receipt \<lparr>xb_release_id = rl_release_id r, xb_slot_hash = rl_slot_hash r,
          xb_candidate_id = rl_candidate_id r, xb_previous_release_id = rl_previous_release_id r,
          xb_evaluation_receipt_id = rl_evaluation_receipt_id r, xb_canary_receipt_id = rl_canary_receipt_id r,
          xb_approval_id = pa_approval_id a, xb_approval_hash = pa_approval_hash a,
          xb_pointer_revision = pt_revision p, xb_control_epoch = ld_control_epoch (pa_details a),
          xb_configuration_hash = rl_configuration_hash r\<rparr>)\<rparr>"


subsection \<open>\<open>apply\<close>\<close>

record release_result =
  ra_release :: release_version
  ra_pointer :: release_pointer
  ra_transition :: transition
  ra_receipt :: learning_receipt
  ra_replayed :: bool

definition candidate_query :: "release_input \<Rightarrow> ledger_read_input" where
  "candidate_query q = \<lparr>lq_principal = rq_principal q, lq_scopes = scope_order (rq_scopes q), lq_trace = None,
     lq_candidate = Some (rq_candidate_id q), lq_slot_hash = None\<rparr>"

definition slot_query :: "release_input \<Rightarrow> release_slot \<Rightarrow> ledger_read_input" where
  "slot_query q z = \<lparr>lq_principal = rq_principal q, lq_scopes = scope_order (rq_scopes q), lq_trace = None,
     lq_candidate = None, lq_slot_hash = Some (rs_slot_hash z)\<rparr>"

definition pointer_after :: "(jval \<Rightarrow> string) \<Rightarrow> release_input \<Rightarrow> slot_status \<Rightarrow> release_version \<Rightarrow> release_pointer" where
  "pointer_after sha q y r = sealed_pointer sha (rl_slot_hash r)
     (if rq_rollback q then rq_target_release_id q else Some (rl_release_id r)) (sl_revision y + 1) (rq_activated_at q)"

text \<open>From the slot as it was read to the command: the checks, the two registries, the artifacts.\<close>

definition release_plan ::
  "(jval \<Rightarrow> string) \<Rightarrow> release_registries \<Rightarrow> release_input \<Rightarrow> release_options \<Rightarrow> learning_candidate \<Rightarrow> release_slot
     \<Rightarrow> ledger_view \<Rightarrow> lab_error + release_command" where
  "release_plan sha rg q op' c z w =
     (let h = release_hash_of sha q op' in
      bindE (slot_status_of sha q z w) (\<lambda>y.
      bindE (release_receipts q y w) (\<lambda>rs.
      bindE (expectation_met q (op_expected op') z y rs) (\<lambda>_.
      bindE (configuration_hash sha q c w) (\<lambda>conf.
      let effect = effect_manifest_hash_of sha q c (sl_active y) conf in
      bindE (guardE (case op_expected op' of None \<Rightarrow> True | Some e \<Rightarrow> ex_effect_manifest_hash e = effect) Lab_approval_invalid) (\<lambda>_.
      bindE (rg_authority rg (rq_approval_id q)) (\<lambda>au.
      let a = fst au in
      bindE (guardE (post_canary_approval_ok sha a
        \<and> authority_matches q h (approval_details_of q z y rs effect) a (snd (snd au))) Lab_approval_invalid) (\<lambda>_.
      bindE (parsed approval_binding_ok (release_binding q h a)) (\<lambda>b.
      bindE (rg_verify rg b) (\<lambda>g.
      bindE (case approval_grant_matches sha b (fst g) (rg_clock rg) of None \<Rightarrow> Inl Lab_schema_invalid
        | Some ok \<Rightarrow> guardE ok Lab_approval_invalid) (\<lambda>_.
      bindE (parsed (release_version_ok sha) (new_release sha q h y a conf)) (\<lambda>r.
      bindE (parsed (release_pointer_ok sha) (pointer_after sha q y r)) (\<lambda>p.
      bindE (parsed (transition_ok sha) (release_transition sha q (sl_state y) a)) (\<lambda>t.
      bindE (parsed (receipt_is (action_string (rq_rollback q)) sha) (release_receipt_of sha q h a r p)) (\<lambda>rc.
      bindE (rg_authority_unchanged rg au) (\<lambda>_.
      bindE (rg_unchanged rg g) (\<lambda>_.
      case expected_effect (ln_target c) of None \<Rightarrow> Inl Lab_release_ineligible
      | Some f \<Rightarrow> Inr \<lparr>rw_rollback = rq_rollback q, rw_principal = rq_principal q, rw_scopes = scope_order (rq_scopes q),
          rw_expected_epoch = epoch_of (sl_control y), rw_expected_revision = sl_revision y, rw_artifact = a,
          rw_binding = b,
          rw_approval = \<lparr>va_grant = fst g, va_registry_hash = snd g, va_verified_at = rg_clock rg\<rparr>,
          rw_effect = f, rw_release = r, rw_pointer = p, rw_transition = t, rw_receipt = rc\<rparr>)))))))))))))))))"

definition release_write :: "(jval \<Rightarrow> string) \<Rightarrow> release_input \<Rightarrow> release_options \<Rightarrow> release_command \<Rightarrow> learning_command" where
  "release_write sha q op' x = \<lparr>lw_key = rq_key q, lw_idempotency_hash = None,
     lw_request_hash = release_hash_of sha q op', lw_failure = rq_failure q, lw_write = Write_release x\<rparr>"

text \<open>\<open>#replayResult\<close>.\<close>

definition release_replay :: "(jval \<Rightarrow> string) \<Rightarrow> release_input \<Rightarrow> string \<Rightarrow> ledger_view \<Rightarrow> lab_error + release_result" where
  "release_replay sha q h w =
     (case List.find (\<lambda>r. rx_request_hash r = h \<and> receipt_kind (rx_body r) \<in> {''release'', ''rollback''}) (lv_receipts w) of
        None \<Rightarrow> Inl Lab_replay_incomplete
      | Some rc \<Rightarrow>
          bindE (guardE (receipt_kind (rx_body rc) = action_string (rq_rollback q)) Lab_replay_incomplete) (\<lambda>_.
          let (i, n) = (case rx_body rc of Release_receipt b \<Rightarrow> (xb_release_id b, xb_pointer_revision b)
                | Rollback_receipt b \<Rightarrow> (bb_release_id b, bb_pointer_revision b) | _ \<Rightarrow> ([], 0)) in
          case List.find (\<lambda>r. rl_release_id r = i) (lv_releases w) of None \<Rightarrow> Inl Lab_replay_incomplete
          | Some r \<Rightarrow>
            (case List.find (\<lambda>t. tn_authority_id t = Some (rl_approval_id r) \<and> tn_candidate_id t = rq_candidate_id q
                 \<and> tn_to t = (if rq_rollback q then Rolled_back else Released)) (lv_transitions w) of
               None \<Rightarrow> Inl Lab_replay_incomplete
             | Some t \<Rightarrow>
                 bindE (parsed (release_pointer_ok sha) (sealed_pointer sha (rl_slot_hash r)
                   (if rl_is_rollback r then rl_restored_release_id r else Some (rl_release_id r)) n (rl_activated_at r))) (\<lambda>p.
                 bindE (guardE (receipt_sealed sha rc) Lab_replay_incomplete) (\<lambda>_.
                 Inr \<lparr>ra_release = r, ra_pointer = p, ra_transition = t, ra_receipt = rc, ra_replayed = True\<rparr>)))))"

text \<open>The two reads and the plan.\<close>

definition release_reads ::
  "(jval \<Rightarrow> string) \<Rightarrow> release_registries \<Rightarrow> release_input \<Rightarrow> release_options \<Rightarrow> 'g learning_store
     \<Rightarrow> lab_error + release_command" where
  "release_reads sha rg q op' s =
     bindE (from_storage (read_ledger sha (candidate_query q) s)) (\<lambda>w1.
     bindE (release_candidate q w1) (\<lambda>(c, z).
     bindE (from_storage (read_ledger sha (slot_query q z) s)) (\<lambda>w2. release_plan sha rg q op' c z w2)))"

definition apply_release ::
  "'g governance_env \<Rightarrow> bool \<Rightarrow> release_registries \<Rightarrow> release_input \<Rightarrow> release_options \<Rightarrow> 'g learning_store
     \<Rightarrow> (lab_error + release_result) \<times> 'g learning_store" where
  "apply_release v test rg q op' s =
     (let sha = env_sha v; h = release_hash_of sha q op' in
      if \<not> release_input_ok q \<or> \<not> canonical_hash_ok h then (Inl Lab_schema_invalid, s) else
      case replay_ledger s (rq_key q) h of
        Inl e \<Rightarrow> (Inl (Lab_storage e), s)
      | Inr (Some z) \<Rightarrow>
          (if lz_kind z \<notin> {''release'', ''rollback''} then Inl Lab_replay_incomplete
           else bindE (from_storage (read_ledger sha (candidate_query q) s)) (release_replay sha q h), s)
      | Inr None \<Rightarrow>
          (case release_reads sha rg q op' s of
             Inl e \<Rightarrow> (Inl e, s)
           | Inr x \<Rightarrow>
               (case write_ledger v test (release_write sha q op' x) s of
                  (Inl e, s') \<Rightarrow> (Inl (Lab_storage e), s')
                | (Inr res, s') \<Rightarrow> (Inr \<lparr>ra_release = rw_release x, ra_pointer = rw_pointer x,
                    ra_transition = rw_transition x, ra_receipt = rw_receipt x, ra_replayed = False\<rparr>, s'))))"

end
