(* ===== verification/CanaryRunner.thy ===== *)
theory CanaryRunner
  imports ReleaseManager
begin

text \<open>
  Canaries (\<open>packages/learning-lab/src/canary-runner.ts\<close>): \<open>LearningCanaryRunner.run\<close> checks the candidate and its
  authorization, exposes three cases one after the other, watches the ledger between them, and records the outcome. The
  authority registry, the partition loader, the executor, the state probe and the clock are collaborators the class is
  given; executing a case, probing and reading the clock take time, in which the ledger may change, so they are
  functions on the ledger and a state of their own.
\<close>

subsection \<open>Dates\<close>

text \<open>\<open>new Date(ms).toISOString()\<close>: the proleptic Gregorian date of a number of days since 1970; outside of the range of
  dates it throws.\<close>

definition civil_of_days :: "int \<Rightarrow> int \<times> int \<times> int" where
  "civil_of_days days =
     (let z = days + 719468; era = z div 146097; doe = z mod 146097;
          yoe = (doe - doe div 1460 + doe div 36524 - doe div 146096) div 365;
          doy = doe - (365 * yoe + yoe div 4 - yoe div 100); mp = (5 * doy + 2) div 153;
          d = doy - (153 * mp + 2) div 5 + 1; m = (if mp < 10 then mp + 3 else mp - 9) in
      (yoe + era * 400 + (if m \<le> 2 then 1 else 0), m, d))"

fun pad_digits :: "nat \<Rightarrow> nat \<Rightarrow> string" where
  "pad_digits 0 n = []"
| "pad_digits (Suc k) n = pad_digits k (n div 10) @ [char_of (48 + n mod 10)]"

definition year_string :: "int \<Rightarrow> string" where
  "year_string y = (if 0 \<le> y \<and> y \<le> 9999 then pad_digits 4 (nat y)
     else (if y < 0 then ''-'' else ''+'') @ pad_digits 6 (nat \<bar>y\<bar>))"

definition iso_string :: "int \<Rightarrow> string option" where
  "iso_string ms =
     (if \<bar>ms\<bar> > 8640000000000000 then None else
      let (y, m, d) = civil_of_days (ms div 86400000); t = ms mod 86400000 in
      Some (year_string y @ ''-'' @ pad_digits 2 (nat m) @ ''-'' @ pad_digits 2 (nat d) @ ''T''
        @ pad_digits 2 (nat (t div 3600000)) @ '':'' @ pad_digits 2 (nat (t div 60000 mod 60)) @ '':''
        @ pad_digits 2 (nat (t div 1000 mod 60)) @ ''.'' @ pad_digits 3 (nat (t mod 1000)) @ ''Z''))"

subsection \<open>Requests and collaborators\<close>

record canary_input =
  yq_key :: ustring
  yq_principal :: string
  yq_scopes :: "scope list"
  yq_candidate_id :: string
  yq_authorization_id :: string
  yq_manifest :: canary_manifest
  yq_started_at :: timestamp

definition canary_input_ok :: "(jval \<Rightarrow> string) \<Rightarrow> canary_input \<Rightarrow> bool" where
  "canary_input_ok sha q \<longleftrightarrow> idempotency_key_ok (yq_key q)
     \<and> list_all identifier_ok [yq_principal q, yq_candidate_id q, yq_authorization_id q] \<and> scope_set_ok (yq_scopes q)
     \<and> canary_manifest_ok sha (yq_manifest q) \<and> unique (map scope_key (yq_scopes q))"

definition canary_input_json :: "canary_input \<Rightarrow> jval" where
  "canary_input_json q = jobj
     [(''schema_version'', jstr ''1.0.0''), (''idempotency_key'', J_str (yq_key q)),
      (''principal_id'', jstr (yq_principal q)), (''scopes'', scopes_json (yq_scopes q)),
      (''candidate_id'', jstr (yq_candidate_id q)), (''authorization_id'', jstr (yq_authorization_id q)),
      (''canary_manifest'', jobj (manifest_fields (yq_manifest q)
         @ [(''manifest_hash'', jstr (cm_manifest_hash (yq_manifest q)))])),
      (''started_at'', time_json (yq_started_at q))]"

definition canary_hash :: "(jval \<Rightarrow> string) \<Rightarrow> canary_input \<Rightarrow> string" where
  "canary_hash sha q = sha (canary_input_json (q\<lparr>yq_scopes := scope_order (yq_scopes q)\<rparr>))"

text \<open>A case as the loader returns it: the identity of its descriptor, the identity its body states, the rest.\<close>

record 'c loaded_case =
  gc_case_id :: string
  gc_case_hash :: string
  gc_body_case_id :: string
  gc_content :: 'c

record case_request =
  kq_run_id :: string
  kq_candidate_id :: string
  kq_stable_release_id :: "string option"
  kq_initial_hash :: string

record case_execution =
  kx_case_id :: string
  kx_comparator :: "string option"
  kx_passed :: bool
  kx_failure_codes :: "string list"
  kx_initial_hash :: string
  kx_final_hash :: string

definition case_execution_ok :: "case_execution \<Rightarrow> bool" where
  "case_execution_ok x \<longleftrightarrow> identifier_ok (kx_case_id x) \<and> opt_ok identifier_ok (kx_comparator x)
     \<and> list_all reason_code_ok (kx_failure_codes x) \<and> canonical_hash_ok (kx_initial_hash x)
     \<and> canonical_hash_ok (kx_final_hash x) \<and> unique (kx_failure_codes x)
     \<and> \<not> (kx_passed x \<and> kx_failure_codes x \<noteq> [])"

type_synonym ('g, 'w) world = "'g learning_store \<times> 'w"

text \<open>\<open>executeCase\<close> throws, or returns a value for the schema.\<close>

record ('g, 'c, 'w) canary_collaborators =
  kc_authority :: "string \<Rightarrow> lab_error + (canary_authorization \<times> string \<times> timestamp)"
  kc_unchanged :: "canary_authorization \<times> string \<times> timestamp \<Rightarrow> lab_error + unit"
  kc_cases :: "candidate_state \<Rightarrow> lab_error + 'c loaded_case list"
  kc_execute :: "case_request \<Rightarrow> 'c loaded_case \<Rightarrow> ('g, 'w) world \<Rightarrow> case_execution option \<times> ('g, 'w) world"
  kc_probe :: "('g, 'w) world \<Rightarrow> string \<times> ('g, 'w) world"
  kc_clock :: "('g, 'w) world \<Rightarrow> timestamp \<times> ('g, 'w) world"

definition canary_query :: "canary_input \<Rightarrow> ledger_read_input" where
  "canary_query q = \<lparr>lq_principal = yq_principal q, lq_scopes = scope_order (yq_scopes q), lq_trace = None,
     lq_candidate = Some (yq_candidate_id q), lq_slot_hash = None\<rparr>"

subsection \<open>Before the cases\<close>

text \<open>What the first read establishes.\<close>

record canary_basis =
  cbs_view :: ledger_view
  cbs_candidate :: learning_candidate
  cbs_slot :: release_slot
  cbs_state :: candidate_state_row
  cbs_evaluation :: learning_receipt
  cbs_identity :: evaluation_identity
  cbs_active :: "string option"

text \<open>\<open>#assertManifestIdentity\<close>.\<close>

definition manifest_fits :: "canary_manifest \<Rightarrow> string \<Rightarrow> string option \<Rightarrow> evaluation_identity \<Rightarrow> bool" where
  "manifest_fits m i active e \<longleftrightarrow> cm_candidate_id m = i \<and> cm_stable_release_id m = active
     \<and> cm_environment_hash m = ei_environment_hash e \<and> cm_configuration_hash m = ei_retrieval_configuration_hash e
     \<and> cm_runtime_identity_hash m = ei_runtime_identity_hash e"

definition receipt_run_id :: "learning_receipt \<Rightarrow> string option" where
  "receipt_run_id r = (case rx_body r of Evaluation_receipt b \<Rightarrow> Some (eb_run_id b) | _ \<Rightarrow> None)"

definition canary_basis_of ::
  "(jval \<Rightarrow> string) \<Rightarrow> canary_input \<Rightarrow> ledger_view \<Rightarrow> lab_error + canary_basis" where
  "canary_basis_of sha q w =
     (let i = yq_candidate_id q; m = yq_manifest q in
      bindE (accessible_candidate w i) (\<lambda>c.
      bindE (reduce_candidate_state sha (ln_candidate_id c) (lv_transitions w)) (\<lambda>x.
      bindE (guardE (sr_state x = Approved_for_canary) Lab_candidate_not_approved) (\<lambda>_.
      case (ln_release_capable c, ln_slot c, List.find (passed_evaluation i) (rev (lv_receipts w))) of
        (True, Some z, Some ev) \<Rightarrow>
          (case List.find (\<lambda>e. Some (ei_run_id e) = receipt_run_id ev) (lv_identities w) of
             None \<Rightarrow> Inl Lab_evaluation_ineligible
           | Some e \<Rightarrow>
               bindE (guardE (\<not> paused_now (control_of w)) Lab_learning_paused) (\<lambda>_.
               bindE (guardE (epoch_of (control_of w) = cm_control_epoch m) Lab_control_frontier_stale) (\<lambda>_.
               let active = (case List.find (\<lambda>p. pt_slot_hash p = rs_slot_hash z) (lv_pointers w) of
                     None \<Rightarrow> None | Some p \<Rightarrow> pt_active_release_id p) in
               bindE (guardE (manifest_fits m (ln_candidate_id c) active e) Lab_configuration_drift) (\<lambda>_.
               Inr \<lparr>cbs_view = w, cbs_candidate = c, cbs_slot = z, cbs_state = x, cbs_evaluation = ev, cbs_identity = e,
                    cbs_active = active\<rparr>))))
      | _ \<Rightarrow> Inl Lab_evaluation_ineligible))))"

text \<open>The authorization the request calls for: the actual one with every field that is known replaced and sealed again.\<close>

definition expected_authorization ::
  "(jval \<Rightarrow> string) \<Rightarrow> canary_input \<Rightarrow> canary_basis \<Rightarrow> canary_authorization \<Rightarrow> canary_authorization option" where
  "expected_authorization sha q y a =
     (let m = yq_manifest q; ms = epoch_ms (yq_started_at q) + int (cm_maximum_duration_ms m) in
      case iso_string ms of None \<Rightarrow> None | Some text' \<Rightarrow>
        (let x = a\<lparr>au_authorization_id := yq_authorization_id q, au_principal := yq_principal q,
               au_scopes := scope_order (yq_scopes q), au_candidate_id := ln_candidate_id (cbs_candidate y),
               au_release_slot_hash := rs_slot_hash (cbs_slot y), au_base_release_id := cbs_active y,
               au_evaluation_receipt_id := rx_receipt_id (cbs_evaluation y),
               au_evaluation_receipt_hash := rx_receipt_hash (cbs_evaluation y),
               au_canary_manifest_id := cm_manifest_id m, au_canary_manifest_hash := cm_manifest_hash m,
               au_case_hashes := cm_case_hashes m, au_deadline_at := Timestamp text' ms,
               au_control_epoch := cm_control_epoch m, au_request_hash := canary_hash sha q\<rparr>;
             z = x\<lparr>au_authorization_hash := sha (unsealed_authorization_json x)\<rparr> in
         if canary_authorization_ok sha z then Some z else None))"

definition authorization_json :: "canary_authorization \<Rightarrow> jval" where
  "authorization_json a = with_seal ''authorization_hash'' (au_authorization_hash a) (unsealed_authorization_json a)"

definition authorized ::
  "(jval \<Rightarrow> string) \<Rightarrow> canary_input \<Rightarrow> canary_basis \<Rightarrow> canary_authorization \<Rightarrow> timestamp \<Rightarrow> bool" where
  "authorized sha q y a verified_at \<longleftrightarrow> canary_authorization_ok sha a
     \<and> (case expected_authorization sha q y a of None \<Rightarrow> False | Some x \<Rightarrow> authorization_json x = authorization_json a)
     \<and> \<not> epoch_ms (au_issued_at a) > epoch_ms verified_at \<and> \<not> epoch_ms (au_expires_at a) \<le> epoch_ms verified_at"

definition cases_fit :: "canary_manifest \<Rightarrow> 'c loaded_case list \<Rightarrow> bool" where
  "cases_fit m cs \<longleftrightarrow> length cs = 3 \<and> map gc_case_id cs = cm_case_ids m \<and> map gc_case_hash cs = cm_case_hashes m"

subsection \<open>The cases\<close>

text \<open>The failure codes of one execution.\<close>

definition case_codes :: "case_request \<Rightarrow> 'c loaded_case \<Rightarrow> case_execution \<Rightarrow> string list" where
  "case_codes r k x = (if kx_case_id x \<noteq> gc_body_case_id k then [''CASE_IDENTITY_DRIFT''] else [])
     @ (if kx_comparator x \<noteq> kq_stable_release_id r then [''STABLE_COMPARATOR_DRIFT''] else [])
     @ (if kx_initial_hash x \<noteq> kq_initial_hash r \<or> kx_final_hash x \<noteq> kq_initial_hash r then [''CANARY_STATE_DRIFT''] else [])
     @ (if kx_passed x then [] else kx_failure_codes x @ [''CANARY_CASE_FAILED:'' @ kx_case_id x])"

definition pointer_json :: "release_pointer \<Rightarrow> jval" where
  "pointer_json p = with_seal ''pointer_hash'' (pt_pointer_hash p) (unsealed_pointer_json p)"

definition control_json_of :: "learning_control \<Rightarrow> jval" where
  "control_json_of c = jobj
     [(''schema_version'', jstr ''1.0.0''), (''principal_id'', jstr (lc_principal c)),
      (''status'', jstr (if lc_paused c then ''paused'' else ''active'')), (''control_epoch'', jnat (lc_control_epoch c)),
      (''reason_code'', jstr (lc_reason_code c)), (''actor_id'', jstr (lc_actor_id c)),
      (''changed_at'', time_json (lc_changed_at c)), (''frontier_hash'', jstr (lc_frontier_hash c)),
      (''runtime_identity_hash'', jstr (lc_runtime_identity_hash c)),
      (''configuration_hash'', jstr (lc_configuration_hash c)), (''corpus_hash'', jstr (lc_corpus_hash c))]"

definition candidate_json :: "learning_candidate \<Rightarrow> jval" where
  "candidate_json c = with_seal ''candidate_hash'' (ln_candidate_hash c) (unsealed_candidate_json c)"

text \<open>What the live ledger says after a case: nothing, or the code that ends the canary.\<close>

definition live_code ::
  "(jval \<Rightarrow> string) \<Rightarrow> canary_input \<Rightarrow> canary_basis \<Rightarrow> ledger_view \<Rightarrow> lab_error + string option" where
  "live_code sha q y w =
     (if paused_now (control_of w) then Inr (Some ''LEARNING_PAUSED'')
      else if epoch_of (control_of w) \<noteq> cm_control_epoch (yq_manifest q) then Inr (Some ''CONTROL_FRONTIER_DRIFT'')
      else if map pointer_json (lv_pointers w) \<noteq> map pointer_json (lv_pointers (cbs_view y))
      then Inr (Some ''CANARY_LEDGER_DRIFT'')
      else bindE (reduce_candidate_state sha (ln_candidate_id (cbs_candidate y)) (lv_transitions w)) (\<lambda>x.
        Inr (if sr_transition_hash x \<noteq> sr_transition_hash (cbs_state y) then Some ''CANARY_LEDGER_DRIFT'' else None)))"

text \<open>The loop: it stops at the deadline, at an executor that throws, and at a ledger that changed. It returns the codes
  and the exposures.\<close>

fun expose_cases ::
  "(jval \<Rightarrow> string) \<Rightarrow> ('g, 'c, 'w) canary_collaborators \<Rightarrow> canary_input \<Rightarrow> canary_basis \<Rightarrow> case_request \<Rightarrow> timestamp
     \<Rightarrow> 'c loaded_case list \<Rightarrow> string list \<times> nat \<Rightarrow> ('g, 'w) world
     \<Rightarrow> (lab_error + (string list \<times> nat)) \<times> ('g, 'w) world" where
  "expose_cases sha kc q y r deadline [] acc u = (Inr acc, u)"
| "expose_cases sha kc q y r deadline (k # ks) (codes, n) u =
     (let (now, u1) = kc_clock kc u in
      if epoch_ms now > epoch_ms deadline then (Inr (codes @ [''CANARY_TIMEOUT''], n), u1) else
      case kc_execute kc r k u1 of (res, u2) \<Rightarrow>
        (case (case res of None \<Rightarrow> None | Some x \<Rightarrow> if case_execution_ok x then Some x else None) of
           None \<Rightarrow> (Inr (codes @ [''CANARY_EXECUTION_ERROR:'' @ gc_body_case_id k], n + 1), u2)
         | Some x \<Rightarrow>
             (case bindE (from_storage (read_ledger sha (canary_query q) (fst u2))) (live_code sha q y) of
                Inl e \<Rightarrow> (Inl e, u2)
              | Inr (Some code) \<Rightarrow> (Inr (codes @ case_codes r k x @ [code], n + 1), u2)
              | Inr None \<Rightarrow> expose_cases sha kc q y r deadline ks (codes @ case_codes r k x, n + 1) u2)))"

subsection \<open>After the cases\<close>

definition closing_codes :: "canary_basis \<Rightarrow> ledger_view \<Rightarrow> bool \<Rightarrow> bool \<Rightarrow> string list" where
  "closing_codes y w state_moved late =
     (if state_moved then [''CANARY_STATE_DRIFT''] else [])
     @ (if paused_now (control_of w) then [''LEARNING_PAUSED'']
        else if map control_json_of (lv_controls w) \<noteq> map control_json_of (lv_controls (cbs_view y))
        then [''CONTROL_FRONTIER_DRIFT''] else [])
     @ (if map pointer_json (lv_pointers w) \<noteq> map pointer_json (lv_pointers (cbs_view y))
          \<or> map candidate_json (lv_candidates w) \<noteq> map candidate_json (lv_candidates (cbs_view y))
        then [''CANARY_LEDGER_DRIFT''] else [])
     @ (if late then [''CANARY_TIMEOUT''] else [])"

definition mentions :: "string \<Rightarrow> string \<Rightarrow> bool" where
  "mentions word s \<longleftrightarrow> (\<exists>n \<in> set [0..<Suc (length s)]. take (length word) (drop n s) = word)"

definition terminal_status :: "nat \<Rightarrow> string list \<Rightarrow> run_status" where
  "terminal_status n codes =
     (if n = 3 \<and> codes = [] then Run_passed
      else if list_ex (\<lambda>c. mentions ''DRIFT'' c \<or> c = ''LEARNING_PAUSED'') codes then Run_frozen
      else if ''CANARY_TIMEOUT'' \<in> set codes then Run_aborted else Run_failed)"

definition new_run ::
  "(jval \<Rightarrow> string) \<Rightarrow> canary_input \<Rightarrow> canary_basis \<Rightarrow> canary_authorization \<Rightarrow> string \<Rightarrow> nat \<Rightarrow> string list \<Rightarrow> canary_run" where
  "new_run sha q y a i n codes =
     (let m = yq_manifest q;
          r = \<lparr>cu_run_id = i, cu_candidate_id = ln_candidate_id (cbs_candidate y), cu_authorization_id = au_authorization_id a,
               cu_manifest_hash = cm_manifest_hash m, cu_stable_release_id = cbs_active y, cu_started_at = yq_started_at q,
               cu_deadline_at = au_deadline_at a, cu_control_epoch = cm_control_epoch m,
               cu_status = terminal_status n codes, cu_exposure_count = n, cu_run_hash = []\<rparr>
      in r\<lparr>cu_run_hash := sha (unsealed_run_json r)\<rparr>)"

definition canary_receipt_of ::
  "(jval \<Rightarrow> string) \<Rightarrow> canary_input \<Rightarrow> canary_basis \<Rightarrow> canary_authorization \<Rightarrow> canary_run \<Rightarrow> string list \<Rightarrow> timestamp \<Rightarrow> learning_receipt" where
  "canary_receipt_of sha q y a r codes now = seal_learning_receipt sha
     \<lparr>rx_receipt_id = stable_identifier sha ''canary-receipt'' (jobj
        [(''canary_run_id'', jstr (cu_run_id r)), (''run_hash'', jstr (cu_run_hash r))]),
      rx_created_at = now, rx_state = Rs_durable, rx_request_hash = canary_hash sha q, rx_receipt_hash = [],
      rx_body = Canary_receipt \<lparr>cb_candidate_id = ln_candidate_id (cbs_candidate y),
        cb_authorization_id = au_authorization_id a, cb_authorization_hash = au_authorization_hash a,
        cb_evaluation_receipt_id = rx_receipt_id (cbs_evaluation y), cb_manifest_hash = cm_manifest_hash (yq_manifest q),
        cb_exposures = cu_exposure_count r, cb_passed = (cu_status r = Run_passed), cb_failure_codes = codes,
        cb_control_epoch = cm_control_epoch (yq_manifest q)\<rparr>\<rparr>"

text \<open>\<open>#canaryTransition\<close>.\<close>

definition canary_transition ::
  "(jval \<Rightarrow> string) \<Rightarrow> canary_input \<Rightarrow> canary_basis \<Rightarrow> canary_authorization \<Rightarrow> string \<Rightarrow> transition" where
  "canary_transition sha q y a receipt =
     (let x = cbs_state y;
          t = \<lparr>tn_transition_id = stable_identifier sha ''transition'' (jobj
                 [(''candidate_id'', jstr (yq_candidate_id q)), (''sequence'', jnat (sr_sequence x + 1)),
                  (''authorization_id'', jstr (au_authorization_id a))]),
               tn_candidate_id = yq_candidate_id q, tn_sequence = sr_sequence x + 1, tn_from = Approved_for_canary,
               tn_to = In_canary, tn_previous_hash = sr_transition_hash x, tn_control_epoch = au_control_epoch a,
               tn_actor_id = ''learning_canary_runner'', tn_authority_id = Some (au_authorization_id a),
               tn_reason_code = ''G5_CANARY_EXECUTED'',
               tn_evidence_receipt_ids = [rx_receipt_id (cbs_evaluation y), receipt], tn_idempotency_key = yq_key q,
               tn_transitioned_at = yq_started_at q, tn_transition_hash = []\<rparr>
      in t\<lparr>tn_transition_hash := sha (unsealed_transition_json t)\<rparr>)"


subsection \<open>\<open>run\<close>\<close>

record canary_result =
  yr_authorization :: canary_authorization
  yr_transition :: transition
  yr_run :: canary_run
  yr_receipt :: learning_receipt
  yr_replayed :: bool

text \<open>\<open>#replayResult\<close>.\<close>

definition canary_replay :: "(jval \<Rightarrow> string) \<Rightarrow> canary_input \<Rightarrow> ledger_view \<Rightarrow> lab_error + canary_result" where
  "canary_replay sha q w =
     (let i = yq_authorization_id q in
      case (List.find (\<lambda>a. au_authorization_id a = i) (lv_authorizations w),
            List.find (\<lambda>r. cu_authorization_id r = i) (lv_runs w),
            List.find (\<lambda>r. case rx_body r of Canary_receipt b \<Rightarrow> cb_authorization_id b = i | _ \<Rightarrow> False) (lv_receipts w),
            List.find (\<lambda>t. tn_authority_id t = Some i \<and> tn_to t = In_canary) (lv_transitions w)) of
        (Some a, Some r, Some rc, Some t) \<Rightarrow>
          if rx_request_hash rc \<noteq> canary_hash sha q then Inl Lab_replay_incomplete
          else Inr \<lparr>yr_authorization = a, yr_transition = t, yr_run = r, yr_receipt = rc, yr_replayed = True\<rparr>
      | _ \<Rightarrow> Inl Lab_replay_incomplete)"

text \<open>The outcome of the cases: codes, exposures, and the world when they are known.\<close>

definition canary_outcome ::
  "(jval \<Rightarrow> string) \<Rightarrow> ('g, 'c, 'w) canary_collaborators \<Rightarrow> canary_input \<Rightarrow> canary_basis \<Rightarrow> canary_authorization \<Rightarrow> string
     \<Rightarrow> ('g, 'w) world \<Rightarrow> (lab_error + (string list \<times> nat)) \<times> ('g, 'w) world" where
  "canary_outcome sha kc q y a i u =
     (let (start, u1) = kc_probe kc u in
      if \<not> canonical_hash_ok start then (Inl Lab_schema_invalid, u1)
      else if start \<noteq> cm_environment_hash (yq_manifest q) then (Inl Lab_configuration_drift, u1) else
      case kc_cases kc (sr_state (cbs_state y)) of
        Inl e \<Rightarrow> (Inl e, u1)
      | Inr cs \<Rightarrow>
          if \<not> cases_fit (yq_manifest q) cs then (Inl Lab_configuration_drift, u1) else
          (case expose_cases sha kc q y \<lparr>kq_run_id = i, kq_candidate_id = ln_candidate_id (cbs_candidate y),
                kq_stable_release_id = cbs_active y, kq_initial_hash = start\<rparr> (au_deadline_at a) cs ([], 0) u1 of
             (Inl e, u2) \<Rightarrow> (Inl e, u2)
           | (Inr (codes, n), u2) \<Rightarrow>
               (case from_storage (read_ledger sha (canary_query q) (fst u2)) of
                  Inl e \<Rightarrow> (Inl e, u2)
                | Inr w \<Rightarrow>
                    (let (final, u3) = kc_probe kc u2 in
                     if \<not> canonical_hash_ok final then (Inl Lab_schema_invalid, u3) else
                     let (now, u4) = kc_clock kc u3 in
                     (Inr (sort (js_set (codes @ closing_codes y w (final \<noteq> start)
                        (epoch_ms now > epoch_ms (au_deadline_at a)))), n), u4)))))"

definition canary_write :: "(jval \<Rightarrow> string) \<Rightarrow> canary_input \<Rightarrow> canary_authorization \<Rightarrow> transition \<Rightarrow> canary_run \<Rightarrow> learning_receipt
    \<Rightarrow> learning_command" where
  "canary_write sha q a t r rc = hashed_command sha (yq_key q) (canary_hash sha q) (Write_canary
     \<lparr>yw_principal = yq_principal q, yw_scopes = scope_order (yq_scopes q), yw_authorization = a, yw_transition = t,
      yw_run = r, yw_receipt = rc\<rparr>)"

text \<open>From the authorization to the command.\<close>

definition canary_record ::
  "'g governance_env \<Rightarrow> bool \<Rightarrow> ('g, 'c, 'w) canary_collaborators \<Rightarrow> canary_input \<Rightarrow> canary_basis
     \<Rightarrow> canary_authorization \<times> string \<times> timestamp \<Rightarrow> ('g, 'w) world
     \<Rightarrow> (lab_error + canary_result) \<times> ('g, 'w) world" where
  "canary_record v test kc q y au u =
     (let sha = env_sha v; a = fst au;
          i = stable_identifier sha ''canary'' (jobj [(''candidate_id'', jstr (ln_candidate_id (cbs_candidate y))),
            (''authorization_id'', jstr (au_authorization_id a)), (''idempotency_key'', J_str (yq_key q))]) in
      case canary_outcome sha kc q y a i u of
        (Inl e, u1) \<Rightarrow> (Inl e, u1)
      | (Inr (codes, n), u1) \<Rightarrow>
          (let r = new_run sha q y a i n codes; (now, u2) = kc_clock kc u1;
               rc = canary_receipt_of sha q y a r codes now;
               t = canary_transition sha q y a (rx_receipt_id rc) in
           if \<not> canary_run_ok sha r \<or> \<not> receipt_is ''learning_canary'' sha rc \<or> \<not> transition_ok sha t
           then (Inl Lab_schema_invalid, if canary_run_ok sha r then u2 else u1) else
           case kc_unchanged kc au of
             Inl e \<Rightarrow> (Inl e, u2)
           | Inr _ \<Rightarrow>
               (case write_ledger v test (canary_write sha q a t r rc) (fst u2) of
                  (Inl e, s') \<Rightarrow> (Inl (Lab_storage e), (s', snd u2))
                | (Inr res, s') \<Rightarrow> (Inr \<lparr>yr_authorization = a, yr_transition = t, yr_run = r, yr_receipt = rc,
                    yr_replayed = False\<rparr>, (s', snd u2)))))"

definition run_canary ::
  "'g governance_env \<Rightarrow> bool \<Rightarrow> ('g, 'c, 'w) canary_collaborators \<Rightarrow> canary_input \<Rightarrow> ('g, 'w) world
     \<Rightarrow> (lab_error + canary_result) \<times> ('g, 'w) world" where
  "run_canary v test kc q u =
     (let sha = env_sha v; h = canary_hash sha q; s = fst u in
      if \<not> canary_input_ok sha q then (Inl Lab_schema_invalid, u) else
      case replay_ledger s (yq_key q) h of
        Inl e \<Rightarrow> (Inl (Lab_storage e), u)
      | Inr (Some z) \<Rightarrow>
          (if lz_kind z \<noteq> ''canary'' then Inl Lab_replay_incomplete
           else bindE (from_storage (read_ledger sha (canary_query q) s)) (canary_replay sha q), u)
      | Inr None \<Rightarrow>
          (case bindE (from_storage (read_ledger sha (canary_query q) s)) (canary_basis_of sha q) of
             Inl e \<Rightarrow> (Inl e, u)
           | Inr y \<Rightarrow>
               (case kc_authority kc (yq_authorization_id q) of
                  Inl e \<Rightarrow> (Inl e, u)
                | Inr au \<Rightarrow>
                    if authorized sha q y (fst au) (snd (snd au)) then canary_record v test kc q y au u
                    else (Inl Lab_authorization_invalid, u))))"

subsection \<open>What a canary that passed has seen\<close>

text \<open>The codes only grow.\<close>

lemma expose_cases_codes:
  "expose_cases sha kc q y r dl ks (codes, n) u = (Inr (codes', n'), u') \<Longrightarrow> \<exists>more. codes' = codes @ more \<and> n \<le> n' \<and> n' \<le> n + length ks"
proof (induction ks arbitrary: codes n u)
  case (Cons k ks)
  obtain now u1 where c: "kc_clock kc u = (now, u1)" by (rule prod.exhaust)
  obtain res u2 where e: "kc_execute kc r k u1 = (res, u2)" by (rule prod.exhaust)
  show ?case
  proof (cases "epoch_ms now > epoch_ms dl")
    case True
    then show ?thesis using Cons.prems by (auto simp: c)
  next
    case False
    show ?thesis
    proof (cases "case res of None \<Rightarrow> None | Some x \<Rightarrow> if case_execution_ok x then Some x else None")
      case None
      then show ?thesis using Cons.prems False by (auto simp: c e)
    next
      case (Some x)
      show ?thesis
      proof (cases "bindE (from_storage (read_ledger sha (canary_query q) (fst u2))) (live_code sha q y)")
        case (Inl er)
        then show ?thesis using Cons.prems False Some by (simp add: c e)
      next
        case (Inr code)
        show ?thesis
        proof (cases code)
          case None
          then have "expose_cases sha kc q y r dl ks (codes @ case_codes r k x, n + 1) u2 = (Inr (codes', n'), u')"
            using Cons.prems False Some Inr by (simp add: c e)
          from Cons.IH [OF this] show ?thesis by auto
        next
          case (Some code')
          then show ?thesis using Cons.prems False \<open>(case res of None \<Rightarrow> None | Some x \<Rightarrow> if case_execution_ok x then Some x else None) = Some x\<close> Inr
            by (auto simp: c e)
        qed
      qed
    qed
  qed
qed simp

text \<open>An execution of one case that gives no code.\<close>

definition clean_case :: "case_request \<Rightarrow> 'c loaded_case \<Rightarrow> case_execution \<Rightarrow> bool" where
  "clean_case r k x \<longleftrightarrow> case_execution_ok x \<and> kx_case_id x = gc_body_case_id k \<and> kx_comparator x = kq_stable_release_id r
     \<and> kx_initial_hash x = kq_initial_hash r \<and> kx_final_hash x = kq_initial_hash r \<and> kx_passed x"

lemma case_codes_clean: "case_codes r k x = [] \<Longrightarrow> case_execution_ok x \<Longrightarrow> clean_case r k x"
  by (auto simp: case_codes_def clean_case_def split: if_splits)

text \<open>Cases that were exposed one after the other, each in time, each clean, on a ledger that did not move.\<close>

inductive exposed_cleanly ::
  "(jval \<Rightarrow> string) \<Rightarrow> ('g, 'c, 'w) canary_collaborators \<Rightarrow> canary_input \<Rightarrow> canary_basis \<Rightarrow> case_request \<Rightarrow> timestamp
     \<Rightarrow> 'c loaded_case list \<Rightarrow> ('g, 'w) world \<Rightarrow> ('g, 'w) world \<Rightarrow> bool" for sha kc q y r dl where
  none: "exposed_cleanly sha kc q y r dl [] u u"
| case_passed: "kc_clock kc u = (now, u1) \<Longrightarrow> epoch_ms now \<le> epoch_ms dl \<Longrightarrow> kc_execute kc r k u1 = (Some x, u2)
     \<Longrightarrow> clean_case r k x \<Longrightarrow> read_ledger sha (canary_query q) (fst u2) = Inr w \<Longrightarrow> live_code sha q y w = Inr None
     \<Longrightarrow> exposed_cleanly sha kc q y r dl ks u2 u' \<Longrightarrow> exposed_cleanly sha kc q y r dl (k # ks) u u'"

lemma expose_cases_clean:
  "expose_cases sha kc q y r dl ks (codes, n) u = (Inr ([], n'), u') \<Longrightarrow> n' = n + length ks
     \<Longrightarrow> exposed_cleanly sha kc q y r dl ks u u'"
proof (induction ks arbitrary: codes n u)
  case Nil
  then show ?case by (simp add: none)
next
  case (Cons k ks)
  obtain now u1 where c: "kc_clock kc u = (now, u1)" by (rule prod.exhaust)
  obtain res u2 where e: "kc_execute kc r k u1 = (res, u2)" by (rule prod.exhaust)
  have late: "\<not> epoch_ms now > epoch_ms dl" using Cons.prems by (auto simp: c)
  obtain x where x: "(case res of None \<Rightarrow> None | Some x \<Rightarrow> if case_execution_ok x then Some x else None) = Some x"
    using Cons.prems late by (cases "case res of None \<Rightarrow> None | Some x \<Rightarrow> if case_execution_ok x then Some x else None") (auto simp: c e)
  then have res: "res = Some x" "case_execution_ok x" by (auto split: option.splits if_splits)
  obtain code where code: "bindE (from_storage (read_ledger sha (canary_query q) (fst u2))) (live_code sha q y) = Inr code"
    using Cons.prems late x by (cases "bindE (from_storage (read_ledger sha (canary_query q) (fst u2))) (live_code sha q y)") (auto simp: c e)
  have none: "code = None" using Cons.prems late x code by (cases code) (auto simp: c e)
  have rest: "expose_cases sha kc q y r dl ks (codes @ case_codes r k x, n + 1) u2 = (Inr ([], n'), u')"
    using Cons.prems(1) late x code none by (simp add: c e)
  from expose_cases_codes [OF rest] have "case_codes r k x = []" by auto
  from case_codes_clean [OF this res(2)] have clean: "clean_case r k x" .
  from code none obtain w where "read_ledger sha (canary_query q) (fst u2) = Inr w" "live_code sha q y w = Inr None"
    by (auto simp: bindE_Inr_iff from_storage_def split: sum.splits)
  moreover have "exposed_cleanly sha kc q y r dl ks u2 u'" using Cons.IH [OF rest] Cons.prems(2) by simp
  ultimately show ?case using late clean c e res(1) by (intro case_passed [of kc u now u1 dl r k x u2]) auto
qed

end
