(* ===== verification/ReleaseSamples.thy ===== *)
theory ReleaseSamples
  imports LearningSamples ReleaseManager
begin

text \<open>
  A ledger with a slot that was released, rolled back and released again, and the rollback that restores the first
  release, as the release manager plans it.
\<close>

subsection \<open>Two candidates in one slot\<close>

fun sample_chain :: "string \<Rightarrow> nat \<Rightarrow> candidate_state \<Rightarrow> candidate_state list \<Rightarrow> transition list" where
  "sample_chain i n st [] = []"
| "sample_chain i n st (x # xs) =
     \<lparr>tn_transition_id = i @ [char_of (97 + n)], tn_candidate_id = i, tn_sequence = Suc n, tn_from = st, tn_to = x,
      tn_previous_hash = (if n = 0 then None else Some sample_hash), tn_control_epoch = 0, tn_actor_id = ''u'',
      tn_authority_id = None, tn_reason_code = ''G5_INTAKE'', tn_evidence_receipt_ids = [''r1''],
      tn_idempotency_key = sample_key 53, tn_transitioned_at = sample_now, tn_transition_hash = sample_hash\<rparr>
     # sample_chain i (Suc n) x xs"

definition until_release :: "candidate_state list" where
  "until_release = [Held, Evaluating, Approved_for_canary, In_canary, Released]"

definition sample_evaluation :: "string \<Rightarrow> string \<Rightarrow> learning_receipt" where
  "sample_evaluation i c = \<lparr>rx_receipt_id = i, rx_created_at = sample_now, rx_state = Rs_durable, rx_request_hash = sample_hash,
     rx_receipt_hash = sample_hash, rx_body = Evaluation_receipt \<lparr>eb_candidate_id = c, eb_run_id = ''run1'',
       eb_evaluation_version = ''1.0.0'', eb_fixture_manifest_hash = sample_hash, eb_thresholds_hash = sample_hash,
       eb_common_identity_hash = sample_hash, eb_baseline_release_id = None, eb_result_set_hashes = [sample_hash],
       eb_passed = True, eb_invalidated = False, eb_failed_case_ids = [], eb_quarantined_case_ids = [],
       eb_contamination_event_ids = []\<rparr>\<rparr>"

definition sample_canary :: "string \<Rightarrow> string \<Rightarrow> learning_receipt" where
  "sample_canary i c = \<lparr>rx_receipt_id = i, rx_created_at = sample_now, rx_state = Rs_durable, rx_request_hash = sample_hash,
     rx_receipt_hash = sample_hash, rx_body = Canary_receipt \<lparr>cb_candidate_id = c, cb_authorization_id = ''a1'',
       cb_authorization_hash = sample_hash, cb_evaluation_receipt_id = ''v2'', cb_manifest_hash = sample_hash,
       cb_exposures = 3, cb_passed = True, cb_failure_codes = [], cb_control_epoch = 0\<rparr>\<rparr>"

definition filed :: "learning_receipt \<Rightarrow> string \<Rightarrow> receipt_row" where
  "filed r i = \<lparr>xr_receipt = r, xr_key = sample_key 52, xr_epoch = 2, xr_aggregate_kind = ''evaluation'', xr_aggregate_id = i,
     xr_principal = ''u'', xr_scopes = [sample_where]\<rparr>"

definition sample_release :: "string \<Rightarrow> bool \<Rightarrow> string \<Rightarrow> string option \<Rightarrow> release_version" where
  "sample_release i b c prev = \<lparr>rl_release_id = i, rl_is_rollback = b, rl_slot_hash = sample_hash, rl_candidate_id = c,
     rl_previous_release_id = prev, rl_restored_release_id = None, rl_evaluation_receipt_id = ''v2'',
     rl_canary_receipt_id = ''y2'', rl_approval_id = ''a0'', rl_monitor_contract_hash = sample_hash,
     rl_configuration_hash = sample_hash, rl_activated_at = sample_now, rl_release_hash = sample_hash\<rparr>"

definition sample_pointer :: release_pointer where
  "sample_pointer = \<lparr>pt_slot_hash = sample_hash, pt_active_release_id = Some ''l2'', pt_revision = 3, pt_updated_at = sample_now,
     pt_pointer_hash = sample_hash\<rparr>"

definition released_learning :: "unit learning_store" where
  "released_learning = empty_learning\<lparr>
     lg_candidates := [sample_learner, sample_learner\<lparr>ln_candidate_id := ''c2''\<rparr>],
     lg_transitions := sample_chain ''c1'' 0 Proposed (until_release @ [Rolled_back]) @ sample_chain ''c2'' 0 Proposed until_release,
     lg_releases := [sample_release ''l1'' False ''c1'' None, sample_release ''b1'' True ''c1'' (Some ''l1''),
       sample_release ''l2'' False ''c2'' None],
     lg_pointers := [sample_pointer],
     lg_receipts := [filed (sample_evaluation ''v2'' ''c2'') ''c2'', filed (sample_canary ''y2'' ''c2'') ''c2'']\<rparr>"

lemma sample_chain_filter:
  "filter (\<lambda>t. tn_candidate_id t = j) (sample_chain i n st xs) = (if j = i then sample_chain i n st xs else [])"
  by (induction xs arbitrary: n st) auto

lemma released_chain:
  "candidate_chain released_learning i = (if i = ''c1'' then sample_chain ''c1'' 0 Proposed (until_release @ [Rolled_back])
     else if i = ''c2'' then sample_chain ''c2'' 0 Proposed until_release else [])"
  by (auto simp: candidate_chain_def released_learning_def sample_chain_filter)

lemma sample_chain_ok:
  assumes "i \<in> {''c1'', ''c2''}" and "n + length xs \<le> 6" and "chained n st h (sample_chain i n st xs)"
  shows "list_all (transition_ok late_sha) (sample_chain i n st xs)"
  using assms(2,3)
proof (induction xs arbitrary: n st h)
  case (Cons x xs)
  have n: "n \<in> {0,1,2,3,4,5}" using Cons.prems(1) by auto
  have id: "identifier_ok (i @ [char_of (97 + n)])" "identifier_ok i"
    using assms(1) n by (auto simp: request_ok_defs)
  have no: "(''2026-01-02T00:00:00.000Z'' = i @ [c]) = False" "(''2026-01-02T00:00:00.000Z'' = i) = False" for c
    using assms(1) by auto
  have st: "(''2026-01-02T00:00:00.000Z'' = candidate_state_string y) = False" for y
    by (cases y) simp_all
  let ?t = "hd (sample_chain i n st (x # xs))"
  have "x \<in> set (legal_transitions st)" using Cons.prems(2) by simp
  then have "transition_ok late_sha ?t"
    using id learning_identifiers
    by (simp add: transition_ok_def opt_ok_def unique_def unsealed_transition_json_def late_sha_object time_json_def
        sample_later_def sample_now_def opt_json_def jnat_def jstrs_def code_points_inj no st later_differs)
      (simp add: sample_key_def later_differs)
  moreover have "list_all (transition_ok late_sha) (sample_chain i (Suc n) x xs)"
    using Cons.prems by (intro Cons.IH [of "Suc n" x "Some sample_hash"]) simp_all
  ultimately show ?case by simp
qed simp

lemma other_learner_ok: "learning_candidate_ok late_sha (sample_learner\<lparr>ln_candidate_id := ''c2''\<rparr>)"
proof -
  have "release_slot_ok late_sha sample_slot"
    by (simp add: release_slot_ok_def sample_slot_def sample_scope_simps unsealed_slot_json_def late_simps)
  then show ?thesis
    by (simp add: learning_candidate_ok_def sample_learner_def sample_scope_simps sample_policy_def lane_request_ok_def
      limit_overrides_ok_iff opt_ok_def needs_confirmation_def sample_slot_def unsealed_candidate_json_def late_simps slot_json_def)
qed

lemma released_ok: "learning_ok late_sha released_learning"
proof -
  have c: "chained 0 Proposed None (sample_chain ''c1'' 0 Proposed (until_release @ [Rolled_back]))"
    "chained 0 Proposed None (sample_chain ''c2'' 0 Proposed until_release)"
    by (simp_all add: until_release_def)
  have t: "list_all (transition_ok late_sha) (lg_transitions released_learning)"
    using sample_chain_ok [OF _ _ c(1)] sample_chain_ok [OF _ _ c(2)]
    by (simp add: released_learning_def until_release_def)
  have k: "list_all (learning_candidate_ok late_sha) (lg_candidates released_learning)"
    using late_learner_ok other_learner_ok by (simp add: released_learning_def)
  have p: "replayed None {} (slot_log released_learning h) \<and> pointer_ok released_learning h" for h
    by (simp add: slot_log_def pointer_ok_def find_pointer_def released_learning_def sample_release_def sample_pointer_def
      activates_def active_after_def empty_learning_def)
  have "keyed released_learning" "distinct (map rl_release_id (lg_releases released_learning))"
    by (simp_all add: keyed_def receipts_keyed_def released_learning_def sample_learner_def filed_def sample_evaluation_def
      sample_canary_def sample_release_def empty_learning_def)
  then show ?thesis using t k p c by (simp add: learning_ok_def released_chain)
qed


subsection \<open>The rollback\<close>

definition operator_policy :: lane_policy where
  "operator_policy = \<lparr>allowed_lanes = [Recent_l1], policy_limits = (\<lambda>k. if k \<in> set required_limit_keys then Some 1 else None)\<rparr>"

definition sample_rollback :: release_input where
  "sample_rollback = \<lparr>rq_rollback = True, rq_key = sample_key 54, rq_principal = ''u'', rq_scopes = [sample_where],
     rq_candidate_id = ''c2'', rq_approval_id = ''a1'', rq_target_release_id = Some ''l1'',
     rq_lane_policy = Some operator_policy, rq_base_configuration_hash = sample_hash, rq_monitor_contract_hash = sample_hash,
     rq_monitor_receipt_id = None, rq_reason = [111, 107], rq_activated_at = sample_later, rq_failure = None\<rparr>"

definition plain_options :: release_options where
  "plain_options = \<lparr>op_request_hash = None, op_expected = None\<rparr>"

definition rollback_details :: learning_details where
  "rollback_details = \<lparr>ld_is_rollback = True, ld_candidate_id = ''c2'', ld_release_slot_hash = sample_hash,
     ld_base_release_id = Some ''l2'', ld_evaluation_receipt_id = ''v2'', ld_evaluation_receipt_hash = sample_hash,
     ld_canary_receipt_id = ''y2'', ld_canary_receipt_hash = sample_hash, ld_expected_pointer_revision = 3,
     ld_target_release_id = Some ''l1'', ld_control_epoch = 0, ld_effect_manifest_hash = sample_hash\<rparr>"

definition rollback_artifact :: post_canary_approval where
  "rollback_artifact = \<lparr>pa_approval_id = ''a1'', pa_principal = ''u'', pa_scopes = [sample_where], pa_details = rollback_details,
     pa_request_hash = sample_old_hash, pa_issued_at = Timestamp ''t0'' 0, pa_expires_at = Timestamp ''t9'' 10,
     pa_approval_hash = sample_hash\<rparr>"

definition rollback_grant :: approval_grant where
  "rollback_grant = \<lparr>grant_approval_id = ''a1'', grant_principal_id = ''u'', grant_tool = Learning_rollback,
     grant_safety_class = Important_mutation, grant_scopes = [sample_where], grant_request_hash = sample_old_hash,
     grant_issued_at = Timestamp ''t0'' 0, grant_expires_at = Timestamp ''t9'' 10, grant_manifest_hash = sample_hash,
     grant_learning = Some rollback_details\<rparr>"

definition sample_registries :: release_registries where
  "sample_registries = \<lparr>rg_authority = (\<lambda>i. Inr (rollback_artifact, sample_hash, Timestamp ''t5'' 5)),
     rg_authority_unchanged = (\<lambda>_. Inr ()), rg_verify = (\<lambda>b. Inr (rollback_grant, sample_hash)),
     rg_unchanged = (\<lambda>_. Inr ()), rg_clock = Timestamp ''t5'' 5\<rparr>"

abbreviation other_learner :: learning_candidate where
  "other_learner \<equiv> sample_learner\<lparr>ln_candidate_id := ''c2''\<rparr>"

lemma rollback_hash: "release_hash_of late_sha sample_rollback plain_options = sample_old_hash"
  by (simp add: release_hash_of_def plain_options_def sample_rollback_def release_input_json_def release_request_def
    late_sha_object time_json_def)

lemma operator_policy_ok: "lane_policy_ok operator_policy"
  by (simp add: lane_policy_ok_def operator_policy_def lane_limits_ok_def limit_overrides_ok_iff required_limit_keys_def
    limit_in_range_def recall_lanes_def base_recall_lanes_def)

lemma sample_configuration: "candidate_configuration_hash late_sha sample_rollback sample_learner = Inr sample_hash"
proof -
  have "late_sha (lane_policy_json p) = sample_hash" for p
    by (simp add: lane_policy_json_def limits_json_def late_simps)
  moreover have "compute_narrowed_lane_policy operator_policy sample_policy = Inr operator_policy"
    using operator_policy_ok
    by (simp add: compute_narrowed_lane_policy_def sample_policy_def operator_policy_def lane_request_ok_def
      limit_overrides_ok_iff required_limit_keys_def optional_limit_keys_def)
  ultimately show ?thesis
    by (simp add: candidate_configuration_hash_def sample_learner_def sample_rollback_def)
qed

text \<open>The view of a reader of the slot.\<close>

lemma released_view:
  assumes "ledger_read_ok q" and "read_candidates q released_learning = cs" and "lq_principal q = ''u''"
    and "lq_scopes q = [sample_where]" and "''c2'' \<in> ln_candidate_id ` set cs"
  shows "read_ledger late_sha q released_learning
     = Inr (view_of q cs [] (read_releases (map ln_candidate_id cs) released_learning)
         [sample_evaluation ''v2'' ''c2'', sample_canary ''y2'' ''c2''] released_learning)"
proof -
  have seal: "receipt_sealed late_sha (sample_evaluation ''v2'' ''c2'')" "receipt_sealed late_sha (sample_canary ''y2'' ''c2'')"
    by (simp_all add: receipt_sealed_def sample_evaluation_def sample_canary_def unsealed_learning_receipt_json_def late_simps)
  have id: "rx_receipt_id (sample_evaluation ''v2'' ''c2'') = ''v2''" "rx_receipt_id (sample_canary ''y2'' ''c2'') = ''y2''"
    by (simp_all add: sample_evaluation_def sample_canary_def)
  have "read_evaluations ids released_learning = []" for ids
    by (simp add: read_evaluations_def by_time_def released_learning_def empty_learning_def)
  moreover have "read_receipts late_sha q ids released_learning = Inr [sample_evaluation ''v2'' ''c2'', sample_canary ''y2'' ''c2'']"
    if "''c2'' \<in> set ids" for ids
    using that seal by (simp add: read_receipts_def assms(3,4) released_learning_def filed_def id)
  ultimately show ?thesis using assms(1,2,5) by (auto simp: read_ledger_def Let_def bindE_def)
qed

lemma released_queries:
  "ledger_read_ok (candidate_query sample_rollback)" "ledger_read_ok (slot_query sample_rollback sample_slot)"
  "read_candidates (candidate_query sample_rollback) released_learning = [other_learner]"
  "read_candidates (slot_query sample_rollback sample_slot) released_learning = [sample_learner, other_learner]"
  by (simp_all add: ledger_read_ok_def candidate_query_def slot_query_def sample_rollback_def scope_order_def sample_scope_simps
      opt_ok_def sample_slot_def read_candidates_def by_time_def released_learning_def sample_learner_def same_scopes_def)


definition slot_view :: ledger_view where
  "slot_view = view_of (slot_query sample_rollback sample_slot) [sample_learner, other_learner] []
     (read_releases [''c1'', ''c2''] released_learning) [sample_evaluation ''v2'' ''c2'', sample_canary ''y2'' ''c2''] released_learning"

lemma slot_view_read: "read_ledger late_sha (slot_query sample_rollback sample_slot) released_learning = Inr slot_view"
  using released_view [OF released_queries(2,4)]
  by (simp add: slot_view_def slot_query_def sample_rollback_def scope_order_def sample_learner_def)

lemma slot_view_releases: "lv_releases slot_view = [sample_release ''b1'' True ''c1'' (Some ''l1''),
     sample_release ''l1'' False ''c1'' None, sample_release ''l2'' False ''c2'' None]"
  by (simp add: slot_view_def view_of_def Let_def read_releases_def by_time_def released_learning_def sample_release_def)

lemma slot_view_fields: "lv_pointers slot_view = [sample_pointer]" "lv_candidates slot_view = [sample_learner, other_learner]"
  "lv_receipts slot_view = [sample_evaluation ''v2'' ''c2'', sample_canary ''y2'' ''c2'']" "lv_controls slot_view = []"
  "lv_invalid slot_view = []"
  by (simp_all add: slot_view_def view_of_def Let_def released_learning_def read_slots_def sample_learner_def sample_slot_def
    sample_pointer_def empty_learning_def)


definition rollback_release :: release_version where
  "rollback_release = \<lparr>rl_release_id = ''rollback:'' @ replicate 41 (CHR ''0''), rl_is_rollback = True, rl_slot_hash = sample_hash,
     rl_candidate_id = ''c2'', rl_previous_release_id = Some ''l2'', rl_restored_release_id = Some ''l1'',
     rl_evaluation_receipt_id = ''v2'', rl_canary_receipt_id = ''y2'', rl_approval_id = ''a1'',
     rl_monitor_contract_hash = sample_hash, rl_configuration_hash = sample_hash, rl_activated_at = sample_later,
     rl_release_hash = sample_old_hash\<rparr>"

definition rollback_pointer :: release_pointer where
  "rollback_pointer = \<lparr>pt_slot_hash = sample_hash, pt_active_release_id = Some ''l1'', pt_revision = 4,
     pt_updated_at = sample_later, pt_pointer_hash = sample_old_hash\<rparr>"

definition rollback_transition :: transition where
  "rollback_transition = \<lparr>tn_transition_id = ''transition:'' @ replicate 41 (CHR ''0''), tn_candidate_id = ''c2'', tn_sequence = 6,
     tn_from = Released, tn_to = Rolled_back, tn_previous_hash = Some sample_hash, tn_control_epoch = 0, tn_actor_id = ''u'',
     tn_authority_id = Some ''a1'', tn_reason_code = ''EXACT_ROLLBACK_APPROVED'', tn_evidence_receipt_ids = [''v2'', ''y2''],
     tn_idempotency_key = sample_key 54, tn_transitioned_at = sample_later, tn_transition_hash = sample_old_hash\<rparr>"

definition rollback_receipt :: learning_receipt where
  "rollback_receipt = \<lparr>rx_receipt_id = ''rollback-receipt:'' @ replicate 41 (CHR ''0''), rx_created_at = sample_later,
     rx_state = Rs_rolled_back, rx_request_hash = sample_old_hash, rx_receipt_hash = sample_old_hash,
     rx_body = Rollback_receipt \<lparr>bb_release_id = ''rollback:'' @ replicate 41 (CHR ''0''), bb_rolled_back_release_id = ''l2'',
       bb_restored_release_id = Some ''l1'', bb_approval_id = ''a1'', bb_approval_hash = sample_hash,
       bb_monitor_receipt_id = None, bb_pointer_revision = 4, bb_control_epoch = 0, bb_configuration_hash = sample_hash,
       bb_reason = [111, 107]\<rparr>\<rparr>"

definition rollback_binding :: approval_binding where
  "rollback_binding = \<lparr>bind_approval_id = ''a1'', bind_principal_id = ''u'', bind_tool = Learning_rollback,
     bind_safety_class = Important_mutation, bind_scopes = [sample_where], bind_request_hash = sample_old_hash,
     bind_learning = Some rollback_details\<rparr>"

definition rollback_command :: release_command where
  "rollback_command = \<lparr>rw_rollback = True, rw_principal = ''u'', rw_scopes = [sample_where], rw_expected_epoch = 0,
     rw_expected_revision = 3, rw_artifact = rollback_artifact, rw_binding = rollback_binding,
     rw_approval = \<lparr>va_grant = rollback_grant, va_registry_hash = sample_hash, va_verified_at = Timestamp ''t5'' 5\<rparr>,
     rw_effect = Policy_effect, rw_release = rollback_release, rw_pointer = rollback_pointer,
     rw_transition = rollback_transition, rw_receipt = rollback_receipt\<rparr>"

definition sample_status :: slot_status where
  "sample_status = \<lparr>sl_state = \<lparr>sr_candidate_id = ''c2'', sr_state = Released, sr_sequence = 5, sr_transition_hash = Some sample_hash\<rparr>,
     sl_control = None, sl_revision = 3, sl_active = Some ''l2'', sl_current = Some (sample_release ''l2'' False ''c2'' None)\<rparr>"

lemma rollback_status: "slot_status_of late_sha sample_rollback sample_slot slot_view = Inr sample_status"
proof -
  have "reduce_candidate_state late_sha ''c2'' (lv_transitions slot_view)
      = Inr (end_row ''c2'' (candidate_chain released_learning ''c2''))"
    using ledger_port.reducer [OF released_ok slot_view_read, of other_learner] by (simp add: slot_view_fields)
  then show ?thesis
    by (simp add: slot_status_of_def sample_rollback_def slot_view_fields slot_view_releases sample_pointer_def sample_slot_def
      control_of_def paused_now_def sample_status_def bindE_def guardE_def Let_def end_row_def released_chain until_release_def
      sample_release_def state_after_def)
qed

lemma rollback_receipts: "release_receipts sample_rollback sample_status slot_view
     = Inr (sample_evaluation ''v2'' ''c2'', sample_canary ''y2'' ''c2'')"
  by (simp add: release_receipts_def evaluation_for_def canary_for_def sample_rollback_def sample_status_def slot_view_fields
    sample_release_def sample_evaluation_def sample_canary_def)

lemma rollback_configuration: "configuration_hash late_sha sample_rollback other_learner slot_view = Inr sample_hash"
proof -
  have "rq_rollback sample_rollback" "rq_target_release_id sample_rollback = Some ''l1''" "ln_candidate_id sample_learner = ''c1''"
    by (simp_all add: sample_rollback_def sample_learner_def)
  then show ?thesis using sample_configuration
    by (simp add: configuration_hash_def slot_view_releases slot_view_fields find_viewed_def bindE_def sample_release_def)
qed

lemma rollback_effect: "effect_manifest_hash_of late_sha sample_rollback other_learner (Some ''l2'') sample_hash = sample_hash"
  by (simp add: effect_manifest_hash_of_def sample_rollback_def sample_learner_def action_string_def sample_slot_def
    sample_policy_def field_def late_simps)

lemma rollback_artifact_ok: "post_canary_approval_ok late_sha rollback_artifact"
proof -
  have "learning_details_ok rollback_details"
    by (simp add: learning_details_ok_def rollback_details_def) (simp add: request_ok_defs)
  then show ?thesis
    by (simp add: post_canary_approval_ok_def rollback_artifact_def unsealed_approval_json_def Let_def)
      (simp add: rollback_details_def late_simps sample_scope_simps)
qed

lemma rollback_details_ok: "learning_details_ok rollback_details"
  using rollback_artifact_ok by (simp add: post_canary_approval_ok_def rollback_artifact_def)

lemma rollback_binding_ok: "approval_binding_ok rollback_binding"
  using rollback_details_ok
  by (simp add: approval_binding_ok_def rollback_binding_def learning_matches_tool_def)
    (simp add: rollback_details_def sample_scope_simps)

lemma rollback_grant_matches: "approval_grant_matches late_sha rollback_binding rollback_grant (Timestamp ''t5'' 5) = Some True"
proof -
  have "approval_grant_ok late_sha rollback_grant"
    using rollback_details_ok
    by (simp add: approval_grant_ok_def rollback_grant_def learning_matches_tool_def grant_json_def)
      (simp add: rollback_details_def learning_details_json_def sample_scope_simps late_simps)
  then show ?thesis using rollback_binding_ok
    by (simp add: approval_grant_matches_def) (simp add: rollback_grant_def rollback_binding_def Let_def)
qed


subsection \<open>The plan and the command\<close>

lemma rollback_artifacts:
  "new_release late_sha sample_rollback sample_old_hash sample_status rollback_artifact sample_hash = rollback_release"
  "pointer_after late_sha sample_rollback sample_status rollback_release = rollback_pointer"
  "release_transition late_sha sample_rollback (sl_state sample_status) rollback_artifact = rollback_transition"
  "release_receipt_of late_sha sample_rollback sample_old_hash rollback_artifact rollback_release rollback_pointer = rollback_receipt"
  by (simp_all add: new_release_def pointer_after_def sealed_pointer_def release_transition_def release_receipt_of_def
      seal_learning_receipt_def unsealed_release_json_def unsealed_pointer_json_def unsealed_transition_json_def
      unsealed_learning_receipt_json_def action_string_def late_identifier late_sha_object time_json_def Let_def
      sample_rollback_def sample_status_def sample_release_def rollback_artifact_def rollback_details_def rollback_release_def
      rollback_pointer_def rollback_transition_def rollback_receipt_def)
    (simp_all add: late_simps sample_key_def)

lemma rollback_identifiers: "identifier_ok (''rollback:'' @ replicate 41 (CHR ''0''))"
  "identifier_ok (''rollback-receipt:'' @ replicate 41 (CHR ''0''))"
  by (simp_all add: request_ok_defs eval_nat_numeral)

lemma sample_names: "identifier_ok ''c2''" "identifier_ok ''v2''" "identifier_ok ''y2''" "identifier_ok ''a1''"
  "identifier_ok ''l1''" "identifier_ok ''l2''" "idempotency_key_ok (sample_key 54)"
  "reason_code_ok ''EXACT_ROLLBACK_APPROVED''" "reason_ok [111, 107]"
  by (simp_all add: request_ok_defs sample_key_def idempotency_key_ok_def reason_code_ok_def code_points_def)

lemmas rollback_identifier = sample_names rollback_identifiers [simplified]

lemma rollback_artifacts_ok:
  "release_version_ok late_sha rollback_release" "release_pointer_ok late_sha rollback_pointer"
  "transition_ok late_sha rollback_transition" "receipt_is ''rollback'' late_sha rollback_receipt"
  by (simp_all add: release_version_ok_def release_pointer_ok_def transition_ok_def receipt_is_def learning_receipt_ok_def
      unsealed_release_json_def unsealed_pointer_json_def unsealed_transition_json_def late_sha_object time_json_def
      rollback_release_def rollback_pointer_def rollback_transition_def rollback_receipt_def rollback_identifier
      learning_identifiers stamped_identifier opt_ok_def unique_def)

lemma rollback_planned:
  "release_plan late_sha sample_registries sample_rollback plain_options other_learner sample_slot slot_view = Inr rollback_command"
proof -
  have b: "release_binding sample_rollback sample_old_hash rollback_artifact = rollback_binding"
    by (simp add: release_binding_def sample_rollback_def rollback_artifact_def rollback_binding_def scope_order_def)
  have d: "authority_matches sample_rollback sample_old_hash (approval_details_of sample_rollback sample_slot sample_status
      (sample_evaluation ''v2'' ''c2'', sample_canary ''y2'' ''c2'') sample_hash) rollback_artifact (Timestamp ''t5'' 5)"
    by (simp add: authority_matches_def approval_details_of_def sample_rollback_def sample_slot_def sample_status_def
      sample_evaluation_def sample_canary_def rollback_artifact_def rollback_details_def epoch_of_def same_scopes_def)
  have e: "op_expected plain_options = None" "rq_rollback sample_rollback" "sl_active sample_status = Some ''l2''"
    "rq_principal sample_rollback = ''u''" "scope_order (rq_scopes sample_rollback) = [sample_where]"
    "sl_revision sample_status = 3" "sl_control sample_status = None"
    by (simp_all add: plain_options_def sample_rollback_def sample_status_def scope_order_def)
  have t: "expected_effect (ln_target sample_learner) = Some Policy_effect"
    by (simp add: sample_learner_def)
  show ?thesis
    using rollback_artifacts rollback_artifacts_ok rollback_artifact_ok rollback_binding_ok rollback_grant_matches
    by (simp add: release_plan_def rollback_hash rollback_status rollback_receipts rollback_configuration rollback_effect
      expectation_met_def bindE_def guardE_def parsed_def Let_def b d e t sample_registries_def action_string_def epoch_of_def
      rollback_command_def)
qed

lemma rollback_reads: "release_reads late_sha sample_registries sample_rollback plain_options released_learning = Inr rollback_command"
proof -
  define w where "w = view_of (candidate_query sample_rollback) [other_learner] []
    (read_releases [''c2''] released_learning) [sample_evaluation ''v2'' ''c2'', sample_canary ''y2'' ''c2''] released_learning"
  have r: "read_ledger late_sha (candidate_query sample_rollback) released_learning = Inr w"
    using released_view [OF released_queries(1,3)]
    by (simp add: w_def candidate_query_def sample_rollback_def scope_order_def)
  have "lv_candidates w = [other_learner]" "lv_invalid w = []"
    by (simp_all add: w_def view_of_def Let_def released_learning_def empty_learning_def)
  then have "release_candidate sample_rollback w = Inr (other_learner, sample_slot)"
    by (simp add: release_candidate_def accessible_candidate_def find_viewed_def sample_rollback_def bindE_def)
      (simp add: slot_eligible_def sample_learner_def sample_slot_def same_scopes_def)
  then show ?thesis using r slot_view_read rollback_planned
    by (simp add: release_reads_def from_storage_def bindE_def)
qed


definition rollback_write :: learning_command where
  "rollback_write = release_write late_sha sample_rollback plain_options rollback_command"

lemma rollback_write_fields: "lw_key rollback_write = sample_key 54" "lw_failure rollback_write = None"
  "lw_write rollback_write = Write_release rollback_command" "lw_request_hash rollback_write = sample_old_hash"
  "lw_idempotency_hash rollback_write = None"
  by (simp_all add: rollback_write_def release_write_def rollback_hash) (simp_all add: sample_rollback_def)

lemma rollback_checked: "check_command late_env False rollback_write = Inr ()"
proof -
  have "write_ok late_sha (Write_release rollback_command)"
    using rollback_artifacts_ok rollback_artifact_ok rollback_binding_ok rollback_grant_matches
    by (simp add: rollback_command_def verified_approval_ok_def approval_grant_matches_def Let_def split: if_splits)
      (simp add: sample_scope_simps rollback_release_def)
  then show ?thesis
    by (simp add: check_command_def learning_command_ok_def rollback_write_fields sample_names opt_ok_def brings_hash_def
      learning_command_hash_def)
qed

lemma rollback_fields: "rw_release rollback_command = rollback_release" "rw_pointer rollback_command = rollback_pointer"
  "rw_transition rollback_command = rollback_transition" "rw_receipt rollback_command = rollback_receipt"
  "rw_rollback rollback_command" "rw_principal rollback_command = ''u''" "rw_scopes rollback_command = [sample_where]"
  "rw_effect rollback_command = Policy_effect" "rw_expected_revision rollback_command = 3"
  "pa_details (rw_artifact rollback_command) = rollback_details" "rl_slot_hash rollback_release = sample_hash"
  "rl_candidate_id rollback_release = ''c2''" "rl_restored_release_id rollback_release = Some ''l1''"
  "tn_candidate_id rollback_transition = ''c2''"
  by (simp_all add: rollback_command_def rollback_artifact_def rollback_release_def rollback_transition_def)

lemma rollback_consistent: "release_consistent rollback_write rollback_command None"
  by (simp add: release_consistent_def rollback_write_fields Let_def)
    (simp add: rollback_command_def rollback_artifact_def rollback_binding_def rollback_grant_def rollback_details_def
      rollback_release_def rollback_transition_def rollback_receipt_def same_scopes_def)

lemma rollback_passes:
  "find_candidate released_learning ''c2'' = Some other_learner" "find_control released_learning ''u'' = None"
  "receipt_stored released_learning ''evaluation'' ''v2'' sample_hash"
  "receipt_stored released_learning ''learning_canary'' ''y2'' sample_hash"
  "find_pointer released_learning sample_hash = Some sample_pointer"
  "pointer_matches rollback_command (Some sample_pointer)" "restored_accessible rollback_command released_learning = Inr ()"
  "release_receipt_matches rollback_command" "monitor_cited rollback_command released_learning"
  by (simp_all add: find_candidate_def find_control_def receipt_stored_def find_receipt_def find_pointer_def pointer_matches_def
      restored_accessible_def release_receipt_matches_def monitor_cited_def find_release_def assert_candidate_access_def
      rollback_fields bindE_def guardE_def Let_def)
    (simp_all add: released_learning_def empty_learning_def filed_def sample_evaluation_def sample_canary_def sample_pointer_def
      sample_learner_def sample_release_def same_scopes_def rollback_details_def rollback_release_def rollback_pointer_def
      rollback_receipt_def rollback_command_def rollback_artifact_def find_candidate_def bindE_def assert_candidate_access_def)


text \<open>The three tables the rollback changes.\<close>

definition restored_learning :: "unit learning_store" where
  "restored_learning = released_learning\<lparr>lg_releases := lg_releases released_learning @ [rollback_release],
     lg_pointers := [rollback_pointer], lg_transitions := lg_transitions released_learning @ [rollback_transition]\<rparr>"

lemma rollback_inserted: "insert_release late_env rollback_write rollback_command released_learning = Inr restored_learning"
proof -
  let ?s2 = "released_learning\<lparr>lg_releases := lg_releases released_learning @ [rollback_release]\<rparr>"
  let ?s3 = "?s2\<lparr>lg_pointers := [rollback_pointer]\<rparr>"
  have d: "ld_evaluation_receipt_id rollback_details = ''v2''" "ld_evaluation_receipt_hash rollback_details = sample_hash"
    "ld_canary_receipt_id rollback_details = ''y2''" "ld_canary_receipt_hash rollback_details = sample_hash"
    by (simp_all add: rollback_details_def)
  have access: "assert_candidate_access released_learning ''c2'' ''u'' [sample_where] = Inr other_learner"
    using rollback_passes(1) by (simp add: assert_candidate_access_def) (simp add: sample_learner_def same_scopes_def)
  have row: "insert_release_row rollback_release released_learning = Inr ?s2"
    by (simp add: insert_release_row_def insert_row_def bindE_def guardE_def)
      (simp add: released_learning_def sample_release_def rollback_release_def)
  have p: "store_pointer rollback_pointer 3 ?s2 = Inr ?s3"
    by (simp add: store_pointer_def find_pointer_def released_learning_def sample_pointer_def rollback_pointer_def)
  have "sample_chain i n st xs = [] \<longleftrightarrow> xs = []" for i n st xs by (cases xs) simp_all
  then have "latest_transition released_learning ''c2'' = Some (last (sample_chain ''c2'' 0 Proposed until_release))"
    using latest_of_chain [OF learning_okD(1) [OF released_ok], of "''c2''"] by (simp add: released_chain until_release_def)
  then have "follows (latest_transition ?s3 ''c2'') rollback_transition"
    by (simp add: latest_transition_cong [of ?s3 released_learning] follows_def until_release_def rollback_transition_def)
  moreover have "tn_transition_hash t = sample_hash \<and> tn_transition_id t \<noteq> tn_transition_id rollback_transition"
    if "t \<in> set (lg_transitions released_learning)" for t
    using that by (auto simp: released_learning_def until_release_def rollback_transition_def)
  ultimately have t: "insert_transition rollback_transition ?s3 = Inr restored_learning"
    using rollback_passes(1)
    by (auto simp: insert_transition_Inr rollback_fields restored_learning_def find_candidate_def)
      (auto simp: rollback_transition_def)
  have e: "expected_effect (ln_target sample_learner) = Some Policy_effect" by (simp add: sample_learner_def)
  show ?thesis
    using rollback_consistent rollback_passes access row p t
    by (simp add: insert_release_def rollback_fields d e canonical_effect_def fail_at_def rollback_write_fields bindE_def
      guardE_def Let_def)
qed


lemma restored_tables: "lg_control restored_learning = lg_control empty_learning"
  "lg_receipts restored_learning = [filed (sample_evaluation ''v2'' ''c2'') ''c2'', filed (sample_canary ''y2'' ''c2'') ''c2'']"
  "lg_results restored_learning = []"
  by (simp_all add: restored_learning_def released_learning_def empty_learning_def)

lemma rollback_written: "\<exists>r t. write_ledger late_env False rollback_write released_learning = (Inr r, t) \<and> \<not> lz_replayed r"
proof -
  have ap: "assert_approval_available late_sha (rw_binding rollback_command, rw_approval rollback_command) s = Inr ()"
    if "st_consumptions (lg_ledger s) = []" for s :: "unit learning_store"
    using rollback_grant_matches that by (simp add: assert_approval_available_def rollback_command_def)
  have empty: "st_consumptions (lg_ledger released_learning) = []" "st_consumptions (lg_ledger empty_learning) = []"
    "st_mutations (lg_ledger empty_learning) = []" "lg_results released_learning = []"
    by (simp_all add: released_learning_def empty_learning_def sample_ledger_def)
  have seal: "receipt_sealed late_sha rollback_receipt" using rollback_artifacts(4) by (metis release_receipt_of_def receipt_sealed_seal)
  have a: "apply_write late_env rollback_write released_learning
      = Inr (Some rollback_receipt, rl_release_id rollback_release, restored_learning)"
    using ap [OF empty(1)] rollback_inserted
    by (simp add: apply_write_def rollback_write_fields rollback_fields bindE_def)
  have id: "rx_receipt_id (sample_evaluation ''v2'' ''c2'') = ''v2''" "rx_receipt_id (sample_canary ''y2'' ''c2'') = ''y2''"
    "rx_receipt_hash (sample_evaluation ''v2'' ''c2'') = sample_hash" "rx_receipt_hash (sample_canary ''y2'' ''c2'') = sample_hash"
    "rx_receipt_id rollback_receipt \<noteq> ''v2''" "rx_receipt_id rollback_receipt \<noteq> ''y2''"
    "rx_receipt_hash rollback_receipt = sample_old_hash"
    by (simp_all add: sample_evaluation_def sample_canary_def rollback_receipt_def)
  let ?s2 = "advance_epoch restored_learning"
  obtain s3 where f: "file_receipt late_sha rollback_write (Some rollback_receipt) (rl_release_id rollback_release)
      (st_ledger_epoch (lg_ledger ?s2)) ?s2 = Inr s3"
    and r: "lg_results s3 = []" "st_consumptions (lg_ledger s3) = []"
    by (simp add: file_receipt_def insert_receipt_def seal receipt_access_def rollback_write_fields rollback_fields fail_at_def
        advance_epoch_def with_ledger_def restored_tables empty filed_def id insert_row_def Let_def)
  have "\<exists>s4. spend_approval late_sha rollback_write (Some rollback_receipt) s3 = Inr s4 \<and> lg_results s4 = []"
    using ap [OF r(2)] r
    by (simp add: spend_approval_def approval_of_def rollback_write_fields consume_approval_def fail_at_def bindE_def
      with_ledger_def Let_def)
  then show ?thesis using f a rollback_checked empty(4)
    by (auto simp: write_ledger_def run_ledger_def read_result_def ledger_effect_def fail_at_def rollback_write_fields
      insert_row_def bindE_def Let_def)
qed

end
