(* ===== verification/CanarySamples.thy ===== *)
theory CanarySamples
  imports CanaryRunner ReleaseSamples
begin

text \<open>
  A candidate that was approved for its canary, and a canary of it that passes on a ledger nobody else writes.
\<close>

subsection \<open>The approved candidate\<close>

definition sample_third_hash :: string where
  "sample_third_hash = ''sha256:'' @ replicate 64 (CHR ''2'')"

lemma sample_third_hash_ok [simp]: "canonical_hash_ok sample_third_hash" "sample_third_hash \<noteq> sample_hash"
  "sample_third_hash \<noteq> sample_old_hash" "sample_hash \<noteq> sample_third_hash" "sample_old_hash \<noteq> sample_third_hash"
  by (simp_all add: sample_old_hash_def sample_hash_def sample_third_hash_def canonical_hash_ok_def lower_hex_def list_all_iff)

definition sample_identity :: evaluation_identity where
  "sample_identity = \<lparr>ei_run_id = ''run1'', ei_candidate_id = ''c1'', ei_base_release_id = None, ei_current_release_id = None,
     ei_implementation_commit = replicate 40 (CHR ''0''), ei_implementation_tree = replicate 40 (CHR ''0''),
     ei_dependency_lock_hash = sample_hash, ei_migration_set_hash = sample_hash, ei_runtime_identity_hash = sample_hash,
     ei_accepted_g3r_commit = replicate 40 (CHR ''0''), ei_accepted_g4a_commit = replicate 40 (CHR ''0''),
     ei_accepted_g4b_commit = replicate 40 (CHR ''0''), ei_retrieval_configuration_hash = sample_hash,
     ei_corpus_hash = sample_hash, ei_partition_manifest_hash = sample_hash, ei_scorer_hash = sample_hash,
     ei_thresholds_hash = sample_hash, ei_seed = 1, ei_environment_hash = sample_hash, ei_common_identity_hash = sample_hash\<rparr>"

definition approved_learning :: "unit learning_store" where
  "approved_learning = empty_learning\<lparr>lg_candidates := [sample_learner],
     lg_transitions := sample_chain ''c1'' 0 Proposed [Held, Evaluating, Approved_for_canary],
     lg_evaluations := [\<lparr>vr_identity = sample_identity, vr_principal = ''u'', vr_scopes = [sample_where],
       vr_started_at = sample_now\<rparr>],
     lg_receipts := [filed (sample_evaluation ''v2'' ''c1'') ''run1'']\<rparr>"

definition sample_manifest :: canary_manifest where
  "sample_manifest = \<lparr>cm_manifest_id = ''m1'', cm_candidate_id = ''c1'', cm_stable_release_id = None,
     cm_case_ids = [''k1'', ''k2'', ''k3''], cm_case_hashes = [sample_hash, sample_old_hash, sample_third_hash],
     cm_maximum_duration_ms = 1000, cm_promote_metric_ids = [''p1''], cm_abort_metric_ids = [''p2''],
     cm_environment_hash = sample_hash, cm_configuration_hash = sample_hash, cm_runtime_identity_hash = sample_hash,
     cm_control_epoch = 0, cm_manifest_hash = sample_hash\<rparr>"

definition passing_canary :: canary_input where
  "passing_canary = \<lparr>yq_key = sample_key 55, yq_principal = ''u'', yq_scopes = [sample_where], yq_candidate_id = ''c1'',
     yq_authorization_id = ''a1'', yq_manifest = sample_manifest, yq_started_at = sample_later\<rparr>"

definition sample_authorization :: canary_authorization where
  "sample_authorization = \<lparr>au_authorization_id = ''a1'', au_principal = ''u'', au_scopes = [sample_where],
     au_candidate_id = ''c1'', au_release_slot_hash = sample_hash, au_base_release_id = None,
     au_evaluation_receipt_id = ''v2'', au_evaluation_receipt_hash = sample_hash, au_canary_manifest_id = ''m1'',
     au_canary_manifest_hash = sample_hash, au_case_hashes = [sample_hash, sample_old_hash, sample_third_hash],
     au_deadline_at = Timestamp ''2026-01-02T00:00:01.000Z'' 1767312001000, au_control_epoch = 0,
     au_request_hash = sample_old_hash, au_issued_at = sample_now,
     au_expires_at = Timestamp ''2026-01-03T00:00:00.000Z'' 1767398400000, au_authorization_hash = sample_hash\<rparr>"

text \<open>Collaborators that leave the ledger alone: three clean executions, a fixed clock and a fixed environment.\<close>

definition clean_execution :: "case_request \<Rightarrow> unit loaded_case \<Rightarrow> case_execution" where
  "clean_execution r k = \<lparr>kx_case_id = gc_body_case_id k, kx_comparator = kq_stable_release_id r, kx_passed = True,
     kx_failure_codes = [], kx_initial_hash = kq_initial_hash r, kx_final_hash = kq_initial_hash r\<rparr>"

definition sample_cases :: "unit loaded_case list" where
  "sample_cases = map (\<lambda>(i, h). \<lparr>gc_case_id = i, gc_case_hash = h, gc_body_case_id = i, gc_content = ()\<rparr>)
     [(''k1'', sample_hash), (''k2'', sample_old_hash), (''k3'', sample_third_hash)]"

definition quiet_collaborators :: "(unit, unit, unit) canary_collaborators" where
  "quiet_collaborators = \<lparr>kc_authority = (\<lambda>i. Inr (sample_authorization, sample_hash, sample_later)),
     kc_unchanged = (\<lambda>_. Inr ()), kc_cases = (\<lambda>_. Inr sample_cases),
     kc_execute = (\<lambda>r k u. (Some (clean_execution r k), u)), kc_probe = (\<lambda>u. (sample_hash, u)),
     kc_clock = (\<lambda>u. (sample_later, u))\<rparr>"

lemma approved_chain: "candidate_chain approved_learning i
     = (if i = ''c1'' then sample_chain ''c1'' 0 Proposed [Held, Evaluating, Approved_for_canary] else [])"
  by (auto simp: candidate_chain_def approved_learning_def sample_chain_filter simp del: sample_chain.simps)

lemma approved_ok: "learning_ok late_sha approved_learning"
proof -
  have c: "chained 0 Proposed None (sample_chain ''c1'' 0 Proposed [Held, Evaluating, Approved_for_canary])" by simp
  have t: "list_all (transition_ok late_sha) (lg_transitions approved_learning)"
    using sample_chain_ok [OF _ _ c] by (simp add: approved_learning_def del: sample_chain.simps)
  have p: "slot_log approved_learning h = [] \<and> find_pointer approved_learning h = None" for h
    by (simp add: slot_log_def find_pointer_def approved_learning_def empty_learning_def)
  have "keyed approved_learning" "distinct (map rl_release_id (lg_releases approved_learning))"
    "list_all (learning_candidate_ok late_sha) (lg_candidates approved_learning)"
    using late_learner_ok
    by (simp_all add: keyed_def receipts_keyed_def approved_learning_def empty_learning_def)
  then show ?thesis using t p c by (simp add: learning_ok_def approved_chain pointer_ok_def del: sample_chain.simps)
qed

lemma sample_deadline: "iso_string 1767312001000 = Some ''2026-01-02T00:00:01.000Z''"
  by code_simp


subsection \<open>Before the cases\<close>

lemma canary_names: "identifier_ok ''m1''" "identifier_ok ''k1''" "identifier_ok ''k2''" "identifier_ok ''k3''" "identifier_ok ''p1''"
  "identifier_ok ''p2''" "idempotency_key_ok (sample_key 55)" "reason_code_ok ''G5_CANARY_EXECUTED''"
  "identifier_ok ''learning_canary_runner''"
  by (simp_all add: request_ok_defs sample_key_def idempotency_key_ok_def reason_code_ok_def code_points_def)

lemmas canary_name = canary_names sample_names learning_identifiers

lemma sample_scopes_ok: "canonical_scopes_ok [sample_where]" "scope_set_ok [sample_where]" "scope_order [sample_where] = [sample_where]"
  by (simp_all add: sample_scope_simps scope_order_def)

lemma passing_input: "canary_input_ok late_sha passing_canary" "canary_hash late_sha passing_canary = sample_old_hash"
proof -
  have "canary_manifest_ok late_sha sample_manifest"
    by (simp add: canary_manifest_ok_def sample_manifest_def manifest_fields_def canary_name opt_ok_def unique_def late_simps)
  then show "canary_input_ok late_sha passing_canary"
    by (simp add: canary_input_ok_def passing_canary_def canary_name sample_scopes_ok unique_def)
  show "canary_hash late_sha passing_canary = sample_old_hash"
    by (simp add: canary_hash_def canary_input_json_def passing_canary_def late_sha_object time_json_def)
qed

definition approved_view :: ledger_view where
  "approved_view = view_of (canary_query passing_canary) [sample_learner] (lg_evaluations approved_learning) []
     [sample_evaluation ''v2'' ''c1''] approved_learning"

lemma approved_view_read: "read_ledger late_sha (canary_query passing_canary) approved_learning = Inr approved_view"
proof -
  let ?q = "canary_query passing_canary"
  have q: "lq_principal ?q = ''u''" "lq_scopes ?q = [sample_where]" "ledger_read_ok ?q" "lq_candidate ?q = Some ''c1''"
    "lq_slot_hash ?q = None"
    by (simp_all add: canary_query_def passing_canary_def sample_scopes_ok ledger_read_ok_def canary_name opt_ok_def)
  have c: "read_candidates ?q approved_learning = [sample_learner]"
    by (simp add: read_candidates_def by_time_def q approved_learning_def opt_ok_def)
      (simp add: sample_learner_def same_scopes_def)
  have e: "read_evaluations [''c1''] approved_learning = lg_evaluations approved_learning"
    by (simp add: read_evaluations_def by_time_def approved_learning_def sample_identity_def)
  have l: "read_releases ids approved_learning = []" for ids
    by (simp add: read_releases_def by_time_def approved_learning_def empty_learning_def)
  have "receipt_sealed late_sha (sample_evaluation ''v2'' ''c1'')"
    by (simp add: receipt_sealed_def sample_evaluation_def unsealed_learning_receipt_json_def late_simps)
  then have r: "read_receipts late_sha ?q ids approved_learning = Inr [sample_evaluation ''v2'' ''c1'']" if "''run1'' \<in> set ids" for ids
    using that by (simp add: read_receipts_def q approved_learning_def filed_def)
  have "ln_candidate_id sample_learner = ''c1''" "map (\<lambda>r. ei_run_id (vr_identity r)) (lg_evaluations approved_learning) = [''run1'']"
    by (simp_all add: sample_learner_def approved_learning_def sample_identity_def)
  then show ?thesis
    using q c e l r by (simp add: read_ledger_def Let_def bindE_def approved_view_def)
qed

lemma approved_view_fields: "lv_candidates approved_view = [sample_learner]" "lv_identities approved_view = [sample_identity]"
  "lv_receipts approved_view = [sample_evaluation ''v2'' ''c1'']" "lv_controls approved_view = []" "lv_pointers approved_view = []"
  "lv_invalid approved_view = []"
  by (simp_all add: approved_view_def view_of_def Let_def approved_learning_def empty_learning_def)

definition approved_state :: candidate_state_row where
  "approved_state = \<lparr>sr_candidate_id = ''c1'', sr_state = Approved_for_canary, sr_sequence = 3, sr_transition_hash = Some sample_hash\<rparr>"

lemma approved_reduced: "reduce_candidate_state late_sha ''c1'' (lv_transitions approved_view) = Inr approved_state"
proof -
  have "ln_candidate_id sample_learner = ''c1''" by (simp add: sample_learner_def)
  then show ?thesis
    using ledger_port.reducer [OF approved_ok approved_view_read, of sample_learner]
    by (simp add: approved_view_fields end_row_def approved_chain state_after_def approved_state_def)
qed

definition sample_basis :: canary_basis where
  "sample_basis = \<lparr>cbs_view = approved_view, cbs_candidate = sample_learner, cbs_slot = sample_slot, cbs_state = approved_state,
     cbs_evaluation = sample_evaluation ''v2'' ''c1'', cbs_identity = sample_identity, cbs_active = None\<rparr>"

lemma passing_basis: "canary_basis_of late_sha passing_canary approved_view = Inr sample_basis"
proof -
  have q: "yq_candidate_id passing_canary = ''c1''" "yq_manifest passing_canary = sample_manifest" by (simp_all add: passing_canary_def)
  have c: "ln_candidate_id sample_learner = ''c1''" "ln_release_capable sample_learner" "ln_slot sample_learner = Some sample_slot"
    by (simp_all add: sample_learner_def)
  have e: "passed_evaluation ''c1'' (sample_evaluation ''v2'' ''c1'')" "receipt_run_id (sample_evaluation ''v2'' ''c1'') = Some ''run1''"
    "ei_run_id sample_identity = ''run1''"
    by (simp_all add: passed_evaluation_def receipt_run_id_def sample_evaluation_def sample_identity_def)
  have m: "manifest_fits sample_manifest ''c1'' None sample_identity" "cm_control_epoch sample_manifest = 0"
    by (simp_all add: manifest_fits_def sample_manifest_def sample_identity_def)
  show ?thesis
    by (simp add: canary_basis_of_def q accessible_candidate_def find_viewed_def approved_view_fields c approved_reduced bindE_def
      guardE_def e m control_of_def paused_now_def epoch_of_def sample_basis_def Let_def)
      (simp add: approved_state_def)
qed


lemma sample_authorization_ok: "canary_authorization_ok late_sha sample_authorization"
  by (simp add: canary_authorization_ok_def sample_authorization_def canary_name sample_scopes_ok opt_ok_def unique_def
    unsealed_authorization_json_def late_simps)

lemma passing_authorized: "authorized late_sha passing_canary sample_basis sample_authorization sample_later"
proof -
  have "sample_authorization\<lparr>au_authorization_hash := late_sha (unsealed_authorization_json sample_authorization)\<rparr> = sample_authorization"
    using sample_authorization_ok by (simp add: canary_authorization_ok_def sample_authorization_def)
  moreover have "sample_authorization\<lparr>au_authorization_id := yq_authorization_id passing_canary, au_principal := yq_principal passing_canary,
      au_scopes := scope_order (yq_scopes passing_canary), au_candidate_id := ln_candidate_id (cbs_candidate sample_basis),
      au_release_slot_hash := rs_slot_hash (cbs_slot sample_basis), au_base_release_id := cbs_active sample_basis,
      au_evaluation_receipt_id := rx_receipt_id (cbs_evaluation sample_basis),
      au_evaluation_receipt_hash := rx_receipt_hash (cbs_evaluation sample_basis),
      au_canary_manifest_id := cm_manifest_id sample_manifest, au_canary_manifest_hash := cm_manifest_hash sample_manifest,
      au_case_hashes := cm_case_hashes sample_manifest, au_deadline_at := Timestamp ''2026-01-02T00:00:01.000Z'' 1767312001000,
      au_control_epoch := cm_control_epoch sample_manifest, au_request_hash := canary_hash late_sha passing_canary\<rparr> = sample_authorization"
    by (simp add: passing_input(2)) (simp add: sample_authorization_def passing_canary_def sample_basis_def sample_learner_def
      sample_slot_def sample_evaluation_def sample_manifest_def sample_scopes_ok)
  moreover have "epoch_ms (yq_started_at passing_canary) + int (cm_maximum_duration_ms (yq_manifest passing_canary)) = 1767312001000"
    "yq_manifest passing_canary = sample_manifest"
    by (simp_all add: passing_canary_def sample_later_def sample_manifest_def)
  ultimately have "expected_authorization late_sha passing_canary sample_basis sample_authorization = Some sample_authorization"
    using sample_authorization_ok by (simp add: expected_authorization_def sample_deadline Let_def)
  then show ?thesis using sample_authorization_ok
    by (simp add: authorized_def) (simp add: sample_authorization_def sample_now_def sample_later_def)
qed

subsection \<open>The cases\<close>

abbreviation still :: "(unit, unit) world" where
  "still \<equiv> (approved_learning, ())"

lemma quiet_live: "bindE (from_storage (read_ledger late_sha (canary_query passing_canary) approved_learning))
     (live_code late_sha passing_canary sample_basis) = Inr None"
proof -
  have "ln_candidate_id sample_learner = ''c1''" "cm_control_epoch (yq_manifest passing_canary) = 0"
    by (simp_all add: sample_learner_def passing_canary_def sample_manifest_def)
  then show ?thesis
    by (simp add: approved_view_read from_storage_def bindE_def live_code_def control_of_def paused_now_def epoch_of_def
      approved_view_fields sample_basis_def approved_reduced)
qed

lemma clean_execution_ok:
  assumes "k \<in> set sample_cases" and "kq_stable_release_id r = None" and "kq_initial_hash r = sample_hash"
  shows "case_execution_ok (clean_execution r k)" "case_codes r k (clean_execution r k) = []"
  using assms by (auto simp: case_execution_ok_def clean_execution_def sample_cases_def canary_name opt_ok_def unique_def case_codes_def)

lemma quiet_cases:
  assumes "set ks \<subseteq> set sample_cases" and "kq_stable_release_id r = None" and "kq_initial_hash r = sample_hash"
  shows "expose_cases late_sha quiet_collaborators passing_canary sample_basis r (au_deadline_at sample_authorization) ks (codes, n) still
    = (Inr (codes, n + length ks), still)"
  using assms(1)
proof (induction ks arbitrary: codes n)
  case (Cons k ks)
  have kc: "kc_clock quiet_collaborators u = (sample_later, u)" "kc_execute quiet_collaborators r k u = (Some (clean_execution r k), u)" for u
    by (simp_all add: quiet_collaborators_def)
  have "epoch_ms sample_later \<le> epoch_ms (au_deadline_at sample_authorization)"
    by (simp add: sample_later_def sample_authorization_def)
  then show ?case
    using Cons clean_execution_ok [OF _ assms(2,3), of k] quiet_live by (simp add: kc)
qed simp

lemma quiet_outcome:
  "canary_outcome late_sha quiet_collaborators passing_canary sample_basis sample_authorization i still = (Inr ([], 3), still)"
proof -
  have kc: "kc_probe quiet_collaborators u = (sample_hash, u)" "kc_clock quiet_collaborators u = (sample_later, u)"
    "kc_cases quiet_collaborators x = Inr sample_cases" for u x
    by (simp_all add: quiet_collaborators_def)
  have "cases_fit sample_manifest sample_cases" "yq_manifest passing_canary = sample_manifest" "cm_environment_hash sample_manifest = sample_hash"
    "cbs_active sample_basis = None" "length sample_cases = 3"
    by (simp_all add: cases_fit_def sample_manifest_def sample_cases_def passing_canary_def sample_basis_def)
  moreover have "closing_codes sample_basis approved_view False (epoch_ms sample_later > epoch_ms (au_deadline_at sample_authorization)) = []"
    by (simp add: closing_codes_def control_of_def approved_view_fields paused_now_def sample_basis_def sample_later_def
      sample_authorization_def)
  ultimately show ?thesis
    using quiet_cases [of sample_cases]
    by (simp add: canary_outcome_def kc approved_view_read from_storage_def Let_def)
qed


subsection \<open>The run\<close>

definition passed_run :: canary_run where
  "passed_run = \<lparr>cu_run_id = ''canary:'' @ replicate 41 (CHR ''0''), cu_candidate_id = ''c1'', cu_authorization_id = ''a1'',
     cu_manifest_hash = sample_hash, cu_stable_release_id = None, cu_started_at = sample_later,
     cu_deadline_at = Timestamp ''2026-01-02T00:00:01.000Z'' 1767312001000, cu_control_epoch = 0, cu_status = Run_passed,
     cu_exposure_count = 3, cu_run_hash = sample_old_hash\<rparr>"

definition passed_receipt :: learning_receipt where
  "passed_receipt = \<lparr>rx_receipt_id = ''canary-receipt:'' @ replicate 41 (CHR ''0''), rx_created_at = sample_later,
     rx_state = Rs_durable, rx_request_hash = sample_old_hash, rx_receipt_hash = sample_old_hash,
     rx_body = Canary_receipt \<lparr>cb_candidate_id = ''c1'', cb_authorization_id = ''a1'', cb_authorization_hash = sample_hash,
       cb_evaluation_receipt_id = ''v2'', cb_manifest_hash = sample_hash, cb_exposures = 3, cb_passed = True,
       cb_failure_codes = [], cb_control_epoch = 0\<rparr>\<rparr>"

definition passed_transition :: transition where
  "passed_transition = \<lparr>tn_transition_id = ''transition:'' @ replicate 41 (CHR ''0''), tn_candidate_id = ''c1'', tn_sequence = 4,
     tn_from = Approved_for_canary, tn_to = In_canary, tn_previous_hash = Some sample_hash, tn_control_epoch = 0,
     tn_actor_id = ''learning_canary_runner'', tn_authority_id = Some ''a1'', tn_reason_code = ''G5_CANARY_EXECUTED'',
     tn_evidence_receipt_ids = [''v2'', ''canary-receipt:'' @ replicate 41 (CHR ''0'')], tn_idempotency_key = sample_key 55,
     tn_transitioned_at = sample_later, tn_transition_hash = sample_old_hash\<rparr>"

lemma canary_parts: "yq_principal passing_canary = ''u''" "yq_candidate_id passing_canary = ''c1''"
  "yq_manifest passing_canary = sample_manifest" "yq_started_at passing_canary = sample_later" "yq_key passing_canary = sample_key 55"
  "scope_order (yq_scopes passing_canary) = [sample_where]" "yq_authorization_id passing_canary = ''a1''"
  "ln_candidate_id (cbs_candidate sample_basis) = ''c1''" "rx_receipt_id (cbs_evaluation sample_basis) = ''v2''"
  "cbs_active sample_basis = None" "cbs_state sample_basis = approved_state" "sr_sequence approved_state = 3"
  "sr_transition_hash approved_state = Some sample_hash" "cm_manifest_hash sample_manifest = sample_hash"
  "cm_control_epoch sample_manifest = 0" "au_authorization_id sample_authorization = ''a1''"
  "au_authorization_hash sample_authorization = sample_hash" "au_control_epoch sample_authorization = 0"
  "au_deadline_at sample_authorization = Timestamp ''2026-01-02T00:00:01.000Z'' 1767312001000"
  by (simp_all add: passing_canary_def sample_basis_def sample_learner_def sample_evaluation_def approved_state_def
    sample_manifest_def sample_authorization_def sample_scopes_ok)

lemma new_run_passed:
  "new_run late_sha passing_canary sample_basis sample_authorization (''canary:'' @ replicate 41 (CHR ''0'')) 3 [] = passed_run"
  by (simp add: new_run_def unsealed_run_json_def late_sha_object time_json_def Let_def terminal_status_def canary_parts passed_run_def)

lemma receipt_passed: "canary_receipt_of late_sha passing_canary sample_basis sample_authorization passed_run [] sample_later = passed_receipt"
proof -
  have "cu_exposure_count passed_run = 3" "cu_status passed_run = Run_passed" "cu_run_hash passed_run = sample_old_hash"
    by (simp_all add: passed_run_def)
  then show ?thesis
    by (simp add: canary_receipt_of_def seal_learning_receipt_def unsealed_learning_receipt_json_def late_identifier canary_parts
        passing_input passed_receipt_def late_sha_object time_json_def)
      (simp add: later_differs code_points_inj passed_run_def sample_later_def)
qed

lemma transition_passed:
  "canary_transition late_sha passing_canary sample_basis sample_authorization (rx_receipt_id passed_receipt) = passed_transition"
  by (simp add: canary_transition_def unsealed_transition_json_def late_identifier canary_parts passed_transition_def
      passed_receipt_def late_sha_object time_json_def Let_def)
    (simp add: later_differs code_points_inj sample_later_def jnat_def)

lemma canary_identifiers: "identifier_ok (''canary:'' @ replicate 41 (CHR ''0''))" "identifier_ok (''canary-receipt:'' @ replicate 41 (CHR ''0''))"
  by (simp_all add: request_ok_defs eval_nat_numeral)

lemma sample_later_ms: "epoch_ms sample_later = 1767312000000"
  by (simp add: sample_later_def)

lemmas canary_identifier = canary_identifiers [simplified]

lemma passed_ok: "canary_run_ok late_sha passed_run" "receipt_is ''learning_canary'' late_sha passed_receipt" "transition_ok late_sha passed_transition"
proof -
  show "canary_run_ok late_sha passed_run"
    by (simp add: canary_run_ok_def unsealed_run_json_def late_sha_object time_json_def passed_run_def canary_name canary_identifier
      opt_ok_def sample_later_ms)
  show "receipt_is ''learning_canary'' late_sha passed_receipt"
    by (simp add: receipt_is_def learning_receipt_ok_def passed_receipt_def canary_name canary_identifier)
  show "transition_ok late_sha passed_transition"
    by (simp add: transition_ok_def unsealed_transition_json_def late_sha_object time_json_def passed_transition_def canary_name
      canary_identifier stamped_identifier opt_ok_def unique_def)
qed


definition passed_command :: learning_command where
  "passed_command = canary_write late_sha passing_canary sample_authorization passed_transition passed_run passed_receipt"

lemma passed_command_fields: "lw_key passed_command = sample_key 55" "lw_idempotency_hash passed_command = Some sample_old_hash"
  "lw_failure passed_command = None" "lw_write passed_command = Write_canary \<lparr>yw_principal = ''u'', yw_scopes = [sample_where],
     yw_authorization = sample_authorization, yw_transition = passed_transition, yw_run = passed_run, yw_receipt = passed_receipt\<rparr>"
  "check_command late_env False passed_command = Inr ()"
  using passed_ok sample_authorization_ok
  by (simp_all add: passed_command_def canary_write_def hashed_command_def canary_parts passing_input check_command_def
    learning_command_ok_def opt_ok_def brings_hash_def learning_command_hash_def request_hash_of_def canary_name sample_scopes_ok Let_def)

definition canaried_learning :: "unit learning_store" where
  "canaried_learning = approved_learning\<lparr>lg_transitions := lg_transitions approved_learning @ [passed_transition],
     lg_authorizations := [sample_authorization], lg_runs := [passed_run]\<rparr>"

lemma passed_inserted:
  "insert_canary passed_command \<lparr>yw_principal = ''u'', yw_scopes = [sample_where], yw_authorization = sample_authorization,
     yw_transition = passed_transition, yw_run = passed_run, yw_receipt = passed_receipt\<rparr> approved_learning = Inr canaried_learning"
proof -
  let ?x = "\<lparr>yw_principal = ''u'', yw_scopes = [sample_where], yw_authorization = sample_authorization,
     yw_transition = passed_transition, yw_run = passed_run, yw_receipt = passed_receipt\<rparr>"
  let ?s1 = "approved_learning\<lparr>lg_transitions := lg_transitions approved_learning @ [passed_transition]\<rparr>"
  let ?b = "\<lparr>cb_candidate_id = ''c1'', cb_authorization_id = ''a1'', cb_authorization_hash = sample_hash,
       cb_evaluation_receipt_id = ''v2'', cb_manifest_hash = sample_hash, cb_exposures = 3, cb_passed = True,
       cb_failure_codes = [], cb_control_epoch = 0\<rparr>"
  have b: "rx_body passed_receipt = Canary_receipt ?b" by (simp add: passed_receipt_def)
  have times: "epoch_ms sample_later = 1767312000000" "epoch_ms sample_now = 1767225600000"
    by (simp_all add: sample_later_def sample_now_def)
  have bc: "canary_consistent passed_command ?x ?b"
    by (simp add: canary_consistent_def passed_command_fields Let_def)
      (simp add: passed_run_def passed_receipt_def passed_transition_def sample_authorization_def same_scopes_def times)
  have a: "assert_candidate_access approved_learning ''c1'' ''u'' [sample_where] = Inr sample_learner"
    by (simp add: assert_candidate_access_def find_candidate_def approved_learning_def) (simp add: sample_learner_def same_scopes_def)
  have e: "stored_evaluation approved_learning ''v2'' = Inr (Some (sample_hash, b'))
      \<and> eb_candidate_id b' = ''c1'' \<and> eb_passed b' \<and> \<not> eb_invalidated b'"
    if "rx_body (sample_evaluation ''v2'' ''c1'') = Evaluation_receipt b'" for b'
    using that by (auto simp: stored_evaluation_def find_receipt_def approved_learning_def filed_def sample_evaluation_def)
  obtain b' where b': "rx_body (sample_evaluation ''v2'' ''c1'') = Evaluation_receipt b'" by (simp add: sample_evaluation_def)
  have st: "current_candidate_state approved_learning ''c1'' = Approved_for_canary" "latest_transition approved_learning ''c1''
      = Some (last (sample_chain ''c1'' 0 Proposed [Held, Evaluating, Approved_for_canary]))"
    using current_state_chain [OF learning_okD(1) [OF approved_ok], of "''c1''"]
      latest_of_chain [OF learning_okD(1) [OF approved_ok], of "''c1''"]
    by (simp_all add: approved_chain state_after_def)
  have t: "insert_transition passed_transition approved_learning = Inr ?s1"
    using st(2) by (simp add: insert_transition_Inr follows_def passed_transition_def find_candidate_def approved_learning_def
      sample_learner_def)
  have k: "find_control approved_learning ''u'' = None" "cu_candidate_id passed_run = ''c1''" "cu_control_epoch passed_run = 0"
    "ln_release_capable sample_learner" "map_option rs_slot_hash (ln_slot sample_learner) = Some (au_release_slot_hash sample_authorization)"
    "au_evaluation_receipt_id sample_authorization = ''v2''" "au_evaluation_receipt_hash sample_authorization = sample_hash"
    by (simp_all add: find_control_def approved_learning_def empty_learning_def passed_run_def sample_learner_def sample_slot_def
      sample_authorization_def)
  have tables: "lg_authorizations approved_learning = []" "lg_runs approved_learning = []"
    by (simp_all add: approved_learning_def empty_learning_def)
  show ?thesis
    using b bc a e [OF b'] st(1) t k tables
    by (simp add: insert_canary_def bindE_def guardE_def control_allows_run_def fail_at_def passed_command_fields
      insert_authorization_def insert_run_def insert_row_def canaried_learning_def Let_def)
qed


lemma passed_written: "\<exists>r t. write_ledger late_env False passed_command approved_learning = (Inr r, t) \<and> \<not> lz_replayed r"
proof -
  let ?s2 = "advance_epoch canaried_learning"
  have tables: "lg_receipts canaried_learning = [filed (sample_evaluation ''v2'' ''c1'') ''run1'']"
    "st_mutations (lg_ledger canaried_learning) = []" "lg_results canaried_learning = []" "lg_results approved_learning = []"
    by (simp_all add: canaried_learning_def approved_learning_def empty_learning_def sample_ledger_def)
  have a: "apply_write late_env passed_command approved_learning = Inr (Some passed_receipt, ''c1'', canaried_learning)"
    using passed_inserted by (simp add: apply_write_def passed_command_fields bindE_def) (simp add: passed_run_def)
  have seal: "receipt_sealed late_sha passed_receipt" using receipt_passed by (metis canary_receipt_of_def receipt_sealed_seal)
  have id: "rx_receipt_id (sample_evaluation ''v2'' ''c1'') = ''v2''" "rx_receipt_hash (sample_evaluation ''v2'' ''c1'') = sample_hash"
    "rx_receipt_id passed_receipt \<noteq> ''v2''" "rx_receipt_hash passed_receipt = sample_old_hash"
    by (simp_all add: sample_evaluation_def passed_receipt_def)
  obtain s3 where f: "file_receipt late_sha passed_command (Some passed_receipt) ''c1'' (st_ledger_epoch (lg_ledger ?s2)) ?s2 = Inr s3"
    and r: "lg_results s3 = []"
    by (simp add: file_receipt_def insert_receipt_def seal receipt_access_def passed_command_fields fail_at_def
        advance_epoch_def with_ledger_def tables filed_def id insert_row_def Let_def)
  show ?thesis using f a r tables(4)
    by (simp add: write_ledger_def passed_command_fields run_ledger_def read_result_def ledger_effect_def fail_at_def
      spend_approval_def approval_of_def insert_row_def bindE_def Let_def)
qed

lemma passing_canary_runs:
  "\<exists>res u. run_canary late_env False quiet_collaborators passing_canary still = (Inr res, u) \<and> \<not> yr_replayed res
     \<and> cu_status (yr_run res) = Run_passed"
proof -
  have kc: "kc_authority quiet_collaborators i = Inr (sample_authorization, sample_hash, sample_later)"
    "kc_clock quiet_collaborators u = (sample_later, u)" "kc_unchanged quiet_collaborators au = Inr ()" for i u au
    by (simp_all add: quiet_collaborators_def)
  obtain r t where w: "write_ledger late_env False passed_command approved_learning = (Inr r, t)"
    using passed_written by blast
  have i: "stable_identifier late_sha ''canary'' (jobj [(''candidate_id'', jstr (ln_candidate_id (cbs_candidate sample_basis))),
      (''authorization_id'', jstr (au_authorization_id sample_authorization)), (''idempotency_key'', J_str (yq_key passing_canary))])
      = ''canary:'' @ replicate 41 (CHR ''0'')"
    by (simp add: late_identifier canary_parts late_simps sample_key_def)
  have "canary_record late_env False quiet_collaborators passing_canary sample_basis (sample_authorization, sample_hash, sample_later) still
      = (Inr \<lparr>yr_authorization = sample_authorization, yr_transition = passed_transition, yr_run = passed_run,
          yr_receipt = passed_receipt, yr_replayed = False\<rparr>, (t, ()))"
    unfolding canary_record_def Let_def late_env_sha fst_conv i quiet_outcome
    using w passed_ok by (simp add: kc new_run_passed [simplified] receipt_passed transition_passed passed_command_def)
  moreover have "replay_ledger approved_learning (yq_key passing_canary) h = Inr None" for h
    by (simp add: replay_ledger_def read_result_def approved_learning_def empty_learning_def)
  moreover have "cu_status passed_run = Run_passed" by (simp add: passed_run_def)
  ultimately show ?thesis
    using passing_input passing_authorized passing_basis
    by (simp add: run_canary_def approved_view_read from_storage_def bindE_def kc Let_def)
qed

end
