(* ===== verification/ReleaseProperties.thy ===== *)
theory ReleaseProperties
  imports ReleaseSamples
begin

text \<open>
  The release manager over the learning ledger: what it plans passes the checks of the repository, and what a rollback
  can leave behind.
\<close>

subsection \<open>What a plan says\<close>

lemma release_plan_Inr:
  assumes "release_plan sha rg q op' c z w = Inr x"
  obtains y rs conf a t0 where "slot_status_of sha q z w = Inr y" "release_receipts q y w = Inr rs"
    "configuration_hash sha q c w = Inr conf" "post_canary_approval_ok sha a"
    "authority_matches q (release_hash_of sha q op')
       (approval_details_of q z y rs (effect_manifest_hash_of sha q c (sl_active y) conf)) a t0"
    "approval_grant_matches sha (release_binding q (release_hash_of sha q op') a) (va_grant (rw_approval x))
       (va_verified_at (rw_approval x)) = Some True"
    "rw_rollback x = rq_rollback q" "rw_principal x = rq_principal q" "rw_scopes x = scope_order (rq_scopes q)"
    "rw_expected_epoch x = epoch_of (sl_control y)" "rw_expected_revision x = sl_revision y" "rw_artifact x = a"
    "rw_binding x = release_binding q (release_hash_of sha q op') a" "expected_effect (ln_target c) = Some (rw_effect x)"
    "rw_release x = new_release sha q (release_hash_of sha q op') y a conf"
    "rw_pointer x = pointer_after sha q y (rw_release x)"
    "rw_transition x = release_transition sha q (sl_state y) a"
    "rw_receipt x = release_receipt_of sha q (release_hash_of sha q op') a (rw_release x) (rw_pointer x)"
proof -
  note bind = bindE_InrE
  from assms [unfolded release_plan_def Let_def] show thesis
    by (elim bind) (auto simp: parsed_def guardE_iff split: option.splits if_splits intro!: that)
qed


lemma filter_key:
  "distinct (map f xs) \<Longrightarrow> filter (\<lambda>x. f x = k) xs = (case List.find (\<lambda>x. f x = k) xs of None \<Rightarrow> [] | Some x \<Rightarrow> [x])"
proof (induction xs)
  case (Cons x xs)
  have tail: "f x = k \<Longrightarrow> filter (\<lambda>x. f x = k) xs = []" using Cons.prems
    by (metis (mono_tags, lifting) distinct.simps(2) filter_False image_eqI list.set_map list.simps(9))
  show ?case
  proof (cases "f x = k")
    case True
    then show ?thesis using tail by simp
  qed (use Cons in simp)
qed simp

lemma find_filter: "List.find P xs = (case filter P xs of [] \<Rightarrow> None | y # ys \<Rightarrow> Some y)"
  by (induction xs) auto

lemma find_key:
  assumes "distinct (map f xs)" and "x \<in> set xs"
  shows "List.find (\<lambda>y. f y = f x) xs = Some x"
  using assms by (induction xs) auto

lemma scope_order_idem [simp]: "scope_order (scope_order ss) = scope_order ss"
  by (simp add: scope_order_def sort_key_id_if_sorted)

lemma same_scopes_order [simp]: "same_scopes xs (scope_order ys) = same_scopes xs ys" "same_scopes (scope_order xs) ys = same_scopes xs ys"
  by (simp_all add: same_scopes_def)

lemma from_storage_Inr [simp]: "from_storage x = Inr y \<longleftrightarrow> x = Inr y"
  by (auto simp: from_storage_def split: sum.splits)

lemma same_scopes_refl [simp]: "same_scopes xs xs"
  by (simp add: same_scopes_def)

lemma view_control:
  assumes "learning_ok sha s" and "read_ledger sha q s = Inr w"
  shows "control_of w = find_control s (lq_principal q)"
  using learning_okD(7) [OF assms(1)] read_ledger_Inr(5) [OF assms(2)] filter_key [of lc_principal "lg_controls s" "lq_principal q"]
  by (simp add: control_of_def keyed_def find_control_def split: option.splits)

lemma read_ledger_pointers:
  assumes "read_ledger sha q s = Inr w"
  shows "lv_pointers w = sort_key pt_slot_hash
    (filter (\<lambda>p. pt_slot_hash p \<in> set (read_slots (lv_candidates w) (lv_releases w))) (lg_pointers s))"
  using assms by (auto simp: read_ledger_def view_of_def Let_def ledger_inv split: if_splits)

lemma view_pointer:
  assumes "learning_ok sha s" and "read_ledger sha q s = Inr w" and "c \<in> set (lv_candidates w)" and "ln_slot c = Some z"
  shows "List.find (\<lambda>p. pt_slot_hash p = rs_slot_hash z) (lv_pointers w) = find_pointer s (rs_slot_hash z)"
proof -
  let ?P = "\<lambda>p. pt_slot_hash p = rs_slot_hash z" and ?Q = "\<lambda>p. pt_slot_hash p \<in> set (read_slots (lv_candidates w) (lv_releases w))"
  have "rs_slot_hash z \<in> set (read_slots (lv_candidates w) (lv_releases w))"
    using assms(3,4) by (auto simp: read_slots_def intro!: bexI [of _ c])
  then have "filter ?P (filter ?Q (lg_pointers s)) = filter ?P (lg_pointers s)"
    by (auto intro!: filter_cong)
  then have "filter ?P (lv_pointers w) = sort_key pt_slot_hash (filter ?P (lg_pointers s))"
    by (simp add: read_ledger_pointers [OF assms(2)] filter_sort)
  moreover have "filter ?P (lg_pointers s) = (case find_pointer s (rs_slot_hash z) of None \<Rightarrow> [] | Some p \<Rightarrow> [p])"
    using learning_okD(7) [OF assms(1)] filter_key [of pt_slot_hash "lg_pointers s"] by (simp add: keyed_def find_pointer_def)
  ultimately show ?thesis
    by (simp add: find_filter [of ?P "lv_pointers w"] split: option.splits)
qed

lemma view_receipt:
  assumes "learning_ok sha s" and "read_ledger sha q s = Inr w" and "r \<in> set (lv_receipts w)"
  shows "receipt_stored s (receipt_kind (rx_body r)) (rx_receipt_id r) (rx_receipt_hash r)"
proof -
  obtain ids where "read_receipts sha q ids s = Inr (lv_receipts w)" using read_ledger_Inr(8) [OF assms(2)] by blast
  from read_receipts_mine [OF this assms(3)] obtain x where x: "x \<in> set (lg_receipts s)" "xr_receipt x = r" by blast
  have "distinct (map (\<lambda>x. rx_receipt_id (xr_receipt x)) (lg_receipts s))"
    using learning_okD(7) [OF assms(1)] by (simp add: keyed_def receipts_keyed_def)
  from find_key [OF this x(1)] x(2) show ?thesis by (simp add: receipt_stored_def find_receipt_def)
qed

lemma view_candidate:
  assumes "learning_ok sha s" and "read_ledger sha q s = Inr w" and "find_viewed w i = Some c"
  shows "c \<in> set (lv_candidates w)" "find_candidate s i = Some c" "ln_candidate_id c = i"
    "ln_principal c = lq_principal q" "same_scopes (ln_scopes c) (lq_scopes q)"
proof -
  from assms(3) show c: "c \<in> set (lv_candidates w)" "ln_candidate_id c = i" by (auto simp: find_viewed_def dest!: find_Some_mem)
  then have m: "c \<in> set (lg_candidates s) \<and> ln_principal c = lq_principal q \<and> same_scopes (ln_scopes c) (lq_scopes q)"
    using read_candidates_mine [of c q s] read_ledger_Inr(2) [OF assms(2)] by simp
  then show "ln_principal c = lq_principal q" "same_scopes (ln_scopes c) (lq_scopes q)" by simp_all
  have "distinct (map ln_candidate_id (lg_candidates s))" using learning_okD(7) [OF assms(1)] by (simp add: keyed_def)
  from find_key [OF this, of c] m c(2) show "find_candidate s i = Some c" by (simp add: find_candidate_def)
qed

lemma slot_status_Inr:
  assumes "slot_status_of sha q z w = Inr y"
  shows "reduce_candidate_state sha (rq_candidate_id q) (lv_transitions w) = Inr (sl_state y)"
    "sl_control y = control_of w" "\<not> (paused_now (control_of w) \<and> \<not> rq_rollback q)"
    "sl_revision y = (case List.find (\<lambda>p. pt_slot_hash p = rs_slot_hash z) (lv_pointers w) of None \<Rightarrow> 0 | Some p \<Rightarrow> pt_revision p)"
    "sl_active y = (case List.find (\<lambda>p. pt_slot_hash p = rs_slot_hash z) (lv_pointers w) of None \<Rightarrow> None | Some p \<Rightarrow> pt_active_release_id p)"
    "rq_rollback q \<Longrightarrow> sl_active y \<noteq> None"
    "sr_state (sl_state y) = (if rq_rollback q then Released else In_canary)"
  using assms by (auto simp: slot_status_of_def Let_def ledger_inv split: option.splits if_splits)

lemma release_receipts_Inr:
  assumes "release_receipts q y w = Inr rs"
  shows "fst rs \<in> set (lv_receipts w)" "snd rs \<in> set (lv_receipts w)"
    "receipt_kind (rx_body (fst rs)) = ''evaluation''" "receipt_kind (rx_body (snd rs)) = ''learning_canary''"
proof -
  from assms obtain e b where "evaluation_for q y w = Some (fst rs)" "canary_for q y w = Some (snd rs)"
    "rx_body (fst rs) = Evaluation_receipt e" "rx_body (snd rs) = Canary_receipt b"
    by (auto simp: release_receipts_def split: option.splits receipt_body.splits if_splits)
  then show "fst rs \<in> set (lv_receipts w)" "snd rs \<in> set (lv_receipts w)"
    "receipt_kind (rx_body (fst rs)) = ''evaluation''" "receipt_kind (rx_body (snd rs)) = ''learning_canary''"
    by (auto simp: evaluation_for_def canary_for_def split: option.splits bool.splits dest!: find_Some_mem)
qed


text \<open>The candidate and the slot of both reads.\<close>

lemma release_reads_Inr:
  assumes "learning_ok sha s" and "release_reads sha rg q op' s = Inr x"
  obtains c z w where "read_ledger sha (slot_query q z) s = Inr w" "release_plan sha rg q op' c z w = Inr x"
    "c \<in> set (lv_candidates w)" "ln_slot c = Some z" "slot_eligible q c z" "ln_candidate_id c = rq_candidate_id q"
    "find_candidate s (rq_candidate_id q) = Some c" "ln_principal c = rq_principal q"
proof -
  from assms(2) obtain w1 c z w2 where w1: "read_ledger sha (candidate_query q) s = Inr w1"
    and c: "release_candidate q w1 = Inr (c, z)" and w2: "read_ledger sha (slot_query q z) s = Inr w2"
    and plan: "release_plan sha rg q op' c z w2 = Inr x"
    by (auto simp: release_reads_def ledger_inv)
  from c have found: "find_viewed w1 (rq_candidate_id q) = Some c" and slot: "ln_slot c = Some z" and el: "slot_eligible q c z"
    by (auto simp: release_candidate_def accessible_candidate_def ledger_inv split: option.splits if_splits)
  note vc = view_candidate [OF assms(1) w1 found]
  have in2: "c \<in> set (lv_candidates w2)"
    using vc(2,4,5) slot find_candidate_Some [OF vc(2)]
    unfolding read_ledger_Inr(2) [OF w2]
    by (simp add: read_candidates_def by_time_def candidate_query_def slot_query_def opt_ok_def)
  show thesis
    by (rule that [OF w2 plan in2 slot el]) (use vc in \<open>simp_all add: candidate_query_def\<close>)
qed

text \<open>C4: what a release or a rollback needs and does. If one is written, its candidate was in its canary (a rollback:
  in its canary or released), the pause switch was off for a release and the control epoch was the expected one, the
  grant matched the binding, both receipts the approval cites were stored with their hashes, and the pointer moved
  by compare-and-set: one revision up, from the active release the approval names.\<close>

theorem release_is_authorised:
  assumes "learning_ok (env_sha v) s" and "write_ledger v test c s = (Inr r, t)" and "\<not> lz_replayed r"
    and "lw_write c = Write_release x"
  shows "current_candidate_state s (rl_candidate_id (rw_release x)) \<in> (if rw_rollback x then {In_canary, Released} else {In_canary})
    \<and> current_candidate_state t (rl_candidate_id (rw_release x)) = (if rw_rollback x then Rolled_back else Released)
    \<and> epoch_of (find_control s (rw_principal x)) = rw_expected_epoch x
    \<and> \<not> (\<not> rw_rollback x \<and> paused_now (find_control s (rw_principal x)))
    \<and> approval_grant_matches (env_sha v) (rw_binding x) (va_grant (rw_approval x)) (va_verified_at (rw_approval x)) = Some True
    \<and> receipt_stored s ''evaluation'' (ld_evaluation_receipt_id (pa_details (rw_artifact x)))
        (ld_evaluation_receipt_hash (pa_details (rw_artifact x)))
    \<and> receipt_stored s ''learning_canary'' (ld_canary_receipt_id (pa_details (rw_artifact x)))
        (ld_canary_receipt_hash (pa_details (rw_artifact x)))
    \<and> find_pointer t (rl_slot_hash (rw_release x)) = Some (rw_pointer x)
    \<and> pt_revision (rw_pointer x) = Suc (length (slot_log s (rl_slot_hash (rw_release x))))
    \<and> ld_base_release_id (pa_details (rw_artifact x)) = active_after None (slot_log s (rl_slot_hash (rw_release x)))"
proof -
  let ?i = "rl_candidate_id (rw_release x)" and ?h = "rl_slot_hash (rw_release x)" and ?t = "rw_transition x"
  from release_effect_Inr [OF assms(2-4)] obtain s1 where i: "insert_release v c x s = Inr s1"
    and w: "writes (Write_release x) s t" "write_ok (env_sha v) (Write_release x)"
    and a: "assert_approval_available (env_sha v) (rw_binding x, rw_approval x) s = Inr ()" .
  have chain: "chained 0 Proposed None (candidate_chain s ?i)" using assms(1) by (rule learning_okD)
  have ok': "learning_ok (env_sha v) t"
    using learning_step_ok [OF assms(1) learning_step.command [of v test s c]] assms(2) by simp
  from insert_release_Inr [OF i] have m: "pointer_matches x (find_pointer s ?h)"
    and rc: "release_consistent c x (find_control s (rw_principal x))" by blast+
  from w(1) have tr: "lg_transitions t = lg_transitions s @ [?t]" "follows (latest_transition s ?i) ?t"
    "tn_candidate_id ?t = ?i" "tn_to ?t = (if rw_rollback x then Rolled_back else Released)"
    "lg_pointers t = put_pointer (rw_pointer x) (lg_pointers s)"
    unfolding writes_def by auto
  have origin: "tn_from ?t = current_candidate_state s ?i"
    using tr(2,3) by (simp add: follows_def current_candidate_state_def split: option.splits)
  have legal: "tn_to ?t \<in> set (legal_transitions (tn_from ?t))"
    using write_transition_ok [OF w(2)] by simp
  have st: "current_candidate_state s ?i \<in> (if rw_rollback x then {In_canary, Released} else {In_canary})"
    using legal tr(4) unfolding origin by (cases "current_candidate_state s ?i") (auto split: if_splits)
  have "current_candidate_state t ?i = tn_to ?t"
    using current_state_chain [OF learning_okD(1) [OF ok'], of ?i] candidate_chain_add [OF tr(1), of ?i] tr(3)
    by (simp add: state_after_def)
  moreover have "find_pointer t ?h = Some (rw_pointer x)"
    using find_pointer_put [OF tr(5), of ?h] m by (simp add: pointer_matches_def Let_def)
  moreover have "pt_revision (rw_pointer x) = Suc (length (slot_log s ?h))"
    "ld_base_release_id (pa_details (rw_artifact x)) = active_after None (slot_log s ?h)"
    using m learning_okD(3) [OF assms(1), of ?h]
    by (auto simp: pointer_matches_def Let_def pointer_ok_def active_after_def split: option.splits)
  moreover have "epoch_of (find_control s (rw_principal x)) = rw_expected_epoch x"
    "\<not> (\<not> rw_rollback x \<and> paused_now (find_control s (rw_principal x)))"
    using rc by (simp_all add: release_consistent_def Let_def epoch_of_def paused_now_def)
  moreover have "receipt_stored s ''evaluation'' (ld_evaluation_receipt_id (pa_details (rw_artifact x)))
        (ld_evaluation_receipt_hash (pa_details (rw_artifact x)))
    \<and> receipt_stored s ''learning_canary'' (ld_canary_receipt_id (pa_details (rw_artifact x)))
        (ld_canary_receipt_hash (pa_details (rw_artifact x)))"
    using i unfolding insert_release_def Let_def by (elim bindE_InrE) (simp add: ledger_inv)
  moreover have "approval_grant_matches (env_sha v) (rw_binding x) (va_grant (rw_approval x)) (va_verified_at (rw_approval x)) = Some True"
    using a by (auto simp: assert_approval_available_def ledger_inv split: option.splits)
  ultimately show ?thesis using st tr(4) by simp
qed

lemma release_is_authorised_witness:
  "\<exists>r t. write_ledger late_env False rollback_write released_learning = (Inr r, t)
     \<and> current_candidate_state released_learning ''c2'' \<in> {In_canary, Released}
     \<and> current_candidate_state t ''c2'' = Rolled_back \<and> find_pointer t sample_hash = Some rollback_pointer"
proof -
  obtain r t where t: "write_ledger late_env False rollback_write released_learning = (Inr r, t)" "\<not> lz_replayed r"
    using rollback_written by blast
  from release_is_authorised [of late_env released_learning False rollback_write r t rollback_command] released_ok t show ?thesis
    by (auto simp: rollback_write_fields rollback_fields)
qed

text \<open>C8: the release manager and the repository agree. Whatever release or rollback the manager plans from its two reads
  of a ledger passes, on that ledger, the repository's own checks: the access to the candidate, the control epoch and
  the pause switch, the binding and the approval, the two stored receipts with their hashes, the pointer, the receipt
  it files and the transition it adds.\<close>

theorem planned_release_passes_repository:
  assumes "learning_ok (env_sha v) s" and "release_reads (env_sha v) rg q op' s = Inr x"
  shows "\<exists>c. assert_candidate_access s (rl_candidate_id (rw_release x)) (rw_principal x) (rw_scopes x) = Inr c
    \<and> expected_effect (ln_target c) = Some (rw_effect x)
    \<and> release_consistent (release_write (env_sha v) q op' x) x (find_control s (rw_principal x))
    \<and> receipt_stored s ''evaluation'' (ld_evaluation_receipt_id (pa_details (rw_artifact x)))
        (ld_evaluation_receipt_hash (pa_details (rw_artifact x)))
    \<and> receipt_stored s ''learning_canary'' (ld_canary_receipt_id (pa_details (rw_artifact x)))
        (ld_canary_receipt_hash (pa_details (rw_artifact x)))
    \<and> pointer_matches x (find_pointer s (rl_slot_hash (rw_release x)))
    \<and> release_receipt_matches x
    \<and> follows (latest_transition s (rl_candidate_id (rw_release x))) (rw_transition x)"
proof -
  let ?sha = "env_sha v" and ?i = "rq_candidate_id q"
  from release_reads_Inr [OF assms] obtain c z w2 where w2: "read_ledger ?sha (slot_query q z) s = Inr w2"
    and plan: "release_plan ?sha rg q op' c z w2 = Inr x" and in2: "c \<in> set (lv_candidates w2)"
    and slot: "ln_slot c = Some z" and el: "slot_eligible q c z" and id: "ln_candidate_id c = ?i"
    and vc: "find_candidate s ?i = Some c" "ln_principal c = rq_principal q" .
  from plan show ?thesis
  proof (rule release_plan_Inr, goal_cases)
    case (1 y rs conf a t0)
    note y = slot_status_Inr [OF 1(1)] and r = release_receipts_Inr [OF 1(2)]
    have ctl: "control_of w2 = find_control s (rq_principal q)"
      using view_control [OF assms(1) w2] by (simp add: slot_query_def)
    have ptr: "sl_revision y = (case find_pointer s (rs_slot_hash z) of None \<Rightarrow> 0 | Some p \<Rightarrow> pt_revision p)"
      "sl_active y = (case find_pointer s (rs_slot_hash z) of None \<Rightarrow> None | Some p \<Rightarrow> pt_active_release_id p)"
      using y(4,5) view_pointer [OF assms(1) w2 in2 slot] by simp_all
    have row: "sl_state y = state_row s ?i"
      using y(1) ledger_port.reducer [OF assms(1) w2 in2] state_row_end [OF learning_okD(1) [OF assms(1), of ?i]] id
      by simp
    from 1(5) have d: "pa_details a = approval_details_of q z y rs (effect_manifest_hash_of ?sha q c (sl_active y) conf)"
      and pa: "pa_approval_id a = rq_approval_id q" "pa_principal a = rq_principal q" "same_scopes (pa_scopes a) (rq_scopes q)"
        "pa_request_hash a = release_hash_of ?sha q op'"
      by (simp_all add: authority_matches_def)
    have target: "\<not> rq_rollback q \<longrightarrow> rq_target_release_id q = None"
      using 1(4) d by (auto simp: post_canary_approval_ok_def learning_details_ok_def approval_details_of_def)
    have grant: "grant_approval_id (va_grant (rw_approval x)) = pa_approval_id a"
      using 1(6) by (auto simp: approval_grant_matches_def Let_def release_binding_def split: if_splits)
    have rel: "rl_slot_hash (rw_release x) = rs_slot_hash z" "rl_candidate_id (rw_release x) = ?i"
      "rl_previous_release_id (rw_release x) = sl_active y"
      "rl_restored_release_id (rw_release x) = rq_target_release_id q"
      "rl_evaluation_receipt_id (rw_release x) = rx_receipt_id (fst rs)"
      "rl_canary_receipt_id (rw_release x) = rx_receipt_id (snd rs)" "rl_approval_id (rw_release x) = pa_approval_id a"
      using target d by (simp_all add: 1(15) new_release_def Let_def approval_details_of_def)
    have point: "pt_slot_hash (rw_pointer x) = rs_slot_hash z" "pt_revision (rw_pointer x) = sl_revision y + 1"
      "pt_active_release_id (rw_pointer x) = (if rq_rollback q then rq_target_release_id q else Some (rl_release_id (rw_release x)))"
      using rel(1) by (simp_all add: 1(16) pointer_after_def sealed_pointer_def Let_def)
    have tr: "tn_candidate_id (rw_transition x) = ?i" "tn_authority_id (rw_transition x) = Some (pa_approval_id a)"
      "tn_to (rw_transition x) = (if rq_rollback q then Rolled_back else Released)"
      "rx_receipt_id (fst rs) \<in> set (tn_evidence_receipt_ids (rw_transition x))"
      "rx_receipt_id (snd rs) \<in> set (tn_evidence_receipt_ids (rw_transition x))"
      "tn_sequence (rw_transition x) = sr_sequence (sl_state y) + 1" "tn_from (rw_transition x) = sr_state (sl_state y)"
      "tn_previous_hash (rw_transition x) = sr_transition_hash (sl_state y)"
      using d by (simp_all add: 1(17) release_transition_def Let_def approval_details_of_def)
    have access: "assert_candidate_access s (rl_candidate_id (rw_release x)) (rw_principal x) (rw_scopes x) = Inr c"
      using vc el by (simp add: assert_candidate_access_def rel(2) 1(8,9) slot_eligible_def)
    moreover have "release_consistent (release_write ?sha q op' x) x (find_control s (rw_principal x))"
      using rel tr d pa grant 1(7-13) y(2,3) ctl
      by (auto simp: release_consistent_def Let_def release_write_def release_binding_def 1(18) release_receipt_of_def
        seal_learning_receipt_def epoch_of_def paused_now_def approval_details_of_def)
    moreover have "receipt_stored s ''evaluation'' (ld_evaluation_receipt_id (pa_details (rw_artifact x)))
        (ld_evaluation_receipt_hash (pa_details (rw_artifact x)))
      \<and> receipt_stored s ''learning_canary'' (ld_canary_receipt_id (pa_details (rw_artifact x)))
        (ld_canary_receipt_hash (pa_details (rw_artifact x)))"
      using view_receipt [OF assms(1) w2 r(1)] view_receipt [OF assms(1) w2 r(2)] r(3,4) d 1(12)
      by (simp add: approval_details_of_def)
    moreover have "pointer_matches x (find_pointer s (rl_slot_hash (rw_release x)))"
      using rel point d 1(7,11,12) ptr
      by (simp add: pointer_matches_def Let_def approval_details_of_def)
    moreover have "release_receipt_matches x"
      using rel point d 1(7,10,12) y(6)
      by (auto simp: release_receipt_matches_def Let_def 1(18) release_receipt_of_def seal_learning_receipt_def
        approval_details_of_def)
    moreover have "follows (latest_transition s (rl_candidate_id (rw_release x))) (rw_transition x)"
      using tr(6-8) by (auto simp: follows_def rel(2) row state_row_def split: option.splits)
    ultimately show ?thesis using 1(14) by blast
  qed
qed

lemma planned_release_passes_repository_witness:
  "release_reads late_sha sample_registries sample_rollback plain_options released_learning = Inr rollback_command
     \<and> pointer_matches rollback_command (find_pointer released_learning sample_hash) \<and> release_receipt_matches rollback_command"
  using planned_release_passes_repository [of late_env released_learning sample_registries sample_rollback plain_options rollback_command]
    released_ok rollback_reads by (auto simp: rollback_fields)


subsection \<open>A rollback to a release whose candidate was rolled back\<close>

text \<open>A candidate that was rolled back stays so.\<close>

lemma rolled_back_for_ever:
  assumes "learning_ok (env_sha v) s" and "current_candidate_state s i = Rolled_back" and "(learning_step v test)\<^sup>*\<^sup>* s u"
  shows "candidate_chain u i = candidate_chain s i \<and> current_candidate_state u i = Rolled_back"
proof -
  note cs = learning_okD(1) [OF assms(1), of i]
  have u: "learning_ok (env_sha v) u" using learning.steps_inv [OF assms(3,1)] .
  note cu = learning_okD(1) [OF u, of i]
  from chain_grows_steps [OF assms(3), of i] obtain zs where zs: "candidate_chain u i = candidate_chain s i @ zs"
    by (auto simp: prefix_def)
  have last: "candidate_chain s i \<noteq> []" "stage (tn_to (last (candidate_chain s i))) = 6"
    using assms(2) current_state_chain [OF cs] by (auto simp: state_after_def split: if_splits)
  have "zs = []"
  proof (cases zs)
    case (Cons z ys)
    have "stage (tn_to (last (candidate_chain s i))) < stage (tn_to z)"
      using chained_stages [OF cu] last(1) unfolding zs Cons by (auto simp: sorted_wrt_append)
    then show ?thesis using last(2) stage_le [of "tn_to z"] by simp
  qed
  then show ?thesis using zs assms(2) current_state_chain [OF cu] current_state_chain [OF cs] by simp
qed

lemma release_is_authorised_pointer:
  assumes "write_ledger v test c s = (Inr r, t)" and "\<not> lz_replayed r" and "lw_write c = Write_release x"
  shows "find_pointer t (rl_slot_hash (rw_release x)) = Some (rw_pointer x)"
    "pt_active_release_id (rw_pointer x)
       = (if rw_rollback x then rl_restored_release_id (rw_release x) else Some (rl_release_id (rw_release x)))"
proof -
  from release_effect_Inr [OF assms] have w: "writes (Write_release x) s t" .
  then have m: "pointer_matches x (find_pointer s (rl_slot_hash (rw_release x)))"
    and p: "lg_pointers t = put_pointer (rw_pointer x) (lg_pointers s)" by (simp_all add: writes_def)
  from m show "find_pointer t (rl_slot_hash (rw_release x)) = Some (rw_pointer x)"
    by (simp add: find_pointer_put [OF p] pointer_matches_def Let_def)
  from m show "pt_active_release_id (rw_pointer x)
       = (if rw_rollback x then rl_restored_release_id (rw_release x) else Some (rl_release_id (rw_release x)))"
    by (simp add: pointer_matches_def Let_def)
qed

lemma rollback_needs_released:
  assumes "learning_ok (env_sha v) u" and "current_candidate_state u (rq_candidate_id q) = Rolled_back" and "rq_rollback q"
    and "read_result u (rq_key q) = None"
  shows "\<exists>e. apply_release v test rg q op' u = (Inl e, u)"
proof -
  have none: "release_reads (env_sha v) rg q op' u \<noteq> Inr x" for x
  proof
    assume "release_reads (env_sha v) rg q op' u = Inr x"
    from release_reads_Inr [OF assms(1) this] obtain c z w where w: "read_ledger (env_sha v) (slot_query q z) u = Inr w"
      and plan: "release_plan (env_sha v) rg q op' c z w = Inr x" and c: "c \<in> set (lv_candidates w)"
      and id: "ln_candidate_id c = rq_candidate_id q" .
    from plan show False
    proof (rule release_plan_Inr, goal_cases)
      case (1 y)
      then show ?case
        using slot_status_Inr(1,7) [OF 1(1)] ledger_port.reducer [OF assms(1) w c] id assms(2,3)
          current_state_chain [OF learning_okD(1) [OF assms(1)], of "rq_candidate_id q"]
        by (auto simp: end_row_def)
    qed
  qed
  then show ?thesis
    using assms(4) by (auto simp: apply_release_def Let_def replay_ledger_def split: sum.splits)
qed

text \<open>C24: a rollback may restore a release that can never be rolled back again. The manager and the repository check that
  the release a rollback names is stored in the slot and that its target is still valid, not the state of its
  candidate. If that candidate was rolled back before, the rollback is written and the old release is active again;
  but its candidate stays rolled back, so that every later rollback of it is refused, whatever its approvals.\<close>

theorem rollback_can_restore_a_retired_release:
  assumes "learning_ok (env_sha v) s" and "write_ledger v test c s = (Inr r, t)" and "\<not> lz_replayed r"
    and "lw_write c = Write_release x" and "rw_rollback x" and "rl_restored_release_id (rw_release x) = Some i"
    and "find_release s i = Some k" and "current_candidate_state s (rl_candidate_id k) = Rolled_back"
  shows "(\<exists>p. find_pointer t (rl_slot_hash (rw_release x)) = Some p \<and> pt_active_release_id p = Some i)
    \<and> (\<forall>u rg q op'. (learning_step v test)\<^sup>*\<^sup>* t u \<and> rq_rollback q \<and> rq_candidate_id q = rl_candidate_id k
         \<and> read_result u (rq_key q) = None \<longrightarrow> (\<exists>e. apply_release v test rg q op' u = (Inl e, u)))"
proof -
  have st: "learning_step v test s t" using learning_step.command [of v test s c] assms(2) by simp
  have t: "learning_ok (env_sha v) t" using learning_step_ok [OF assms(1) st] .
  have rb: "current_candidate_state t (rl_candidate_id k) = Rolled_back"
    using rolled_back_for_ever [OF assms(1,8)] st by blast
  from release_is_authorised_pointer [OF assms(2-4)] have
    "find_pointer t (rl_slot_hash (rw_release x)) = Some (rw_pointer x)" "pt_active_release_id (rw_pointer x) = Some i"
    using assms(5,6) by simp_all
  moreover have "\<exists>e. apply_release v test rg q op' u = (Inl e, u)"
    if "(learning_step v test)\<^sup>*\<^sup>* t u" "rq_rollback q" "rq_candidate_id q = rl_candidate_id k" "read_result u (rq_key q) = None"
    for u rg q op'
    using rollback_needs_released [of v u q] learning.steps_inv [OF that(1) t] rolled_back_for_ever [OF t rb that(1)] that(2-4)
    by simp
  ultimately show ?thesis by blast
qed

lemma rollback_can_restore_a_retired_release_witness:
  "\<exists>r t p. write_ledger late_env False rollback_write released_learning = (Inr r, t) \<and> find_pointer t sample_hash = Some p
     \<and> pt_active_release_id p = Some ''l1'' \<and> current_candidate_state released_learning ''c1'' = Rolled_back"
proof -
  obtain r t where t: "write_ledger late_env False rollback_write released_learning = (Inr r, t)" "\<not> lz_replayed r"
    using rollback_written by blast
  have k: "find_release released_learning ''l1'' = Some (sample_release ''l1'' False ''c1'' None)"
    by (simp add: find_release_def released_learning_def sample_release_def)
  have "sample_chain i n st xs = [] \<longleftrightarrow> xs = []" for i n st xs by (cases xs) simp_all
  then have c: "current_candidate_state released_learning ''c1'' = Rolled_back"
    using current_state_chain [OF learning_okD(1) [OF released_ok], of "''c1''"]
    by (simp add: released_chain state_after_def until_release_def)
  have "\<exists>p. find_pointer t (rl_slot_hash (rw_release rollback_command)) = Some p \<and> pt_active_release_id p = Some ''l1''"
    using rollback_can_restore_a_retired_release [of late_env released_learning False rollback_write r t rollback_command "''l1''"]
      released_ok t k c by (simp add: rollback_write_fields rollback_fields sample_release_def)
  with t c show ?thesis by (auto simp: rollback_fields)
qed

end
