(* ===== verification/CanaryProperties.thy ===== *)
theory CanaryProperties
  imports CanarySamples ReleaseProperties
begin

text \<open>
  What the canary runner guarantees: a canary it records as passed was authorised and saw three clean executions on a
  ledger that did not move; and two requests it accepts but can never record.
\<close>

subsection \<open>A recorded canary\<close>

lemma terminal_passed: "terminal_status n codes = Run_passed \<longleftrightarrow> n = 3 \<and> codes = []"
  by (auto simp: terminal_status_def)

lemma canary_replay_Inr: "canary_replay sha q w = Inr res \<Longrightarrow> yr_replayed res"
  by (auto simp: canary_replay_def Let_def split: option.splits if_splits)

lemma run_canary_fresh:
  assumes "run_canary v test kc q u = (Inr res, u')" and "\<not> yr_replayed res"
  obtains w y au where "canary_input_ok (env_sha v) q" "read_ledger (env_sha v) (canary_query q) (fst u) = Inr w"
    "canary_basis_of (env_sha v) q w = Inr y" "kc_authority kc (yq_authorization_id q) = Inr au"
    "authorized (env_sha v) q y (fst au) (snd (snd au))" "canary_record v test kc q y au u = (Inr res, u')"
proof -
  have input: "canary_input_ok (env_sha v) q" using assms(1) by (auto simp: run_canary_def Let_def split: if_splits)
  have new: "replay_ledger (fst u) (yq_key q) (canary_hash (env_sha v) q) = Inr None"
  proof (cases "replay_ledger (fst u) (yq_key q) (canary_hash (env_sha v) q)")
    case (Inl e)
    then show ?thesis using assms(1) input by (simp add: run_canary_def Let_def)
  next
    case (Inr z)
    have "z = None"
    proof (rule ccontr)
      assume "z \<noteq> None"
      with Inr have "bindE (from_storage (read_ledger (env_sha v) (canary_query q) (fst u))) (canary_replay (env_sha v) q) = Inr res"
        using assms(1) input by (auto simp: run_canary_def Let_def split: if_splits)
      then show False using assms(2) by (auto simp: bindE_Inr_iff dest: canary_replay_Inr)
    qed
    with Inr show ?thesis by simp
  qed
  obtain y where y: "bindE (from_storage (read_ledger (env_sha v) (canary_query q) (fst u))) (canary_basis_of (env_sha v) q) = Inr y"
    using assms(1) input new by (cases "bindE (from_storage (read_ledger (env_sha v) (canary_query q) (fst u))) (canary_basis_of (env_sha v) q)")
      (auto simp: run_canary_def Let_def)
  obtain au where au: "kc_authority kc (yq_authorization_id q) = Inr au"
    using assms(1) input new y by (cases "kc_authority kc (yq_authorization_id q)") (auto simp: run_canary_def Let_def)
  have "authorized (env_sha v) q y (fst au) (snd (snd au))" "canary_record v test kc q y au u = (Inr res, u')"
    using assms(1) input new y au by (auto simp: run_canary_def Let_def split: if_splits)
  with input au y show thesis by (auto simp: ledger_inv intro: that)
qed

lemma canary_record_Inr:
  assumes "canary_record v test kc q y au u = (Inr res, u')"
  obtains codes n u1 i t rc s2 r' where
    "canary_outcome (env_sha v) kc q y (fst au) i u = (Inr (codes, n), u1)"
    "yr_run res = new_run (env_sha v) q y (fst au) i n codes" "yr_authorization res = fst au"
    "kc_unchanged kc au = Inr ()"
    "write_ledger v test (canary_write (env_sha v) q (fst au) t (yr_run res) rc) s2 = (Inr r', fst u')"
proof -
  define i where "i = stable_identifier (env_sha v) ''canary'' (jobj [(''candidate_id'', jstr (ln_candidate_id (cbs_candidate y))),
    (''authorization_id'', jstr (au_authorization_id (fst au))), (''idempotency_key'', J_str (yq_key q))])"
  obtain o' u1 where o: "canary_outcome (env_sha v) kc q y (fst au) i u = (o', u1)" by (rule prod.exhaust)
  obtain cn where cn: "o' = Inr cn" using assms o by (cases o') (auto simp: canary_record_def Let_def i_def)
  obtain now u2 where c: "kc_clock kc u1 = (now, u2)" by (rule prod.exhaust)
  obtain r' where "yr_run res = new_run (env_sha v) q y (fst au) i (snd cn) (fst cn)" "yr_authorization res = fst au"
     "kc_unchanged kc au = Inr ()"
     "write_ledger v test (canary_write (env_sha v) q (fst au) (yr_transition res) (yr_run res) (yr_receipt res)) (fst u2) = (Inr r', fst u')"
    using assms o cn c by (auto simp: canary_record_def Let_def i_def split: if_splits sum.splits prod.splits)
  then show thesis using that [where codes = "fst cn" and n = "snd cn"] o cn by simp
qed

subsection \<open>A canary that passed\<close>

text \<open>The whole run, from the first probe to the last.\<close>

definition passed_cleanly ::
  "(jval \<Rightarrow> string) \<Rightarrow> ('g, 'c, 'w) canary_collaborators \<Rightarrow> canary_input \<Rightarrow> canary_basis \<Rightarrow> canary_authorization
     \<Rightarrow> ('g, 'w) world \<Rightarrow> bool" where
  "passed_cleanly sha kc q y a u \<longleftrightarrow>
     (\<exists>r cs u1 u2 u3 now u4 w. kc_probe kc u = (kq_initial_hash r, u1) \<and> kq_initial_hash r = cm_environment_hash (yq_manifest q)
        \<and> kq_candidate_id r = ln_candidate_id (cbs_candidate y) \<and> kq_stable_release_id r = cbs_active y
        \<and> kc_cases kc (sr_state (cbs_state y)) = Inr cs \<and> cases_fit (yq_manifest q) cs
        \<and> exposed_cleanly sha kc q y r (au_deadline_at a) cs u1 u2
        \<and> read_ledger sha (canary_query q) (fst u2) = Inr w \<and> closing_codes y w False False = []
        \<and> kc_probe kc u2 = (kq_initial_hash r, u3) \<and> kc_clock kc u3 = (now, u4) \<and> epoch_ms now \<le> epoch_ms (au_deadline_at a))"

lemma no_codes: "sort (js_set cs) = [] \<Longrightarrow> cs = []"
  by (metis set_empty set_sort set_js_set)

lemma canary_outcome_clean:
  assumes "canary_outcome sha kc q y a i u = (Inr ([], 3), u')"
  shows "passed_cleanly sha kc q y a u"
proof -
  obtain start u1 where p: "kc_probe kc u = (start, u1)" by (rule prod.exhaust)
  from assms p obtain cs where start: "start = cm_environment_hash (yq_manifest q)"
    and cs: "kc_cases kc (sr_state (cbs_state y)) = Inr cs" "cases_fit (yq_manifest q) cs"
    by (auto simp: canary_outcome_def Let_def split: if_splits sum.splits)
  define r where "r = \<lparr>kq_run_id = i, kq_candidate_id = ln_candidate_id (cbs_candidate y),
    kq_stable_release_id = cbs_active y, kq_initial_hash = start\<rparr>"
  obtain out u2 where x: "expose_cases sha kc q y r (au_deadline_at a) cs ([], 0) u1 = (out, u2)" by (rule prod.exhaust)
  obtain cn where cn: "out = Inr cn" using assms p cs start x
    by (cases out) (auto simp: canary_outcome_def Let_def r_def split: if_splits)
  obtain w where w: "read_ledger sha (canary_query q) (fst u2) = Inr w" using assms p cs start x cn
    by (cases "read_ledger sha (canary_query q) (fst u2)")
      (auto simp: canary_outcome_def Let_def r_def from_storage_def split: if_splits prod.splits)
  obtain final u3 where f: "kc_probe kc u2 = (final, u3)" by (rule prod.exhaust)
  obtain now u4 where n: "kc_clock kc u3 = (now, u4)" by (rule prod.exhaust)
  have out: "sort (js_set (fst cn @ closing_codes y w (final \<noteq> start) (epoch_ms now > epoch_ms (au_deadline_at a)))) = []"
    "snd cn = 3" using assms p cs start x cn w f n
    by (auto simp: canary_outcome_def Let_def r_def from_storage_def split: if_splits prod.splits)
  then have none: "fst cn = []" and close: "closing_codes y w (final \<noteq> start) (epoch_ms now > epoch_ms (au_deadline_at a)) = []"
    by (auto dest!: no_codes)
  from cs(2) have "length cs = 3" by (simp add: cases_fit_def)
  with x cn none out(2) have "exposed_cleanly sha kc q y r (au_deadline_at a) cs u1 u2"
    by (cases cn) (auto intro: expose_cases_clean)
  moreover have "final = start" "epoch_ms now \<le> epoch_ms (au_deadline_at a)" "closing_codes y w False False = []"
    using close by (auto simp: closing_codes_def split: if_splits)
  ultimately show ?thesis unfolding passed_cleanly_def using p start cs w f n
    by (intro exI [of _ r] exI [of _ cs] exI [of _ u1] exI [of _ u2] exI [of _ u3] exI [of _ now] exI [of _ u4] exI [of _ w])
      (simp add: r_def)
qed

text \<open>C6: a canary that the runner records as passed was authorised, and passed: the candidate was approved and evaluated,
  the authorization the registry holds is the one the request calls for and was in force, and, from the first probe of
  the environment to the last, three cases were executed in time and in order, each clean, on a ledger whose switch,
  controls, pointers and candidates did not move.\<close>

theorem passed_canary_was_clean:
  assumes "run_canary v test kc q u = (Inr res, u')" and "\<not> yr_replayed res" and "cu_status (yr_run res) = Run_passed"
  shows "\<exists>w y au. read_ledger (env_sha v) (canary_query q) (fst u) = Inr w \<and> canary_basis_of (env_sha v) q w = Inr y
     \<and> kc_authority kc (yq_authorization_id q) = Inr au \<and> authorized (env_sha v) q y (fst au) (snd (snd au))
     \<and> passed_cleanly (env_sha v) kc q y (fst au) u"
proof -
  from assms(1,2) obtain w y au where basis: "read_ledger (env_sha v) (canary_query q) (fst u) = Inr w"
    "canary_basis_of (env_sha v) q w = Inr y" "kc_authority kc (yq_authorization_id q) = Inr au"
    "authorized (env_sha v) q y (fst au) (snd (snd au))" and r: "canary_record v test kc q y au u = (Inr res, u')"
    by (rule run_canary_fresh)
  from r obtain codes n u1 i where o: "canary_outcome (env_sha v) kc q y (fst au) i u = (Inr (codes, n), u1)"
    and run: "yr_run res = new_run (env_sha v) q y (fst au) i n codes" by (rule canary_record_Inr)
  from run assms(3) have "terminal_status n codes = Run_passed" by (simp add: new_run_def Let_def)
  then have "n = 3" "codes = []" by (simp_all add: terminal_passed)
  with o have "passed_cleanly (env_sha v) kc q y (fst au) u" by (simp add: canary_outcome_clean)
  with basis show ?thesis by blast
qed

lemma passed_canary_was_clean_witness:
  "\<exists>w y au. read_ledger late_sha (canary_query passing_canary) approved_learning = Inr w
     \<and> canary_basis_of late_sha passing_canary w = Inr y
     \<and> passed_cleanly late_sha quiet_collaborators passing_canary y (fst au) (approved_learning, ())"
proof -
  obtain res u where "run_canary late_env False quiet_collaborators passing_canary (approved_learning, ()) = (Inr res, u)"
    "\<not> yr_replayed res" "cu_status (yr_run res) = Run_passed"
    using passing_canary_runs by blast
  from passed_canary_was_clean [OF this] show ?thesis by auto
qed

subsection \<open>Canaries that are never recorded\<close>

text \<open>C26: the runner sorts the scopes of a request with \<open>localeCompare\<close>, but its authorization schema wants them sorted
  by code unit: when the two orders differ, no authorization there is satisfies it, so every canary of these scopes
  that is not a replay fails.\<close>

theorem scopes_in_locale_order_are_never_authorized:
  assumes "\<not> canonical_scopes_ok (scope_order (yq_scopes q))"
    and "replay_ledger (fst u) (yq_key q) (canary_hash (env_sha v) q) = Inr None"
  shows "(\<forall>y a t. \<not> authorized (env_sha v) q y a t) \<and> (\<exists>e. run_canary v test kc q u = (Inl e, u))"
proof -
  have "\<not> authorized (env_sha v) q y a t" for y a t
    using assms(1) by (auto simp: authorized_def expected_authorization_def canary_authorization_ok_def Let_def split: option.splits)
  then show ?thesis using assms(2) by (auto simp: run_canary_def Let_def split: sum.splits)
qed

definition mixed_canary :: canary_input where
  "mixed_canary = \<lparr>yq_key = sample_key 49, yq_principal = ''u'',
     yq_scopes = [\<lparr>scope_kind_of = Sk_workspace, scope_id = ''a''\<rparr>, \<lparr>scope_kind_of = Sk_workspace, scope_id = ''B''\<rparr>],
     yq_candidate_id = ''c1'', yq_authorization_id = ''a1'',
     yq_manifest = \<lparr>cm_manifest_id = ''m1'', cm_candidate_id = ''c1'', cm_stable_release_id = None,
       cm_case_ids = [''k1'', ''k2'', ''k3''], cm_case_hashes = [sample_hash, sample_hash, sample_hash],
       cm_maximum_duration_ms = 1000, cm_promote_metric_ids = [''p1''], cm_abort_metric_ids = [''p2''],
       cm_environment_hash = sample_hash, cm_configuration_hash = sample_hash, cm_runtime_identity_hash = sample_hash,
       cm_control_epoch = 0, cm_manifest_hash = sample_hash\<rparr>,
     yq_started_at = sample_now\<rparr>"

lemma scopes_in_locale_order_are_never_authorized_witness:
  "\<forall>kc :: (unit, unit, unit) canary_collaborators. \<exists>e. run_canary sample_env False kc mixed_canary (empty_learning, ()) = (Inl e, (empty_learning, ()))"
proof -
  have k: "scope_key \<lparr>scope_kind_of = Sk_workspace, scope_id = i\<rparr> = ''workspace:'' @ i" for i
    by (simp add: scope_key_def)
  have "locale_key ''workspace:a'' \<le> locale_key ''workspace:B''"
    by code_simp
  then have o: "scope_order (yq_scopes mixed_canary) = yq_scopes mixed_canary"
    by (simp add: mixed_canary_def scope_order_def k)
  have "\<not> ''workspace:a'' \<le> ''workspace:B''" by code_simp
  then have "\<not> canonical_scopes_ok (scope_order (yq_scopes mixed_canary))"
    unfolding o by (simp add: mixed_canary_def canonical_scopes_ok_def k)
  moreover have "replay_ledger empty_learning (yq_key mixed_canary) h = Inr None" for h
    by (simp add: replay_ledger_def read_result_def empty_learning_def)
  ultimately show ?thesis
    using scopes_in_locale_order_are_never_authorized [of mixed_canary "(empty_learning, ())" sample_env False] 
    by (metis fst_conv)
qed

definition resumed_control :: learning_control where
  "resumed_control = pause_control\<lparr>lc_paused := False, lc_control_epoch := 2\<rparr>"

definition resumed_learning :: "unit learning_store" where
  "resumed_learning = empty_learning\<lparr>lg_controls := [resumed_control]\<rparr>"

text \<open>C25: a canary during which learning was paused and resumed is never recorded: the ledger files a run only when the
  control of its principal is active at the epoch of the manifest, or paused at the next; the code
  \<open>CONTROL_FRONTIER_DRIFT\<close> with which the runner freezes a run under another epoch is refused.\<close>

theorem canary_across_a_resume_is_not_recorded:
  assumes "find_control s (yq_principal q) = Some k" and "\<not> lc_paused k"
    and "lc_control_epoch k \<noteq> cm_control_epoch (yq_manifest q)" and "read_result s (yq_key q) = None"
  shows "\<exists>e. write_ledger v test (canary_write (env_sha v) q a t (new_run (env_sha v) q y a i n codes) rc) s = (Inl e, s)"
proof -
  let ?c = "canary_write (env_sha v) q a t (new_run (env_sha v) q y a i n codes) rc"
  obtain z s' where z: "write_ledger v test ?c s = (z, s')" by (rule prod.exhaust)
  show ?thesis
  proof (cases z)
    case (Inl e)
    with z have "s' = s" by (cases rule: write_ledger_cases) (auto simp: run_ledger_def split: option.splits sum.splits)
    with z Inl show ?thesis by blast
  next
    case (Inr r)
    with z have "run_ledger v ?c s = (Inr r, s')" by (auto dest: write_ledger_ran)
    then have "ledger_effect v ?c s = Inr (r, s')" using assms(4)
      by (cases rule: run_ledger_cases) (auto simp: canary_write_def hashed_command_def)
    then obtain s1 where "insert_canary ?c \<lparr>yw_principal = yq_principal q, yw_scopes = scope_order (yq_scopes q),
        yw_authorization = a, yw_transition = t, yw_run = new_run (env_sha v) q y a i n codes, yw_receipt = rc\<rparr> s = Inr s1"
      by (auto simp: ledger_effect_def apply_write_def canary_write_def hashed_command_def Let_def ledger_inv split: if_splits)
    then have False using assms(1-3)
      by (auto simp: insert_canary_def control_allows_run_def new_run_def Let_def ledger_inv split: receipt_body.splits)
    then show ?thesis ..
  qed
qed


lemma canary_across_a_resume_is_not_recorded_witness:
  "\<forall>a t y i n codes rc. \<exists>e. write_ledger sample_env False (canary_write (\<lambda>j. sample_hash) mixed_canary a t
       (new_run (\<lambda>j. sample_hash) mixed_canary y a i n codes) rc) resumed_learning = (Inl e, resumed_learning)"
proof -
  have "find_control resumed_learning (yq_principal mixed_canary) = Some resumed_control" "\<not> lc_paused resumed_control"
    "lc_control_epoch resumed_control \<noteq> cm_control_epoch (yq_manifest mixed_canary)"
    "read_result resumed_learning (yq_key mixed_canary) = None"
    by (simp_all add: find_control_def resumed_learning_def resumed_control_def pause_control_def mixed_canary_def
      read_result_def empty_learning_def)
  from canary_across_a_resume_is_not_recorded [OF this, of sample_env False] show ?thesis
    by (simp add: sample_env_def)
qed

end
