(* ===== verification/Spec2Isabelle.thy ===== *)
theory Spec2Isabelle
  imports Requests Admission MemoryFormation LayeredCompiler GovernanceFindings ControlFindings WriterQueue
    ProjectionPolicyProperties BackgroundSupervisor AutomaticRecall CanaryProperties
begin

text \<open>
  A model of memo-graph, a governed memory for agents: what the service remembers, who may make it
  remember, what it hands back to an agent, and how it changes its own retrieval by experiment.

  \<^bold>\<open>The program.\<close> Every value that crosses a boundary is parsed by a zod schema of
  \<open>packages/contracts\<close>. Evidence is proposed as memory candidates (by users or by
  \<open>packages/memory-formation\<close>, which asks a language model for proposals), the kernel decides
  their admission (\<open>packages/memory-kernel/src/governance.ts\<close>), the SQLite repositories of
  \<open>packages/storage-sqlite\<close> store the decisions behind one writer queue, the kernel projects memories
  (\<open>projection-policy.ts\<close>) and recalls them automatically (\<open>automatic-recall.ts\<close>), and
  \<open>packages/context-compiler\<close> turns the candidates that the recall lanes deliver into a bounded, sealed
  context slice with a receipt. \<open>packages/learning-lab\<close> proposes changes, evaluates them, runs canaries and
  releases or rolls back, over a ledger of its own in the same database; \<open>packages/runtime-host\<close> schedules
  the background lanes.

  \<^bold>\<open>Contracts and pure stages.\<close>
  \<^item> \<open>Prelude\<close>: results (\<open>bindE\<close>, \<open>guardE\<close>), runs on a state (\<open>bindR\<close>),
    JavaScript's \<open>Set\<close>, \<open>trim\<close>, UTF-16 lengths and \<open>localeCompare\<close>.
  \<^item> \<open>Contracts\<close>, \<open>MemoryModel\<close>: \<open>common.ts\<close> and \<open>memory.ts\<close>.
  \<^item> \<open>CanonicalJson\<close>: \<open>canonical-json.ts\<close> and the receipt seal of \<open>receipts.ts\<close>.
  \<^item> \<open>LanePolicy\<close>, \<open>Projections\<close>: \<open>projections.ts\<close>.
  \<^item> \<open>Requests\<close>: request envelopes, claims and approvals of \<open>mcp.ts\<close>.
  \<^item> \<open>Admission\<close>: \<open>governance.ts\<close> of the kernel.
  \<^item> \<open>MemoryFormation\<close>: the policy, the redaction and the service of \<open>memory-formation\<close>.
  \<^item> \<open>HardFilters\<close>, \<open>ConflictResolver\<close>, \<open>Doubles\<close>, \<open>Ranking\<close>, \<open>TokenPacker\<close>,
    \<open>ContextModel\<close>, \<open>LayeredCompiler\<close>: the stages of \<open>compileLayeredContext\<close>, the slice and the
    receipt it returns.
  \<^item> \<open>ProjectionPolicy\<close>, \<open>ProjectionPolicyProperties\<close>: \<open>buildDeterministicProjections\<close>.
  \<^item> \<open>AutomaticRecall\<close>: \<open>compileAutomaticRecall\<close> and the marker it leaves in the context.

  \<^bold>\<open>Interfaces.\<close> \<open>Interfaces\<close> holds the locales \<open>ledger_system\<close> (a step relation with an invariant that every
  step keeps) and its extension \<open>idempotent_command\<close> (commands that are replayed by their key);
  \<open>LearningProperties\<close> adds \<open>learning_port\<close> (what the laboratory relies on when it reads the ledger). Each is
  interpreted on the model's own definitions, \<open>idempotent_command\<close> on three repositories, in
  \<open>GovernanceCommands\<close>, \<open>ControlProperties\<close>, \<open>LearningInvariant\<close>, \<open>BackgroundSupervisor\<close> and
  \<open>LearningProperties\<close>, and the properties rest on the facts of the interpretations.

  \<^bold>\<open>Stores.\<close> A table is the list of its rows in insertion order; a transaction is a function from a store to an
  error or a new store, and a command that fails leaves the store it was given. Keys and foreign keys are
  checks that fail with \<open>Constraint_violation\<close>.
  \<^item> \<open>ProjectionEffects\<close>: \<open>projection-effects.ts\<close>, the invalidation of what depends on a memory.
  \<^item> \<open>GovernanceStore\<close>, \<open>GovernanceRepository\<close>: \<open>governance-repository.ts\<close>; \<open>GovernanceLaws\<close>,
    \<open>GovernanceCommands\<close>, \<open>GovernanceInvariant\<close>, \<open>GovernanceRefinement\<close>, \<open>GovernanceProperties\<close>: every step keeps the tables consistent, refines a
    set of registers, loses no update and replays its commands; \<open>GovernanceFindings\<close>: two commands the code
    refuses although the kernel decided them.
  \<^item> \<open>ControlRepository\<close>, \<open>ControlProperties\<close>, \<open>ControlFindings\<close>: \<open>control-repository.ts\<close>.
  \<^item> \<open>WriterQueue\<close>: \<open>writer-queue.ts\<close> and \<open>admission-control.ts\<close>; the promise chain is a step relation.
  \<^item> \<open>BackgroundSupervisor\<close>: \<open>background-supervisor.ts\<close>; timers, settled runs and clock ticks are steps.

  \<^bold>\<open>Learning.\<close>
  \<^item> \<open>LearningContracts\<close>: \<open>learning.ts\<close> and the learning receipts of \<open>receipts.ts\<close>.
  \<^item> \<open>LearningLedger\<close>: \<open>learning-repository.ts\<close>, its nine write commands, \<open>replay\<close> and \<open>read\<close>.
  \<^item> \<open>LearningLaws\<close>: what each command may change; \<open>LearningInvariant\<close>: the step relation
    \<open>learning_step\<close> (a ledger command, or any step of the memory repositories on the shared tables) and the
    invariant \<open>learning_ok\<close> that every step keeps.
  \<^item> \<open>LearningLifecycle\<close>: \<open>lifecycle.ts\<close> and \<open>learning-stop.ts\<close> of the laboratory.
  \<^item> \<open>LearningProperties\<close>: transitions form one chain, the pointer replays the releases, commands are
    idempotent, approvals are single use, readers see their own, plans are atomic.
  \<^item> \<open>ReleaseManager\<close>, \<open>ReleaseProperties\<close>: \<open>release-manager.ts\<close>, what a release needs, and that
    what the manager plans passes the repository.
  \<^item> \<open>CanaryRunner\<close>, \<open>CanaryProperties\<close>: \<open>canary-runner.ts\<close>; a case takes time, in which the ledger may
    change.
  \<^item> \<open>LearningSamples\<close>, \<open>ReleaseSamples\<close>, \<open>CanarySamples\<close>: concrete ledgers, built by running the commands,
    on which the hypotheses of the properties hold.

  \<^bold>\<open>Conventions.\<close> A zod object is a record and its \<open>superRefine\<close> a predicate \<open>\<dots>_ok\<close>; a throw is
  \<open>Inl\<close> of the component's error type. A string of user text is a list of code points (\<open>ustring\<close>),
  an identifier an Isabelle string. Timestamps keep their text and their instant. Numbers that the
  code computes in floating point are rationals rounded by \<open>fl\<close>. Regular expressions, Unicode
  tables, SHA-256, the decimal rendering of fractions, the callbacks of the formation service, the approval
  registries, executors, probes and clocks are parameters; where a result needs more of a hash than that it
  is a function, that is a named hypothesis. No definition uses fuel: every loop of the modelled code is over
  a finite list, or a step relation.

  \<^bold>\<open>What is not modelled.\<close> The storage worker, its files, migrations, backups, purges and keys; full-text,
  graph and vector lanes and their processes; recall orchestration and consolidation; the builders of traces,
  candidates and evaluations (their artifacts are modelled); the workbench, the servers, the user interface and
  the command line. They are input and output, calls to native services, or not part of the core.
\<close>

end
